(* ===== verification/Prelude.thy ===== *)
theory Prelude
  imports Main "HOL-Library.AList" "HOL-Library.Finite_Map"
begin

text \<open>
  Shared vocabulary of the development: the Python values the program passes around, the
  dictionary operations it uses, the message fragments of its f-strings, its error record,
  and the generic lemmas the components share.

  Strings are char lists.  A Python \<open>dict\<close> whose iteration order is observable is an
  association list written with \<open>dict_set\<close> (assignment keeps the position of an existing
  key and appends a new one); a dictionary that is only looked up, merged and dumped with
  sorted keys is a finite map.
\<close>

section \<open>Theorem collections\<close>

named_theorems result_simps "unfolding of the result shapes of the operations"
named_theorems inv_intros "invariant preservation of the operations"
named_theorems frame_simps "fields an operation leaves unchanged"

section \<open>Decimal rendering of numbers\<close>

text \<open>The text that \<open>str(n)\<close> and an f-string give for an integer.\<close>

definition digit_char :: "nat \<Rightarrow> char" where
  "digit_char d = char_of (48 + d)"

fun nat_str :: "nat \<Rightarrow> string" where
  "nat_str n = (if n < 10 then [digit_char n] else nat_str (n div 10) @ [digit_char (n mod 10)])"

declare nat_str.simps [simp del]

definition int_str :: "int \<Rightarrow> string" where
  "int_str i = (if i < 0 then ''-'' @ nat_str (nat (- i)) else nat_str (nat i))"

lemma nat_str_nonempty [simp]: "nat_str n \<noteq> []"
  by (subst nat_str.simps) simp

section \<open>Insertion-ordered dictionaries\<close>

definition dict_get :: "('k \<times> 'v) list \<Rightarrow> 'k \<Rightarrow> 'v option" where
  "dict_get d k = map_of d k"

definition dict_has :: "('k \<times> 'v) list \<Rightarrow> 'k \<Rightarrow> bool" where
  "dict_has d k \<longleftrightarrow> map_of d k \<noteq> None"

definition dict_set :: "'k \<Rightarrow> 'v \<Rightarrow> ('k \<times> 'v) list \<Rightarrow> ('k \<times> 'v) list" where
  "dict_set k v d = AList.update k v d"

lemma dict_get_set [simp]: "dict_get (dict_set k v d) k' = (if k' = k then Some v else dict_get d k')"
  by (simp add: dict_get_def dict_set_def update_conv')

lemma dict_has_get: "dict_has d k \<longleftrightarrow> dict_get d k \<noteq> None"
  by (simp add: dict_has_def dict_get_def)

lemma dict_has_keys: "dict_has d k \<longleftrightarrow> k \<in> fst ` set d"
  by (simp add: dict_has_def map_of_eq_None_iff)

lemma dict_get_Nil [simp]: "dict_get [] k = None"
  by (simp add: dict_get_def)

lemma dict_has_Nil [simp]: "\<not> dict_has [] k"
  by (simp add: dict_has_def)

lemma dict_has_set [simp]: "dict_has (dict_set k v d) k' \<longleftrightarrow> k' = k \<or> dict_has d k'"
  by (simp add: dict_has_get)

lemma dict_set_new: "\<not> dict_has d k \<Longrightarrow> dict_set k v d = d @ [(k, v)]"
  by (induction d) (auto simp: dict_set_def dict_has_def split: if_splits)

lemma dict_set_distinct: "distinct (map fst d) \<Longrightarrow> distinct (map fst (dict_set k v d))"
  by (simp add: dict_set_def distinct_update)

lemma dict_set_subset: "set (dict_set k v d) \<subseteq> insert (k, v) (set d)"
  by (induction d) (auto simp: dict_set_def)

lemma dict_get_in: "dict_get d k = Some v \<Longrightarrow> (k, v) \<in> set d"
  by (simp add: dict_get_def map_of_SomeD)

section \<open>Messages\<close>

text \<open>
  A diagnostic text is kept as the list of its f-string fragments: literal text, the
  \<open>repr\<close> of a string or of a value, the class name of a value, a number, and the text
  of a caught exception.
\<close>

datatype 'v frag = Txt string | ReprS string | Repr 'v | TypeName 'v | Num int | ExcText

section \<open>JSON values\<close>

text \<open>
  The values of job and journal metadata.  Objects are finite maps, because the program
  compares them with Python's dictionary equality and writes them with sorted keys.
\<close>

datatype json = JNull | JBool bool | JInt int | JFloat string | JStr string
  | JList "json list" | JObj "(string, json) fmap"

type_synonym meta = "(string, json) fmap"

text \<open>Python truthiness of a JSON value (\<open>if not raw\<close>, \<open>x or y\<close>).\<close>

fun json_truthy :: "json \<Rightarrow> bool" where
  "json_truthy JNull = False"
| "json_truthy (JBool b) = b"
| "json_truthy (JInt i) = (i \<noteq> 0)"
| "json_truthy (JFloat s) = (s \<notin> {''0.0'', ''-0.0''})"
| "json_truthy (JStr s) = (s \<noteq> [])"
| "json_truthy (JList xs) = (xs \<noteq> [])"
| "json_truthy (JObj m) = (m \<noteq> fmempty)"

section \<open>Steps\<close>

text \<open>A computation that threads a state and may raise: the error ends it, the state stays.\<close>

definition ret :: "'a \<Rightarrow> 's \<Rightarrow> ('e + 'a) \<times> 's" where
  "ret x s = (Inr x, s)"

definition raising :: "'e \<Rightarrow> 's \<Rightarrow> ('e + 'a) \<times> 's" where
  "raising e s = (Inl e, s)"

definition andthen :: "('s \<Rightarrow> ('e + 'a) \<times> 's) \<Rightarrow> ('a \<Rightarrow> 's \<Rightarrow> ('e + 'b) \<times> 's) \<Rightarrow> 's \<Rightarrow> ('e + 'b) \<times> 's" where
  "andthen m f s = (case m s of (Inl e, s') \<Rightarrow> (Inl e, s') | (Inr x, s') \<Rightarrow> f x s')"

lemma andthen_Inr: "andthen m f k = (Inr y, k') \<longleftrightarrow> (\<exists>x l. m k = (Inr x, l) \<and> f x l = (Inr y, k'))"
  by (auto simp: andthen_def split: prod.splits sum.splits)

lemma ret_Inr: "ret x s = (Inr y, s') \<longleftrightarrow> x = y \<and> s' = s"
  by (auto simp: ret_def)

lemma raising_Inr [simp]: "raising e s \<noteq> (Inr y, s')"
  by (simp add: raising_def)

section \<open>Lists\<close>

lemma filter_none_iff: "filter P xs = [] \<longleftrightarrow> (\<forall>x \<in> set xs. \<not> P x)"
  by (auto simp: filter_empty_conv)

lemma concat_map_Nil_iff: "concat (map f xs) = [] \<longleftrightarrow> (\<forall>x \<in> set xs. f x = [])"
  by auto

lemma ball_enumerate: "(\<forall>p \<in> set (enumerate n xs). P (snd p)) \<longleftrightarrow> (\<forall>x \<in> set xs. P x)"
proof -
  have "snd ` set (enumerate n xs) = set xs"
    by (metis list.set_map map_snd_enumerate)
  then show ?thesis by (metis (no_types, lifting) image_iff)
qed

lemma map_filter_all_some:
  "\<forall>x \<in> set xs. f x \<noteq> None \<Longrightarrow> List.map_filter f xs = map (the \<circ> f) xs"
  by (induction xs) (auto simp: map_filter_simps)

lemma map_filter_filter_eq:
  assumes "\<forall>x \<in> set xs. P x = Q x \<and> f x = g x"
  shows "List.map_filter f (filter P xs) = List.map_filter g (filter Q xs)"
  using assms by (induction xs) (auto simp: map_filter_simps split: option.split)

lemma length_filter_le_one:
  assumes "length (filter P xs) \<le> 1" "x \<in> set xs" "y \<in> set xs" "P x" "P y"
  shows "x = y"
proof -
  from assms have "x \<in> set (filter P xs)" "y \<in> set (filter P xs)" by auto
  with assms(1) show ?thesis
    by (cases "filter P xs") (auto simp: length_Suc_conv)
qed

end
