(* ===== verification/WfAst.thy ===== *)
theory WfAst
  imports Prelude
begin

text \<open>
  The workflow DSL: its language tables (\<open>workflow_engine/langdef.py\<close>), its diagnostics
  (\<open>workflow_engine/diagnostics.py\<close>), the YAML value that \<open>ruamel.yaml\<close> hands to
  the loader, and the abstract syntax (\<open>workflow_engine/ast.py\<close>).
\<close>

section \<open>YAML values\<close>

text \<open>
  The loader reads a parsed tree with source positions.  \<open>ruamel.yaml\<close> gives every
  mapping and sequence a position, every mapping key and every sequence item one of its own
  (zero-based line and column).  Keys are scalars; a key that is neither a string, a number, a
  bool nor null carries its \<open>str()\<close> text.  A float carries its text as well.  \<open>YOther\<close>
  is any other scalar class (a time stamp), by its text.
\<close>

type_synonym lc = "int \<times> int"

datatype ykey = KStr string | KInt int | KBool bool | KNull | KFloat string | KOther string

datatype yval = YNull | YBool bool | YInt int | YFloat string | YStr string | YOther string
  | YSeq lc "(lc \<times> yval) list"
  | YMap lc "(ykey \<times> lc \<times> yval) list"

text \<open>Plain Python data without positions: what the storage section is turned into.\<close>

datatype pval = PNull | PBool bool | PInt int | PFloat string | PStr string | POther string
  | PList "pval list" | PDict "(string \<times> pval) list"

text \<open>The text a key contributes to a YAML path in an f-string.\<close>

fun key_str :: "ykey \<Rightarrow> string" where
  "key_str (KStr s) = s"
| "key_str (KInt i) = int_str i"
| "key_str (KBool b) = (if b then ''True'' else ''False'')"
| "key_str KNull = ''None''"
| "key_str (KFloat s) = s"
| "key_str (KOther s) = s"

fun key_val :: "ykey \<Rightarrow> yval" where
  "key_val (KStr s) = YStr s"
| "key_val (KInt i) = YInt i"
| "key_val (KBool b) = YBool b"
| "key_val KNull = YNull"
| "key_val (KFloat s) = YFloat s"
| "key_val (KOther s) = YOther s"

fun map_entries :: "yval \<Rightarrow> (ykey \<times> lc \<times> yval) list" where
  "map_entries (YMap _ kvs) = kvs"
| "map_entries _ = []"

text \<open>\<open>raw.get(key)\<close> and \<open>key in raw\<close> for the string keys the loader asks for.\<close>

definition yget :: "yval \<Rightarrow> string \<Rightarrow> yval option" where
  "yget raw k = map_option snd (map_of (map_entries raw) (KStr k))"

definition yhas :: "yval \<Rightarrow> string \<Rightarrow> bool" where
  "yhas raw k \<longleftrightarrow> yget raw k \<noteq> None"

definition ykeys :: "yval \<Rightarrow> ykey list" where
  "ykeys raw = map fst (map_entries raw)"

text \<open>\<open>key not in ALLOWED\<close>, for a table of string keys.\<close>

definition key_in :: "string list \<Rightarrow> ykey \<Rightarrow> bool" where
  "key_in ks k \<longleftrightarrow> (case k of KStr s \<Rightarrow> s \<in> set ks | _ \<Rightarrow> False)"

definition is_str_key :: "ykey \<Rightarrow> bool" where
  "is_str_key k = (case k of KStr _ \<Rightarrow> True | _ \<Rightarrow> False)"

definition is_mapping :: "yval \<Rightarrow> bool" where
  "is_mapping v = (case v of YMap _ _ \<Rightarrow> True | _ \<Rightarrow> False)"

definition is_str :: "yval \<Rightarrow> bool" where
  "is_str v = (case v of YStr _ \<Rightarrow> True | _ \<Rightarrow> False)"

definition is_list :: "yval \<Rightarrow> bool" where
  "is_list v = (case v of YSeq _ _ \<Rightarrow> True | _ \<Rightarrow> False)"

definition str_of :: "yval \<Rightarrow> string" where
  "str_of v = (case v of YStr s \<Rightarrow> s | _ \<Rightarrow> [])"

definition seq_items :: "yval \<Rightarrow> (lc \<times> yval) list" where
  "seq_items v = (case v of YSeq _ xs \<Rightarrow> xs | _ \<Rightarrow> [])"

section \<open>Language tables\<close>

text \<open>The statement kinds as an enumeration, and the string each is written as.\<close>

datatype skind = KState | KTaskType | KArtifactType | KValidationType | KWorker
  | KOperationType | KTransition

fun kind_name :: "skind \<Rightarrow> string" where
  "kind_name KState = ''state''"
| "kind_name KTaskType = ''task_type''"
| "kind_name KArtifactType = ''artifact_type''"
| "kind_name KValidationType = ''validation_type''"
| "kind_name KWorker = ''worker''"
| "kind_name KOperationType = ''operation_type''"
| "kind_name KTransition = ''transition''"

definition SUPPORTED_KINDS :: "string list" where
  "SUPPORTED_KINDS = [''state'', ''task_type'', ''artifact_type'', ''validation_type'',
     ''worker'', ''operation_type'', ''transition'']"

definition STATEMENT_KEYS :: "(string \<times> string list) list" where
  "STATEMENT_KEYS = [
     (''state'', [''kind'', ''id'', ''terminal_outcome'']),
     (''task_type'', [''kind'', ''id'', ''requirements'', ''instructions'']),
     (''artifact_type'', [''kind'', ''id'', ''template'']),
     (''validation_type'', [''kind'', ''id'', ''args'']),
     (''worker'', [''kind'', ''id'', ''type'', ''instructions'']),
     (''operation_type'', [''kind'', ''id'', ''args'']),
     (''transition'', [''kind'', ''id'', ''task_type'', ''from'', ''to'', ''worker'',
        ''default_for_scheduler'', ''requires'', ''transaction'', ''instructions'',
        ''derives'', ''review''])]"

text \<open>\<open>langdef.STATEMENT_KEYS[kind]\<close>; the loader has checked \<open>kind\<close> before.\<close>

definition statement_keys :: "string \<Rightarrow> string list" where
  "statement_keys kind = (case map_of STATEMENT_KEYS kind of Some ks \<Rightarrow> ks | None \<Rightarrow> [])"

definition SUPPORTED_TERMINAL_OUTCOMES :: "string list" where
  "SUPPORTED_TERMINAL_OUTCOMES = [''success'', ''failure'', ''cancelled'']"

text \<open>
  The required keys of a transition without \<open>kind\<close> and \<open>id\<close>.  The code iterates a set
  difference, whose order Python leaves open; the model fixes one order.
\<close>

definition TRANSITION_REQUIRED_KEYS :: "string list" where
  "TRANSITION_REQUIRED_KEYS = [''task_type'', ''from'', ''to'']"

definition SUPPORTED_ARG_TYPES :: "string list" where
  "SUPPORTED_ARG_TYPES = [''string'', ''integer'', ''boolean'', ''state_ref'',
     ''task_type_ref'', ''artifact_ref'', ''validation_ref'', ''worker_ref'',
     ''operation_ref'']"

definition REFERENCE_ARG_TYPES :: "(string \<times> skind) list" where
  "REFERENCE_ARG_TYPES = [(''state_ref'', KState), (''task_type_ref'', KTaskType),
     (''artifact_ref'', KArtifactType), (''validation_ref'', KValidationType),
     (''worker_ref'', KWorker), (''operation_ref'', KOperationType)]"

definition ARG_SPEC_KEYS :: "string list" where
  "ARG_SPEC_KEYS = [''type'', ''required'', ''many'']"

definition REQUIREMENT_SET_KEYS :: "string list" where
  "REQUIREMENT_SET_KEYS = [''artifacts'', ''validations'', ''changed_files'']"

definition VALIDATION_CALL_KEYS :: "string list" where
  "VALIDATION_CALL_KEYS = [''type'', ''args'']"

definition OPERATION_CALL_KEYS :: "string list" where
  "OPERATION_CALL_KEYS = [''op'', ''args'']"

definition TRANSACTION_PLAN_KEYS :: "string list" where
  "TRANSACTION_PLAN_KEYS = [''steps'']"

definition DERIVES_KEYS :: "string list" where
  "DERIVES_KEYS = [''task_type'', ''state'', ''artifact_type'', ''required'',
     ''parent_to_if_derived'']"

definition DERIVES_REQUIRED_KEYS :: "string list" where
  "DERIVES_REQUIRED_KEYS = [''task_type'', ''state'', ''artifact_type'']"

definition SUPPORTED_SCHEMA_VERSIONS :: "int list" where
  "SUPPORTED_SCHEMA_VERSIONS = [1]"

section \<open>Diagnostics\<close>

record span =
  sp_path :: string
  sp_line :: "int option"
  sp_column :: "int option"

text \<open>The diagnostic codes, and the string each stands for.\<close>

datatype dcode = ParseError | RootNotMapping | MissingRequiredField | WrongType | UnknownKey
  | UnknownTerminalOutcome | UnsupportedVersion | UnknownKind | DuplicateId
  | UnknownState | UnknownTaskType | UnknownArtifact | UnknownValidation | UnknownWorker
  | UnknownOperation | MissingRequiredArgument | UnknownArgument | WrongArgumentType
  | UnknownArgumentType

fun code_string :: "dcode \<Rightarrow> string" where
  "code_string ParseError = ''workflow.yaml.parse_error''"
| "code_string RootNotMapping = ''workflow.shape.root_not_mapping''"
| "code_string MissingRequiredField = ''workflow.shape.missing_required_field''"
| "code_string WrongType = ''workflow.shape.wrong_type''"
| "code_string UnknownKey = ''workflow.shape.unknown_key''"
| "code_string UnknownTerminalOutcome = ''workflow.shape.unknown_terminal_outcome''"
| "code_string UnsupportedVersion = ''workflow.schema.unsupported_version''"
| "code_string UnknownKind = ''workflow.statement.unknown_kind''"
| "code_string DuplicateId = ''workflow.symbol.duplicate_id''"
| "code_string UnknownState = ''workflow.reference.unknown_state''"
| "code_string UnknownTaskType = ''workflow.reference.unknown_task_type''"
| "code_string UnknownArtifact = ''workflow.reference.unknown_artifact''"
| "code_string UnknownValidation = ''workflow.reference.unknown_validation''"
| "code_string UnknownWorker = ''workflow.reference.unknown_worker''"
| "code_string UnknownOperation = ''workflow.reference.unknown_operation''"
| "code_string MissingRequiredArgument = ''workflow.call.missing_required_argument''"
| "code_string UnknownArgument = ''workflow.call.unknown_argument''"
| "code_string WrongArgumentType = ''workflow.call.wrong_argument_type''"
| "code_string UnknownArgumentType = ''workflow.call.unknown_argument_type''"

datatype severity = SevError | SevWarning

record diag =
  d_code :: dcode
  d_message :: "yval frag list"
  d_severity :: severity
  d_path :: "string option"
  d_line :: "int option"
  d_column :: "int option"

definition diag_from_span :: "dcode \<Rightarrow> yval frag list \<Rightarrow> span option \<Rightarrow> diag" where
  "diag_from_span code msg sp = \<lparr>d_code = code, d_message = msg, d_severity = SevError,
     d_path = map_option sp_path sp,
     d_line = (case sp of None \<Rightarrow> None | Some s \<Rightarrow> sp_line s),
     d_column = (case sp of None \<Rightarrow> None | Some s \<Rightarrow> sp_column s)\<rparr>"

lemma diag_from_span_code [simp]: "d_code (diag_from_span c m s) = c"
  by (simp add: diag_from_span_def)

lemma diag_from_span_severity [simp]: "d_severity (diag_from_span c m s) = SevError"
  by (simp add: diag_from_span_def)

text \<open>Diagnostics that all have severity error.\<close>

definition all_errors :: "diag list \<Rightarrow> bool" where
  "all_errors ds \<longleftrightarrow> (\<forall>d \<in> set ds. d_severity d = SevError)"

lemma all_errors_simps [simp]:
  "all_errors []"
  "all_errors (diag_from_span c m s # ds) \<longleftrightarrow> all_errors ds"
  "all_errors (ds @ es) \<longleftrightarrow> all_errors ds \<and> all_errors es"
  "all_errors (concat dss) \<longleftrightarrow> (\<forall>ds \<in> set dss. all_errors ds)"
  by (auto simp: all_errors_def)

lemma all_errors_map [simp]: "(\<And>x. d_severity (f x) = SevError) \<Longrightarrow> all_errors (map f xs)"
  by (auto simp: all_errors_def)

lemma all_errors_concat_map [simp]: "(\<And>x. all_errors (f x)) \<Longrightarrow> all_errors (concat (map f xs))"
  by auto

lemma all_errors_option [simp]:
  "all_errors a \<Longrightarrow> (\<And>y. all_errors (f y)) \<Longrightarrow> all_errors (case x of None \<Rightarrow> a | Some y \<Rightarrow> f y)"
  by (cases x) simp_all

section \<open>Abstract syntax\<close>

record arg_spec =
  as_type :: string
  as_required :: bool
  as_many :: bool
  as_span :: "span option"

record validation_call =
  vc_type :: string
  vc_args :: "(ykey \<times> yval) list"
  vc_span :: "span option"
  vc_arg_spans :: "(ykey \<times> span) list"

record requirement_set =
  rs_artifacts :: "string list"
  rs_validations :: "validation_call list"
  rs_changed_files_required :: bool
  rs_span :: "span option"
  rs_artifact_spans :: "span option list"

record operation_call =
  oc_op :: string
  oc_args :: "(ykey \<times> yval) list"
  oc_span :: "span option"
  oc_arg_spans :: "(ykey \<times> span) list"

record transaction_plan =
  tp_steps :: "operation_call list"
  tp_span :: "span option"

record derives_spec =
  ds_task_type :: string
  ds_state :: string
  ds_artifact_type :: string
  ds_required :: bool
  ds_parent_to_if_derived :: "string option"
  ds_span :: "span option"

record workflow_storage =
  ws_config :: pval
  ws_span :: "span option"

record transition_body =
  tb_task_type :: string
  tb_from_state :: string
  tb_to_state :: string
  tb_worker :: "string option"
  tb_instructions :: "string list"
  tb_default_for_scheduler :: bool
  tb_review :: "bool option"
  tb_requires :: requirement_set
  tb_transaction :: "transaction_plan option"
  tb_derives :: "derives_spec option"
  tb_field_spans :: "(string \<times> span) list"

text \<open>
  \<open>Statement\<close> with its subclasses: the base fields are a record, the fields a subclass adds
  are one constructor each.
\<close>

datatype stmt_body =
    StateStatement "string option"
  | TaskTypeStatement "(string \<times> requirement_set) list" "string list"
  | ArtifactTypeStatement "string option"
  | ValidationTypeStatement "(ykey \<times> arg_spec) list"
  | WorkerStatement "string option" "string list"
  | OperationTypeStatement "(ykey \<times> arg_spec) list"
  | TransitionStatement transition_body

record statement =
  st_id :: string
  st_span :: "span option"
  st_body :: stmt_body

record workflow_document =
  wd_schema_version :: int
  wd_statements :: "statement list"
  wd_storage :: "workflow_storage option"
  wd_span :: "span option"

definition empty_requirement_set :: requirement_set where
  "empty_requirement_set = \<lparr>rs_artifacts = [], rs_validations = [],
     rs_changed_files_required = False, rs_span = None, rs_artifact_spans = []\<rparr>"

text \<open>The kind a statement's class stands for.\<close>

fun body_kind :: "stmt_body \<Rightarrow> skind" where
  "body_kind (StateStatement _) = KState"
| "body_kind (TaskTypeStatement _ _) = KTaskType"
| "body_kind (ArtifactTypeStatement _) = KArtifactType"
| "body_kind (ValidationTypeStatement _) = KValidationType"
| "body_kind (WorkerStatement _ _) = KWorker"
| "body_kind (OperationTypeStatement _) = KOperationType"
| "body_kind (TransitionStatement _) = KTransition"

section \<open>Facts about the tables and the YAML accessors\<close>

lemma statement_keys_total: "kind \<in> set SUPPORTED_KINDS \<Longrightarrow> map_of STATEMENT_KEYS kind \<noteq> None"
  by (auto simp: SUPPORTED_KINDS_def STATEMENT_KEYS_def)

lemma reference_arg_types_supported:
  "map_of REFERENCE_ARG_TYPES t = Some k \<Longrightarrow> t \<in> set SUPPORTED_ARG_TYPES"
  by (auto simp: REFERENCE_ARG_TYPES_def SUPPORTED_ARG_TYPES_def split: if_splits)

lemma kind_name_supported: "kind_name k \<in> set SUPPORTED_KINDS"
  by (cases k) (auto simp: SUPPORTED_KINDS_def)

lemma kind_name_inj: "kind_name k = kind_name l \<longleftrightarrow> k = l"
  by (cases k; cases l) simp_all

lemma yget_nonmap [simp]: "\<not> is_mapping raw \<Longrightarrow> yget raw k = None"
  by (cases raw) (auto simp: yget_def is_mapping_def)

lemma yhasD: "yhas raw k \<Longrightarrow> \<exists>v. yget raw k = Some v"
  by (auto simp: yhas_def)

end
