(* ===== verification/WfLoader.thy ===== *)
theory WfLoader
  imports WfAst
begin

text \<open>
  The loader of the workflow DSL (\<open>workflow_engine/loader.py\<close>): source spans and the
  builders that turn a parsed YAML value into the abstract syntax or into diagnostics.  A
  builder returns its diagnostics and, unless it gave up, its node.  The YAML parser itself is
  \<open>ruamel.yaml\<close>: its result is the input.  The argument \<open>source_name\<close>, which the inner
  builders take and never use, is left out.
\<close>

section \<open>Source spans\<close>

definition lc_to_span :: "lc option \<Rightarrow> string \<Rightarrow> span option" where
  "lc_to_span pos path = (case pos of
     None \<Rightarrow> None
   | Some (line, col) \<Rightarrow>
       Some \<lparr>sp_path = path, sp_line = Some (line + 1), sp_column = Some (col + 1)\<rparr>)"

definition node_lc :: "yval \<Rightarrow> lc option" where
  "node_lc node = (case node of YMap pos _ \<Rightarrow> Some pos | YSeq pos _ \<Rightarrow> Some pos | _ \<Rightarrow> None)"

text \<open>
  \<open>mapping.lc.key(key)\<close>: a mapping without keys has no position table and answers None; a
  missing key of another mapping raises KeyError, and the code falls back to the node.
\<close>

definition key_lc :: "yval \<Rightarrow> ykey \<Rightarrow> lc option" where
  "key_lc mapping k = (case mapping of
     YMap pos kvs \<Rightarrow>
       (if kvs = [] then None
        else case map_of kvs k of Some (kpos, _) \<Rightarrow> Some kpos | None \<Rightarrow> Some pos)
   | _ \<Rightarrow> node_lc mapping)"

definition list_item_lc :: "yval \<Rightarrow> nat \<Rightarrow> lc option" where
  "list_item_lc seq i = (case seq of
     YSeq pos xs \<Rightarrow> (if xs = [] then None else if i < length xs then Some (fst (xs ! i)) else Some pos)
   | _ \<Rightarrow> node_lc seq)"

definition node_span :: "yval \<Rightarrow> string \<Rightarrow> span option" where
  "node_span node path = lc_to_span (node_lc node) path"

definition key_span :: "yval \<Rightarrow> ykey \<Rightarrow> string \<Rightarrow> span option" where
  "key_span mapping k path = lc_to_span (key_lc mapping k) path"

definition list_item_span :: "yval \<Rightarrow> nat \<Rightarrow> string \<Rightarrow> span option" where
  "list_item_span seq i path = lc_to_span (list_item_lc seq i) path"

text \<open>Shared shapes: \<open>for key in raw: if key not in ALLOWED\<close>, and \<open>path[i]\<close>.\<close>

definition unknown_keys :: "yval \<Rightarrow> string list \<Rightarrow> string \<Rightarrow> (ykey \<Rightarrow> yval frag list) \<Rightarrow> diag list" where
  "unknown_keys raw allowed path msg =
     map (\<lambda>k. diag_from_span UnknownKey (msg k) (key_span raw k (path @ ''.'' @ key_str k)))
       (filter (\<lambda>k. \<not> key_in allowed k) (ykeys raw))"

definition idx_path :: "string \<Rightarrow> nat \<Rightarrow> string" where
  "idx_path path i = path @ ''['' @ nat_str i @ '']''"

definition skey_span :: "yval \<Rightarrow> string \<Rightarrow> string \<Rightarrow> span option" where
  "skey_span raw k path = key_span raw (KStr k) (path @ ''.'' @ k)"

definition yget_default :: "yval \<Rightarrow> string \<Rightarrow> yval \<Rightarrow> yval" where
  "yget_default raw k dflt = (case yget raw k of Some v \<Rightarrow> v | None \<Rightarrow> dflt)"

text \<open>\<open>raw.get(key)\<close> where absent and null are treated alike.\<close>

definition yget_opt :: "yval \<Rightarrow> string \<Rightarrow> yval option" where
  "yget_opt raw k = (case yget raw k of Some YNull \<Rightarrow> None | r \<Rightarrow> r)"

section \<open>Instructions and storage\<close>

definition build_instruction_refs :: "yval \<Rightarrow> string \<Rightarrow> diag list \<times> string list" where
  "build_instruction_refs raw path = (case yget raw ''instructions'' of
     None \<Rightarrow> ([], [])
   | Some (YStr s) \<Rightarrow> ([], [s])
   | Some (YSeq pos items) \<Rightarrow>
       (map (\<lambda>(i, _, item). diag_from_span WrongType
              [Txt ''instruction reference must be a string, got '', TypeName item]
              (list_item_span (YSeq pos items) i (idx_path path i)))
          (filter (\<lambda>(i, _, item). \<not> is_str item) (enumerate 0 items)),
        map (\<lambda>(_, item). str_of item) (filter (\<lambda>(_, item). is_str item) items))
   | Some _ \<Rightarrow>
       ([diag_from_span WrongType [Txt ''instructions must be a string or list of strings'']
          (key_span raw (KStr ''instructions'') path)], []))"

fun coerce_storage_config :: "yval \<Rightarrow> pval" where
  "coerce_storage_config YNull = PNull"
| "coerce_storage_config (YBool b) = PBool b"
| "coerce_storage_config (YInt i) = PInt i"
| "coerce_storage_config (YFloat s) = PFloat s"
| "coerce_storage_config (YStr s) = PStr s"
| "coerce_storage_config (YOther s) = POther s"
| "coerce_storage_config (YSeq _ xs) = PList (map (\<lambda>(_, v). coerce_storage_config v) xs)"
| "coerce_storage_config (YMap _ kvs) =
     PDict (fold (\<lambda>(k, v) d. dict_set k v d)
       (map (\<lambda>(k, _, v). (key_str k, coerce_storage_config v)) kvs) [])"

definition build_storage :: "yval \<Rightarrow> diag list \<times> workflow_storage option" where
  "build_storage raw = (case raw of
     YNull \<Rightarrow> ([], None)
   | YMap _ _ \<Rightarrow> ([], Some \<lparr>ws_config = coerce_storage_config raw,
                             ws_span = node_span raw ''storage''\<rparr>)
   | _ \<Rightarrow> ([diag_from_span WrongType [Txt ''storage must be a mapping'']
            (node_span raw ''storage'')], None))"

section \<open>Argument specifications\<close>

definition build_arg_spec :: "yval \<Rightarrow> ykey \<Rightarrow> string \<Rightarrow> diag list \<times> arg_spec option" where
  "build_arg_spec raw arg_name arg_path =
     (let name = Repr (key_val arg_name);
          ds = unknown_keys raw ARG_SPEC_KEYS arg_path
                 (\<lambda>k. [Txt ''unknown key '', Repr (key_val k), Txt '' in arg spec for '', name])
      in if \<not> is_mapping raw then
           ([diag_from_span WrongType [Txt ''arg spec for '', name, Txt '' must be a mapping'']
              (node_span raw arg_path)], None)
         else case yget raw ''type'' of
           None \<Rightarrow> (ds @ [diag_from_span MissingRequiredField
                      [Txt ''arg spec for '', name, Txt '' missing required field: type'']
                      (node_span raw arg_path)], None)
         | Some (YStr arg_type) \<Rightarrow>
             if arg_type \<notin> set SUPPORTED_ARG_TYPES then
               (ds @ [diag_from_span UnknownArgumentType
                  [Txt ''unknown arg spec type: '', ReprS arg_type]
                  (skey_span raw ''type'' arg_path)], None)
             else (case yget_default raw ''required'' (YBool False) of
               YBool required \<Rightarrow>
                 (case yget_default raw ''many'' (YBool False) of
                   YBool many \<Rightarrow> (ds, Some \<lparr>as_type = arg_type, as_required = required,
                                   as_many = many, as_span = node_span raw arg_path\<rparr>)
                 | _ \<Rightarrow> (ds @ [diag_from_span WrongType [Txt ''arg spec many must be a boolean'']
                            (skey_span raw ''many'' arg_path)], None))
             | _ \<Rightarrow> (ds @ [diag_from_span WrongType [Txt ''arg spec required must be a boolean'']
                        (skey_span raw ''required'' arg_path)], None))
         | Some _ \<Rightarrow> (ds @ [diag_from_span WrongType [Txt ''arg spec type must be a string'']
                        (skey_span raw ''type'' arg_path)], None))"

text \<open>The \<open>args\<close> mapping of a validation or an operation type.\<close>

definition build_arg_specs :: "yval \<Rightarrow> string \<Rightarrow> diag list \<times> (ykey \<times> arg_spec) list" where
  "build_arg_specs args_raw item_path =
     (let rs = map (\<lambda>(k, _, v). (k, build_arg_spec v k (item_path @ ''.args.'' @ key_str k)))
                 (map_entries args_raw)
      in (concat (map (fst \<circ> snd) rs),
          fold (\<lambda>(k, r) d. case snd r of Some a \<Rightarrow> dict_set k a d | None \<Rightarrow> d) rs []))"

section \<open>Calls\<close>

text \<open>
  The \<open>args\<close> block of a call: the early return when it is not a mapping, otherwise the
  arguments and the span of each.
\<close>

definition build_call_args ::
  "string \<Rightarrow> yval \<Rightarrow> string \<Rightarrow> diag + ((ykey \<times> yval) list \<times> (ykey \<times> span) list)" where
  "build_call_args what raw path = (case yget_opt raw ''args'' of
     None \<Rightarrow> Inr ([], [])
   | Some (YMap pos kvs) \<Rightarrow>
       Inr (map (\<lambda>(k, _, v). (k, v)) kvs,
            fold (\<lambda>k d. case key_span (YMap pos kvs) k (path @ ''.args.'' @ key_str k) of
                          Some sp \<Rightarrow> dict_set k sp d | None \<Rightarrow> d)
              (map fst kvs) [])
   | Some _ \<Rightarrow> Inl (diag_from_span WrongType [Txt (what @ '' args must be a mapping'')]
                      (skey_span raw ''args'' path)))"

definition build_validation_call ::
  "yval \<Rightarrow> string \<Rightarrow> span option \<Rightarrow> diag list \<times> validation_call option" where
  "build_validation_call raw val_path item_span =
     (let ds = unknown_keys raw VALIDATION_CALL_KEYS val_path
                 (\<lambda>k. [Txt ''unknown key '', Repr (key_val k), Txt '' in validation call''])
      in if \<not> is_mapping raw then
           ([diag_from_span WrongType
               [Txt ''validation call must be a mapping, got '', TypeName raw]
               (case node_span raw val_path of Some sp \<Rightarrow> Some sp | None \<Rightarrow> item_span)], None)
         else case yget raw ''type'' of
           None \<Rightarrow> (ds @ [diag_from_span MissingRequiredField
                      [Txt ''validation call missing required field: type'']
                      (node_span raw val_path)], None)
         | Some (YStr val_type) \<Rightarrow>
             (case build_call_args ''validation call'' raw val_path of
               Inl d \<Rightarrow> (ds @ [d], None)
             | Inr (args, spans) \<Rightarrow> (ds, Some \<lparr>vc_type = val_type, vc_args = args,
                 vc_span = node_span raw val_path, vc_arg_spans = spans\<rparr>))
         | Some _ \<Rightarrow> (ds @ [diag_from_span WrongType
                        [Txt ''validation call type must be a string'']
                        (skey_span raw ''type'' val_path)], None))"

definition build_operation_call ::
  "yval \<Rightarrow> string \<Rightarrow> span option \<Rightarrow> diag list \<times> operation_call option" where
  "build_operation_call raw step_path item_span =
     (let ds = unknown_keys raw OPERATION_CALL_KEYS step_path
                 (\<lambda>k. [Txt ''unknown key '', Repr (key_val k), Txt '' in operation call''])
      in if \<not> is_mapping raw then
           ([diag_from_span WrongType
               [Txt ''operation call must be a mapping, got '', TypeName raw]
               (case node_span raw step_path of Some sp \<Rightarrow> Some sp | None \<Rightarrow> item_span)], None)
         else case yget raw ''op'' of
           None \<Rightarrow> (ds @ [diag_from_span MissingRequiredField
                      [Txt ''operation call missing required field: op'']
                      (node_span raw step_path)], None)
         | Some (YStr op) \<Rightarrow>
             (case build_call_args ''operation call'' raw step_path of
               Inl d \<Rightarrow> (ds @ [d], None)
             | Inr (args, spans) \<Rightarrow> (ds, Some \<lparr>oc_op = op, oc_args = args,
                 oc_span = node_span raw step_path, oc_arg_spans = spans\<rparr>))
         | Some _ \<Rightarrow> (ds @ [diag_from_span WrongType
                        [Txt ''operation call op must be a string'']
                        (skey_span raw ''op'' step_path)], None))"

text \<open>
  The loop over a list of nodes: item \<open>i\<close> is built at \<open>path[i]\<close>, the diagnostics are
  collected and the nodes that were built are kept.
\<close>

definition build_items ::
  "(nat \<Rightarrow> yval \<Rightarrow> string \<Rightarrow> span option \<Rightarrow> diag list \<times> 'a option) \<Rightarrow> yval \<Rightarrow> string
    \<Rightarrow> diag list \<times> 'a list" where
  "build_items build seq path =
     (let rs = map (\<lambda>(i, _, v). build i v (idx_path path i) (list_item_span seq i (idx_path path i)))
                 (enumerate 0 (seq_items seq))
      in (concat (map fst rs), List.map_filter snd rs))"

definition build_transaction :: "yval \<Rightarrow> string \<Rightarrow> diag list \<times> transaction_plan option" where
  "build_transaction raw txn_path =
     (let ds = unknown_keys raw TRANSACTION_PLAN_KEYS txn_path
                 (\<lambda>k. [Txt ''unknown key '', Repr (key_val k), Txt '' in transaction''])
      in if \<not> is_mapping raw then
           ([diag_from_span WrongType [Txt ''transaction must be a mapping'']
               (node_span raw txn_path)], None)
         else case yget raw ''steps'' of
           None \<Rightarrow> (ds @ [diag_from_span MissingRequiredField
                      [Txt ''transaction missing required field: steps'']
                      (node_span raw txn_path)], None)
         | Some (YSeq pos xs) \<Rightarrow>
             (case build_items (\<lambda>_. build_operation_call) (YSeq pos xs) (txn_path @ ''.steps'') of
               (ds', steps) \<Rightarrow>
                 if ds @ ds' \<noteq> [] then (ds @ ds', None)
                 else ([], Some \<lparr>tp_steps = steps, tp_span = node_span raw txn_path\<rparr>))
         | Some _ \<Rightarrow> (ds @ [diag_from_span WrongType [Txt ''transaction steps must be a list'']
                        (skey_span raw ''steps'' txn_path)], None))"

section \<open>Requirement sets\<close>

text \<open>The artifacts loop returns at the first item that is not a string.\<close>

fun artifact_items ::
  "yval \<Rightarrow> string \<Rightarrow> nat \<Rightarrow> (lc \<times> yval) list \<Rightarrow> diag + (string \<times> span option) list" where
  "artifact_items seq path i [] = Inr []"
| "artifact_items seq path i ((p, item) # rest) =
     (case item of
        YStr art \<Rightarrow>
          (case artifact_items seq path (Suc i) rest of
             Inl d \<Rightarrow> Inl d
           | Inr ys \<Rightarrow> Inr ((art, list_item_span seq i (idx_path path i)) # ys))
      | _ \<Rightarrow> Inl (diag_from_span WrongType
               [Txt ''artifact item must be a string, got '', TypeName item]
               (list_item_span seq i (idx_path path i))))"

definition build_artifacts :: "yval \<Rightarrow> string \<Rightarrow> diag + (string \<times> span option) list" where
  "build_artifacts raw req_path = (case yget_opt raw ''artifacts'' of
     None \<Rightarrow> Inr []
   | Some (YSeq pos xs) \<Rightarrow> artifact_items (YSeq pos xs) (req_path @ ''.artifacts'') 0 xs
   | Some _ \<Rightarrow> Inl (diag_from_span WrongType [Txt ''artifacts must be a list'']
                      (skey_span raw ''artifacts'' req_path)))"

definition build_validations :: "yval \<Rightarrow> string \<Rightarrow> diag + (diag list \<times> validation_call list)" where
  "build_validations raw req_path = (case yget_opt raw ''validations'' of
     None \<Rightarrow> Inr ([], [])
   | Some (YSeq pos xs) \<Rightarrow>
       Inr (build_items (\<lambda>_. build_validation_call) (YSeq pos xs) (req_path @ ''.validations''))
   | Some _ \<Rightarrow> Inl (diag_from_span WrongType [Txt ''validations must be a list'']
                      (skey_span raw ''validations'' req_path)))"

text \<open>
  The \<open>changed_files\<close> block: the diagnostics it adds, and the flag unless it returned early.
\<close>

definition build_changed_files :: "yval \<Rightarrow> string \<Rightarrow> diag list \<times> bool option" where
  "build_changed_files raw req_path = (case yget_opt raw ''changed_files'' of
     None \<Rightarrow> ([], Some False)
   | Some (YMap pos kvs) \<Rightarrow>
       (let cf = YMap pos kvs;
            ds = unknown_keys cf [''required''] (req_path @ ''.changed_files'')
                   (\<lambda>k. [Txt ''unknown key '', Repr (key_val k), Txt '' in changed_files requirement''])
        in case yget_default cf ''required'' (YBool False) of
             YBool b \<Rightarrow> (ds, Some b)
           | _ \<Rightarrow> (ds @ [diag_from_span WrongType [Txt ''changed_files.required must be a boolean'']
                      (skey_span cf ''required'' (req_path @ ''.changed_files''))], None))
   | Some _ \<Rightarrow> ([diag_from_span WrongType [Txt ''changed_files must be a mapping'']
                   (skey_span raw ''changed_files'' req_path)], None))"

definition build_requirement_set :: "yval \<Rightarrow> string \<Rightarrow> diag list \<times> requirement_set option" where
  "build_requirement_set raw req_path =
     (let ds = unknown_keys raw REQUIREMENT_SET_KEYS req_path
                 (\<lambda>k. [Txt ''unknown key '', Repr (key_val k), Txt '' in requirement set''])
      in if \<not> is_mapping raw then
           ([diag_from_span WrongType [Txt ''requirement set must be a mapping'']
               (node_span raw req_path)], None)
         else case build_artifacts raw req_path of
           Inl d \<Rightarrow> (ds @ [d], None)
         | Inr arts \<Rightarrow>
             (case build_validations raw req_path of
               Inl d \<Rightarrow> (ds @ [d], None)
             | Inr (vds, vals) \<Rightarrow>
                 (case build_changed_files raw req_path of
                   (cds, None) \<Rightarrow> (ds @ vds @ cds, None)
                 | (cds, Some required) \<Rightarrow>
                     if ds @ vds @ cds \<noteq> [] then (ds @ vds @ cds, None)
                     else ([], Some \<lparr>rs_artifacts = map fst arts, rs_validations = vals,
                            rs_changed_files_required = required,
                            rs_span = node_span raw req_path,
                            rs_artifact_spans = map snd arts\<rparr>))))"

section \<open>Statements\<close>

definition build_task_type ::
  "yval \<Rightarrow> string \<Rightarrow> string \<Rightarrow> span option \<Rightarrow> diag list \<times> statement option" where
  "build_task_type raw stmt_id item_path item_span =
     (case build_instruction_refs raw (item_path @ ''.instructions'') of
       (ds, instructions) \<Rightarrow>
         (case yget_opt raw ''requirements'' of
           None \<Rightarrow> if ds \<noteq> [] then (ds, None)
             else ([], Some \<lparr>st_id = stmt_id, st_span = item_span,
                             st_body = TaskTypeStatement [] instructions\<rparr>)
         | Some (YMap pos kvs) \<Rightarrow>
             (case filter (\<lambda>k. \<not> is_str_key k) (map fst kvs) of
               k # _ \<Rightarrow> (ds @ [diag_from_span WrongType
                   [Txt ''requirement key must be a string, got '', TypeName (key_val k)]
                   (key_span (YMap pos kvs) k (item_path @ ''.requirements''))], None)
             | [] \<Rightarrow>
                 (let rs = map (\<lambda>(k, _, v). (key_str k,
                             build_requirement_set v (item_path @ ''.requirements.'' @ key_str k))) kvs;
                      ds' = ds @ concat (map (fst \<circ> snd) rs);
                      reqs = fold (\<lambda>(k, r) d. case snd r of Some q \<Rightarrow> dict_set k q d | None \<Rightarrow> d) rs []
                  in if ds' \<noteq> [] then (ds', None)
                     else ([], Some \<lparr>st_id = stmt_id, st_span = item_span,
                                     st_body = TaskTypeStatement reqs instructions\<rparr>)))
         | Some _ \<Rightarrow> (ds @ [diag_from_span WrongType [Txt ''requirements must be a mapping'']
                        (skey_span raw ''requirements'' item_path)], None)))"

definition build_validation_type ::
  "yval \<Rightarrow> string \<Rightarrow> string \<Rightarrow> span option \<Rightarrow> diag list \<times> statement option" where
  "build_validation_type raw stmt_id item_path item_span = (case yget_opt raw ''args'' of
     None \<Rightarrow> ([], Some \<lparr>st_id = stmt_id, st_span = item_span, st_body = ValidationTypeStatement []\<rparr>)
   | Some (YMap pos kvs) \<Rightarrow>
       (case build_arg_specs (YMap pos kvs) item_path of
         (ds, args) \<Rightarrow> if ds \<noteq> [] then (ds, None)
           else ([], Some \<lparr>st_id = stmt_id, st_span = item_span,
                           st_body = ValidationTypeStatement args\<rparr>))
   | Some _ \<Rightarrow> ([diag_from_span WrongType [Txt ''args must be a mapping'']
                   (skey_span raw ''args'' item_path)], None))"

definition build_operation_type ::
  "yval \<Rightarrow> string \<Rightarrow> string \<Rightarrow> span option \<Rightarrow> diag list \<times> statement option" where
  "build_operation_type raw stmt_id item_path item_span = (case yget_opt raw ''args'' of
     None \<Rightarrow> ([], Some \<lparr>st_id = stmt_id, st_span = item_span, st_body = OperationTypeStatement []\<rparr>)
   | Some (YMap pos kvs) \<Rightarrow>
       (case build_arg_specs (YMap pos kvs) item_path of
         (ds, args) \<Rightarrow> if ds \<noteq> [] then (ds, None)
           else ([], Some \<lparr>st_id = stmt_id, st_span = item_span,
                           st_body = OperationTypeStatement args\<rparr>))
   | Some _ \<Rightarrow> ([diag_from_span WrongType [Txt ''args must be a mapping'']
                   (skey_span raw ''args'' item_path)], None))"

text \<open>The \<open>derives\<close> block of a transition.\<close>

definition derives_typed :: "yval \<Rightarrow> bool" where
  "derives_typed raw \<longleftrightarrow>
     (\<forall>k \<in> set DERIVES_REQUIRED_KEYS. is_str (yget_default raw k YNull))
     \<and> (\<exists>b. yget_default raw ''required'' (YBool True) = YBool b)
     \<and> (case yget_opt raw ''parent_to_if_derived'' of None \<Rightarrow> True | Some v \<Rightarrow> is_str v)"

definition derives_value_diags :: "yval \<Rightarrow> string \<Rightarrow> diag list" where
  "derives_value_diags raw dpath =
     map (\<lambda>k. diag_from_span WrongType [Txt (''derives.'' @ k @ '' must be a string'')]
            (skey_span raw k dpath))
       (filter (\<lambda>k. \<not> is_str (yget_default raw k YNull)) DERIVES_REQUIRED_KEYS)
     @ (case yget_default raw ''required'' (YBool True) of
          YBool _ \<Rightarrow> []
        | _ \<Rightarrow> [diag_from_span WrongType [Txt ''derives.required must be a boolean'']
                 (skey_span raw ''required'' dpath)])
     @ (case yget_opt raw ''parent_to_if_derived'' of
          None \<Rightarrow> []
        | Some v \<Rightarrow> if is_str v then [] else
            [diag_from_span WrongType [Txt ''derives.parent_to_if_derived must be a string'']
               (skey_span raw ''parent_to_if_derived'' dpath)])"

definition build_derives :: "yval \<Rightarrow> yval \<Rightarrow> string \<Rightarrow> diag list \<times> derives_spec option" where
  "build_derives raw derives_raw item_path =
     (let dpath = item_path @ ''.derives'';
          span = key_span raw (KStr ''derives'') dpath
      in if \<not> is_mapping derives_raw then
           ([diag_from_span WrongType [Txt ''derives must be a mapping''] span], None)
         else
           (let ds = unknown_keys derives_raw DERIVES_KEYS dpath
                       (\<lambda>k. [Txt ''unknown key '', Repr (key_val k), Txt '' in derives'']);
                missing = filter (\<lambda>k. \<not> yhas derives_raw k) DERIVES_REQUIRED_KEYS;
                mds = map (\<lambda>k. diag_from_span MissingRequiredField
                        [Txt (''derives missing required field: '' @ k)]
                        (skey_span derives_raw k dpath)) missing
            in if missing \<noteq> [] then (ds @ mds, None)
               else (ds @ derives_value_diags derives_raw dpath,
                 if derives_typed derives_raw then
                   Some \<lparr>ds_task_type = str_of (yget_default derives_raw ''task_type'' YNull),
                         ds_state = str_of (yget_default derives_raw ''state'' YNull),
                         ds_artifact_type = str_of (yget_default derives_raw ''artifact_type'' YNull),
                         ds_required = (yget_default derives_raw ''required'' (YBool True) = YBool True),
                         ds_parent_to_if_derived =
                           map_option str_of (yget_opt derives_raw ''parent_to_if_derived''),
                         ds_span = span\<rparr>
                 else None)))"

section \<open>Transitions\<close>

text \<open>
  A field that must be a string, and one that may be absent or null: the value, or the
  diagnostic of the early return.
\<close>

definition str_field :: "yval \<Rightarrow> string \<Rightarrow> string \<Rightarrow> diag + string" where
  "str_field raw k item_path = (case yget_default raw k YNull of
     YStr s \<Rightarrow> Inr s
   | _ \<Rightarrow> Inl (diag_from_span WrongType [Txt (k @ '' must be a string'')]
                (skey_span raw k item_path)))"

definition opt_str_field :: "yval \<Rightarrow> string \<Rightarrow> string \<Rightarrow> diag + string option" where
  "opt_str_field raw k item_path = (case yget_opt raw k of
     None \<Rightarrow> Inr None
   | Some (YStr s) \<Rightarrow> Inr (Some s)
   | Some _ \<Rightarrow> Inl (diag_from_span WrongType [Txt (k @ '' must be a string'')]
                      (skey_span raw k item_path)))"

definition review_field :: "yval \<Rightarrow> string \<Rightarrow> diag + bool option" where
  "review_field raw item_path = (case yget_opt raw ''review'' of
     None \<Rightarrow> Inr None
   | Some (YBool b) \<Rightarrow> Inr (Some b)
   | Some _ \<Rightarrow> Inl (diag_from_span WrongType [Txt ''review must be a boolean'']
                      (skey_span raw ''review'' item_path)))"

definition default_field :: "yval \<Rightarrow> string \<Rightarrow> diag + bool" where
  "default_field raw item_path = (case yget_default raw ''default_for_scheduler'' (YBool False) of
     YBool b \<Rightarrow> Inr b
   | _ \<Rightarrow> Inl (diag_from_span WrongType [Txt ''default_for_scheduler must be a boolean'']
                (skey_span raw ''default_for_scheduler'' item_path)))"

definition missing_transition_fields ::
  "yval \<Rightarrow> (string \<times> span) list \<Rightarrow> string \<Rightarrow> diag list" where
  "missing_transition_fields raw field_spans item_path =
     map (\<lambda>k. diag_from_span MissingRequiredField [Txt (''transition missing required field: '' @ k)]
            (case dict_get field_spans k of Some sp \<Rightarrow> Some sp | None \<Rightarrow> skey_span raw k item_path))
       (filter (\<lambda>k. \<not> yhas raw k) TRANSITION_REQUIRED_KEYS)"

text \<open>The three nested blocks, each built only when its key has a value other than null.\<close>

definition build_requires :: "yval \<Rightarrow> string \<Rightarrow> diag list \<times> requirement_set" where
  "build_requires raw item_path = (case yget_opt raw ''requires'' of
     None \<Rightarrow> ([], empty_requirement_set)
   | Some v \<Rightarrow> (case build_requirement_set v (item_path @ ''.requires'') of
       (ds, Some r) \<Rightarrow> (ds, r) | (ds, None) \<Rightarrow> (ds, empty_requirement_set)))"

definition build_transaction_opt :: "yval \<Rightarrow> string \<Rightarrow> diag list \<times> transaction_plan option" where
  "build_transaction_opt raw item_path = (case yget_opt raw ''transaction'' of
     None \<Rightarrow> ([], None) | Some v \<Rightarrow> build_transaction v (item_path @ ''.transaction''))"

definition build_derives_opt :: "yval \<Rightarrow> string \<Rightarrow> diag list \<times> derives_spec option" where
  "build_derives_opt raw item_path = (case yget_opt raw ''derives'' of
     None \<Rightarrow> ([], None) | Some v \<Rightarrow> build_derives raw v item_path)"

definition finish_transition ::
  "yval \<Rightarrow> string \<Rightarrow> string \<Rightarrow> span option \<Rightarrow> (string \<times> span) list
    \<Rightarrow> string \<Rightarrow> string \<Rightarrow> string \<Rightarrow> string option \<Rightarrow> string list \<Rightarrow> bool option \<Rightarrow> bool \<Rightarrow> diag list
    \<Rightarrow> diag list \<times> statement option" where
  "finish_transition raw stmt_id item_path item_span field_spans
       task_type from_state to_state worker instructions review dflt ds =
     (case build_requires raw item_path of (rds, requires) \<Rightarrow>
      case build_transaction_opt raw item_path of (tds, txn) \<Rightarrow>
      case build_derives_opt raw item_path of (dds, derives) \<Rightarrow>
        let all = ds @ rds @ tds @ dds
        in if all \<noteq> [] then (all, None)
           else ([], Some \<lparr>st_id = stmt_id, st_span = item_span,
                  st_body = TransitionStatement
                    \<lparr>tb_task_type = task_type, tb_from_state = from_state, tb_to_state = to_state,
                     tb_worker = worker, tb_instructions = instructions,
                     tb_default_for_scheduler = dflt, tb_review = review, tb_requires = requires,
                     tb_transaction = txn, tb_derives = derives, tb_field_spans = field_spans\<rparr>\<rparr>))"

definition build_transition ::
  "yval \<Rightarrow> string \<Rightarrow> string \<Rightarrow> span option \<Rightarrow> (string \<times> span) list \<Rightarrow> diag list \<times> statement option" where
  "build_transition raw stmt_id item_path item_span field_spans =
     (let mds = missing_transition_fields raw field_spans item_path
      in if mds \<noteq> [] then (mds, None)
         else case str_field raw ''task_type'' item_path of Inl d \<Rightarrow> ([d], None) | Inr task_type \<Rightarrow>
         (case str_field raw ''from'' item_path of Inl d \<Rightarrow> ([d], None) | Inr from_state \<Rightarrow>
         (case str_field raw ''to'' item_path of Inl d \<Rightarrow> ([d], None) | Inr to_state \<Rightarrow>
         (case opt_str_field raw ''worker'' item_path of Inl d \<Rightarrow> ([d], None) | Inr worker \<Rightarrow>
         (case build_instruction_refs raw (item_path @ ''.instructions'') of (ids, instructions) \<Rightarrow>
         (case review_field raw item_path of Inl d \<Rightarrow> (ids @ [d], None) | Inr review \<Rightarrow>
         (case default_field raw item_path of Inl d \<Rightarrow> (ids @ [d], None) | Inr dflt \<Rightarrow>
            finish_transition raw stmt_id item_path item_span field_spans
              task_type from_state to_state worker instructions review dflt ids)))))))"

section \<open>One statement\<close>

definition FIELD_SPAN_NAMES :: "string list" where
  "FIELD_SPAN_NAMES = [''task_type'', ''from'', ''to'', ''worker'', ''default_for_scheduler'',
     ''instructions'']"

definition build_field_spans :: "yval \<Rightarrow> string \<Rightarrow> (string \<times> span) list" where
  "build_field_spans raw item_path =
     List.map_filter (\<lambda>k. map_option (Pair k) (skey_span raw k item_path))
       (filter (yhas raw) FIELD_SPAN_NAMES)"

definition build_state :: "yval \<Rightarrow> string \<Rightarrow> string \<Rightarrow> span option \<Rightarrow> diag list
    \<Rightarrow> diag list \<times> statement option" where
  "build_state raw stmt_id item_path item_span ds = (case yget_opt raw ''terminal_outcome'' of
     None \<Rightarrow> (ds, Some \<lparr>st_id = stmt_id, st_span = item_span, st_body = StateStatement None\<rparr>)
   | Some (YStr out) \<Rightarrow>
       if out \<notin> set SUPPORTED_TERMINAL_OUTCOMES then
         (ds @ [diag_from_span UnknownTerminalOutcome
            [Txt ''unknown terminal_outcome: '', ReprS out,
             Txt '' (expected one of ['', ReprS ''cancelled'', Txt '', '', ReprS ''failure'',
             Txt '', '', ReprS ''success'', Txt ''])'']
            (skey_span raw ''terminal_outcome'' item_path)], None)
       else (ds, Some \<lparr>st_id = stmt_id, st_span = item_span, st_body = StateStatement (Some out)\<rparr>)
   | Some _ \<Rightarrow> (ds @ [diag_from_span WrongType [Txt ''terminal_outcome must be a string'']
                  (skey_span raw ''terminal_outcome'' item_path)], None))"

definition build_artifact_type :: "yval \<Rightarrow> string \<Rightarrow> string \<Rightarrow> span option \<Rightarrow> diag list
    \<Rightarrow> diag list \<times> statement option" where
  "build_artifact_type raw stmt_id item_path item_span ds =
     (case opt_str_field raw ''template'' item_path of
       Inl d \<Rightarrow> (ds @ [d], None)
     | Inr template \<Rightarrow> (ds, Some \<lparr>st_id = stmt_id, st_span = item_span,
                             st_body = ArtifactTypeStatement template\<rparr>))"

definition build_worker :: "yval \<Rightarrow> string \<Rightarrow> string \<Rightarrow> span option \<Rightarrow> diag list
    \<Rightarrow> diag list \<times> statement option" where
  "build_worker raw stmt_id item_path item_span ds =
     (case opt_str_field raw ''type'' item_path of
       Inl d \<Rightarrow> (ds @ [d], None)
     | Inr wtype \<Rightarrow>
         (case build_instruction_refs raw (item_path @ ''.instructions'') of (ids, instructions) \<Rightarrow>
            if ds @ ids \<noteq> [] then (ds @ ids, None)
            else ([], Some \<lparr>st_id = stmt_id, st_span = item_span,
                            st_body = WorkerStatement wtype instructions\<rparr>)))"

text \<open>
  \<open>_build_statement\<close>.  The diagnostics for unknown keys are collected first; the last four
  branches return what their own builder returns, and so leave these diagnostics behind.
\<close>

definition build_statement ::
  "yval \<Rightarrow> nat \<Rightarrow> string \<Rightarrow> span option \<Rightarrow> diag list \<times> statement option" where
  "build_statement raw idx item_path item_span =
     (let at = [Txt ''statement at index '', Num (int idx)]
      in if \<not> is_mapping raw then
           ([diag_from_span WrongType (at @ [Txt '' must be a mapping, got '', TypeName raw])
              item_span], None)
         else case yget raw ''kind'' of
           None \<Rightarrow> ([diag_from_span MissingRequiredField
                       (at @ [Txt '' missing required field: kind'']) item_span], None)
         | Some (YStr kind) \<Rightarrow>
             if kind \<notin> set SUPPORTED_KINDS then
               ([diag_from_span UnknownKind [Txt ''unknown statement kind: '', ReprS kind]
                  (skey_span raw ''kind'' item_path)], None)
             else (case yget raw ''id'' of
               None \<Rightarrow> ([diag_from_span MissingRequiredField
                           (at @ [Txt '' missing required field: id'']) item_span], None)
             | Some (YStr stmt_id) \<Rightarrow>
                 (let ds = unknown_keys raw (statement_keys kind) item_path
                             (\<lambda>k. [Txt ''unknown key '', Repr (key_val k),
                                   Txt ('' in '' @ kind @ '' statement'')])
                  in if kind = ''state'' then build_state raw stmt_id item_path item_span ds
                     else if kind = ''artifact_type'' then
                       build_artifact_type raw stmt_id item_path item_span ds
                     else if kind = ''worker'' then build_worker raw stmt_id item_path item_span ds
                     else if kind = ''task_type'' then build_task_type raw stmt_id item_path item_span
                     else if kind = ''validation_type'' then
                       build_validation_type raw stmt_id item_path item_span
                     else if kind = ''operation_type'' then
                       build_operation_type raw stmt_id item_path item_span
                     else if kind = ''transition'' then
                       build_transition raw stmt_id item_path item_span
                         (build_field_spans raw item_path)
                     else (ds, None))
             | Some v \<Rightarrow> ([diag_from_span WrongType [Txt ''id must be a string, got '', TypeName v]
                            (skey_span raw ''id'' item_path)], None))
         | Some v \<Rightarrow> ([diag_from_span WrongType [Txt ''kind must be a string, got '', TypeName v]
                        (skey_span raw ''kind'' item_path)], None))"

section \<open>The document\<close>

record ast_result =
  ar_document :: "workflow_document option"
  ar_diagnostics :: "diag list"

definition build_statements :: "yval \<Rightarrow> diag list \<times> statement list" where
  "build_statements stmts_raw =
     build_items (\<lambda>i v p s. build_statement v i p s) stmts_raw ''statements''"

definition fail_ast :: "diag list \<Rightarrow> ast_result" where
  "fail_ast ds = \<lparr>ar_document = None, ar_diagnostics = ds\<rparr>"

text \<open>The part of \<open>build_ast\<close> after the version and the statement list were found.\<close>

definition build_document :: "yval \<Rightarrow> int \<Rightarrow> yval \<Rightarrow> diag list \<Rightarrow> string \<Rightarrow> ast_result" where
  "build_document parsed sv stmts_raw ds source_name =
     (case build_statements stmts_raw of (sds, statements) \<Rightarrow>
        if ds @ sds \<noteq> [] then fail_ast (ds @ sds)
        else (case (case yget parsed ''storage'' of
                      None \<Rightarrow> ([], None) | Some v \<Rightarrow> build_storage v) of
          (gds, storage) \<Rightarrow>
            if gds \<noteq> [] then fail_ast gds
            else \<lparr>ar_document = Some \<lparr>wd_schema_version = sv, wd_statements = statements,
                     wd_storage = storage, wd_span = node_span parsed source_name\<rparr>,
                  ar_diagnostics = []\<rparr>))"

definition build_ast :: "yval \<Rightarrow> string \<Rightarrow> ast_result" where
  "build_ast parsed source_name =
     (let root_diag = (\<lambda>msg. fail_ast [\<lparr>d_code = RootNotMapping, d_message = msg,
            d_severity = SevError, d_path = Some source_name, d_line = None, d_column = None\<rparr>]);
          ds = map (\<lambda>k. diag_from_span UnknownKey
                       [Txt ''unknown top-level key: '', Repr (key_val k)]
                       (key_span parsed k (key_str k)))
                 (filter (\<lambda>k. \<not> key_in [''schema_version'', ''statements'', ''storage''] k)
                    (ykeys parsed));
          top = (\<lambda>k. key_span parsed (KStr k) k)
      in if parsed = YNull then root_diag [Txt ''parsed document is None'']
         else if \<not> is_mapping parsed then
           root_diag [Txt ''root must be a mapping, got '', TypeName parsed]
         else case yget parsed ''schema_version'' of
           None \<Rightarrow> fail_ast (ds @ [diag_from_span MissingRequiredField
                     [Txt ''missing required field: schema_version''] (top ''schema_version'')])
         | Some (YInt sv) \<Rightarrow>
             if sv \<notin> set SUPPORTED_SCHEMA_VERSIONS then
               fail_ast (ds @ [diag_from_span UnsupportedVersion
                  [Txt ''unsupported schema_version: '', Num sv] (top ''schema_version'')])
             else (case yget parsed ''statements'' of
               None \<Rightarrow> fail_ast (ds @ [diag_from_span MissingRequiredField
                         [Txt ''missing required field: statements''] (top ''statements'')])
             | Some (YSeq pos xs) \<Rightarrow> build_document parsed sv (YSeq pos xs) ds source_name
             | Some v \<Rightarrow> fail_ast (ds @ [diag_from_span WrongType
                           [Txt ''statements must be a list, got '', TypeName v] (top ''statements'')]))
         | Some v \<Rightarrow> fail_ast (ds @ [diag_from_span WrongType
                       [Txt ''schema_version must be an integer, got '', TypeName v]
                       (top ''schema_version'')]))"

end
