(* ===== verification/WfSymbols.thy ===== *)
theory WfSymbols
  imports WfAst
begin

text \<open>
  The symbol table of a workflow document (\<open>workflow_engine/symbols.py\<close>): one namespace
  per statement kind, filled in document order; the first statement of an id wins and every
  later one is a diagnostic.
\<close>

record symbol_table =
  tab_states :: "string \<rightharpoonup> statement"
  tab_task_types :: "string \<rightharpoonup> statement"
  tab_artifact_types :: "string \<rightharpoonup> statement"
  tab_validation_types :: "string \<rightharpoonup> statement"
  tab_workers :: "string \<rightharpoonup> statement"
  tab_operation_types :: "string \<rightharpoonup> statement"
  tab_transitions :: "string \<rightharpoonup> statement"

definition empty_table :: symbol_table where
  "empty_table = \<lparr>tab_states = Map.empty, tab_task_types = Map.empty,
     tab_artifact_types = Map.empty, tab_validation_types = Map.empty,
     tab_workers = Map.empty, tab_operation_types = Map.empty, tab_transitions = Map.empty\<rparr>"

definition duplicate_diag :: "string \<Rightarrow> statement \<Rightarrow> diag" where
  "duplicate_diag what st = diag_from_span DuplicateId
     [Txt (''duplicate '' @ what @ '' id: ''), ReprS (st_id st)] (st_span st)"

text \<open>One round of the loop: the branch the statement's class selects.\<close>

definition add_symbol :: "symbol_table \<times> diag list \<Rightarrow> statement \<Rightarrow> symbol_table \<times> diag list" where
  "add_symbol acc st = (case acc of (t, ds) \<Rightarrow>
     let i = st_id st in
     case st_body st of
       StateStatement _ \<Rightarrow>
         if tab_states t i \<noteq> None then (t, ds @ [duplicate_diag ''state'' st])
         else (t\<lparr>tab_states := (tab_states t)(i \<mapsto> st)\<rparr>, ds)
     | TaskTypeStatement _ _ \<Rightarrow>
         if tab_task_types t i \<noteq> None then (t, ds @ [duplicate_diag ''task_type'' st])
         else (t\<lparr>tab_task_types := (tab_task_types t)(i \<mapsto> st)\<rparr>, ds)
     | ArtifactTypeStatement _ \<Rightarrow>
         if tab_artifact_types t i \<noteq> None then (t, ds @ [duplicate_diag ''artifact_type'' st])
         else (t\<lparr>tab_artifact_types := (tab_artifact_types t)(i \<mapsto> st)\<rparr>, ds)
     | ValidationTypeStatement _ \<Rightarrow>
         if tab_validation_types t i \<noteq> None then (t, ds @ [duplicate_diag ''validation_type'' st])
         else (t\<lparr>tab_validation_types := (tab_validation_types t)(i \<mapsto> st)\<rparr>, ds)
     | WorkerStatement _ _ \<Rightarrow>
         if tab_workers t i \<noteq> None then (t, ds @ [duplicate_diag ''worker'' st])
         else (t\<lparr>tab_workers := (tab_workers t)(i \<mapsto> st)\<rparr>, ds)
     | OperationTypeStatement _ \<Rightarrow>
         if tab_operation_types t i \<noteq> None then (t, ds @ [duplicate_diag ''operation_type'' st])
         else (t\<lparr>tab_operation_types := (tab_operation_types t)(i \<mapsto> st)\<rparr>, ds)
     | TransitionStatement _ \<Rightarrow>
         if tab_transitions t i \<noteq> None then (t, ds @ [duplicate_diag ''transition'' st])
         else (t\<lparr>tab_transitions := (tab_transitions t)(i \<mapsto> st)\<rparr>, ds))"

definition build_symbol_table :: "workflow_document \<Rightarrow> symbol_table \<times> diag list" where
  "build_symbol_table doc = foldl add_symbol (empty_table, []) (wd_statements doc)"

section \<open>The table as one lookup\<close>

text \<open>The namespace of a kind, and the kind and id a statement is filed under.\<close>

fun table_of :: "symbol_table \<Rightarrow> skind \<Rightarrow> string \<rightharpoonup> statement" where
  "table_of t KState = tab_states t"
| "table_of t KTaskType = tab_task_types t"
| "table_of t KArtifactType = tab_artifact_types t"
| "table_of t KValidationType = tab_validation_types t"
| "table_of t KWorker = tab_workers t"
| "table_of t KOperationType = tab_operation_types t"
| "table_of t KTransition = tab_transitions t"

definition st_key :: "statement \<Rightarrow> skind \<times> string" where
  "st_key st = (body_kind (st_body st), st_id st)"

lemma table_of_empty [simp]: "table_of empty_table kind i = None"
  by (cases kind) (simp_all add: empty_table_def)

lemma add_symbol_table:
  "table_of (fst (add_symbol (t, ds) st)) kind i =
     (if (kind, i) = st_key st \<and> table_of t kind i = None then Some st else table_of t kind i)"
  by (cases "st_body st"; cases kind) (auto simp: add_symbol_def st_key_def Let_def)

lemma add_symbol_diags:
  "snd (add_symbol (t, ds) st) =
     (if table_of t (fst (st_key st)) (snd (st_key st)) = None then ds
      else ds @ [duplicate_diag (kind_name (fst (st_key st))) st])"
  by (cases "st_body st") (auto simp: add_symbol_def st_key_def Let_def)

text \<open>The first statement of a document filed under a kind and an id.\<close>

fun first_with :: "skind \<times> string \<Rightarrow> statement list \<Rightarrow> statement option" where
  "first_with key [] = None"
| "first_with key (st # sts) = (if st_key st = key then Some st else first_with key sts)"

lemma first_with_None: "first_with key sts = None \<longleftrightarrow> key \<notin> st_key ` set sts"
  by (induction sts) auto

lemma first_with_Some:
  "first_with key sts = Some st \<Longrightarrow> st \<in> set sts \<and> st_key st = key"
  by (induction sts) (auto split: if_splits)

lemma first_with_distinct:
  "distinct (map st_key sts) \<Longrightarrow> st \<in> set sts \<Longrightarrow> first_with (st_key st) sts = Some st"
  by (induction sts) (auto simp: image_iff)

lemma foldl_add_symbol_table:
  "table_of (fst (foldl add_symbol (t, ds) sts)) kind i =
     (case table_of t kind i of Some st \<Rightarrow> Some st | None \<Rightarrow> first_with (kind, i) sts)"
proof (induction sts arbitrary: t ds)
  case Nil
  show ?case by (simp split: option.split)
next
  case (Cons st sts)
  obtain t' ds' where add: "add_symbol (t, ds) st = (t', ds')" by fastforce
  have "table_of t' kind i =
      (if (kind, i) = st_key st \<and> table_of t kind i = None then Some st else table_of t kind i)"
    using add_symbol_table [of t ds st kind i] add by simp
  then show ?case using Cons.IH [of t' ds'] add by (auto split: option.splits)
qed

lemma foldl_add_symbol_diags:
  "snd (foldl add_symbol (t, ds) sts) = [] \<longleftrightarrow>
     ds = [] \<and> distinct (map st_key sts)
     \<and> (\<forall>st \<in> set sts. table_of t (fst (st_key st)) (snd (st_key st)) = None)"
proof (induction sts arbitrary: t ds)
  case Nil
  show ?case by simp
next
  case (Cons st sts)
  obtain t' ds' where add: "add_symbol (t, ds) st = (t', ds')" by fastforce
  have tab: "table_of t' kind i =
      (if (kind, i) = st_key st \<and> table_of t kind i = None then Some st else table_of t kind i)"
    for kind i
    using add_symbol_table [of t ds st kind i] add by simp
  have ds': "ds' = (if table_of t (fst (st_key st)) (snd (st_key st)) = None then ds
      else ds @ [duplicate_diag (kind_name (fst (st_key st))) st])"
    using add_symbol_diags [of t ds st] add by simp
  show ?case using Cons.IH [of t' ds'] add
    by (auto simp: ds' tab image_iff split: if_splits)
qed

lemma lookup_first:
  "table_of (fst (build_symbol_table doc)) kind i = first_with (kind, i) (wd_statements doc)"
  by (simp add: build_symbol_table_def foldl_add_symbol_table)

lemma no_symbol_diags_iff:
  "snd (build_symbol_table doc) = [] \<longleftrightarrow> distinct (map st_key (wd_statements doc))"
  by (simp add: build_symbol_table_def foldl_add_symbol_diags)

end
