(* ===== verification/WfValidate.thy ===== *)
theory WfValidate
  imports WfSymbols
begin

text \<open>
  Semantic validation of a document (\<open>workflow_engine/visitors.py\<close>,
  \<open>workflow_engine/validation.py\<close>).  Every visitor method appends to one list; the model
  returns what it appends.  Argument names are compared as YAML keys; Python would also equate
  the keys \<open>true\<close> and \<open>1\<close>, which the model keeps apart.
\<close>

section \<open>Argument values\<close>

definition child_span :: "span option \<Rightarrow> string \<Rightarrow> span option" where
  "child_span parent child_path = (case parent of
     None \<Rightarrow> None
   | Some p \<Rightarrow> Some \<lparr>sp_path = child_path, sp_line = sp_line p, sp_column = sp_column p\<rparr>)"

fun ref_code :: "skind \<Rightarrow> dcode" where
  "ref_code KState = UnknownState"
| "ref_code KTaskType = UnknownTaskType"
| "ref_code KArtifactType = UnknownArtifact"
| "ref_code KValidationType = UnknownValidation"
| "ref_code KWorker = UnknownWorker"
| "ref_code _ = UnknownOperation"

definition check_reference ::
  "symbol_table \<Rightarrow> string \<Rightarrow> ykey \<Rightarrow> string \<Rightarrow> span option \<Rightarrow> skind \<Rightarrow> diag list" where
  "check_reference t val arg_name call_kind sp ref_kind =
     (if table_of t ref_kind val \<noteq> None then []
      else [diag_from_span (ref_code ref_kind)
              [Txt (call_kind @ '' arg ''), Repr (key_val arg_name),
               Txt ('' references unknown '' @ kind_name ref_kind @ '': ''), ReprS val] sp])"

definition wrong_type ::
  "string \<Rightarrow> ykey \<Rightarrow> string \<Rightarrow> yval \<Rightarrow> span option \<Rightarrow> diag list" where
  "wrong_type call_kind arg_name expected v sp =
     [diag_from_span WrongArgumentType
        [Txt (call_kind @ '' arg ''), Repr (key_val arg_name),
         Txt ('' expects '' @ expected @ '', got ''), TypeName v] sp]"

definition validate_single_value ::
  "symbol_table \<Rightarrow> yval \<Rightarrow> string \<Rightarrow> ykey \<Rightarrow> string \<Rightarrow> span option \<Rightarrow> diag list" where
  "validate_single_value t v arg_type arg_name call_kind sp =
     (if arg_type = ''string'' then
        (case v of YStr _ \<Rightarrow> [] | _ \<Rightarrow> wrong_type call_kind arg_name ''string'' v sp)
      else if arg_type = ''integer'' then
        (case v of YInt _ \<Rightarrow> [] | _ \<Rightarrow> wrong_type call_kind arg_name ''integer'' v sp)
      else if arg_type = ''boolean'' then
        (case v of YBool _ \<Rightarrow> [] | _ \<Rightarrow> wrong_type call_kind arg_name ''boolean'' v sp)
      else case map_of REFERENCE_ARG_TYPES arg_type of
        Some ref_kind \<Rightarrow>
          (case v of
             YStr s \<Rightarrow> check_reference t s arg_name call_kind sp ref_kind
           | _ \<Rightarrow> wrong_type call_kind arg_name ''string reference'' v sp)
      | None \<Rightarrow> [diag_from_span UnknownArgumentType [Txt ''unknown arg type: '', ReprS arg_type] sp])"

definition validate_arg_value ::
  "symbol_table \<Rightarrow> yval \<Rightarrow> arg_spec \<Rightarrow> ykey \<Rightarrow> string \<Rightarrow> span option \<Rightarrow> diag list" where
  "validate_arg_value t v spec arg_name call_kind sp =
     (let name = Repr (key_val arg_name);
          each = (\<lambda>item. validate_single_value t item (as_type spec) arg_name call_kind sp)
      in if as_many spec then
           (case v of
              YSeq _ items \<Rightarrow> concat (map (\<lambda>(_, item). each item) items)
            | _ \<Rightarrow> [diag_from_span WrongArgumentType
                     [Txt (call_kind @ '' arg ''), name,
                      Txt '' with many:true must be a list, got '', TypeName v] sp])
         else
           (case v of
              YSeq _ _ \<Rightarrow> [diag_from_span WrongArgumentType
                     [Txt (call_kind @ '' arg ''), name,
                      Txt '' with many:false must be a scalar, got list''] sp]
            | _ \<Rightarrow> each v))"

definition validate_call_args ::
  "symbol_table \<Rightarrow> (ykey \<times> yval) list \<Rightarrow> (ykey \<times> arg_spec) list \<Rightarrow> span option
    \<Rightarrow> (ykey \<times> span) list \<Rightarrow> string \<Rightarrow> diag list" where
  "validate_call_args t supplied declared sp arg_spans call_kind =
     (let missing = filter (\<lambda>(n, spec). as_required spec \<and> \<not> dict_has supplied n) declared;
          missing_span = (\<lambda>n. case sp of
             Some s \<Rightarrow> if sp_path s \<noteq> [] then child_span sp (sp_path s @ ''.args.'' @ key_str n)
                       else sp
           | None \<Rightarrow> None);
          arg_span = (\<lambda>n. case dict_get arg_spans n of Some s \<Rightarrow> Some s | None \<Rightarrow> sp)
      in map (\<lambda>(n, _). diag_from_span MissingRequiredArgument
                [Txt (call_kind @ '' call missing required argument: ''), Repr (key_val n)]
                (missing_span n)) missing
         @ map (\<lambda>(n, _). diag_from_span UnknownArgument
                [Txt (call_kind @ '' call has unknown argument: ''), Repr (key_val n)]
                (arg_span n)) (filter (\<lambda>(n, _). \<not> dict_has declared n) supplied)
         @ concat (map (\<lambda>(n, spec). case dict_get supplied n of
                None \<Rightarrow> []
              | Some v \<Rightarrow> validate_arg_value t v spec n call_kind (arg_span n)) declared))"

section \<open>Nodes\<close>

definition type_args :: "statement \<Rightarrow> (ykey \<times> arg_spec) list" where
  "type_args st = (case st_body st of
     ValidationTypeStatement args \<Rightarrow> args | OperationTypeStatement args \<Rightarrow> args | _ \<Rightarrow> [])"

definition visit_validation_call :: "symbol_table \<Rightarrow> validation_call \<Rightarrow> diag list" where
  "visit_validation_call t node = (case tab_validation_types t (vc_type node) of
     None \<Rightarrow> [diag_from_span UnknownValidation
                [Txt ''validation call references unknown validation_type: '', ReprS (vc_type node)]
                (vc_span node)]
   | Some val_type \<Rightarrow> validate_call_args t (vc_args node) (type_args val_type) (vc_span node)
                        (vc_arg_spans node) ''validation'')"

definition visit_requirement_set :: "symbol_table \<Rightarrow> requirement_set \<Rightarrow> diag list" where
  "visit_requirement_set t node =
     concat (map (\<lambda>(i, art).
        if tab_artifact_types t art \<noteq> None then []
        else [diag_from_span UnknownArtifact
                [Txt ''requirement set references unknown artifact: '', ReprS art]
                (case (if i < length (rs_artifact_spans node) then rs_artifact_spans node ! i
                       else None) of
                   Some s \<Rightarrow> Some s | None \<Rightarrow> rs_span node)])
       (enumerate 0 (rs_artifacts node)))
     @ concat (map (visit_validation_call t) (rs_validations node))"

definition visit_operation_call :: "symbol_table \<Rightarrow> operation_call \<Rightarrow> diag list" where
  "visit_operation_call t node = (case tab_operation_types t (oc_op node) of
     None \<Rightarrow> [diag_from_span UnknownOperation
                [Txt ''operation call references unknown operation_type: '', ReprS (oc_op node)]
                (oc_span node)]
   | Some op_type \<Rightarrow> validate_call_args t (oc_args node) (type_args op_type) (oc_span node)
                       (oc_arg_spans node) ''operation'')"

definition visit_transaction_plan :: "symbol_table \<Rightarrow> transaction_plan \<Rightarrow> diag list" where
  "visit_transaction_plan t node = concat (map (visit_operation_call t) (tp_steps node))"

definition visit_task_type ::
  "symbol_table \<Rightarrow> string \<Rightarrow> span option \<Rightarrow> (string \<times> requirement_set) list \<Rightarrow> diag list" where
  "visit_task_type t node_id sp reqs =
     concat (map (\<lambda>(state_name, req_set).
        (if tab_states t state_name \<noteq> None then []
         else [diag_from_span UnknownState
                 [Txt ''task_type '', ReprS node_id, Txt '' references unknown state: '',
                  ReprS state_name]
                 (case rs_span req_set of Some s \<Rightarrow> Some s | None \<Rightarrow> sp)])
        @ visit_requirement_set t req_set) reqs)"

definition visit_derives ::
  "symbol_table \<Rightarrow> string \<Rightarrow> span option \<Rightarrow> derives_spec \<Rightarrow> diag list" where
  "visit_derives t node_id node_sp d =
     (let sp = (case ds_span d of Some s \<Rightarrow> Some s | None \<Rightarrow> node_sp);
          msg = (\<lambda>what v. [Txt ''transition '', ReprS node_id, Txt what, ReprS v])
      in (if tab_task_types t (ds_task_type d) \<noteq> None then []
          else [diag_from_span UnknownTaskType (msg '' derives unknown task_type: '' (ds_task_type d)) sp])
         @ (if tab_states t (ds_state d) \<noteq> None then []
          else [diag_from_span UnknownState (msg '' derives into unknown state: '' (ds_state d)) sp])
         @ (if tab_artifact_types t (ds_artifact_type d) \<noteq> None then []
          else [diag_from_span UnknownArtifact
                  (msg '' derives from unknown artifact_type: '' (ds_artifact_type d)) sp]))"

definition visit_transition ::
  "symbol_table \<Rightarrow> string \<Rightarrow> span option \<Rightarrow> transition_body \<Rightarrow> diag list" where
  "visit_transition t node_id sp b =
     (let fs = (\<lambda>k. case dict_get (tb_field_spans b) k of Some s \<Rightarrow> Some s | None \<Rightarrow> sp);
          msg = (\<lambda>what v. [Txt ''transition '', ReprS node_id, Txt what, ReprS v])
      in (if tab_task_types t (tb_task_type b) \<noteq> None then []
          else [diag_from_span UnknownTaskType
                  (msg '' references unknown task_type: '' (tb_task_type b)) (fs ''task_type'')])
         @ (if tab_states t (tb_from_state b) \<noteq> None then []
          else [diag_from_span UnknownState
                  (msg '' references unknown from state: '' (tb_from_state b)) (fs ''from'')])
         @ (if tab_states t (tb_to_state b) \<noteq> None then []
          else [diag_from_span UnknownState
                  (msg '' references unknown to state: '' (tb_to_state b)) (fs ''to'')])
         @ (case tb_worker b of
              None \<Rightarrow> []
            | Some w \<Rightarrow> if tab_workers t w \<noteq> None then []
                else [diag_from_span UnknownWorker
                        (msg '' references unknown worker: '' w) (fs ''worker'')])
         @ visit_requirement_set t (tb_requires b)
         @ (case tb_derives b of None \<Rightarrow> [] | Some d \<Rightarrow> visit_derives t node_id sp d)
         @ (case tb_transaction b of None \<Rightarrow> [] | Some p \<Rightarrow> visit_transaction_plan t p))"

definition visit_statement :: "symbol_table \<Rightarrow> statement \<Rightarrow> diag list" where
  "visit_statement t st = (case st_body st of
     TaskTypeStatement reqs _ \<Rightarrow> visit_task_type t (st_id st) (st_span st) reqs
   | TransitionStatement b \<Rightarrow> visit_transition t (st_id st) (st_span st) b
   | _ \<Rightarrow> [])"

definition visit_document :: "symbol_table \<Rightarrow> workflow_document \<Rightarrow> diag list" where
  "visit_document t doc = concat (map (visit_statement t) (wd_statements doc))"

section \<open>The entry point\<close>

record validation_result =
  vr_valid :: bool
  vr_diagnostics :: "diag list"

definition validate :: "workflow_document \<Rightarrow> validation_result" where
  "validate doc =
     (case build_symbol_table doc of (table, symbol_diagnostics) \<Rightarrow>
        let all = symbol_diagnostics @ visit_document table doc
        in \<lparr>vr_valid = \<not> list_ex (\<lambda>d. d_severity d = SevError) all, vr_diagnostics = all\<rparr>)"

end
