(* ===== verification/WfSpec.thy ===== *)
theory WfSpec
  imports WfValidate
begin

text \<open>
  What a valid workflow document is, stated without tables, visitors or diagnostics, and the
  proof that \<open>validate\<close> decides exactly that.
\<close>

section \<open>The specification\<close>

definition resolves :: "workflow_document \<Rightarrow> skind \<Rightarrow> string \<Rightarrow> statement option" where
  "resolves doc k i = first_with (k, i) (wd_statements doc)"

definition declares :: "workflow_document \<Rightarrow> skind \<Rightarrow> string \<Rightarrow> bool" where
  "declares doc k i \<longleftrightarrow> (k, i) \<in> st_key ` set (wd_statements doc)"

definition scalar_ok :: "workflow_document \<Rightarrow> string \<Rightarrow> yval \<Rightarrow> bool" where
  "scalar_ok doc ty v \<longleftrightarrow>
     (if ty = ''string'' then \<exists>s. v = YStr s
      else if ty = ''integer'' then \<exists>i. v = YInt i
      else if ty = ''boolean'' then \<exists>b. v = YBool b
      else \<exists>k s. map_of REFERENCE_ARG_TYPES ty = Some k \<and> v = YStr s \<and> declares doc k s)"

definition arg_ok :: "workflow_document \<Rightarrow> arg_spec \<Rightarrow> yval \<Rightarrow> bool" where
  "arg_ok doc spec v \<longleftrightarrow>
     (if as_many spec then \<exists>p xs. v = YSeq p xs \<and> (\<forall>x \<in> snd ` set xs. scalar_ok doc (as_type spec) x)
      else \<not> is_list v \<and> scalar_ok doc (as_type spec) v)"

definition call_ok ::
  "workflow_document \<Rightarrow> (ykey \<times> arg_spec) list \<Rightarrow> (ykey \<times> yval) list \<Rightarrow> bool" where
  "call_ok doc declared supplied \<longleftrightarrow>
     (\<forall>(n, spec) \<in> set declared. as_required spec \<longrightarrow> dict_has supplied n)
     \<and> (\<forall>(n, _) \<in> set supplied. dict_has declared n)
     \<and> (\<forall>(n, spec) \<in> set declared. \<forall>v. dict_get supplied n = Some v \<longrightarrow> arg_ok doc spec v)"

definition validation_ok :: "workflow_document \<Rightarrow> validation_call \<Rightarrow> bool" where
  "validation_ok doc c \<longleftrightarrow>
     (\<exists>st. resolves doc KValidationType (vc_type c) = Some st \<and> call_ok doc (type_args st) (vc_args c))"

definition operation_ok :: "workflow_document \<Rightarrow> operation_call \<Rightarrow> bool" where
  "operation_ok doc c \<longleftrightarrow>
     (\<exists>st. resolves doc KOperationType (oc_op c) = Some st \<and> call_ok doc (type_args st) (oc_args c))"

definition requirements_ok :: "workflow_document \<Rightarrow> requirement_set \<Rightarrow> bool" where
  "requirements_ok doc r \<longleftrightarrow>
     (\<forall>a \<in> set (rs_artifacts r). declares doc KArtifactType a)
     \<and> (\<forall>c \<in> set (rs_validations r). validation_ok doc c)"

definition derives_ok :: "workflow_document \<Rightarrow> derives_spec \<Rightarrow> bool" where
  "derives_ok doc d \<longleftrightarrow> declares doc KTaskType (ds_task_type d) \<and> declares doc KState (ds_state d)
     \<and> declares doc KArtifactType (ds_artifact_type d)"

definition transition_ok :: "workflow_document \<Rightarrow> transition_body \<Rightarrow> bool" where
  "transition_ok doc b \<longleftrightarrow>
     declares doc KTaskType (tb_task_type b) \<and> declares doc KState (tb_from_state b)
     \<and> declares doc KState (tb_to_state b)
     \<and> (\<forall>w. tb_worker b = Some w \<longrightarrow> declares doc KWorker w)
     \<and> requirements_ok doc (tb_requires b)
     \<and> (\<forall>d. tb_derives b = Some d \<longrightarrow> derives_ok doc d)
     \<and> (\<forall>p. tb_transaction b = Some p \<longrightarrow> (\<forall>c \<in> set (tp_steps p). operation_ok doc c))"

definition statement_ok :: "workflow_document \<Rightarrow> statement \<Rightarrow> bool" where
  "statement_ok doc st \<longleftrightarrow> (case st_body st of
     TaskTypeStatement reqs _ \<Rightarrow>
       \<forall>(s, r) \<in> set reqs. declares doc KState s \<and> requirements_ok doc r
   | TransitionStatement b \<Rightarrow> transition_ok doc b
   | _ \<Rightarrow> True)"

definition document_ok :: "workflow_document \<Rightarrow> bool" where
  "document_ok doc \<longleftrightarrow> distinct (map st_key (wd_statements doc))
     \<and> (\<forall>st \<in> set (wd_statements doc). statement_ok doc st)"

section \<open>The table a validator needs\<close>

text \<open>
  The visitors use the symbol table through one law only: an id resolves to the first
  statement of its kind that declares it.
\<close>

locale namespace =
  fixes t :: symbol_table and doc :: workflow_document
  assumes lookup: "table_of t k i = resolves doc k i"
begin

lemma bound_iff: "(\<exists>st. table_of t k i = Some st) \<longleftrightarrow> declares doc k i"
  using first_with_None [of "(k, i)" "wd_statements doc"]
  by (auto simp: lookup resolves_def declares_def)

lemma tables:
  "tab_states t i = resolves doc KState i"
  "tab_task_types t i = resolves doc KTaskType i"
  "tab_artifact_types t i = resolves doc KArtifactType i"
  "tab_validation_types t i = resolves doc KValidationType i"
  "tab_workers t i = resolves doc KWorker i"
  "tab_operation_types t i = resolves doc KOperationType i"
  using lookup [of KState i] lookup [of KTaskType i] lookup [of KArtifactType i]
    lookup [of KValidationType i] lookup [of KWorker i] lookup [of KOperationType i]
  by simp_all

lemma unresolved_iff: "resolves doc k i = None \<longleftrightarrow> \<not> declares doc k i"
  by (auto simp: resolves_def declares_def first_with_None)

lemma single_value_iff:
  "validate_single_value t v ty n ck sp = [] \<longleftrightarrow> scalar_ok doc ty v"
  by (cases v)
    (auto simp: validate_single_value_def scalar_ok_def wrong_type_def check_reference_def
      lookup unresolved_iff split: option.splits)

lemma arg_value_iff: "validate_arg_value t v spec n ck sp = [] \<longleftrightarrow> arg_ok doc spec v"
  by (cases v) (auto simp: validate_arg_value_def arg_ok_def Let_def single_value_iff is_list_def)

lemma call_args_iff:
  "validate_call_args t supplied declared sp spans ck = [] \<longleftrightarrow> call_ok doc declared supplied"
  by (fastforce simp: validate_call_args_def call_ok_def Let_def filter_none_iff arg_value_iff
      split: option.splits)

lemma validation_call_iff: "visit_validation_call t c = [] \<longleftrightarrow> validation_ok doc c"
  by (simp add: visit_validation_call_def validation_ok_def tables call_args_iff
      split: option.split)

lemma operation_call_iff: "visit_operation_call t c = [] \<longleftrightarrow> operation_ok doc c"
  by (simp add: visit_operation_call_def operation_ok_def tables call_args_iff
      split: option.split)

lemma requirement_set_iff: "visit_requirement_set t r = [] \<longleftrightarrow> requirements_ok doc r"
  unfolding visit_requirement_set_def append_is_Nil_conv concat_map_Nil_iff
  by (simp add: requirements_ok_def validation_call_iff tables unresolved_iff split_beta
      ball_enumerate [where P = "declares doc KArtifactType"])

lemma derives_iff: "visit_derives t i sp d = [] \<longleftrightarrow> derives_ok doc d"
  by (auto simp: visit_derives_def derives_ok_def Let_def tables unresolved_iff)

lemma transition_iff: "visit_transition t i sp b = [] \<longleftrightarrow> transition_ok doc b"
  by (auto simp: visit_transition_def transition_ok_def Let_def tables unresolved_iff
      requirement_set_iff derives_iff visit_transaction_plan_def operation_call_iff
      split: option.splits)

lemma task_type_iff:
  "visit_task_type t i sp reqs = [] \<longleftrightarrow>
     (\<forall>(s, r) \<in> set reqs. declares doc KState s \<and> requirements_ok doc r)"
  by (auto simp: visit_task_type_def tables unresolved_iff requirement_set_iff split: if_splits)

lemma statement_iff: "visit_statement t st = [] \<longleftrightarrow> statement_ok doc st"
  by (simp add: visit_statement_def statement_ok_def transition_iff task_type_iff
      split: stmt_body.split)

lemma document_iff:
  "visit_document t doc = [] \<longleftrightarrow> (\<forall>st \<in> set (wd_statements doc). statement_ok doc st)"
  by (simp add: visit_document_def statement_iff)

end

interpretation built: namespace "fst (build_symbol_table doc)" doc for doc
  by unfold_locales (simp add: resolves_def lookup_first)

section \<open>Every diagnostic is an error\<close>

lemma symbol_diags_error:
  "all_errors ds \<Longrightarrow> all_errors (snd (foldl add_symbol (t, ds) sts))"
proof (induction sts arbitrary: t ds)
  case (Cons st sts)
  obtain t' ds' where add: "add_symbol (t, ds) st = (t', ds')" by fastforce
  then have "all_errors ds'"
    using add_symbol_diags [of t ds st] Cons.prems by (simp add: duplicate_diag_def split: if_splits)
  with Cons.IH add show ?case by simp
qed simp

lemma single_value_error [simp]: "all_errors (validate_single_value t v ty n ck sp)"
  by (simp add: validate_single_value_def wrong_type_def check_reference_def split: yval.split)

lemma arg_value_error [simp]: "all_errors (validate_arg_value t v spec n ck sp)"
  by (simp add: validate_arg_value_def Let_def split_beta split: yval.split)

lemma call_args_error [simp]: "all_errors (validate_call_args t supplied declared sp spans ck)"
  unfolding validate_call_args_def Let_def
  by (simp add: split_beta del: all_errors_simps(4))

lemma call_error [simp]:
  "all_errors (visit_validation_call t vc)" "all_errors (visit_operation_call t oc)"
  by (simp_all add: visit_validation_call_def visit_operation_call_def)

lemma requirement_set_error [simp]: "all_errors (visit_requirement_set t r)"
  unfolding visit_requirement_set_def by (simp add: split_beta del: all_errors_simps(4))

lemma derives_error [simp]: "all_errors (visit_derives t i sp d)"
  by (simp add: visit_derives_def Let_def)

lemma transition_error [simp]: "all_errors (visit_transition t i sp b)"
  unfolding visit_transition_def Let_def visit_transaction_plan_def
  by (simp del: all_errors_simps(4))

lemma document_error [simp]: "all_errors (visit_document t doc)"
  unfolding visit_document_def visit_statement_def visit_task_type_def
  by (simp add: split_beta del: all_errors_simps(4) split: stmt_body.split)

section \<open>Validity\<close>

lemma validate_diagnostics:
  "vr_diagnostics (validate doc) = snd (build_symbol_table doc)
     @ visit_document (fst (build_symbol_table doc)) doc"
  by (simp add: validate_def Let_def split: prod.split)

lemma validate_all_errors: "all_errors (vr_diagnostics (validate doc))"
  by (simp add: validate_diagnostics document_error build_symbol_table_def symbol_diags_error)

lemma validate_valid_iff_clean: "vr_valid (validate doc) \<longleftrightarrow> vr_diagnostics (validate doc) = []"
proof -
  have "vr_valid (validate doc) \<longleftrightarrow> \<not> list_ex (\<lambda>d. d_severity d = SevError) (vr_diagnostics (validate doc))"
    by (simp add: validate_def Let_def split: prod.split)
  with validate_all_errors [of doc] show ?thesis
    by (cases "vr_diagnostics (validate doc)") (simp_all add: all_errors_def)
qed


end
