(* ===== verification/WfLoaderFacts.thy ===== *)
theory WfLoaderFacts
  imports WfLoader WfSpec
begin

text \<open>
  What the loader guarantees: no builder gives up without a diagnostic, a document is built
  exactly when there is none, the statements of the document are those of the source in
  order, and a loaded document only uses supported argument types.
\<close>

section \<open>The contract of a node builder\<close>

text \<open>
  The loops over lists of nodes rely on one law of the builder they call: if it reports
  nothing, it returns a node.
\<close>

locale node_builder =
  fixes build :: "nat \<Rightarrow> yval \<Rightarrow> string \<Rightarrow> span option \<Rightarrow> diag list \<times> 'a option"
  assumes never_silent: "fst (build i v p s) = [] \<Longrightarrow> \<exists>x. snd (build i v p s) = Some x"
begin

lemma built: "fst (build i v p s) = [] \<Longrightarrow> build i v p s = ([], Some (the (snd (build i v p s))))"
  using never_silent [of i v p s] by (cases "build i v p s") auto

lemma items_complete:
  assumes clean: "fst (build_items build seq path) = []"
  shows "list_all2 (\<lambda>(_, v) x. \<exists>i p s. build i v p s = ([], Some x))
           (seq_items seq) (snd (build_items build seq path))"
proof -
  define rs where "rs = map (\<lambda>(i, _, v). build i v (idx_path path i)
      (list_item_span seq i (idx_path path i))) (enumerate 0 (seq_items seq))"
  have all: "\<forall>r \<in> set rs. fst r = []"
    using clean by (simp add: build_items_def Let_def rs_def)
  have some: "\<forall>r \<in> set rs. snd r \<noteq> None"
  proof
    fix r assume r: "r \<in> set rs"
    then obtain i v p s where "r = build i v p s" by (auto simp: rs_def)
    then show "snd r \<noteq> None" using all r never_silent [of i v p s] by auto
  qed
  have "snd (build_items build seq path) = map (the \<circ> snd) rs"
    using some by (simp add: build_items_def rs_def [symmetric] Let_def map_filter_all_some)
  moreover have "length rs = length (seq_items seq)"
    by (simp add: rs_def)
  moreover have "\<exists>i p s. build i (snd (seq_items seq ! n)) p s = ([], Some (the (snd (rs ! n))))"
    if n: "n < length (seq_items seq)" for n
  proof -
    let ?p = "idx_path path n"
    have eq: "rs ! n = build n (snd (seq_items seq ! n)) ?p (list_item_span seq n ?p)"
      using n by (simp add: rs_def nth_enumerate_eq split_beta)
    have "fst (rs ! n) = []"
      using all n \<open>length rs = _\<close> by simp
    with eq have "build n (snd (seq_items seq ! n)) ?p (list_item_span seq n ?p)
        = ([], Some (the (snd (rs ! n))))"
      by (metis built)
    then show ?thesis by blast
  qed
  ultimately show ?thesis
    by (simp add: list_all2_conv_all_nth split_beta)
qed

end

section \<open>No builder is silent\<close>

lemma build_call_args_cases:
  "(\<exists>d. build_call_args what raw path = Inl d) \<or> (\<exists>args spans. build_call_args what raw path = Inr (args, spans))"
  by (cases "build_call_args what raw path") auto

lemma validation_call_built:
  "fst (build_validation_call raw p s) = [] \<Longrightarrow> \<exists>c. snd (build_validation_call raw p s) = Some c"
  by (simp add: build_validation_call_def Let_def
      split: if_split_asm option.split_asm yval.split_asm sum.split_asm prod.split_asm)

lemma operation_call_built:
  "fst (build_operation_call raw p s) = [] \<Longrightarrow> \<exists>c. snd (build_operation_call raw p s) = Some c"
  by (simp add: build_operation_call_def Let_def
      split: if_split_asm option.split_asm yval.split_asm sum.split_asm prod.split_asm)

interpretation validations: node_builder "\<lambda>_. build_validation_call"
  by unfold_locales (rule validation_call_built)

interpretation operations: node_builder "\<lambda>_. build_operation_call"
  by unfold_locales (rule operation_call_built)

lemma arg_spec_built:
  "fst (build_arg_spec raw n p) = [] \<Longrightarrow>
     \<exists>a. snd (build_arg_spec raw n p) = Some a \<and> as_type a \<in> set SUPPORTED_ARG_TYPES"
  by (simp add: build_arg_spec_def Let_def
      split: if_split_asm option.split_asm yval.split_asm)

lemma fold_arg_specs_types:
  assumes "\<forall>(k, r) \<in> set rs. \<forall>a. snd r = Some a \<longrightarrow> as_type a \<in> T"
    and "\<forall>(k, a) \<in> set d. as_type a \<in> T"
  shows "\<forall>(k, a) \<in> set (fold (\<lambda>(k, r) d. case snd r of Some a \<Rightarrow> dict_set k a d | None \<Rightarrow> d) rs d).
           as_type a \<in> T"
  using assms
proof (induction rs arbitrary: d)
  case (Cons kr rs)
  obtain k r where kr: "kr = (k, r)" by (cases kr)
  have "\<forall>(k, a) \<in> set (case snd r of Some a \<Rightarrow> dict_set k a d | None \<Rightarrow> d). as_type a \<in> T"
  proof (cases "snd r")
    case None
    with Cons.prems show ?thesis by simp
  next
    case (Some a)
    with Cons.prems(1) kr have "as_type a \<in> T" by simp
    with Some Cons.prems(2) dict_set_subset [of k a d] show ?thesis by (auto dest!: subsetD)
  qed
  with Cons kr show ?case by simp
qed simp

lemma arg_specs_types:
  assumes clean: "fst (build_arg_specs v p) = []"
  shows "\<forall>(k, a) \<in> set (snd (build_arg_specs v p)). as_type a \<in> set SUPPORTED_ARG_TYPES"
proof -
  define rs where "rs = map (\<lambda>(k, _, x). (k, build_arg_spec x k (p @ ''.args.'' @ key_str k)))
      (map_entries v)"
  have nil: "\<forall>(k, r) \<in> set rs. fst r = []"
    using clean by (auto simp: build_arg_specs_def Let_def rs_def)
  have "\<forall>(k, r) \<in> set rs. \<forall>a. snd r = Some a \<longrightarrow> as_type a \<in> set SUPPORTED_ARG_TYPES"
  proof clarify
    fix k r1 r2 a assume r: "(k, r1, r2) \<in> set rs" "snd (r1, r2) = Some a"
    then obtain x where "(r1, r2) = build_arg_spec x k (p @ ''.args.'' @ key_str k)"
      by (auto simp: rs_def)
    with r nil arg_spec_built [of x k "p @ ''.args.'' @ key_str k"]
    show "as_type a \<in> set SUPPORTED_ARG_TYPES" by auto
  qed
  then have "\<forall>(k, a) \<in> set (fold (\<lambda>(k, r) d. case snd r of Some a \<Rightarrow> dict_set k a d | None \<Rightarrow> d) rs []).
      as_type a \<in> set SUPPORTED_ARG_TYPES"
    by (rule fold_arg_specs_types) simp
  then show ?thesis by (simp add: build_arg_specs_def Let_def rs_def)
qed

lemma arg_specs_types_pair:
  "build_arg_specs v p = ([], args) \<Longrightarrow> \<forall>(k, a) \<in> set args. as_type a \<in> set SUPPORTED_ARG_TYPES"
  using arg_specs_types [of v p] by simp

lemma changed_files_built:
  "fst (build_changed_files raw p) = [] \<Longrightarrow> \<exists>b. snd (build_changed_files raw p) = Some b"
  by (auto simp: build_changed_files_def Let_def split: option.split_asm yval.split_asm)

lemma requirement_set_built:
  "fst (build_requirement_set raw p) = [] \<Longrightarrow> \<exists>r. snd (build_requirement_set raw p) = Some r"
  using changed_files_built [of raw p]
  by (auto simp: build_requirement_set_def Let_def
      split: if_split_asm option.split_asm sum.split_asm prod.split_asm)

lemma transaction_built:
  "fst (build_transaction raw p) = [] \<Longrightarrow> \<exists>r. snd (build_transaction raw p) = Some r"
  by (simp add: build_transaction_def Let_def
      split: if_split_asm option.split_asm yval.split_asm prod.split_asm)

lemma derives_value_diags_iff: "derives_value_diags raw p = [] \<longleftrightarrow> derives_typed raw"
  by (auto simp: derives_value_diags_def derives_typed_def filter_none_iff
      split: yval.split_asm yval.split option.split_asm option.split if_split_asm)

lemma derives_built:
  "fst (build_derives raw d p) = [] \<Longrightarrow> \<exists>r. snd (build_derives raw d p) = Some r"
  by (simp add: build_derives_def Let_def derives_value_diags_iff split: if_split_asm)

section \<open>Statements\<close>

lemma task_type_built:
  "fst (build_task_type raw i p s) = [] \<Longrightarrow>
     \<exists>reqs ins. snd (build_task_type raw i p s) =
       Some \<lparr>st_id = i, st_span = s, st_body = TaskTypeStatement reqs ins\<rparr>"
  by (simp add: build_task_type_def Let_def
      split: if_split_asm option.split_asm yval.split_asm list.split_asm prod.split_asm)

lemma transition_built:
  "fst (build_transition raw i p s fs) = [] \<Longrightarrow>
     \<exists>b. snd (build_transition raw i p s fs) =
       Some \<lparr>st_id = i, st_span = s, st_body = TransitionStatement b\<rparr>"
  by (simp add: build_transition_def finish_transition_def Let_def
      split: if_split_asm sum.split_asm prod.split_asm)

text \<open>Outcomes and argument types that a loaded statement may use.\<close>

definition loaded_ok :: "statement \<Rightarrow> bool" where
  "loaded_ok st \<longleftrightarrow> (\<forall>(n, a) \<in> set (type_args st). as_type a \<in> set SUPPORTED_ARG_TYPES)
     \<and> (\<forall>out. st_body st = StateStatement (Some out) \<longrightarrow> out \<in> set SUPPORTED_TERMINAL_OUTCOMES)"

lemma validation_type_built:
  "fst (build_validation_type raw i p s) = [] \<Longrightarrow>
     \<exists>args. snd (build_validation_type raw i p s) =
       Some \<lparr>st_id = i, st_span = s, st_body = ValidationTypeStatement args\<rparr>
       \<and> (\<forall>(n, a) \<in> set args. as_type a \<in> set SUPPORTED_ARG_TYPES)"
  by (auto simp: build_validation_type_def dest!: arg_specs_types_pair
      split: option.split_asm yval.split_asm prod.split_asm if_split_asm)

lemma operation_type_built:
  "fst (build_operation_type raw i p s) = [] \<Longrightarrow>
     \<exists>args. snd (build_operation_type raw i p s) =
       Some \<lparr>st_id = i, st_span = s, st_body = OperationTypeStatement args\<rparr>
       \<and> (\<forall>(n, a) \<in> set args. as_type a \<in> set SUPPORTED_ARG_TYPES)"
  by (auto simp: build_operation_type_def dest!: arg_specs_types_pair
      split: option.split_asm yval.split_asm prod.split_asm if_split_asm)

lemma statement_built:
  assumes "fst (build_statement raw i p s) = []"
  shows "\<exists>st. snd (build_statement raw i p s) = Some st \<and> loaded_ok st
    \<and> yget raw ''kind'' = Some (YStr (kind_name (body_kind (st_body st))))
    \<and> yget raw ''id'' = Some (YStr (st_id st)) \<and> st_span st = s"
  using assms
  by (auto simp: build_statement_def Let_def build_state_def build_artifact_type_def build_worker_def
      SUPPORTED_KINDS_def loaded_ok_def type_args_def
      dest!: task_type_built validation_type_built operation_type_built transition_built
      split: if_split_asm option.split_asm yval.split_asm sum.split_asm prod.split_asm)

lemma statement_builtD:
  "build_statement x i p s = ([], Some st) \<Longrightarrow>
     yget x ''kind'' = Some (YStr (kind_name (body_kind (st_body st))))
     \<and> yget x ''id'' = Some (YStr (st_id st)) \<and> loaded_ok st"
  using statement_built [of x i p s] by auto

interpretation statements: node_builder "\<lambda>i v p s. build_statement v i p s"
  by unfold_locales (auto dest: statement_built)

section \<open>Documents\<close>

text \<open>The source statements of a parsed value.\<close>

definition raw_statements :: "yval \<Rightarrow> yval list" where
  "raw_statements parsed = (case yget parsed ''statements'' of
     Some v \<Rightarrow> map snd (seq_items v) | None \<Rightarrow> [])"

lemma build_statements_clean:
  assumes "build_statements v = ([], sts)"
  shows "list_all2 (\<lambda>x st. yget x ''kind'' = Some (YStr (kind_name (body_kind (st_body st))))
           \<and> yget x ''id'' = Some (YStr (st_id st)) \<and> loaded_ok st) (map snd (seq_items v)) sts"
proof -
  have "list_all2 (\<lambda>(_, x) st. \<exists>i p s. build_statement x i p s = ([], Some st)) (seq_items v) sts"
    using statements.items_complete [of v "''statements''"] assms
    by (simp add: build_statements_def)
  then show ?thesis
    unfolding list.rel_map
    by (rule list.rel_mono_strong) (auto dest: statement_builtD)
qed

lemma build_document_cases:
  "(\<exists>doc. build_document parsed sv v ds src = \<lparr>ar_document = Some doc, ar_diagnostics = []\<rparr>
      \<and> ds = [] \<and> wd_schema_version doc = sv \<and> build_statements v = ([], wd_statements doc))
   \<or> (\<exists>es. es \<noteq> [] \<and> build_document parsed sv v ds src = fail_ast es)"
  by (auto simp: build_document_def split: prod.split)

text \<open>
  Either a document and no diagnostic, or diagnostics and no document; and what the document
  is when there is one.
\<close>

lemma build_ast_cases:
  "(\<exists>doc. build_ast parsed src = \<lparr>ar_document = Some doc, ar_diagnostics = []\<rparr>
      \<and> wd_schema_version doc = 1
      \<and> (\<forall>k \<in> set (ykeys parsed). key_in [''schema_version'', ''statements'', ''storage''] k)
      \<and> (\<exists>v. yget parsed ''statements'' = Some v \<and> build_statements v = ([], wd_statements doc)))
   \<or> (\<exists>es. es \<noteq> [] \<and> build_ast parsed src = fail_ast es)"
proof -
  define ds where "ds = map (\<lambda>k. diag_from_span UnknownKey
      [Txt ''unknown top-level key: '', Repr (key_val k)] (key_span parsed k (key_str k)))
      (filter (\<lambda>k. \<not> key_in [''schema_version'', ''statements'', ''storage''] k) (ykeys parsed))"
  have ds: "ds = [] \<longleftrightarrow> (\<forall>k \<in> set (ykeys parsed). key_in [''schema_version'', ''statements'', ''storage''] k)"
    by (simp add: ds_def filter_none_iff)
  show ?thesis
  proof (cases "\<exists>pos xs. yget parsed ''schema_version'' = Some (YInt 1)
      \<and> yget parsed ''statements'' = Some (YSeq pos xs)")
    case True
    then obtain pos xs where sv: "yget parsed ''schema_version'' = Some (YInt 1)"
        "yget parsed ''statements'' = Some (YSeq pos xs)" by blast
    then have "is_mapping parsed" "parsed \<noteq> YNull"
      by (auto simp: yget_def is_mapping_def split: yval.split)
    with sv have "build_ast parsed src = build_document parsed 1 (YSeq pos xs) ds src"
      by (simp add: build_ast_def SUPPORTED_SCHEMA_VERSIONS_def ds_def Let_def)
    with build_document_cases [of parsed 1 "YSeq pos xs" ds src] sv(2) ds show ?thesis by auto
  next
    case False
    then have "\<exists>es. es \<noteq> [] \<and> build_ast parsed src = fail_ast es"
      by (auto simp: build_ast_def SUPPORTED_SCHEMA_VERSIONS_def Let_def
          split: option.split yval.split)
    then show ?thesis by blast
  qed
qed


text \<open>
  C32.  The document is the source: schema version 1, and the statements one for one and in the
  order of the source, each of the kind and with the id its mapping gives; argument types and
  terminal outcomes are supported ones.
\<close>

theorem build_ast_faithful:
  assumes "ar_document (build_ast parsed src) = Some doc"
  shows "wd_schema_version doc = 1 \<and>
    list_all2 (\<lambda>x st. yget x ''kind'' = Some (YStr (kind_name (body_kind (st_body st))))
        \<and> yget x ''id'' = Some (YStr (st_id st)) \<and> loaded_ok st)
      (raw_statements parsed) (wd_statements doc)"
proof -
  from assms build_ast_cases [of parsed src] obtain v where
      "wd_schema_version doc = 1" "yget parsed ''statements'' = Some v"
      "build_statements v = ([], wd_statements doc)"
    by (auto simp: fail_ast_def)
  with build_statements_clean [of v "wd_statements doc"] show ?thesis
    by (simp add: raw_statements_def)
qed

text \<open>A small source: two states and the transition between them.\<close>

definition sample_source :: yval where
  "sample_source = YMap (0, 0)
     [(KStr ''schema_version'', (0, 0), YInt 1),
      (KStr ''statements'', (1, 0), YSeq (2, 2)
        [((2, 4), YMap (2, 4) [(KStr ''kind'', (2, 4), YStr ''state''), (KStr ''id'', (3, 4), YStr ''Todo'')]),
         ((4, 4), YMap (4, 4) [(KStr ''kind'', (4, 4), YStr ''state''), (KStr ''id'', (5, 4), YStr ''Done''),
            (KStr ''terminal_outcome'', (6, 4), YStr ''success'')]),
         ((7, 4), YMap (7, 4) [(KStr ''kind'', (7, 4), YStr ''task_type''), (KStr ''id'', (8, 4), YStr ''Task'')]),
         ((9, 4), YMap (9, 4) [(KStr ''kind'', (9, 4), YStr ''transition''), (KStr ''id'', (10, 4), YStr ''Go''),
            (KStr ''task_type'', (11, 4), YStr ''Task''), (KStr ''from'', (12, 4), YStr ''Todo''),
            (KStr ''to'', (13, 4), YStr ''Done'')])])]"

lemma sample_source_loads:
  "map_option (\<lambda>doc. map st_id (wd_statements doc)) (ar_document (build_ast sample_source ''w''))
     = Some [''Todo'', ''Done'', ''Task'', ''Go'']"
  by code_simp

lemma build_ast_faithful_witness:
  "\<exists>doc. ar_document (build_ast sample_source ''w'') = Some doc \<and> wd_schema_version doc = 1
     \<and> map st_id (wd_statements doc) = [''Todo'', ''Done'', ''Task'', ''Go'']"
  using sample_source_loads build_ast_faithful [of sample_source "''w''"] by auto

end
