(* ===== verification/WfPipeline.thy ===== *)
theory WfPipeline
  imports WfLoaderFacts
begin

text \<open>
  The loader and the validator together: what validation can still report about a loaded
  document, and which stray keys of a statement the loader never reports.
\<close>

section \<open>Argument types of loaded documents\<close>

lemma supported_arg_type_cases:
  "ty \<in> set SUPPORTED_ARG_TYPES \<Longrightarrow>
     ty \<in> {''string'', ''integer'', ''boolean''} \<or> (\<exists>k. map_of REFERENCE_ARG_TYPES ty = Some k)"
  by (auto simp: SUPPORTED_ARG_TYPES_def REFERENCE_ARG_TYPES_def)

definition no_code :: "dcode \<Rightarrow> diag list \<Rightarrow> bool" where
  "no_code c ds \<longleftrightarrow> (\<forall>d \<in> set ds. d_code d \<noteq> c)"

lemma no_code_simps [simp]:
  "no_code c []"
  "no_code c (diag_from_span c' m s # ds) \<longleftrightarrow> c' \<noteq> c \<and> no_code c ds"
  "no_code c (ds @ es) \<longleftrightarrow> no_code c ds \<and> no_code c es"
  by (auto simp: no_code_def)

lemma no_code_concat [simp]:
  "(\<And>x. x \<in> set xs \<Longrightarrow> no_code c (f x)) \<Longrightarrow> no_code c (concat (map f xs))"
  by (auto simp: no_code_def)

lemma no_code_map [simp]: "(\<And>x. d_code (f x) \<noteq> c) \<Longrightarrow> no_code c (map f xs)"
  by (auto simp: no_code_def)

lemma no_code_option [simp]:
  "no_code c a \<Longrightarrow> (\<And>y. x = Some y \<Longrightarrow> no_code c (f y)) \<Longrightarrow>
     no_code c (case x of None \<Rightarrow> a | Some y \<Rightarrow> f y)"
  by (cases x) simp_all

lemma ref_code_not_arg_type [simp]: "ref_code k \<noteq> UnknownArgumentType"
  by (cases k) simp_all

lemma single_value_supported [simp]:
  "ty \<in> set SUPPORTED_ARG_TYPES \<Longrightarrow> no_code UnknownArgumentType (validate_single_value t v ty n ck sp)"
  using supported_arg_type_cases [of ty]
  by (auto simp: validate_single_value_def wrong_type_def check_reference_def split: yval.split)

lemma arg_value_supported [simp]:
  "as_type spec \<in> set SUPPORTED_ARG_TYPES \<Longrightarrow>
     no_code UnknownArgumentType (validate_arg_value t v spec n ck sp)"
  by (simp add: validate_arg_value_def Let_def split_beta split: yval.split)

lemma call_args_supported:
  "\<forall>(n, spec) \<in> set declared. as_type spec \<in> set SUPPORTED_ARG_TYPES \<Longrightarrow>
     no_code UnknownArgumentType (validate_call_args t supplied declared sp spans ck)"
  unfolding validate_call_args_def Let_def
  by (auto simp: split_beta)

context namespace
begin

lemma declared_types:
  assumes "\<forall>st \<in> set (wd_statements doc). loaded_ok st" "resolves doc k i = Some st"
  shows "\<forall>(n, spec) \<in> set (type_args st). as_type spec \<in> set SUPPORTED_ARG_TYPES"
  using assms first_with_Some [of "(k, i)" "wd_statements doc" st]
  by (auto simp: resolves_def loaded_ok_def)

lemma document_supported:
  assumes "\<forall>st \<in> set (wd_statements doc). loaded_ok st"
  shows "no_code UnknownArgumentType (visit_document t doc)"
proof -
  have call: "no_code UnknownArgumentType (visit_validation_call t vc)"
      "no_code UnknownArgumentType (visit_operation_call t oc)" for vc oc
    using declared_types [OF assms]
    by (auto simp: visit_validation_call_def visit_operation_call_def tables
        intro!: no_code_option call_args_supported dest: declared_types [OF assms])
  have req: "no_code UnknownArgumentType (visit_requirement_set t r)" for r
    unfolding visit_requirement_set_def by (simp add: call split_beta)
  have "no_code UnknownArgumentType (visit_transition t i sp b)" for i sp b
    unfolding visit_transition_def Let_def visit_transaction_plan_def visit_derives_def
    by (simp add: call req)
  then show ?thesis
    unfolding visit_document_def visit_statement_def visit_task_type_def
    by (simp add: req split_beta split: stmt_body.split)
qed

end

lemma symbol_diags_code:
  "no_code UnknownArgumentType ds \<Longrightarrow>
     no_code UnknownArgumentType (snd (foldl add_symbol (t, ds) sts))"
proof (induction sts arbitrary: t ds)
  case (Cons st sts)
  obtain t' ds' where add: "add_symbol (t, ds) st = (t', ds')" by fastforce
  then have "no_code UnknownArgumentType ds'"
    using add_symbol_diags [of t ds st] Cons.prems by (simp add: duplicate_diag_def split: if_splits)
  with Cons.IH add show ?case by simp
qed simp

text \<open>
  C33.  Validation of a loaded document never reaches the branch for an unknown argument type:
  the loader has refused every argument specification with an unsupported type.
\<close>

theorem loaded_never_unknown_argument_type:
  assumes "ar_document (build_ast parsed src) = Some doc"
  shows "\<forall>d \<in> set (vr_diagnostics (validate doc)). d_code d \<noteq> UnknownArgumentType"
proof -
  from assms build_ast_cases [of parsed src] obtain v where
      "build_statements v = ([], wd_statements doc)"
    by (auto simp: fail_ast_def)
  then have "\<forall>st \<in> set (wd_statements doc). loaded_ok st"
    using build_statements_clean [of v "wd_statements doc"]
    by (auto simp: list_all2_conv_all_nth in_set_conv_nth)
  then show ?thesis
    using built.document_supported [of doc] symbol_diags_code [of "[]" empty_table]
    by (auto simp: validate_diagnostics build_symbol_table_def no_code_def)
qed

lemma loaded_never_unknown_argument_type_witness:
  "\<exists>doc. ar_document (build_ast sample_source ''w'') = Some doc
     \<and> (\<forall>d \<in> set (vr_diagnostics (validate doc)). d_code d \<noteq> UnknownArgumentType)"
  using sample_source_loads loaded_never_unknown_argument_type [of sample_source "''w''"] by auto

section \<open>Stray keys of a statement\<close>

text \<open>A mapping with one more entry at its end.\<close>

definition add_entry :: "yval \<Rightarrow> ykey \<Rightarrow> lc \<Rightarrow> yval \<Rightarrow> yval" where
  "add_entry raw k pos v = (case raw of YMap p kvs \<Rightarrow> YMap p (kvs @ [(k, pos, v)]) | _ \<Rightarrow> raw)"

definition stray_in :: "string list \<Rightarrow> yval \<Rightarrow> ykey \<Rightarrow> bool" where
  "stray_in allowed raw k \<longleftrightarrow> map_entries raw \<noteq> [] \<and> \<not> key_in allowed k"

lemma stray_mapping:
  "stray_in allowed raw k \<Longrightarrow> is_mapping raw \<and> is_mapping (add_entry raw k pos v)"
  by (cases raw) (simp_all add: is_mapping_def add_entry_def stray_in_def)

lemma yget_stray:
  "stray_in allowed raw k \<Longrightarrow> n \<in> set allowed \<Longrightarrow> yget (add_entry raw k pos v) n = yget raw n"
  by (cases raw)
    (auto simp: yget_def add_entry_def key_in_def map_add_def stray_in_def split: option.split)

lemma key_span_stray:
  "stray_in allowed raw k \<Longrightarrow> n \<in> set allowed \<Longrightarrow>
     key_span (add_entry raw k pos v) (KStr n) path = key_span raw (KStr n) path"
  by (cases raw)
    (auto simp: key_span_def key_lc_def add_entry_def key_in_def map_add_def stray_in_def
      split: option.splits)

lemma field_stray:
  assumes "stray_in allowed raw k" "n \<in> set allowed"
  shows "yget_opt (add_entry raw k pos v) n = yget_opt raw n"
    and "yget_default (add_entry raw k pos v) n d = yget_default raw n d"
    and "yhas (add_entry raw k pos v) n = yhas raw n"
    and "skey_span (add_entry raw k pos v) n path = skey_span raw n path"
  using yget_stray [OF assms] key_span_stray [OF assms]
  by (simp_all add: yget_opt_def yget_default_def yhas_def skey_span_def)

lemmas stray_simps = yget_stray key_span_stray field_stray

lemma instructions_stray:
  assumes "stray_in allowed raw k" "''instructions'' \<in> set allowed"
  shows "build_instruction_refs (add_entry raw k pos v) path = build_instruction_refs raw path"
  using stray_simps [OF assms, of pos v]
  by (simp add: build_instruction_refs_def cong: option.case_cong yval.case_cong)

lemma task_type_stray:
  assumes "stray_in (statement_keys ''task_type'') raw k"
  shows "build_task_type (add_entry raw k pos v) i p s = build_task_type raw i p s"
  using stray_simps [OF assms, of _ pos v] instructions_stray [OF assms, of pos v]
  by (simp add: build_task_type_def statement_keys_def STATEMENT_KEYS_def
      cong: option.case_cong yval.case_cong prod.case_cong)

lemma validation_type_stray:
  assumes "stray_in (statement_keys ''validation_type'') raw k"
  shows "build_validation_type (add_entry raw k pos v) i p s = build_validation_type raw i p s"
  using stray_simps [OF assms, of _ pos v]
  by (simp add: build_validation_type_def statement_keys_def STATEMENT_KEYS_def
      cong: option.case_cong yval.case_cong)

lemma operation_type_stray:
  assumes "stray_in (statement_keys ''operation_type'') raw k"
  shows "build_operation_type (add_entry raw k pos v) i p s = build_operation_type raw i p s"
  using stray_simps [OF assms, of _ pos v]
  by (simp add: build_operation_type_def statement_keys_def STATEMENT_KEYS_def
      cong: option.case_cong yval.case_cong)

lemma transition_stray:
  assumes "stray_in (statement_keys ''transition'') raw k"
  shows "build_transition (add_entry raw k pos v) i p s (build_field_spans (add_entry raw k pos v) p)
    = build_transition raw i p s (build_field_spans raw p)"
proof -
  note simps = stray_simps [OF assms, of _ pos v] instructions_stray [OF assms, of pos v]
    statement_keys_def STATEMENT_KEYS_def
  have "build_field_spans (add_entry raw k pos v) p = build_field_spans raw p"
    unfolding build_field_spans_def
    by (rule map_filter_filter_eq) (simp add: FIELD_SPAN_NAMES_def simps)
  moreover have "missing_transition_fields (add_entry raw k pos v) fs p
      = missing_transition_fields raw fs p" for fs
    by (simp add: missing_transition_fields_def TRANSITION_REQUIRED_KEYS_def simps
        cong: option.case_cong)
  moreover have "str_field (add_entry raw k pos v) n p = str_field raw n p"
    if "n \<in> {''task_type'', ''from'', ''to''}" for n
    using that by (auto simp: str_field_def simps cong: yval.case_cong)
  moreover have "opt_str_field (add_entry raw k pos v) ''worker'' p = opt_str_field raw ''worker'' p"
      "review_field (add_entry raw k pos v) p = review_field raw p"
      "default_field (add_entry raw k pos v) p = default_field raw p"
    by (simp_all add: opt_str_field_def review_field_def default_field_def simps
        cong: option.case_cong yval.case_cong)
  moreover have "finish_transition (add_entry raw k pos v) i p s fs a b c d e f g h
      = finish_transition raw i p s fs a b c d e f g h" for fs a b c d e f g h
    by (simp add: finish_transition_def build_requires_def build_transaction_opt_def
        build_derives_opt_def build_derives_def simps cong: option.case_cong)
  ultimately show ?thesis
    by (simp add: build_transition_def simps Let_def cong: sum.case_cong prod.case_cong if_cong)
qed

text \<open>
   In the statements of kind task type, validation type, operation type and transition, a
  key the language does not know changes nothing: the builder returns the same diagnostics and
  the same node as without it, so the statement is accepted and the key dropped.
\<close>

theorem stray_key_ignored:
  assumes "yget raw ''kind'' = Some (YStr kind)"
    and "kind \<in> {''task_type'', ''validation_type'', ''operation_type'', ''transition''}"
    and "\<not> key_in (statement_keys kind) k"
  shows "build_statement (add_entry raw k pos v) i p s = build_statement raw i p s"
proof -
  have stray: "stray_in (statement_keys kind) raw k"
    using assms(1,3) by (cases raw) (auto simp: stray_in_def yget_def)
  have "''kind'' \<in> set (statement_keys kind)" "''id'' \<in> set (statement_keys kind)"
    using assms(2) by (auto simp: statement_keys_def STATEMENT_KEYS_def)
  note head = this [THEN yget_stray [OF stray]] this [THEN field_stray(4) [OF stray]]
    stray_mapping [OF stray]
  from assms(2) consider "kind = ''task_type''" | "kind = ''validation_type''"
    | "kind = ''operation_type''" | "kind = ''transition''" by blast
  then show ?thesis
  proof cases
    case 1
    with assms(1) head task_type_stray stray show ?thesis
      by (simp add: build_statement_def Let_def cong: option.case_cong yval.case_cong)
  next
    case 2
    with assms(1) head validation_type_stray stray show ?thesis
      by (simp add: build_statement_def Let_def cong: option.case_cong yval.case_cong)
  next
    case 3
    with assms(1) head operation_type_stray stray show ?thesis
      by (simp add: build_statement_def Let_def cong: option.case_cong yval.case_cong)
  next
    case 4
    with assms(1) head transition_stray stray show ?thesis
      by (simp add: build_statement_def Let_def cong: option.case_cong yval.case_cong)
  qed
qed

lemma stray_key_ignored_witness:
  "build_statement (add_entry (YMap (0, 0) [(KStr ''kind'', (0, 0), YStr ''transition''),
       (KStr ''id'', (1, 0), YStr ''Go''), (KStr ''task_type'', (2, 0), YStr ''Task''),
       (KStr ''from'', (3, 0), YStr ''A''), (KStr ''to'', (4, 0), YStr ''B'')])
     (KStr ''requirs'') (5, 0) YNull) 0 ''statements[0]'' None
   = build_statement (YMap (0, 0) [(KStr ''kind'', (0, 0), YStr ''transition''),
       (KStr ''id'', (1, 0), YStr ''Go''), (KStr ''task_type'', (2, 0), YStr ''Task''),
       (KStr ''from'', (3, 0), YStr ''A''), (KStr ''to'', (4, 0), YStr ''B'')]) 0 ''statements[0]'' None"
  by (rule stray_key_ignored [where kind = "''transition''"])
    (simp_all add: yget_def key_in_def statement_keys_def STATEMENT_KEYS_def)

end
