(* ===== verification/PyText.thy ===== *)
theory PyText
  imports Prelude "HOL-Library.List_Lexorder" "HOL-Library.Char_ord"
begin

text \<open>
  The string and number operations of Python's standard library the runtime uses: stripping,
  splitting into lines, prefixes, replacement, case folding, \<open>str\<close> and \<open>repr\<close> of a JSON
  value, and \<open>int\<close> of one.  A character is a code point below 256; a string compares by
  code points, which is the order of \<open>Char_ord\<close> lifted by \<open>List_Lexorder\<close>.
\<close>

section \<open>Exceptions\<close>

text \<open>
  An operation that may raise returns \<open>Inl\<close> of the class of the exception.  The handlers of
  the program catch some classes and let others through, so the class is kept.
\<close>

datatype pyexc = ValueErr | TypeErr | OverflowErr | AttributeErr | KeyErr | OSErr

definition bind_sum :: "'e + 'a \<Rightarrow> ('a \<Rightarrow> 'e + 'b) \<Rightarrow> 'e + 'b" where
  "bind_sum r f = (case r of Inl e \<Rightarrow> Inl e | Inr x \<Rightarrow> f x)"

lemma bind_sum_simps [simp, result_simps]:
  "bind_sum (Inl e) f = Inl e" "bind_sum (Inr x) f = f x"
  by (simp_all add: bind_sum_def)

lemma bind_sum_Inr_iff [result_simps]: "bind_sum r f = Inr y \<longleftrightarrow> (\<exists>x. r = Inr x \<and> f x = Inr y)"
  by (cases r) simp_all

lemma bind_sum_cong [fundef_cong]:
  "r = r' \<Longrightarrow> (\<And>x. r' = Inr x \<Longrightarrow> f x = f' x) \<Longrightarrow> bind_sum r f = bind_sum r' f'"
  by (cases r') auto

text \<open>A list comprehension whose body may raise: the first exception ends it.\<close>

fun map_sum_list :: "('a \<Rightarrow> 'e + 'b) \<Rightarrow> 'a list \<Rightarrow> 'e + 'b list" where
  "map_sum_list f [] = Inr []"
| "map_sum_list f (x # xs) = bind_sum (f x) (\<lambda>y. bind_sum (map_sum_list f xs) (\<lambda>ys. Inr (y # ys)))"

lemma map_sum_list_Inr_iff:
  "map_sum_list f xs = Inr ys \<longleftrightarrow> length ys = length xs \<and> (\<forall>i < length xs. f (xs ! i) = Inr (ys ! i))"
proof (induction xs arbitrary: ys)
  case Nil
  then show ?case by auto
next
  case (Cons x xs)
  then show ?case
    by (cases ys) (auto simp: bind_sum_Inr_iff less_Suc_eq_0_disj all_conj_distrib)
qed

lemma map_sum_list_map: "(\<And>x. x \<in> set xs \<Longrightarrow> f x = Inr (g x)) \<Longrightarrow> map_sum_list f xs = Inr (map g xs)"
  by (induction xs) simp_all

lemma map_sum_list_append:
  "map_sum_list f (xs @ ys) = bind_sum (map_sum_list f xs) (\<lambda>as. bind_sum (map_sum_list f ys) (\<lambda>bs. Inr (as @ bs)))"
proof (induction xs)
  case Nil
  then show ?case by (cases "map_sum_list f ys") simp_all
next
  case (Cons x xs)
  then show ?case by (cases "f x"; cases "map_sum_list f xs"; cases "map_sum_list f ys") simp_all
qed

section \<open>Characters and stripping\<close>

definition code :: "char \<Rightarrow> nat" where
  "code c = of_char c"

definition is_space :: "char \<Rightarrow> bool" where
  "is_space c \<longleftrightarrow> (let n = code c in (9 \<le> n \<and> n \<le> 13) \<or> (28 \<le> n \<and> n \<le> 32) \<or> n = 133 \<or> n = 160)"

definition is_line_break :: "char \<Rightarrow> bool" where
  "is_line_break c \<longleftrightarrow> (let n = code c in (10 \<le> n \<and> n \<le> 13) \<or> (28 \<le> n \<and> n \<le> 30) \<or> n = 133)"

definition lstrip :: "string \<Rightarrow> string" where
  "lstrip s = dropWhile is_space s"

definition strip :: "string \<Rightarrow> string" where
  "strip s = rev (dropWhile is_space (rev (dropWhile is_space s)))"

text \<open>\<open>str.lower\<close> for code points below 256.\<close>

definition lower_char :: "char \<Rightarrow> char" where
  "lower_char c = (let n = code c in
     if (65 \<le> n \<and> n \<le> 90) \<or> (192 \<le> n \<and> n \<le> 222 \<and> n \<noteq> 215) then char_of (n + 32) else c)"

definition lower :: "string \<Rightarrow> string" where
  "lower s = map lower_char s"

definition startswith :: "string \<Rightarrow> string \<Rightarrow> bool" where
  "startswith p s \<longleftrightarrow> take (length p) s = p"

lemma startswith_length: "startswith p s \<Longrightarrow> length p \<le> length s"
  unfolding startswith_def by (metis length_take min.cobounded1)

fun contains :: "string \<Rightarrow> string \<Rightarrow> bool" where
  "contains p [] = (p = [])"
| "contains p (c # cs) = (startswith p (c # cs) \<or> contains p cs)"

text \<open>\<open>str.splitlines\<close>: a line break ends a line, a carriage return swallows a line feed
  behind it, and an empty rest gives no line.\<close>

function lines_from :: "string \<Rightarrow> string \<Rightarrow> string list" where
  "lines_from cur [] = (if cur = [] then [] else [cur])"
| "lines_from cur (c # cs) =
     (if is_line_break c then
        cur # lines_from [] (if code c = 13 \<and> startswith [CHR 0x0A] cs then tl cs else cs)
      else lines_from (cur @ [c]) cs)"
  by pat_completeness auto
termination by (relation "measure (\<lambda>(_, s). length s)") auto

definition splitlines :: "string \<Rightarrow> string list" where
  "splitlines s = lines_from [] s"

fun join :: "string \<Rightarrow> string list \<Rightarrow> string" where
  "join sep [] = []"
| "join sep [x] = x"
| "join sep (x # y # ys) = x @ sep @ join sep (y # ys)"

text \<open>\<open>str.replace\<close> with a pattern that is not empty: left to right, without overlap.\<close>

function replace_all :: "string \<Rightarrow> string \<Rightarrow> string \<Rightarrow> string" where
  "replace_all old new [] = []"
| "replace_all old new (c # cs) =
     (if old \<noteq> [] \<and> startswith old (c # cs) then new @ replace_all old new (drop (length old - 1) cs)
      else c # replace_all old new cs)"
  by pat_completeness auto
termination by (relation "measure (\<lambda>(_, _, s). length s)") auto

subsection \<open>Laws of stripping\<close>

lemma strip_Nil [simp]: "strip [] = []"
  by (simp add: strip_def)

lemma dropWhile_rev_hd: "dropWhile P xs \<noteq> [] \<Longrightarrow> \<not> P (hd (dropWhile P xs))"
  by (rule hd_dropWhile)

lemma dropWhile_stable: "(xs = [] \<or> \<not> P (hd xs)) \<Longrightarrow> dropWhile P xs = xs"
  by (cases xs) auto

lemma strip_no_outer_space:
  assumes "strip s \<noteq> []"
  shows "\<not> is_space (hd (strip s))" "\<not> is_space (last (strip s))"
proof -
  let ?l = "dropWhile is_space s"
  let ?r = "dropWhile is_space (rev ?l)"
  have r: "?r \<noteq> []" using assms by (simp add: strip_def)
  show "\<not> is_space (last (strip s))"
    using hd_dropWhile [OF r] r by (simp add: strip_def last_rev)
  obtain ps where ps: "rev ?l = ps @ ?r" by (metis takeWhile_dropWhile_id)
  then have "?l = rev ?r @ rev ps" by (metis rev_append rev_rev_ident)
  then have "hd ?l = hd (rev ?r)" using r by (metis hd_append2 rev_is_Nil_conv)
  moreover have "?l \<noteq> []" using r by (metis dropWhile.simps(1) rev.simps(1))
  ultimately show "\<not> is_space (hd (strip s))"
    using hd_dropWhile [of is_space s] by (simp add: strip_def)
qed

lemma strip_stable:
  assumes "s = [] \<or> (\<not> is_space (hd s) \<and> \<not> is_space (last s))"
  shows "strip s = s"
proof (cases "s = []")
  case False
  with assms have "dropWhile is_space s = s" "dropWhile is_space (rev s) = rev s"
    by (simp_all add: dropWhile_stable hd_rev)
  then show ?thesis by (simp add: strip_def)
qed simp

lemma strip_idem [simp]: "strip (strip s) = strip s"
  using strip_no_outer_space [of s] by (intro strip_stable) auto

lemma set_dropWhile_subset: "set (dropWhile P xs) \<subseteq> set xs"
  by (auto dest: set_dropWhileD)

lemma set_strip_subset: "set (strip s) \<subseteq> set s"
proof
  fix c assume "c \<in> set (strip s)"
  then have "c \<in> set (dropWhile is_space (rev (dropWhile is_space s)))" by (simp add: strip_def)
  then have "c \<in> set (dropWhile is_space s)" by (auto dest: set_dropWhileD)
  then show "c \<in> set s" by (auto dest: set_dropWhileD)
qed

lemma lines_from_no_break:
  "l \<in> set (lines_from cur s) \<Longrightarrow> \<forall>c \<in> set cur. \<not> is_line_break c \<Longrightarrow> \<forall>c \<in> set l. \<not> is_line_break c"
  by (induction cur s rule: lines_from.induct) (auto split: if_splits)

lemma splitlines_no_break: "l \<in> set (splitlines s) \<Longrightarrow> \<forall>c \<in> set l. \<not> is_line_break c"
  unfolding splitlines_def by (drule lines_from_no_break) simp_all

section \<open>Text of a JSON value\<close>

definition hex_digit :: "nat \<Rightarrow> char" where
  "hex_digit n = (if n < 10 then char_of (48 + n) else char_of (87 + n))"

definition repr_char :: "char \<Rightarrow> char \<Rightarrow> string" where
  "repr_char q c = (let n = code c in
     if c = q \<or> n = 92 then [char_of (92 :: nat), c]
     else if n = 9 then [char_of (92 :: nat), CHR ''t'']
     else if n = 10 then [char_of (92 :: nat), CHR ''n'']
     else if n = 13 then [char_of (92 :: nat), CHR ''r'']
     else if n < 32 \<or> (127 \<le> n \<and> n \<le> 160) \<or> n = 173
       then [char_of (92 :: nat), CHR ''x'', hex_digit (n div 16), hex_digit (n mod 16)]
     else [c])"

text \<open>\<open>repr\<close> of a string: double quotes only when it holds a single quote and no double one.\<close>

definition repr_str :: "string \<Rightarrow> string" where
  "repr_str s = (let q = (if CHR 0x27 \<in> set s \<and> CHR 0x22 \<notin> set s then CHR 0x22 else CHR 0x27)
     in q # concat (map (repr_char q) s) @ [q])"

definition fmap_entries :: "(string, 'v) fmap \<Rightarrow> (string \<times> 'v) list" where
  "fmap_entries m = sorted_list_of_fmap m"

lemma fmap_entries_code [code]:
  "fmap_entries (fmap_of_list xs) = map (\<lambda>k. (k, the (map_of xs k))) (sort (remdups (map fst xs)))"
proof -
  have "sorted_list_of_fset (fmdom (fmap_of_list xs)) = sorted_list_of_set (set (map fst xs))"
    by (simp add: sorted_list_of_fset.rep_eq fmdom_of_list fset_of_list.rep_eq)
  also have "\<dots> = sort (remdups (map fst xs))"
    by (simp only: sorted_list_of_set_sort_remdups)
  finally show ?thesis
    by (simp add: fmap_entries_def sorted_list_of_fmap_def fmlookup_of_list)
qed

text \<open>An object read back from a file lists its keys in sorted order, because the program
  writes every file with \<open>sort_keys=True\<close>.\<close>

primrec py_repr :: "json \<Rightarrow> string" where
  "py_repr JNull = ''None''"
| "py_repr (JBool b) = (if b then ''True'' else ''False'')"
| "py_repr (JInt i) = int_str i"
| "py_repr (JFloat s) = s"
| "py_repr (JStr s) = repr_str s"
| "py_repr (JList xs) = ''['' @ join '', '' (map py_repr xs) @ '']''"
| "py_repr (JObj m) = ''{'' @ join '', '' (map (\<lambda>(k, t). repr_str k @ '': '' @ t) (fmap_entries (fmmap py_repr m))) @ ''}''"

definition py_str :: "json \<Rightarrow> string" where
  "py_str j = (case j of JStr s \<Rightarrow> s | _ \<Rightarrow> py_repr j)"

lemma py_str_JStr [simp]: "py_str (JStr s) = s"
  by (simp add: py_str_def)

section \<open>JSON text\<close>

definition hex4 :: "nat \<Rightarrow> string" where
  "hex4 n = ''00'' @ [hex_digit (n div 16), hex_digit (n mod 16)]"

definition json_char :: "char \<Rightarrow> string" where
  "json_char c = (let n = code c; bs = char_of (92 :: nat) in
     if n = 34 \<or> n = 92 then [bs, c]
     else if n = 8 then [bs, CHR ''b''] else if n = 9 then [bs, CHR ''t''] else if n = 10 then [bs, CHR ''n'']
     else if n = 12 then [bs, CHR ''f''] else if n = 13 then [bs, CHR ''r'']
     else if n < 32 \<or> 127 < n then [bs, CHR ''u''] @ hex4 n else [c])"

definition json_str :: "string \<Rightarrow> string" where
  "json_str s = [CHR 0x22] @ concat (map json_char s) @ [CHR 0x22]"

text \<open>\<open>json.dumps(value, sort_keys=True, separators=(",", ":"))\<close>.\<close>

primrec json_dumps :: "json \<Rightarrow> string" where
  "json_dumps JNull = ''null''"
| "json_dumps (JBool b) = (if b then ''true'' else ''false'')"
| "json_dumps (JInt i) = int_str i"
| "json_dumps (JFloat t) = (if t = ''inf'' then ''Infinity'' else if t = ''-inf'' then ''-Infinity'' else if t = ''nan'' then ''NaN'' else t)"
| "json_dumps (JStr s) = json_str s"
| "json_dumps (JList xs) = ''['' @ join '','' (map json_dumps xs) @ '']''"
| "json_dumps (JObj m) = ''{'' @ join '','' (map (\<lambda>(k, t). json_str k @ '':'' @ t) (fmap_entries (fmmap json_dumps m))) @ ''}''"

section \<open>Integer conversion\<close>

definition is_digit :: "char \<Rightarrow> bool" where
  "is_digit c \<longleftrightarrow> 48 \<le> code c \<and> code c \<le> 57"

definition digits_value :: "string \<Rightarrow> int" where
  "digits_value s = foldl (\<lambda>n c. n * 10 + (int (code c) - 48)) 0 s"

text \<open>The digits of an integer literal: single underscores may stand between digits.\<close>

fun digit_groups :: "bool \<Rightarrow> string \<Rightarrow> string option" where
  "digit_groups after_digit [] = (if after_digit then Some [] else None)"
| "digit_groups after_digit (c # cs) =
     (if is_digit c then map_option (\<lambda>ds. c # ds) (digit_groups True cs)
      else if c = CHR ''_'' \<and> after_digit then digit_groups False cs
      else None)"

definition parse_int :: "string \<Rightarrow> pyexc + int" where
  "parse_int s0 = (let s = strip s0;
       body = (if startswith ''-'' s \<or> startswith ''+'' s then tl s else s)
     in case digit_groups False body of
          None \<Rightarrow> Inl ValueErr
        | Some ds \<Rightarrow> Inr (if startswith ''-'' s then - digits_value ds else digits_value ds))"

text \<open>The double nearest to an integer: 53 significant bits, ties to even.\<close>

function bit_length :: "int \<Rightarrow> nat" where
  "bit_length n = (if n \<le> 0 then 0 else Suc (bit_length (n div 2)))"
  by pat_completeness auto
termination by (relation "measure nat") auto

declare bit_length.simps [simp del]

definition round_double :: "int \<Rightarrow> int" where
  "round_double n = (let e = bit_length n - 53; q = n div 2 ^ e; r = n mod 2 ^ e
     in if e = 0 then n
        else if 2 * r > 2 ^ e \<or> (2 * r = 2 ^ e \<and> odd q) then (q + 1) * 2 ^ e else q * 2 ^ e)"

text \<open>
  \<open>int\<close> of a float given by its shortest text: below \<open>1e16\<close> the text is positional and its
  integer digits are the result; from there on it is \<open>d.ddde+xx\<close>, an integer whose nearest
  double is meant; a negative exponent gives a value below one.
\<close>

definition float_trunc :: "string \<Rightarrow> pyexc + int" where
  "float_trunc t = (let neg = startswith ''-'' t; u = (if neg then tl t else t);
       ip = takeWhile is_digit u; rest = dropWhile is_digit u;
       fp = (if startswith ''.'' rest then takeWhile is_digit (tl rest) else []);
       ex = (if startswith ''.'' rest then dropWhile is_digit (tl rest) else rest);
       sgn = (\<lambda>n. if neg then - n else n)
     in if u = ''inf'' then Inl OverflowErr
        else if ip = [] then Inl ValueErr
        else if ex = [] then Inr (sgn (digits_value ip))
        else if startswith ''e-'' ex then Inr 0
        else Inr (sgn (round_double (digits_value (ip @ fp) * 10 ^ (nat (digits_value (drop 2 ex)) - length fp)))))"

definition py_int :: "json \<Rightarrow> pyexc + int" where
  "py_int j = (case j of JInt i \<Rightarrow> Inr i | JBool b \<Rightarrow> Inr (if b then 1 else 0)
     | JFloat t \<Rightarrow> float_trunc t | JStr s \<Rightarrow> parse_int s | _ \<Rightarrow> Inl TypeErr)"

lemma py_int_JInt [simp]: "py_int (JInt i) = Inr i"
  by (simp add: py_int_def)

section \<open>Equality\<close>

text \<open>The integer a float text stands for, if it stands for one.\<close>

definition float_integral :: "string \<Rightarrow> int option" where
  "float_integral t = (let u = (if startswith ''-'' t then tl t else t); rest = dropWhile is_digit u
     in if rest = [] \<or> \<not> is_digit (hd u) then None
        else if startswith ''.'' rest \<and> list_all (\<lambda>c. c = CHR ''0'') (tl rest) \<or> contains ''e+'' rest
        then (case float_trunc t of Inr i \<Rightarrow> Some i | Inl _ \<Rightarrow> None) else None)"

text \<open>Python compares numbers by value across \<open>bool\<close>, \<open>int\<close> and \<open>float\<close>; two JSON
  values are equal when their numbers, written as integers where they are integral, agree.\<close>

primrec py_norm :: "json \<Rightarrow> json" where
  "py_norm JNull = JNull"
| "py_norm (JBool b) = JInt (if b then 1 else 0)"
| "py_norm (JInt i) = JInt i"
| "py_norm (JFloat t) = (case float_integral t of Some i \<Rightarrow> JInt i | None \<Rightarrow> JFloat t)"
| "py_norm (JStr s) = JStr s"
| "py_norm (JList xs) = JList (map py_norm xs)"
| "py_norm (JObj m) = JObj (fmmap py_norm m)"

definition py_eq :: "json \<Rightarrow> json \<Rightarrow> bool" where
  "py_eq a b \<longleftrightarrow> py_norm a = py_norm b"

lemma py_eq_refl [simp]: "py_eq a a"
  by (simp add: py_eq_def)

lemma py_eq_trans: "py_eq a b \<Longrightarrow> py_eq b c \<Longrightarrow> py_eq a c"
  by (simp add: py_eq_def)

section \<open>Iteration\<close>

text \<open>\<open>list(value)\<close> of a JSON value: the characters of a text, the keys of an object.\<close>

definition py_list :: "json \<Rightarrow> pyexc + json list" where
  "py_list j = (case j of JList xs \<Rightarrow> Inr xs | JStr s \<Rightarrow> Inr (map (\<lambda>c. JStr [c]) s)
     | JObj m \<Rightarrow> Inr (map (JStr \<circ> fst) (fmap_entries m)) | _ \<Rightarrow> Inl TypeErr)"

text \<open>\<open>list.sort(key=f)\<close> with a key that may raise: all keys are computed first, and the
  sort is stable.\<close>

definition sort_by :: "('a \<Rightarrow> pyexc + int) \<Rightarrow> 'a list \<Rightarrow> pyexc + 'a list" where
  "sort_by f xs = bind_sum (map_sum_list f xs) (\<lambda>ks. Inr (map snd (sort_key fst (zip ks xs))))"

section \<open>Mappings\<close>

text \<open>\<open>m.get(key, default)\<close>.\<close>

definition jget :: "meta \<Rightarrow> string \<Rightarrow> json \<Rightarrow> json" where
  "jget m k d = (case fmlookup m k of Some v \<Rightarrow> v | None \<Rightarrow> d)"

text \<open>One element of an iterable given to \<open>dict(...)\<close>: it must have exactly two parts.\<close>

definition dict_item :: "json \<Rightarrow> pyexc + (string \<times> json)" where
  "dict_item j = (case j of
       JList [JStr k, v] \<Rightarrow> Inr (k, v)
     | JStr [a, b] \<Rightarrow> Inr ([a], JStr [b])
     | JObj m \<Rightarrow> (case map fst (fmap_entries m) of [a, b] \<Rightarrow> Inr (a, JStr b) | _ \<Rightarrow> Inl ValueErr)
     | JList _ \<Rightarrow> Inl ValueErr
     | JStr _ \<Rightarrow> Inl ValueErr
     | _ \<Rightarrow> Inl TypeErr)"

text \<open>\<open>dict(value)\<close> of a JSON value.\<close>

definition py_dict :: "json \<Rightarrow> pyexc + meta" where
  "py_dict j = (case j of
       JObj m \<Rightarrow> Inr m
     | JList xs \<Rightarrow> bind_sum (map_sum_list dict_item xs) (\<lambda>ps. Inr (fmap_of_list (rev ps)))
     | JStr s \<Rightarrow> if s = [] then Inr fmempty else Inl ValueErr
     | _ \<Rightarrow> Inl TypeErr)"

lemma py_dict_JObj [simp]: "py_dict (JObj m) = Inr m"
  by (simp add: py_dict_def)

end
