(* ===== verification/Domain.thy ===== *)
theory Domain
  imports PyText
begin

text \<open>
  The records and enumerations of \<open>domain/schema.py\<close> that the runtime passes around:
  structured errors, tasks, jobs, events, journals and the compiled workflow.  A field typed
  \<open>Enum | str\<close> is a sum of the enumeration and the plain text; \<open>.value\<close> or
  \<open>str(...)\<close> is its text.
\<close>

section \<open>Errors\<close>

type_synonym msg = "json frag list"

record domain_error =
  err_code :: string
  err_message :: msg
  err_location :: "string option"

abbreviation derror :: "string \<Rightarrow> msg \<Rightarrow> string option \<Rightarrow> domain_error" where
  "derror c m l \<equiv> \<lparr>err_code = c, err_message = m, err_location = l\<rparr>"

record validation_error =
  ve_path :: "string option"
  ve_location :: string
  ve_message :: msg

type_synonym validation_report = "validation_error list"

definition report_is_valid :: "validation_report \<Rightarrow> bool" where
  "report_is_valid r \<longleftrightarrow> length r = 0"

definition report_add_error :: "string \<Rightarrow> msg \<Rightarrow> string option \<Rightarrow> validation_report \<Rightarrow> validation_report" where
  "report_add_error loc m p r = r @ [\<lparr>ve_path = p, ve_location = loc, ve_message = m\<rparr>]"

text \<open>The text of a message, given the text of the exception it quotes.\<close>

fun json_type_name :: "json \<Rightarrow> string" where
  "json_type_name JNull = ''NoneType''"
| "json_type_name (JBool b) = ''bool''"
| "json_type_name (JInt i) = ''int''"
| "json_type_name (JFloat t) = ''float''"
| "json_type_name (JStr s) = ''str''"
| "json_type_name (JList xs) = ''list''"
| "json_type_name (JObj m) = ''dict''"

fun frag_text :: "string \<Rightarrow> json frag \<Rightarrow> string" where
  "frag_text exc (Txt s) = s"
| "frag_text exc (ReprS s) = repr_str s"
| "frag_text exc (Repr j) = py_repr j"
| "frag_text exc (TypeName j) = json_type_name j"
| "frag_text exc (Num i) = int_str i"
| "frag_text exc ExcText = exc"

definition msg_text :: "string \<Rightarrow> msg \<Rightarrow> string" where
  "msg_text exc m = concat (map (frag_text exc) m)"

section \<open>File writes\<close>

text \<open>A durable write succeeds, fails before the content is in place, or fails after it, when
  it cannot be synchronised: then the new content is there although an error is raised.\<close>

datatype write_fate = WriteOk | WriteFails | SyncFails

section \<open>Tasks\<close>

record task =
  t_id :: string
  t_title :: string
  t_path :: string
  t_current_state :: string
  t_task_type :: string
  t_dependencies :: "string list"
  t_artifact_links :: "string list"
  t_parent_id :: "string option"
  t_metadata :: meta
  t_body :: string

record board_position =
  bp_board :: string
  bp_column :: string
  bp_card_text :: string
  bp_line :: int

record project_snapshot =
  snap_project_id :: string
  snap_tasks :: "(string \<times> task) list"
  snap_board_positions :: "(string \<times> board_position) list"

section \<open>Execution jobs\<close>

datatype job_status = PENDING | RUNNING | COMPLETION_SUBMITTED | COMPLETION_REJECTED
  | ACCEPTED | FAILED | STALE | CANCELLED

fun job_status_value :: "job_status \<Rightarrow> string" where
  "job_status_value PENDING = ''pending''"
| "job_status_value RUNNING = ''running''"
| "job_status_value COMPLETION_SUBMITTED = ''completion_submitted''"
| "job_status_value COMPLETION_REJECTED = ''completion_rejected''"
| "job_status_value ACCEPTED = ''accepted''"
| "job_status_value FAILED = ''failed''"
| "job_status_value STALE = ''stale''"
| "job_status_value CANCELLED = ''cancelled''"

lemma job_status_value_inj [simp]: "job_status_value a = job_status_value b \<longleftrightarrow> a = b"
  by (cases a; cases b) simp_all

lemma job_status_value_nonempty [simp]: "job_status_value a \<noteq> []"
  by (cases a) simp_all

record execution_job =
  j_job_id :: string
  j_project_id :: string
  j_task_id :: string
  j_transition_id :: string
  j_worker_id :: string
  j_workspace_path :: string
  j_status :: "job_status + string"
  j_attempts :: int
  j_metadata :: meta

section \<open>Events and journals\<close>

datatype event_type = TaskValidated | ValidationFailed | TransitionRequested | TransitionAccepted
  | TransitionRejected | TaskMoved | ArtifactWritten | ExecutionJobCreated | ExecutionStarted
  | ExecutionCompletionSubmitted | ExecutionCompletionRejected | ExecutionFinished
  | ExecutionFailed | ReviewRequested | TaskDerived | TransactionFailed | OperationStarted
  | OperationFinished | OperationFailed | ContractInvalidated

fun event_type_value :: "event_type \<Rightarrow> string" where
  "event_type_value TaskValidated = ''TaskValidated''"
| "event_type_value ValidationFailed = ''ValidationFailed''"
| "event_type_value TransitionRequested = ''TransitionRequested''"
| "event_type_value TransitionAccepted = ''TransitionAccepted''"
| "event_type_value TransitionRejected = ''TransitionRejected''"
| "event_type_value TaskMoved = ''TaskMoved''"
| "event_type_value ArtifactWritten = ''ArtifactWritten''"
| "event_type_value ExecutionJobCreated = ''ExecutionJobCreated''"
| "event_type_value ExecutionStarted = ''ExecutionStarted''"
| "event_type_value ExecutionCompletionSubmitted = ''ExecutionCompletionSubmitted''"
| "event_type_value ExecutionCompletionRejected = ''ExecutionCompletionRejected''"
| "event_type_value ExecutionFinished = ''ExecutionFinished''"
| "event_type_value ExecutionFailed = ''ExecutionFailed''"
| "event_type_value ReviewRequested = ''ReviewRequested''"
| "event_type_value TaskDerived = ''TaskDerived''"
| "event_type_value TransactionFailed = ''TransactionFailed''"
| "event_type_value OperationStarted = ''OperationStarted''"
| "event_type_value OperationFinished = ''OperationFinished''"
| "event_type_value OperationFailed = ''OperationFailed''"
| "event_type_value ContractInvalidated = ''ContractInvalidated''"

datatype journal_status = J_PREPARED | J_COMMITTED | J_FAILED

fun journal_status_value :: "journal_status \<Rightarrow> string" where
  "journal_status_value J_PREPARED = ''prepared''"
| "journal_status_value J_COMMITTED = ''committed''"
| "journal_status_value J_FAILED = ''failed''"

record event_actor =
  actor_type :: string
  actor_id :: string

record event_envelope =
  ev_event_id :: string
  ev_schema_version :: int
  ev_timestamp :: string
  ev_project_id :: string
  ev_actor :: event_actor
  ev_type :: "event_type + string"
  ev_correlation_id :: string
  ev_task_id :: "string option"
  ev_job_id :: "string option"
  ev_transition_id :: "string option"
  ev_submission_id :: "string option"
  ev_data :: meta

record transaction_journal =
  jn_journal_id :: string
  jn_project_id :: string
  jn_started_at :: string
  jn_effects :: "meta list"
  jn_events :: "event_envelope list"
  jn_status :: "journal_status + string"
  jn_task_id :: "string option"
  jn_transition_id :: "string option"
  jn_completed_at :: "string option"
  jn_error :: "domain_error option"
  jn_context :: meta

section \<open>The compiled workflow\<close>

record arg_definition =
  ad_type :: string
  ad_required :: bool
  ad_many :: bool

record state_definition =
  sd_id :: string
  sd_terminal_outcome :: "string option"

record validation_call_definition =
  vc_type :: string
  vc_args :: "(string \<times> json) list"

record operation_call_definition =
  oc_op :: string
  oc_args :: "(string \<times> json) list"

record requirement_definition =
  rd_artifacts :: "string list"
  rd_validations :: "validation_call_definition list"
  rd_changed_files_required :: bool

record derives_definition =
  dd_task_type :: string
  dd_state :: string
  dd_artifact_type :: string
  dd_required :: bool
  dd_parent_to_if_derived :: "string option"

record transition_definition =
  td_id :: string
  td_task_type :: string
  td_from_state :: string
  td_to_state :: string
  td_worker :: "string option"
  td_requires :: requirement_definition
  td_transaction :: "operation_call_definition list option"
  td_derives :: "derives_definition option"
  td_default_for_scheduler :: bool
  td_instructions :: "string list"
  td_review :: "bool option"

record task_type_definition =
  ttd_id :: string
  ttd_requirements_by_state :: "(string \<times> requirement_definition) list"
  ttd_instructions :: "string list"

record artifact_type_definition =
  atd_id :: string
  atd_template :: "string option"

record validation_type_definition =
  vtd_id :: string
  vtd_args :: "(string \<times> arg_definition) list"
  vtd_implementation_id :: string

record operation_type_definition =
  otd_id :: string
  otd_args :: "(string \<times> arg_definition) list"
  otd_implementation_id :: string

record worker_definition =
  wd_id :: string
  wd_type :: "string option"
  wd_implementation_id :: "string option"
  wd_instructions :: "string list"

record workflow_definition =
  wf_schema_version :: int
  wf_states :: "(string \<times> state_definition) list"
  wf_task_types :: "(string \<times> task_type_definition) list"
  wf_artifact_types :: "(string \<times> artifact_type_definition) list"
  wf_validation_types :: "(string \<times> validation_type_definition) list"
  wf_operation_types :: "(string \<times> operation_type_definition) list"
  wf_workers :: "(string \<times> worker_definition) list"
  wf_transitions :: "(string \<times> transition_definition) list"
  wf_storage :: "(string \<times> json) list option"

end
