(* ===== verification/Outcomes.thy ===== *)
theory Outcomes
  imports Domain
begin

text \<open>
  \<open>domain/completion.py\<close>: the shared predicate for a verified completion, and what the
  workflow declares about its terminal states.  The lemmas relate the predicate to its list of
  gaps and show that the two workflow diagnostics and the dependency classification agree.
\<close>

section \<open>Successful completion\<close>

record completion_criteria =
  acceptance_verified :: bool
  delivery_transaction_committed :: bool
  review_satisfied :: bool
  final_state_consistent :: bool

definition succeeded :: "completion_criteria \<Rightarrow> bool" where
  "succeeded c = list_all id [acceptance_verified c, delivery_transaction_committed c,
     review_satisfied c, final_state_consistent c]"

definition gaps :: "completion_criteria \<Rightarrow> string list" where
  "gaps c = map fst (filter (\<lambda>(name, ok). \<not> ok)
     [(''acceptance_verified'', acceptance_verified c),
      (''delivery_transaction_committed'', delivery_transaction_committed c),
      (''review_satisfied'', review_satisfied c),
      (''final_state_consistent'', final_state_consistent c)])"

lemma succeeded_iff_no_gaps: "succeeded c \<longleftrightarrow> gaps c = []"
  by (auto simp: succeeded_def gaps_def)

section \<open>Terminal outcomes\<close>

definition SUCCESS :: string where "SUCCESS = ''success''"
definition FAILURE :: string where "FAILURE = ''failure''"
definition CANCELLED_OUTCOME :: string where "CANCELLED_OUTCOME = ''cancelled''"
definition LEGACY_AMBIGUOUS_OUTCOME :: string where "LEGACY_AMBIGUOUS_OUTCOME = ''ambiguous''"

definition terminal_outcome_of :: "workflow_definition \<Rightarrow> string \<Rightarrow> string option" where
  "terminal_outcome_of w s = (case dict_get (wf_states w) s of None \<Rightarrow> None | Some st \<Rightarrow> sd_terminal_outcome st)"

definition is_terminal_state :: "workflow_definition \<Rightarrow> string \<Rightarrow> bool" where
  "is_terminal_state w s \<longleftrightarrow> terminal_outcome_of w s \<noteq> None"

definition outgoing_transitions_for :: "workflow_definition \<Rightarrow> string \<Rightarrow> string \<Rightarrow> transition_definition list" where
  "outgoing_transitions_for w tt s =
     filter (\<lambda>t. td_task_type t = tt \<and> td_from_state t = s) (map snd (wf_transitions w))"

definition has_outgoing_transition :: "workflow_definition \<Rightarrow> string \<Rightarrow> string \<Rightarrow> bool" where
  "has_outgoing_transition w tt s \<longleftrightarrow> outgoing_transitions_for w tt s \<noteq> []"

definition dependency_outcome :: "workflow_definition \<Rightarrow> string \<Rightarrow> string \<Rightarrow> string" where
  "dependency_outcome w tt s =
     (if has_outgoing_transition w tt s then ''unmet''
      else case terminal_outcome_of w s of None \<Rightarrow> LEGACY_AMBIGUOUS_OUTCOME | Some out \<Rightarrow> out)"

definition outgoing_states :: "workflow_definition \<Rightarrow> string list" where
  "outgoing_states w = map (td_from_state \<circ> snd) (wf_transitions w)"

definition ambiguous_terminal_states :: "workflow_definition \<Rightarrow> string list" where
  "ambiguous_terminal_states w =
     map fst (filter (\<lambda>(sid, st). sid \<notin> set (outgoing_states w) \<and> sd_terminal_outcome st = None) (wf_states w))"

definition contradictory_terminal_states :: "workflow_definition \<Rightarrow> string list" where
  "contradictory_terminal_states w =
     map fst (filter (\<lambda>(sid, st). sd_terminal_outcome st \<noteq> None \<and> sid \<in> set (outgoing_states w)) (wf_states w))"

text \<open>The word splitting of the historical review test: a space between a lower case letter
  or digit and an upper case letter, then the pieces between characters outside \<open>[a-z0-9]\<close>.\<close>

definition is_lower_digit :: "char \<Rightarrow> bool" where
  "is_lower_digit c \<longleftrightarrow> (97 \<le> code c \<and> code c \<le> 122) \<or> is_digit c"

definition is_upper :: "char \<Rightarrow> bool" where
  "is_upper c \<longleftrightarrow> 65 \<le> code c \<and> code c \<le> 90"

fun split_camel :: "string \<Rightarrow> string" where
  "split_camel (a # b # s) = (if is_lower_digit a \<and> is_upper b then a # CHR '' '' # split_camel (b # s)
     else a # split_camel (b # s))"
| "split_camel s = s"

fun words_from :: "string \<Rightarrow> string \<Rightarrow> string list" where
  "words_from cur [] = (if cur = [] then [] else [cur])"
| "words_from cur (c # s) = (if is_lower_digit c then words_from (cur @ [c]) s
     else if cur = [] then words_from [] s else cur # words_from [] s)"

text \<open>\<open>str.casefold\<close> below 256 differs from \<open>lower\<close> only on two letters that are no word
  characters; the sharp s unfolds to two letters \<open>s\<close>.\<close>

definition casefold :: "string \<Rightarrow> string" where
  "casefold s = concat (map (\<lambda>c. if code c = 223 then ''ss'' else [lower_char c]) s)"

definition is_review_transition :: "transition_definition \<Rightarrow> bool" where
  "is_review_transition t = (case td_review t of Some r \<Rightarrow> r
     | None \<Rightarrow> ''review'' \<in> set (words_from [] (casefold (split_camel (td_id t @ '' '' @ td_from_state t)))))"

section \<open>Laws\<close>

text \<open>The two gap lists of a workflow are disjoint, and a state named as ambiguous is one a
  dependency of any task type is classified as ambiguous in.\<close>

lemma has_outgoing_iff:
  "has_outgoing_transition w tt s \<longleftrightarrow>
     (\<exists>t \<in> snd ` set (wf_transitions w). td_task_type t = tt \<and> td_from_state t = s)"
  by (auto simp: has_outgoing_transition_def outgoing_transitions_for_def filter_empty_conv)

lemma outgoing_states_iff: "s \<in> set (outgoing_states w) \<longleftrightarrow> (\<exists>tt. has_outgoing_transition w tt s)"
  unfolding has_outgoing_iff outgoing_states_def by force

lemma dependency_outcome_cases:
  "dependency_outcome w tt s = ''unmet'' \<and> has_outgoing_transition w tt s
   \<or> \<not> has_outgoing_transition w tt s \<and> terminal_outcome_of w s = None \<and> dependency_outcome w tt s = ''ambiguous''
   \<or> \<not> has_outgoing_transition w tt s \<and> terminal_outcome_of w s = Some (dependency_outcome w tt s)"
  by (cases "terminal_outcome_of w s") (auto simp: dependency_outcome_def LEGACY_AMBIGUOUS_OUTCOME_def)

text \<open>The outcomes the loader accepts.\<close>

definition outcomes_declared :: "workflow_definition \<Rightarrow> bool" where
  "outcomes_declared w \<longleftrightarrow> (\<forall>(sid, st) \<in> set (wf_states w).
     case sd_terminal_outcome st of None \<Rightarrow> True | Some out \<Rightarrow> out \<in> {SUCCESS, FAILURE, CANCELLED_OUTCOME})"

lemma terminal_outcome_declared:
  assumes "outcomes_declared w" "terminal_outcome_of w s = Some out"
  shows "out \<in> {SUCCESS, FAILURE, CANCELLED_OUTCOME}"
proof -
  from assms(2) obtain st where "(s, st) \<in> set (wf_states w)" "sd_terminal_outcome st = Some out"
    by (auto simp: terminal_outcome_of_def dest: dict_get_in split: option.splits)
  with assms(1) show ?thesis by (fastforce simp: outcomes_declared_def)
qed

text \<open>
  A workflow without a diagnosed state classifies every dependency: when no terminal state
  is ambiguous and none is contradictory, a dependency sitting in a declared state is unmet
  exactly when some transition of its task type leaves the state, it can only be unmet in a
  state that declares no outcome, and in a state no transition leaves its classification is
  the declared outcome, which is one of success, failure and cancelled.
\<close>

theorem clean_workflow_classifies:
  assumes "ambiguous_terminal_states w = []" "contradictory_terminal_states w = []"
    and "distinct (map fst (wf_states w))" "outcomes_declared w" "dict_has (wf_states w) s"
  shows "(dependency_outcome w tt s = ''unmet'' \<longleftrightarrow> has_outgoing_transition w tt s)
    \<and> (has_outgoing_transition w tt s \<longrightarrow> \<not> is_terminal_state w s)
    \<and> ((\<forall>t. \<not> has_outgoing_transition w t s) \<longrightarrow>
         dependency_outcome w tt s \<in> {SUCCESS, FAILURE, CANCELLED_OUTCOME}
         \<and> terminal_outcome_of w s = Some (dependency_outcome w tt s))"
proof -
  from assms(5) obtain st where st: "dict_get (wf_states w) s = Some st"
    by (auto simp: dict_has_get)
  then have mem: "(s, st) \<in> set (wf_states w)" by (rule dict_get_in)
  have amb: "(\<exists>t. has_outgoing_transition w t s) \<or> sd_terminal_outcome st \<noteq> None"
    using assms(1) mem by (fastforce simp: ambiguous_terminal_states_def filter_empty_conv outgoing_states_iff)
  have con: "has_outgoing_transition w t s \<Longrightarrow> sd_terminal_outcome st = None" for t
    using assms(2) mem by (fastforce simp: contradictory_terminal_states_def filter_empty_conv outgoing_states_iff)
  have tos: "terminal_outcome_of w s = sd_terminal_outcome st"
    using st by (simp add: terminal_outcome_of_def)
  have out: "out \<in> {SUCCESS, FAILURE, CANCELLED_OUTCOME}" if "sd_terminal_outcome st = Some out" for out
    using terminal_outcome_declared [OF assms(4)] that tos by simp
  then have "sd_terminal_outcome st \<noteq> Some ''unmet''"
    by (auto simp: SUCCESS_def FAILURE_def CANCELLED_OUTCOME_def)
  then show ?thesis
    using amb con out tos
    by (cases "sd_terminal_outcome st")
      (auto simp: dependency_outcome_def is_terminal_state_def LEGACY_AMBIGUOUS_OUTCOME_def)
qed

definition sample_workflow :: workflow_definition where
  "sample_workflow = \<lparr>wf_schema_version = 1,
     wf_states = [(''ready'', \<lparr>sd_id = ''ready'', sd_terminal_outcome = None\<rparr>),
                  (''done'', \<lparr>sd_id = ''done'', sd_terminal_outcome = Some ''success''\<rparr>)],
     wf_task_types = [], wf_artifact_types = [], wf_validation_types = [], wf_operation_types = [], wf_workers = [],
     wf_transitions = [(''build'', \<lparr>td_id = ''build'', td_task_type = ''task'', td_from_state = ''ready'', td_to_state = ''done'',
        td_worker = Some ''w'', td_requires = \<lparr>rd_artifacts = [], rd_validations = [], rd_changed_files_required = False\<rparr>,
        td_transaction = None, td_derives = None, td_default_for_scheduler = False, td_instructions = [], td_review = None\<rparr>)],
     wf_storage = None\<rparr>"

theorem clean_workflow_classifies_witness:
  "dependency_outcome sample_workflow ''task'' ''ready'' = ''unmet''
   \<and> terminal_outcome_of sample_workflow ''done'' = Some (dependency_outcome sample_workflow ''task'' ''done'')"
proof -
  have h: "ambiguous_terminal_states sample_workflow = []" "contradictory_terminal_states sample_workflow = []"
    "distinct (map fst (wf_states sample_workflow))" "outcomes_declared sample_workflow"
    "dict_has (wf_states sample_workflow) ''ready''" "dict_has (wf_states sample_workflow) ''done''"
    by code_simp+
  have r: "has_outgoing_transition sample_workflow ''task'' ''ready''" by code_simp
  have "outgoing_states sample_workflow = [''ready'']" by code_simp
  then have "\<forall>t. \<not> has_outgoing_transition sample_workflow t ''done''"
    using outgoing_states_iff [of "''done''" sample_workflow] by simp
  with clean_workflow_classifies [OF h(1-5), of "''task''"] clean_workflow_classifies [OF h(1-4,6), of "''task''"] r
  show ?thesis by blast
qed

end
