(* ===== verification/TaskSchema.thy ===== *)
theory TaskSchema
  imports Domain
begin

text \<open>
  \<open>vault/task_schema.py\<close>: the parser of a task body and its two presence checks.  The parser
  loop is \<open>parse_step\<close> folded over the lines; its state holds the title, the description
  lines, the sections collected so far and whether a section is open (the current index is
  always the last section).  The lemmas give the shape of what the parser returns and read the
  checks as statements about the parsed body.
\<close>

section \<open>Parsing\<close>

record task_section =
  sec_name :: string
  sec_content :: "string list"

record parsed_body =
  pb_title :: "string option"
  pb_description_lines :: "string list"
  pb_sections :: "task_section list"

record parse_state =
  ps_body :: parsed_body
  ps_open :: bool

definition hash1 :: string where "hash1 = ''# ''"
definition hash2 :: string where "hash2 = ''## ''"

definition append_line :: "string \<Rightarrow> task_section list \<Rightarrow> task_section list" where
  "append_line l ss = (if ss = [] then ss
     else butlast ss @ [(last ss)\<lparr>sec_content := sec_content (last ss) @ [l]\<rparr>])"

definition parse_step :: "parse_state \<Rightarrow> string \<Rightarrow> parse_state" where
  "parse_step st raw = (let stripped = strip raw; b = ps_body st in
     if startswith hash1 stripped then
       \<lparr>ps_body = b\<lparr>pb_title := (case pb_title b of None \<Rightarrow> Some (strip (drop 2 stripped)) | Some t \<Rightarrow> Some t)\<rparr>,
        ps_open = False\<rparr>
     else if startswith hash2 stripped then
       \<lparr>ps_body = b\<lparr>pb_sections := pb_sections b @ [\<lparr>sec_name = strip (drop 3 stripped), sec_content = []\<rparr>]\<rparr>,
        ps_open = True\<rparr>
     else if stripped = [] then st
     else if ps_open st then st\<lparr>ps_body := b\<lparr>pb_sections := append_line stripped (pb_sections b)\<rparr>\<rparr>
     else st\<lparr>ps_body := b\<lparr>pb_description_lines := pb_description_lines b @ [stripped]\<rparr>\<rparr>)"

definition parse_start :: parse_state where
  "parse_start = \<lparr>ps_body = \<lparr>pb_title = None, pb_description_lines = [], pb_sections = []\<rparr>, ps_open = False\<rparr>"

definition parse_task_body :: "string \<Rightarrow> parsed_body" where
  "parse_task_body body = ps_body (foldl parse_step parse_start (splitlines body))"

text \<open>\<open>duplicate_heading_names\<close> and \<open>content_by_heading\<close>.\<close>

fun duplicates_from :: "string set \<Rightarrow> string list \<Rightarrow> string list" where
  "duplicates_from seen [] = []"
| "duplicates_from seen (n # ns) = (if n \<in> seen then [n] else []) @ duplicates_from (insert n seen) ns"

definition duplicate_heading_names :: "parsed_body \<Rightarrow> string list" where
  "duplicate_heading_names p = duplicates_from {} (map sec_name (pb_sections p))"

definition content_by_heading :: "parsed_body \<Rightarrow> (string \<times> string list) list" where
  "content_by_heading p = foldl (\<lambda>d s. dict_set (sec_name s)
      ((case dict_get d (sec_name s) of None \<Rightarrow> [] | Some ls \<Rightarrow> ls) @ sec_content s) d) [] (pb_sections p)"

section \<open>Checks\<close>

definition SECTION_MISSING :: string where "SECTION_MISSING = ''task.section_missing''"
definition SECTION_EMPTY :: string where "SECTION_EMPTY = ''task.section_empty''"
definition ACCEPTANCE_CRITERIA_MISSING :: string where
  "ACCEPTANCE_CRITERIA_MISSING = ''task.acceptance_criteria_missing''"
definition ACCEPTANCE_RUN_FORBIDDEN :: string where
  "ACCEPTANCE_RUN_FORBIDDEN = ''task.acceptance_run_forbidden''"
definition TITLE_MISSING :: string where "TITLE_MISSING = ''task.title_missing''"
definition DUPLICATE_HEADING :: string where "DUPLICATE_HEADING = ''task.duplicate_heading''"

datatype required_section = Why | What | How | Acceptance

fun section_title :: "required_section \<Rightarrow> string" where
  "section_title Why = ''Why''"
| "section_title What = ''What''"
| "section_title How = ''How''"
| "section_title Acceptance = ''Acceptance''"

definition REQUIRED_SECTIONS :: "required_section list" where
  "REQUIRED_SECTIONS = [Why, What, How, Acceptance]"

definition has_content :: "string list \<Rightarrow> bool" where
  "has_content ls = list_ex (\<lambda>l. strip l \<noteq> []) ls"

definition validate_task_structure :: "string \<Rightarrow> string option \<Rightarrow> bool \<Rightarrow> domain_error list" where
  "validate_task_structure body loc require_title = (let p = parse_task_body body in
     (if require_title \<and> (pb_title p = None \<or> pb_title p = Some [])
      then [derror TITLE_MISSING [Txt ''Task body is missing a Markdown H1 title (e.g. `# Concrete outcome`).''] loc]
      else [])
     @ map (\<lambda>n. derror DUPLICATE_HEADING [Txt ''Duplicate task section heading `## '', Txt n,
          Txt ''`; section headings must appear exactly once.''] loc) (duplicate_heading_names p))"

definition is_selector :: "string \<Rightarrow> bool" where
  "is_selector l \<longleftrightarrow> startswith ''accepts:'' l \<or> startswith ''accepts_if:'' l \<or> startswith ''run:'' l"

definition skip_line :: "string \<Rightarrow> bool" where
  "skip_line l \<longleftrightarrow> strip l = [] \<or> startswith hash1 (strip l)"

definition acceptance_lines :: "string list \<Rightarrow> string list" where
  "acceptance_lines ls = filter (\<lambda>l. \<not> skip_line l) ls"

definition validate_acceptance :: "string list \<Rightarrow> string option \<Rightarrow> domain_error list" where
  "validate_acceptance content loc = (let ls = map strip (acceptance_lines content);
       selectors = filter is_selector ls;
       selector_seen = (selectors \<noteq> []);
       free_prose = list_ex (\<lambda>l. \<not> is_selector l) ls
     in map (\<lambda>_. derror ACCEPTANCE_RUN_FORBIDDEN [Txt ''Per-task acceptance command selectors (`accepts:`, `accepts_if:`, `run:`) are not allowed; verification commands are global at the project level and apply to every implementation task.''] loc) selectors
        @ (if \<not> selector_seen \<and> \<not> free_prose
           then [derror ACCEPTANCE_CRITERIA_MISSING [Txt ''The ## Acceptance section has no per-task acceptance criteria as prose.''] loc]
           else []))"

definition validate_section :: "(string \<times> string list) list \<Rightarrow> string option \<Rightarrow> required_section \<Rightarrow> domain_error list" where
  "validate_section sections loc name = (case dict_get sections (section_title name) of
       None \<Rightarrow> [derror SECTION_MISSING [Txt ''Task is missing the required ## '', Txt (section_title name), Txt '' section.''] loc]
     | Some content \<Rightarrow>
         if name = Acceptance then validate_acceptance content loc
         else if \<not> has_content content
           then [derror SECTION_EMPTY [Txt ''The ## '', Txt (section_title name), Txt '' section is present but empty.''] loc]
         else [])"

definition validate_task_schema :: "string \<Rightarrow> string option \<Rightarrow> domain_error list" where
  "validate_task_schema body loc = (let p = parse_task_body body in
     validate_task_structure body loc False
     @ (if \<not> has_content (pb_description_lines p)
        then [derror SECTION_MISSING [Txt ''Task is missing the required one-or-two-sentence description.''] loc]
        else [])
     @ concat (map (validate_section (content_by_heading p) loc) REQUIRED_SECTIONS))"

section \<open>What the parser returns\<close>

definition clean_line :: "string \<Rightarrow> bool" where
  "clean_line l \<longleftrightarrow> l \<noteq> [] \<and> strip l = l \<and> \<not> startswith hash1 l \<and> \<not> startswith hash2 l
     \<and> (\<forall>c \<in> set l. \<not> is_line_break c)"

definition clean_parse :: "parsed_body \<Rightarrow> bool" where
  "clean_parse p \<longleftrightarrow> (\<forall>l \<in> set (pb_description_lines p). clean_line l)
     \<and> (\<forall>s \<in> set (pb_sections p). (\<forall>l \<in> set (sec_content s). clean_line l) \<and> strip (sec_name s) = sec_name s)
     \<and> (case pb_title p of None \<Rightarrow> True | Some t \<Rightarrow> strip t = t)"

definition parse_inv :: "parse_state \<Rightarrow> bool" where
  "parse_inv st \<longleftrightarrow> clean_parse (ps_body st) \<and> (ps_open st \<longrightarrow> pb_sections (ps_body st) \<noteq> [])"

lemma append_line_clean:
  assumes "ss \<noteq> []" "clean_line l"
    "\<forall>s \<in> set ss. (\<forall>l \<in> set (sec_content s). clean_line l) \<and> strip (sec_name s) = sec_name s"
  shows "\<forall>s \<in> set (append_line l ss). (\<forall>l \<in> set (sec_content s). clean_line l) \<and> strip (sec_name s) = sec_name s"
  using assms by (auto simp: append_line_def dest: in_set_butlastD)

lemma append_line_nonempty [simp]: "append_line l ss = [] \<longleftrightarrow> ss = []"
  by (simp add: append_line_def)

lemma stripped_clean_line:
  assumes "\<forall>c \<in> set raw. \<not> is_line_break c" "strip raw \<noteq> []"
    "\<not> startswith hash1 (strip raw)" "\<not> startswith hash2 (strip raw)"
  shows "clean_line (strip raw)"
  using assms set_strip_subset [of raw] by (auto simp: clean_line_def)

lemma parse_step_inv [inv_intros]:
  assumes "parse_inv st" "\<forall>c \<in> set raw. \<not> is_line_break c"
  shows "parse_inv (parse_step st raw)"
proof -
  have cl: "clean_line (strip raw)"
    if "strip raw \<noteq> []" "\<not> startswith hash1 (strip raw)" "\<not> startswith hash2 (strip raw)"
    using stripped_clean_line [OF assms(2)] that by blast
  consider "startswith hash1 (strip raw)"
    | "\<not> startswith hash1 (strip raw)" "startswith hash2 (strip raw)"
    | "\<not> startswith hash1 (strip raw)" "\<not> startswith hash2 (strip raw)" "strip raw = []"
    | "\<not> startswith hash1 (strip raw)" "\<not> startswith hash2 (strip raw)" "strip raw \<noteq> []"
    by blast
  then show ?thesis
  proof cases
    case 1
    with assms(1) show ?thesis
      by (cases "pb_title (ps_body st)") (simp_all add: parse_step_def Let_def parse_inv_def clean_parse_def)
  next
    case 2
    with assms(1) show ?thesis
      by (auto simp: parse_step_def Let_def parse_inv_def clean_parse_def split: option.split)
  next
    case 3
    with assms(1) show ?thesis by (simp add: parse_step_def Let_def)
  next
    case 4
    with cl have c: "clean_line (strip raw)" by blast
    from 4 assms(1) show ?thesis
      using append_line_clean [OF _ c, of "pb_sections (ps_body st)"]
      by (cases "ps_open st") (simp_all add: parse_step_def Let_def parse_inv_def clean_parse_def c)
  qed
qed

lemma foldl_parse_inv:
  "parse_inv st \<Longrightarrow> \<forall>l \<in> set ls. \<forall>c \<in> set l. \<not> is_line_break c \<Longrightarrow> parse_inv (foldl parse_step st ls)"
  by (induction ls arbitrary: st) (simp_all add: parse_step_inv)

lemma parse_task_body_clean: "clean_parse (parse_task_body body)"
proof -
  have "parse_inv parse_start" by (simp add: parse_inv_def clean_parse_def parse_start_def)
  then have "parse_inv (foldl parse_step parse_start (splitlines body))"
    by (intro foldl_parse_inv) (auto dest: splitlines_no_break)
  then show ?thesis by (simp add: parse_task_body_def parse_inv_def)
qed

section \<open>What the checks decide\<close>

lemma filter_named_none: "n \<notin> f ` set xs \<Longrightarrow> filter (\<lambda>y. f y = n) xs = []"
  by (force simp: filter_empty_conv)

lemma filter_named_distinct:
  assumes "distinct (map f xs)" "x \<in> set xs"
  shows "filter (\<lambda>y. f y = f x) xs = [x]"
  using assms by (induction xs) (auto simp: filter_named_none)

lemma content_by_heading_foldl:
  "dict_get (foldl (\<lambda>d s. dict_set (sec_name s)
      ((case dict_get d (sec_name s) of None \<Rightarrow> [] | Some ls \<Rightarrow> ls) @ sec_content s) d) d0 ss) n
   = (if n \<in> sec_name ` set ss
      then Some ((case dict_get d0 n of None \<Rightarrow> [] | Some ls \<Rightarrow> ls)
             @ concat (map sec_content (filter (\<lambda>s. sec_name s = n) ss)))
      else dict_get d0 n)"
proof (induction ss arbitrary: d0)
  case (Cons s ss)
  then show ?case by (cases "sec_name s = n"; cases "dict_get d0 n") (auto simp: filter_named_none)
qed simp

lemma content_by_heading_get:
  "dict_get (content_by_heading p) n =
     (if n \<in> sec_name ` set (pb_sections p)
      then Some (concat (map sec_content (filter (\<lambda>s. sec_name s = n) (pb_sections p)))) else None)"
  by (simp add: content_by_heading_def content_by_heading_foldl)

lemma duplicates_from_Nil_iff: "duplicates_from seen ns = [] \<longleftrightarrow> distinct ns \<and> set ns \<inter> seen = {}"
  by (induction ns arbitrary: seen) auto

lemma no_duplicate_headings_iff:
  "duplicate_heading_names p = [] \<longleftrightarrow> distinct (map sec_name (pb_sections p))"
  by (simp add: duplicate_heading_names_def duplicates_from_Nil_iff)

lemma content_by_heading_distinct:
  assumes "distinct (map sec_name (pb_sections p))"
  shows "dict_get (content_by_heading p) n = Some ls
     \<longleftrightarrow> (\<exists>s \<in> set (pb_sections p). sec_name s = n \<and> sec_content s = ls)"
proof (cases "n \<in> sec_name ` set (pb_sections p)")
  case True
  then obtain s where s: "s \<in> set (pb_sections p)" "n = sec_name s" by blast
  have uniq: "s' = s" if "s' \<in> set (pb_sections p)" "sec_name s' = n" for s'
    using assms s that by (metis distinct_map inj_onD)
  from s filter_named_distinct [OF assms s(1)] show ?thesis
    by (auto simp: content_by_heading_get dest: uniq)
next
  case False
  then show ?thesis by (auto simp: content_by_heading_get)
qed

lemma has_content_clean: "\<forall>l \<in> set ls. clean_line l \<Longrightarrow> has_content ls \<longleftrightarrow> ls \<noteq> []"
  by (cases ls) (auto simp: has_content_def clean_line_def list_ex_iff)

lemma acceptance_lines_clean: "\<forall>l \<in> set ls. clean_line l \<Longrightarrow> map strip (acceptance_lines ls) = ls"
  by (induction ls) (auto simp: acceptance_lines_def skip_line_def clean_line_def)

lemma validate_acceptance_Nil_iff:
  assumes "\<forall>l \<in> set ls. clean_line l"
  shows "validate_acceptance ls loc = [] \<longleftrightarrow> ls \<noteq> [] \<and> (\<forall>l \<in> set ls. \<not> is_selector l)"
  using acceptance_lines_clean [OF assms]
  by (cases ls) (auto simp: validate_acceptance_def Let_def filter_empty_conv list_ex_iff)

text \<open>A heading fills a requirement: the section is there and holds a line, and for the
  acceptance section no line selects a command.\<close>

definition section_filled :: "parsed_body \<Rightarrow> required_section \<Rightarrow> bool" where
  "section_filled p r \<longleftrightarrow> (\<exists>s \<in> set (pb_sections p). sec_name s = section_title r \<and> sec_content s \<noteq> []
     \<and> (r = Acceptance \<longrightarrow> (\<forall>l \<in> set (sec_content s). \<not> is_selector l)))"

lemma validate_section_Nil_iff:
  assumes "clean_parse p" "distinct (map sec_name (pb_sections p))"
  shows "validate_section (content_by_heading p) loc r = [] \<longleftrightarrow> section_filled p r"
proof (cases "dict_get (content_by_heading p) (section_title r)")
  case None
  then have "section_title r \<notin> sec_name ` set (pb_sections p)"
    by (auto simp: content_by_heading_get split: if_splits)
  then have "\<not> section_filled p r" by (metis image_eqI section_filled_def)
  with None show ?thesis by (simp add: validate_section_def)
next
  case (Some ls)
  then obtain s where s: "s \<in> set (pb_sections p)" "sec_name s = section_title r" "sec_content s = ls"
    using content_by_heading_distinct [OF assms(2)] by blast
  then have cl: "\<forall>l \<in> set ls. clean_line l" using assms(1) by (auto simp: clean_parse_def)
  have uniq: "s' = s" if "s' \<in> set (pb_sections p)" "sec_name s' = section_title r" for s'
    using assms(2) s that by (metis distinct_map inj_onD)
  have "section_filled p r \<longleftrightarrow> ls \<noteq> [] \<and> (r = Acceptance \<longrightarrow> (\<forall>l \<in> set ls. \<not> is_selector l))"
    using s uniq unfolding section_filled_def by blast
  with Some show ?thesis
    using validate_acceptance_Nil_iff [OF cl] has_content_clean [OF cl]
    by (simp add: validate_section_def)
qed

lemma parsed_description_clean: "\<forall>l \<in> set (pb_description_lines (parse_task_body body)). clean_line l"
  using parse_task_body_clean [of body] by (simp add: clean_parse_def)


end
