(* ===== verification/Attempts.thy ===== *)
theory Attempts
  imports TaskSchema
begin

text \<open>
  \<open>runtime/attempts.py\<close>: the versioned attempt record, its dictionary form, the restart
  reconciliation, the semantic revision of a task and the durable count of consumed attempts.

  The SHA-256 of the canonical JSON text is the parameter \<open>digest\<close> on JSON values.  The two
  loaders of frozen job inputs (\<open>load_job_execution_contract\<close> and \<open>load_planning_inputs\<close>)
  are the parameter \<open>frozen\<close>: for a job, the task and source identities of its accepted
  contract, and the outcome of reading its planning inputs.
\<close>

section \<open>Attempt records\<close>

datatype attempt_status = ADMITTED | RUNNING_ATTEMPT | ENDED

fun attempt_status_value :: "attempt_status \<Rightarrow> string" where
  "attempt_status_value ADMITTED = ''admitted''"
| "attempt_status_value RUNNING_ATTEMPT = ''running''"
| "attempt_status_value ENDED = ''ended''"

definition attempt_status_of :: "json \<Rightarrow> attempt_status option" where
  "attempt_status_of j = (if j = JStr ''admitted'' then Some ADMITTED
     else if j = JStr ''running'' then Some RUNNING_ATTEMPT
     else if j = JStr ''ended'' then Some ENDED else None)"

record attempt_record =
  ar_schema :: string
  ar_attempt_id :: string
  ar_job_id :: string
  ar_attempt_number :: int
  ar_task_revision :: string
  ar_transition_id :: string
  ar_worker_id :: string
  ar_predecessor :: "string option"
  ar_status :: "attempt_status + json"
  ar_started_at :: "string option"
  ar_deadline :: "string option"
  ar_ended_at :: "string option"
  ar_failure_reference :: "string option"
  ar_metadata :: meta

definition status_value :: "attempt_record \<Rightarrow> string" where
  "status_value r = (case ar_status r of Inl s \<Rightarrow> attempt_status_value s | Inr j \<Rightarrow> py_str j)"

definition ATTEMPT_RECORD_SCHEMA :: string where
  "ATTEMPT_RECORD_SCHEMA = ''tulid.attempt/v1''"

definition ATTEMPT_RECORD_METADATA_KEY :: string where
  "ATTEMPT_RECORD_METADATA_KEY = ''attempt_records''"

definition attempt_id_for :: "string \<Rightarrow> int \<Rightarrow> string" where
  "attempt_id_for j n = j @ ''@'' @ int_str n"

definition opt_json :: "string option \<Rightarrow> json" where
  "opt_json v = (case v of None \<Rightarrow> JNull | Some s \<Rightarrow> JStr s)"

definition attempt_record_to_dict :: "attempt_record \<Rightarrow> meta" where
  "attempt_record_to_dict r = fmap_of_list
    [(''schema'', JStr (ar_schema r)),
     (''attempt_id'', JStr (ar_attempt_id r)),
     (''job_id'', JStr (ar_job_id r)),
     (''attempt_number'', JInt (ar_attempt_number r)),
     (''task_revision'', JStr (ar_task_revision r)),
     (''transition_id'', JStr (ar_transition_id r)),
     (''worker_id'', JStr (ar_worker_id r)),
     (''predecessor'', opt_json (ar_predecessor r)),
     (''status'', JStr (status_value r)),
     (''started_at'', opt_json (ar_started_at r)),
     (''deadline'', opt_json (ar_deadline r)),
     (''ended_at'', opt_json (ar_ended_at r)),
     (''failure_reference'', opt_json (ar_failure_reference r)),
     (''metadata'', JObj (ar_metadata r))]"

definition required_string :: "meta \<Rightarrow> string \<Rightarrow> pyexc + string" where
  "required_string m k = (case fmlookup m k of
       Some (JStr s) \<Rightarrow> if s = [] then Inl ValueErr else Inr s
     | _ \<Rightarrow> Inl ValueErr)"

definition optional_string :: "json option \<Rightarrow> string option" where
  "optional_string v = (case v of Some (JStr s) \<Rightarrow> if s = [] then None else Some s | _ \<Rightarrow> None)"

text \<open>\<open>dict(payload.get("metadata") or {})\<close>.\<close>

definition metadata_dict :: "json option \<Rightarrow> pyexc + meta" where
  "metadata_dict v = (case v of None \<Rightarrow> Inr fmempty
     | Some j \<Rightarrow> if json_truthy j then py_dict j else Inr fmempty)"

definition attempt_record_from_dict :: "meta \<Rightarrow> pyexc + attempt_record" where
  "attempt_record_from_dict p =
     (let schema = py_str (jget p ''schema'' (JStr ATTEMPT_RECORD_SCHEMA));
          raw = jget p ''status'' (JStr ''admitted'');
          status = (case attempt_status_of raw of Some s \<Rightarrow> Inl s | None \<Rightarrow> Inr raw)
      in bind_sum (required_string p ''attempt_id'') (\<lambda>aid.
         bind_sum (required_string p ''job_id'') (\<lambda>jid.
         bind_sum (py_int (jget p ''attempt_number'' (JInt 0))) (\<lambda>num.
         bind_sum (required_string p ''task_revision'') (\<lambda>rev.
         bind_sum (required_string p ''transition_id'') (\<lambda>tid.
         bind_sum (required_string p ''worker_id'') (\<lambda>wid.
         bind_sum (metadata_dict (fmlookup p ''metadata'')) (\<lambda>md.
         Inr \<lparr>ar_schema = schema, ar_attempt_id = aid, ar_job_id = jid, ar_attempt_number = num,
           ar_task_revision = rev, ar_transition_id = tid, ar_worker_id = wid,
           ar_predecessor = optional_string (fmlookup p ''predecessor''), ar_status = status,
           ar_started_at = optional_string (fmlookup p ''started_at''),
           ar_deadline = optional_string (fmlookup p ''deadline''),
           ar_ended_at = optional_string (fmlookup p ''ended_at''),
           ar_failure_reference = optional_string (fmlookup p ''failure_reference''),
           ar_metadata = md\<rparr>))))))))"

text \<open>An item of a stored list that is no mapping has no \<open>get\<close>.\<close>

definition attempt_record_from_item :: "json \<Rightarrow> pyexc + attempt_record" where
  "attempt_record_from_item j = (case j of JObj m \<Rightarrow> attempt_record_from_dict m | _ \<Rightarrow> Inl AttributeErr)"

definition attempt_records_from_metadata :: "meta \<Rightarrow> pyexc + attempt_record list" where
  "attempt_records_from_metadata m = (case fmlookup m ATTEMPT_RECORD_METADATA_KEY of
       None \<Rightarrow> Inr []
     | Some raw \<Rightarrow>
         if \<not> json_truthy raw then Inr []
         else (case raw of
             JList items \<Rightarrow> bind_sum (map_sum_list attempt_record_from_item items)
               (\<lambda>rs. Inr (sort_key ar_attempt_number rs))
           | _ \<Rightarrow> Inl ValueErr))"

section \<open>Restart reconciliation\<close>

definition py_or :: "string option \<Rightarrow> string option \<Rightarrow> string option" where
  "py_or a b = (case a of Some s \<Rightarrow> if s = [] then b else Some s | None \<Rightarrow> b)"

definition incomplete :: "attempt_record \<Rightarrow> bool" where
  "incomplete r \<longleftrightarrow> status_value r = ''admitted'' \<or> status_value r = ''running''"

definition settle_record :: "string option \<Rightarrow> string option \<Rightarrow> attempt_record \<Rightarrow> attempt_record" where
  "settle_record ended ref r = r\<lparr>ar_status := Inl ENDED, ar_ended_at := py_or ended (ar_ended_at r),
     ar_failure_reference := py_or ref (ar_failure_reference r)\<rparr>"

fun reconcile_attempt_records :: "string option \<Rightarrow> string option \<Rightarrow> attempt_record list \<Rightarrow> attempt_record list" where
  "reconcile_attempt_records ended ref [] = []"
| "reconcile_attempt_records ended ref (r # rs) =
     (if \<not> incomplete r then r # reconcile_attempt_records ended ref rs
      else settle_record ended ref r # reconcile_attempt_records ended ref rs)"

section \<open>The semantic revision of a task\<close>

definition newline :: string where "newline = [CHR 0x0A]"

text \<open>The loop of \<open>_clean_section\<close>: three line feeds become two until none are left.\<close>

definition nl2 :: string where "nl2 = newline @ newline"
definition nl3 :: string where "nl3 = newline @ newline @ newline"

lemma startswith_append: "startswith p s \<Longrightarrow> s = p @ drop (length p) s"
  unfolding startswith_def by (metis append_take_drop_id)

lemma length_replace_le: "length (replace_all nl3 nl2 s) \<le> length s"
proof (induction nl3 nl2 s rule: replace_all.induct)
  case (2 c cs)
  show ?case
  proof (cases "startswith nl3 (c # cs)")
    case True
    then have "2 \<le> length cs"
      using startswith_length [OF True] by (simp add: nl3_def newline_def)
    with 2 True show ?thesis by (auto simp: nl3_def nl2_def newline_def)
  next
    case False
    with 2 show ?thesis by simp
  qed
qed simp

lemma length_replace_less: "contains nl3 s \<Longrightarrow> length (replace_all nl3 nl2 s) < length s"
proof (induction nl3 nl2 s rule: replace_all.induct)
  case 1
  then show ?case by (simp add: nl3_def newline_def)
next
  case (2 c cs)
  show ?case
  proof (cases "startswith nl3 (c # cs)")
    case True
    then have l: "2 \<le> length cs"
      using startswith_length [OF True] by (simp add: nl3_def newline_def)
    have "length (replace_all nl3 nl2 (drop (length nl3 - 1) cs)) \<le> length cs - 2"
      using length_replace_le [of "drop 2 cs"] by (simp add: nl3_def newline_def numeral_2_eq_2)
    with True l show ?thesis by (auto simp: nl3_def nl2_def newline_def)
  next
    case False
    with 2 show ?thesis by simp
  qed
qed

function collapse_blank :: "string \<Rightarrow> string" where
  "collapse_blank t = (if contains nl3 t then collapse_blank (replace_all nl3 nl2 t) else t)"
  by pat_completeness auto
termination by (relation "measure length") (auto simp: length_replace_less)

declare collapse_blank.simps [simp del]

definition clean_section :: "string list \<Rightarrow> string" where
  "clean_section ls = collapse_blank (strip (join newline ls))"

lemma collapse_blank_clean: "\<not> contains nl3 (collapse_blank t)"
  by (induction t rule: collapse_blank.induct) (subst collapse_blank.simps, simp)

fun first_h1_from :: "string list \<Rightarrow> string option" where
  "first_h1_from [] = None"
| "first_h1_from (raw # ls) = (if startswith hash1 (strip raw) then Some (strip (drop 2 (strip raw)))
     else first_h1_from ls)"

definition first_h1_title :: "string \<Rightarrow> string option" where
  "first_h1_title body = first_h1_from (splitlines body)"

definition semantic_body_sections :: "string \<Rightarrow> meta" where
  "semantic_body_sections body = (let p = parse_task_body body in
     foldl (\<lambda>m s. let name = lower (strip (sec_name s)) in
         if name = [] then m else fmupd name (JStr (clean_section (sec_content s))) m)
       (fmap_of_list [(''description'', JStr (clean_section (pb_description_lines p)))])
       (pb_sections p))"

text \<open>Source identities: the dictionary from digest to references, then both sorted.\<close>

definition refs_of :: "(string \<times> string list) list \<Rightarrow> string \<Rightarrow> string list" where
  "refs_of d sha = (case dict_get d sha of None \<Rightarrow> [] | Some refs \<Rightarrow> refs)"

definition add_identity :: "(string \<times> string list) list \<Rightarrow> string \<times> string \<Rightarrow> (string \<times> string list) list" where
  "add_identity d i = (let ref = strip (fst i); sha = strip (snd i) in
     if ref = [] \<or> sha = [] then d
     else dict_set sha (List.insert ref (refs_of d sha)) d)"

definition normalized_source_identities :: "(string \<times> string) list \<Rightarrow> (string \<times> string) list" where
  "normalized_source_identities ids = (let d = foldl add_identity [] ids in
     concat (map (\<lambda>sha. map (\<lambda>ref. (ref, sha)) (sort (refs_of d sha)))
       (sort (map fst d))))"

definition SEMANTIC_TASK_REVISION_SCHEMA :: string where
  "SEMANTIC_TASK_REVISION_SCHEMA = ''tulid.task-revision/v2''"

definition identity_json :: "string \<times> string \<Rightarrow> json" where
  "identity_json i = JList [JStr (fst i), JStr (snd i)]"

definition outcome_title :: "task \<Rightarrow> string" where
  "outcome_title t = (case first_h1_title (t_body t) of
     Some s \<Rightarrow> if s = [] then t_title t else s | None \<Rightarrow> t_title t)"

definition revision_payload :: "task \<Rightarrow> (string \<times> string) list \<Rightarrow> json" where
  "revision_payload t ids = (let base = fmap_of_list
      [(''schema'', JStr SEMANTIC_TASK_REVISION_SCHEMA),
       (''task_type'', JStr (t_task_type t)),
       (''title'', JStr (outcome_title t)),
       (''parent_id'', opt_json (t_parent_id t)),
       (''dependencies'', JList (map JStr (sort (t_dependencies t)))),
       (''body'', JObj (semantic_body_sections (t_body t)))];
      normalized = normalized_source_identities ids
    in JObj (if normalized = [] then base
             else fmupd ''source_content'' (JList (map identity_json normalized)) base))"

definition task_semantic_revision :: "(json \<Rightarrow> 'd) \<Rightarrow> task \<Rightarrow> (string \<times> string) list \<Rightarrow> 'd" where
  "task_semantic_revision digest t ids = digest (revision_payload t ids)"

section \<open>The account of consumed attempts\<close>

type_synonym frozen_work = "task \<times> (string \<times> string) list"

record frozen_loaders =
  load_contract :: "execution_job \<Rightarrow> frozen_work option"
  load_planning :: "execution_job \<Rightarrow> pyexc + frozen_work option"

definition jstatus_value :: "job_status + string \<Rightarrow> string" where
  "jstatus_value s = (case s of Inl e \<Rightarrow> job_status_value e | Inr t \<Rightarrow> t)"

definition same_frozen_work :: "(json \<Rightarrow> string) \<Rightarrow> frozen_loaders \<Rightarrow> string \<Rightarrow> execution_job \<Rightarrow> pyexc + bool" where
  "same_frozen_work digest frozen revn job =
     (let revision_of = (\<lambda>(t, ids). task_semantic_revision digest t ids);
          by_contract = (case load_contract frozen job of None \<Rightarrow> False | Some w \<Rightarrow> revision_of w = revn)
      in bind_sum (load_planning frozen job) (\<lambda>p. Inr (case p of None \<Rightarrow> by_contract | Some w \<Rightarrow> revision_of w = revn)))"

definition unreadable_history :: "pyexc \<Rightarrow> pyexc" where
  "unreadable_history e = (if e \<in> {ValueErr, TypeErr, KeyErr, AttributeErr} then ValueErr else e)"

definition ambiguous_history :: "execution_job \<Rightarrow> string \<Rightarrow> string \<Rightarrow> int \<Rightarrow> msg" where
  "ambiguous_history job tid trid accounted =
     [Txt ''Job '', ReprS (j_job_id job), Txt '' for task '', ReprS tid, Txt '' transition '', ReprS trid,
      Txt '' has no versioned attempt record and is not pending; execution history is ambiguous, so it is conservatively accounted as at least '',
      Num accounted, Txt '' worker execution(s) against the current revision.'']"

text \<open>One turn of the loop: what the job adds to the total, and its diagnostic.\<close>

definition job_consumption ::
  "(json \<Rightarrow> string) \<Rightarrow> frozen_loaders \<Rightarrow> string \<Rightarrow> string \<Rightarrow> string \<Rightarrow> string option \<Rightarrow> execution_job \<Rightarrow> pyexc + (int \<times> msg list)" where
  "job_consumption digest frozen tid trid revn pid job =
     (if j_task_id job \<noteq> tid \<or> j_transition_id job \<noteq> trid then Inr (0, [])
      else if pid \<noteq> None \<and> pid \<noteq> Some (j_project_id job) then Inr (0, [])
      else case attempt_records_from_metadata (j_metadata job) of
          Inl e \<Rightarrow> Inl (unreadable_history e)
        | Inr records \<Rightarrow> bind_sum (same_frozen_work digest frozen revn job) (\<lambda>same.
            if records \<noteq> [] then Inr (int (length (filter (\<lambda>r. ar_task_revision r = revn \<or> same) records)), [])
            else if jstatus_value (j_status job) = ''pending'' then Inr (0, [])
            else Inr (max 1 (j_attempts job), [ambiguous_history job tid trid (max 1 (j_attempts job))])))"

fun count_consumed_attempts ::
  "(json \<Rightarrow> string) \<Rightarrow> frozen_loaders \<Rightarrow> string \<Rightarrow> string \<Rightarrow> string \<Rightarrow> string option \<Rightarrow> execution_job list \<Rightarrow> pyexc + (int \<times> msg list)" where
  "count_consumed_attempts digest frozen tid trid revn pid [] = Inr (0, [])"
| "count_consumed_attempts digest frozen tid trid revn pid (job # jobs) =
     bind_sum (job_consumption digest frozen tid trid revn pid job) (\<lambda>(n, ds).
     bind_sum (count_consumed_attempts digest frozen tid trid revn pid jobs) (\<lambda>(m, es). Inr (n + m, ds @ es)))"

end
