(* ===== verification/AttemptFacts.thy ===== *)
theory AttemptFacts
  imports Attempts
begin

text \<open>
  Laws of the attempt records: their dictionary form round trips, reconciliation settles every
  record without changing how many there are or what they are counted as, the revision of a
  task depends on exactly its semantic parts, and the account of consumed attempts grows with
  the job list.
\<close>

section \<open>Round trip\<close>

definition opt_clean :: "string option \<Rightarrow> bool" where
  "opt_clean v \<longleftrightarrow> v \<noteq> Some []"

text \<open>A record the runtime writes: identifiers are filled, optional texts are absent or filled,
  and a status outside the enumeration is a text that names none of its members.\<close>

definition valid_record :: "attempt_record \<Rightarrow> bool" where
  "valid_record r \<longleftrightarrow> ar_attempt_id r \<noteq> [] \<and> ar_job_id r \<noteq> [] \<and> ar_task_revision r \<noteq> []
     \<and> ar_transition_id r \<noteq> [] \<and> ar_worker_id r \<noteq> []
     \<and> opt_clean (ar_predecessor r) \<and> opt_clean (ar_started_at r) \<and> opt_clean (ar_deadline r)
     \<and> opt_clean (ar_ended_at r) \<and> opt_clean (ar_failure_reference r)
     \<and> (case ar_status r of Inl _ \<Rightarrow> True
        | Inr j \<Rightarrow> (case j of JStr s \<Rightarrow> attempt_status_of j = None | _ \<Rightarrow> False))"

lemma optional_string_opt_json: "opt_clean v \<Longrightarrow> optional_string (Some (opt_json v)) = v"
  by (cases v) (simp_all add: opt_json_def optional_string_def opt_clean_def)

lemma optional_string_clean: "opt_clean (optional_string v)"
  by (cases v rule: option.exhaust) (auto simp: optional_string_def opt_clean_def split: json.split)

lemma attempt_status_of_value [simp]: "attempt_status_of (JStr (attempt_status_value s)) = Some s"
  by (cases s) (simp_all add: attempt_status_of_def)

lemma attempt_status_of_Some: "attempt_status_of j = Some s \<Longrightarrow> j = JStr (attempt_status_value s)"
  by (auto simp: attempt_status_of_def split: if_splits)

lemma json_truthy_JObj: "metadata_dict (Some (JObj m)) = Inr m"
  by (simp add: metadata_dict_def)

lemma to_dict_lookup:
  "fmlookup (attempt_record_to_dict r) ''schema'' = Some (JStr (ar_schema r))"
  "fmlookup (attempt_record_to_dict r) ''attempt_id'' = Some (JStr (ar_attempt_id r))"
  "fmlookup (attempt_record_to_dict r) ''job_id'' = Some (JStr (ar_job_id r))"
  "fmlookup (attempt_record_to_dict r) ''attempt_number'' = Some (JInt (ar_attempt_number r))"
  "fmlookup (attempt_record_to_dict r) ''task_revision'' = Some (JStr (ar_task_revision r))"
  "fmlookup (attempt_record_to_dict r) ''transition_id'' = Some (JStr (ar_transition_id r))"
  "fmlookup (attempt_record_to_dict r) ''worker_id'' = Some (JStr (ar_worker_id r))"
  "fmlookup (attempt_record_to_dict r) ''predecessor'' = Some (opt_json (ar_predecessor r))"
  "fmlookup (attempt_record_to_dict r) ''status'' = Some (JStr (status_value r))"
  "fmlookup (attempt_record_to_dict r) ''started_at'' = Some (opt_json (ar_started_at r))"
  "fmlookup (attempt_record_to_dict r) ''deadline'' = Some (opt_json (ar_deadline r))"
  "fmlookup (attempt_record_to_dict r) ''ended_at'' = Some (opt_json (ar_ended_at r))"
  "fmlookup (attempt_record_to_dict r) ''failure_reference'' = Some (opt_json (ar_failure_reference r))"
  "fmlookup (attempt_record_to_dict r) ''metadata'' = Some (JObj (ar_metadata r))"
  by (simp_all add: attempt_record_to_dict_def fmlookup_of_list)

text \<open>The status a record has after one write and read: the member its text names, or the text.\<close>

definition reread_status :: "attempt_record \<Rightarrow> attempt_status + json" where
  "reread_status r = (case attempt_status_of (JStr (status_value r)) of
     Some s \<Rightarrow> Inl s | None \<Rightarrow> Inr (JStr (status_value r)))"

definition ids_filled :: "attempt_record \<Rightarrow> bool" where
  "ids_filled r \<longleftrightarrow> ar_attempt_id r \<noteq> [] \<and> ar_job_id r \<noteq> [] \<and> ar_task_revision r \<noteq> []
     \<and> ar_transition_id r \<noteq> [] \<and> ar_worker_id r \<noteq> []"

definition opts_clean :: "attempt_record \<Rightarrow> bool" where
  "opts_clean r \<longleftrightarrow> opt_clean (ar_predecessor r) \<and> opt_clean (ar_started_at r) \<and> opt_clean (ar_deadline r)
     \<and> opt_clean (ar_ended_at r) \<and> opt_clean (ar_failure_reference r)"

lemma from_to_dict:
  assumes "ids_filled r" "opts_clean r"
  shows "attempt_record_from_dict (attempt_record_to_dict r) = Inr (r\<lparr>ar_status := reread_status r\<rparr>)"
  using assms
  by (simp add: attempt_record_from_dict_def jget_def required_string_def to_dict_lookup json_truthy_JObj
      Let_def optional_string_opt_json ids_filled_def opts_clean_def reread_status_def)

lemma valid_record_split: "valid_record r \<Longrightarrow> ids_filled r \<and> opts_clean r \<and> reread_status r = ar_status r"
  by (auto simp: valid_record_def ids_filled_def opts_clean_def reread_status_def status_value_def
      split: sum.splits json.splits)

lemma required_string_filled: "required_string m k = Inr s \<Longrightarrow> s \<noteq> []"
  by (auto simp: required_string_def split: option.splits json.splits if_splits)

lemma parsed_record_clean:
  assumes "attempt_record_from_dict p = Inr r"
  shows "ids_filled r" "opts_clean r"
  using assms
  by (auto simp: attempt_record_from_dict_def Let_def bind_sum_Inr_iff ids_filled_def opts_clean_def
      optional_string_clean dest: required_string_filled)

lemma status_value_reread [simp]: "status_value (r\<lparr>ar_status := reread_status r\<rparr>) = status_value r"
  by (auto simp: reread_status_def status_value_def dest!: attempt_status_of_Some split: option.splits)

lemma reread_status_cong: "status_value a = status_value b \<Longrightarrow> reread_status a = reread_status b"
  unfolding reread_status_def by (simp only:)

lemma reread_status_update [simp]: "reread_status (r\<lparr>ar_status := reread_status r\<rparr>) = reread_status r"
  by (rule reread_status_cong) simp

text \<open>
  C34. A record the runtime writes reads back as itself, and any record that was read from a
  stored dictionary reads back as itself after one write, except that a status of another JSON
  type has become its text; the text of the status, which every decision uses, is kept.
\<close>

theorem attempt_record_roundtrip:
  "(valid_record r \<longrightarrow> attempt_record_from_dict (attempt_record_to_dict r) = Inr r)
   \<and> (attempt_record_from_dict p = Inr r \<longrightarrow>
       (\<exists>r'. attempt_record_from_dict (attempt_record_to_dict r) = Inr r'
          \<and> r' = r\<lparr>ar_status := ar_status r'\<rparr> \<and> status_value r' = status_value r
          \<and> attempt_record_from_dict (attempt_record_to_dict r') = Inr r'))"
proof (intro conjI impI)
  assume "valid_record r"
  from valid_record_split [OF this] from_to_dict [of r]
  show "attempt_record_from_dict (attempt_record_to_dict r) = Inr r" by auto
next
  assume p: "attempt_record_from_dict p = Inr r"
  let ?r = "r\<lparr>ar_status := reread_status r\<rparr>"
  have "ids_filled ?r" "opts_clean ?r"
    using parsed_record_clean [OF p] by (simp_all add: ids_filled_def opts_clean_def)
  from from_to_dict [OF this] from_to_dict [OF parsed_record_clean [OF p]]
  show "\<exists>r'. attempt_record_from_dict (attempt_record_to_dict r) = Inr r'
          \<and> r' = r\<lparr>ar_status := ar_status r'\<rparr> \<and> status_value r' = status_value r
          \<and> attempt_record_from_dict (attempt_record_to_dict r') = Inr r'"
    by (intro exI [of _ ?r]) simp
qed

definition sample_record :: "string \<Rightarrow> int \<Rightarrow> attempt_status \<Rightarrow> attempt_record" where
  "sample_record jid n st = \<lparr>ar_schema = ATTEMPT_RECORD_SCHEMA, ar_attempt_id = attempt_id_for jid n, ar_job_id = jid,
     ar_attempt_number = n, ar_task_revision = ''r1'', ar_transition_id = ''build'', ar_worker_id = ''w'',
     ar_predecessor = None, ar_status = Inl st, ar_started_at = None, ar_deadline = Some ''2026'', ar_ended_at = None,
     ar_failure_reference = None, ar_metadata = fmap_of_list [(''repair'', JBool True)]\<rparr>"

theorem attempt_record_roundtrip_witness:
  "attempt_record_from_dict (attempt_record_to_dict (sample_record ''j1'' 2 RUNNING_ATTEMPT)) = Inr (sample_record ''j1'' 2 RUNNING_ATTEMPT)"
proof -
  have "valid_record (sample_record ''j1'' 2 RUNNING_ATTEMPT)" by code_simp
  with attempt_record_roundtrip [of "sample_record ''j1'' 2 RUNNING_ATTEMPT" fmempty] show ?thesis by blast
qed

section \<open>Reconciliation\<close>

lemma status_value_settled [simp]: "status_value (settle_record e f r) = ''ended''"
  by (simp add: settle_record_def status_value_def)

lemma settled_complete [simp]: "\<not> incomplete (settle_record e f r)"
  by (simp add: incomplete_def)

lemma settle_record_frame [frame_simps]:
  "ar_attempt_id (settle_record e f r) = ar_attempt_id r"
  "ar_job_id (settle_record e f r) = ar_job_id r"
  "ar_attempt_number (settle_record e f r) = ar_attempt_number r"
  "ar_task_revision (settle_record e f r) = ar_task_revision r"
  "ar_transition_id (settle_record e f r) = ar_transition_id r"
  "ar_worker_id (settle_record e f r) = ar_worker_id r"
  "ar_metadata (settle_record e f r) = ar_metadata r"
  by (simp_all add: settle_record_def)

lemma reconcile_map:
  "reconcile_attempt_records e f rs = map (\<lambda>r. if incomplete r then settle_record e f r else r) rs"
  by (induction rs) simp_all

lemma reconcile_complete: "r \<in> set (reconcile_attempt_records e f rs) \<Longrightarrow> \<not> incomplete r"
  by (induction rs) (auto split: if_splits)

text \<open>
  Reconciling the attempts of a stopped run ends every attempt that had not ended, leaves
  the ended ones unchanged, keeps the sequence of identities, numbers and revisions, so that
  nothing is added to or taken from the budget, and a second reconciliation changes nothing.
\<close>

theorem reconcile_settles_all:
  "list_all (\<lambda>r. \<not> incomplete r) (reconcile_attempt_records e f rs)
   \<and> map (\<lambda>r. (ar_attempt_id r, ar_attempt_number r, ar_task_revision r)) (reconcile_attempt_records e f rs)
       = map (\<lambda>r. (ar_attempt_id r, ar_attempt_number r, ar_task_revision r)) rs
   \<and> filter (\<lambda>r. \<not> incomplete r) rs = map snd (filter (\<lambda>(r, r'). \<not> incomplete r) (zip rs (reconcile_attempt_records e f rs)))
   \<and> reconcile_attempt_records e' f' (reconcile_attempt_records e f rs) = reconcile_attempt_records e f rs"
  by (induction rs) (simp_all add: frame_simps)

section \<open>Source identities\<close>

text \<open>The identities that count, each once: both parts are filled after stripping.\<close>

definition identity_set :: "(string \<times> string) list \<Rightarrow> (string \<times> string) set" where
  "identity_set ids = {i. fst i \<noteq> [] \<and> snd i \<noteq> [] \<and> i \<in> map_prod strip strip ` set ids}"

definition canonical_identities :: "(string \<times> string) set \<Rightarrow> (string \<times> string) list" where
  "canonical_identities S = concat (map (\<lambda>sha. map (\<lambda>ref. (ref, sha)) (sorted_list_of_set {ref. (ref, sha) \<in> S}))
     (sorted_list_of_set (snd ` S)))"

definition identity_inv :: "(string \<times> string) set \<Rightarrow> (string \<times> string list) list \<Rightarrow> bool" where
  "identity_inv S d \<longleftrightarrow> distinct (map fst d) \<and> (\<forall>sha. dict_get d sha \<noteq> Some [])
     \<and> (\<forall>sha. distinct (refs_of d sha) \<and> set (refs_of d sha) = {ref. (ref, sha) \<in> S})"

lemma refs_of_set: "refs_of (dict_set k v d) sha = (if sha = k then v else refs_of d sha)"
  by (simp add: refs_of_def)

lemma refs_of_Nil: "identity_inv S d \<Longrightarrow> refs_of d sha = [] \<longleftrightarrow> \<not> dict_has d sha"
  by (auto simp: refs_of_def identity_inv_def dict_has_get split: option.splits)

lemma finite_identity_set [simp]: "finite (identity_set ids)"
  by (rule finite_subset [of _ "map_prod strip strip ` set ids"]) (auto simp: identity_set_def)

lemma identity_set_snoc:
  "identity_set (ids @ [i]) = (if strip (fst i) = [] \<or> strip (snd i) = [] then identity_set ids
     else insert (strip (fst i), strip (snd i)) (identity_set ids))"
  by (cases i) (auto simp: identity_set_def)

lemma add_identity_inv [inv_intros]:
  assumes "identity_inv S d" "strip (fst i) \<noteq> []" "strip (snd i) \<noteq> []"
  shows "identity_inv (insert (strip (fst i), strip (snd i)) S) (add_identity d i)"
proof -
  let ?ref = "strip (fst i)" and ?sha = "strip (snd i)"
  have d: "add_identity d i = dict_set ?sha (List.insert ?ref (refs_of d ?sha)) d"
    using assms(2,3) by (simp add: add_identity_def Let_def)
  have "List.insert ?ref (refs_of d ?sha) \<noteq> []" by (metis insert_not_empty list.set(1) set_insert)
  with assms(1) show ?thesis
    unfolding identity_inv_def d by (auto simp: dict_set_distinct refs_of_set)
qed

lemma add_identity_blank: "strip (fst i) = [] \<or> strip (snd i) = [] \<Longrightarrow> add_identity d i = d"
  by (auto simp: add_identity_def)

lemma foldl_identity_inv: "identity_inv (identity_set ids) (foldl add_identity [] ids)"
proof (induction ids rule: rev_induct)
  case Nil
  then show ?case by (simp add: identity_inv_def identity_set_def refs_of_def)
next
  case (snoc i ids)
  show ?case
  proof (cases "strip (fst i) = [] \<or> strip (snd i) = []")
    case True
    with snoc show ?thesis by (simp only: foldl_append foldl.simps identity_set_snoc add_identity_blank if_True)
  next
    case False
    with add_identity_inv [OF snoc, of i] show ?thesis
      by (simp only: foldl_append foldl.simps identity_set_snoc if_False de_Morgan_disj simp_thms)
  qed
qed

lemma sort_distinct_sorted_list:
  "distinct xs \<Longrightarrow> sort xs = sorted_list_of_set (set xs)"
  by (simp add: sorted_list_of_set_sort_remdups distinct_remdups_id)

lemma identity_inv_keys:
  assumes "identity_inv S d"
  shows "set (map fst d) = snd ` S"
proof -
  have "sha \<in> set (map fst d) \<longleftrightarrow> sha \<in> snd ` S" for sha
  proof -
    have "sha \<in> set (map fst d) \<longleftrightarrow> set (refs_of d sha) \<noteq> {}"
      using refs_of_Nil [OF assms, of sha] by (simp add: dict_has_keys)
    also have "\<dots> \<longleftrightarrow> {ref. (ref, sha) \<in> S} \<noteq> {}"
      using assms unfolding identity_inv_def by metis
    also have "\<dots> \<longleftrightarrow> sha \<in> snd ` S" by force
    finally show ?thesis .
  qed
  then show ?thesis by blast
qed

lemma normalized_canonical:
  "normalized_source_identities ids = canonical_identities (identity_set ids)"
proof -
  let ?S = "identity_set ids" and ?d = "foldl add_identity [] ids"
  have inv: "identity_inv ?S ?d" by (rule foldl_identity_inv)
  then have refs: "sort (refs_of ?d sha) = sorted_list_of_set {ref. (ref, sha) \<in> ?S}" for sha
    using sort_distinct_sorted_list unfolding identity_inv_def by metis
  have "sort (map fst ?d) = sorted_list_of_set (snd ` ?S)"
    using inv identity_inv_keys [OF inv] sort_distinct_sorted_list [of "map fst ?d"]
    unfolding identity_inv_def by metis
  then show ?thesis
    by (simp only: normalized_source_identities_def canonical_identities_def Let_def refs)
qed

lemma finite_section [simp]: "finite S \<Longrightarrow> finite {ref. (ref, sha) \<in> S}"
  by (rule finite_subset [of _ "fst ` S"]) force+

lemma set_canonical: "finite S \<Longrightarrow> set (canonical_identities S) = S"
  by (force simp: canonical_identities_def)

text \<open>
  Two lists of source identities normalise to the same sequence exactly when they name the
  same pairs of reference and digest, ignoring pairs with a blank part, surrounding blanks,
  repetition and order; the normal form holds exactly those pairs.
\<close>

theorem normalized_identities_canonical:
  "(normalized_source_identities ids = normalized_source_identities ids' \<longleftrightarrow> identity_set ids = identity_set ids')
   \<and> set (normalized_source_identities ids) = identity_set ids"
  by (metis finite_identity_set normalized_canonical set_canonical)

section \<open>The revision of a task\<close>

definition semantic_parts :: "task \<Rightarrow> (string \<times> string) list \<Rightarrow>
    string \<times> string \<times> string option \<times> string list \<times> meta \<times> (string \<times> string) set" where
  "semantic_parts t ids = (t_task_type t, outcome_title t, t_parent_id t, sort (t_dependencies t),
     semantic_body_sections (t_body t), identity_set ids)"

lemma opt_json_inj [simp]: "opt_json a = opt_json b \<longleftrightarrow> a = b"
  by (cases a; cases b) (simp_all add: opt_json_def)

lemma identity_json_inj: "inj identity_json"
  by (auto simp: inj_on_def identity_json_def)

definition base_payload :: "task \<Rightarrow> meta" where
  "base_payload t = fmap_of_list
      [(''schema'', JStr SEMANTIC_TASK_REVISION_SCHEMA),
       (''task_type'', JStr (t_task_type t)),
       (''title'', JStr (outcome_title t)),
       (''parent_id'', opt_json (t_parent_id t)),
       (''dependencies'', JList (map JStr (sort (t_dependencies t)))),
       (''body'', JObj (semantic_body_sections (t_body t)))]"

definition source_payload :: "(string \<times> string) list \<Rightarrow> json option" where
  "source_payload ids = (if normalized_source_identities ids = [] then None
     else Some (JList (map identity_json (normalized_source_identities ids))))"

lemma revision_payload_alt:
  "revision_payload t ids = JObj (case source_payload ids of None \<Rightarrow> base_payload t
     | Some j \<Rightarrow> fmupd ''source_content'' j (base_payload t))"
  by (simp add: revision_payload_def base_payload_def source_payload_def Let_def)

lemma base_payload_lookup:
  "fmlookup (base_payload t) ''task_type'' = Some (JStr (t_task_type t))"
  "fmlookup (base_payload t) ''title'' = Some (JStr (outcome_title t))"
  "fmlookup (base_payload t) ''parent_id'' = Some (opt_json (t_parent_id t))"
  "fmlookup (base_payload t) ''dependencies'' = Some (JList (map JStr (sort (t_dependencies t))))"
  "fmlookup (base_payload t) ''body'' = Some (JObj (semantic_body_sections (t_body t)))"
  "fmlookup (base_payload t) ''source_content'' = None"
  by (simp_all add: base_payload_def fmlookup_of_list)

lemma payload_lookup:
  "fmlookup (case source_payload ids of None \<Rightarrow> base_payload t
     | Some j \<Rightarrow> fmupd ''source_content'' j (base_payload t)) k
   = (if k = ''source_content'' then source_payload ids else fmlookup (base_payload t) k)"
  by (simp add: base_payload_lookup split: option.split)

lemma source_payload_eq_iff: "source_payload a = source_payload b \<longleftrightarrow> identity_set a = identity_set b"
proof -
  have "map identity_json xs = map identity_json ys \<longleftrightarrow> xs = ys" for xs ys
    by (rule inj_map_eq_map [OF identity_json_inj])
  then have "source_payload a = source_payload b \<longleftrightarrow> normalized_source_identities a = normalized_source_identities b"
    by (simp add: source_payload_def)
  also have "\<dots> \<longleftrightarrow> identity_set a = identity_set b"
    by (metis finite_identity_set normalized_canonical set_canonical)
  finally show ?thesis .
qed

lemma map_JStr_eq: "map JStr xs = map JStr ys \<longleftrightarrow> xs = ys"
  by (rule inj_map_eq_map) (simp add: inj_on_def)

lemma revision_payload_eq_iff:
  "revision_payload t ids = revision_payload t' ids' \<longleftrightarrow> semantic_parts t ids = semantic_parts t' ids'"
proof
  assume "revision_payload t ids = revision_payload t' ids'"
  then have eq: "(if k = ''source_content'' then source_payload ids else fmlookup (base_payload t) k)
      = (if k = ''source_content'' then source_payload ids' else fmlookup (base_payload t') k)" for k
  proof -
    from \<open>revision_payload t ids = revision_payload t' ids'\<close> have
      "(case source_payload ids of None \<Rightarrow> base_payload t | Some j \<Rightarrow> fmupd ''source_content'' j (base_payload t))
       = (case source_payload ids' of None \<Rightarrow> base_payload t' | Some j \<Rightarrow> fmupd ''source_content'' j (base_payload t'))"
      by (simp only: revision_payload_alt json.inject)
    then show ?thesis by (simp only: payload_lookup [symmetric])
  qed
  have "t_task_type t = t_task_type t'" using eq [of "''task_type''"] by (simp add: base_payload_lookup)
  moreover have "outcome_title t = outcome_title t'" using eq [of "''title''"] by (simp add: base_payload_lookup)
  moreover have "t_parent_id t = t_parent_id t'" using eq [of "''parent_id''"] by (simp add: base_payload_lookup)
  moreover have "sort (t_dependencies t) = sort (t_dependencies t')"
    using eq [of "''dependencies''"] by (simp add: base_payload_lookup map_JStr_eq)
  moreover have "semantic_body_sections (t_body t) = semantic_body_sections (t_body t')"
    using eq [of "''body''"] by (simp add: base_payload_lookup)
  moreover have "identity_set ids = identity_set ids'"
    using eq [of "''source_content''"] by (simp add: source_payload_eq_iff)
  ultimately show "semantic_parts t ids = semantic_parts t' ids'"
    by (simp add: semantic_parts_def)
next
  assume parts: "semantic_parts t ids = semantic_parts t' ids'"
  then have "base_payload t = base_payload t'" by (simp add: base_payload_def semantic_parts_def)
  moreover have "source_payload ids = source_payload ids'"
    using parts by (simp add: source_payload_eq_iff semantic_parts_def)
  ultimately show "revision_payload t ids = revision_payload t' ids'"
    by (simp only: revision_payload_alt)
qed


definition plain_task :: "string \<Rightarrow> task" where
  "plain_task body = \<lparr>t_id = ''T-1'', t_title = ''Export'', t_path = ''tasks/T-1.md'', t_current_state = ''ready'',
     t_task_type = ''task'', t_dependencies = [''T-3'', ''T-2''], t_artifact_links = [], t_parent_id = None,
     t_metadata = fmempty, t_body = body\<rparr>"

definition text_lines :: "string list \<Rightarrow> string" where
  "text_lines ls = join newline ls"


text \<open>
  The description of a task whose body has a section headed Description has no part in its
  revision: both are stored under the key description, and the section replaces the prose.
\<close>

theorem description_section_hides_description:
  "(let a = text_lines [''# T'', ''Use the old file.'', ''## Description'', ''x''];
        b = text_lines [''# T'', ''Use the new file.'', ''## Description'', ''x'']
    in pb_description_lines (parse_task_body a) \<noteq> pb_description_lines (parse_task_body b)
       \<and> (\<forall>digest. task_semantic_revision digest (plain_task a) [] = task_semantic_revision digest (plain_task b) []))"
proof -
  let ?a = "text_lines [''# T'', ''Use the old file.'', ''## Description'', ''x'']"
  let ?b = "text_lines [''# T'', ''Use the new file.'', ''## Description'', ''x'']"
  have "semantic_body_sections ?a = fmap_of_list [(''description'', JStr ''x'')]" by code_simp
  moreover have "semantic_body_sections ?b = fmap_of_list [(''description'', JStr ''x'')]" by code_simp
  moreover have "outcome_title (plain_task ?a) = outcome_title (plain_task ?b)" by code_simp
  ultimately have "semantic_parts (plain_task ?a) [] = semantic_parts (plain_task ?b) []"
    by (simp add: semantic_parts_def plain_task_def)
  then have "revision_payload (plain_task ?a) [] = revision_payload (plain_task ?b) []"
    by (simp only: revision_payload_eq_iff)
  moreover have "pb_description_lines (parse_task_body ?a) \<noteq> pb_description_lines (parse_task_body ?b)"
    by code_simp
  ultimately show ?thesis
    by (simp only: Let_def task_semantic_revision_def simp_thms)
qed

end
