(* ===== verification/Jobs.thy ===== *)
theory Jobs
  imports AttemptFacts
begin

text \<open>
  \<open>runtime/jobs.py\<close>: the store of execution jobs.  The directory is a finite map from job id
  to the content of its \<open>job.json\<close>: a JSON value, or a file that cannot be read or decoded.
  Job ids are single path components, so the file of a job is found by its id and the sorted
  glob lists the ids in order.  Every operation runs under the store's lock and is one step; it
  takes the clock reading and the fate of its write as an \<open>op_env\<close> and returns its result
  (or the exception it lets through) with the new store.
\<close>

section \<open>The store\<close>

datatype job_file = Garbled | Stored json

record job_store =
  js_root :: string
  js_files :: "(string, job_file) fmap"

record op_env =
  env_now :: string
  env_write :: write_fate

record job_store_result =
  jr_job :: "execution_job option"
  jr_jobs :: "execution_job list"
  jr_path :: "string option"
  jr_error :: "domain_error option"

definition jr_accepted :: "job_store_result \<Rightarrow> bool" where
  "jr_accepted r \<longleftrightarrow> jr_error r = None"

definition job_error :: "domain_error \<Rightarrow> job_store_result" where
  "job_error e = \<lparr>jr_job = None, jr_jobs = [], jr_path = None, jr_error = Some e\<rparr>"

definition job_found :: "execution_job \<Rightarrow> string option \<Rightarrow> job_store_result" where
  "job_found j p = \<lparr>jr_job = Some j, jr_jobs = [], jr_path = p, jr_error = None\<rparr>"

definition jobs_found :: "execution_job list \<Rightarrow> job_store_result" where
  "jobs_found js = \<lparr>jr_job = None, jr_jobs = js, jr_path = None, jr_error = None\<rparr>"

lemma job_result_simps [simp, result_simps]:
  "jr_error (job_error e) = Some e" "jr_job (job_error e) = None" "jr_jobs (job_error e) = []"
  "jr_error (job_found j p) = None" "jr_job (job_found j p) = Some j" "jr_jobs (job_found j p) = []"
  "jr_error (jobs_found js) = None" "jr_jobs (jobs_found js) = js" "jr_job (jobs_found js) = None"
  "jr_accepted (job_found j p)" "jr_accepted (jobs_found js)" "\<not> jr_accepted (job_error e)"
  by (simp_all add: job_error_def job_found_def jobs_found_def jr_accepted_def)

definition path_for :: "job_store \<Rightarrow> string \<Rightarrow> string" where
  "path_for s jid = js_root s @ ''/'' @ jid @ ''/job.json''"

definition ACTIVE_JOB_STATUSES :: "string list" where
  "ACTIVE_JOB_STATUSES = map job_status_value [PENDING, RUNNING, COMPLETION_SUBMITTED, COMPLETION_REJECTED, STALE]"

definition IMMUTABLE_JOB_METADATA_KEYS :: "string list" where
  "IMMUTABLE_JOB_METADATA_KEYS = [''planning_inputs'', ''verification_environment'', ''execution_contract'',
     ''execution_contract_sha256'', ''prompt_packet'', ''prompt_packet_sha256'', ''prompt_manifest'',
     ''repository_identity'']"

section \<open>Records on disk\<close>

definition job_to_payload :: "execution_job \<Rightarrow> meta" where
  "job_to_payload j = fmap_of_list
    [(''job_id'', JStr (j_job_id j)),
     (''project_id'', JStr (j_project_id j)),
     (''task_id'', JStr (j_task_id j)),
     (''transition_id'', JStr (j_transition_id j)),
     (''worker_id'', JStr (j_worker_id j)),
     (''workspace_path'', JStr (j_workspace_path j)),
     (''status'', JStr (jstatus_value (j_status j))),
     (''attempts'', JInt (j_attempts j)),
     (''metadata'', JObj (j_metadata j))]"

definition job_from_payload :: "meta \<Rightarrow> pyexc + execution_job" where
  "job_from_payload p = (case jget p ''metadata'' (JObj fmempty) of
      JObj md \<Rightarrow>
        bind_sum (required_string p ''job_id'') (\<lambda>jid.
        bind_sum (required_string p ''project_id'') (\<lambda>pid.
        bind_sum (required_string p ''task_id'') (\<lambda>tid.
        bind_sum (required_string p ''transition_id'') (\<lambda>trid.
        bind_sum (required_string p ''worker_id'') (\<lambda>wid.
        bind_sum (required_string p ''workspace_path'') (\<lambda>wp.
        bind_sum (required_string p ''status'') (\<lambda>st.
        bind_sum (py_int (jget p ''attempts'' (JInt 0))) (\<lambda>n.
        Inr \<lparr>j_job_id = jid, j_project_id = pid, j_task_id = tid, j_transition_id = trid,
          j_worker_id = wid, j_workspace_path = wp, j_status = Inr st, j_attempts = n, j_metadata = md\<rparr>))))))))
    | _ \<Rightarrow> Inl ValueErr)"

definition read_record :: "job_file \<Rightarrow> pyexc + execution_job" where
  "read_record f = (case f of Stored (JObj p) \<Rightarrow> job_from_payload p | _ \<Rightarrow> Inl ValueErr)"

definition read_failed :: "string \<Rightarrow> job_store_result" where
  "read_failed path = job_error (derror ''job.read_failed'' [Txt ''Cannot read execution job: '', ExcText] (Some path))"

text \<open>The handler of both readers: \<open>except (OSError, JSONDecodeError, TypeError, ValueError)\<close>.\<close>

definition caught_read :: "pyexc \<Rightarrow> bool" where
  "caught_read e \<longleftrightarrow> e \<in> {OSErr, TypeErr, ValueErr}"

section \<open>Operations\<close>

definition save :: "op_env \<Rightarrow> execution_job \<Rightarrow> job_store \<Rightarrow> job_store_result \<times> job_store" where
  "save env job s = (let path = path_for s (j_job_id job);
       written = s\<lparr>js_files := fmupd (j_job_id job) (Stored (JObj (job_to_payload job))) (js_files s)\<rparr>;
       failed = job_error (derror ''job.write_failed'' [Txt ''Cannot write execution job: '', ExcText] (Some path))
     in case env_write env of
          WriteOk \<Rightarrow> (job_found job (Some path), written)
        | WriteFails \<Rightarrow> (failed, s)
        | SyncFails \<Rightarrow> (failed, written))"

definition get_job :: "string \<Rightarrow> job_store \<Rightarrow> pyexc + job_store_result" where
  "get_job jid s = (case fmlookup (js_files s) jid of
       None \<Rightarrow> Inr (job_error (derror ''job.not_found'' [Txt ''Execution job '', ReprS jid, Txt '' was not found.'']
          (Some (path_for s jid))))
     | Some f \<Rightarrow> (case read_record f of
          Inr j \<Rightarrow> Inr (job_found j (Some (path_for s jid)))
        | Inl e \<Rightarrow> if caught_read e then Inr (read_failed (path_for s jid)) else Inl e))"

fun list_from :: "job_store \<Rightarrow> (string \<times> job_file) list \<Rightarrow> execution_job list \<Rightarrow> pyexc + job_store_result" where
  "list_from s [] js = Inr (jobs_found js)"
| "list_from s ((k, f) # rest) js = (case read_record f of
       Inr j \<Rightarrow> list_from s rest (js @ [j])
     | Inl e \<Rightarrow> if caught_read e then Inr (read_failed (path_for s k)) else Inl e)"

definition list_jobs :: "job_store \<Rightarrow> pyexc + job_store_result" where
  "list_jobs s = list_from s (fmap_entries (js_files s)) []"

definition is_active :: "execution_job \<Rightarrow> bool" where
  "is_active j \<longleftrightarrow> jstatus_value (j_status j) \<in> set ACTIVE_JOB_STATUSES"

definition find_active :: "string \<Rightarrow> string \<Rightarrow> string \<Rightarrow> job_store \<Rightarrow> pyexc + job_store_result" where
  "find_active pid tid trid s = bind_sum (list_jobs s) (\<lambda>listed.
     if \<not> jr_accepted listed then Inr listed
     else Inr (jobs_found (filter (\<lambda>j. j_project_id j = pid \<and> j_task_id j = tid \<and> j_transition_id j = trid
        \<and> is_active j) (jr_jobs listed))))"

definition setdefault :: "string \<Rightarrow> json \<Rightarrow> meta \<Rightarrow> meta" where
  "setdefault k v m = (case fmlookup m k of None \<Rightarrow> fmupd k v m | Some _ \<Rightarrow> m)"

type_synonym job_outcome = "(pyexc + job_store_result) \<times> job_store"

definition create :: "op_env \<Rightarrow> execution_job \<Rightarrow> job_store \<Rightarrow> job_outcome" where
  "create env job s = (case find_active (j_project_id job) (j_task_id job) (j_transition_id job) s of
       Inl e \<Rightarrow> (Inl e, s)
     | Inr active \<Rightarrow>
         (case jr_error active of
            Some err \<Rightarrow> (Inr (job_error err), s)
          | None \<Rightarrow>
              if jr_jobs active \<noteq> [] then
                (Inr (job_error (derror ''job.active_exists''
                   [Txt ''An active execution job already exists for task '', ReprS (j_task_id job),
                    Txt '' and transition '', ReprS (j_transition_id job), Txt ''.'']
                   (Some (j_job_id (hd (jr_jobs active)))))), s)
              else
                let metadata = setdefault ''updated_at'' (JStr (env_now env))
                      (setdefault ''created_at'' (JStr (env_now env)) (j_metadata job));
                    (r, s') = save env (job\<lparr>j_metadata := metadata\<rparr>) s
                in (Inr r, s')))"

text \<open>The first immutable key the update would change.\<close>

definition changed_immutable :: "meta \<Rightarrow> meta \<Rightarrow> string option" where
  "changed_immutable old upd = List.find (\<lambda>k. case (fmlookup upd k, fmlookup old k) of
       (Some v, Some v') \<Rightarrow> \<not> py_eq v v' | _ \<Rightarrow> False) IMMUTABLE_JOB_METADATA_KEYS"

definition update_status ::
  "op_env \<Rightarrow> string \<Rightarrow> job_status + string \<Rightarrow> meta \<Rightarrow> bool \<Rightarrow> job_store \<Rightarrow> job_outcome" where
  "update_status env jid st upd increment s = (case get_job jid s of
       Inl e \<Rightarrow> (Inl e, s)
     | Inr loaded \<Rightarrow>
         (case jr_job loaded of
            None \<Rightarrow> (Inr loaded, s)
          | Some job \<Rightarrow>
              (case changed_immutable (j_metadata job) upd of
                 Some key \<Rightarrow> (Inr (job_error (derror ''job.immutable_metadata''
                   [Txt ''Execution job metadata field '', ReprS key, Txt '' is immutable.''] (Some jid))), s)
               | None \<Rightarrow>
                   let merged = fmupd ''updated_at'' (JStr (env_now env)) (j_metadata job ++\<^sub>f upd);
                       (r, s') = save env (job\<lparr>j_status := st,
                         j_attempts := j_attempts job + (if increment then 1 else 0), j_metadata := merged\<rparr>) s
                   in (Inr r, s'))))"

definition item_named :: "string \<Rightarrow> json \<Rightarrow> bool" where
  "item_named aid item = (case item of JObj m \<Rightarrow> fmlookup m ''attempt_id'' = Some (JStr aid) | _ \<Rightarrow> False)"

definition item_number :: "json \<Rightarrow> pyexc + int" where
  "item_number item = (case item of JObj m \<Rightarrow> py_int (jget m ''attempt_number'' (JInt 0)) | _ \<Rightarrow> Inl AttributeErr)"

definition raw_records :: "meta \<Rightarrow> pyexc + json list" where
  "raw_records m = (case fmlookup m ATTEMPT_RECORD_METADATA_KEY of
     None \<Rightarrow> Inr [] | Some j \<Rightarrow> if json_truthy j then py_list j else Inr [])"

definition upsert_record :: "attempt_record \<Rightarrow> json list \<Rightarrow> pyexc + json list" where
  "upsert_record r items = sort_by item_number
     (filter (\<lambda>i. \<not> item_named (ar_attempt_id r) i) items @ [JObj (attempt_record_to_dict r)])"

definition record_attempt :: "op_env \<Rightarrow> string \<Rightarrow> meta \<Rightarrow> job_store \<Rightarrow> job_outcome" where
  "record_attempt env jid payload s = (case get_job jid s of
       Inl e \<Rightarrow> (Inl e, s)
     | Inr loaded \<Rightarrow>
         (case jr_job loaded of
            None \<Rightarrow> (Inr loaded, s)
          | Some job \<Rightarrow>
              (case attempt_record_from_dict payload of
                 Inl e \<Rightarrow> if e \<in> {ValueErr, TypeErr}
                   then (Inr (job_error (derror ''attempt.invalid'' [Txt ''Cannot record attempt: '', ExcText] (Some jid))), s)
                   else (Inl e, s)
               | Inr incoming \<Rightarrow>
                   (case bind_sum (raw_records (j_metadata job)) (upsert_record incoming) of
                      Inl e \<Rightarrow> (Inl e, s)
                    | Inr surviving \<Rightarrow> update_status env jid (j_status job)
                        (fmap_of_list [(ATTEMPT_RECORD_METADATA_KEY, JList surviving)]) False s))))"

text \<open>\<open>by_id\<close>: the last reconciled record of an id.\<close>

definition settled_for :: "attempt_record list \<Rightarrow> string \<Rightarrow> attempt_record option" where
  "settled_for rs aid = List.find (\<lambda>r. ar_attempt_id r = aid) (rev rs)"

text \<open>The closing loop: one \<open>record_attempt\<close> for each incomplete record, whose result is
  ignored; an exception ends it.  The n-th turn has its own clock reading and write fate.\<close>

fun settle_loop :: "(nat \<Rightarrow> op_env) \<Rightarrow> nat \<Rightarrow> string \<Rightarrow> attempt_record list \<Rightarrow> attempt_record list \<Rightarrow> job_store
    \<Rightarrow> (pyexc + unit) \<times> job_store" where
  "settle_loop envs n jid by_id [] s = (Inr (), s)"
| "settle_loop envs n jid by_id (r # rs) s =
     (if \<not> incomplete r then settle_loop envs n jid by_id rs s
      else case settled_for by_id (ar_attempt_id r) of
          None \<Rightarrow> settle_loop envs n jid by_id rs s
        | Some settled \<Rightarrow>
            (case record_attempt (envs n) jid (attempt_record_to_dict settled) s of
               (Inl e, s') \<Rightarrow> (Inl e, s')
             | (Inr _, s') \<Rightarrow> settle_loop envs (Suc n) jid by_id rs s'))"

definition settle_interrupted_attempts ::
  "(nat \<Rightarrow> op_env) \<Rightarrow> string \<Rightarrow> string option \<Rightarrow> string option \<Rightarrow> job_store \<Rightarrow> job_outcome" where
  "settle_interrupted_attempts envs jid ended_at failure_reference s = (case get_job jid s of
       Inl e \<Rightarrow> (Inl e, s)
     | Inr loaded \<Rightarrow>
         (case jr_job loaded of
            None \<Rightarrow> (Inr loaded, s)
          | Some job \<Rightarrow>
              (case attempt_records_from_metadata (j_metadata job) of
                 Inl e \<Rightarrow> if e = ValueErr then (Inr (job_found job None), s) else (Inl e, s)
               | Inr records \<Rightarrow>
                   if \<not> list_ex incomplete records then (Inr (job_found job None), s)
                   else
                     let endpoint = py_or ended_at (Some (env_now (envs 0)));
                         reference = py_or failure_reference (Some jid);
                         reconciled = reconcile_attempt_records endpoint reference records
                     in (case settle_loop envs 1 jid reconciled records s of
                           (Inl e, s') \<Rightarrow> (Inl e, s')
                         | (Inr _, s') \<Rightarrow> (Inr (job_found job None), s')))))"

end
