(* ===== verification/JobFacts.thy ===== *)
theory JobFacts
  imports Jobs
begin

text \<open>
  Laws of the job store.  \<open>view\<close> reads the store as a partial map from job id to job; every
  operation is characterised by what it does to that map, and the properties are stated on it.
  The locale \<open>exclusive_store\<close> states when a store of entries keeps at most one live entry per
  key; it is interpreted on the locked operations of the job store.
\<close>

section \<open>Records\<close>

definition job_filled :: "execution_job \<Rightarrow> bool" where
  "job_filled j \<longleftrightarrow> j_job_id j \<noteq> [] \<and> j_project_id j \<noteq> [] \<and> j_task_id j \<noteq> [] \<and> j_transition_id j \<noteq> []
     \<and> j_worker_id j \<noteq> [] \<and> j_workspace_path j \<noteq> [] \<and> jstatus_value (j_status j) \<noteq> []"

definition reload :: "execution_job \<Rightarrow> execution_job" where
  "reload j = j\<lparr>j_status := Inr (jstatus_value (j_status j))\<rparr>"

lemma reload_frame [simp, frame_simps]:
  "j_job_id (reload j) = j_job_id j" "j_project_id (reload j) = j_project_id j"
  "j_task_id (reload j) = j_task_id j" "j_transition_id (reload j) = j_transition_id j"
  "j_worker_id (reload j) = j_worker_id j" "j_workspace_path (reload j) = j_workspace_path j"
  "j_attempts (reload j) = j_attempts j" "j_metadata (reload j) = j_metadata j"
  "jstatus_value (j_status (reload j)) = jstatus_value (j_status j)"
  by (simp_all add: reload_def jstatus_value_def)

lemma is_active_reload [simp]: "is_active (reload j) = is_active j"
  by (simp add: is_active_def)

lemma payload_lookups:
  "fmlookup (job_to_payload j) ''job_id'' = Some (JStr (j_job_id j))"
  "fmlookup (job_to_payload j) ''project_id'' = Some (JStr (j_project_id j))"
  "fmlookup (job_to_payload j) ''task_id'' = Some (JStr (j_task_id j))"
  "fmlookup (job_to_payload j) ''transition_id'' = Some (JStr (j_transition_id j))"
  "fmlookup (job_to_payload j) ''worker_id'' = Some (JStr (j_worker_id j))"
  "fmlookup (job_to_payload j) ''workspace_path'' = Some (JStr (j_workspace_path j))"
  "fmlookup (job_to_payload j) ''status'' = Some (JStr (jstatus_value (j_status j)))"
  "fmlookup (job_to_payload j) ''attempts'' = Some (JInt (j_attempts j))"
  "fmlookup (job_to_payload j) ''metadata'' = Some (JObj (j_metadata j))"
  by (simp_all add: job_to_payload_def fmlookup_of_list)

lemma read_written:
  assumes "job_filled j"
  shows "read_record (Stored (JObj (job_to_payload j))) = Inr (reload j)"
  using assms
  by (simp add: read_record_def job_from_payload_def jget_def required_string_def payload_lookups
      job_filled_def reload_def)

lemma read_record_filled:
  assumes "read_record f = Inr j"
  shows "job_filled j"
proof -
  obtain p where p: "job_from_payload p = Inr j"
    using assms by (auto simp: read_record_def split: job_file.splits json.splits)
  then obtain md where "jget p ''metadata'' (JObj fmempty) = JObj md"
    by (auto simp: job_from_payload_def split: json.splits)
  with p show ?thesis
    by (auto simp: job_from_payload_def bind_sum_Inr_iff job_filled_def jstatus_value_def
        dest: required_string_filled)
qed

section \<open>The store as a map\<close>

definition view :: "job_store \<Rightarrow> string \<Rightarrow> execution_job option" where
  "view s k = (case fmlookup (js_files s) k of None \<Rightarrow> None
     | Some f \<Rightarrow> (case read_record f of Inr j \<Rightarrow> Some j | Inl _ \<Rightarrow> None))"

definition store_ok :: "job_store \<Rightarrow> bool" where
  "store_ok s \<longleftrightarrow> (\<forall>k f. fmlookup (js_files s) k = Some f \<longrightarrow> (\<exists>j. read_record f = Inr j \<and> j_job_id j = k))"

lemma store_ok_view: "store_ok s \<Longrightarrow> fmlookup (js_files s) k = Some f \<Longrightarrow> read_record f = Inr (the (view s k)) \<and> view s k \<noteq> None"
  unfolding store_ok_def view_def by fastforce

lemma view_Some: "view s k = Some j \<longleftrightarrow> (\<exists>f. fmlookup (js_files s) k = Some f \<and> read_record f = Inr j)"
  by (auto simp: view_def split: option.splits sum.splits)

lemma view_filled: "view s k = Some j \<Longrightarrow> job_filled j"
  by (auto simp: view_Some dest: read_record_filled)

lemma view_id: "store_ok s \<Longrightarrow> view s k = Some j \<Longrightarrow> j_job_id j = k"
  by (fastforce simp: view_Some store_ok_def)

lemma view_None: "store_ok s \<Longrightarrow> view s k = None \<longleftrightarrow> fmlookup (js_files s) k = None"
  by (cases "fmlookup (js_files s) k") (auto simp: view_def dest: store_ok_view)

lemma get_job_ok:
  assumes "store_ok s"
  shows "get_job k s = Inr (case view s k of
     None \<Rightarrow> job_error (derror ''job.not_found'' [Txt ''Execution job '', ReprS k, Txt '' was not found.''] (Some (path_for s k)))
   | Some j \<Rightarrow> job_found j (Some (path_for s k)))"
proof (cases "fmlookup (js_files s) k")
  case None
  then show ?thesis by (simp add: get_job_def view_def)
next
  case (Some f)
  with store_ok_view [OF assms Some] show ?thesis by (auto simp: get_job_def view_def)
qed

lemma list_from_ok:
  assumes "\<forall>(k, f) \<in> set es. read_record f = Inr (g k)"
  shows "list_from s es js = Inr (jobs_found (js @ map (g \<circ> fst) es))"
  using assms by (induction es arbitrary: js) auto

definition job_ids :: "job_store \<Rightarrow> string list" where
  "job_ids s = map fst (fmap_entries (js_files s))"

lemma fmap_entries_lookup: "(k, v) \<in> set (fmap_entries m) \<Longrightarrow> fmlookup m k = Some v"
proof -
  assume a: "(k, v) \<in> set (fmap_entries m)"
  then have "k |\<in>| fmdom m" by (auto simp: fmap_entries_def sorted_list_of_fmap_def)
  with a show ?thesis by (auto simp: fmap_entries_def sorted_list_of_fmap_def fmlookup_dom_iff)
qed

lemma set_job_ids: "k \<in> set (job_ids s) \<longleftrightarrow> fmlookup (js_files s) k \<noteq> None"
  by (simp add: job_ids_def fmap_entries_def sorted_list_of_fmap_def comp_def fmlookup_dom_iff)

lemma list_jobs_ok:
  assumes "store_ok s"
  shows "list_jobs s = Inr (jobs_found (map (the \<circ> view s) (job_ids s)))"
proof -
  have "\<forall>(k, f) \<in> set (fmap_entries (js_files s)). read_record f = Inr (the (view s k))"
    using store_ok_view [OF assms] fmap_entries_lookup by fastforce
  from list_from_ok [OF this] show ?thesis by (simp add: list_jobs_def job_ids_def comp_def)
qed

lemma listed_iff:
  assumes "store_ok s"
  shows "j \<in> set (map (the \<circ> view s) (job_ids s)) \<longleftrightarrow> (\<exists>k. view s k = Some j)"
proof
  assume "j \<in> set (map (the \<circ> view s) (job_ids s))"
  then obtain k where k: "k \<in> set (job_ids s)" "j = the (view s k)" by auto
  then have "view s k \<noteq> None" using view_None [OF assms] set_job_ids by blast
  with k show "\<exists>k. view s k = Some j" by auto
next
  assume "\<exists>k. view s k = Some j"
  then obtain k where k: "view s k = Some j" by blast
  then have "k \<in> set (job_ids s)" using view_None [OF assms, of k] set_job_ids by auto
  with k show "j \<in> set (map (the \<circ> view s) (job_ids s))" by force
qed

section \<open>Effect of the operations\<close>

lemma save_view:
  assumes "store_ok s" "job_filled j" "save env j s = (r, s')"
  shows "store_ok s' \<and> (s' = s \<or> view s' = (view s)(j_job_id j \<mapsto> reload j))"
    and "env_write env = WriteOk \<Longrightarrow> view s' = (view s)(j_job_id j \<mapsto> reload j)"
proof -
  let ?w = "s\<lparr>js_files := fmupd (j_job_id j) (Stored (JObj (job_to_payload j))) (js_files s)\<rparr>"
  have v: "view ?w = (view s)(j_job_id j \<mapsto> reload j)"
    by (rule ext) (simp add: view_def read_written [OF assms(2)])
  have ok: "store_ok ?w"
    using assms(1) read_written [OF assms(2)] by (auto simp: store_ok_def)
  show "store_ok s' \<and> (s' = s \<or> view s' = (view s)(j_job_id j \<mapsto> reload j))"
    using assms(1,3) v ok by (cases "env_write env") (auto simp: save_def Let_def)
  show "env_write env = WriteOk \<Longrightarrow> view s' = (view s)(j_job_id j \<mapsto> reload j)"
    using assms(3) v by (auto simp: save_def Let_def)
qed

definition same_identity :: "execution_job \<Rightarrow> execution_job \<Rightarrow> bool" where
  "same_identity j j' \<longleftrightarrow> j_job_id j' = j_job_id j \<and> j_project_id j' = j_project_id j \<and> j_task_id j' = j_task_id j
     \<and> j_transition_id j' = j_transition_id j \<and> j_worker_id j' = j_worker_id j \<and> j_workspace_path j' = j_workspace_path j"

definition immutables_kept :: "meta \<Rightarrow> meta \<Rightarrow> bool" where
  "immutables_kept m m' \<longleftrightarrow> (\<forall>k \<in> set IMMUTABLE_JOB_METADATA_KEYS. \<forall>v. fmlookup m k = Some v \<longrightarrow>
     (\<exists>v'. fmlookup m' k = Some v' \<and> py_eq v' v))"

lemma same_identity_refl [simp]: "same_identity j j"
  by (simp add: same_identity_def)

lemma same_identity_trans: "same_identity a b \<Longrightarrow> same_identity b c \<Longrightarrow> same_identity a c"
  by (simp add: same_identity_def)

lemma immutables_kept_refl [simp]: "immutables_kept m m"
  by (simp add: immutables_kept_def)

lemma immutables_kept_trans: "immutables_kept a b \<Longrightarrow> immutables_kept b c \<Longrightarrow> immutables_kept a c"
  unfolding immutables_kept_def by (meson py_eq_trans)

lemma updated_at_mutable: "''updated_at'' \<notin> set IMMUTABLE_JOB_METADATA_KEYS"
  by (simp add: IMMUTABLE_JOB_METADATA_KEYS_def)

lemma attempt_key_mutable: "ATTEMPT_RECORD_METADATA_KEY \<notin> set IMMUTABLE_JOB_METADATA_KEYS"
  by (simp add: IMMUTABLE_JOB_METADATA_KEYS_def ATTEMPT_RECORD_METADATA_KEY_def)

lemma unchanged_immutables:
  assumes "changed_immutable m upd = None"
  shows "immutables_kept m (fmupd ''updated_at'' v (m ++\<^sub>f upd))"
proof -
  have "\<And>k. k \<in> set IMMUTABLE_JOB_METADATA_KEYS \<Longrightarrow>
      \<not> (case (fmlookup upd k, fmlookup m k) of (Some v, Some v') \<Rightarrow> \<not> py_eq v v' | _ \<Rightarrow> False)"
    using assms by (auto simp: changed_immutable_def find_None_iff)
  then show ?thesis
    using updated_at_mutable unfolding immutables_kept_def
    by (fastforce split: option.splits)
qed

definition update_of :: "op_env \<Rightarrow> job_status + string \<Rightarrow> meta \<Rightarrow> bool \<Rightarrow> execution_job \<Rightarrow> execution_job" where
  "update_of env st upd increment j = j\<lparr>j_status := st, j_attempts := j_attempts j + (if increment then 1 else 0),
     j_metadata := fmupd ''updated_at'' (JStr (env_now env)) (j_metadata j ++\<^sub>f upd)\<rparr>"

lemma update_of_identity [simp]: "same_identity j (reload (update_of env st upd i j))"
  by (simp add: same_identity_def update_of_def)

lemma update_status_effect:
  assumes "store_ok s" "jstatus_value st \<noteq> []" "update_status env jid st upd inc s = (r, s')"
  shows "store_ok s' \<and> (s' = s \<or> (\<exists>j. view s jid = Some j \<and> changed_immutable (j_metadata j) upd = None
      \<and> view s' = (view s)(jid \<mapsto> reload (update_of env st upd inc j))))"
proof (cases "view s jid")
  case None
  with assms show ?thesis by (simp add: update_status_def get_job_ok)
next
  case (Some j)
  have j: "j_job_id j = jid" "job_filled j" using assms(1) Some view_id view_filled by blast+
  show ?thesis
  proof (cases "changed_immutable (j_metadata j) upd")
    case None
    have "job_filled (update_of env st upd inc j)"
      using j assms(2) by (simp add: job_filled_def update_of_def)
    moreover have "save env (update_of env st upd inc j) s = (projr r, s')"
      using assms(1,3) Some None
      by (auto simp: update_status_def get_job_ok Let_def update_of_def split: prod.splits)
    ultimately have "store_ok s' \<and> (s' = s \<or> view s' = (view s)(j_job_id (update_of env st upd inc j) \<mapsto> reload (update_of env st upd inc j)))"
      by (rule save_view(1) [OF assms(1)])
    moreover have "j_job_id (update_of env st upd inc j) = jid" using j by (simp add: update_of_def)
    ultimately show ?thesis using None Some by (simp only:) blast
  qed (use assms Some in \<open>simp add: update_status_def get_job_ok\<close>)
qed

lemma update_status_written:
  assumes "store_ok s" "jstatus_value st \<noteq> []" "view s jid = Some j"
    "changed_immutable (j_metadata j) upd = None" "env_write env = WriteOk"
  shows "view (snd (update_status env jid st upd inc s)) = (view s)(jid \<mapsto> reload (update_of env st upd inc j))"
proof -
  have j: "j_job_id j = jid" "job_filled j" using assms(1,3) view_id view_filled by blast+
  then have "job_filled (update_of env st upd inc j)"
    using assms(2) by (simp add: job_filled_def update_of_def)
  moreover obtain r s' where w: "save env (update_of env st upd inc j) s = (r, s')" by fastforce
  ultimately have "view s' = (view s)(jid \<mapsto> reload (update_of env st upd inc j))"
    using save_view(2) [OF assms(1) _ w assms(5)] j by (simp add: update_of_def)
  with w assms(1,3,4) show ?thesis
    by (simp add: update_status_def get_job_ok Let_def update_of_def)
qed

definition job_key :: "execution_job \<Rightarrow> string \<times> string \<times> string" where
  "job_key j = (j_project_id j, j_task_id j, j_transition_id j)"

lemma job_key_reload [simp]: "job_key (reload j) = job_key j"
  by (simp add: job_key_def)

lemma find_active_ok:
  assumes "store_ok s"
  shows "find_active pid tid trid s = Inr (jobs_found (filter
     (\<lambda>j. job_key j = (pid, tid, trid) \<and> is_active j) (map (the \<circ> view s) (job_ids s))))"
  by (simp add: find_active_def list_jobs_ok [OF assms] job_key_def conj_assoc)

definition stamped :: "op_env \<Rightarrow> execution_job \<Rightarrow> execution_job" where
  "stamped env job = job\<lparr>j_metadata := setdefault ''updated_at'' (JStr (env_now env))
     (setdefault ''created_at'' (JStr (env_now env)) (j_metadata job))\<rparr>"

lemma stamped_frame [simp]:
  "j_job_id (stamped env job) = j_job_id job" "job_key (stamped env job) = job_key job"
  "is_active (stamped env job) = is_active job" "job_filled (stamped env job) = job_filled job"
  by (simp_all add: stamped_def job_key_def is_active_def job_filled_def)

definition active_key :: "job_store \<Rightarrow> string \<times> string \<times> string \<Rightarrow> bool" where
  "active_key s key \<longleftrightarrow> (\<exists>k j. view s k = Some j \<and> is_active j \<and> job_key j = key)"

lemma filter_active_Nil:
  assumes "store_ok s"
  shows "filter (\<lambda>j. job_key j = key \<and> is_active j) (map (the \<circ> view s) (job_ids s)) = [] \<longleftrightarrow> \<not> active_key s key"
  unfolding filter_none_iff active_key_def Ball_def listed_iff [OF assms] by blast

lemma create_effect:
  assumes "store_ok s"
  shows "active_key s (job_key job) \<Longrightarrow> snd (create env job s) = s
      \<and> (\<exists>res e. fst (create env job s) = Inr res \<and> jr_error res = Some e \<and> err_code e = ''job.active_exists'')"
    and "\<not> active_key s (job_key job) \<Longrightarrow> create env job s = (case save env (stamped env job) s of (r, s') \<Rightarrow> (Inr r, s'))"
proof -
  let ?js = "filter (\<lambda>j. job_key j = job_key job \<and> is_active j) (map (the \<circ> view s) (job_ids s))"
  have fa: "find_active (j_project_id job) (j_task_id job) (j_transition_id job) s = Inr (jobs_found ?js)"
    by (simp add: find_active_ok [OF assms] job_key_def)
  show "active_key s (job_key job) \<Longrightarrow> snd (create env job s) = s
      \<and> (\<exists>res e. fst (create env job s) = Inr res \<and> jr_error res = Some e \<and> err_code e = ''job.active_exists'')"
    using filter_active_Nil [OF assms, of "job_key job"] by (simp add: create_def fa)
  show "\<not> active_key s (job_key job) \<Longrightarrow> create env job s = (case save env (stamped env job) s of (r, s') \<Rightarrow> (Inr r, s'))"
    using filter_active_Nil [OF assms, of "job_key job"] by (simp add: create_def fa stamped_def Let_def)
qed

lemma create_view:
  assumes "store_ok s" "job_filled job" "create env job s = (r, s')"
  shows "store_ok s' \<and> (s' = s \<or> \<not> active_key s (job_key job)
     \<and> view s' = (view s)(j_job_id job \<mapsto> reload (stamped env job)))"
proof (cases "active_key s (job_key job)")
  case True
  then show ?thesis using create_effect(1) [OF assms(1) True, of env] assms by simp
next
  case False
  obtain r0 where "save env (stamped env job) s = (r0, s')"
    using create_effect(2) [OF assms(1) False, of env] assms(3) by (auto split: prod.splits)
  from save_view(1) [OF assms(1) _ this] assms(2) False show ?thesis by simp
qed

lemma record_attempt_effect:
  assumes "store_ok s" "record_attempt env jid payload s = (r, s')"
  shows "store_ok s' \<and> (s' = s \<or> (\<exists>j items. view s jid = Some j
     \<and> view s' = (view s)(jid \<mapsto> reload (update_of env (j_status j)
          (fmap_of_list [(ATTEMPT_RECORD_METADATA_KEY, JList items)]) False j))))"
proof (cases "view s jid")
  case None
  with assms show ?thesis by (simp add: record_attempt_def get_job_ok)
next
  case (Some j)
  have filled: "jstatus_value (j_status j) \<noteq> []" using view_filled [OF Some] by (simp add: job_filled_def)
  show ?thesis
  proof (cases "attempt_record_from_dict payload")
    case (Inl e)
    with assms Some show ?thesis by (auto simp: record_attempt_def get_job_ok split: if_splits)
  next
    case (Inr inc)
    show ?thesis
    proof (cases "bind_sum (raw_records (j_metadata j)) (upsert_record inc)")
      case (Inl e)
      with Inr assms Some show ?thesis by (auto simp: record_attempt_def get_job_ok)
    next
      case surv: (Inr items)
      with Inr assms Some have "update_status env jid (j_status j)
          (fmap_of_list [(ATTEMPT_RECORD_METADATA_KEY, JList items)]) False s = (r, s')"
        by (simp add: record_attempt_def get_job_ok)
      from update_status_effect [OF assms(1) filled this] Some show ?thesis by auto
    qed
  qed
qed

section \<open>Traces of locked operations\<close>

text \<open>The operations that hold the store's lock.  \<open>settle_interrupted_attempts\<close> is not one of
  them: it is a read followed by locked \<open>record_attempt\<close>s, between which other processes run.\<close>

datatype job_op = Create op_env execution_job
  | Update op_env string "job_status + string" meta bool
  | Record op_env string meta

fun run_op :: "job_op \<Rightarrow> job_store \<Rightarrow> job_outcome" where
  "run_op (Create env job) s = create env job s"
| "run_op (Update env jid st upd inc) s = update_status env jid st upd inc s"
| "run_op (Record env jid payload) s = record_attempt env jid payload s"

text \<open>What the callers pass: every identifier and the status are filled.\<close>

fun op_filled :: "job_op \<Rightarrow> bool" where
  "op_filled (Create env job) \<longleftrightarrow> job_filled job"
| "op_filled (Update env jid st upd inc) \<longleftrightarrow> jstatus_value st \<noteq> []"
| "op_filled (Record env jid payload) \<longleftrightarrow> True"

definition status_active :: "job_status + string \<Rightarrow> bool" where
  "status_active st \<longleftrightarrow> jstatus_value st \<in> set ACTIVE_JOB_STATUSES"

text \<open>An update does not bring an inactive job back.\<close>

fun no_reactivation :: "job_op \<Rightarrow> job_store \<Rightarrow> bool" where
  "no_reactivation (Update env jid st upd inc) s \<longleftrightarrow>
     (status_active st \<longrightarrow> (case view s jid of Some j \<Rightarrow> is_active j | None \<Rightarrow> True))"
| "no_reactivation _ s \<longleftrightarrow> True"

text \<open>A job is created under an id that has no file.\<close>

fun fresh_id :: "job_op \<Rightarrow> job_store \<Rightarrow> bool" where
  "fresh_id (Create env job) s \<longleftrightarrow> fmlookup (js_files s) (j_job_id job) = None"
| "fresh_id _ s \<longleftrightarrow> True"

inductive op_step :: "(job_op \<Rightarrow> job_store \<Rightarrow> bool) \<Rightarrow> job_store \<Rightarrow> job_store \<Rightarrow> bool" for G where
  op: "op_filled x \<Longrightarrow> G x s \<Longrightarrow> run_op x s = (r, s') \<Longrightarrow> op_step G s s'"

inductive_cases op_stepE: "op_step G s s'"

lemma op_step_ok: "store_ok s \<Longrightarrow> op_step G s s' \<Longrightarrow> store_ok s'"
proof (erule op_stepE)
  fix x r
  assume a: "store_ok s" "op_filled x" "run_op x s = (r, s')"
  show "store_ok s'"
  proof (cases x)
    case (Create env job)
    with a create_view [OF a(1), of job env r s'] show ?thesis by simp
  next
    case (Update env jid st upd inc)
    with a update_status_effect [OF a(1), of st env jid upd inc r s'] show ?thesis by simp
  next
    case (Record env jid payload)
    with a record_attempt_effect [OF a(1), of env jid payload r s'] show ?thesis by simp
  qed
qed

subsection \<open>Stores with one live entry for each key\<close>

locale exclusive_store =
  fixes ok :: "'s \<Rightarrow> bool" and entries :: "'s \<Rightarrow> 'i \<Rightarrow> 'e option"
    and key :: "'e \<Rightarrow> 'k" and live :: "'e \<Rightarrow> bool" and step :: "'s \<Rightarrow> 's \<Rightarrow> bool"
  assumes step_ok: "ok s \<Longrightarrow> step s s' \<Longrightarrow> ok s'"
    and step_effect: "ok s \<Longrightarrow> step s s' \<Longrightarrow> entries s' = entries s \<or>
      (\<exists>i e. entries s' = (entries s)(i \<mapsto> e) \<and>
        (live e \<longrightarrow> (\<exists>e0. entries s i = Some e0 \<and> live e0 \<and> key e0 = key e)
                 \<or> (\<forall>i' e'. entries s i' = Some e' \<and> live e' \<longrightarrow> key e' \<noteq> key e)))"
begin

definition exclusive :: "'s \<Rightarrow> bool" where
  "exclusive s \<longleftrightarrow> (\<forall>i j a b. entries s i = Some a \<and> entries s j = Some b \<and> live a \<and> live b \<and> key a = key b \<longrightarrow> i = j)"

lemma exclusive_step:
  assumes "ok s" "exclusive s" "step s s'"
  shows "exclusive s'"
proof -
  consider "entries s' = entries s"
    | i e where "entries s' = (entries s)(i \<mapsto> e)"
        "live e \<longrightarrow> (\<exists>e0. entries s i = Some e0 \<and> live e0 \<and> key e0 = key e)
           \<or> (\<forall>i' e'. entries s i' = Some e' \<and> live e' \<longrightarrow> key e' \<noteq> key e)"
    using step_effect [OF assms(1,3)] by blast
  then show ?thesis
  proof cases
    case 1
    with assms(2) show ?thesis by (simp add: exclusive_def)
  next
    case 2
    have other: "j = i" if "entries s j = Some b" "live b" "live e" "key b = key e" for j b
      using 2(2) assms(2) that unfolding exclusive_def by metis
    show ?thesis
      unfolding exclusive_def 2(1)
      using assms(2) other unfolding exclusive_def
      by (auto split: if_splits; metis)
  qed
qed

lemma exclusive_reachable:
  assumes "step\<^sup>*\<^sup>* s s'" "ok s" "exclusive s"
  shows "ok s' \<and> exclusive s'"
  using assms by (induction rule: rtranclp_induct) (auto intro: step_ok exclusive_step)

end

lemma update_of_frame [simp]:
  "job_key (update_of env st upd i j) = job_key j"
  "is_active (update_of env st upd i j) \<longleftrightarrow> status_active st"
  by (simp_all add: update_of_def job_key_def is_active_def status_active_def)

lemma is_active_status: "is_active j \<longleftrightarrow> status_active (j_status j)"
  by (simp add: is_active_def status_active_def)

lemma job_step_effect:
  assumes "store_ok s" "op_step no_reactivation s s'"
  shows "view s' = view s \<or> (\<exists>i e. view s' = (view s)(i \<mapsto> e) \<and>
     (is_active e \<longrightarrow> (\<exists>e0. view s i = Some e0 \<and> is_active e0 \<and> job_key e0 = job_key e)
        \<or> (\<forall>i' e'. view s i' = Some e' \<and> is_active e' \<longrightarrow> job_key e' \<noteq> job_key e)))"
  using assms(2)
proof (rule op_stepE)
  fix x r
  assume x: "op_filled x" "no_reactivation x s" "run_op x s = (r, s')"
  show ?thesis
  proof (cases x)
    case (Create env job)
    with x create_view [OF assms(1), of job env r s'] consider "s' = s"
      | "\<not> active_key s (job_key job)" "view s' = (view s)(j_job_id job \<mapsto> reload (stamped env job))" by auto
    then show ?thesis
    proof cases
      case 2
      then show ?thesis
        by (intro disjI2 exI [of _ "j_job_id job"] exI [of _ "reload (stamped env job)"])
          (auto simp: active_key_def)
    qed simp
  next
    case (Update env jid st upd inc)
    with x update_status_effect [OF assms(1), of st env jid upd inc r s'] consider "s' = s"
      | j where "view s jid = Some j" "view s' = (view s)(jid \<mapsto> reload (update_of env st upd inc j))" by auto
    then show ?thesis
    proof cases
      case (2 j)
      with x Update show ?thesis
        by (intro disjI2 exI [of _ jid] exI [of _ "reload (update_of env st upd inc j)"]) simp
    qed simp
  next
    case (Record env jid payload)
    with x record_attempt_effect [OF assms(1), of env jid payload r s'] consider "s' = s"
      | j items where "view s jid = Some j" "view s' = (view s)(jid \<mapsto> reload (update_of env (j_status j)
          (fmap_of_list [(ATTEMPT_RECORD_METADATA_KEY, JList items)]) False j))" by auto
    then show ?thesis
    proof cases
      case (2 j items)
      then show ?thesis
        by (intro disjI2 exI [of _ jid] exI [of _ "reload (update_of env (j_status j)
          (fmap_of_list [(ATTEMPT_RECORD_METADATA_KEY, JList items)]) False j)"])
          (simp add: is_active_status [of j])
    qed simp
  qed
qed

interpretation jobs: exclusive_store store_ok view job_key is_active "op_step no_reactivation"
  by unfold_locales (simp_all add: op_step_ok job_step_effect)

definition empty_store :: "string \<Rightarrow> job_store" where
  "empty_store root = \<lparr>js_root = root, js_files = fmempty\<rparr>"

lemma empty_store_ok [simp]: "store_ok (empty_store root)" "view (empty_store root) = Map.empty"
  by (auto simp: store_ok_def empty_store_def view_def)


definition sample_job :: "string \<Rightarrow> execution_job" where
  "sample_job jid = \<lparr>j_job_id = jid, j_project_id = ''p'', j_task_id = ''T-1'', j_transition_id = ''build'',
     j_worker_id = ''w'', j_workspace_path = ''/w'', j_status = Inl PENDING, j_attempts = 0,
     j_metadata = fmap_of_list [(''prompt_packet'', JStr ''pp'')]\<rparr>"

definition env_at :: "string \<Rightarrow> op_env" where
  "env_at now = \<lparr>env_now = now, env_write = WriteOk\<rparr>"

definition store_one :: job_store where
  "store_one = snd (create (env_at ''1'') (sample_job ''j1'') (empty_store ''/jobs''))"

definition store_two :: job_store where
  "store_two = snd (create (env_at ''2'') (sample_job ''j2'') store_one)"

lemma op_stepI: "op_filled x \<Longrightarrow> G x s \<Longrightarrow> op_step G s (snd (run_op x s))"
  by (rule op_step.op [of x G s "fst (run_op x s)"]) simp_all

lemma sample_job_filled [simp]: "job_filled (sample_job jid) \<longleftrightarrow> jid \<noteq> []"
  by (simp add: job_filled_def sample_job_def jstatus_value_def)

lemma store_one_step: "op_step no_reactivation (empty_store ''/jobs'') store_one"
  using op_stepI [of "Create (env_at ''1'') (sample_job ''j1'')" no_reactivation "empty_store ''/jobs''"]
  by (simp add: store_one_def)

lemma store_two_step: "op_step no_reactivation store_one store_two"
  using op_stepI [of "Create (env_at ''2'') (sample_job ''j2'')" no_reactivation store_one]
  by (simp add: store_two_def)


section \<open>Immutable metadata\<close>

definition persists :: "job_store \<Rightarrow> job_store \<Rightarrow> bool" where
  "persists s s' \<longleftrightarrow> (\<forall>k j. view s k = Some j \<longrightarrow> (\<exists>j'. view s' k = Some j' \<and> same_identity j j'
     \<and> immutables_kept (j_metadata j) (j_metadata j')))"

lemma persists_refl: "view s' = view s \<Longrightarrow> persists s s'"
  by (simp add: persists_def)

lemma persists_trans: "persists a b \<Longrightarrow> persists b c \<Longrightarrow> persists a c"
  unfolding persists_def by (meson same_identity_trans immutables_kept_trans)

lemma persists_update:
  assumes "view s jid = Some j" "changed_immutable (j_metadata j) upd = None"
    "view s' = (view s)(jid \<mapsto> reload (update_of env st upd inc j))"
  shows "persists s s'"
  using assms unchanged_immutables [OF assms(2)] by (auto simp: persists_def update_of_def same_identity_def)

lemma attempt_update_keeps:
  "changed_immutable m (fmap_of_list [(ATTEMPT_RECORD_METADATA_KEY, v)]) = None"
  using attempt_key_mutable by (auto simp: changed_immutable_def find_None_iff fmlookup_of_list split: if_splits)

lemma attempt_update_keeps_upd [simp]:
  "changed_immutable m (fmupd ATTEMPT_RECORD_METADATA_KEY v fmempty) = None"
  using attempt_update_keeps [of m v] by simp

lemma persists_step:
  assumes "store_ok s" "op_step fresh_id s s'"
  shows "persists s s'"
  using assms(2)
proof (rule op_stepE)
  fix x r
  assume x: "op_filled x" "fresh_id x s" "run_op x s = (r, s')"
  show ?thesis
  proof (cases x)
    case (Create env job)
    with x create_view [OF assms(1), of job env r s'] consider "s' = s"
      | "view s' = (view s)(j_job_id job \<mapsto> reload (stamped env job))" by auto
    then show ?thesis
    proof cases
      case 2
      moreover have "view s (j_job_id job) = None" using x Create by (simp add: view_def)
      ultimately show ?thesis by (auto simp: persists_def)
    qed (simp add: persists_refl)
  next
    case (Update env jid st upd inc)
    with x update_status_effect [OF assms(1), of st env jid upd inc r s'] consider "s' = s"
      | j where "view s jid = Some j" "changed_immutable (j_metadata j) upd = None"
          "view s' = (view s)(jid \<mapsto> reload (update_of env st upd inc j))" by auto
    then show ?thesis
      by cases (simp_all only: persists_refl persists_update)
  next
    case (Record env jid payload)
    with x record_attempt_effect [OF assms(1), of env jid payload r s'] consider "s' = s"
      | j items where "view s jid = Some j" "view s' = (view s)(jid \<mapsto> reload (update_of env (j_status j)
          (fmap_of_list [(ATTEMPT_RECORD_METADATA_KEY, JList items)]) False j))" by auto
    then show ?thesis
      by cases (simp_all only: persists_refl persists_update [OF _ attempt_update_keeps])
  qed
qed


definition store_edited :: job_store where
  "store_edited = snd (update_status (env_at ''3'') ''j1'' (Inl RUNNING)
     (fmap_of_list [(''prompt_packet'', JStr ''other'')]) True store_one)"


end
