(* ===== verification/JobSettle.thy ===== *)
theory JobSettle
  imports JobFacts "HOL-Library.Multiset"
begin

text \<open>
  The restart path of the job store: \<open>settle_interrupted_attempts\<close> as a whole.  The stored
  items of a job are followed as the multiset of records they parse to, because each
  \<open>record_attempt\<close> removes one item, appends its replacement and sorts again.
\<close>

section \<open>Stored items and the records they parse to\<close>

lemma map_sum_list_projr:
  "map_sum_list f xs = Inr ys \<longleftrightarrow> (\<forall>x \<in> set xs. \<exists>y. f x = Inr y) \<and> ys = map (projr \<circ> f) xs"
  by (induction xs arbitrary: ys) (auto simp: bind_sum_Inr_iff)

lemma item_parsed:
  assumes "attempt_record_from_item i = Inr p"
  shows "item_number i = Inr (ar_attempt_number p)" "item_named aid i \<longleftrightarrow> ar_attempt_id p = aid"
proof -
  obtain m where m: "i = JObj m" "attempt_record_from_dict m = Inr p"
    using assms by (auto simp: attempt_record_from_item_def split: json.splits)
  show "item_number i = Inr (ar_attempt_number p)"
    using m by (auto simp: item_number_def attempt_record_from_dict_def Let_def bind_sum_Inr_iff)
  have "required_string m ''attempt_id'' = Inr (ar_attempt_id p)"
    using m(2) by (auto simp: attempt_record_from_dict_def Let_def bind_sum_Inr_iff)
  then have "fmlookup m ''attempt_id'' = Some (JStr (ar_attempt_id p))"
    by (auto simp: required_string_def split: option.splits json.splits if_splits)
  then show "item_named aid i \<longleftrightarrow> ar_attempt_id p = aid" by (simp add: item_named_def m(1))
qed

abbreviation parse_items :: "json list \<Rightarrow> pyexc + attempt_record list" where
  "parse_items \<equiv> map_sum_list attempt_record_from_item"

lemma parse_items_filter:
  assumes "parse_items items = Inr ps"
  shows "parse_items (filter (\<lambda>i. \<not> item_named aid i) items) = Inr (filter (\<lambda>p. ar_attempt_id p \<noteq> aid) ps)"
  using assms
proof (induction items arbitrary: ps)
  case (Cons i items)
  then obtain p qs where "attempt_record_from_item i = Inr p" "parse_items items = Inr qs" "ps = p # qs"
    by (auto simp: bind_sum_Inr_iff)
  with Cons.IH [of qs] item_parsed(2) [of i p aid] show ?case by simp
qed simp

lemma sort_by_perm:
  assumes "sort_by f xs = Inr ys"
  shows "mset ys = mset xs"
proof -
  obtain ks where ks: "map_sum_list f xs = Inr ks" "ys = map snd (sort_key fst (zip ks xs))"
    using assms by (auto simp: sort_by_def bind_sum_Inr_iff)
  then have "length ks = length xs" by (simp add: map_sum_list_Inr_iff)
  then have "mset (map snd (zip ks xs)) = mset xs" by simp
  then show ?thesis by (simp add: ks(2) mset_sort)
qed

lemma parse_items_perm:
  assumes "parse_items xs = Inr ps" "mset ys = mset xs"
  shows "\<exists>qs. parse_items ys = Inr qs \<and> mset qs = mset ps"
proof -
  have "set ys = set xs" using assms(2) by (metis set_mset_mset)
  then have "parse_items ys = Inr (map (projr \<circ> attempt_record_from_item) ys)"
    using assms(1) by (auto simp: map_sum_list_projr)
  moreover have "mset (map (projr \<circ> attempt_record_from_item) ys) = mset ps"
    using assms by (simp add: map_sum_list_projr)
  ultimately show ?thesis by blast
qed

lemma upsert_parsed:
  assumes "parse_items items = Inr ps" "attempt_record_from_dict (attempt_record_to_dict r) = Inr r"
  shows "\<exists>items' ps'. upsert_record r items = Inr items' \<and> items' \<noteq> [] \<and> parse_items items' = Inr ps'
     \<and> mset ps' = filter_mset (\<lambda>p. ar_attempt_id p \<noteq> ar_attempt_id r) (mset ps) + {#r#}"
proof -
  let ?xs = "filter (\<lambda>i. \<not> item_named (ar_attempt_id r) i) items @ [JObj (attempt_record_to_dict r)]"
  let ?ps = "filter (\<lambda>p. ar_attempt_id p \<noteq> ar_attempt_id r) ps @ [r]"
  have x: "parse_items ?xs = Inr ?ps"
    using parse_items_filter [OF assms(1)] assms(2)
    by (simp add: map_sum_list_append attempt_record_from_item_def)
  have "\<forall>i \<in> set ?xs. \<exists>n. item_number i = Inr n"
    using x item_parsed(1) unfolding map_sum_list_projr by blast
  then obtain ks where "map_sum_list item_number ?xs = Inr ks" by (auto simp: map_sum_list_projr)
  then obtain items' where i: "upsert_record r items = Inr items'"
    by (simp add: upsert_record_def sort_by_def)
  then have m: "mset items' = mset ?xs" by (intro sort_by_perm) (simp add: upsert_record_def)
  from parse_items_perm [OF x m] obtain qs where q: "parse_items items' = Inr qs" "mset qs = mset ?ps" by blast
  from q(2) have "mset qs = filter_mset (\<lambda>p. ar_attempt_id p \<noteq> ar_attempt_id r) (mset ps) + {#r#}"
    by (simp add: mset_filter)
  moreover have "items' \<noteq> []" using m by auto
  ultimately show ?thesis using i q(1) by blast
qed

section \<open>One settled record\<close>

definition writes_ok :: "(nat \<Rightarrow> op_env) \<Rightarrow> bool" where
  "writes_ok envs \<longleftrightarrow> (\<forall>i. env_write (envs i) = WriteOk)"

lemma writes_okD: "writes_ok envs \<Longrightarrow> env_write (envs i) = WriteOk"
  by (simp add: writes_ok_def)

lemma records_items:
  assumes "attempt_records_from_metadata m = Inr rs" "rs \<noteq> []"
  shows "\<exists>items ps. fmlookup m ATTEMPT_RECORD_METADATA_KEY = Some (JList items) \<and> raw_records m = Inr items
     \<and> parse_items items = Inr ps \<and> mset ps = mset rs"
proof -
  obtain raw where raw: "fmlookup m ATTEMPT_RECORD_METADATA_KEY = Some raw" "json_truthy raw"
    using assms by (auto simp: attempt_records_from_metadata_def split: option.splits if_splits)
  then obtain items where items: "raw = JList items"
    using assms(1) by (auto simp: attempt_records_from_metadata_def split: json.splits)
  then obtain ps where "parse_items items = Inr ps" "rs = sort_key ar_attempt_number ps"
    using assms(1) raw by (auto simp: attempt_records_from_metadata_def bind_sum_Inr_iff)
  with raw items show ?thesis by (auto simp: raw_records_def py_list_def)
qed

lemma items_records:
  assumes "fmlookup m ATTEMPT_RECORD_METADATA_KEY = Some (JList items)" "items \<noteq> []" "parse_items items = Inr ps"
  shows "\<exists>rs. attempt_records_from_metadata m = Inr rs \<and> mset rs = mset ps"
  using assms by (simp add: attempt_records_from_metadata_def)

lemma parsed_records_clean:
  assumes "attempt_records_from_metadata m = Inr rs" "r \<in> set rs"
  shows "ids_filled r \<and> opts_clean r"
proof -
  have "rs \<noteq> []" using assms(2) by auto
  then obtain items ps where p: "parse_items items = Inr ps" "mset ps = mset rs"
    using records_items [OF assms(1)] by blast
  then have "r \<in> set ps" using assms(2) by (metis set_mset_mset)
  with p(1) obtain i where "attempt_record_from_item i = Inr r"
    unfolding map_sum_list_projr by force
  then obtain d where "attempt_record_from_dict d = Inr r"
    by (auto simp: attempt_record_from_item_def split: json.splits)
  with parsed_record_clean show ?thesis by blast
qed

definition metadata_frame :: "meta \<Rightarrow> meta \<Rightarrow> bool" where
  "metadata_frame m m' \<longleftrightarrow> (\<forall>k. k \<noteq> ATTEMPT_RECORD_METADATA_KEY \<and> k \<noteq> ''updated_at'' \<longrightarrow> fmlookup m' k = fmlookup m k)"

definition settled_job :: "execution_job \<Rightarrow> execution_job \<Rightarrow> bool" where
  "settled_job j j' \<longleftrightarrow> same_identity j j' \<and> jstatus_value (j_status j') = jstatus_value (j_status j)
     \<and> j_attempts j' = j_attempts j \<and> metadata_frame (j_metadata j) (j_metadata j')"

lemma settled_job_refl [simp]: "settled_job j j"
  by (simp add: settled_job_def metadata_frame_def)

lemma settled_job_trans: "settled_job a b \<Longrightarrow> settled_job b c \<Longrightarrow> settled_job a c"
  by (auto simp: settled_job_def metadata_frame_def same_identity_def)

lemma key_not_updated_at: "ATTEMPT_RECORD_METADATA_KEY \<noteq> ''updated_at''"
  by (simp add: ATTEMPT_RECORD_METADATA_KEY_def)

lemma update_status_returns: "store_ok s \<Longrightarrow> \<exists>res s'. update_status env jid st upd inc s = (Inr res, s')"
  by (auto simp: update_status_def get_job_ok Let_def split: option.split prod.split)

lemma record_attempt_written:
  assumes "store_ok s" "view s jid = Some j" "attempt_records_from_metadata (j_metadata j) = Inr rs" "rs \<noteq> []"
    and "attempt_record_from_dict (attempt_record_to_dict r) = Inr r" "env_write env = WriteOk"
  shows "\<exists>res s' j' rs'. record_attempt env jid (attempt_record_to_dict r) s = (Inr res, s') \<and> store_ok s'
     \<and> view s' = (view s)(jid \<mapsto> j') \<and> settled_job j j' \<and> attempt_records_from_metadata (j_metadata j') = Inr rs'
     \<and> mset rs' = filter_mset (\<lambda>p. ar_attempt_id p \<noteq> ar_attempt_id r) (mset rs) + {#r#}"
proof -
  obtain items ps where p: "raw_records (j_metadata j) = Inr items" "parse_items items = Inr ps" "mset ps = mset rs"
    using records_items [OF assms(3,4)] by blast
  obtain items' ps' where u: "upsert_record r items = Inr items'" "items' \<noteq> []" "parse_items items' = Inr ps'"
      "mset ps' = filter_mset (\<lambda>p. ar_attempt_id p \<noteq> ar_attempt_id r) (mset ps) + {#r#}"
    using upsert_parsed [OF p(2) assms(5)] by blast
  let ?upd = "fmap_of_list [(ATTEMPT_RECORD_METADATA_KEY, JList items')]"
  let ?j = "reload (update_of env (j_status j) ?upd False j)"
  have filled: "jstatus_value (j_status j) \<noteq> []" using view_filled [OF assms(2)] by (simp add: job_filled_def)
  have ra: "record_attempt env jid (attempt_record_to_dict r) s = update_status env jid (j_status j) ?upd False s"
    using assms(1,2,5) p(1) u(1) by (simp add: record_attempt_def get_job_ok)
  obtain res s' where us: "update_status env jid (j_status j) ?upd False s = (Inr res, s')"
    using update_status_returns [OF assms(1)] by blast
  have v: "view s' = (view s)(jid \<mapsto> ?j)"
    using update_status_written [OF assms(1) filled assms(2) attempt_update_keeps assms(6)] us by (metis snd_conv)
  have "fmlookup (j_metadata ?j) ATTEMPT_RECORD_METADATA_KEY = Some (JList items')"
    using key_not_updated_at by (simp add: update_of_def)
  from items_records [OF this u(2,3)] obtain rs' where
    "attempt_records_from_metadata (j_metadata ?j) = Inr rs'" "mset rs' = mset ps'" by blast
  moreover have "settled_job j ?j"
    by (auto simp: settled_job_def same_identity_def metadata_frame_def update_of_def)
  moreover have "store_ok s'" using update_status_effect [OF assms(1) filled us] by blast
  ultimately show ?thesis using ra us v u(4) p(3) by metis
qed

section \<open>The whole restart path\<close>

lemma settled_roundtrip:
  assumes "ids_filled r" "opts_clean r"
  shows "attempt_record_from_dict (attempt_record_to_dict (settle_record e f r)) = Inr (settle_record e f r)"
proof -
  have "opt_clean (py_or a b)" if "opt_clean b" for a b
    using that by (cases a) (auto simp: py_or_def opt_clean_def)
  with assms have "ids_filled (settle_record e f r)" "opts_clean (settle_record e f r)"
    by (simp_all add: ids_filled_def opts_clean_def settle_record_def)
  from from_to_dict [OF this] show ?thesis
    by (simp add: reread_status_def attempt_status_of_def) (simp add: settle_record_def)
qed

lemma settled_for_settled:
  assumes "distinct (map ar_attempt_id rs)" "r \<in> set rs" "incomplete r"
  shows "settled_for (reconcile_attempt_records e f rs) (ar_attempt_id r) = Some (settle_record e f r)"
proof -
  let ?G = "\<lambda>r. if incomplete r then settle_record e f r else r"
  have id: "ar_attempt_id (?G x) = ar_attempt_id x" for x by (simp add: frame_simps)
  obtain xs ys where split: "rs = xs @ r # ys" using assms(2) by (meson split_list)
  then have "ar_attempt_id r \<notin> ar_attempt_id ` set ys" using assms(1) by simp
  then have none: "List.find (\<lambda>x. ar_attempt_id x = ar_attempt_id r) (rev (map ?G ys)) = None"
    by (auto simp: find_None_iff frame_simps dest: sym intro: rev_image_eqI)
  have find_app: "List.find P (as @ bs) = (case List.find P as of None \<Rightarrow> List.find P bs | Some x \<Rightarrow> Some x)" for P as and bs :: "attempt_record list"
    by (induction as) auto
  show ?thesis
    using none assms(3) by (simp add: settled_for_def reconcile_map split find_app frame_simps)
qed

lemma settle_loop_effect:
  assumes "store_ok s" "view s jid = Some j" "attempt_records_from_metadata (j_metadata j) = Inr rs"
    and "writes_ok envs"
    and "mset rs = mset todo + R" "distinct (map ar_attempt_id todo)"
    and "\<forall>p \<in># R. ar_attempt_id p \<notin> ar_attempt_id ` set todo"
    and "\<And>r. r \<in> set todo \<Longrightarrow> ids_filled r \<and> opts_clean r"
    and "\<And>r. r \<in> set todo \<Longrightarrow> incomplete r \<Longrightarrow> settled_for by_id (ar_attempt_id r) = Some (settle_record e f r)"
  shows "\<exists>s' j' rs'. settle_loop envs n jid by_id todo s = (Inr (), s') \<and> store_ok s' \<and> view s' = (view s)(jid \<mapsto> j')
     \<and> settled_job j j' \<and> attempt_records_from_metadata (j_metadata j') = Inr rs'
     \<and> mset rs' = mset (reconcile_attempt_records e f todo) + R"
  using assms
proof (induction todo arbitrary: s j rs R n)
  case Nil
  then show ?case by (intro exI [of _ s] exI [of _ j] exI [of _ rs]) (auto simp: fun_upd_idem)
next
  case (Cons r todo)
  show ?case
  proof (cases "incomplete r")
    case False
    have "mset rs = mset todo + (R + {#r#})" using Cons.prems(5) by simp
    from Cons.IH [OF Cons.prems(1-4) this] Cons.prems(6-9) False show ?thesis by auto
  next
    case True
    let ?r = "settle_record e f r"
    have id: "ar_attempt_id ?r = ar_attempt_id r" by (simp add: frame_simps)
    have rt: "attempt_record_from_dict (attempt_record_to_dict ?r) = Inr ?r"
      using settled_roundtrip Cons.prems(8) by simp
    have "rs \<noteq> []" using Cons.prems(5) by auto
    from record_attempt_written [OF Cons.prems(1-3) this rt writes_okD [OF Cons.prems(4)]]
    obtain res s1 j1 rs1 where st: "record_attempt (envs n) jid (attempt_record_to_dict ?r) s = (Inr res, s1)"
      "store_ok s1" "view s1 = (view s)(jid \<mapsto> j1)" "settled_job j j1"
      "attempt_records_from_metadata (j_metadata j1) = Inr rs1"
      "mset rs1 = filter_mset (\<lambda>p. ar_attempt_id p \<noteq> ar_attempt_id ?r) (mset rs) + {#?r#}" by blast
    have "filter_mset (\<lambda>p. ar_attempt_id p \<noteq> ar_attempt_id r) (mset rs) = mset todo + R"
    proof -
      have "filter_mset (\<lambda>p. ar_attempt_id p \<noteq> ar_attempt_id r) (mset todo) = mset todo"
        using Cons.prems(6) by (auto simp: filter_mset_eq_conv image_iff)
      moreover have "filter_mset (\<lambda>p. ar_attempt_id p \<noteq> ar_attempt_id r) R = R"
        using Cons.prems(7) by (auto simp: filter_mset_eq_conv)
      ultimately show ?thesis using Cons.prems(5) by simp
    qed
    then have m: "mset rs1 = mset todo + (R + {#?r#})" using st(6) by (simp add: id)
    have v1: "view s1 jid = Some j1" using st(3) by simp
    have dist: "distinct (map ar_attempt_id todo)"
      "\<forall>p \<in># R + {#?r#}. ar_attempt_id p \<notin> ar_attempt_id ` set todo"
      using Cons.prems(6,7) by (auto simp: id)
    have clean: "\<And>q. q \<in> set todo \<Longrightarrow> ids_filled q \<and> opts_clean q"
      and found: "\<And>q. q \<in> set todo \<Longrightarrow> incomplete q \<Longrightarrow> settled_for by_id (ar_attempt_id q) = Some (settle_record e f q)"
      using Cons.prems(8,9) by simp_all
    from Cons.IH [OF st(2) v1 st(5) Cons.prems(4) m dist clean found, of "Suc n"]
    obtain s2 j2 rs2 where fin: "settle_loop envs (Suc n) jid by_id todo s1 = (Inr (), s2)" "store_ok s2"
      "view s2 = (view s1)(jid \<mapsto> j2)" "settled_job j1 j2"
      "attempt_records_from_metadata (j_metadata j2) = Inr rs2"
      "mset rs2 = mset (reconcile_attempt_records e f todo) + (R + {#?r#})" by blast
    have "settle_loop envs n jid by_id (r # todo) s = (Inr (), s2)"
      using True Cons.prems(9) st(1) fin(1) by simp
    moreover have "view s2 = (view s)(jid \<mapsto> j2)" using fin(3) st(3) by simp
    moreover have "settled_job j j2" using st(4) fin(4) by (rule settled_job_trans)
    moreover have "mset rs2 = mset (reconcile_attempt_records e f (r # todo)) + R"
      using fin(6) True by simp
    ultimately show ?thesis using fin(2,5) by blast
  qed
qed

lemma settle_effect:
  assumes "store_ok s" "view s jid = Some j" "attempt_records_from_metadata (j_metadata j) = Inr rs"
    and "distinct (map ar_attempt_id rs)" "writes_ok envs"
  shows "\<exists>s' j' rs'. settle_interrupted_attempts envs jid ended ref s = (Inr (job_found j None), s') \<and> store_ok s'
     \<and> view s' = (view s)(jid \<mapsto> j') \<and> settled_job j j' \<and> attempt_records_from_metadata (j_metadata j') = Inr rs'
     \<and> mset rs' = mset (reconcile_attempt_records (py_or ended (Some (env_now (envs 0)))) (py_or ref (Some jid)) rs)"
proof (cases "list_ex incomplete rs")
  case False
  then have "reconcile_attempt_records e f rs = rs" for e f
    by (induction rs) auto
  with False assms show ?thesis
    by (intro exI [of _ s] exI [of _ j] exI [of _ rs])
      (simp add: settle_interrupted_attempts_def get_job_ok fun_upd_idem)
next
  case True
  let ?e = "py_or ended (Some (env_now (envs 0)))" and ?f = "py_or ref (Some jid)"
  have "\<exists>s' j' rs'. settle_loop envs 1 jid (reconcile_attempt_records ?e ?f rs) rs s = (Inr (), s') \<and> store_ok s'
     \<and> view s' = (view s)(jid \<mapsto> j') \<and> settled_job j j' \<and> attempt_records_from_metadata (j_metadata j') = Inr rs'
     \<and> mset rs' = mset (reconcile_attempt_records ?e ?f rs) + {#}"
    using assms(4) settled_for_settled [OF assms(4)] parsed_records_clean [OF assms(3)]
    by (intro settle_loop_effect [OF assms(1-3,5)]) auto
  then obtain s' j' rs' where l: "settle_loop envs 1 jid (reconcile_attempt_records ?e ?f rs) rs s = (Inr (), s')"
    "store_ok s'" "view s' = (view s)(jid \<mapsto> j')" "settled_job j j'"
    "attempt_records_from_metadata (j_metadata j') = Inr rs'" "mset rs' = mset (reconcile_attempt_records ?e ?f rs)"
    by auto
  from l(1) True assms(1-3) have "settle_interrupted_attempts envs jid ended ref s = (Inr (job_found j None), s')"
    by (simp add: settle_interrupted_attempts_def get_job_ok Let_def)
  with l(2-) show ?thesis by blast
qed

text \<open>
  C22. Settling the interrupted attempts of a job whose stored attempts have distinct ids ends
  all of them: it reports the job as it was, changes no other job, keeps the job's identity,
  status, attempt counter and all other metadata, and the stored attempts are then exactly the
  reconciled ones, so that none is incomplete and none was added or lost.
\<close>

theorem settle_ends_every_attempt:
  assumes "store_ok s" "view s jid = Some j" "attempt_records_from_metadata (j_metadata j) = Inr rs"
    and "distinct (map ar_attempt_id rs)" "writes_ok envs"
  shows "\<exists>s' j' rs'. settle_interrupted_attempts envs jid ended ref s = (Inr (job_found j None), s')
     \<and> view s' = (view s)(jid \<mapsto> j') \<and> settled_job j j' \<and> attempt_records_from_metadata (j_metadata j') = Inr rs'
     \<and> mset rs' = mset (reconcile_attempt_records (py_or ended (Some (env_now (envs 0)))) (py_or ref (Some jid)) rs)
     \<and> (\<forall>r \<in> set rs'. \<not> incomplete r)"
proof -
  let ?rs = "reconcile_attempt_records (py_or ended (Some (env_now (envs 0)))) (py_or ref (Some jid)) rs"
  from settle_effect [OF assms, where ended = ended and ref = ref] obtain s' j' rs' where
    r: "settle_interrupted_attempts envs jid ended ref s = (Inr (job_found j None), s')"
    "view s' = (view s)(jid \<mapsto> j')" "settled_job j j'" "attempt_records_from_metadata (j_metadata j') = Inr rs'"
    "mset rs' = mset ?rs" by blast
  have "set rs' = set ?rs" using r(5) by (rule mset_eq_setD)
  moreover have "\<forall>r \<in> set ?rs. \<not> incomplete r" by (simp add: reconcile_complete)
  ultimately have "\<forall>r \<in> set rs'. \<not> incomplete r" by (simp only:)
  with r show ?thesis by blast
qed

definition store_running :: job_store where
  "store_running = snd (record_attempt (env_at ''2'') ''j1'' (attempt_record_to_dict (sample_record ''j1'' 1 RUNNING_ATTEMPT)) store_one)"

definition settle_envs :: "nat \<Rightarrow> op_env" where
  "settle_envs n = env_at ''9''"

lemma settle_envs_ok [simp]: "writes_ok settle_envs"
  by (simp add: writes_ok_def settle_envs_def env_at_def)

lemma store_running_ok: "store_ok store_running"
proof -
  have "op_step no_reactivation store_one store_running"
    using op_stepI [of "Record (env_at ''2'') ''j1'' (attempt_record_to_dict (sample_record ''j1'' 1 RUNNING_ATTEMPT))"
        no_reactivation store_one]
    by (simp add: store_running_def)
  with op_step_ok [OF _ store_one_step] show ?thesis by (auto intro: op_step_ok)
qed

lemma store_running_job:
  "\<exists>j. view store_running ''j1'' = Some j \<and> attempt_records_from_metadata (j_metadata j) = Inr [sample_record ''j1'' 1 RUNNING_ATTEMPT]"
proof -
  have "map_option (\<lambda>j. attempt_records_from_metadata (j_metadata j)) (view store_running ''j1'')
      = Some (Inr [sample_record ''j1'' 1 RUNNING_ATTEMPT])"
    by code_simp
  then show ?thesis by auto
qed

theorem settle_ends_every_attempt_witness:
  "\<exists>s' j' r'. snd (settle_interrupted_attempts settle_envs ''j1'' None None store_running) = s' \<and> view s' ''j1'' = Some j'
     \<and> attempt_records_from_metadata (j_metadata j') = Inr [r'] \<and> \<not> incomplete r' \<and> ar_failure_reference r' = Some ''j1''"
proof -
  obtain j where j: "view store_running ''j1'' = Some j"
    "attempt_records_from_metadata (j_metadata j) = Inr [sample_record ''j1'' 1 RUNNING_ATTEMPT]"
    using store_running_job by blast
  have rec: "reconcile_attempt_records (py_or None (Some (env_now (settle_envs 0)))) (py_or None (Some ''j1'')) [sample_record ''j1'' 1 RUNNING_ATTEMPT]
      = [settle_record (Some ''9'') (Some ''j1'') (sample_record ''j1'' 1 RUNNING_ATTEMPT)]"
    by code_simp
  from settle_ends_every_attempt [OF store_running_ok j, of settle_envs None None] obtain s' j' rs' where
    r: "settle_interrupted_attempts settle_envs ''j1'' None None store_running = (Inr (job_found j None), s')"
    "view s' = (view store_running)(''j1'' \<mapsto> j')" "attempt_records_from_metadata (j_metadata j') = Inr rs'"
    "mset rs' = {#settle_record (Some ''9'') (Some ''j1'') (sample_record ''j1'' 1 RUNNING_ATTEMPT)#}"
    unfolding rec by auto
  then have "rs' = [settle_record (Some ''9'') (Some ''j1'') (sample_record ''j1'' 1 RUNNING_ATTEMPT)]" by simp
  with r show ?thesis by (simp add: settle_record_def [of _ _ "sample_record _ _ _"] py_or_def incomplete_def status_value_def)
qed

section \<open>The budget over a restart\<close>

text \<open>The loaders of frozen inputs read the identity of a job and its immutable metadata.\<close>

definition loaders_frozen :: "frozen_loaders \<Rightarrow> bool" where
  "loaders_frozen frozen \<longleftrightarrow> (\<forall>a b. same_identity a b \<and>
     (\<forall>k \<in> set IMMUTABLE_JOB_METADATA_KEYS. fmlookup (j_metadata b) k = fmlookup (j_metadata a) k) \<longrightarrow>
     load_contract frozen b = load_contract frozen a \<and> load_planning frozen b = load_planning frozen a)"

lemma reconcile_revisions:
  "image_mset ar_task_revision (mset (reconcile_attempt_records e f rs)) = image_mset ar_task_revision (mset rs)"
  by (induction rs) (simp_all add: frame_simps)

lemma filter_revision_count:
  assumes "image_mset ar_task_revision (mset rs') = image_mset ar_task_revision (mset rs)"
  shows "length (filter (\<lambda>r. ar_task_revision r = revn \<or> same) rs') = length (filter (\<lambda>r. ar_task_revision r = revn \<or> same) rs)"
proof -
  have "length (filter (\<lambda>r. ar_task_revision r = revn \<or> same) xs)
      = size (filter_mset (\<lambda>v. v = revn \<or> same) (image_mset ar_task_revision (mset xs)))" for xs
    by (induction xs) auto
  from this [of rs] this [of rs'] show ?thesis using assms by simp
qed

lemma consumption_settled:
  assumes "loaders_frozen frozen" "settled_job j j'"
    and "attempt_records_from_metadata (j_metadata j) = Inr rs" "attempt_records_from_metadata (j_metadata j') = Inr rs'"
    and "mset rs' = mset (reconcile_attempt_records e f rs)"
  shows "job_consumption digest frozen tid trid revn pid j' = job_consumption digest frozen tid trid revn pid j"
proof -
  have ids: "j_task_id j' = j_task_id j" "j_transition_id j' = j_transition_id j" "j_project_id j' = j_project_id j"
    "j_job_id j' = j_job_id j" "j_attempts j' = j_attempts j" "jstatus_value (j_status j') = jstatus_value (j_status j)"
    using assms(2) by (simp_all add: settled_job_def same_identity_def)
  have "\<forall>k \<in> set IMMUTABLE_JOB_METADATA_KEYS. fmlookup (j_metadata j') k = fmlookup (j_metadata j) k"
    using assms(2) updated_at_mutable attempt_key_mutable
    unfolding settled_job_def metadata_frame_def by metis
  then have "load_contract frozen j' = load_contract frozen j" "load_planning frozen j' = load_planning frozen j"
    using assms(1,2) unfolding loaders_frozen_def settled_job_def by blast+
  then have same: "same_frozen_work digest frozen revn j' = same_frozen_work digest frozen revn j"
    by (simp add: same_frozen_work_def)
  have len: "length rs' = length rs"
    using assms(5) by (metis length_map reconcile_map size_mset)
  have cnt: "length (filter (\<lambda>r. ar_task_revision r = revn \<or> b) rs') = length (filter (\<lambda>r. ar_task_revision r = revn \<or> b) rs)" for b
    by (rule filter_revision_count) (simp only: assms(5) reconcile_revisions)
  have "rs' = [] \<longleftrightarrow> rs = []" using len by (metis length_0_conv)
  then show ?thesis
    by (simp only: job_consumption_def assms(3,4) sum.case ids same cnt ambiguous_history_def)
qed

lemma job_ids_cong:
  assumes "store_ok s" "store_ok s'" "\<And>k. view s' k = None \<longleftrightarrow> view s k = None"
  shows "job_ids s' = job_ids s"
proof -
  have "fmdom (js_files s') = fmdom (js_files s)"
  proof (rule fset_eqI)
    fix k
    show "k |\<in>| fmdom (js_files s') \<longleftrightarrow> k |\<in>| fmdom (js_files s)"
      using view_None [OF assms(1), of k] view_None [OF assms(2), of k] assms(3) [of k]
      by (auto simp: fmlookup_dom_iff)
  qed
  then show ?thesis by (simp add: job_ids_def fmap_entries_def sorted_list_of_fmap_def comp_def)
qed

lemma count_map_cong:
  assumes "\<And>k. k \<in> set ks \<Longrightarrow> job_consumption digest frozen tid trid revn pid (g k) = job_consumption digest frozen tid trid revn pid (h k)"
  shows "count_consumed_attempts digest frozen tid trid revn pid (map g ks) = count_consumed_attempts digest frozen tid trid revn pid (map h ks)"
  using assms by (induction ks) simp_all

text \<open>
  A restart does not renew the attempt budget: the account of consumed attempts over the
  whole store is the same after the interrupted attempts of a job were settled as before, for
  every task, transition, project and revision.
\<close>

theorem settle_keeps_budget:
  assumes "store_ok s" "view s jid = Some j" "attempt_records_from_metadata (j_metadata j) = Inr rs"
    and "distinct (map ar_attempt_id rs)" "writes_ok envs" "loaders_frozen frozen"
  shows "\<exists>s' js js'. snd (settle_interrupted_attempts envs jid ended ref s) = s'
     \<and> list_jobs s = Inr (jobs_found js) \<and> list_jobs s' = Inr (jobs_found js')
     \<and> count_consumed_attempts digest frozen tid trid revn pid js' = count_consumed_attempts digest frozen tid trid revn pid js"
proof -
  from settle_effect [OF assms(1-5), where ended = ended and ref = ref] obtain s' j' rs' where
    r: "settle_interrupted_attempts envs jid ended ref s = (Inr (job_found j None), s')" "store_ok s'"
    "view s' = (view s)(jid \<mapsto> j')" "settled_job j j'" "attempt_records_from_metadata (j_metadata j') = Inr rs'"
    "mset rs' = mset (reconcile_attempt_records (py_or ended (Some (env_now (envs 0)))) (py_or ref (Some jid)) rs)" by blast
  have ids: "job_ids s' = job_ids s"
    by (rule job_ids_cong [OF assms(1) r(2)]) (simp add: r(3) assms(2))
  have "count_consumed_attempts digest frozen tid trid revn pid (map (the \<circ> view s') (job_ids s'))
      = count_consumed_attempts digest frozen tid trid revn pid (map (the \<circ> view s) (job_ids s))"
    unfolding ids
    by (rule count_map_cong) (simp add: r(3) assms(2) consumption_settled [OF assms(6) r(4) assms(3) r(5,6)])
  with r(1) list_jobs_ok [OF assms(1)] list_jobs_ok [OF r(2)] show ?thesis by auto
qed

definition no_frozen_work :: frozen_loaders where
  "no_frozen_work = \<lparr>load_contract = (\<lambda>_. None), load_planning = (\<lambda>_. Inr None)\<rparr>"

theorem settle_keeps_budget_witness:
  "\<exists>s' js js'. snd (settle_interrupted_attempts settle_envs ''j1'' None None store_running) = s'
     \<and> list_jobs store_running = Inr (jobs_found js) \<and> list_jobs s' = Inr (jobs_found js')
     \<and> count_consumed_attempts py_repr no_frozen_work ''T-1'' ''build'' ''r1'' None js' = Inr (1, [])"
proof -
  obtain j where j: "view store_running ''j1'' = Some j"
    "attempt_records_from_metadata (j_metadata j) = Inr [sample_record ''j1'' 1 RUNNING_ATTEMPT]"
    using store_running_job by blast
  have fr: "loaders_frozen no_frozen_work" by (simp add: loaders_frozen_def no_frozen_work_def)
  have l: "list_jobs store_running = Inr (jobs_found [j])"
  proof -
    have "job_ids store_running = [''j1'']" by code_simp
    with list_jobs_ok [OF store_running_ok] j(1) show ?thesis by simp
  qed
  have "map_sum id (\<lambda>r. count_consumed_attempts py_repr no_frozen_work ''T-1'' ''build'' ''r1'' None (jr_jobs r)) (list_jobs store_running)
      = Inr (Inr (1, []))" by code_simp
  then have "count_consumed_attempts py_repr no_frozen_work ''T-1'' ''build'' ''r1'' None [j] = Inr (1, [])" by (simp add: l)
  with settle_keeps_budget [OF store_running_ok j, of settle_envs no_frozen_work None None py_repr "''T-1''" "''build''" "''r1''" None] fr l
  show ?thesis by (auto simp: jobs_found_def)
qed

end
