(* ===== verification/Resources.thy ===== *)
theory Resources
  imports Domain
begin

text \<open>
  \<open>runtime/resources.py\<close>: capacity-bounded leases.  The store is the list of lease files under
  the root in directory order, keyed by resource and file stem (the job id); a file that is no
  JSON is skipped by every reader, one that does not decode raises.  Every operation holds the
  store's lock and is one step.  The clock readings and the fates of the lease writes are the
  functions \<open>now\<close> and \<open>ok\<close> on the position of the lease; removing a file succeeds.
\<close>

section \<open>The store\<close>

record resource_lease =
  rl_resource_id :: string
  rl_job_id :: string
  rl_worker_id :: string
  rl_acquired_at :: string
  rl_owner_path :: "string option"

record lease_result =
  lr_acquired :: bool
  lr_leases :: "resource_lease list"
  lr_busy_resources :: "string list"

datatype lease_file = LeaseGarbled | LeaseUndecodable | LeaseJson json

type_synonym lease_files = "((string \<times> string) \<times> lease_file) list"

record lease_store =
  ls_files :: lease_files
  ls_capacity :: "(string \<times> int) list"

section \<open>Reading\<close>

text \<open>One file of \<open>leases_for\<close>: \<open>None\<close> is \<open>continue\<close>; indexing a value that is no object raises.\<close>

definition read_lease :: "string \<Rightarrow> lease_file \<Rightarrow> pyexc + resource_lease option" where
  "read_lease rid f = (case f of
      LeaseGarbled \<Rightarrow> Inr None
    | LeaseUndecodable \<Rightarrow> Inl ValueErr
    | LeaseJson (JObj m) \<Rightarrow>
        Inr (case (fmlookup m ''job_id'', fmlookup m ''worker_id'', fmlookup m ''acquired_at'') of
          (Some j, Some w, Some a) \<Rightarrow> Some \<lparr>rl_resource_id = rid, rl_job_id = py_str j, rl_worker_id = py_str w,
             rl_acquired_at = py_str a, rl_owner_path = (case fmlookup m ''owner_path'' of
                None \<Rightarrow> None | Some p \<Rightarrow> if p = JNull then None else Some (py_str p))\<rparr>
        | _ \<Rightarrow> None)
    | LeaseJson _ \<Rightarrow> Inl TypeErr)"

fun read_leases :: "string \<Rightarrow> lease_files \<Rightarrow> pyexc + resource_lease list" where
  "read_leases rid [] = Inr []"
| "read_leases rid ((k, f) # rest) = bind_sum (read_lease rid f) (\<lambda>l. bind_sum (read_leases rid rest)
     (\<lambda>ls. Inr (case l of None \<Rightarrow> ls | Some x \<Rightarrow> x # ls)))"

definition resource_files :: "string \<Rightarrow> lease_files \<Rightarrow> lease_files" where
  "resource_files rid fs = sort_key (snd \<circ> fst) (filter (\<lambda>e. fst (fst e) = rid) fs)"

definition leases_for :: "string \<Rightarrow> lease_store \<Rightarrow> pyexc + resource_lease list" where
  "leases_for rid s = read_leases rid (resource_files rid (ls_files s))"

definition has_capacity :: "lease_store \<Rightarrow> string \<Rightarrow> pyexc + bool" where
  "has_capacity s rid = (case dict_get (ls_capacity s) rid of
      None \<Rightarrow> Inr False
    | Some cap \<Rightarrow> bind_sum (leases_for rid s) (\<lambda>ls. Inr (int (length ls) < cap)))"

definition busy_resources :: "lease_store \<Rightarrow> string list \<Rightarrow> pyexc + string list" where
  "busy_resources s rids = bind_sum (map_sum_list (has_capacity s) rids)
     (\<lambda>bs. Inr (map fst (filter (\<lambda>(r, b). \<not> b) (zip rids bs))))"

definition available :: "lease_store \<Rightarrow> string list \<Rightarrow> pyexc + (bool \<times> string list)" where
  "available s rids = bind_sum (busy_resources s rids) (\<lambda>busy. Inr (busy = [], busy))"

fun all_sum :: "('a \<Rightarrow> pyexc + bool) \<Rightarrow> 'a list \<Rightarrow> pyexc + bool" where
  "all_sum f [] = Inr True"
| "all_sum f (x # xs) = bind_sum (f x) (\<lambda>b. if b then all_sum f xs else Inr False)"

definition job_holds :: "lease_store \<Rightarrow> string list \<Rightarrow> string \<Rightarrow> pyexc + bool" where
  "job_holds s rids jid = all_sum (\<lambda>rid. bind_sum (leases_for rid s)
     (\<lambda>ls. Inr (list_ex (\<lambda>l. rl_job_id l = jid) ls))) rids"

section \<open>Writing\<close>

definition lease_payload :: "resource_lease \<Rightarrow> meta" where
  "lease_payload l = fmap_of_list [(''resource_id'', JStr (rl_resource_id l)), (''job_id'', JStr (rl_job_id l)),
     (''worker_id'', JStr (rl_worker_id l)), (''acquired_at'', JStr (rl_acquired_at l)),
     (''owner_path'', case rl_owner_path l of None \<Rightarrow> JNull | Some p \<Rightarrow> JStr p)]"

definition write_lease :: "resource_lease \<Rightarrow> lease_files \<Rightarrow> lease_files" where
  "write_lease l fs = dict_set (rl_resource_id l, rl_job_id l) (LeaseJson (JObj (lease_payload l))) fs"

text \<open>The loop over the new leases; a failed write raises and ends it.\<close>

fun write_leases :: "(nat \<Rightarrow> bool) \<Rightarrow> nat \<Rightarrow> resource_lease list \<Rightarrow> lease_files \<Rightarrow> (pyexc + unit) \<times> lease_files" where
  "write_leases ok n [] fs = (Inr (), fs)"
| "write_leases ok n (l # ls) fs = (if ok n then write_leases ok (Suc n) ls (write_lease l fs) else (Inl OSErr, fs))"

definition new_leases :: "(nat \<Rightarrow> string) \<Rightarrow> string list \<Rightarrow> string \<Rightarrow> string \<Rightarrow> string option \<Rightarrow> resource_lease list" where
  "new_leases now rids jid wid owner = map (\<lambda>(i, r). \<lparr>rl_resource_id = r, rl_job_id = jid, rl_worker_id = wid,
     rl_acquired_at = now i, rl_owner_path = owner\<rparr>) (enumerate 0 rids)"

definition try_acquire :: "(nat \<Rightarrow> string) \<Rightarrow> (nat \<Rightarrow> bool) \<Rightarrow> string list \<Rightarrow> string \<Rightarrow> string \<Rightarrow> string option
    \<Rightarrow> lease_store \<Rightarrow> (pyexc + lease_result) \<times> lease_store" where
  "try_acquire now ok rids jid wid owner s = (case busy_resources s rids of
      Inl e \<Rightarrow> (Inl e, s)
    | Inr busy \<Rightarrow>
        if busy \<noteq> [] then (Inr \<lparr>lr_acquired = False, lr_leases = [], lr_busy_resources = busy\<rparr>, s)
        else let leases = new_leases now rids jid wid owner;
                 (r, fs) = write_leases ok 0 leases (ls_files s)
             in (case r of Inl e \<Rightarrow> Inl e
                 | Inr _ \<Rightarrow> Inr \<lparr>lr_acquired = True, lr_leases = leases, lr_busy_resources = []\<rparr>, s\<lparr>ls_files := fs\<rparr>))"

text \<open>The walk over all lease files shared by the three release operations: the object of each
  file is tested and the file removed; an undecodable file or a value without \<open>get\<close> raises
  and leaves the rest.\<close>

fun sweep :: "(meta \<Rightarrow> bool) \<Rightarrow> lease_files \<Rightarrow> (pyexc + meta list) \<times> lease_files" where
  "sweep P [] = (Inr [], [])"
| "sweep P ((k, f) # rest) = (case f of
      LeaseGarbled \<Rightarrow> (let (r, kept) = sweep P rest in (r, (k, f) # kept))
    | LeaseUndecodable \<Rightarrow> (Inl ValueErr, (k, f) # rest)
    | LeaseJson (JObj m) \<Rightarrow> (let (r, kept) = sweep P rest
        in if P m then (bind_sum r (\<lambda>ms. Inr (m # ms)), kept) else (r, (k, f) # kept))
    | LeaseJson _ \<Rightarrow> (Inl AttributeErr, (k, f) # rest))"

definition release_job :: "string \<Rightarrow> lease_store \<Rightarrow> (pyexc + unit) \<times> lease_store" where
  "release_job jid s = (let (r, fs) = sweep (\<lambda>m. fmlookup m ''job_id'' = Some (JStr jid)) (ls_files s)
     in (bind_sum r (\<lambda>_. Inr ()), s\<lparr>ls_files := fs\<rparr>))"

definition lease_owner_gone :: "(string \<Rightarrow> bool) \<Rightarrow> meta \<Rightarrow> bool" where
  "lease_owner_gone exists m = (case fmlookup m ''owner_path'' of
     Some (JStr p) \<Rightarrow> p \<noteq> [] \<and> \<not> exists p | _ \<Rightarrow> False)"

definition release_orphan_reservations :: "(string \<Rightarrow> bool) \<Rightarrow> lease_store \<Rightarrow> (pyexc + string list) \<times> lease_store" where
  "release_orphan_reservations exists s = (let (r, fs) = sweep (lease_owner_gone exists) (ls_files s)
     in (bind_sum r (\<lambda>ms. Inr (map (\<lambda>m. py_str (jget m ''job_id'' (JStr []))) ms)), s\<lparr>ls_files := fs\<rparr>))"

definition lease_inactive :: "string list \<Rightarrow> meta \<Rightarrow> bool" where
  "lease_inactive active m = (case fmlookup m ''job_id'' of Some (JStr j) \<Rightarrow> j \<notin> set active | _ \<Rightarrow> False)"

definition release_inactive_reservations :: "string list \<Rightarrow> lease_store \<Rightarrow> (pyexc + string list) \<times> lease_store" where
  "release_inactive_reservations active s = (let (r, fs) = sweep (lease_inactive active) (ls_files s)
     in (bind_sum r (\<lambda>ms. Inr (map (\<lambda>m. py_str (jget m ''job_id'' JNull)) ms)), s\<lparr>ls_files := fs\<rparr>))"

text \<open>\<open>admit\<close> runs the caller's commit while it holds the lock.  The commit changes the caller's
  state \<open>w\<close>, not the lease files; when it raises or is not accepted, the job's leases go.\<close>

definition admit :: "(nat \<Rightarrow> string) \<Rightarrow> (nat \<Rightarrow> bool) \<Rightarrow> string list \<Rightarrow> string \<Rightarrow> string \<Rightarrow> string
    \<Rightarrow> ('w \<Rightarrow> (pyexc + 'c) \<times> 'w) \<Rightarrow> ('c \<Rightarrow> bool) option \<Rightarrow> lease_store \<Rightarrow> 'w
    \<Rightarrow> (pyexc + (lease_result \<times> 'c option)) \<times> lease_store \<times> 'w" where
  "admit now ok rids jid wid owner commit accepted s w = (case busy_resources s rids of
      Inl e \<Rightarrow> (Inl e, s, w)
    | Inr busy \<Rightarrow>
        if busy \<noteq> [] then (Inr (\<lparr>lr_acquired = False, lr_leases = [], lr_busy_resources = busy\<rparr>, None), s, w)
        else let leases = new_leases now rids jid wid (Some owner);
                 (r, fs) = write_leases ok 0 leases (ls_files s);
                 s1 = s\<lparr>ls_files := fs\<rparr>
             in (case r of
                  Inl e \<Rightarrow> (Inl e, s1, w)
                | Inr _ \<Rightarrow>
                    let (c, w') = commit w; granted = \<lparr>lr_acquired = True, lr_leases = leases, lr_busy_resources = []\<rparr>
                    in (case c of
                          Inl e \<Rightarrow> (let (rel, s2) = release_job jid s1 in (case rel of Inl e' \<Rightarrow> Inl e' | Inr _ \<Rightarrow> Inl e, s2, w'))
                        | Inr v \<Rightarrow>
                            if (case accepted of None \<Rightarrow> False | Some acc \<Rightarrow> \<not> acc v)
                            then (let (rel, s2) = release_job jid s1
                                  in (case rel of Inl e' \<Rightarrow> Inl e' | Inr _ \<Rightarrow> Inr (granted, Some v), s2, w'))
                            else (Inr (granted, Some v), s1, w'))))"

section \<open>Well-formed stores\<close>

definition lease_entry_ok :: "(string \<times> string) \<times> lease_file \<Rightarrow> bool" where
  "lease_entry_ok e = (\<exists>l. e = ((rl_resource_id l, rl_job_id l), LeaseJson (JObj (lease_payload l))))"

definition leases_ok :: "lease_store \<Rightarrow> bool" where
  "leases_ok s \<longleftrightarrow> distinct (map fst (ls_files s)) \<and> list_all lease_entry_ok (ls_files s)"

definition holders :: "lease_store \<Rightarrow> string \<Rightarrow> string set" where
  "holders s rid = {j. (rid, j) \<in> fst ` set (ls_files s)}"

definition capacity_of :: "lease_store \<Rightarrow> string \<Rightarrow> int" where
  "capacity_of s rid = (case dict_get (ls_capacity s) rid of None \<Rightarrow> 0 | Some c \<Rightarrow> max 0 c)"

lemma payload_fields:
  "fmlookup (lease_payload l) ''job_id'' = Some (JStr (rl_job_id l))"
  "fmlookup (lease_payload l) ''worker_id'' = Some (JStr (rl_worker_id l))"
  "fmlookup (lease_payload l) ''acquired_at'' = Some (JStr (rl_acquired_at l))"
  "fmlookup (lease_payload l) ''owner_path'' = Some (case rl_owner_path l of None \<Rightarrow> JNull | Some p \<Rightarrow> JStr p)"
  by (simp_all add: lease_payload_def fmlookup_of_list)

lemma read_own_lease: "read_lease (rl_resource_id l) (LeaseJson (JObj (lease_payload l))) = Inr (Some l)"
  by (cases "rl_owner_path l") (simp_all add: read_lease_def payload_fields)

lemma read_leases_ok:
  assumes "list_all lease_entry_ok fs" "\<forall>e \<in> set fs. fst (fst e) = rid"
  shows "\<exists>ls. read_leases rid fs = Inr ls \<and> map rl_job_id ls = map (snd \<circ> fst) fs"
  using assms
proof (induction fs)
  case (Cons e fs)
  then obtain l where l: "e = ((rl_resource_id l, rl_job_id l), LeaseJson (JObj (lease_payload l)))"
    by (auto simp: lease_entry_ok_def)
  with Cons.prems have "rid = rl_resource_id l" by simp
  with Cons l read_own_lease [of l] show ?case by auto
qed simp

lemma finite_holders [simp]: "finite (holders s rid)"
proof -
  have "holders s rid \<subseteq> snd ` fst ` set (ls_files s)" by (force simp: holders_def)
  then show ?thesis by (rule finite_subset) simp
qed

lemma leases_for_ok:
  assumes "leases_ok s"
  shows "\<exists>ls. leases_for rid s = Inr ls \<and> set (map rl_job_id ls) = holders s rid \<and> length ls = card (holders s rid)"
proof -
  let ?fs = "resource_files rid (ls_files s)"
  have ok: "list_all lease_entry_ok ?fs" "\<forall>e \<in> set ?fs. fst (fst e) = rid"
    using assms by (auto simp: resource_files_def leases_ok_def list_all_iff)
  then obtain ls where ls: "read_leases rid ?fs = Inr ls" "map rl_job_id ls = map (snd \<circ> fst) ?fs"
    using read_leases_ok by blast
  have "set (map (snd \<circ> fst) ?fs) = holders s rid"
    by (force simp: resource_files_def holders_def)
  moreover have "distinct (map (snd \<circ> fst) ?fs)"
  proof -
    have "distinct (map fst (filter (\<lambda>e. fst (fst e) = rid) (ls_files s)))"
      using assms by (simp add: leases_ok_def distinct_map_filter)
    then have "distinct (map (snd \<circ> fst) (filter (\<lambda>e. fst (fst e) = rid) (ls_files s)))"
      by (auto simp: distinct_map inj_on_def prod_eq_iff)
    then show ?thesis by (simp add: resource_files_def distinct_map)
  qed
  ultimately show ?thesis using ls distinct_card by (metis leases_for_def length_map)
qed

lemma has_capacity_ok:
  assumes "leases_ok s"
  shows "has_capacity s rid = Inr (int (card (holders s rid)) < capacity_of s rid)"
  using leases_for_ok [OF assms, of rid]
  by (auto simp: has_capacity_def capacity_of_def split: option.split)

lemma busy_resources_ok:
  assumes "leases_ok s"
  shows "busy_resources s rids = Inr (filter (\<lambda>r. \<not> int (card (holders s r)) < capacity_of s r) rids)"
proof -
  let ?f = "\<lambda>r. int (card (holders s r)) < capacity_of s r"
  have "map_sum_list (has_capacity s) rids = Inr (map ?f rids)"
    by (rule map_sum_list_map) (simp add: has_capacity_ok [OF assms])
  moreover have "map fst (filter (\<lambda>(r, b). \<not> b) (zip rids (map ?f rids))) = filter (\<lambda>r. \<not> ?f r) rids"
    by (induction rids) auto
  ultimately show ?thesis by (simp add: busy_resources_def)
qed

end
