(* ===== verification/ResourceFacts.thy ===== *)
theory ResourceFacts
  imports Resources
begin

text \<open>
  Laws of the lease store.  \<open>holders\<close> reads it as the set of jobs that hold a lease of each
  resource; the locale \<open>capped_pool\<close> is the contract the scheduler relies on, that a resource
  never has more holders than its capacity, and it is interpreted on the store's operations.
\<close>

section \<open>Effect of the operations on the holders\<close>

lemma write_lease_ok:
  assumes "leases_ok s"
  shows "leases_ok (s\<lparr>ls_files := write_lease l (ls_files s)\<rparr>)"
  using assms dict_set_subset [of "(rl_resource_id l, rl_job_id l)" "LeaseJson (JObj (lease_payload l))" "ls_files s"]
  by (auto simp: leases_ok_def write_lease_def dict_set_distinct list_all_iff lease_entry_ok_def)

lemma write_lease_holders:
  "holders (s\<lparr>ls_files := write_lease l (ls_files s)\<rparr>) r =
     (if r = rl_resource_id l then insert (rl_job_id l) (holders s r) else holders s r)"
proof -
  have "j \<in> holders (s\<lparr>ls_files := write_lease l (ls_files s)\<rparr>) r \<longleftrightarrow> (r, j) = (rl_resource_id l, rl_job_id l) \<or> j \<in> holders s r" for j
    unfolding holders_def write_lease_def by (simp add: dict_has_keys [symmetric])
  then show ?thesis by auto
qed

lemma write_leases_effect:
  assumes "leases_ok s" "write_leases ok n ls (ls_files s) = (r, fs)" "\<forall>l \<in> set ls. rl_job_id l = jid"
  shows "\<exists>R. leases_ok (s\<lparr>ls_files := fs\<rparr>) \<and> R \<subseteq> rl_resource_id ` set ls
     \<and> holders (s\<lparr>ls_files := fs\<rparr>) = (\<lambda>x. if x \<in> R then insert jid (holders s x) else holders s x)
     \<and> ((\<forall>i. ok i) \<longrightarrow> r = Inr ()) \<and> (r = Inr () \<longrightarrow> R = rl_resource_id ` set ls)"
  using assms
proof (induction ls arbitrary: n s)
  case Nil
  then show ?case by (intro exI [of _ "{}"]) auto
next
  case (Cons l ls)
  show ?case
  proof (cases "ok n")
    case False
    with Cons.prems show ?thesis by (intro exI [of _ "{}"]) auto
  next
    case True
    let ?s = "s\<lparr>ls_files := write_lease l (ls_files s)\<rparr>"
    have "write_leases ok (Suc n) ls (ls_files ?s) = (r, fs)" using Cons.prems(2) True by simp
    from Cons.IH [OF write_lease_ok [OF Cons.prems(1)] this] Cons.prems(3)
    obtain R where R: "leases_ok (s\<lparr>ls_files := fs\<rparr>)" "R \<subseteq> rl_resource_id ` set ls"
      "holders (s\<lparr>ls_files := fs\<rparr>) = (\<lambda>x. if x \<in> R then insert jid (holders ?s x) else holders ?s x)"
      "(\<forall>i. ok i) \<longrightarrow> r = Inr ()" "r = Inr () \<longrightarrow> R = rl_resource_id ` set ls" by auto
    have "holders (s\<lparr>ls_files := fs\<rparr>) = (\<lambda>x. if x \<in> insert (rl_resource_id l) R then insert jid (holders s x) else holders s x)"
      using R(3) Cons.prems(3) by (auto simp: fun_eq_iff write_lease_holders)
    with R show ?thesis by (intro exI [of _ "insert (rl_resource_id l) R"]) auto
  qed
qed

lemma new_leases_facts:
  "\<forall>l \<in> set (new_leases now rids jid wid owner). rl_job_id l = jid"
  "rl_resource_id ` set (new_leases now rids jid wid owner) = set rids"
proof -
  show "\<forall>l \<in> set (new_leases now rids jid wid owner). rl_job_id l = jid" by (auto simp: new_leases_def)
  have "rl_resource_id \<circ> (\<lambda>(i, r). \<lparr>rl_resource_id = r, rl_job_id = jid, rl_worker_id = wid,
     rl_acquired_at = now i, rl_owner_path = owner\<rparr>) = snd"
    by (simp add: fun_eq_iff split_beta)
  then have "map rl_resource_id (new_leases now rids jid wid owner) = map snd (enumerate 0 rids)"
    by (simp add: new_leases_def)
  then show "rl_resource_id ` set (new_leases now rids jid wid owner) = set rids"
    by (metis list.set_map map_snd_enumerate)
qed

fun entry_meta :: "(string \<times> string) \<times> lease_file \<Rightarrow> meta" where
  "entry_meta (k, LeaseJson (JObj m)) = m"
| "entry_meta _ = fmempty"

lemma sweep_ok:
  assumes "list_all lease_entry_ok fs"
  shows "sweep P fs = (Inr (map entry_meta (filter (\<lambda>e. P (entry_meta e)) fs)), filter (\<lambda>e. \<not> P (entry_meta e)) fs)"
  using assms
proof (induction fs)
  case (Cons e fs)
  then obtain k m where "e = (k, LeaseJson (JObj m))" by (auto simp: lease_entry_ok_def)
  with Cons show ?case by simp
qed simp

lemma filtered_ok:
  assumes "leases_ok s"
  shows "leases_ok (s\<lparr>ls_files := filter Q (ls_files s)\<rparr>)" "holders (s\<lparr>ls_files := filter Q (ls_files s)\<rparr>) r \<subseteq> holders s r"
  using assms by (auto simp: leases_ok_def distinct_map_filter list_all_iff holders_def)

lemma entry_meta_job:
  assumes "lease_entry_ok e"
  shows "fmlookup (entry_meta e) ''job_id'' = Some (JStr (snd (fst e)))"
proof -
  obtain l where "e = ((rl_resource_id l, rl_job_id l), LeaseJson (JObj (lease_payload l)))"
    using assms by (auto simp: lease_entry_ok_def)
  then show ?thesis by (simp add: payload_fields)
qed

lemma release_job_effect:
  assumes "leases_ok s" "release_job jid s = (r, s')"
  shows "r = Inr () \<and> leases_ok s' \<and> ls_capacity s' = ls_capacity s \<and> holders s' = (\<lambda>x. holders s x - {jid})"
proof -
  let ?P = "\<lambda>m. fmlookup m ''job_id'' = Some (JStr jid)"
  have ok: "list_all lease_entry_ok (ls_files s)" using assms(1) by (simp add: leases_ok_def)
  then have "filter (\<lambda>e. \<not> ?P (entry_meta e)) (ls_files s) = filter (\<lambda>e. snd (fst e) \<noteq> jid) (ls_files s)"
    by (intro filter_cong) (auto simp: list_all_iff entry_meta_job)
  then have s': "s' = s\<lparr>ls_files := filter (\<lambda>e. snd (fst e) \<noteq> jid) (ls_files s)\<rparr>" and "r = Inr ()"
    using assms(2) sweep_ok [OF ok, of ?P] by (auto simp: release_job_def)
  moreover have "holders s' = (\<lambda>x. holders s x - {jid})"
    unfolding s' holders_def by (rule ext) force
  ultimately show ?thesis using filtered_ok(1) [OF assms(1)] by simp
qed

section \<open>Pools with a capacity\<close>

locale capped_pool =
  fixes ok :: "'s \<Rightarrow> bool" and held :: "'s \<Rightarrow> 'r \<Rightarrow> 'j set" and cap :: "'r \<Rightarrow> int" and step :: "'s \<Rightarrow> 's \<Rightarrow> bool"
  assumes step_ok: "ok s \<Longrightarrow> step s s' \<Longrightarrow> ok s'"
    and held_finite: "ok s \<Longrightarrow> finite (held s r)"
    and step_grants: "ok s \<Longrightarrow> step s s' \<Longrightarrow> held s' r \<subseteq> held s r
      \<or> (\<exists>j. held s' r \<subseteq> insert j (held s r) \<and> int (card (held s r)) < cap r)"
begin

lemma within_capacity_step:
  assumes "ok s" "step s s'" "int (card (held s r)) \<le> cap r"
  shows "int (card (held s' r)) \<le> cap r"
proof -
  have fin: "finite (held s r)" by (rule held_finite [OF assms(1)])
  consider "held s' r \<subseteq> held s r"
    | j where "held s' r \<subseteq> insert j (held s r)" "int (card (held s r)) < cap r"
    using step_grants [OF assms(1,2), of r] by blast
  then show ?thesis
  proof cases
    case 1
    with card_mono [OF fin 1] assms(3) show ?thesis by linarith
  next
    case 2
    from card_mono [OF _ 2(1)] fin have "card (held s' r) \<le> card (insert j (held s r))" by simp
    also have "\<dots> \<le> Suc (card (held s r))" by (simp add: card_insert_if fin)
    finally show ?thesis using 2(2) by linarith
  qed
qed

lemma within_capacity:
  assumes "step\<^sup>*\<^sup>* s s'" "ok s" "\<And>r. int (card (held s r)) \<le> cap r"
  shows "ok s' \<and> int (card (held s' r)) \<le> cap r"
proof -
  from assms(1) have "ok s' \<and> (\<forall>r. int (card (held s' r)) \<le> cap r)"
    by (induction rule: rtranclp_induct) (use assms step_ok within_capacity_step in blast)+
  then show ?thesis by blast
qed

end

text \<open>The operations of the store as steps; \<open>admit\<close> with a commit that raises, is rejected or
  succeeds.\<close>

inductive lease_step :: "(string \<times> int) list \<Rightarrow> lease_store \<Rightarrow> lease_store \<Rightarrow> bool" for caps where
  acquire: "ls_capacity s = caps \<Longrightarrow> try_acquire now ok rids jid wid owner s = (r, s') \<Longrightarrow> lease_step caps s s'"
| admitted: "ls_capacity s = caps \<Longrightarrow> admit now ok rids jid wid ow (\<lambda>w :: unit. (c :: pyexc + bool, w)) (Some id) s () = (q, s', w')
    \<Longrightarrow> lease_step caps s s'"
| release: "ls_capacity s = caps \<Longrightarrow> release_job jid s = (u, s') \<Longrightarrow> lease_step caps s s'"
| orphans: "ls_capacity s = caps \<Longrightarrow> release_orphan_reservations exists s = (v, s') \<Longrightarrow> lease_step caps s s'"
| inactive: "ls_capacity s = caps \<Longrightarrow> release_inactive_reservations active s = (v, s') \<Longrightarrow> lease_step caps s s'"

definition pool_ok :: "(string \<times> int) list \<Rightarrow> lease_store \<Rightarrow> bool" where
  "pool_ok caps s \<longleftrightarrow> leases_ok s \<and> ls_capacity s = caps"

definition pool_grant :: "lease_store \<Rightarrow> lease_store \<Rightarrow> bool" where
  "pool_grant s s' \<longleftrightarrow> leases_ok s' \<and> ls_capacity s' = ls_capacity s \<and> (\<exists>j. \<forall>r. holders s' r \<subseteq> holders s r
     \<or> holders s' r \<subseteq> insert j (holders s r) \<and> int (card (holders s r)) < capacity_of s r)"

lemma pool_grant_refl: "leases_ok s \<Longrightarrow> pool_grant s s"
  by (simp add: pool_grant_def)

lemma acquire_writes_grant:
  assumes "leases_ok s" "busy_resources s rids = Inr []"
    and "write_leases ok 0 (new_leases now rids jid wid owner) (ls_files s) = (r, fs)"
  shows "pool_grant s (s\<lparr>ls_files := fs\<rparr>)"
    and "(\<forall>i. ok i) \<Longrightarrow> r = Inr ()"
    and "r = Inr () \<Longrightarrow> holders (s\<lparr>ls_files := fs\<rparr>) = (\<lambda>x. if x \<in> set rids then insert jid (holders s x) else holders s x)"
proof -
  from write_leases_effect [OF assms(1,3) new_leases_facts(1)] obtain R where
    R: "leases_ok (s\<lparr>ls_files := fs\<rparr>)" "R \<subseteq> set rids"
    "holders (s\<lparr>ls_files := fs\<rparr>) = (\<lambda>x. if x \<in> R then insert jid (holders s x) else holders s x)"
    "(\<forall>i. ok i) \<longrightarrow> r = Inr ()" "r = Inr () \<longrightarrow> R = set rids"
    unfolding new_leases_facts(2) by blast
  have free: "int (card (holders s x)) < capacity_of s x" if "x \<in> set rids" for x
    using assms(1,2) that by (auto simp: busy_resources_ok filter_empty_conv)
  show "pool_grant s (s\<lparr>ls_files := fs\<rparr>)"
    unfolding pool_grant_def R(3) using R(1,2) free by auto
  show "(\<forall>i. ok i) \<Longrightarrow> r = Inr ()" using R(4) by blast
  show "r = Inr () \<Longrightarrow> holders (s\<lparr>ls_files := fs\<rparr>) = (\<lambda>x. if x \<in> set rids then insert jid (holders s x) else holders s x)"
    using R(3,5) by auto
qed

lemma try_acquire_grant:
  assumes "leases_ok s" "try_acquire now ok rids jid wid owner s = (r, s')"
  shows "pool_grant s s'"
proof (cases "busy_resources s rids = Inr []")
  case True
  obtain q fs where w: "write_leases ok 0 (new_leases now rids jid wid owner) (ls_files s) = (q, fs)" by fastforce
  then have "s' = s\<lparr>ls_files := fs\<rparr>" using assms(2) True by (simp add: try_acquire_def Let_def)
  with acquire_writes_grant(1) [OF assms(1) True w] show ?thesis by simp
next
  case False
  then have "s' = s" using assms busy_resources_ok [OF assms(1)] by (auto simp: try_acquire_def split: if_splits)
  then show ?thesis using assms(1) pool_grant_refl by simp
qed

lemma pool_grant_release:
  assumes "pool_grant s s1" "release_job jid s1 = (r, s2)"
  shows "pool_grant s s2"
  using assms(1) release_job_effect [OF _ assms(2)] unfolding pool_grant_def by (metis Diff_subset subset_trans)

lemma admit_grant:
  assumes "leases_ok s" "admit now ok rids jid wid ow commit accepted s w = (r, s', w')"
  shows "pool_grant s s'"
proof (cases "busy_resources s rids = Inr []")
  case True
  obtain q fs where w: "write_leases ok 0 (new_leases now rids jid wid (Some ow)) (ls_files s) = (q, fs)" by fastforce
  let ?s1 = "s\<lparr>ls_files := fs\<rparr>"
  have g: "pool_grant s ?s1" by (rule acquire_writes_grant(1) [OF assms(1) True w])
  have "s' = ?s1 \<or> s' = snd (release_job jid ?s1)"
    using assms(2) True w by (auto simp: admit_def Let_def split: sum.splits prod.splits if_splits)
  then show ?thesis
    using g pool_grant_release [OF g, of jid "fst (release_job jid ?s1)"] by auto
next
  case False
  then have "s' = s" using assms busy_resources_ok [OF assms(1)] by (auto simp: admit_def split: if_splits)
  then show ?thesis using assms(1) pool_grant_refl by simp
qed

lemma sweep_grant:
  assumes "leases_ok s" "sweep P (ls_files s) = (r, fs)"
  shows "pool_grant s (s\<lparr>ls_files := fs\<rparr>)"
proof -
  have "fs = filter (\<lambda>e. \<not> P (entry_meta e)) (ls_files s)"
    using assms sweep_ok [of "ls_files s" P] by (simp add: leases_ok_def)
  with filtered_ok [OF assms(1)] show ?thesis by (simp add: pool_grant_def)
qed

lemma lease_step_grant: "leases_ok s \<Longrightarrow> lease_step caps s s' \<Longrightarrow> pool_grant s s'"
proof (erule lease_step.cases, goal_cases)
  case (4 s' exists v)
  then show ?case
    by (auto simp: release_orphan_reservations_def split: prod.splits intro: sweep_grant)
next
  case (5 s' active v)
  then show ?case
    by (auto simp: release_inactive_reservations_def split: prod.splits intro: sweep_grant)
next
  case (3 s' jid u)
  then show ?case using pool_grant_release pool_grant_refl by blast
qed (simp_all add: try_acquire_grant admit_grant)

interpretation pool: capped_pool "pool_ok caps" holders "\<lambda>r. case dict_get caps r of None \<Rightarrow> 0 | Some c \<Rightarrow> max 0 c"
  "lease_step caps" for caps
proof unfold_locales
  fix s s' r
  assume s: "pool_ok caps s"
  then have ok: "leases_ok s" "ls_capacity s = caps" by (simp_all add: pool_ok_def)
  show "finite (holders s r)" by simp
  assume "lease_step caps s s'"
  with lease_step_grant [OF ok(1)] have g: "pool_grant s s'" by blast
  then show "pool_ok caps s'" using ok by (simp add: pool_grant_def pool_ok_def)
  show "holders s' r \<subseteq> holders s r \<or> (\<exists>j. holders s' r \<subseteq> insert j (holders s r)
      \<and> int (card (holders s r)) < (case dict_get caps r of None \<Rightarrow> 0 | Some c \<Rightarrow> max 0 c))"
    using g ok(2) unfolding pool_grant_def capacity_of_def by metis
qed

definition empty_leases :: "(string \<times> int) list \<Rightarrow> lease_store" where
  "empty_leases caps = \<lparr>ls_files = [], ls_capacity = caps\<rparr>"

text \<open>
  C18. However the lease operations of several processes are ordered, whichever lease writes
  fail and however the commits end, from an empty lease directory no resource ever has more
  holders than its configured capacity, and a resource that is not configured has none.
\<close>

theorem capacity_never_exceeded:
  assumes "(lease_step caps)\<^sup>*\<^sup>* (empty_leases caps) s"
  shows "int (card (holders s r)) \<le> capacity_of s r"
proof -
  have start: "pool_ok caps (empty_leases caps)"
    by (simp add: pool_ok_def leases_ok_def empty_leases_def)
  have none: "int (card (holders (empty_leases caps) q)) \<le> (case dict_get caps q of None \<Rightarrow> 0 | Some c \<Rightarrow> max 0 c)" for q
    by (simp add: holders_def empty_leases_def split: option.split)
  from pool.within_capacity [OF assms start none, of r]
  show ?thesis by (auto simp: pool_ok_def capacity_of_def)
qed

definition store_full :: lease_store where
  "store_full = snd (try_acquire (\<lambda>_. ''1'') (\<lambda>_. True) [''gpu''] ''j1'' ''w'' None (empty_leases [(''gpu'', 1), (''net'', 2)]))"

theorem capacity_never_exceeded_witness:
  "holders store_full ''gpu'' = {''j1''} \<and> int (card (holders store_full ''gpu'')) \<le> capacity_of store_full ''gpu''
   \<and> lr_busy_resources (projr (fst (try_acquire (\<lambda>_. ''2'') (\<lambda>_. True) [''net'', ''gpu''] ''j2'' ''w'' None store_full))) = [''gpu'']"
proof -
  let ?caps = "[(''gpu'', 1), (''net'', 2)]"
  have "lease_step ?caps (empty_leases ?caps) store_full"
    by (rule lease_step.acquire [of _ _ "\<lambda>_. ''1''" "\<lambda>_. True" "[''gpu'']" "''j1''" "''w''" None
          "fst (try_acquire (\<lambda>_. ''1'') (\<lambda>_. True) [''gpu''] ''j1'' ''w'' None (empty_leases ?caps))"])
      (simp_all add: store_full_def empty_leases_def)
  then have reach: "(lease_step ?caps)\<^sup>*\<^sup>* (empty_leases ?caps) store_full" by blast
  have files: "map fst (ls_files store_full) = [(''gpu'', ''j1'')]" by code_simp
  have "fst ` set (ls_files store_full) = set (map fst (ls_files store_full))" by simp
  then have "holders store_full ''gpu'' = {''j1''}" by (simp only: holders_def files) auto
  moreover have "lr_busy_resources (projr (fst (try_acquire (\<lambda>_. ''2'') (\<lambda>_. True) [''net'', ''gpu''] ''j2'' ''w'' None store_full))) = [''gpu'']"
    by code_simp
  ultimately show ?thesis using capacity_never_exceeded [OF reach, of "''gpu''"] by blast
qed

section \<open>All or nothing\<close>

text \<open>
  When no lease write fails, an acquisition is all or nothing: it succeeds exactly when
  every resource asked for is below its capacity, and then the job holds each of them and no
  other holding changes; otherwise the store is unchanged and the answer names exactly the
  resources that are full or not configured.
\<close>

theorem acquire_all_or_nothing:
  assumes "leases_ok s"
  shows "\<exists>res s'. try_acquire now (\<lambda>_. True) rids jid wid owner s = (Inr res, s')
     \<and> (if list_all (\<lambda>r. int (card (holders s r)) < capacity_of s r) rids
         then lr_acquired res \<and> holders s' = (\<lambda>r. if r \<in> set rids then insert jid (holders s r) else holders s r)
         else \<not> lr_acquired res \<and> s' = s
           \<and> lr_busy_resources res = filter (\<lambda>r. capacity_of s r \<le> int (card (holders s r))) rids)"
proof (cases "list_all (\<lambda>r. int (card (holders s r)) < capacity_of s r) rids")
  case True
  then have b: "busy_resources s rids = Inr []"
    by (simp add: busy_resources_ok [OF assms] filter_empty_conv list_all_iff)
  obtain q fs where w: "write_leases (\<lambda>_. True) 0 (new_leases now rids jid wid owner) (ls_files s) = (q, fs)" by fastforce
  have "q = Inr ()" by (rule acquire_writes_grant(2) [OF assms b w]) simp
  with acquire_writes_grant(3) [OF assms b w] b w True show ?thesis
    by (simp add: try_acquire_def Let_def)
next
  case False
  then have "filter (\<lambda>r. capacity_of s r \<le> int (card (holders s r))) rids \<noteq> []"
    by (auto simp: filter_empty_conv list_all_iff not_less)
  with False show ?thesis by (simp add: try_acquire_def busy_resources_ok [OF assms] not_less)
qed

theorem acquire_all_or_nothing_witness:
  "\<exists>res s'. try_acquire (\<lambda>_. ''2'') (\<lambda>_. True) [''net''] ''j2'' ''w'' None store_full = (Inr res, s') \<and> lr_acquired res
     \<and> ''j2'' \<in> holders s' ''net''"
proof -
  let ?caps = "[(''gpu'', 1), (''net'', 2)]"
  have ok: "leases_ok store_full"
    using try_acquire_grant [of "empty_leases ?caps" "\<lambda>_. ''1''" "\<lambda>_. True" "[''gpu'']" "''j1''" "''w''" None _ store_full]
    by (simp add: pool_grant_def leases_ok_def empty_leases_def store_full_def prod_eq_iff)
  have files: "map fst (ls_files store_full) = [(''gpu'', ''j1'')]" by code_simp
  have "fst ` set (ls_files store_full) = set (map fst (ls_files store_full))" by simp
  then have "holders store_full ''net'' = {}" by (simp only: holders_def files) auto
  moreover have "dict_get (ls_capacity store_full) ''net'' = Some 2" by code_simp
  ultimately have "list_all (\<lambda>r. int (card (holders store_full r)) < capacity_of store_full r) [''net'']"
    by (simp add: capacity_of_def)
  with acquire_all_or_nothing [OF ok, of "\<lambda>_. ''2''" "[''net'']" "''j2''" "''w''" None] show ?thesis by auto
qed

text \<open>
  Admission is atomic when no lease write fails: if the resources are not all free the
  commit is not run and nothing changes; if the commit raises or is not accepted, a job that
  held nothing before holds nothing afterwards and no other holding has changed; if it is
  accepted, the job holds every resource it asked for.
\<close>

theorem admit_atomic:
  assumes "leases_ok s" "\<forall>r. jid \<notin> holders s r"
    and "admit now (\<lambda>_. True) rids jid wid ow commit accepted s w = (res, s', w')"
  shows "if list_all (\<lambda>r. int (card (holders s r)) < capacity_of s r) rids then
       w' = snd (commit w) \<and>
       (case fst (commit w) of
          Inl e \<Rightarrow> res = Inl e \<and> holders s' = holders s
        | Inr v \<Rightarrow> if (case accepted of None \<Rightarrow> True | Some acc \<Rightarrow> acc v)
            then holders s' = (\<lambda>r. if r \<in> set rids then insert jid (holders s r) else holders s r)
            else holders s' = holders s)
     else s' = s \<and> w' = w"
proof (cases "list_all (\<lambda>r. int (card (holders s r)) < capacity_of s r) rids")
  case True
  then have b: "busy_resources s rids = Inr []"
    by (simp add: busy_resources_ok [OF assms(1)] filter_empty_conv list_all_iff)
  obtain q fs where wr: "write_leases (\<lambda>_. True) 0 (new_leases now rids jid wid (Some ow)) (ls_files s) = (q, fs)" by fastforce
  let ?s1 = "s\<lparr>ls_files := fs\<rparr>"
  have q: "q = Inr ()" by (rule acquire_writes_grant(2) [OF assms(1) b wr]) simp
  note held1 = acquire_writes_grant(3) [OF assms(1) b wr q]
  have ok1: "leases_ok ?s1" using acquire_writes_grant(1) [OF assms(1) b wr] by (simp add: pool_grant_def)
  obtain rel s2 where r: "release_job jid ?s1 = (rel, s2)" by fastforce
  from release_job_effect [OF ok1 r] have rel: "rel = Inr ()" "holders s2 = (\<lambda>x. holders ?s1 x - {jid})" by auto
  then have restored: "holders s2 = holders s" using assms(2) by (auto simp: held1 fun_eq_iff)
  obtain c w1 where c: "commit w = (c, w1)" by fastforce
  show ?thesis
  proof (cases c)
    case (Inl e)
    with assms(3) True b wr q c r rel(1) restored show ?thesis by (simp add: admit_def Let_def)
  next
    case (Inr v)
    show ?thesis
    proof (cases "case accepted of None \<Rightarrow> True | Some acc \<Rightarrow> acc v")
      case acc: True
      then have "\<not> (case accepted of None \<Rightarrow> False | Some acc \<Rightarrow> \<not> acc v)" by (auto split: option.splits)
      with assms(3) True b wr q c Inr acc held1 show ?thesis by (simp add: admit_def Let_def)
    next
      case acc: False
      then have "case accepted of None \<Rightarrow> False | Some acc \<Rightarrow> \<not> acc v" by (auto split: option.splits)
      with assms(3) True b wr q c Inr acc r rel(1) restored show ?thesis by (simp add: admit_def Let_def)
    qed
  qed
next
  case False
  then have "filter (\<lambda>r. \<not> int (card (holders s r)) < capacity_of s r) rids \<noteq> []"
    by (auto simp: filter_empty_conv list_all_iff)
  with False assms(3) show ?thesis by (simp add: admit_def busy_resources_ok [OF assms(1)])
qed

theorem admit_atomic_witness:
  "\<exists>res s' w'. admit (\<lambda>_. ''1'') (\<lambda>_. True) [''gpu''] ''j1'' ''w'' ''/p'' (\<lambda>n :: nat. (Inr False, n + 1)) (Some id)
      (empty_leases [(''gpu'', 1)]) 0 = (res, s', w') \<and> w' = 1 \<and> holders s' = (\<lambda>_. {})"
proof -
  let ?s = "empty_leases [(''gpu'', 1)]"
  have none: "holders ?s = (\<lambda>_. {})" by (rule ext) (simp add: holders_def empty_leases_def)
  have ok: "leases_ok ?s" by (simp add: leases_ok_def empty_leases_def)
  have cap: "capacity_of ?s ''gpu'' = 1" by (simp add: capacity_of_def empty_leases_def dict_get_def)
  obtain res s' w' where a: "admit (\<lambda>_. ''1'') (\<lambda>_. True) [''gpu''] ''j1'' ''w'' ''/p'' (\<lambda>n :: nat. (Inr False, n + 1)) (Some id) ?s 0
      = (res, s', w')" by (metis prod.exhaust)
  from admit_atomic [OF ok _ a] have "w' = 1 \<and> holders s' = (\<lambda>_. {})"
    by (simp add: none cap)
  with a show ?thesis by blast
qed

text \<open>
  The leases are written before the guarded commit, outside its handler: when a later lease
  cannot be written, the admission raises and the leases written before stay with a job that
  was never committed.
\<close>

theorem failed_lease_write_leaks:
  "(let (r, s', w') = admit (\<lambda>_. ''1'') (\<lambda>i. i = 0) [''gpu'', ''net''] ''j1'' ''w'' ''/p'' (\<lambda>n :: nat. (Inr True, n + 1)) (Some id)
        (empty_leases [(''gpu'', 1), (''net'', 1)]) 0
    in r = Inl OSErr \<and> w' = 0 \<and> map fst (ls_files s') = [(''gpu'', ''j1'')] \<and> has_capacity s' ''gpu'' = Inr False)"
  by code_simp

end
