(* ===== verification/Events.thy ===== *)
theory Events
  imports Attempts
begin

text \<open>
  \<open>runtime/events.py\<close>, first half: event envelopes, their dictionary form, and the JSONL event
  store.  The store is a finite map from file name to the lines of the file (a line is blank,
  no JSON, or a JSON value), and the human log a list of texts by file name.  An append holds
  the store's lock and is one step; the fates of its file writes are a function on the position
  of the write, the JSONL files first.
\<close>

section \<open>Identifiers\<close>

definition CROCKFORD :: string where
  "CROCKFORD = ''0123456789ABCDEFGHJKMNPQRSTVWXYZ''"

text \<open>\<open>new_ulid\<close> from the clock in milliseconds and the 80 random bits: the shifts 125, 120 ... 0.\<close>

definition new_ulid :: "int \<Rightarrow> int \<Rightarrow> string" where
  "new_ulid millis random_value = (let value = millis * 2 ^ 80 + random_value
     in map (\<lambda>k. CROCKFORD ! nat (value div 2 ^ (125 - 5 * k) mod 32)) [0..<26])"

section \<open>Envelopes\<close>

definition build_event :: "string \<Rightarrow> string \<Rightarrow> string \<Rightarrow> event_actor \<Rightarrow> event_type + string \<Rightarrow> string
    \<Rightarrow> string option \<Rightarrow> string option \<Rightarrow> string option \<Rightarrow> string option \<Rightarrow> string option \<Rightarrow> string option \<Rightarrow> meta \<Rightarrow> event_envelope" where
  "build_event ulid now pid actor etype corr eid ts tid jid trid sid data =
     \<lparr>ev_event_id = the (py_or eid (Some ulid)), ev_schema_version = 1, ev_timestamp = the (py_or ts (Some now)),
      ev_project_id = pid, ev_actor = actor, ev_type = etype, ev_correlation_id = corr, ev_task_id = tid,
      ev_job_id = jid, ev_transition_id = trid, ev_submission_id = sid, ev_data = data\<rparr>"

definition etype_value :: "event_type + string \<Rightarrow> string" where
  "etype_value t = (case t of Inl e \<Rightarrow> event_type_value e | Inr s \<Rightarrow> s)"

text \<open>\<open>if value is not None: payload[key] = value\<close>.\<close>

definition put_opt :: "string \<Rightarrow> string option \<Rightarrow> meta \<Rightarrow> meta" where
  "put_opt k v m = (case v of None \<Rightarrow> m | Some s \<Rightarrow> fmupd k (JStr s) m)"

definition event_to_dict :: "event_envelope \<Rightarrow> meta" where
  "event_to_dict e =
     put_opt ''submission_id'' (ev_submission_id e)
    (put_opt ''transition_id'' (ev_transition_id e)
    (put_opt ''job_id'' (ev_job_id e)
    (put_opt ''task_id'' (ev_task_id e)
    (fmap_of_list
      [(''event_id'', JStr (ev_event_id e)),
       (''schema_version'', JInt (ev_schema_version e)),
       (''timestamp'', JStr (ev_timestamp e)),
       (''project_id'', JStr (ev_project_id e)),
       (''actor'', JObj (fmap_of_list [(''type'', JStr (actor_type (ev_actor e))), (''id'', JStr (actor_id (ev_actor e)))])),
       (''event_type'', JStr (etype_value (ev_type e))),
       (''correlation_id'', JStr (ev_correlation_id e)),
       (''data'', JObj (ev_data e))]))))"

text \<open>The reader's \<open>_optional_string\<close>: any value but null becomes its text.\<close>

definition text_or_none :: "json option \<Rightarrow> string option" where
  "text_or_none v = (case v of None \<Rightarrow> None
     | Some j \<Rightarrow> if j = JNull then None else if py_str j = [] then None else Some (py_str j))"

definition event_from_dict :: "meta \<Rightarrow> pyexc + event_envelope" where
  "event_from_dict p = (case fmlookup p ''actor'' of
      Some (JObj actor_raw) \<Rightarrow>
        (case jget p ''data'' (JObj fmempty) of
          JObj data_raw \<Rightarrow>
            bind_sum (required_string p ''event_id'') (\<lambda>eid.
            bind_sum (py_int (jget p ''schema_version'' (JInt 1))) (\<lambda>ver.
            bind_sum (required_string p ''timestamp'') (\<lambda>ts.
            bind_sum (required_string p ''project_id'') (\<lambda>pid.
            bind_sum (required_string actor_raw ''type'') (\<lambda>aty.
            bind_sum (required_string actor_raw ''id'') (\<lambda>aid.
            bind_sum (required_string p ''event_type'') (\<lambda>ety.
            bind_sum (required_string p ''correlation_id'') (\<lambda>corr.
            Inr \<lparr>ev_event_id = eid, ev_schema_version = ver, ev_timestamp = ts, ev_project_id = pid,
              ev_actor = \<lparr>actor_type = aty, actor_id = aid\<rparr>, ev_type = Inr ety, ev_correlation_id = corr,
              ev_task_id = text_or_none (fmlookup p ''task_id''), ev_job_id = text_or_none (fmlookup p ''job_id''),
              ev_transition_id = text_or_none (fmlookup p ''transition_id''),
              ev_submission_id = text_or_none (fmlookup p ''submission_id''), ev_data = data_raw\<rparr>))))))))
        | _ \<Rightarrow> Inl ValueErr)
    | _ \<Rightarrow> Inl ValueErr)"

section \<open>The human log\<close>

definition upper_char :: "char \<Rightarrow> string" where
  "upper_char c = (let n = code c in
     if n = 223 then ''SS''
     else if (97 \<le> n \<and> n \<le> 122) \<or> (224 \<le> n \<and> n \<le> 254 \<and> n \<noteq> 247) then [char_of (n - 32)] else [c])"

text \<open>An underscore before every upper case letter but the first character.\<close>

definition underscored :: "string \<Rightarrow> string" where
  "underscored s = concat (map (\<lambda>(i, c). if 0 < i \<and> 65 \<le> code c \<and> code c \<le> 90 then [CHR ''_'', c] else [c]) (enumerate (0 :: nat) s))"

definition human_event_type :: "event_type + string \<Rightarrow> string" where
  "human_event_type t = concat (map upper_char (underscored (etype_value t)))"

definition human_part :: "string \<Rightarrow> string option \<Rightarrow> string list" where
  "human_part k v = (case v of None \<Rightarrow> [] | Some s \<Rightarrow> [k @ ''='' @ s])"

definition human_event_line :: "event_envelope \<Rightarrow> string" where
  "human_event_line e = join '' '' ([''>>>'', ev_timestamp e, human_event_type (ev_type e)]
      @ human_part ''task'' (ev_task_id e) @ human_part ''job'' (ev_job_id e)
      @ human_part ''transition'' (ev_transition_id e) @ human_part ''submission'' (ev_submission_id e)
      @ (if ev_data e \<noteq> fmempty then [''data='' @ json_dumps (JObj (ev_data e))] else [])) @ newline"

section \<open>The store\<close>

datatype ev_line = BlankLine | BadLine | JsonLine json

text \<open>A file cannot be opened, does not decode, or has lines.\<close>

datatype ev_file = EvUnopenable | EvUndecodable | EvLines "ev_line list"

record event_store =
  es_root :: string
  es_files :: "(string, ev_file) fmap"
  es_human :: "(string, string list) fmap"

record event_read_record =
  er_path :: string
  er_line :: int
  er_event :: "event_envelope option"
  er_error :: "domain_error option"

record event_append_result =
  ea_path :: "string option"
  ea_error :: "domain_error option"

definition ea_accepted :: "event_append_result \<Rightarrow> bool" where
  "ea_accepted r \<longleftrightarrow> ea_error r = None"

definition line_record :: "string \<Rightarrow> int \<Rightarrow> json option \<Rightarrow> pyexc + event_read_record" where
  "line_record path i j =
     (let bad = Inr \<lparr>er_path = path, er_line = i, er_event = None, er_error = Some (derror ''event.read_failed''
            [Txt ''Cannot read event: '', ExcText] (Some (path @ '':'' @ int_str i)))\<rparr>
      in case j of
          Some (JObj m) \<Rightarrow> (case event_from_dict m of
              Inr e \<Rightarrow> Inr \<lparr>er_path = path, er_line = i, er_event = Some e, er_error = None\<rparr>
            | Inl x \<Rightarrow> if x \<in> {TypeErr, ValueErr} then bad else Inl x)
        | _ \<Rightarrow> bad)"

fun line_records :: "string \<Rightarrow> int \<Rightarrow> ev_line list \<Rightarrow> pyexc + event_read_record list" where
  "line_records path i [] = Inr []"
| "line_records path i (BlankLine # ls) = line_records path (i + 1) ls"
| "line_records path i (BadLine # ls) = bind_sum (line_record path i None) (\<lambda>r.
     bind_sum (line_records path (i + 1) ls) (\<lambda>rs. Inr (r # rs)))"
| "line_records path i (JsonLine j # ls) = bind_sum (line_record path i (Some j)) (\<lambda>r.
     bind_sum (line_records path (i + 1) ls) (\<lambda>rs. Inr (r # rs)))"

definition file_records :: "string \<Rightarrow> ev_file \<Rightarrow> pyexc + event_read_record list" where
  "file_records path f = (case f of
      EvUnopenable \<Rightarrow> Inr [\<lparr>er_path = path, er_line = 0, er_event = None, er_error = Some (derror ''event.read_failed''
         [Txt ''Cannot open event file: '', ExcText] (Some path))\<rparr>]
    | EvUndecodable \<Rightarrow> Inl ValueErr
    | EvLines ls \<Rightarrow> line_records path 1 ls)"

definition event_path :: "event_store \<Rightarrow> string \<Rightarrow> string" where
  "event_path s name = es_root s @ ''/'' @ name"

definition iter_event_records :: "event_store \<Rightarrow> pyexc + event_read_record list" where
  "iter_event_records s = bind_sum
     (map_sum_list (\<lambda>(n, f). file_records (event_path s n) f) (fmap_entries (es_files s))) (\<lambda>rss. Inr (concat rss))"

definition iter_events :: "event_store \<Rightarrow> pyexc + event_envelope list" where
  "iter_events s = bind_sum (iter_event_records s) (\<lambda>rs. Inr (List.map_filter er_event rs))"

definition event_ids :: "event_store \<Rightarrow> pyexc + string list" where
  "event_ids s = bind_sum (iter_events s) (\<lambda>es. Inr (map ev_event_id es))"

text \<open>\<open>\d{4}-\d{2}-\d{2}\<close> on the first ten characters.\<close>

definition is_date :: "string \<Rightarrow> bool" where
  "is_date d \<longleftrightarrow> length d = 10 \<and> list_all (\<lambda>i. if i = 4 \<or> i = 7 then d ! i = CHR ''-'' else is_digit (d ! i)) [0..<10]"

definition event_file :: "event_envelope \<Rightarrow> pyexc + string" where
  "event_file e = (let d = take 10 (ev_timestamp e) in if is_date d then Inr (d @ ''.jsonl'') else Inl ValueErr)"

definition human_file :: "event_envelope \<Rightarrow> pyexc + string" where
  "human_file e = (let d = take 10 (ev_timestamp e) in if is_date d then Inr (d @ ''.log'') else Inl ValueErr)"

definition lines_of :: "ev_file option \<Rightarrow> ev_line list" where
  "lines_of f = (case f of Some (EvLines ls) \<Rightarrow> ls | _ \<Rightarrow> [])"

text \<open>\<open>_append_lines\<close> on a JSONL file: opening an unopenable file fails.\<close>

definition append_jsonl :: "write_fate \<Rightarrow> string \<Rightarrow> json list \<Rightarrow> event_store \<Rightarrow> (pyexc + unit) \<times> event_store" where
  "append_jsonl fate name js s =
     (let written = s\<lparr>es_files := fmupd name (EvLines (lines_of (fmlookup (es_files s) name) @ map JsonLine js)) (es_files s)\<rparr>
      in if fmlookup (es_files s) name = Some EvUnopenable \<or> fate = WriteFails then (Inl OSErr, s)
         else if fmlookup (es_files s) name = Some EvUndecodable then (if fate = WriteOk then Inr () else Inl OSErr, s)
         else if fate = SyncFails then (Inl OSErr, written) else (Inr (), written))"

definition append_human :: "write_fate \<Rightarrow> string \<Rightarrow> string list \<Rightarrow> event_store \<Rightarrow> (pyexc + unit) \<times> event_store" where
  "append_human fate name ls s =
     (let old = (case fmlookup (es_human s) name of None \<Rightarrow> [] | Some xs \<Rightarrow> xs);
          written = s\<lparr>es_human := fmupd name (old @ ls) (es_human s)\<rparr>
      in case fate of WriteOk \<Rightarrow> (Inr (), written) | WriteFails \<Rightarrow> (Inl OSErr, s) | SyncFails \<Rightarrow> (Inl OSErr, written))"

definition caught_append :: "pyexc \<Rightarrow> bool" where
  "caught_append e \<longleftrightarrow> e \<in> {OSErr, TypeErr, ValueErr}"

definition append_failed :: "string \<Rightarrow> event_store \<Rightarrow> event_append_result" where
  "append_failed what s = \<lparr>ea_path = None, ea_error = Some (derror ''event.append_failed'' [Txt what, ExcText] (Some (es_root s)))\<rparr>"

text \<open>The handler of both appends around their body.\<close>

definition guard_append :: "string \<Rightarrow> event_store \<Rightarrow> (pyexc + string option) \<times> event_store \<Rightarrow> (pyexc + event_append_result) \<times> event_store" where
  "guard_append what s r = (case r of
      (Inr p, s') \<Rightarrow> (Inr \<lparr>ea_path = p, ea_error = None\<rparr>, s')
    | (Inl e, s') \<Rightarrow> (if caught_append e then Inr (append_failed what s) else Inl e, s'))"

text \<open>The two appends as their handlers see them: the exception raised with the store it leaves.\<close>

definition append_body :: "(nat \<Rightarrow> write_fate) \<Rightarrow> event_envelope \<Rightarrow> event_store \<Rightarrow> (pyexc + string option) \<times> event_store" where
  "append_body fates e s = (case event_file e of
      Inl x \<Rightarrow> (Inl x, s)
    | Inr name \<Rightarrow>
        (case event_ids s of
          Inl x \<Rightarrow> (Inl x, s)
        | Inr ids \<Rightarrow>
            if ev_event_id e \<in> set ids then (Inr (Some (event_path s name)), s)
            else (case append_jsonl (fates 0) name [JObj (event_to_dict e)] s of
                (Inl x, s1) \<Rightarrow> (Inl x, s1)
              | (Inr _, s1) \<Rightarrow>
                  (case human_file e of
                    Inl x \<Rightarrow> (Inl x, s1)
                  | Inr hname \<Rightarrow>
                      (case append_human (fates 1) hname [human_event_line e] s1 of
                        (Inl x, s2) \<Rightarrow> (Inl x, s2)
                      | (Inr _, s2) \<Rightarrow> (Inr (Some (event_path s name)), s2))))))"

definition append_event :: "(nat \<Rightarrow> write_fate) \<Rightarrow> event_envelope \<Rightarrow> event_store \<Rightarrow> (pyexc + event_append_result) \<times> event_store" where
  "append_event fates e s = guard_append ''Cannot append event: '' s (append_body fates e s)"

record batch =
  b_ids :: "string list"
  b_prepared :: "(string \<times> json list) list"
  b_human :: "(string \<times> string list) list"

definition push :: "'k \<Rightarrow> 'v \<Rightarrow> ('k \<times> 'v list) list \<Rightarrow> ('k \<times> 'v list) list" where
  "push k v d = dict_set k ((case dict_get d k of None \<Rightarrow> [] | Some vs \<Rightarrow> vs) @ [v]) d"

fun prepare_batch :: "event_envelope list \<Rightarrow> batch \<Rightarrow> pyexc + batch" where
  "prepare_batch [] b = Inr b"
| "prepare_batch (e # es) b =
     (if ev_event_id e \<in> set (b_ids b) then prepare_batch es b
      else bind_sum (event_file e) (\<lambda>name. bind_sum (human_file e) (\<lambda>hname.
        prepare_batch es \<lparr>b_ids = ev_event_id e # b_ids b,
          b_prepared = push name (JObj (event_to_dict e)) (b_prepared b),
          b_human = push hname (human_event_line e) (b_human b)\<rparr>)))"

fun write_jsonl :: "(nat \<Rightarrow> write_fate) \<Rightarrow> nat \<Rightarrow> (string \<times> json list) list \<Rightarrow> string option \<Rightarrow> event_store
    \<Rightarrow> (pyexc + string option) \<times> event_store" where
  "write_jsonl fates n [] lastp s = (Inr lastp, s)"
| "write_jsonl fates n ((name, js) # rest) lastp s = (case append_jsonl (fates n) name js s of
       (Inl x, s') \<Rightarrow> (Inl x, s')
     | (Inr _, s') \<Rightarrow> write_jsonl fates (Suc n) rest (Some (event_path s name)) s')"

fun write_human :: "(nat \<Rightarrow> write_fate) \<Rightarrow> nat \<Rightarrow> (string \<times> string list) list \<Rightarrow> event_store \<Rightarrow> (pyexc + unit) \<times> event_store" where
  "write_human fates n [] s = (Inr (), s)"
| "write_human fates n ((name, ls) # rest) s = (case append_human (fates n) name ls s of
       (Inl x, s') \<Rightarrow> (Inl x, s')
     | (Inr _, s') \<Rightarrow> write_human fates (Suc n) rest s')"

definition append_many_body :: "(nat \<Rightarrow> write_fate) \<Rightarrow> event_envelope list \<Rightarrow> event_store \<Rightarrow> (pyexc + string option) \<times> event_store" where
  "append_many_body fates es s = (case event_ids s of
      Inl x \<Rightarrow> (Inl x, s)
    | Inr ids \<Rightarrow>
        (case prepare_batch es \<lparr>b_ids = ids, b_prepared = [], b_human = []\<rparr> of
          Inl x \<Rightarrow> (Inl x, s)
        | Inr b \<Rightarrow>
            (case write_jsonl fates 0 (b_prepared b) None s of
              (Inl x, s1) \<Rightarrow> (Inl x, s1)
            | (Inr lastp, s1) \<Rightarrow>
                (case write_human fates (length (b_prepared b)) (b_human b) s1 of
                  (Inl x, s2) \<Rightarrow> (Inl x, s2)
                | (Inr _, s2) \<Rightarrow> (Inr lastp, s2)))))"

definition append_many :: "(nat \<Rightarrow> write_fate) \<Rightarrow> event_envelope list \<Rightarrow> event_store \<Rightarrow> (pyexc + event_append_result) \<times> event_store" where
  "append_many fates es s = guard_append ''Cannot append event batch: '' s (append_many_body fates es s)"

end
