(* ===== verification/EventFacts.thy ===== *)
theory EventFacts
  imports Events
begin

text \<open>
  Laws of the event store.  The log is read as \<open>log_view\<close>, the events of each file in order.
  An append adds exactly the events whose ids are new, to the file of their date, behind what
  is there; a batch that failed halfway is completed by appending it again.
\<close>

section \<open>Round trip of an envelope\<close>

definition event_filled :: "event_envelope \<Rightarrow> bool" where
  "event_filled e \<longleftrightarrow> ev_event_id e \<noteq> [] \<and> ev_timestamp e \<noteq> [] \<and> ev_project_id e \<noteq> []
     \<and> actor_type (ev_actor e) \<noteq> [] \<and> actor_id (ev_actor e) \<noteq> [] \<and> etype_value (ev_type e) \<noteq> [] \<and> ev_correlation_id e \<noteq> []"

definition drop_empty :: "string option \<Rightarrow> string option" where
  "drop_empty v = (if v = Some [] then None else v)"

text \<open>What an envelope is after one write and read: the type is a text and an empty optional
  text is absent.\<close>

definition reread_event :: "event_envelope \<Rightarrow> event_envelope" where
  "reread_event e = e\<lparr>ev_type := Inr (etype_value (ev_type e)), ev_task_id := drop_empty (ev_task_id e),
     ev_job_id := drop_empty (ev_job_id e), ev_transition_id := drop_empty (ev_transition_id e),
     ev_submission_id := drop_empty (ev_submission_id e)\<rparr>"

lemma reread_event_id [simp]: "ev_event_id (reread_event e) = ev_event_id e"
  by (simp add: reread_event_def)

lemma put_opt_lookup: "fmlookup (put_opt k v m) k' = (if k' = k \<and> v \<noteq> None then map_option JStr v else fmlookup m k')"
  by (cases v) (auto simp: put_opt_def)

lemma put_opt_none: "(if v \<noteq> None then map_option f v else None) = map_option f v"
  by (cases v) simp_all

lemma text_or_none_put: "text_or_none (map_option JStr v) = drop_empty v"
  by (cases v) (auto simp: text_or_none_def drop_empty_def)

lemma event_dict_lookup:
  "fmlookup (event_to_dict e) ''event_id'' = Some (JStr (ev_event_id e))"
  "fmlookup (event_to_dict e) ''schema_version'' = Some (JInt (ev_schema_version e))"
  "fmlookup (event_to_dict e) ''timestamp'' = Some (JStr (ev_timestamp e))"
  "fmlookup (event_to_dict e) ''project_id'' = Some (JStr (ev_project_id e))"
  "fmlookup (event_to_dict e) ''actor'' = Some (JObj (fmap_of_list [(''type'', JStr (actor_type (ev_actor e))), (''id'', JStr (actor_id (ev_actor e)))]))"
  "fmlookup (event_to_dict e) ''event_type'' = Some (JStr (etype_value (ev_type e)))"
  "fmlookup (event_to_dict e) ''correlation_id'' = Some (JStr (ev_correlation_id e))"
  "fmlookup (event_to_dict e) ''data'' = Some (JObj (ev_data e))"
  "fmlookup (event_to_dict e) ''task_id'' = map_option JStr (ev_task_id e)"
  "fmlookup (event_to_dict e) ''job_id'' = map_option JStr (ev_job_id e)"
  "fmlookup (event_to_dict e) ''transition_id'' = map_option JStr (ev_transition_id e)"
  "fmlookup (event_to_dict e) ''submission_id'' = map_option JStr (ev_submission_id e)"
  by (simp_all add: event_to_dict_def put_opt_lookup fmlookup_of_list put_opt_none del: not_None_eq)

lemma event_roundtrip:
  assumes "event_filled e"
  shows "event_from_dict (event_to_dict e) = Inr (reread_event e)"
  using assms
  by (simp add: event_from_dict_def event_dict_lookup jget_def required_string_def text_or_none_put
      fmlookup_of_list event_filled_def reread_event_def del: fmap_of_list_simps)

text \<open>
  An event whose required texts are filled reads back from the log as it was written, its
  type as the text of the type and empty optional texts as absent; reading what was written
  again gives the same event.
\<close>

theorem event_envelope_roundtrip:
  assumes "event_filled e"
  shows "event_from_dict (event_to_dict e) = Inr (reread_event e)
     \<and> event_from_dict (event_to_dict (reread_event e)) = Inr (reread_event e)"
proof -
  have "event_filled (reread_event e)"
    using assms by (simp add: event_filled_def reread_event_def etype_value_def)
  moreover have "reread_event (reread_event e) = reread_event e"
    by (simp add: reread_event_def drop_empty_def etype_value_def)
  ultimately show ?thesis using event_roundtrip [OF assms] event_roundtrip [of "reread_event e"] by simp
qed

definition sample_event :: "string \<Rightarrow> string \<Rightarrow> event_envelope" where
  "sample_event i day = \<lparr>ev_event_id = i, ev_schema_version = 1, ev_timestamp = day @ ''T10:00:00Z'', ev_project_id = ''p'',
     ev_actor = \<lparr>actor_type = ''system'', actor_id = ''runtime''\<rparr>, ev_type = Inl TaskMoved, ev_correlation_id = ''c'',
     ev_task_id = Some ''T-1'', ev_job_id = None, ev_transition_id = Some [], ev_submission_id = None,
     ev_data = fmap_of_list [(''to'', JStr ''done'')]\<rparr>"

theorem event_envelope_roundtrip_witness:
  "event_from_dict (event_to_dict (sample_event ''e1'' ''2026-01-02'')) =
     Inr ((sample_event ''e1'' ''2026-01-02'')\<lparr>ev_type := Inr ''TaskMoved'', ev_transition_id := None\<rparr>)"
proof -
  have f: "event_filled (sample_event ''e1'' ''2026-01-02'')"
    by (simp add: event_filled_def sample_event_def etype_value_def)
  have "reread_event (sample_event ''e1'' ''2026-01-02'') = (sample_event ''e1'' ''2026-01-02'')\<lparr>ev_type := Inr ''TaskMoved'', ev_transition_id := None\<rparr>"
    by (simp add: reread_event_def sample_event_def drop_empty_def etype_value_def)
  with event_envelope_roundtrip [OF f] show ?thesis by simp
qed

section \<open>The log as events of each file\<close>

fun line_event :: "ev_line \<Rightarrow> event_envelope option" where
  "line_event (JsonLine (JObj m)) = (case event_from_dict m of Inr e \<Rightarrow> Some e | Inl _ \<Rightarrow> None)"
| "line_event _ = None"

fun line_quiet :: "ev_line \<Rightarrow> bool" where
  "line_quiet (JsonLine (JObj m)) \<longleftrightarrow> (case event_from_dict m of Inr e \<Rightarrow> True | Inl x \<Rightarrow> x = TypeErr \<or> x = ValueErr)"
| "line_quiet _ \<longleftrightarrow> True"

definition log_lines :: "event_store \<Rightarrow> string \<Rightarrow> ev_line list" where
  "log_lines s n = lines_of (fmlookup (es_files s) n)"

definition log_view :: "event_store \<Rightarrow> string \<Rightarrow> event_envelope list" where
  "log_view s n = List.map_filter line_event (log_lines s n)"

text \<open>No file keeps the reader from finishing: bad lines are allowed, they become records.\<close>

definition log_ok :: "event_store \<Rightarrow> bool" where
  "log_ok s \<longleftrightarrow> (\<forall>n f. fmlookup (es_files s) n = Some f \<longrightarrow> (\<exists>ls. f = EvLines ls \<and> list_all line_quiet ls))"

definition log_ids :: "event_store \<Rightarrow> string set" where
  "log_ids s = {i. \<exists>n. i \<in> ev_event_id ` set (log_view s n)}"

lemma line_records_ok:
  assumes "list_all line_quiet ls"
  shows "\<exists>rs. line_records path i ls = Inr rs \<and> List.map_filter er_event rs = List.map_filter line_event ls"
  using assms
proof (induction ls arbitrary: i)
  case Nil
  then show ?case by simp
next
  case (Cons l ls)
  from Cons.prems have q: "line_quiet l" and "list_all line_quiet ls" by auto
  from Cons.IH [OF this(2), of "i + 1"] obtain rs where
    rs: "line_records path (i + 1) ls = Inr rs" "List.map_filter er_event rs = List.map_filter line_event ls" by blast
  show ?case
  proof (cases l)
    case BlankLine
    with rs show ?thesis by (simp add: map_filter_simps)
  next
    case BadLine
    with rs show ?thesis by (simp add: line_record_def map_filter_simps)
  next
    case (JsonLine j)
    have "\<exists>r. line_record path i (Some j) = Inr r \<and> er_event r = line_event l"
    proof (cases j)
      case (JObj m)
      with q JsonLine show ?thesis by (auto simp: line_record_def split: sum.splits)
    qed (simp_all add: line_record_def JsonLine)
    with JsonLine rs show ?thesis by (auto simp: map_filter_simps split: option.split)
  qed
qed

lemma map_filter_append: "List.map_filter f (xs @ ys) = List.map_filter f xs @ List.map_filter f ys"
  by (induction xs) (auto simp: map_filter_simps split: option.split)

lemma map_filter_concat: "List.map_filter f (concat xss) = concat (map (List.map_filter f) xss)"
  by (induction xss) (auto simp: map_filter_append)

definition file_names :: "event_store \<Rightarrow> string list" where
  "file_names s = map fst (fmap_entries (es_files s))"

lemma iter_events_ok:
  assumes "log_ok s"
  shows "iter_events s = Inr (concat (map (log_view s) (file_names s)))"
proof -
  have entry: "fmlookup (es_files s) n = Some f" if "(n, f) \<in> set (fmap_entries (es_files s))" for n f
  proof -
    have "n |\<in>| fmdom (es_files s)" "f = the (fmlookup (es_files s) n)"
      using that by (auto simp: fmap_entries_def sorted_list_of_fmap_def)
    then show ?thesis by (auto simp: fmlookup_dom_iff)
  qed
  have "\<exists>rss. map_sum_list (\<lambda>(n, f). file_records (event_path s n) f) es = Inr rss
      \<and> concat (map (List.map_filter er_event) rss) = concat (map (log_view s \<circ> fst) es)"
    if "set es \<subseteq> set (fmap_entries (es_files s))" for es
    using that
  proof (induction es)
    case (Cons e es)
    obtain n f where e: "e = (n, f)" by fastforce
    with Cons.prems entry have lk: "fmlookup (es_files s) n = Some f" by auto
    with assms obtain ls where ls: "f = EvLines ls" "list_all line_quiet ls" unfolding log_ok_def by blast
    from line_records_ok [OF ls(2), of "event_path s n" 1] obtain rs where
      "line_records (event_path s n) 1 ls = Inr rs" "List.map_filter er_event rs = List.map_filter line_event ls" by blast
    moreover from Cons obtain rss where
      "map_sum_list (\<lambda>(n, f). file_records (event_path s n) f) es = Inr rss"
      "concat (map (List.map_filter er_event) rss) = concat (map (log_view s \<circ> fst) es)" by (auto simp del: o_apply)
    moreover have "log_view s n = List.map_filter line_event ls"
      using lk ls(1) by (simp add: log_view_def log_lines_def lines_of_def)
    moreover have "file_records (event_path s n) f = line_records (event_path s n) 1 ls"
      by (simp add: file_records_def ls(1))
    ultimately show ?case by (simp add: e comp_def)
  qed simp
  from this [of "fmap_entries (es_files s)"] show ?thesis
    by (auto simp: iter_events_def iter_event_records_def map_filter_concat file_names_def comp_def)
qed

lemma set_file_names: "n \<in> set (file_names s) \<longleftrightarrow> fmlookup (es_files s) n \<noteq> None"
  by (simp add: file_names_def fmap_entries_def sorted_list_of_fmap_def comp_def fmlookup_dom_iff)

lemma event_ids_ok:
  assumes "log_ok s"
  shows "\<exists>ids. event_ids s = Inr ids \<and> set ids = log_ids s"
proof -
  have "set (concat (map (log_view s) (file_names s))) = {e. \<exists>n. e \<in> set (log_view s n)}"
  proof -
    have "n \<in> set (file_names s)" if "e \<in> set (log_view s n)" for e n
      using that by (auto simp: set_file_names log_view_def log_lines_def lines_of_def map_filter_simps split: option.splits)
    then show ?thesis by auto
  qed
  then have "ev_event_id ` set (concat (map (log_view s) (file_names s))) = log_ids s"
    unfolding log_ids_def by blast
  then show ?thesis
    by (simp only: event_ids_def iter_events_ok [OF assms] bind_sum_simps set_map sum.inject) auto
qed

section \<open>Preparing a batch\<close>

text \<open>The events of a batch that are new: not in the log, and the first of their id.\<close>

fun fresh_events :: "string set \<Rightarrow> event_envelope list \<Rightarrow> event_envelope list" where
  "fresh_events seen [] = []"
| "fresh_events seen (e # es) = (if ev_event_id e \<in> seen then fresh_events seen es
     else e # fresh_events (insert (ev_event_id e) seen) es)"

definition dated :: "event_envelope \<Rightarrow> bool" where
  "dated e \<longleftrightarrow> is_date (take 10 (ev_timestamp e))"

definition file_of :: "event_envelope \<Rightarrow> string" where
  "file_of e = take 10 (ev_timestamp e) @ ''.jsonl''"

definition entries_for :: "('k \<times> 'v list) list \<Rightarrow> 'k \<Rightarrow> 'v list" where
  "entries_for d k = (case dict_get d k of None \<Rightarrow> [] | Some vs \<Rightarrow> vs)"

lemma event_file_dated: "dated e \<Longrightarrow> event_file e = Inr (file_of e)"
  by (simp add: event_file_def dated_def file_of_def Let_def)

lemma human_file_dated: "dated e \<Longrightarrow> \<exists>h. human_file e = Inr h"
  by (simp add: human_file_def dated_def Let_def)

lemma entries_for_push: "entries_for (push k v d) k' = (if k' = k then entries_for d k @ [v] else entries_for d k')"
  by (simp add: entries_for_def push_def)

lemma push_distinct: "distinct (map fst d) \<Longrightarrow> distinct (map fst (push k v d))"
  by (simp add: push_def dict_set_distinct)

abbreviation event_json :: "event_envelope \<Rightarrow> json" where
  "event_json e \<equiv> JObj (event_to_dict e)"

lemma prepare_batch_ok:
  assumes "list_all dated es" "distinct (map fst (b_prepared b))"
  shows "\<exists>b'. prepare_batch es b = Inr b' \<and> distinct (map fst (b_prepared b'))
     \<and> (\<forall>n. entries_for (b_prepared b') n = entries_for (b_prepared b) n
           @ map event_json (filter (\<lambda>e. file_of e = n) (fresh_events (set (b_ids b)) es)))"
  using assms
proof (induction es arbitrary: b)
  case (Cons e es)
  show ?case
  proof (cases "ev_event_id e \<in> set (b_ids b)")
    case True
    with Cons show ?thesis by simp
  next
    case False
    have d: "dated e" using Cons.prems by simp
    then obtain h where h: "human_file e = Inr h" using human_file_dated by blast
    let ?b = "\<lparr>b_ids = ev_event_id e # b_ids b, b_prepared = push (file_of e) (event_json e) (b_prepared b),
      b_human = push h (human_event_line e) (b_human b)\<rparr>"
    have "prepare_batch (e # es) b = prepare_batch es ?b"
      using False d h by (simp add: event_file_dated)
    moreover from Cons.IH [of ?b] Cons.prems obtain b' where
      "prepare_batch es ?b = Inr b'" "distinct (map fst (b_prepared b'))"
      "\<forall>n. entries_for (b_prepared b') n = entries_for (b_prepared ?b) n
         @ map event_json (filter (\<lambda>e. file_of e = n) (fresh_events (set (b_ids ?b)) es))"
      by (auto simp: push_distinct)
    ultimately show ?thesis using False by (auto simp: entries_for_push)
  qed
qed simp

section \<open>Writing a batch\<close>

lemma written_line_quiet: "event_filled e \<Longrightarrow> line_quiet (JsonLine (event_json e)) \<and> line_event (JsonLine (event_json e)) = Some (reread_event e)"
  by (simp add: event_roundtrip)

definition writes_fine :: "(nat \<Rightarrow> write_fate) \<Rightarrow> bool" where
  "writes_fine fates \<longleftrightarrow> (\<forall>n. fates n = WriteOk)"

definition quiet_entries :: "(string \<times> json list) list \<Rightarrow> bool" where
  "quiet_entries d \<longleftrightarrow> (\<forall>n. list_all (line_quiet \<circ> JsonLine) (entries_for d n))"

lemma append_jsonl_effect:
  assumes "log_ok s" "list_all (line_quiet \<circ> JsonLine) js" "append_jsonl fate name js s = (r, s')"
  shows "log_ok s' \<and> (s' = s \<and> r \<noteq> Inr () \<or> (\<forall>n. log_lines s' n = log_lines s n @ (if n = name then map JsonLine js else [])))
     \<and> (fate = WriteOk \<longrightarrow> r = Inr ())"
proof -
  let ?w = "s\<lparr>es_files := fmupd name (EvLines (lines_of (fmlookup (es_files s) name) @ map JsonLine js)) (es_files s)\<rparr>"
  have clean: "fmlookup (es_files s) name \<noteq> Some EvUnopenable" "fmlookup (es_files s) name \<noteq> Some EvUndecodable"
    using assms(1) unfolding log_ok_def by fastforce+
  have q: "list_all line_quiet (lines_of (fmlookup (es_files s) name))"
    using assms(1) unfolding log_ok_def by (cases "fmlookup (es_files s) name") (fastforce simp: lines_of_def)+
  have ok: "log_ok ?w"
    using assms(1) q assms(2) unfolding log_ok_def by (auto simp: list_all_iff)
  have v: "\<forall>n. log_lines ?w n = log_lines s n @ (if n = name then map JsonLine js else [])"
    by (simp add: log_lines_def lines_of_def)
  show ?thesis
    using assms(1,3) ok v clean by (cases fate) (auto simp: append_jsonl_def Let_def)
qed

lemma write_jsonl_effect:
  assumes "log_ok s" "distinct (map fst d)" "quiet_entries d" "write_jsonl fates i d p s = (r, s')"
  shows "\<exists>N. N \<subseteq> fst ` set d \<and> log_ok s'
     \<and> (\<forall>n. log_lines s' n = log_lines s n @ (if n \<in> N then map JsonLine (entries_for d n) else []))
     \<and> (writes_fine fates \<longrightarrow> (\<exists>q. r = Inr q)) \<and> ((\<exists>q. r = Inr q) \<longrightarrow> N = fst ` set d)"
  using assms
proof (induction d arbitrary: i p s)
  case Nil
  then show ?case by (intro exI [of _ "{}"]) auto
next
  case (Cons e d)
  obtain name js where e: "e = (name, js)" by fastforce
  have here: "entries_for (e # d) name = js" by (simp add: entries_for_def dict_get_def e)
  have there: "entries_for (e # d) n = entries_for d n" if "n \<noteq> name" for n
    using that by (simp add: entries_for_def dict_get_def e)
  have none: "entries_for d name = []"
  proof -
    have "name \<notin> fst ` set d" using Cons.prems(2) by (simp add: e)
    then have "map_of d name = None" by (simp add: map_of_eq_None_iff)
    then show ?thesis by (simp add: entries_for_def dict_get_def)
  qed
  have quiet: "list_all (line_quiet \<circ> JsonLine) js" "quiet_entries d"
  proof -
    from Cons.prems(3) have q: "list_all (line_quiet \<circ> JsonLine) (entries_for (e # d) n)" for n
      by (simp add: quiet_entries_def)
    from q [of name] here show "list_all (line_quiet \<circ> JsonLine) js" by (simp only:)
    have "list_all (line_quiet \<circ> JsonLine) (entries_for d n)" for n
      using q [of n] there [of n] none by (cases "n = name") simp_all
    then show "quiet_entries d" by (simp add: quiet_entries_def)
  qed
  obtain r1 s1 where a: "append_jsonl (fates i) name js s = (r1, s1)" by fastforce
  note eff = append_jsonl_effect [OF Cons.prems(1) quiet(1) a]
  show ?case
  proof (cases r1)
    case (Inl x)
    then have s': "s' = s1" and r: "r = Inl x" using Cons.prems(4) a by (simp_all add: e)
    from eff consider "s1 = s" | "\<forall>n. log_lines s1 n = log_lines s n @ (if n = name then map JsonLine js else [])" by blast
    then show ?thesis
    proof cases
      case 1
      with s' r Cons.prems(1) eff Inl show ?thesis
        by (intro exI [of _ "{}"]) (auto simp: writes_fine_def)
    next
      case 2
      with s' r eff Inl here show ?thesis
        by (intro exI [of _ "{name}"]) (auto simp: writes_fine_def e)
    qed
  next
    case (Inr u)
    with eff have s1: "log_ok s1" "\<forall>n. log_lines s1 n = log_lines s n @ (if n = name then map JsonLine js else [])" by auto
    have "write_jsonl fates (Suc i) d (Some (event_path s name)) s1 = (r, s')"
      using Cons.prems(4) a Inr by (simp add: e)
    from Cons.IH [OF s1(1) _ quiet(2) this] Cons.prems(2) obtain N where
      N: "N \<subseteq> fst ` set d" "log_ok s'"
      "\<forall>n. log_lines s' n = log_lines s1 n @ (if n \<in> N then map JsonLine (entries_for d n) else [])"
      "writes_fine fates \<longrightarrow> (\<exists>q. r = Inr q)" "(\<exists>q. r = Inr q) \<longrightarrow> N = fst ` set d"
      by auto
    have "log_lines s' n = log_lines s n @ (if n \<in> insert name N then map JsonLine (entries_for (e # d) n) else [])" for n
      using N(3) s1(2) here there none by (cases "n = name") auto
    with N show ?thesis by (intro exI [of _ "insert name N"]) (auto simp: e)
  qed
qed

lemma append_human_view: "append_human fate name ls s = (r, s') \<Longrightarrow> es_files s' = es_files s \<and> (fate = WriteOk \<longrightarrow> r = Inr ())"
  by (auto simp: append_human_def Let_def split: write_fate.splits)

lemma write_human_view: "write_human fates i d s = (r, s') \<Longrightarrow> es_files s' = es_files s \<and> (writes_fine fates \<longrightarrow> r = Inr ())"
proof (induction d arbitrary: i s)
  case (Cons e d)
  obtain name ls where e: "e = (name, ls)" by fastforce
  obtain r1 s1 where a: "append_human (fates i) name ls s = (r1, s1)" by fastforce
  from append_human_view [OF a] Cons.IH [of "Suc i" s1] Cons.prems a show ?case
    by (cases r1) (auto simp: e writes_fine_def)
qed simp

section \<open>Appending a batch\<close>

lemma log_lines_files: "es_files s' = es_files s \<Longrightarrow> log_lines s' = log_lines s \<and> log_ok s' = log_ok s"
  by (simp add: log_lines_def log_ok_def fun_eq_iff)

lemma entries_keys: "entries_for d n \<noteq> [] \<Longrightarrow> n \<in> fst ` set d"
proof -
  assume "entries_for d n \<noteq> []"
  then have "dict_has d n" by (auto simp: entries_for_def dict_has_get split: option.splits)
  then show ?thesis by (simp add: dict_has_keys)
qed

lemma fresh_subset: "set (fresh_events S es) \<subseteq> set es"
  by (induction S es rule: fresh_events.induct) auto

text \<open>A batch, whatever the fates of its writes: for some files, all of them when nothing
  fails, the new events of the file are appended; the others are as before.\<close>

lemma append_many_view:
  assumes "log_ok s" "list_all dated es" "list_all event_filled es" "append_many fates es s = (r, s')"
  shows "\<exists>N res. r = Inr res \<and> log_ok s'
     \<and> (\<forall>n. log_view s' n = log_view s n @ (if n \<in> N then map reread_event (filter (\<lambda>e. file_of e = n) (fresh_events (log_ids s) es)) else []))
     \<and> (writes_fine fates \<longrightarrow> ea_accepted res) \<and> (ea_accepted res \<longrightarrow> N = UNIV)"
proof -
  obtain ids where ids: "event_ids s = Inr ids" "set ids = log_ids s" using event_ids_ok [OF assms(1)] by blast
  let ?b0 = "\<lparr>b_ids = ids, b_prepared = [], b_human = []\<rparr>"
  let ?new = "\<lambda>n. filter (\<lambda>e. file_of e = n) (fresh_events (log_ids s) es)"
  from prepare_batch_ok [OF assms(2), of ?b0] obtain b where
    b: "prepare_batch es ?b0 = Inr b" "distinct (map fst (b_prepared b))"
    "\<forall>n. entries_for (b_prepared b) n = map event_json (?new n)"
    by (auto simp: ids(2) entries_for_def)
  have filled: "\<forall>e \<in> set (?new n). event_filled e" for n
    using assms(3) fresh_subset [of "log_ids s" es] by (auto simp: list_all_iff)
  have quiet: "quiet_entries (b_prepared b)"
    unfolding quiet_entries_def using b(3) filled written_line_quiet by (auto simp: list_all_iff simp del: line_quiet.simps)
  have parsed: "List.map_filter line_event (map JsonLine (entries_for (b_prepared b) n)) = map reread_event (?new n)" for n
  proof -
    have "List.map_filter line_event (map (JsonLine \<circ> event_json) xs) = map reread_event xs" if "\<forall>e \<in> set xs. event_filled e" for xs
      using that by (induction xs) (simp_all add: map_filter_simps written_line_quiet del: line_event.simps)
    from this [OF filled] b(3) show ?thesis by simp
  qed
  obtain q s1 where w: "write_jsonl fates 0 (b_prepared b) None s = (q, s1)" by fastforce
  from write_jsonl_effect [OF assms(1) b(2) quiet w] obtain N where
    N: "N \<subseteq> fst ` set (b_prepared b)" "log_ok s1"
    "\<forall>n. log_lines s1 n = log_lines s n @ (if n \<in> N then map JsonLine (entries_for (b_prepared b) n) else [])"
    "writes_fine fates \<longrightarrow> (\<exists>p. q = Inr p)" "(\<exists>p. q = Inr p) \<longrightarrow> N = fst ` set (b_prepared b)" by blast
  let ?N = "if N = fst ` set (b_prepared b) then UNIV else N"
  have view1: "log_view s1 n = log_view s n @ (if n \<in> ?N then map reread_event (?new n) else [])" for n
  proof -
    have "?new n = []" if "n \<notin> fst ` set (b_prepared b)"
      using that entries_keys [of "b_prepared b" n] b(3) by auto
    then show ?thesis using N(1,3) parsed [of n] by (auto simp: log_view_def map_filter_append map_filter_simps)
  qed
  show ?thesis
  proof (cases q)
    case (Inl x)
    have "x = OSErr"
    proof -
      have "write_jsonl fates i d p t = (Inl x, t') \<Longrightarrow> x = OSErr" for i d p t t'
      proof (induction d arbitrary: i p t)
        case (Cons e d)
        obtain name js where e: "e = (name, js)" by fastforce
        obtain r1 t1 where a: "append_jsonl (fates i) name js t = (r1, t1)" by fastforce
        show ?case
        proof (cases r1)
          case (Inl y)
          then have "y = OSErr" using a by (auto simp: append_jsonl_def Let_def split: if_splits)
          with Cons.prems a Inl show ?thesis by (simp add: e)
        next
          case (Inr u)
          with Cons a show ?thesis by (simp add: e)
        qed
      qed simp
      from this [of 0 "b_prepared b" None s s1] w Inl show ?thesis by simp
    qed
    then have "s' = s1" "r = Inr (append_failed ''Cannot append event batch: '' s)"
      using assms(4) ids b(1) w Inl by (simp_all add: append_many_def append_many_body_def guard_append_def caught_append_def)
    with N view1 Inl show ?thesis
      by (intro exI [of _ ?N] exI [of _ "append_failed ''Cannot append event batch: '' s"])
        (auto simp: append_failed_def ea_accepted_def)
  next
    case (Inr p)
    then have univ: "?N = UNIV" using N(5) by auto
    obtain u s2 where h: "write_human fates (length (b_prepared b)) (b_human b) s1 = (u, s2)" by fastforce
    note hv = write_human_view [OF h]
    then have ll: "log_lines s2 = log_lines s1" "log_ok s2" using log_lines_files [of s2 s1] N(2) by auto
    show ?thesis
    proof (cases u)
      case (Inl x)
      have "x = OSErr"
      proof -
        have "write_human fates i d t = (Inl x, t') \<Longrightarrow> x = OSErr" for i d t t'
          by (induction d arbitrary: i t) (auto simp: append_human_def Let_def split: write_fate.splits prod.splits sum.splits)
        with h Inl show ?thesis by blast
      qed
      then have "s' = s2" "r = Inr (append_failed ''Cannot append event batch: '' s)"
        using assms(4) ids b(1) w Inr h Inl by (simp_all add: append_many_def append_many_body_def guard_append_def caught_append_def)
      with univ view1 ll Inl hv show ?thesis
        by (intro exI [of _ UNIV] exI [of _ "append_failed ''Cannot append event batch: '' s"])
          (auto simp: log_view_def append_failed_def ea_accepted_def)
    next
      case hr: (Inr v)
      then have "s' = s2" "r = Inr \<lparr>ea_path = p, ea_error = None\<rparr>"
        using assms(4) ids b(1) w Inr h by (simp_all add: append_many_def append_many_body_def guard_append_def)
      with univ view1 ll show ?thesis
        by (intro exI [of _ UNIV] exI [of _ "\<lparr>ea_path = p, ea_error = None\<rparr>"])
          (auto simp: log_view_def ea_accepted_def)
    qed
  qed
qed

section \<open>Appending once, and appending again\<close>

text \<open>
  C19. A batch of dated, filled events whose writes succeed is accepted, and each log file then
  holds what it held, followed in order by exactly the events of its date whose id was not in
  the log, each id once: an event already logged is not logged again.
\<close>

theorem append_many_exact:
  assumes "log_ok s" "list_all dated es" "list_all event_filled es" "writes_fine fates"
    and "append_many fates es s = (r, s')"
  shows "(\<exists>res. r = Inr res \<and> ea_accepted res) \<and> log_ok s'
     \<and> (\<forall>n. log_view s' n = log_view s n @ map reread_event (filter (\<lambda>e. file_of e = n) (fresh_events (log_ids s) es)))"
  using append_many_view [OF assms(1-3,5)] assms(4) by (metis UNIV_I)

definition empty_log :: event_store where
  "empty_log = \<lparr>es_root = ''/events'', es_files = fmempty, es_human = fmempty\<rparr>"

lemma empty_log_facts [simp]: "log_ok empty_log" "log_view empty_log = (\<lambda>_. [])" "log_ids empty_log = {}"
  by (simp_all add: log_ok_def empty_log_def log_view_def log_lines_def lines_of_def log_ids_def map_filter_simps fun_eq_iff)

definition sample_batch :: "event_envelope list" where
  "sample_batch = [sample_event ''e1'' ''2026-01-02'', sample_event ''e2'' ''2026-01-03'', sample_event ''e1'' ''2026-01-02'']"

lemma sample_batch_facts:
  "list_all dated sample_batch" "list_all event_filled sample_batch"
  "filter (\<lambda>e. file_of e = ''2026-01-02.jsonl'') (fresh_events {} sample_batch) = [sample_event ''e1'' ''2026-01-02'']"
  by code_simp+

theorem append_many_exact_witness:
  "\<exists>r s'. append_many (\<lambda>_. WriteOk) sample_batch empty_log = (r, s')
     \<and> log_view s' ''2026-01-02.jsonl'' = [reread_event (sample_event ''e1'' ''2026-01-02'')]"
proof -
  obtain r s' where a: "append_many (\<lambda>_. WriteOk) sample_batch empty_log = (r, s')" by fastforce
  from append_many_exact [OF _ sample_batch_facts(1,2) _ a] have
    "log_view s' ''2026-01-02.jsonl'' = map reread_event (filter (\<lambda>e. file_of e = ''2026-01-02.jsonl'') (fresh_events {} sample_batch))"
    by (simp add: writes_fine_def)
  with a show ?thesis by (simp add: sample_batch_facts(3))
qed

lemma log_ids_extended:
  assumes "\<forall>n. log_view s1 n = log_view s n @ (if n \<in> N then map reread_event (filter (\<lambda>e. file_of e = n) F) else [])"
  shows "log_ids s1 = log_ids s \<union> ev_event_id ` {e \<in> set F. file_of e \<in> N}"
proof (rule set_eqI)
  fix i
  have mem: "i \<in> log_ids t \<longleftrightarrow> (\<exists>n e. e \<in> set (log_view t n) \<and> ev_event_id e = i)" for t
    by (auto simp: log_ids_def)
  have "(\<exists>n e. e \<in> set (log_view s1 n) \<and> ev_event_id e = i)
      \<longleftrightarrow> (\<exists>n e. e \<in> set (log_view s n) \<and> ev_event_id e = i) \<or> (\<exists>e \<in> set F. file_of e \<in> N \<and> ev_event_id e = i)"
    unfolding assms [rule_format] by (auto split: if_splits) fastforce+
  moreover have "i \<in> ev_event_id ` {e \<in> set F. file_of e \<in> N} \<longleftrightarrow> (\<exists>e \<in> set F. file_of e \<in> N \<and> ev_event_id e = i)"
    by auto
  ultimately show "i \<in> log_ids s1 \<longleftrightarrow> i \<in> log_ids s \<union> ev_event_id ` {e \<in> set F. file_of e \<in> N}"
    unfolding Un_iff mem by (simp only:)
qed

lemma fresh_ids: "ev_event_id ` set (fresh_events S es) = ev_event_id ` set es - S"
  by (induction S es rule: fresh_events.induct) auto

lemma fresh_after_part:
  assumes "A = ev_event_id ` {e \<in> set (fresh_events S es). file_of e \<in> N}"
  shows "fresh_events (S \<union> A) es = filter (\<lambda>e. file_of e \<notin> N) (fresh_events S es)"
  using assms
proof (induction S es arbitrary: A rule: fresh_events.induct)
  case (2 S e es)
  show ?case
  proof (cases "ev_event_id e \<in> S")
    case True
    with 2 show ?thesis by simp
  next
    case False
    let ?i = "ev_event_id e"
    let ?A = "ev_event_id ` {e \<in> set (fresh_events (insert ?i S) es). file_of e \<in> N}"
    have ih: "fresh_events (insert ?i S \<union> ?A) es = filter (\<lambda>e. file_of e \<notin> N) (fresh_events (insert ?i S) es)"
      using 2(2) [OF False, of ?A] by simp
    have notin: "?i \<notin> ?A" using fresh_ids [of "insert ?i S" es] by blast
    have A: "A = (if file_of e \<in> N then insert ?i ?A else ?A)" using 2(3) False by auto
    show ?thesis
    proof (cases "file_of e \<in> N")
      case True
      then have "S \<union> A = insert ?i S \<union> ?A" using A by auto
      with ih True False show ?thesis using A by simp
    next
      case nf: False
      then have "insert ?i (S \<union> A) = insert ?i S \<union> ?A" using A by auto
      with ih nf False notin A show ?thesis by simp
    qed
  qed
qed simp



end
