(* ===== verification/Journals.thy ===== *)
theory Journals
  imports EventFacts
begin

text \<open>
  \<open>runtime/events.py\<close>, second half: the transaction journals.  The directory is a finite map
  from file stem to a JSON value or an unreadable file; a stem is a single path component, so
  a journal id that is none is refused before anything is written.  The text of a caught
  exception inside an error message is the parameter \<open>exc\<close>.
\<close>

section \<open>The store\<close>

datatype journal_file = JournalGarbled | JournalJson json

record journal_store =
  jns_root :: string
  jns_files :: "(string, journal_file) fmap"

record journal_write_result =
  jw_path :: "string option"
  jw_record :: "transaction_journal option"
  jw_error :: "domain_error option"

definition jw_accepted :: "journal_write_result \<Rightarrow> bool" where
  "jw_accepted r \<longleftrightarrow> jw_error r = None"

definition safe_stem :: "string \<Rightarrow> pyexc + string" where
  "safe_stem v = (if v = [] \<or> v = ''.'' \<or> v = ''..'' \<or> CHR ''/'' \<in> set v \<or> char_of (92 :: nat) \<in> set v
     then Inl ValueErr else Inr v)"

section \<open>Records on disk\<close>

definition jn_status_value :: "journal_status + string \<Rightarrow> string" where
  "jn_status_value st = (case st of Inl s \<Rightarrow> journal_status_value s | Inr t \<Rightarrow> t)"

definition journal_status_of :: "string \<Rightarrow> journal_status option" where
  "journal_status_of t = (if t = ''prepared'' then Some J_PREPARED else if t = ''committed'' then Some J_COMMITTED
     else if t = ''failed'' then Some J_FAILED else None)"

definition error_dict :: "string \<Rightarrow> domain_error \<Rightarrow> meta" where
  "error_dict exc e = fmap_of_list [(''code'', JStr (err_code e)), (''message'', JStr (msg_text exc (err_message e))),
     (''location'', opt_json (err_location e))]"

definition journal_to_dict :: "string \<Rightarrow> transaction_journal \<Rightarrow> meta" where
  "journal_to_dict exc r =
    (let base = fmap_of_list
       [(''journal_id'', JStr (jn_journal_id r)), (''project_id'', JStr (jn_project_id r)),
        (''started_at'', JStr (jn_started_at r)), (''effects'', JList (map JObj (jn_effects r))),
        (''events'', JList (map (JObj \<circ> event_to_dict) (jn_events r))), (''status'', JStr (jn_status_value (jn_status r)))];
         opts = put_opt ''completed_at'' (jn_completed_at r) (put_opt ''transition_id'' (jn_transition_id r)
           (put_opt ''task_id'' (jn_task_id r) base));
         with_error = (case jn_error r of None \<Rightarrow> opts | Some e \<Rightarrow> fmupd ''error'' (JObj (error_dict exc e)) opts)
     in if jn_context r \<noteq> fmempty then fmupd ''context'' (JObj (jn_context r)) with_error else with_error)"

definition as_object :: "json \<Rightarrow> pyexc + meta" where
  "as_object j = (case j of JObj m \<Rightarrow> Inr m | _ \<Rightarrow> Inl ValueErr)"

definition as_list :: "json \<Rightarrow> pyexc + json list" where
  "as_list j = (case j of JList xs \<Rightarrow> Inr xs | _ \<Rightarrow> Inl ValueErr)"

definition read_error :: "json option \<Rightarrow> pyexc + domain_error option" where
  "read_error v = (case v of
      Some (JObj m) \<Rightarrow> bind_sum (required_string m ''code'') (\<lambda>c. bind_sum (required_string m ''message'') (\<lambda>t.
        Inr (Some (derror c [Txt t] (text_or_none (fmlookup m ''location''))))))
    | _ \<Rightarrow> Inr None)"

definition journal_from_dict :: "meta \<Rightarrow> pyexc + transaction_journal" where
  "journal_from_dict p =
     bind_sum (as_list (jget p ''effects'' (JList []))) (\<lambda>effects_raw.
     bind_sum (as_list (jget p ''events'' (JList []))) (\<lambda>events_raw.
     bind_sum (map_sum_list as_object effects_raw) (\<lambda>effects.
     bind_sum (map_sum_list (\<lambda>j. bind_sum (as_object j) event_from_dict) events_raw) (\<lambda>events.
     bind_sum (case journal_status_of (py_str (jget p ''status'' JNull)) of None \<Rightarrow> Inl ValueErr | Some s \<Rightarrow> Inr s) (\<lambda>st.
     bind_sum (read_error (fmlookup p ''error'')) (\<lambda>error.
     bind_sum (as_object (jget p ''context'' (JObj fmempty))) (\<lambda>context.
     bind_sum (required_string p ''journal_id'') (\<lambda>jid.
     bind_sum (required_string p ''project_id'') (\<lambda>pid.
     bind_sum (required_string p ''started_at'') (\<lambda>started.
     Inr \<lparr>jn_journal_id = jid, jn_project_id = pid, jn_started_at = started, jn_effects = effects, jn_events = events,
       jn_status = Inl st, jn_task_id = text_or_none (fmlookup p ''task_id''),
       jn_transition_id = text_or_none (fmlookup p ''transition_id''),
       jn_completed_at = text_or_none (fmlookup p ''completed_at''), jn_error = error, jn_context = context\<rparr>))))))))))"

section \<open>Operations\<close>

definition write_journal :: "string \<Rightarrow> write_fate \<Rightarrow> transaction_journal \<Rightarrow> journal_store \<Rightarrow> journal_write_result \<times> journal_store" where
  "write_journal exc fate r s =
     (let failed = \<lparr>jw_path = None, jw_record = None, jw_error = Some (derror ''journal.write_failed''
            [Txt ''Cannot write transaction journal: '', ExcText] (Some (jns_root s)))\<rparr>
      in case safe_stem (jn_journal_id r) of
          Inl _ \<Rightarrow> (failed, s)
        | Inr stem \<Rightarrow>
            let written = s\<lparr>jns_files := fmupd stem (JournalJson (JObj (journal_to_dict exc r))) (jns_files s)\<rparr>
            in (case fate of
                  WriteOk \<Rightarrow> (\<lparr>jw_path = Some (jns_root s @ ''/'' @ stem @ ''.json''), jw_record = Some r, jw_error = None\<rparr>, written)
                | WriteFails \<Rightarrow> (failed, s)
                | SyncFails \<Rightarrow> (failed, written)))"

definition prepare_journal :: "string \<Rightarrow> string \<Rightarrow> string \<Rightarrow> write_fate \<Rightarrow> string option \<Rightarrow> string \<Rightarrow> meta list \<Rightarrow> event_envelope list
    \<Rightarrow> string option \<Rightarrow> string option \<Rightarrow> meta \<Rightarrow> journal_store \<Rightarrow> journal_write_result \<times> journal_store" where
  "prepare_journal exc ulid now fate jid pid effects events tid trid ctx s = write_journal exc fate
     \<lparr>jn_journal_id = the (py_or jid (Some ulid)), jn_project_id = pid, jn_started_at = now, jn_effects = effects,
      jn_events = events, jn_status = Inl J_PREPARED, jn_task_id = tid, jn_transition_id = trid,
      jn_completed_at = None, jn_error = None, jn_context = ctx\<rparr> s"

definition commit_journal :: "string \<Rightarrow> string \<Rightarrow> write_fate \<Rightarrow> transaction_journal \<Rightarrow> journal_store \<Rightarrow> journal_write_result \<times> journal_store" where
  "commit_journal exc now fate r s = write_journal exc fate
     (r\<lparr>jn_status := Inl J_COMMITTED, jn_completed_at := Some now, jn_error := None\<rparr>) s"

definition fail_journal :: "string \<Rightarrow> string \<Rightarrow> write_fate \<Rightarrow> transaction_journal \<Rightarrow> domain_error \<Rightarrow> journal_store \<Rightarrow> journal_write_result \<times> journal_store" where
  "fail_journal exc now fate r e s = write_journal exc fate
     (r\<lparr>jn_status := Inl J_FAILED, jn_completed_at := Some now, jn_error := Some e\<rparr>) s"

definition read_journal :: "journal_file \<Rightarrow> pyexc + transaction_journal" where
  "read_journal f = (case f of JournalGarbled \<Rightarrow> Inl ValueErr
     | JournalJson j \<Rightarrow> (case j of JObj m \<Rightarrow> journal_from_dict m | _ \<Rightarrow> Inl AttributeErr))"

definition load_journal :: "string \<Rightarrow> journal_store \<Rightarrow> pyexc + transaction_journal" where
  "load_journal jid s = bind_sum (safe_stem jid) (\<lambda>stem. case fmlookup (jns_files s) stem of
     None \<Rightarrow> Inl OSErr | Some f \<Rightarrow> read_journal f)"

definition iter_journals :: "journal_status option \<Rightarrow> journal_store \<Rightarrow> pyexc + transaction_journal list" where
  "iter_journals expected s = bind_sum (map_sum_list (read_journal \<circ> snd) (fmap_entries (jns_files s)))
     (\<lambda>rs. Inr (filter (\<lambda>r. expected = None \<or> Some (jn_status r) = map_option Inl expected) rs))"

definition list_incomplete :: "journal_store \<Rightarrow> pyexc + transaction_journal list" where
  "list_incomplete s = iter_journals (Some J_PREPARED) s"

section \<open>Round trip\<close>

definition error_filled :: "string \<Rightarrow> domain_error \<Rightarrow> bool" where
  "error_filled exc e \<longleftrightarrow> err_code e \<noteq> [] \<and> msg_text exc (err_message e) \<noteq> []"

definition journal_filled :: "string \<Rightarrow> transaction_journal \<Rightarrow> bool" where
  "journal_filled exc r \<longleftrightarrow> jn_journal_id r \<noteq> [] \<and> jn_project_id r \<noteq> [] \<and> jn_started_at r \<noteq> []
     \<and> list_all event_filled (jn_events r) \<and> (\<exists>st. jn_status r = Inl st)
     \<and> (case jn_error r of None \<Rightarrow> True | Some e \<Rightarrow> error_filled exc e)"

definition reread_error :: "string \<Rightarrow> domain_error \<Rightarrow> domain_error" where
  "reread_error exc e = derror (err_code e) [Txt (msg_text exc (err_message e))] (drop_empty (err_location e))"

definition reread_journal :: "string \<Rightarrow> transaction_journal \<Rightarrow> transaction_journal" where
  "reread_journal exc r = r\<lparr>jn_events := map reread_event (jn_events r), jn_task_id := drop_empty (jn_task_id r),
     jn_transition_id := drop_empty (jn_transition_id r), jn_completed_at := drop_empty (jn_completed_at r),
     jn_error := map_option (reread_error exc) (jn_error r)\<rparr>"

lemma journal_status_of_value [simp]: "journal_status_of (journal_status_value s) = Some s"
  by (cases s) (simp_all add: journal_status_of_def)

lemma text_or_none_opt_json: "text_or_none (Some (opt_json v)) = drop_empty v"
  by (cases v) (auto simp: text_or_none_def drop_empty_def opt_json_def)

lemma read_error_dict: "error_filled exc e \<Longrightarrow> read_error (Some (JObj (error_dict exc e))) = Inr (Some (reread_error exc e))"
  by (simp add: read_error_def error_dict_def required_string_def fmlookup_of_list error_filled_def reread_error_def
      text_or_none_opt_json del: fmap_of_list_simps)

lemma journal_dict_lookup:
  "fmlookup (journal_to_dict exc r) ''journal_id'' = Some (JStr (jn_journal_id r))"
  "fmlookup (journal_to_dict exc r) ''project_id'' = Some (JStr (jn_project_id r))"
  "fmlookup (journal_to_dict exc r) ''started_at'' = Some (JStr (jn_started_at r))"
  "fmlookup (journal_to_dict exc r) ''effects'' = Some (JList (map JObj (jn_effects r)))"
  "fmlookup (journal_to_dict exc r) ''events'' = Some (JList (map (JObj \<circ> event_to_dict) (jn_events r)))"
  "fmlookup (journal_to_dict exc r) ''status'' = Some (JStr (jn_status_value (jn_status r)))"
  "fmlookup (journal_to_dict exc r) ''task_id'' = map_option JStr (jn_task_id r)"
  "fmlookup (journal_to_dict exc r) ''transition_id'' = map_option JStr (jn_transition_id r)"
  "fmlookup (journal_to_dict exc r) ''completed_at'' = map_option JStr (jn_completed_at r)"
  "fmlookup (journal_to_dict exc r) ''error'' = map_option (JObj \<circ> error_dict exc) (jn_error r)"
  "fmlookup (journal_to_dict exc r) ''context'' = (if jn_context r \<noteq> fmempty then Some (JObj (jn_context r)) else None)"
  by (cases "jn_error r"; simp add: journal_to_dict_def Let_def put_opt_lookup fmlookup_of_list put_opt_none
      del: not_None_eq fmap_of_list_simps)+

lemma journal_roundtrip:
  assumes "journal_filled exc r"
  shows "journal_from_dict (journal_to_dict exc r) = Inr (reread_journal exc r)"
proof -
  obtain st where st: "jn_status r = Inl st" using assms by (auto simp: journal_filled_def)
  have effects: "map_sum_list as_object (map JObj xs) = Inr xs" for xs
    by (induction xs) (simp_all add: as_object_def)
  have events: "map_sum_list (\<lambda>j. bind_sum (as_object j) event_from_dict) (map (JObj \<circ> event_to_dict) (jn_events r))
      = Inr (map reread_event (jn_events r))"
  proof -
    have "map_sum_list (\<lambda>j. bind_sum (as_object j) event_from_dict) (map (JObj \<circ> event_to_dict) xs) = Inr (map reread_event xs)"
      if "list_all event_filled xs" for xs
      using that by (induction xs) (simp_all add: as_object_def event_roundtrip)
    then show ?thesis using assms by (simp add: journal_filled_def)
  qed
  have err: "read_error (map_option (JObj \<circ> error_dict exc) (jn_error r)) = Inr (map_option (reread_error exc) (jn_error r))"
    using assms by (cases "jn_error r") (simp_all add: journal_filled_def read_error_dict, simp add: read_error_def)
  show ?thesis
    using assms st
    by (simp add: journal_from_dict_def journal_dict_lookup jget_def as_list_def effects events err
        text_or_none_put required_string_def journal_filled_def jn_status_value_def)
      (simp add: as_object_def reread_journal_def)
qed

section \<open>The journal protocol\<close>

definition journal_view :: "journal_store \<Rightarrow> string \<Rightarrow> transaction_journal option" where
  "journal_view s k = (case fmlookup (jns_files s) k of None \<Rightarrow> None
     | Some f \<Rightarrow> (case read_journal f of Inr r \<Rightarrow> Some r | Inl _ \<Rightarrow> None))"

definition journals_ok :: "journal_store \<Rightarrow> bool" where
  "journals_ok s \<longleftrightarrow> (\<forall>k f. fmlookup (jns_files s) k = Some f \<longrightarrow> (\<exists>r. read_journal f = Inr r \<and> jn_journal_id r = k))"

definition safe_id :: "string \<Rightarrow> bool" where
  "safe_id v \<longleftrightarrow> safe_stem v = Inr v"

lemma reread_journal_frame [simp]:
  "jn_journal_id (reread_journal exc r) = jn_journal_id r" "jn_status (reread_journal exc r) = jn_status r"
  by (simp_all add: reread_journal_def)

lemma write_journal_view:
  assumes "journals_ok s" "journal_filled exc r" "safe_id (jn_journal_id r)" "write_journal exc fate r s = (res, s')"
  shows "journals_ok s' \<and> (s' = s \<and> \<not> jw_accepted res \<or> journal_view s' = (journal_view s)(jn_journal_id r \<mapsto> reread_journal exc r))
     \<and> (fate = WriteOk \<longrightarrow> jw_accepted res \<and> jw_record res = Some r) \<and> (jw_accepted res \<longrightarrow> fate = WriteOk)"
proof -
  let ?w = "s\<lparr>jns_files := fmupd (jn_journal_id r) (JournalJson (JObj (journal_to_dict exc r))) (jns_files s)\<rparr>"
  have rd: "read_journal (JournalJson (JObj (journal_to_dict exc r))) = Inr (reread_journal exc r)"
    by (simp add: read_journal_def journal_roundtrip [OF assms(2)])
  have "journals_ok ?w" using assms(1) rd by (auto simp: journals_ok_def)
  moreover have "journal_view ?w = (journal_view s)(jn_journal_id r \<mapsto> reread_journal exc r)"
    by (rule ext) (simp add: journal_view_def rd)
  ultimately show ?thesis
    using assms(1,3,4) by (cases fate) (auto simp: write_journal_def Let_def safe_id_def jw_accepted_def)
qed

lemma journal_view_Some: "journal_view s k = Some r \<longleftrightarrow> (\<exists>f. fmlookup (jns_files s) k = Some f \<and> read_journal f = Inr r)"
proof (cases "fmlookup (jns_files s) k")
  case None
  then show ?thesis by (simp add: journal_view_def)
next
  case (Some f)
  then show ?thesis by (cases "read_journal f") (simp_all add: journal_view_def)
qed

lemma iter_journals_ok:
  assumes "journals_ok s"
  shows "\<exists>rs. iter_journals e s = Inr rs \<and> set rs = {r. (\<exists>k. journal_view s k = Some r) \<and> (e = None \<or> Some (jn_status r) = map_option Inl e)}"
proof -
  let ?es = "fmap_entries (jns_files s)"
  have mem: "(k, f) \<in> set ?es \<longleftrightarrow> fmlookup (jns_files s) k = Some f" for k f
    by (auto simp: fmap_entries_def sorted_list_of_fmap_def fmlookup_dom_iff image_iff)
  have rd: "(read_journal \<circ> snd) x = Inr ((projr \<circ> read_journal \<circ> snd) x)" if "x \<in> set ?es" for x
    using that assms mem [of "fst x" "snd x"] unfolding journals_ok_def by fastforce
  then have "map_sum_list (read_journal \<circ> snd) ?es = Inr (map (projr \<circ> read_journal \<circ> snd) ?es)"
    by (rule map_sum_list_map)
  moreover have "r \<in> set (map (projr \<circ> read_journal \<circ> snd) ?es) \<longleftrightarrow> (\<exists>k. journal_view s k = Some r)" for r
  proof
    assume "r \<in> set (map (projr \<circ> read_journal \<circ> snd) ?es)"
    then obtain k f where kf: "(k, f) \<in> set ?es" "r = projr (read_journal f)" by auto
    have "journal_view s k = (case read_journal f of Inr r \<Rightarrow> Some r | Inl _ \<Rightarrow> None)"
      using kf(1) mem by (simp add: journal_view_def)
    with rd [OF kf(1)] kf(2) have "journal_view s k = Some r" by (cases "read_journal f") auto
    then show "\<exists>k. journal_view s k = Some r" by blast
  next
    assume "\<exists>k. journal_view s k = Some r"
    then obtain k f where "fmlookup (jns_files s) k = Some f" "read_journal f = Inr r"
      by (auto simp: journal_view_Some)
    with mem show "r \<in> set (map (projr \<circ> read_journal \<circ> snd) ?es)" by force
  qed
  ultimately show ?thesis by (auto simp: iter_journals_def)
qed

lemma view_journal_id: "journals_ok s \<Longrightarrow> journal_view s k = Some r \<Longrightarrow> jn_journal_id r = k"
  by (fastforce simp: journal_view_Some journals_ok_def)

definition incomplete_ids :: "journal_store \<Rightarrow> string set" where
  "incomplete_ids s = {k. \<exists>r. journal_view s k = Some r \<and> jn_status r = Inl J_PREPARED}"

lemma list_incomplete_ok:
  assumes "journals_ok s"
  shows "\<exists>rs. list_incomplete s = Inr rs \<and> jn_journal_id ` set rs = incomplete_ids s"
proof -
  from iter_journals_ok [OF assms, of "Some J_PREPARED"] obtain rs where
    rs: "list_incomplete s = Inr rs" "set rs = {r. (\<exists>k. journal_view s k = Some r) \<and> jn_status r = Inl J_PREPARED}"
    by (auto simp: list_incomplete_def)
  then have "jn_journal_id ` set rs = incomplete_ids s"
    using view_journal_id [OF assms] unfolding incomplete_ids_def by force
  with rs(1) show ?thesis by blast
qed

text \<open>
  Writing a filled journal under a safe id makes it the one that is loaded under its id, as
  written; the incomplete journals are then those before, without this one, and with it again
  exactly when it was written as prepared.  So a journal is listed for recovery from its
  preparation until it is committed or failed.
\<close>

theorem journal_written:
  assumes "journals_ok s" "journal_filled exc r" "safe_id (jn_journal_id r)" "write_journal exc WriteOk r s = (res, s')"
  shows "jw_accepted res \<and> journals_ok s' \<and> load_journal (jn_journal_id r) s' = Inr (reread_journal exc r)
     \<and> (\<exists>before after. list_incomplete s = Inr before \<and> list_incomplete s' = Inr after
          \<and> jn_journal_id ` set after = (jn_journal_id ` set before - {jn_journal_id r})
              \<union> (if jn_status r = Inl J_PREPARED then {jn_journal_id r} else {}))"
proof -
  from write_journal_view [OF assms] have w: "jw_accepted res" "journals_ok s'"
    "journal_view s' = (journal_view s)(jn_journal_id r \<mapsto> reread_journal exc r)" by auto
  have "journal_view s' (jn_journal_id r) = Some (reread_journal exc r)" by (simp add: w(3))
  then have l: "load_journal (jn_journal_id r) s' = Inr (reread_journal exc r)"
    using assms(3) by (auto simp: load_journal_def safe_id_def journal_view_Some)
  have "incomplete_ids s' = (incomplete_ids s - {jn_journal_id r}) \<union> (if jn_status r = Inl J_PREPARED then {jn_journal_id r} else {})"
    by (auto simp: incomplete_ids_def w(3))
  with w l list_incomplete_ok [OF assms(1)] list_incomplete_ok [OF w(2)] show ?thesis by metis
qed

definition sample_journal :: "journal_status \<Rightarrow> transaction_journal" where
  "sample_journal st = \<lparr>jn_journal_id = ''J1'', jn_project_id = ''p'', jn_started_at = ''1'',
     jn_effects = [fmap_of_list [(''type'', JStr ''move'')]], jn_events = [sample_event ''e1'' ''2026-01-02''],
     jn_status = Inl st, jn_task_id = Some ''T-1'', jn_transition_id = None, jn_completed_at = None,
     jn_error = None, jn_context = fmempty\<rparr>"

definition no_journals :: journal_store where
  "no_journals = \<lparr>jns_root = ''/j'', jns_files = fmempty\<rparr>"

theorem journal_written_witness:
  "\<exists>res s' rs. write_journal [] WriteOk (sample_journal J_PREPARED) no_journals = (res, s')
     \<and> list_incomplete s' = Inr rs \<and> jn_journal_id ` set rs = {''J1''}"
proof -
  have f: "journal_filled [] (sample_journal J_PREPARED)"
    by (simp add: journal_filled_def sample_journal_def event_filled_def sample_event_def etype_value_def)
  have i: "safe_id (jn_journal_id (sample_journal J_PREPARED))"
    by code_simp
  have ok: "journals_ok no_journals" by (simp add: journals_ok_def no_journals_def)
  have none: "list_incomplete no_journals = Inr []" by code_simp
  obtain res s' where w: "write_journal [] WriteOk (sample_journal J_PREPARED) no_journals = (res, s')" by fastforce
  from journal_written [OF ok f i w] none w show ?thesis by (auto simp: sample_journal_def)
qed

end
