(* ===== verification/Transactions.thy ===== *)
theory Transactions
  imports Journals
begin

text \<open>
  \<open>runtime/transactions.py\<close>: a transaction prepares a journal, applies its effects one by
  one, validates the final state, logs its events and commits the journal; whatever fails
  before the commit fails the journal and compensates the applied effects in reverse.  The
  effects, their compensation and the validation are parameters over the type \<open>'w\<close> of the
  world they act on; a raised exception is its text.
\<close>

section \<open>Data\<close>

record effect_result =
  fx_accepted :: bool
  fx_message :: string
  fx_errors :: "domain_error list"

type_synonym 'w effect_run = "'w \<Rightarrow> (string + effect_result) \<times> 'w"

record 'w tx_runtime =
  rt_apply :: "meta \<Rightarrow> 'w effect_run"
  rt_compensate :: "(meta \<Rightarrow> 'w effect_run) option"
  rt_validate :: "'w effect_run option"

record 'w tx_state =
  tx_journals :: journal_store
  tx_events :: event_store
  tx_world :: 'w

record tx_result =
  tr_accepted :: bool
  tr_journal :: "transaction_journal option"
  tr_error :: "domain_error option"

text \<open>What the run meets: the text of an exception of a write, the new identifier, the times
  of start and end, and the fates of the first journal write, of the closing one and of the
  writes of the log.\<close>

record tx_env =
  te_exc :: string
  te_ulid :: string
  te_started :: string
  te_closed :: string
  te_prepare :: write_fate
  te_close :: write_fate
  te_append :: "nat \<Rightarrow> write_fate"

record tx_request =
  tq_project :: string
  tq_effects :: "meta list"
  tq_events :: "event_envelope list"
  tq_journal_id :: "string option"
  tq_task :: "string option"
  tq_transition :: "string option"
  tq_context :: meta

section \<open>Operations\<close>

definition operation_error :: "meta \<Rightarrow> effect_result \<Rightarrow> domain_error" where
  "operation_error e r = (case fx_errors r of
      x # _ \<Rightarrow> x
    | [] \<Rightarrow> derror ''effect.failed''
        (if fx_message r \<noteq> [] then [Txt (fx_message r)] else [Txt ''Effect failed: '', Repr (JObj e)]) None)"

fun compensate_each :: "(meta \<Rightarrow> 'w effect_run) \<Rightarrow> meta list \<Rightarrow> 'w \<Rightarrow> 'w" where
  "compensate_each c [] w = w"
| "compensate_each c (e # es) w = compensate_each c es (snd (c e w))"

definition tx_compensate :: "'w tx_runtime \<Rightarrow> meta list \<Rightarrow> 'w \<Rightarrow> 'w" where
  "tx_compensate rt applied w = (case rt_compensate rt of None \<Rightarrow> w | Some c \<Rightarrow> compensate_each c (rev applied) w)"

text \<open>The loop over the effects: the error that ends it, if any, the effects applied, the world.\<close>

fun run_effects :: "'w tx_runtime \<Rightarrow> meta list \<Rightarrow> meta list \<Rightarrow> 'w \<Rightarrow> domain_error option \<times> meta list \<times> 'w" where
  "run_effects rt [] applied w = (None, applied, w)"
| "run_effects rt (e # es) applied w = (case rt_apply rt e w of
      (Inl text, w') \<Rightarrow> (Some (derror ''effect.exception'' [Txt ''Effect raised exception: '', Txt text] None), applied, w')
    | (Inr r, w') \<Rightarrow>
        if \<not> fx_accepted r then (Some (operation_error e r), applied, w')
        else run_effects rt es (applied @ [e]) w')"

definition final_check :: "'w tx_runtime \<Rightarrow> 'w \<Rightarrow> domain_error option \<times> 'w" where
  "final_check rt w = (case rt_validate rt of
      None \<Rightarrow> (None, w)
    | Some v \<Rightarrow> (case v w of (res, w') \<Rightarrow>
        let r = (case res of Inr r \<Rightarrow> r
              | Inl text \<Rightarrow> \<lparr>fx_accepted = False, fx_message = ''Final validation raised exception: '' @ text, fx_errors = []\<rparr>)
        in if \<not> fx_accepted r
           then (Some (operation_error (fmap_of_list [(''type'', JStr ''validate_final_state'')]) r), w')
           else (None, w')))"

text \<open>The exit of a failed transaction: fail the journal, then compensate.\<close>

definition tx_abort :: "tx_env \<Rightarrow> 'w tx_runtime \<Rightarrow> transaction_journal \<Rightarrow> domain_error \<Rightarrow> meta list \<Rightarrow> 'w tx_state
    \<Rightarrow> tx_result \<times> 'w tx_state" where
  "tx_abort env rt record error applied st =
     (case fail_journal (te_exc env) (te_closed env) (te_close env) record error (tx_journals st) of
       (failed, js) \<Rightarrow> (\<lparr>tr_accepted = False, tr_journal = Some (case jw_record failed of None \<Rightarrow> record | Some r \<Rightarrow> r), tr_error = Some error\<rparr>,
         st\<lparr>tx_journals := js, tx_world := tx_compensate rt applied (tx_world st)\<rparr>))"

definition tx_finish :: "tx_env \<Rightarrow> transaction_journal \<Rightarrow> 'w tx_state \<Rightarrow> tx_result \<times> 'w tx_state" where
  "tx_finish env record st =
     (case commit_journal (te_exc env) (te_closed env) (te_close env) record (tx_journals st) of
       (committed, js) \<Rightarrow>
         (if \<not> jw_accepted committed
          then \<lparr>tr_accepted = False, tr_journal = Some record, tr_error = jw_error committed\<rparr>
          else \<lparr>tr_accepted = True, tr_journal = jw_record committed, tr_error = None\<rparr>,
          st\<lparr>tx_journals := js\<rparr>))"

definition tx_log :: "tx_env \<Rightarrow> 'w tx_runtime \<Rightarrow> transaction_journal \<Rightarrow> event_envelope list \<Rightarrow> meta list \<Rightarrow> 'w tx_state
    \<Rightarrow> (pyexc + tx_result) \<times> 'w tx_state" where
  "tx_log env rt record events applied st = (case append_many (te_append env) events (tx_events st) of
      (Inl x, es) \<Rightarrow> (Inl x, st\<lparr>tx_events := es\<rparr>)
    | (Inr res, es) \<Rightarrow>
        map_prod Inr id
          (if \<not> ea_accepted res
           then tx_abort env rt record (case ea_error res of Some e \<Rightarrow> e | None \<Rightarrow> derror ''event.append_failed'' [Txt ''Event append failed.''] None)
                  applied (st\<lparr>tx_events := es\<rparr>)
           else tx_finish env record (st\<lparr>tx_events := es\<rparr>)))"

definition tx_run :: "tx_env \<Rightarrow> 'w tx_runtime \<Rightarrow> tx_request \<Rightarrow> transaction_journal \<Rightarrow> 'w tx_state
    \<Rightarrow> (pyexc + tx_result) \<times> 'w tx_state" where
  "tx_run env rt q record st = (case run_effects rt (tq_effects q) [] (tx_world st) of
      (Some error, applied, w) \<Rightarrow> map_prod Inr id (tx_abort env rt record error applied (st\<lparr>tx_world := w\<rparr>))
    | (None, applied, w) \<Rightarrow> (case final_check rt w of
        (Some error, w') \<Rightarrow> map_prod Inr id (tx_abort env rt record error applied (st\<lparr>tx_world := w'\<rparr>))
      | (None, w') \<Rightarrow> tx_log env rt record (tq_events q) applied (st\<lparr>tx_world := w'\<rparr>)))"

definition tx_apply :: "tx_env \<Rightarrow> 'w tx_runtime \<Rightarrow> tx_request \<Rightarrow> 'w tx_state \<Rightarrow> (pyexc + tx_result) \<times> 'w tx_state" where
  "tx_apply env rt q st = (case prepare_journal (te_exc env) (te_ulid env) (te_started env) (te_prepare env) (tq_journal_id q)
        (tq_project q) (tq_effects q) (tq_events q) (tq_task q) (tq_transition q) (tq_context q) (tx_journals st) of
      (prepared, js) \<Rightarrow>
        if \<not> jw_accepted prepared
        then (Inr \<lparr>tr_accepted = False, tr_journal = None, tr_error = jw_error prepared\<rparr>, st\<lparr>tx_journals := js\<rparr>)
        else (case jw_record prepared of
            None \<Rightarrow> (Inr \<lparr>tr_accepted = False, tr_journal = None,
              tr_error = Some (derror ''journal.prepare_failed'' [Txt ''Journal prepare returned no record.''] None)\<rparr>,
              st\<lparr>tx_journals := js\<rparr>)
          | Some record \<Rightarrow> tx_run env rt q record (st\<lparr>tx_journals := js\<rparr>)))"

section \<open>The atomic transaction\<close>

definition fx_ok :: "string + effect_result \<Rightarrow> bool" where
  "fx_ok r \<longleftrightarrow> (case r of Inr x \<Rightarrow> fx_accepted x | Inl _ \<Rightarrow> False)"

fun all_effects :: "'w tx_runtime \<Rightarrow> meta list \<Rightarrow> 'w \<Rightarrow> 'w option" where
  "all_effects rt [] w = Some w"
| "all_effects rt (e # es) w = (case rt_apply rt e w of (r, w') \<Rightarrow> if fx_ok r then all_effects rt es w' else None)"

text \<open>The world a transaction is to reach, if its effects and its validation let it.\<close>

definition planned_world :: "'w tx_runtime \<Rightarrow> meta list \<Rightarrow> 'w \<Rightarrow> 'w option" where
  "planned_world rt es w = (case all_effects rt es w of
      None \<Rightarrow> None
    | Some w' \<Rightarrow> (case rt_validate rt of None \<Rightarrow> Some w' | Some v \<Rightarrow> if fx_ok (fst (v w')) then Some w' else None))"

type_synonym log = "string \<Rightarrow> event_envelope list"

definition ids_of_log :: "log \<Rightarrow> string set" where
  "ids_of_log l = {i. \<exists>n. i \<in> ev_event_id ` set (l n)}"

definition log_extend :: "log \<Rightarrow> event_envelope list \<Rightarrow> log" where
  "log_extend l es = (\<lambda>n. l n @ map reread_event (filter (\<lambda>e. file_of e = n) (fresh_events (ids_of_log l) es)))"

text \<open>One atomic step on the world, the log and the journals awaiting recovery.\<close>

definition atomic_tx :: "'w tx_runtime \<Rightarrow> tx_request \<Rightarrow> string \<Rightarrow> 'w \<times> log \<times> string set \<Rightarrow> bool \<times> 'w \<times> log \<times> string set" where
  "atomic_tx rt q jid a = (case a of (w, l, pending) \<Rightarrow>
     (case planned_world rt (tq_effects q) w of
       None \<Rightarrow> (False, w, l, pending - {jid})
     | Some w' \<Rightarrow> (True, w', log_extend l (tq_events q), pending - {jid})))"

definition tx_abs :: "'w tx_state \<Rightarrow> 'w \<times> log \<times> string set" where
  "tx_abs st = (tx_world st, log_view (tx_events st), incomplete_ids (tx_journals st))"

end
