(* ===== verification/TransactionFacts.thy ===== *)
theory TransactionFacts
  imports Transactions
begin

text \<open>
  The transaction against its specification: with writes that succeed it is one atomic step on
  world, log and pending journals; with any failing write the world is still all or nothing.
  The interface of the world is that a compensation undoes its effect and that an effect which
  does not succeed changes nothing.
\<close>

section \<open>The world's contract\<close>

definition errors_filled :: "string \<Rightarrow> string + effect_result \<Rightarrow> bool" where
  "errors_filled exc r \<longleftrightarrow> (case r of Inl _ \<Rightarrow> True | Inr x \<Rightarrow> list_all (error_filled exc) (fx_errors x))"

definition undoes :: "'w tx_runtime \<Rightarrow> bool" where
  "undoes rt \<longleftrightarrow> (\<exists>c. rt_compensate rt = Some c \<and>
     (\<forall>e w. if fx_ok (fst (rt_apply rt e w)) then snd (c e (snd (rt_apply rt e w))) = w else snd (rt_apply rt e w) = w))
     \<and> (\<forall>v w. rt_validate rt = Some v \<longrightarrow> snd (v w) = w)"

definition reports :: "string \<Rightarrow> 'w tx_runtime \<Rightarrow> bool" where
  "reports exc rt \<longleftrightarrow> (\<forall>e w. errors_filled exc (fst (rt_apply rt e w)))
     \<and> (\<forall>v w. rt_validate rt = Some v \<longrightarrow> errors_filled exc (fst (v w)))"

lemma compensate_each_append: "compensate_each c (xs @ ys) w = compensate_each c ys (compensate_each c xs w)"
  by (induction xs arbitrary: w) simp_all

lemma operation_error_filled: "errors_filled exc (Inr r) \<Longrightarrow> error_filled exc (operation_error e r)"
  by (auto simp: errors_filled_def operation_error_def error_filled_def msg_text_def split: list.split)

lemma exception_filled [simp]: "error_filled exc (derror ''effect.exception'' [Txt ''Effect raised exception: '', Txt t] None)"
  by (simp add: error_filled_def msg_text_def)

lemma compensate_last:
  assumes "undoes rt" "rt_apply rt e w = (r, w')"
  shows "fx_ok r \<Longrightarrow> tx_compensate rt (ap @ [e]) w' = tx_compensate rt ap w" "\<not> fx_ok r \<Longrightarrow> w' = w"
  using assms unfolding undoes_def by (auto simp: tx_compensate_def dest: spec [of _ e] split: if_splits) (metis fst_conv snd_conv)+

lemma run_effects_all:
  assumes "all_effects rt es w = Some v"
  shows "run_effects rt es applied w = (None, applied @ es, v)"
  using assms
  by (induction rt es applied w rule: run_effects.induct) (auto simp: fx_ok_def split: prod.splits sum.splits if_splits)

lemma run_effects_stop:
  assumes "all_effects rt es w = None" "undoes rt" "reports exc rt"
  shows "\<exists>e ap w'. run_effects rt es applied w = (Some e, ap, w') \<and> error_filled exc e
     \<and> tx_compensate rt ap w' = tx_compensate rt applied w"
  using assms
proof (induction rt es applied w rule: run_effects.induct)
  case (2 rt e es applied w)
  obtain r w' where a: "rt_apply rt e w = (r, w')" by fastforce
  have filled: "errors_filled exc r" using 2(4) a unfolding reports_def by (metis fst_conv)
  show ?case
  proof (cases "fx_ok r")
    case True
    then obtain x where x: "r = Inr x" "fx_accepted x" by (auto simp: fx_ok_def split: sum.splits)
    have "all_effects rt es w' = None" using 2(2) a True by simp
    from 2(1) [OF a [symmetric] x(1) _ this 2(3,4)] x(2) compensate_last(1) [OF 2(3) a True] a x
    show ?thesis by auto
  next
    case False
    have "w' = w" by (rule compensate_last(2) [OF 2(3) a False])
    moreover from False filled have "\<exists>e'. run_effects rt (e # es) applied w = (Some e', applied, w') \<and> error_filled exc e'"
      using a by (cases r) (auto simp: fx_ok_def operation_error_filled)
    ultimately show ?thesis by blast
  qed
qed simp

lemma final_check_outcome:
  assumes "undoes rt" "reports exc rt" "all_effects rt es w0 = Some w"
  shows "(planned_world rt es w0 = Some w \<and> final_check rt w = (None, w))
     \<or> (planned_world rt es w0 = None \<and> (\<exists>e. final_check rt w = (Some e, w) \<and> error_filled exc e))"
proof (cases "rt_validate rt")
  case None
  then show ?thesis using assms(3) by (simp add: planned_world_def final_check_def)
next
  case (Some v)
  obtain r w' where v: "v w = (r, w')" by fastforce
  have "w' = w" using assms(1) Some v unfolding undoes_def by (metis snd_conv)
  moreover have "errors_filled exc r" using assms(2) Some v unfolding reports_def by (metis fst_conv)
  moreover have "errors_filled exc (Inr \<lparr>fx_accepted = False, fx_message = m, fx_errors = []\<rparr>)" for m
    by (simp add: errors_filled_def)
  ultimately show ?thesis using assms(3) Some v
    by (cases r) (auto simp: planned_world_def final_check_def fx_ok_def Let_def operation_error_filled)
qed

lemma compensate_all:
  assumes "undoes rt" "all_effects rt es w = Some v"
  shows "tx_compensate rt (applied @ es) v = tx_compensate rt applied w"
  using assms(2)
proof (induction es arbitrary: w applied)
  case (Cons e es)
  obtain r w' where a: "rt_apply rt e w = (r, w')" by fastforce
  with Cons.prems have ok: "fx_ok r" "all_effects rt es w' = Some v" by (auto split: if_splits)
  from Cons.IH [OF ok(2), of "applied @ [e]"] compensate_last(1) [OF assms(1) a ok(1)] show ?case by simp
qed simp

lemma compensate_none [simp]: "tx_compensate rt [] w = w"
  by (simp add: tx_compensate_def split: option.split)

section \<open>The journal of a run\<close>

definition tx_journal_id :: "tx_env \<Rightarrow> tx_request \<Rightarrow> string" where
  "tx_journal_id env q = the (py_or (tq_journal_id q) (Some (te_ulid env)))"

definition tx_record :: "tx_env \<Rightarrow> tx_request \<Rightarrow> transaction_journal" where
  "tx_record env q = \<lparr>jn_journal_id = tx_journal_id env q, jn_project_id = tq_project q, jn_started_at = te_started env,
     jn_effects = tq_effects q, jn_events = tq_events q, jn_status = Inl J_PREPARED, jn_task_id = tq_task q,
     jn_transition_id = tq_transition q, jn_completed_at = None, jn_error = None, jn_context = tq_context q\<rparr>"

definition request_ok :: "tx_env \<Rightarrow> tx_request \<Rightarrow> bool" where
  "request_ok env q \<longleftrightarrow> safe_id (tx_journal_id env q) \<and> tx_journal_id env q \<noteq> [] \<and> tq_project q \<noteq> [] \<and> te_started env \<noteq> []
     \<and> list_all dated (tq_events q) \<and> list_all event_filled (tq_events q)"

definition stores_ok :: "'w tx_state \<Rightarrow> bool" where
  "stores_ok st \<longleftrightarrow> journals_ok (tx_journals st) \<and> log_ok (tx_events st)"

lemma tx_record_filled: "request_ok env q \<Longrightarrow> journal_filled exc (tx_record env q) \<and> safe_id (jn_journal_id (tx_record env q))"
  by (simp add: request_ok_def tx_record_def journal_filled_def)

lemma prepare_journal_tx: "prepare_journal (te_exc env) (te_ulid env) (te_started env) fate (tq_journal_id q) (tq_project q)
    (tq_effects q) (tq_events q) (tq_task q) (tq_transition q) (tq_context q) s = write_journal (te_exc env) fate (tx_record env q) s"
  by (simp add: prepare_journal_def tx_record_def tx_journal_id_def)

text \<open>What one journal write does to the journals awaiting recovery.\<close>

lemma write_pending:
  assumes "journals_ok s" "journal_filled exc r" "safe_id (jn_journal_id r)" "write_journal exc fate r s = (res, s')"
  shows "journals_ok s'" "incomplete_ids s' - {jn_journal_id r} = incomplete_ids s - {jn_journal_id r}"
    "fate = WriteOk \<Longrightarrow> jn_journal_id r \<in> incomplete_ids s' \<longleftrightarrow> jn_status r = Inl J_PREPARED"
    "fate = WriteFails \<Longrightarrow> s' = s" "jw_accepted res \<longleftrightarrow> fate = WriteOk" "fate = WriteOk \<Longrightarrow> jw_record res = Some r"
proof -
  note v = write_journal_view [OF assms]
  show "journals_ok s'" using v by blast
  show "incomplete_ids s' - {jn_journal_id r} = incomplete_ids s - {jn_journal_id r}"
    using v by (auto simp: incomplete_ids_def split: if_splits)
  show "fate = WriteOk \<Longrightarrow> jn_journal_id r \<in> incomplete_ids s' \<longleftrightarrow> jn_status r = Inl J_PREPARED"
    using v by (auto simp: incomplete_ids_def)
  show "fate = WriteFails \<Longrightarrow> s' = s"
    using assms(4) by (simp add: write_journal_def Let_def split: sum.splits)
  show "jw_accepted res \<longleftrightarrow> fate = WriteOk" "fate = WriteOk \<Longrightarrow> jw_record res = Some r" using v by blast+
qed

text \<open>The closing write of a run, whichever it is.\<close>

definition closes :: "write_fate \<Rightarrow> string \<Rightarrow> journal_store \<Rightarrow> journal_store \<Rightarrow> bool" where
  "closes fate k s s' \<longleftrightarrow> journals_ok s' \<and> incomplete_ids s' - {k} = incomplete_ids s - {k}
     \<and> (fate = WriteOk \<longrightarrow> k \<notin> incomplete_ids s') \<and> (fate = WriteFails \<longrightarrow> s' = s)"

lemma tx_abort_closes:
  assumes "stores_ok st" "request_ok env q" "error_filled (te_exc env) error"
    and "tx_abort env rt (tx_record env q) error ap st = (res, st')"
  shows "closes (te_close env) (tx_journal_id env q) (tx_journals st) (tx_journals st') \<and> tx_events st' = tx_events st
     \<and> tx_world st' = tx_compensate rt ap (tx_world st) \<and> \<not> tr_accepted res"
proof -
  let ?r = "(tx_record env q)\<lparr>jn_status := Inl J_FAILED, jn_completed_at := Some (te_closed env), jn_error := Some error\<rparr>"
  have id: "jn_journal_id ?r = tx_journal_id env q" by (simp add: tx_record_def)
  have f: "journal_filled (te_exc env) ?r"
    using tx_record_filled [OF assms(2), of "te_exc env"] assms(3) by (simp add: journal_filled_def)
  have i: "safe_id (jn_journal_id ?r)" using assms(2) by (simp add: id request_ok_def)
  obtain w js where w: "write_journal (te_exc env) (te_close env) ?r (tx_journals st) = (w, js)" by fastforce
  have "journals_ok (tx_journals st)" using assms(1) by (simp add: stores_ok_def)
  from write_pending [OF this f i w] have "closes (te_close env) (tx_journal_id env q) (tx_journals st) js"
    unfolding closes_def id by simp
  then show ?thesis using assms(4) w by (auto simp: tx_abort_def fail_journal_def)
qed

lemma tx_finish_closes:
  assumes "stores_ok st" "request_ok env q" "tx_finish env (tx_record env q) st = (res, st')"
  shows "closes (te_close env) (tx_journal_id env q) (tx_journals st) (tx_journals st') \<and> tx_events st' = tx_events st
     \<and> tx_world st' = tx_world st \<and> (tr_accepted res \<longleftrightarrow> te_close env = WriteOk)"
proof -
  let ?r = "(tx_record env q)\<lparr>jn_status := Inl J_COMMITTED, jn_completed_at := Some (te_closed env), jn_error := None\<rparr>"
  have id: "jn_journal_id ?r = tx_journal_id env q" by (simp add: tx_record_def)
  have f: "journal_filled (te_exc env) ?r"
    using tx_record_filled [OF assms(2), of "te_exc env"] by (simp add: journal_filled_def)
  have i: "safe_id (jn_journal_id ?r)" using assms(2) by (simp add: id request_ok_def)
  obtain w js where w: "write_journal (te_exc env) (te_close env) ?r (tx_journals st) = (w, js)" by fastforce
  have "journals_ok (tx_journals st)" using assms(1) by (simp add: stores_ok_def)
  note p = write_pending [OF this f i w]
  have "closes (te_close env) (tx_journal_id env q) (tx_journals st) js"
    using p(1-4) unfolding closes_def id by simp
  then show ?thesis using assms(3) w p(5) by (auto simp: tx_finish_def commit_journal_def)
qed

section \<open>All outcomes of a run\<close>

lemma log_extend_view: "log_extend (log_view s) es n
    = log_view s n @ map reread_event (filter (\<lambda>e. file_of e = n) (fresh_events (log_ids s) es))"
  by (simp add: log_extend_def ids_of_log_def log_ids_def)

text \<open>Given up: the world is as before.  Done: it is the planned one and every event is logged.\<close>

definition given_up :: "'w tx_runtime \<Rightarrow> tx_request \<Rightarrow> 'w tx_state \<Rightarrow> bool \<Rightarrow> 'w tx_state \<Rightarrow> bool" where
  "given_up rt q st acc st' \<longleftrightarrow> \<not> acc \<and> tx_world st' = tx_world st
     \<and> (\<forall>n. log_view (tx_events st') n = log_view (tx_events st) n
          \<or> planned_world rt (tq_effects q) (tx_world st) \<noteq> None \<and> log_view (tx_events st') n = log_extend (log_view (tx_events st)) (tq_events q) n)"

definition went_through :: "'w tx_runtime \<Rightarrow> tx_request \<Rightarrow> 'w tx_state \<Rightarrow> 'w tx_state \<Rightarrow> bool" where
  "went_through rt q st st' \<longleftrightarrow> planned_world rt (tq_effects q) (tx_world st) = Some (tx_world st')
     \<and> log_view (tx_events st') = log_extend (log_view (tx_events st)) (tq_events q)"

lemma tx_run_outcome:
  assumes "stores_ok st" "request_ok env q" "undoes rt" "reports (te_exc env) rt"
    and "tx_run env rt q (tx_record env q) st = (r, st')"
  shows "\<exists>res. r = Inr res \<and> log_ok (tx_events st') \<and> closes (te_close env) (tx_journal_id env q) (tx_journals st) (tx_journals st')
     \<and> ((given_up rt q st (tr_accepted res) st'
           \<and> (planned_world rt (tq_effects q) (tx_world st) = None \<longrightarrow> tx_events st' = tx_events st)
           \<and> (writes_fine (te_append env) \<longrightarrow> planned_world rt (tq_effects q) (tx_world st) = None))
        \<or> (went_through rt q st st' \<and> (tr_accepted res \<longleftrightarrow> te_close env = WriteOk)))"
proof -
  let ?es = "tq_effects q" and ?w = "tx_world st"
  have lg: "log_ok (tx_events st)" using assms(1) by (simp add: stores_ok_def)
  have stop: ?thesis if p: "planned_world rt ?es ?w = None" and e: "error_filled (te_exc env) e"
      and c: "tx_compensate rt ap w = ?w"
      and t: "tx_run env rt q (tx_record env q) st = map_prod Inr id (tx_abort env rt (tx_record env q) e ap (st\<lparr>tx_world := w\<rparr>))" for e ap w
  proof -
    obtain res s2 where a: "tx_abort env rt (tx_record env q) e ap (st\<lparr>tx_world := w\<rparr>) = (res, s2)" by fastforce
    have "stores_ok (st\<lparr>tx_world := w\<rparr>)" using assms(1) by (simp add: stores_ok_def)
    from tx_abort_closes [OF this assms(2) e a] assms(5) t a p c lg show ?thesis
      by (intro exI [of _ res]) (simp add: given_up_def)
  qed
  show ?thesis
  proof (cases "all_effects rt ?es ?w")
    case None
    then have p: "planned_world rt ?es ?w = None" by (simp add: planned_world_def)
    from run_effects_stop [OF None assms(3,4), of "[]"] obtain e ap w where
      "run_effects rt ?es [] ?w = (Some e, ap, w)" "error_filled (te_exc env) e" "tx_compensate rt ap w = ?w" by auto
    with stop [OF p] show ?thesis by (simp add: tx_run_def)
  next
    case (Some v)
    note run = run_effects_all [OF Some, of "[]", simplified]
    have undone: "tx_compensate rt ?es v = ?w" using compensate_all [OF assms(3) Some, of "[]"] by simp
    from final_check_outcome [OF assms(3,4) Some] show ?thesis
    proof (elim disjE conjE exE)
      fix e assume "planned_world rt ?es ?w = None" "final_check rt v = (Some e, v)" "error_filled (te_exc env) e"
      with stop [OF _ _ undone] run show ?thesis by (simp add: tx_run_def)
    next
      assume p: "planned_world rt ?es ?w = Some v" and "final_check rt v = (None, v)"
      then have t: "tx_log env rt (tx_record env q) (tq_events q) ?es (st\<lparr>tx_world := v\<rparr>) = (r, st')"
        using assms(5) run by (simp add: tx_run_def)
      obtain ar l where a: "append_many (te_append env) (tq_events q) (tx_events st) = (ar, l)" by fastforce
      have ev: "list_all dated (tq_events q)" "list_all event_filled (tq_events q)"
        using assms(2) by (simp_all add: request_ok_def)
      from append_many_view [OF lg ev a] obtain N x where
        x: "ar = Inr x" "log_ok l" "writes_fine (te_append env) \<longrightarrow> ea_accepted x" "ea_accepted x \<longrightarrow> N = UNIV"
        "\<forall>n. log_view l n = log_view (tx_events st) n @ (if n \<in> N then map reread_event (filter (\<lambda>e. file_of e = n)
             (fresh_events (log_ids (tx_events st)) (tq_events q))) else [])" by blast
      let ?s = "st\<lparr>tx_world := v, tx_events := l\<rparr>"
      have so: "stores_ok ?s" using assms(1) x(2) by (simp add: stores_ok_def)
      show ?thesis
      proof (cases "ea_accepted x")
        case True
        obtain res s2 where f: "tx_finish env (tx_record env q) ?s = (res, s2)" by fastforce
        have "r = Inr res \<and> st' = s2" using t a x(1) True f by (simp add: tx_log_def)
        moreover from True x(4,5) have "log_view l = log_extend (log_view (tx_events st)) (tq_events q)"
          by (simp add: fun_eq_iff log_extend_view)
        ultimately show ?thesis using tx_finish_closes [OF so assms(2) f] p x(2) by (auto simp: went_through_def)
      next
        case False
        then obtain e where e: "ea_error x = Some e" by (auto simp: ea_accepted_def)
        obtain res s2 where f: "tx_abort env rt (tx_record env q) e ?es ?s = (res, s2)" by fastforce
        have rs: "r = Inr res \<and> st' = s2" using t a x(1) False e f by (simp add: tx_log_def)
        have "error_filled (te_exc env) e"
          using a x(1) e by (auto simp: append_many_def guard_append_def append_failed_def error_filled_def msg_text_def split: sum.splits prod.splits if_splits)
        from tx_abort_closes [OF so assms(2) this f] rs x(2,3,5) False p undone show ?thesis
          by (auto simp: given_up_def log_extend_view)
      qed
    qed
  qed
qed

lemma tx_apply_outcome:
  assumes "stores_ok st" "request_ok env q" "undoes rt" "reports (te_exc env) rt" "tx_apply env rt q st = (r, st')"
  shows "\<exists>res. r = Inr res \<and> stores_ok st'
     \<and> incomplete_ids (tx_journals st') - {tx_journal_id env q} = incomplete_ids (tx_journals st) - {tx_journal_id env q}
     \<and> ((given_up rt q st (tr_accepted res) st'
           \<and> (te_prepare env = WriteOk \<and> te_close env = WriteOk \<longrightarrow> tx_journal_id env q \<notin> incomplete_ids (tx_journals st'))
           \<and> (planned_world rt (tq_effects q) (tx_world st) = None \<longrightarrow> tx_events st' = tx_events st)
           \<and> (te_prepare env = WriteOk \<and> writes_fine (te_append env) \<longrightarrow> planned_world rt (tq_effects q) (tx_world st) = None))
        \<or> (went_through rt q st st' \<and> (tr_accepted res \<longleftrightarrow> te_close env = WriteOk)
           \<and> (te_close env = WriteOk \<longrightarrow> tx_journal_id env q \<notin> incomplete_ids (tx_journals st'))
           \<and> (te_close env = WriteFails \<longrightarrow> tx_journal_id env q \<in> incomplete_ids (tx_journals st'))))"
proof -
  let ?j = "tx_record env q"
  have id: "jn_journal_id ?j = tx_journal_id env q" "jn_status ?j = Inl J_PREPARED" by (simp_all add: tx_record_def)
  obtain w js where w: "write_journal (te_exc env) (te_prepare env) ?j (tx_journals st) = (w, js)" by fastforce
  have jo: "journals_ok (tx_journals st)" "log_ok (tx_events st)" using assms(1) by (simp_all add: stores_ok_def)
  note p = write_pending [OF jo(1) conjunct1 [OF tx_record_filled [OF assms(2)]] conjunct2 [OF tx_record_filled [OF assms(2)]] w, unfolded id]
  show ?thesis
  proof (cases "te_prepare env = WriteOk")
    case False
    then have "r = Inr \<lparr>tr_accepted = False, tr_journal = None, tr_error = jw_error w\<rparr>" "st' = st\<lparr>tx_journals := js\<rparr>"
      using assms(5) w p(5) by (simp_all add: tx_apply_def prepare_journal_tx)
    with False p(1,2) jo show ?thesis
      by (intro exI [of _ "\<lparr>tr_accepted = False, tr_journal = None, tr_error = jw_error w\<rparr>"]) (simp add: given_up_def stores_ok_def)
  next
    case True
    let ?s = "st\<lparr>tx_journals := js\<rparr>"
    have t: "tx_run env rt q ?j ?s = (r, st')"
      using assms(5) w p(5,6) True by (simp add: tx_apply_def prepare_journal_tx)
    have so: "stores_ok ?s" using p(1) jo by (simp add: stores_ok_def)
    have pend: "tx_journal_id env q \<in> incomplete_ids js" using p(3) True by simp
    from tx_run_outcome [OF so assms(2-4) t] obtain res where
      o: "r = Inr res" "log_ok (tx_events st')" "closes (te_close env) (tx_journal_id env q) js (tx_journals st')"
      "(given_up rt q ?s (tr_accepted res) st'
           \<and> (planned_world rt (tq_effects q) (tx_world ?s) = None \<longrightarrow> tx_events st' = tx_events ?s)
           \<and> (writes_fine (te_append env) \<longrightarrow> planned_world rt (tq_effects q) (tx_world ?s) = None))
        \<or> (went_through rt q ?s st' \<and> (tr_accepted res \<longleftrightarrow> te_close env = WriteOk))" by auto
    have same: "given_up rt q ?s a st' = given_up rt q st a st'" "went_through rt q ?s st' = went_through rt q st st'" for a
      by (simp_all add: given_up_def went_through_def)
    have c: "journals_ok (tx_journals st')" "incomplete_ids (tx_journals st') - {tx_journal_id env q} = incomplete_ids js - {tx_journal_id env q}"
      "te_close env = WriteOk \<longrightarrow> tx_journal_id env q \<notin> incomplete_ids (tx_journals st')"
      "te_close env = WriteFails \<longrightarrow> tx_journals st' = js"
      using o(3) by (simp_all add: closes_def)
    have d: "stores_ok st'" "incomplete_ids (tx_journals st') - {tx_journal_id env q} = incomplete_ids (tx_journals st) - {tx_journal_id env q}"
      using c(1,2) o(2) p(2) by (simp_all add: stores_ok_def)
    from o(4) show ?thesis unfolding same
    proof (elim disjE conjE)
      assume "given_up rt q st (tr_accepted res) st'"
        "planned_world rt (tq_effects q) (tx_world ?s) = None \<longrightarrow> tx_events st' = tx_events ?s"
        "writes_fine (te_append env) \<longrightarrow> planned_world rt (tq_effects q) (tx_world ?s) = None"
      then show ?thesis using o(1) c(3) d by simp
    next
      assume "went_through rt q st st'" "tr_accepted res \<longleftrightarrow> te_close env = WriteOk"
      then show ?thesis using o(1) c(3,4) d pend by (intro exI [of _ res]) auto
    qed
  qed
qed

section \<open>The specification is met\<close>


text \<open>A world of names: an effect with a name pushes it, any other is rejected.\<close>

definition push_world :: "string list tx_runtime" where
  "push_world = \<lparr>
     rt_apply = (\<lambda>e w. case fmlookup e ''name'' of
         Some (JStr n) \<Rightarrow> (Inr \<lparr>fx_accepted = True, fx_message = [], fx_errors = []\<rparr>, n # w)
       | Some _ \<Rightarrow> (Inl ''bad name'', w)
       | None \<Rightarrow> (Inr \<lparr>fx_accepted = False, fx_message = ''no name'', fx_errors = []\<rparr>, w)),
     rt_compensate = Some (\<lambda>e w. (Inr \<lparr>fx_accepted = True, fx_message = [], fx_errors = []\<rparr>, tl w)),
     rt_validate = None\<rparr>"

lemma push_world_contract: "undoes push_world" "reports exc push_world"
  by (auto simp: undoes_def reports_def push_world_def fx_ok_def errors_filled_def split: option.split json.split)

definition quiet_env :: tx_env where
  "quiet_env = \<lparr>te_exc = [], te_ulid = ''J1'', te_started = ''1'', te_closed = ''2'', te_prepare = WriteOk, te_close = WriteOk, te_append = (\<lambda>_. WriteOk)\<rparr>"

definition naming :: "meta list \<Rightarrow> tx_request" where
  "naming es = \<lparr>tq_project = ''p'', tq_effects = es, tq_events = [sample_event ''e1'' ''2026-01-02''], tq_journal_id = None,
     tq_task = None, tq_transition = None, tq_context = fmempty\<rparr>"

definition name_effect :: "string \<Rightarrow> meta" where
  "name_effect n = fmap_of_list [(''name'', JStr n)]"

definition start_state :: "string list tx_state" where
  "start_state = \<lparr>tx_journals = no_journals, tx_events = empty_log, tx_world = [''root'']\<rparr>"

lemma naming_ok: "stores_ok start_state" "request_ok quiet_env (naming es)"
proof -
  show "stores_ok start_state" by (simp add: stores_ok_def start_state_def journals_ok_def no_journals_def)
  have "safe_id ''J1''" "dated (sample_event ''e1'' ''2026-01-02'')" "event_filled (sample_event ''e1'' ''2026-01-02'')" by code_simp+
  then show "request_ok quiet_env (naming es)"
    by (simp add: request_ok_def naming_def quiet_env_def tx_journal_id_def py_or_def)
qed




text \<open>
  A transaction that is rolled back may leave its events behind: when the human log cannot
  be written, the effects are compensated and the transaction is refused with its journal
  failed, but its event is in the event log.
\<close>

theorem rolled_back_yet_logged:
  "case tx_apply (quiet_env\<lparr>te_append := (\<lambda>n. if n = 1 then WriteFails else WriteOk)\<rparr>) push_world (naming [name_effect ''a'']) start_state of
     (Inr res, st') \<Rightarrow> \<not> tr_accepted res \<and> map_option jn_status (tr_journal res) = Some (Inl J_FAILED)
       \<and> tx_world st' = tx_world start_state
       \<and> map_sum id (map ev_event_id) (iter_events (tx_events st')) = Inr [''e1'']
   | (Inl _, _) \<Rightarrow> False"
  by code_simp

end
