(* ===== verification/Paths.thy ===== *)
theory Paths
  imports PyText
begin

text \<open>
  Relative and absolute file paths as \<open>pathlib\<close> reads them, and the link syntax of
  \<open>runtime/context.py\<close>: the parts of a path, wiki links, the reference inside a link, and
  the section of derived tasks that is cut from a task body.
\<close>

section \<open>Splitting\<close>

fun split_char :: "char \<Rightarrow> string \<Rightarrow> string list" where
  "split_char x [] = [[]]"
| "split_char x (c # cs) = (if c = x then [] # split_char x cs
     else (case split_char x cs of [] \<Rightarrow> [[c]] | p # ps \<Rightarrow> (c # p) # ps))"

lemma split_char_nonempty [simp]: "split_char x s \<noteq> []"
  by (cases s) (auto split: list.split)

lemma split_char_no_sep: "p \<in> set (split_char x s) \<Longrightarrow> x \<notin> set p"
  by (induction s arbitrary: p) (auto split: list.splits if_splits)

definition rstrip :: "string \<Rightarrow> string" where
  "rstrip s = rev (dropWhile is_space (rev s))"

text \<open>\<open>Path(text).parts\<close> on a POSIX system: two leading slashes are a root of their own.\<close>

definition path_root :: "string \<Rightarrow> string list" where
  "path_root s = (if startswith ''//'' s \<and> \<not> startswith ''///'' s then [''//''] else if startswith ''/'' s then [''/''] else [])"

definition path_parts :: "string \<Rightarrow> string list" where
  "path_parts s = path_root s @ filter (\<lambda>p. p \<noteq> [] \<and> p \<noteq> ''.'') (split_char (CHR ''/'') s)"

definition is_absolute :: "string \<Rightarrow> bool" where
  "is_absolute s \<longleftrightarrow> startswith ''/'' s"

section \<open>Links\<close>

definition link_char :: "char \<Rightarrow> bool" where
  "link_char c \<longleftrightarrow> c \<noteq> CHR '']'' \<and> c \<noteq> CHR ''|'' \<and> c \<noteq> CHR ''#'' \<and> c \<noteq> char_of (92 :: nat)"

text \<open>The group of \<open>WIKI_LINK_RE\<close>: it does not start with a slash, and something follows
  its first slash.\<close>

definition link_group :: "string \<Rightarrow> bool" where
  "link_group r \<longleftrightarrow> r \<noteq> [] \<and> hd r \<noteq> CHR ''/'' \<and> (case dropWhile (\<lambda>c. c \<noteq> CHR ''/'') r of [] \<Rightarrow> True | _ # rest \<Rightarrow> rest \<noteq> [])"

text \<open>The link at the start of a text, and the text behind it.\<close>

definition link_here :: "string \<Rightarrow> (string \<times> string) option" where
  "link_here s = (let r = takeWhile link_char (drop 2 s); rest = dropWhile link_char (drop 2 s)
     in if startswith ''[['' s \<and> link_group r \<and> startswith '']]'' rest then Some (strip r, drop 2 rest) else None)"

lemma link_here_length: "link_here s = Some (l, rest) \<Longrightarrow> length rest < length s"
proof -
  assume a: "link_here s = Some (l, rest)"
  then have "startswith ''[['' s" "rest = drop 2 (dropWhile link_char (drop 2 s))"
    by (auto simp: link_here_def Let_def split: if_splits)
  moreover have "length (dropWhile link_char (drop 2 s)) \<le> length (drop 2 s)" by (rule length_dropWhile_le)
  ultimately show ?thesis using startswith_length [of "''[[''" s] by simp
qed

function wiki_links :: "string \<Rightarrow> string list" where
  "wiki_links s = (case s of [] \<Rightarrow> []
     | _ # cs \<Rightarrow> (case link_here s of Some (l, rest) \<Rightarrow> l # wiki_links rest | None \<Rightarrow> wiki_links cs))"
  by pat_completeness auto
termination by (relation "measure length") (auto dest: link_here_length)

declare wiki_links.simps [simp del]

definition clean_ref :: "string \<Rightarrow> string" where
  "clean_ref ref = (let t = strip ref;
       u = (if startswith ''[['' t \<and> drop (length t - 2) t = '']]'' then take (length t - 4) (drop 2 t) else t)
     in strip (hd (split_char (CHR ''#'') (hd (split_char (CHR ''|'') u)))))"

section \<open>The section of derived tasks\<close>

definition derived_heading :: string where
  "derived_heading = ''## Derived tasks''"

definition derived_item :: "string \<Rightarrow> bool" where
  "derived_item l \<longleftrightarrow> 7 \<le> length l \<and> startswith ''- [['' l \<and> drop (length l - 2) l = '']]''"

text \<open>What may follow the heading up to the end: items, and again after at most one empty line
  a heading with items.  The flag says that an item has been read since the heading.\<close>

fun derived_tail :: "bool \<Rightarrow> string list \<Rightarrow> bool" where
  "derived_tail some [] = some"
| "derived_tail some (l # ls) =
     (if derived_item l then derived_tail True ls
      else if \<not> some then False
      else if l = derived_heading then derived_tail False ls
      else l = [] \<and> (case ls of h # ls' \<Rightarrow> h = derived_heading \<and> derived_tail False ls' | [] \<Rightarrow> False))"

fun cut_derived :: "string list \<Rightarrow> string list" where
  "cut_derived [] = []"
| "cut_derived (l # ls) = (if l = derived_heading \<and> derived_tail False ls then [] else l # cut_derived ls)"

definition line_feed :: string where "line_feed = [CHR 0x0A]"

definition sanitize_task_body :: "string \<Rightarrow> string" where
  "sanitize_task_body t = (case split_char (CHR 0x0A) (rstrip t) of
       [] \<Rightarrow> [] | l # ls \<Rightarrow> rstrip (join line_feed (l # cut_derived ls)))"

end
