(* ===== verification/Context.thy ===== *)
theory Context
  imports Paths Attempts
begin

text \<open>
  \<open>runtime/context.py\<close>: the linked context of a task, the required source identities that
  enter its revision, and the lineage of its parents.  The file system below the project root
  is a parameter: how a path resolves, whether it is a file, and its text when it can be read
  and decoded.  A path is the list of its components below the root directory.
\<close>

section \<open>Data\<close>

type_synonym path = "string list"

record file_view =
  fv_root :: path
  fv_resolve :: "path \<Rightarrow> path"
  fv_is_file :: "path \<Rightarrow> bool"
  fv_read :: "path \<Rightarrow> string option"
  fv_sha256 :: "string \<Rightarrow> string"

record context_limits =
  cl_max_depth :: int
  cl_max_documents :: nat
  cl_max_bytes :: int

definition default_limits :: context_limits where
  "default_limits = \<lparr>cl_max_depth = 8, cl_max_documents = 64, cl_max_bytes = 512000\<rparr>"

record context_document =
  cd_ref :: string
  cd_path :: path
  cd_content :: string
  cd_sha256 :: string
  cd_is_execution_contract :: bool
  cd_is_canonical_answers :: bool
  cd_is_current_answers :: bool
  cd_required :: bool

record context_packet =
  cp_documents :: "context_document list"
  cp_references :: "(string \<times> string list) list"

text \<open>A queue entry: the reference, its depth, whether it is required.\<close>

type_synonym link_request = "string \<times> int \<times> bool"

record context_state =
  cs_docs :: "context_document list"
  cs_errors :: "domain_error list"
  cs_seen :: "path list"
  cs_hashes :: "(path \<times> string) list"
  cs_references :: "(string \<times> string list) list"
  cs_bytes :: int

section \<open>Kinds of links\<close>

definition is_task_file_link :: "string \<Rightarrow> bool" where
  "is_task_file_link ref \<longleftrightarrow> ''ImplementationTaskFile'' \<in> set (path_parts (clean_ref ref))"

definition is_contract_link :: "string \<Rightarrow> bool" where
  "is_contract_link ref \<longleftrightarrow> (let ps = path_parts (clean_ref ref)
     in ''ImplementationContract'' \<in> set ps
        \<or> (ps \<noteq> [] \<and> last ps = ''implementation-contract.yaml''))"

definition is_round_file_link :: "string \<Rightarrow> bool" where
  "is_round_file_link ref \<longleftrightarrow> ''QuestionRoundFile'' \<in> set (path_parts (clean_ref ref))"

definition canonical_answer_links :: "task \<Rightarrow> string list" where
  "canonical_answer_links t = (if t_task_type t \<noteq> ''QuestionRound'' then [] else filter is_round_file_link (t_artifact_links t))"

definition ancestor_answer_links :: "task list \<Rightarrow> string list" where
  "ancestor_answer_links ps = concat (map (\<lambda>p. take 1 (canonical_answer_links p)) ps)"

text \<open>Of the contract links only the last one is active.\<close>

fun active_artifact_links :: "string list \<Rightarrow> string list" where
  "active_artifact_links [] = []"
| "active_artifact_links (l # ls) =
     (if is_contract_link l \<and> list_ex is_contract_link ls then active_artifact_links ls else l # active_artifact_links ls)"

definition artifact_type_of_link :: "string \<Rightarrow> string option" where
  "artifact_type_of_link l = (case dropWhile (\<lambda>p. p \<noteq> ''artifacts'') (path_parts l) of
     _ # _ # t # _ \<Rightarrow> Some t | _ \<Rightarrow> None)"

definition task_for_context :: "task \<Rightarrow> transition_definition \<Rightarrow> task" where
  "task_for_context t tr = (let excluded = rd_artifacts (td_requires tr)
       @ (case td_derives tr of None \<Rightarrow> [] | Some d \<Rightarrow> if dd_task_type d \<noteq> t_task_type t then [dd_artifact_type d] else [])
     in t\<lparr>t_artifact_links := filter (\<lambda>l. artifact_type_of_link l \<notin> Some ` set excluded) (t_artifact_links t)\<rparr>)"

section \<open>Resolution\<close>

definition candidate_paths :: "file_view \<Rightarrow> string \<Rightarrow> path list" where
  "candidate_paths fv clean = [fv_root fv @ path_parts clean,
     fv_root fv @ ''tasks'' # path_parts (clean @ ''.md''), fv_root fv @ ''docs'' # path_parts (clean @ ''.md'')]"

fun keep_candidates :: "file_view \<Rightarrow> path list \<Rightarrow> path list \<Rightarrow> path list" where
  "keep_candidates fv seen [] = []"
| "keep_candidates fv seen (c # cs) = (let p = fv_resolve fv c in
     if take (length (fv_root fv)) p \<noteq> fv_root fv then keep_candidates fv seen cs
     else if fv_is_file fv p \<and> p \<notin> set seen then p # keep_candidates fv (p # seen) cs
     else keep_candidates fv seen cs)"

definition resolve_candidates :: "file_view \<Rightarrow> string \<Rightarrow> path list" where
  "resolve_candidates fv ref = (let clean = clean_ref ref in
     if clean = [] then []
     else if is_absolute clean \<or> ''..'' \<in> set (path_parts clean) then []
     else keep_candidates fv [] (candidate_paths fv clean))"

definition utf8_length :: "string \<Rightarrow> int" where
  "utf8_length s = int (length (concat (map (\<lambda>c. if code c < 128 then [()] else [(), ()]) s)))"

text \<open>What the packet knows of the answer records: their references and the current one.\<close>

record answer_refs =
  ar_canonical :: "string list"
  ar_current :: string

fun upgrade_first :: "answer_refs \<Rightarrow> string \<Rightarrow> string \<Rightarrow> bool \<Rightarrow> context_document list \<Rightarrow> context_document list" where
  "upgrade_first an digest ref req [] = []"
| "upgrade_first an digest ref req (d # ds) = (if cd_sha256 d = digest
     then d\<lparr>cd_required := cd_required d \<or> req,
            cd_is_canonical_answers := cd_is_canonical_answers d \<or> clean_ref ref \<in> set (ar_canonical an),
            cd_is_current_answers := cd_is_current_answers d \<or> clean_ref ref = ar_current an\<rparr> # ds
     else d # upgrade_first an digest ref req ds)"

definition remember_reference :: "answer_refs \<Rightarrow> string \<Rightarrow> string \<Rightarrow> bool \<Rightarrow> context_state \<Rightarrow> bool \<times> context_state" where
  "remember_reference an digest ref req st =
     (list_ex (\<lambda>d. cd_sha256 d = digest) (cs_docs st),
      st\<lparr>cs_references := dict_set digest (let refs = refs_of (cs_references st) digest in if ref \<in> set refs then refs else refs @ [ref]) (cs_references st),
         cs_docs := upgrade_first an digest ref req (cs_docs st)\<rparr>)"

definition context_error :: "string \<Rightarrow> msg \<Rightarrow> string \<Rightarrow> context_state \<Rightarrow> context_state" where
  "context_error c m ref st = st\<lparr>cs_errors := cs_errors st @ [derror c m (Some ref)]\<rparr>"

text \<open>One turn of the loop: the queue goes on with further links, or it is left.\<close>

datatype link_turn = Go context_state "link_request list" | Leave context_state

definition context_turn :: "file_view \<Rightarrow> context_limits \<Rightarrow> answer_refs \<Rightarrow> link_request \<Rightarrow> context_state \<Rightarrow> link_turn" where
  "context_turn fv lim an q st = (case q of (ref, depth, req) \<Rightarrow>
     if is_task_file_link ref then Go st []
     else if depth > cl_max_depth lim then Go st []
     else (case resolve_candidates fv ref of
         [] \<Rightarrow> Go (if req then context_error ''context.link_not_found'' [Txt ''Linked context file was not found: '', Txt ref] ref st else st) []
       | path # others \<Rightarrow>
           if others \<noteq> [] then Go (context_error ''context.link_ambiguous''
               [Txt ''Linked context reference '', ReprS ref, Txt '' resolves to more than one file under the project roots; disambiguate it.''] ref st) []
           else if path \<in> set (cs_seen st)
             then Go (snd (remember_reference an (the (dict_get (cs_hashes st) path)) ref req st)) []
           else (case fv_read fv path of
               None \<Rightarrow> Go (context_error ''context.read_failed'' [Txt ''Cannot read linked context file '', Txt ref, Txt '': '', ExcText] ref st) []
             | Some content \<Rightarrow>
                 let digest = fv_sha256 fv content;
                     (known, st1) = remember_reference an digest ref req (st\<lparr>cs_hashes := dict_set path digest (cs_hashes st)\<rparr>)
                 in if known then Go (st1\<lparr>cs_seen := path # cs_seen st1\<rparr>) []
                    else if length (cs_docs st1) \<ge> cl_max_documents lim
                      then Leave (context_error ''context.document_limit'' [Txt ''Linked context exceeds document limit of '', Num (int (cl_max_documents lim)), Txt ''.''] ref st1)
                    else if cs_bytes st1 + utf8_length content > cl_max_bytes lim
                      then Leave (context_error ''context.byte_limit'' [Txt ''Linked context exceeds byte limit of '', Num (cl_max_bytes lim), Txt ''.''] ref st1)
                    else Go (st1\<lparr>cs_seen := path # cs_seen st1, cs_bytes := cs_bytes st1 + utf8_length content,
                           cs_docs := cs_docs st1 @ [\<lparr>cd_ref = ref, cd_path = path, cd_content = content, cd_sha256 = digest,
                              cd_is_execution_contract = is_contract_link ref,
                              cd_is_canonical_answers = (clean_ref ref \<in> set (ar_canonical an)),
                              cd_is_current_answers = (clean_ref ref = ar_current an), cd_required = req\<rparr>]\<rparr>)
                         (map (\<lambda>l. (l, depth + 1, False)) (wiki_links content)))))"

lemma length_upgrade_first [simp]: "length (upgrade_first an digest ref req ds) = length ds"
  by (induction ds) auto

lemma context_turn_measure:
  assumes "context_turn fv lim an q st = Go st' new"
  shows "(length (cs_docs st') = length (cs_docs st) \<and> new = [])
     \<or> (length (cs_docs st') = Suc (length (cs_docs st)) \<and> length (cs_docs st) < cl_max_documents lim)"
  using assms
  by (cases q) (auto simp: context_turn_def remember_reference_def context_error_def Let_def split: if_splits list.splits option.splits)

text \<open>A turn that extends the queue adds a document, and there is a limit on those.\<close>

function context_loop :: "file_view \<Rightarrow> context_limits \<Rightarrow> answer_refs \<Rightarrow> link_request list \<Rightarrow> context_state \<Rightarrow> context_state" where
  "context_loop fv lim an [] st = st"
| "context_loop fv lim an (q # queue) st = (case context_turn fv lim an q st of
      Leave st' \<Rightarrow> st'
    | Go st' new \<Rightarrow> context_loop fv lim an (queue @ new) st')"
  by pat_completeness auto
termination
proof (relation "measures [\<lambda>(fv, lim, an, q, st). cl_max_documents lim - length (cs_docs st), \<lambda>(fv, lim, an, q, st). length q]")
  fix fv lim an q queue st st' new
  assume "context_turn fv lim an q st = Go st' new"
  from context_turn_measure [OF this]
  show "((fv, lim, an, queue @ new, st'), fv, lim, an, q # queue, st)
      \<in> measures [\<lambda>(fv, lim, an, q, st). cl_max_documents lim - length (cs_docs st), \<lambda>(fv, lim, an, q, st). length q]"
    by auto
qed simp

section \<open>The packet\<close>

definition answers_of :: "task \<Rightarrow> task list \<Rightarrow> answer_refs" where
  "answers_of t parents = \<lparr>ar_canonical = map clean_ref (ancestor_answer_links parents @ canonical_answer_links t),
     ar_current = (case canonical_answer_links t of [] \<Rightarrow> clean_ref [] | l # _ \<Rightarrow> clean_ref l)\<rparr>"

definition required_links :: "task \<Rightarrow> task list \<Rightarrow> string list" where
  "required_links t parents = ancestor_answer_links parents @ canonical_answer_links t
     @ filter (\<lambda>l. \<not> is_round_file_link l) (active_artifact_links (t_artifact_links t))"

definition parent_links :: "task \<Rightarrow> string list" where
  "parent_links p = filter (\<lambda>l. \<not> is_task_file_link l \<and> \<not> is_round_file_link l) (active_artifact_links (t_artifact_links p))"

definition body_links :: "task \<Rightarrow> string list" where
  "body_links t = wiki_links (sanitize_task_body (t_body t))"

definition first_queue :: "task \<Rightarrow> task list \<Rightarrow> link_request list" where
  "first_queue t parents = map (\<lambda>l. (l, 0, True)) (required_links t parents) @ map (\<lambda>l. (l, 0, False)) (body_links t)
     @ concat (map (\<lambda>p. map (\<lambda>l. (l, 0, True)) (parent_links p) @ map (\<lambda>l. (l, 0, False)) (body_links p)) parents)"

definition empty_context :: context_state where
  "empty_context = \<lparr>cs_docs = [], cs_errors = [], cs_seen = [], cs_hashes = [], cs_references = [], cs_bytes = 0\<rparr>"

definition build_context_packet :: "file_view \<Rightarrow> context_limits \<Rightarrow> task \<Rightarrow> task list \<Rightarrow> domain_error list + context_packet" where
  "build_context_packet fv lim t parents =
     (if 1 < length (canonical_answer_links t)
      then Inl [derror ''context.question_round_answer_conflict''
        [Txt ''QuestionRound has multiple linked QuestionRoundFile artifacts; retain exactly one current answer source before review.''] (Some (t_id t))]
      else let st = context_loop fv lim (answers_of t parents) (first_queue t parents) empty_context
        in if cs_errors st \<noteq> [] then Inl (cs_errors st)
           else Inr \<lparr>cp_documents = cs_docs st, cp_references = cs_references st\<rparr>)"

section \<open>Source identities\<close>

definition document_identities :: "context_packet \<Rightarrow> context_document \<Rightarrow> (string \<times> string) list" where
  "document_identities p d = (if \<not> cd_required d then []
     else map (\<lambda>ref. (ref, cd_sha256 d)) (case dict_get (cp_references p) (cd_sha256 d) of Some refs \<Rightarrow> refs | None \<Rightarrow> [cd_ref d]))"

definition resolve_source_content_identities :: "file_view \<Rightarrow> task \<Rightarrow> transition_definition \<Rightarrow> task list \<Rightarrow> (string \<times> string) list" where
  "resolve_source_content_identities fv t tr parents =
     (case build_context_packet fv default_limits (task_for_context t tr) parents of
        Inl _ \<Rightarrow> []
      | Inr p \<Rightarrow> sort_key fst (sort_key snd (remdups (concat (map (document_identities p) (cp_documents p))))))"

section \<open>Parents\<close>

record read_task_result =
  rtr_errors :: "domain_error list"
  rtr_task :: "task option"

definition readable_task :: "(string \<Rightarrow> read_task_result) \<Rightarrow> string \<Rightarrow> task option" where
  "readable_task rd i = (if rtr_errors (rd i) \<noteq> [] then None else rtr_task (rd i))"

text \<open>The walk of \<open>load_parent_tasks\<close>, nearest parent first; it stops at 64 ancestors.\<close>

function parents_from :: "(string \<Rightarrow> read_task_result) \<Rightarrow> string set \<Rightarrow> nat \<Rightarrow> string option \<Rightarrow> task list" where
  "parents_from rd seen n cur = (case cur of None \<Rightarrow> []
     | Some c \<Rightarrow> if c = [] \<or> c \<in> seen \<or> 64 \<le> n then []
         else (case readable_task rd c of None \<Rightarrow> []
           | Some t \<Rightarrow> t # parents_from rd (insert c seen) (Suc n) (t_parent_id t)))"
  by pat_completeness auto
termination by (relation "measure (\<lambda>(_, _, n, _). 64 - n)") auto

declare parents_from.simps [simp del]

definition load_parent_tasks :: "(string \<Rightarrow> read_task_result) \<Rightarrow> task \<Rightarrow> task list" where
  "load_parent_tasks rd t = rev (parents_from rd {t_id t} 0 (t_parent_id t))"

end
