(* ===== verification/ContextFacts.thy ===== *)
theory ContextFacts
  imports Context AttemptFacts
begin

text \<open>
  Laws of the linked context: what every turn of its loop keeps, the limits it respects, and
  that an accepted packet represents every required link with the digest of the file it names.
\<close>

section \<open>The invariant of the loop\<close>

definition doc_ok :: "file_view \<Rightarrow> context_document \<Rightarrow> bool" where
  "doc_ok fv d \<longleftrightarrow> take (length (fv_root fv)) (cd_path d) = fv_root fv \<and> fv_is_file fv (cd_path d)
     \<and> fv_read fv (cd_path d) = Some (cd_content d) \<and> cd_sha256 d = fv_sha256 fv (cd_content d)"

definition docs_bytes :: "context_document list \<Rightarrow> int" where
  "docs_bytes ds = sum_list (map (utf8_length \<circ> cd_content) ds)"

definition ctx_inv :: "file_view \<Rightarrow> context_limits \<Rightarrow> context_state \<Rightarrow> bool" where
  "ctx_inv fv lim st \<longleftrightarrow> distinct (map cd_sha256 (cs_docs st)) \<and> length (cs_docs st) \<le> cl_max_documents lim
     \<and> cs_bytes st = docs_bytes (cs_docs st) \<and> (cs_docs st = [] \<or> cs_bytes st \<le> cl_max_bytes lim)
     \<and> (\<forall>d \<in> set (cs_docs st). doc_ok fv d)
     \<and> (\<forall>p \<in> set (cs_seen st). \<exists>h. dict_get (cs_hashes st) p = Some h \<and> h \<in> cd_sha256 ` set (cs_docs st))
     \<and> (\<forall>p h. dict_get (cs_hashes st) p = Some h \<longrightarrow> (\<exists>c. fv_read fv p = Some c \<and> h = fv_sha256 fv c))"

text \<open>A required reference is represented: it names one readable file whose digest is that of a
  required document which lists the reference.\<close>

definition pinned :: "file_view \<Rightarrow> context_state \<Rightarrow> string \<Rightarrow> bool" where
  "pinned fv st ref \<longleftrightarrow> (\<exists>p c. resolve_candidates fv ref = [p] \<and> fv_read fv p = Some c
     \<and> ref \<in> set (refs_of (cs_references st) (fv_sha256 fv c))
     \<and> (\<exists>d \<in> set (cs_docs st). cd_sha256 d = fv_sha256 fv c \<and> cd_required d))"

lemma upgrade_maps [simp]:
  "map cd_sha256 (upgrade_first an digest ref req ds) = map cd_sha256 ds"
  "map cd_path (upgrade_first an digest ref req ds) = map cd_path ds"
  "map cd_content (upgrade_first an digest ref req ds) = map cd_content ds"
  by (induction ds) auto

lemma upgrade_shas: "cd_sha256 ` set (upgrade_first an digest ref req ds) = cd_sha256 ` set ds"
  by (induction ds) auto

lemma upgrade_bytes [simp]: "docs_bytes (upgrade_first an digest ref req ds) = docs_bytes ds"
  unfolding docs_bytes_def map_map [symmetric] upgrade_maps by simp

lemma upgrade_nil [simp]: "upgrade_first an digest ref req ds = [] \<longleftrightarrow> ds = []"
  by (cases ds) auto

lemma doc_ok_flags [simp]: "doc_ok fv (d\<lparr>cd_required := a, cd_is_canonical_answers := b, cd_is_current_answers := c\<rparr>) = doc_ok fv d"
  by (simp add: doc_ok_def)

lemma upgrade_ok: "\<forall>d \<in> set ds. doc_ok fv d \<Longrightarrow> \<forall>d \<in> set (upgrade_first an digest ref req ds). doc_ok fv d"
  by (induction ds) simp_all

lemma upgrade_required_mono:
  "\<exists>d \<in> set ds. cd_sha256 d = h \<and> cd_required d \<Longrightarrow> \<exists>d \<in> set (upgrade_first an digest ref req ds). cd_sha256 d = h \<and> cd_required d"
  by (induction ds) auto

lemma upgrade_required: "digest \<in> cd_sha256 ` set ds \<Longrightarrow> \<exists>d \<in> set (upgrade_first an digest ref True ds). cd_sha256 d = digest \<and> cd_required d"
  by (induction ds) auto

lemma context_refs_set: "refs_of (dict_set k v d) k' = (if k' = k then v else refs_of d k')"
  by (simp add: refs_of_def)

lemma remember_effect:
  assumes "remember_reference an digest ref req st = (known, st')"
  shows "known \<longleftrightarrow> digest \<in> cd_sha256 ` set (cs_docs st)"
    "cs_docs st' = upgrade_first an digest ref req (cs_docs st)" "cs_errors st' = cs_errors st" "cs_seen st' = cs_seen st"
    "cs_hashes st' = cs_hashes st" "cs_bytes st' = cs_bytes st"
    "ref \<in> set (refs_of (cs_references st') digest)"
    "\<And>k. set (refs_of (cs_references st) k) \<subseteq> set (refs_of (cs_references st') k)"
  using assms by (auto simp: remember_reference_def context_refs_set list_ex_iff Let_def split: if_splits)

lemma remember_inv:
  assumes "ctx_inv fv lim st" "remember_reference an digest ref req st = (known, st')"
  shows "ctx_inv fv lim st'"
  using assms(1) remember_effect(2-6) [OF assms(2)] upgrade_ok
  by (auto simp: ctx_inv_def upgrade_shas)

lemma pinned_mono:
  assumes "pinned fv st r" "\<And>k. set (refs_of (cs_references st) k) \<subseteq> set (refs_of (cs_references st') k)"
    and "\<And>h. \<exists>d \<in> set (cs_docs st). cd_sha256 d = h \<and> cd_required d \<Longrightarrow> \<exists>d \<in> set (cs_docs st'). cd_sha256 d = h \<and> cd_required d"
  shows "pinned fv st' r"
  using assms unfolding pinned_def by blast

lemma remember_pinned_mono:
  assumes "remember_reference an digest ref req st = (known, st')" "pinned fv st r"
  shows "pinned fv st' r"
  using assms(2) remember_effect(8) [OF assms(1)]
  by (rule pinned_mono) (simp add: remember_effect(2) [OF assms(1)] upgrade_required_mono)

lemma keep_candidates_inside:
  "p \<in> set (keep_candidates fv seen cs) \<Longrightarrow> take (length (fv_root fv)) p = fv_root fv \<and> fv_is_file fv p"
  by (induction fv seen cs rule: keep_candidates.induct) (auto simp: Let_def split: if_splits)

lemma candidates_inside: "p \<in> set (resolve_candidates fv ref) \<Longrightarrow> take (length (fv_root fv)) p = fv_root fv \<and> fv_is_file fv p"
  by (auto simp: resolve_candidates_def Let_def dest: keep_candidates_inside split: if_splits)

definition turn_state :: "link_turn \<Rightarrow> context_state" where
  "turn_state t = (case t of Go st _ \<Rightarrow> st | Leave st \<Rightarrow> st)"

lemma turn_state_simps [simp]: "turn_state (Go st new) = st" "turn_state (Leave st) = st"
  by (simp_all add: turn_state_def)

text \<open>A turn keeps the invariant and what is pinned, only adds errors, pins a required link it
  accepts, and leaves the loop only with an error.\<close>

definition turn_ok :: "file_view \<Rightarrow> context_limits \<Rightarrow> link_request \<Rightarrow> context_state \<Rightarrow> link_turn \<Rightarrow> bool" where
  "turn_ok fv lim q st t \<longleftrightarrow> ctx_inv fv lim (turn_state t) \<and> (\<exists>es. cs_errors (turn_state t) = cs_errors st @ es)
     \<and> (\<forall>r. pinned fv st r \<longrightarrow> pinned fv (turn_state t) r)
     \<and> (case t of Leave s \<Rightarrow> cs_errors s \<noteq> [] | Go s _ \<Rightarrow>
          (case q of (ref, depth, req) \<Rightarrow> req \<and> \<not> is_task_file_link ref \<and> depth \<le> cl_max_depth lim \<and> cs_errors s = [] \<longrightarrow> pinned fv s ref))"

lemma context_error_frame [simp]:
  "cs_docs (context_error c m ref st) = cs_docs st" "cs_seen (context_error c m ref st) = cs_seen st"
  "cs_hashes (context_error c m ref st) = cs_hashes st" "cs_references (context_error c m ref st) = cs_references st"
  "cs_bytes (context_error c m ref st) = cs_bytes st" "cs_errors (context_error c m ref st) = cs_errors st @ [derror c m (Some ref)]"
  by (simp_all add: context_error_def)

lemma context_error_same: "ctx_inv fv lim (context_error c m ref st) = ctx_inv fv lim st" "pinned fv (context_error c m ref st) r = pinned fv st r"
  by (simp_all only: ctx_inv_def pinned_def context_error_frame)

lemma turn_ok_error:
  assumes "ctx_inv fv lim st"
  shows "turn_ok fv lim q st (Go (context_error c m ref st) [])" "turn_ok fv lim q st (Leave (context_error c m ref st))"
  using assms by (simp_all add: turn_ok_def context_error_same split: prod.split)

lemma turn_ok_from:
  assumes "turn_ok fv lim q st1 t" "cs_errors st1 = cs_errors st" "\<And>r. pinned fv st r \<Longrightarrow> pinned fv st1 r"
  shows "turn_ok fv lim q st t"
  using assms by (simp add: turn_ok_def)

lemma docs_bytes_snoc [simp]: "docs_bytes (ds @ [d]) = docs_bytes ds + utf8_length (cd_content d)"
  by (simp add: docs_bytes_def)

lemma context_turn_ok:
  assumes "ctx_inv fv lim st"
  shows "turn_ok fv lim q st (context_turn fv lim an q st)"
proof -
  obtain ref depth req where q: "q = (ref, depth, req)" by (metis prod_cases3)
  have idle: "turn_ok fv lim q st (Go st [])" if "is_task_file_link ref \<or> depth > cl_max_depth lim \<or> \<not> req"
    using assms that by (auto simp: turn_ok_def q)
  consider "is_task_file_link ref \<or> depth > cl_max_depth lim" | "\<not> is_task_file_link ref" "\<not> depth > cl_max_depth lim" "resolve_candidates fv ref = []"
    | path others where "\<not> is_task_file_link ref" "\<not> depth > cl_max_depth lim" "resolve_candidates fv ref = path # others" "others \<noteq> []"
    | path where "\<not> is_task_file_link ref" "\<not> depth > cl_max_depth lim" "resolve_candidates fv ref = [path]"
    by (cases "resolve_candidates fv ref") (blast, metis)
  then show ?thesis
  proof cases
    case 1
    with idle show ?thesis by (auto simp: context_turn_def q)
  next
    case 2
    with idle turn_ok_error [OF assms] show ?thesis by (auto simp: context_turn_def q)
  next
    case 3
    with turn_ok_error [OF assms] show ?thesis by (simp add: context_turn_def q)
  next
    case 4
    note go = 4
    have inside: "take (length (fv_root fv)) path = fv_root fv" "fv_is_file fv path"
      using candidates_inside [of path fv ref] go(3) by simp_all
    show ?thesis
    proof (cases "path \<in> set (cs_seen st)")
      case True
      with assms obtain h where h: "dict_get (cs_hashes st) path = Some h" "h \<in> cd_sha256 ` set (cs_docs st)"
        unfolding ctx_inv_def by blast
      with assms obtain c where c: "fv_read fv path = Some c" "h = fv_sha256 fv c" unfolding ctx_inv_def by blast
      obtain k st1 where r: "remember_reference an h ref req st = (k, st1)" by fastforce
      note e = remember_effect [OF r]
      have t: "context_turn fv lim an q st = Go st1 []" using go True h(1) r by (simp add: context_turn_def q)
      have "pinned fv st1 ref" if req
        using that go(3) c e(2,7) upgrade_required [OF h(2), of an ref] unfolding pinned_def by auto
      then show ?thesis unfolding t using remember_inv [OF assms r] remember_pinned_mono [OF r] e(3) by (auto simp: turn_ok_def q)
    next
      case False
      show ?thesis
      proof (cases "fv_read fv path")
        case None
        then show ?thesis using go False turn_ok_error(1) [OF assms] by (simp add: context_turn_def q)
      next
        case (Some c)
        let ?h = "fv_sha256 fv c" and ?st0 = "st\<lparr>cs_hashes := dict_set path (fv_sha256 fv c) (cs_hashes st)\<rparr>"
        have "path \<notin> set (cs_seen st)" by (rule False)
        then have i0: "ctx_inv fv lim ?st0" using assms Some unfolding ctx_inv_def by auto
        obtain k st1 where r: "remember_reference an ?h ref req ?st0 = (k, st1)" by fastforce
        note e = remember_effect [OF r] and i1 = remember_inv [OF i0 r]
        have mono: "pinned fv st r' \<Longrightarrow> pinned fv st1 r'" for r'
          by (rule remember_pinned_mono [OF r]) (simp add: pinned_def)
        have t: "context_turn fv lim an q st = (if k then Go (st1\<lparr>cs_seen := path # cs_seen st1\<rparr>) []
             else if length (cs_docs st1) \<ge> cl_max_documents lim
               then Leave (context_error ''context.document_limit'' [Txt ''Linked context exceeds document limit of '', Num (int (cl_max_documents lim)), Txt ''.''] ref st1)
             else if cs_bytes st1 + utf8_length c > cl_max_bytes lim
               then Leave (context_error ''context.byte_limit'' [Txt ''Linked context exceeds byte limit of '', Num (cl_max_bytes lim), Txt ''.''] ref st1)
             else Go (st1\<lparr>cs_seen := path # cs_seen st1, cs_bytes := cs_bytes st1 + utf8_length c,
                  cs_docs := cs_docs st1 @ [\<lparr>cd_ref = ref, cd_path = path, cd_content = c, cd_sha256 = ?h,
                     cd_is_execution_contract = is_contract_link ref, cd_is_canonical_answers = (clean_ref ref \<in> set (ar_canonical an)),
                     cd_is_current_answers = (clean_ref ref = ar_current an), cd_required = req\<rparr>]\<rparr>)
                (map (\<lambda>l. (l, depth + 1, False)) (wiki_links c)))"
          using go False Some r by (simp add: context_turn_def q)
        show ?thesis
        proof (cases k)
          case True
          then have known: "?h \<in> cd_sha256 ` set (cs_docs st)" using e(1) by simp
          have hash: "dict_get (cs_hashes st1) path = Some ?h" using e(5) by simp
          have "?h \<in> cd_sha256 ` set (cs_docs st1)" using known e(2) by (simp add: upgrade_shas)
          then have "ctx_inv fv lim (st1\<lparr>cs_seen := path # cs_seen st1\<rparr>)" using i1 hash unfolding ctx_inv_def by auto
          moreover have "pinned fv st1 ref" if req
            using that go(3) Some e(2,7) upgrade_required [OF known, of an ref] unfolding pinned_def by auto
          ultimately show ?thesis unfolding t using True mono e(3) by (auto simp: turn_ok_def q pinned_def)
        next
          case False
          let ?d = "\<lparr>cd_ref = ref, cd_path = path, cd_content = c, cd_sha256 = ?h, cd_is_execution_contract = is_contract_link ref,
             cd_is_canonical_answers = (clean_ref ref \<in> set (ar_canonical an)), cd_is_current_answers = (clean_ref ref = ar_current an), cd_required = req\<rparr>"
          let ?st2 = "st1\<lparr>cs_seen := path # cs_seen st1, cs_bytes := cs_bytes st1 + utf8_length c, cs_docs := cs_docs st1 @ [?d]\<rparr>"
          have err: "cs_errors st1 = cs_errors st" using e(3) by simp
          note leave = turn_ok_from [OF turn_ok_error(2) [OF i1] err mono]
          have new: "?h \<notin> cd_sha256 ` set (cs_docs st1)" using False e(1,2) by (simp add: upgrade_shas)
          have hash: "dict_get (cs_hashes st1) path = Some ?h" using e(5) by simp
          have "doc_ok fv ?d" using inside Some by (simp add: doc_ok_def)
          then have i2: "ctx_inv fv lim ?st2" if "length (cs_docs st1) < cl_max_documents lim" "cs_bytes st1 + utf8_length c \<le> cl_max_bytes lim"
            using i1 new hash that unfolding ctx_inv_def by auto
          have "pinned fv st1 r' \<Longrightarrow> pinned fv ?st2 r'" for r'
            unfolding pinned_def by auto
          moreover have "pinned fv ?st2 ref" if req
            using that go(3) Some e(7) unfolding pinned_def by auto
          ultimately have "turn_ok fv lim q st (Go ?st2 new)" if "length (cs_docs st1) < cl_max_documents lim" "cs_bytes st1 + utf8_length c \<le> cl_max_bytes lim" for new
            using i2 [OF that] mono err by (auto simp: turn_ok_def q)
          with leave False show ?thesis unfolding t by simp
        qed
      qed
    qed
  qed
qed

lemma context_loop_ok:
  assumes "ctx_inv fv lim st"
  shows "ctx_inv fv lim (context_loop fv lim an queue st) \<and> (\<exists>es. cs_errors (context_loop fv lim an queue st) = cs_errors st @ es)
     \<and> (\<forall>r. pinned fv st r \<longrightarrow> pinned fv (context_loop fv lim an queue st) r)
     \<and> (cs_errors (context_loop fv lim an queue st) = [] \<longrightarrow>
          (\<forall>(ref, depth, req) \<in> set queue. req \<and> \<not> is_task_file_link ref \<and> depth \<le> cl_max_depth lim
             \<longrightarrow> pinned fv (context_loop fv lim an queue st) ref))"
  using assms
proof (induction fv lim an queue st rule: context_loop.induct)
  case (2 fv lim an q queue st)
  note turn = context_turn_ok [OF 2(2), of q an]
  show ?case
  proof (cases "context_turn fv lim an q st")
    case (Leave s)
    with turn show ?thesis by (auto simp: turn_ok_def)
  next
    case (Go s new)
    from turn Go have i: "ctx_inv fv lim s" and e: "\<exists>es. cs_errors s = cs_errors st @ es" and m: "\<forall>r. pinned fv st r \<longrightarrow> pinned fv s r"
      and p: "\<And>ref depth req. q = (ref, depth, req) \<Longrightarrow> req \<and> \<not> is_task_file_link ref \<and> depth \<le> cl_max_depth lim \<and> cs_errors s = [] \<Longrightarrow> pinned fv s ref"
      by (auto simp: turn_ok_def)
    note ih = 2(1) [OF Go i]
    have loop: "context_loop fv lim an (q # queue) st = context_loop fv lim an (queue @ new) s" using Go by simp
    have "cs_errors (context_loop fv lim an (queue @ new) s) = [] \<Longrightarrow> cs_errors s = []" using ih by auto
    with ih e m p show ?thesis unfolding loop by (auto simp: Ball_def)
  qed
qed simp

lemma empty_context_inv: "ctx_inv fv lim empty_context"
  by (simp add: ctx_inv_def empty_context_def docs_bytes_def)

text \<open>
  C17. Building a context packet always ends, and with errors or with a packet inside its limits:
  at most the given number of documents and of bytes, every document a file under the project
  root with its text and the digest of that text, and no text twice.
\<close>

theorem context_packet_bounded:
  "case build_context_packet fv lim t parents of
     Inl es \<Rightarrow> es \<noteq> []
   | Inr p \<Rightarrow> length (cp_documents p) \<le> cl_max_documents lim \<and> distinct (map cd_sha256 (cp_documents p))
       \<and> list_all (doc_ok fv) (cp_documents p)
       \<and> (cp_documents p = [] \<or> docs_bytes (cp_documents p) \<le> cl_max_bytes lim)"
  using conjunct1 [OF context_loop_ok [OF empty_context_inv, of fv lim "answers_of t parents" "first_queue t parents"]]
  unfolding ctx_inv_def list_all_iff by (auto simp: build_context_packet_def Let_def)

lemma document_identities_ref:
  assumes "cd_required d" "ref \<in> set (refs_of (cp_references p) (cd_sha256 d))"
  shows "(ref, cd_sha256 d) \<in> set (document_identities p d)"
  using assms by (auto simp: document_identities_def refs_of_def split: option.splits)

text \<open>
  C26. Required sources are pinned: when the context of a task resolves, every required link of the
  task, and every artifact link taken from its parents, names exactly one readable file, and
  the link with the digest of that file is among the identities that enter the semantic
  revision.
\<close>

theorem required_links_pinned:
  assumes "build_context_packet fv default_limits (task_for_context t tr) parents = Inr p"
    and "ref \<in> set (required_links (task_for_context t tr) parents) \<union> \<Union> (set ` parent_links ` set parents)"
    and "\<not> is_task_file_link ref"
  shows "\<exists>path c. resolve_candidates fv ref = [path] \<and> fv_read fv path = Some c
     \<and> (ref, fv_sha256 fv c) \<in> set (resolve_source_content_identities fv t tr parents)"
proof -
  let ?t = "task_for_context t tr"
  let ?st = "context_loop fv default_limits (answers_of ?t parents) (first_queue ?t parents) empty_context"
  have st: "cs_errors ?st = []" "p = \<lparr>cp_documents = cs_docs ?st, cp_references = cs_references ?st\<rparr>"
    using assms(1) by (auto simp: build_context_packet_def Let_def split: if_splits)
  have "(ref, 0, True) \<in> set (first_queue ?t parents)" using assms(2) by (auto simp: first_queue_def)
  with context_loop_ok [OF empty_context_inv, of fv default_limits "answers_of ?t parents" "first_queue ?t parents"] st(1) assms(3)
  have "pinned fv ?st ref" by (fastforce simp: default_limits_def)
  then obtain path c d where "resolve_candidates fv ref = [path]" "fv_read fv path = Some c"
    "ref \<in> set (refs_of (cs_references ?st) (fv_sha256 fv c))" "d \<in> set (cs_docs ?st)" "cd_sha256 d = fv_sha256 fv c" "cd_required d"
    unfolding pinned_def by blast
  moreover from this document_identities_ref [of d ref p] have "(ref, fv_sha256 fv c) \<in> set (document_identities p d)"
    by (simp add: st(2))
  ultimately have "(ref, fv_sha256 fv c) \<in> set (resolve_source_content_identities fv t tr parents)"
    using assms(1) st(2) by (auto simp: resolve_source_content_identities_def)
  with \<open>resolve_candidates fv ref = [path]\<close> \<open>fv_read fv path = Some c\<close> show ?thesis by blast
qed

text \<open>Two links to files with the same text, one of them through the text of the other.\<close>

definition sample_files :: file_view where
  "sample_files = (let files = [([''p'', ''spec.md''], ''see [[copy]]''), ([''p'', ''tasks'', ''copy.md''], ''see [[copy]]''), ([''p'', ''docs'', ''extra.md''], ''x'')]
     in \<lparr>fv_root = [''p''], fv_resolve = id, fv_is_file = (\<lambda>q. dict_has files q), fv_read = dict_get files, fv_sha256 = (\<lambda>s. ''h'' @ s)\<rparr>)"

definition linked_task :: task where
  "linked_task = (plain_task ''see [[extra]]'')\<lparr>t_artifact_links := [''spec.md'', ''copy'']\<rparr>"

definition plain_transition :: transition_definition where
  "plain_transition = \<lparr>td_id = ''go'', td_task_type = ''task'', td_from_state = ''ready'', td_to_state = ''done'', td_worker = Some ''w'',
     td_requires = \<lparr>rd_artifacts = [], rd_validations = [], rd_changed_files_required = False\<rparr>, td_transaction = None, td_derives = None,
     td_default_for_scheduler = False, td_instructions = [], td_review = None\<rparr>"

theorem required_links_pinned_witness:
  "resolve_source_content_identities sample_files linked_task plain_transition []
     = [(''copy'', ''hsee [[copy]]''), (''spec.md'', ''hsee [[copy]]'')]
   \<and> (''copy'', fv_sha256 sample_files ''see [[copy]]'') \<in> set (resolve_source_content_identities sample_files linked_task plain_transition [])"
proof -
  have ids: "resolve_source_content_identities sample_files linked_task plain_transition []
     = [(''copy'', ''hsee [[copy]]''), (''spec.md'', ''hsee [[copy]]'')]" by code_simp
  have "\<not> isl (build_context_packet sample_files default_limits (task_for_context linked_task plain_transition) [])" by code_simp
  then obtain p where p: "build_context_packet sample_files default_limits (task_for_context linked_task plain_transition) [] = Inr p"
    by (cases "build_context_packet sample_files default_limits (task_for_context linked_task plain_transition) []") auto
  have m: "''copy'' \<in> set (required_links (task_for_context linked_task plain_transition) [])" by code_simp
  have nf: "\<not> is_task_file_link ''copy''" by code_simp
  from required_links_pinned [OF p _ nf] m obtain path c where
    "resolve_candidates sample_files ''copy'' = [path]" "fv_read sample_files path = Some c"
    "(''copy'', fv_sha256 sample_files c) \<in> set (resolve_source_content_identities sample_files linked_task plain_transition [])" by blast
  moreover have "resolve_candidates sample_files ''copy'' = [[''p'', ''tasks'', ''copy.md'']]" by code_simp
  moreover have "fv_read sample_files [''p'', ''tasks'', ''copy.md''] = Some ''see [[copy]]''" by code_simp
  ultimately show ?thesis using ids by auto
qed

end
