(* ===== verification/Acceptance.thy ===== *)
theory Acceptance
  imports Attempts AttemptFacts Journals Outcomes
begin

text \<open>
  \<open>runtime/acceptance.py\<close>, the review check of \<open>runtime/verifier.py\<close> and
  \<open>task_uses_global_contract\<close> of \<open>runtime/task_contracts.py\<close>: when an accepted job is
  evidence that its task is done.  The digest of the semantic revision and the answer of
  \<open>git merge-base --is-ancestor\<close> are parameters.
\<close>

section \<open>Operations\<close>

definition task_uses_global_contract :: "task \<Rightarrow> workflow_definition \<Rightarrow> bool" where
  "task_uses_global_contract t w \<longleftrightarrow> dict_has (wf_task_types w) (t_task_type t)
     \<and> (t_task_type t = ''ImplementationTask''
        \<or> list_ex (\<lambda>tr. td_task_type tr = t_task_type t \<and> td_review tr = Some True) (map snd (wf_transitions w)))"

definition blank_text :: "json \<Rightarrow> bool" where
  "blank_text j = (case j of JStr s \<Rightarrow> strip s = [] | _ \<Rightarrow> True)"

definition review_blockers :: "json \<Rightarrow> domain_error list" where
  "review_blockers j = (case j of
      JList xs \<Rightarrow>
        map (\<lambda>_. derror ''completion.review_result_blocker_invalid'' [Txt ''A remaining blocker must be a non-empty string.'']
              (Some ''review_result.remaining_blockers'')) (filter blank_text xs)
        @ (if list_ex (\<lambda>x. \<not> blank_text x) xs
           then [derror ''completion.review_blocked'' [Txt ''Review found remaining product blockers; route them to the clarification/planning path instead of recording verified implementation success.'']
                  (Some ''review_result.remaining_blockers'')] else [])
    | _ \<Rightarrow> [derror ''completion.review_result_blocker_invalid'' [Txt ''remaining_blockers must be a list of non-empty strings.'']
              (Some ''review_result.remaining_blockers'')])"

definition review_fields :: "meta \<Rightarrow> domain_error list" where
  "review_fields m =
     (if blank_text (jget m ''behavior'' JNull)
      then [derror ''completion.review_result_behavior_missing'' [Txt ''Review result must name at least one required behavior.''] (Some ''review_result.behavior'')] else [])
   @ (if blank_text (jget m ''evidence'' JNull)
      then [derror ''completion.review_result_evidence_missing'' [Txt ''Review result must cite the source/test evidence inspected for the reported behavior.''] (Some ''review_result.evidence'')] else [])
   @ review_blockers (jget m ''remaining_blockers'' (JList []))"

definition review_malformed :: domain_error where
  "review_malformed = derror ''completion.review_result_invalid''
     [Txt ''Review result is malformed; it must be an object with behavior/evidence fields.''] (Some ''review_result'')"

text \<open>The membership test comes first: a text or list that names a marker is reported, any
  other value that is no object raises.\<close>

definition validate_review_result :: "json \<Rightarrow> pyexc + domain_error list" where
  "validate_review_result r = (case r of
      JNull \<Rightarrow> Inr [derror ''completion.review_result_missing'' [Txt ''A review transition requires a compact review_result naming the behavior, the source/test evidence, any defects/fixes, and remaining blockers.'']
                (Some ''review_result'')]
    | JObj m \<Rightarrow> (if fmlookup m ''_invalid'' \<noteq> None \<or> fmlookup m ''_review_result_invalid'' \<noteq> None
                then Inr [review_malformed] else Inr (review_fields m))
    | JStr s \<Rightarrow> (if contains ''_invalid'' s \<or> contains ''_review_result_invalid'' s then Inr [review_malformed] else Inl AttributeErr)
    | JList xs \<Rightarrow> (if JStr ''_invalid'' \<in> set xs \<or> JStr ''_review_result_invalid'' \<in> set xs then Inr [review_malformed] else Inl AttributeErr)
    | _ \<Rightarrow> Inl TypeErr)"

definition is_commit_hash :: "string \<Rightarrow> bool" where
  "is_commit_hash s \<longleftrightarrow> 7 \<le> length s \<and> length s \<le> 64 \<and> list_all (\<lambda>c. is_digit c \<or> (97 \<le> code c \<and> code c \<le> 102)) s"

record evidence_env =
  ee_digest :: "json \<Rightarrow> string"
  ee_has_repo :: bool
  ee_is_ancestor :: "string \<Rightarrow> bool"

definition check_passed :: "json \<Rightarrow> bool" where
  "check_passed j = (case j of JObj m \<Rightarrow> jget m ''status'' JNull = JStr ''passed'' | _ \<Rightarrow> False)"

text \<open>The verification report of a code task: some checks, all passed, on the very candidate.\<close>

definition code_report_ok :: "meta \<Rightarrow> pyexc + bool" where
  "code_report_ok ctx = (if jget ctx ''verification_accepted'' JNull \<noteq> JBool True then Inr False
     else case jget ctx ''verification_report'' JNull of
       JObj rep \<Rightarrow>
         (let checks = jget rep ''checks'' (JList [])
          in if \<not> json_truthy checks then Inr False
             else bind_sum (py_list checks) (\<lambda>cs. Inr (list_all check_passed cs
                \<and> \<not> json_truthy (jget rep ''source_mutated'' JNull) \<and> \<not> json_truthy (jget rep ''not_run_checks'' JNull)
                \<and> py_eq (jget rep ''candidate_id'' JNull) (jget ctx ''candidate_id'' JNull)
                \<and> py_eq (jget rep ''candidate_manifest_sha256'' JNull) (jget ctx ''candidate_manifest_sha256'' JNull))))
     | _ \<Rightarrow> Inr False)"

definition commit_delivered :: "evidence_env \<Rightarrow> execution_job \<Rightarrow> bool" where
  "commit_delivered env job \<longleftrightarrow> ee_has_repo env
     \<and> (case fmlookup (j_metadata job) ''acceptance_repository_commit'' of
          Some (JStr c) \<Rightarrow> is_commit_hash c \<and> ee_is_ancestor env c | _ \<Rightarrow> False)"

text \<open>The journal named by the job, with the handler of the load.\<close>

definition evidence_journal :: "execution_job \<Rightarrow> journal_store option \<Rightarrow> pyexc + transaction_journal option" where
  "evidence_journal job journals = (case (fmlookup (j_metadata job) ''acceptance_transaction_id'', journals) of
      (Some (JStr tid), Some js) \<Rightarrow> (case load_journal tid js of
          Inr r \<Rightarrow> Inr (Some r)
        | Inl x \<Rightarrow> if x \<in> {OSErr, ValueErr, TypeErr} then Inr None else Inl x)
    | _ \<Rightarrow> Inr None)"

definition evidence_criteria :: "evidence_env \<Rightarrow> execution_job \<Rightarrow> task \<Rightarrow> transition_definition \<Rightarrow> transaction_journal \<Rightarrow> string option
    \<Rightarrow> bool \<Rightarrow> pyexc + completion_criteria" where
  "evidence_criteria env job t tr journal target code_task =
     (let ctx = jn_context journal
      in bind_sum (if code_task then code_report_ok ctx else Inr (jget ctx ''verification_accepted'' JNull = JBool True)) (\<lambda>verified.
         bind_sum (if is_review_transition tr
                   then bind_sum (validate_review_result (jget (j_metadata job) ''review_result'' JNull)) (\<lambda>es. Inr (es = []))
                   else Inr True) (\<lambda>review.
         Inr \<lparr>acceptance_verified = verified,
              delivery_transaction_committed = (jn_status_value (jn_status journal) = ''committed''),
              review_satisfied = review,
              final_state_consistent = (jget ctx ''expected_to_state'' JNull = JStr (the (py_or target (Some (t_current_state t)))))\<rparr>)))"

definition accepted_task_evidence :: "evidence_env \<Rightarrow> execution_job \<Rightarrow> task \<Rightarrow> workflow_definition \<Rightarrow> journal_store option
    \<Rightarrow> (string \<times> string) list \<Rightarrow> string option \<Rightarrow> pyexc + bool" where
  "accepted_task_evidence env job t w journals ids target =
     (if jstatus_value (j_status job) \<noteq> ''accepted'' then Inr False
      else case dict_get (wf_transitions w) (j_transition_id job) of
          None \<Rightarrow> Inr False
        | Some tr \<Rightarrow>
            if td_task_type tr \<noteq> t_task_type t then Inr False
            else bind_sum (evidence_journal job journals) (\<lambda>found. case found of
                None \<Rightarrow> Inr False
              | Some journal \<Rightarrow>
                  if jn_task_id journal \<noteq> Some (t_id t) \<or> jn_project_id journal \<noteq> j_project_id job
                      \<or> jn_transition_id journal \<noteq> Some (j_transition_id job) then Inr False
                  else let ctx = jn_context journal; revn = task_semantic_revision (ee_digest env) t ids
                    in if jget ctx ''task_revision'' JNull \<noteq> JStr revn \<or> jget ctx ''job_id'' JNull \<noteq> JStr (j_job_id job) then Inr False
                       else let code_task = task_uses_global_contract t w
                         in if code_task \<and> json_truthy (jget ctx ''repository_base_commit'' JNull) \<and> \<not> commit_delivered env job then Inr False
                            else bind_sum (evidence_criteria env job t tr journal target code_task) (\<lambda>c. Inr (succeeded c))))"

section \<open>Laws\<close>

lemma review_blockers_none: "review_blockers j = [] \<longleftrightarrow> j = JList []"
  by (cases j) (auto simp: review_blockers_def filter_empty_conv list_ex_iff)

text \<open>
  A review result is free of errors exactly when it is an object without the markers of a
  malformed one that names a behaviour and evidence, neither of them blank, and lists no
  remaining blocker at all.
\<close>

theorem review_result_clean_iff:
  "validate_review_result r = Inr [] \<longleftrightarrow>
     (\<exists>m b e. r = JObj m \<and> fmlookup m ''_invalid'' = None \<and> fmlookup m ''_review_result_invalid'' = None
        \<and> fmlookup m ''behavior'' = Some (JStr b) \<and> strip b \<noteq> [] \<and> fmlookup m ''evidence'' = Some (JStr e) \<and> strip e \<noteq> []
        \<and> fmlookup m ''remaining_blockers'' \<in> {None, Some (JList [])})"
proof -
  have filled: "\<not> blank_text (jget m k JNull) \<longleftrightarrow> (\<exists>s. fmlookup m k = Some (JStr s) \<and> strip s \<noteq> [])" for m k
    by (auto simp: jget_def blank_text_def split: option.splits json.splits)
  have none: "jget m ''remaining_blockers'' (JList []) = JList [] \<longleftrightarrow> fmlookup m ''remaining_blockers'' \<in> {None, Some (JList [])}" for m
    by (auto simp: jget_def split: option.splits)
  have fields: "review_fields m = [] \<longleftrightarrow> \<not> blank_text (jget m ''behavior'' JNull) \<and> \<not> blank_text (jget m ''evidence'' JNull)
      \<and> jget m ''remaining_blockers'' (JList []) = JList []" for m
    by (simp add: review_fields_def review_blockers_none)
  show ?thesis
    by (cases r) (auto simp: validate_review_result_def fields filled none simp del: insert_iff split: if_splits)
qed

lemma evidence_parts:
  assumes "accepted_task_evidence env job t w journals ids target = Inr True"
  shows "\<exists>journal tid js. fmlookup (j_metadata job) ''acceptance_transaction_id'' = Some (JStr tid) \<and> journals = Some js
     \<and> load_journal tid js = Inr journal \<and> jn_status_value (jn_status journal) = ''committed''
     \<and> jn_task_id journal = Some (t_id t) \<and> jn_project_id journal = j_project_id job
     \<and> jget (jn_context journal) ''task_revision'' JNull = JStr (task_semantic_revision (ee_digest env) t ids)
     \<and> jget (jn_context journal) ''expected_to_state'' JNull = JStr (the (py_or target (Some (t_current_state t))))"
proof -
  from assms obtain tr where tr: "dict_get (wf_transitions w) (j_transition_id job) = Some tr"
    by (auto simp: accepted_task_evidence_def split: if_splits option.splits)
  with assms obtain journal where j: "evidence_journal job journals = Inr (Some journal)"
    by (auto simp: accepted_task_evidence_def bind_sum_Inr_iff split: if_splits option.splits)
  from j obtain tid js where l: "fmlookup (j_metadata job) ''acceptance_transaction_id'' = Some (JStr tid)" "journals = Some js" "load_journal tid js = Inr journal"
    by (auto simp: evidence_journal_def split: option.splits json.splits sum.splits if_splits)
  from assms tr j have c: "jn_task_id journal = Some (t_id t)" "jn_project_id journal = j_project_id job"
    "jget (jn_context journal) ''task_revision'' JNull = JStr (task_semantic_revision (ee_digest env) t ids)"
    "\<exists>c code. evidence_criteria env job t tr journal target code = Inr c \<and> succeeded c"
    by (auto simp: accepted_task_evidence_def Let_def bind_sum_Inr_iff split: if_splits)
  from c(4) have "jn_status_value (jn_status journal) = ''committed''"
    "jget (jn_context journal) ''expected_to_state'' JNull = JStr (the (py_or target (Some (t_current_state t))))"
    by (auto simp: evidence_criteria_def Let_def bind_sum_Inr_iff succeeded_def)
  with l c(1-3) show ?thesis by blast
qed


text \<open>An accepted job of a one-transition workflow and the journal of its acceptance.\<close>

definition ship_workflow :: workflow_definition where
  "ship_workflow = \<lparr>wf_schema_version = 1,
     wf_states = [(''ready'', \<lparr>sd_id = ''ready'', sd_terminal_outcome = None\<rparr>), (''done'', \<lparr>sd_id = ''done'', sd_terminal_outcome = Some ''success''\<rparr>)],
     wf_task_types = [(''task'', \<lparr>ttd_id = ''task'', ttd_requirements_by_state = [], ttd_instructions = []\<rparr>)],
     wf_artifact_types = [], wf_validation_types = [], wf_operation_types = [],
     wf_workers = [(''coder'', \<lparr>wd_id = ''coder'', wd_type = None, wd_implementation_id = None, wd_instructions = []\<rparr>)],
     wf_transitions = [(''ship'', \<lparr>td_id = ''ship'', td_task_type = ''task'', td_from_state = ''ready'', td_to_state = ''done'',
        td_worker = Some ''coder'', td_requires = \<lparr>rd_artifacts = [], rd_validations = [], rd_changed_files_required = False\<rparr>,
        td_transaction = None, td_derives = None, td_default_for_scheduler = False, td_instructions = [], td_review = None\<rparr>)],
     wf_storage = None\<rparr>"

definition done_task :: "string \<Rightarrow> string \<Rightarrow> task" where
  "done_task i body = (plain_task body)\<lparr>t_id := i, t_current_state := ''done'', t_dependencies := []\<rparr>"

definition plain_evidence_env :: evidence_env where
  "plain_evidence_env = \<lparr>ee_digest = json_dumps, ee_has_repo = False, ee_is_ancestor = (\<lambda>_. False)\<rparr>"

definition shipped_job :: "string \<Rightarrow> execution_job" where
  "shipped_job i = \<lparr>j_job_id = ''J-'' @ i, j_project_id = ''p'', j_task_id = i, j_transition_id = ''ship'', j_worker_id = ''coder'',
     j_workspace_path = ''/w'', j_status = Inl ACCEPTED, j_attempts = 1,
     j_metadata = fmap_of_list [(''acceptance_transaction_id'', JStr (''A-'' @ i))]\<rparr>"

definition shipped_journal :: "task \<Rightarrow> transaction_journal" where
  "shipped_journal t = (sample_journal J_COMMITTED)\<lparr>jn_journal_id := ''A-'' @ t_id t, jn_task_id := Some (t_id t), jn_transition_id := Some ''ship'',
     jn_context := fmap_of_list [(''task_revision'', JStr (task_semantic_revision json_dumps t [])), (''job_id'', JStr (''J-'' @ t_id t)),
       (''verification_accepted'', JBool True), (''expected_to_state'', JStr ''done'')]\<rparr>"

definition journals_of :: "transaction_journal list \<Rightarrow> journal_store" where
  "journals_of rs = \<lparr>jns_root = ''/j'', jns_files = fmap_of_list (map (\<lambda>r. (jn_journal_id r, JournalJson (JObj (journal_to_dict [] r)))) rs)\<rparr>"

lemma shipped_evidence:
  "accepted_task_evidence plain_evidence_env (shipped_job ''T-1'') (done_task ''T-1'' ''x'') ship_workflow
     (Some (journals_of [shipped_journal (done_task ''T-1'' ''x'')])) [] None = Inr True"
  by code_simp


end
