(* ===== verification/Admission.thy ===== *)
theory Admission
  imports Acceptance Jobs
begin

text \<open>
  The admission gates of \<open>runtime/scheduler.py\<close> and the persisted classification of
  \<open>runtime/failures.py\<close>: which transition a task takes, whether its dependencies are
  accepted, and whether its earlier failures and consumed attempts let it run again.  The
  parser of ISO timestamps is a parameter; an instant is an integer.
\<close>

section \<open>Clock\<close>

record clock =
  ck_parse :: "string \<Rightarrow> int option"
  ck_min :: int

fun first_instant :: "clock \<Rightarrow> json option list \<Rightarrow> int option" where
  "first_instant ck [] = None"
| "first_instant ck (v # vs) = (case v of
      Some (JStr raw) \<Rightarrow> (if raw = [] then first_instant ck vs
        else case ck_parse ck (replace_all ''Z'' ''+00:00'' raw) of Some t \<Rightarrow> Some t | None \<Rightarrow> first_instant ck vs)
    | _ \<Rightarrow> first_instant ck vs)"

definition job_timestamp :: "clock \<Rightarrow> execution_job \<Rightarrow> int option" where
  "job_timestamp ck j = first_instant ck [fmlookup (j_metadata j) ''updated_at'', fmlookup (j_metadata j) ''created_at'']"

text \<open>\<open>max(jobs, key=f)\<close> of a sequence that is not empty: the first of the largest.\<close>

fun max_by :: "('a \<Rightarrow> int) \<Rightarrow> 'a \<Rightarrow> 'a list \<Rightarrow> 'a" where
  "max_by f b [] = b"
| "max_by f b (x # xs) = max_by f (if f b < f x then x else b) xs"

definition instant_key :: "clock \<Rightarrow> execution_job \<Rightarrow> int" where
  "instant_key ck j = (case job_timestamp ck j of None \<Rightarrow> ck_min ck | Some t \<Rightarrow> t)"

definition latest_job :: "clock \<Rightarrow> execution_job list \<Rightarrow> execution_job option" where
  "latest_job ck js = (case js of [] \<Rightarrow> None | j # rest \<Rightarrow> Some (max_by (instant_key ck) j rest))"

text \<open>A list comprehension with a condition that may raise.\<close>

fun filter_sum :: "('a \<Rightarrow> 'e + bool) \<Rightarrow> 'a list \<Rightarrow> 'e + 'a list" where
  "filter_sum f [] = Inr []"
| "filter_sum f (x # xs) = bind_sum (f x) (\<lambda>b. bind_sum (filter_sum f xs) (\<lambda>ys. Inr (if b then x # ys else ys)))"

lemma filter_sum_Inr: "filter_sum f xs = Inr ys \<Longrightarrow> y \<in> set ys \<Longrightarrow> y \<in> set xs \<and> f y = Inr True"
  by (induction xs arbitrary: ys) (auto simp: bind_sum_Inr_iff split: if_splits)

lemma filter_sum_found: "filter_sum f xs = Inr ys \<Longrightarrow> x \<in> set xs \<Longrightarrow> f x = Inr True \<Longrightarrow> x \<in> set ys"
  by (induction xs arbitrary: ys) (auto simp: bind_sum_Inr_iff)

section \<open>Job queries\<close>

text \<open>Two jobs ready for repair are compared by time without a default, which raises when one of
  them has none.\<close>

definition repair_ready :: "execution_job \<Rightarrow> bool" where
  "repair_ready j \<longleftrightarrow> jstatus_value (j_status j) = ''completion_rejected'' \<and> fmlookup (j_metadata j) ''repair_ready'' = Some (JBool True)"

definition repair_ready_job :: "clock \<Rightarrow> execution_job list \<Rightarrow> pyexc + execution_job option" where
  "repair_ready_job ck js = (case filter repair_ready js of
      [] \<Rightarrow> Inr None
    | [j] \<Rightarrow> Inr (Some j)
    | ready \<Rightarrow> if list_ex (\<lambda>j. job_timestamp ck j = None) ready then Inl TypeErr else Inr (latest_job ck ready))"

definition job_of :: "string \<Rightarrow> string \<Rightarrow> string \<Rightarrow> execution_job \<Rightarrow> bool" where
  "job_of pid tid trid j \<longleftrightarrow> j_project_id j = pid \<and> j_task_id j = tid \<and> j_transition_id j = trid"

definition is_failed :: "execution_job \<Rightarrow> bool" where
  "is_failed j \<longleftrightarrow> jstatus_value (j_status j) = ''failed''"

definition since_ok :: "clock \<Rightarrow> int option \<Rightarrow> execution_job \<Rightarrow> bool" where
  "since_ok ck since j \<longleftrightarrow> (case since of None \<Rightarrow> True | Some c \<Rightarrow> (case job_timestamp ck j of None \<Rightarrow> False | Some t \<Rightarrow> c \<le> t))"

definition find_recent_failed_job :: "clock \<Rightarrow> string \<Rightarrow> string \<Rightarrow> string \<Rightarrow> int \<Rightarrow> int option \<Rightarrow> int \<Rightarrow> job_store \<Rightarrow> pyexc + job_store_result" where
  "find_recent_failed_job ck pid tid trid now since backoff s = bind_sum (list_jobs s) (\<lambda>listed.
     if \<not> jr_accepted listed then Inr listed
     else let recent = filter (\<lambda>j. job_of pid tid trid j \<and> is_failed j
                \<and> fmlookup (j_metadata j) ''failure_reason'' \<noteq> Some (JStr ''worker_unexpected_exit'')
                \<and> (case job_timestamp ck j of None \<Rightarrow> False | Some t \<Rightarrow> now - backoff \<le> t) \<and> since_ok ck since j) (jr_jobs listed)
          in Inr (jobs_found (case latest_job ck recent of None \<Rightarrow> [] | Some j \<Rightarrow> [j])))"

definition find_failed_jobs :: "clock \<Rightarrow> string \<Rightarrow> string \<Rightarrow> string \<Rightarrow> int option \<Rightarrow> job_store \<Rightarrow> pyexc + job_store_result" where
  "find_failed_jobs ck pid tid trid since s = bind_sum (list_jobs s) (\<lambda>listed.
     if \<not> jr_accepted listed then Inr listed
     else Inr (jobs_found (filter (\<lambda>j. job_of pid tid trid j \<and> is_failed j \<and> since_ok ck since j) (jr_jobs listed))))"

section \<open>Persisted failures\<close>

record execution_failure =
  ef_code :: string
  ef_category :: string
  ef_retryable :: bool
  ef_retry_action :: string
  ef_evidence :: string
  ef_evidence_path :: "string option"

definition failure_from_metadata :: "meta \<Rightarrow> execution_failure option" where
  "failure_from_metadata m = (case fmlookup m ''failure_code'' of
      Some (JStr cd) \<Rightarrow>
        if cd = [] then None
        else Some \<lparr>ef_code = cd, ef_category = py_str (jget m ''failure_category'' (JStr [])),
          ef_retryable = (case fmlookup m ''retryable'' of Some (JBool b) \<Rightarrow> b | _ \<Rightarrow> True),
          ef_retry_action = py_str (jget m ''retry_action'' (JStr [])), ef_evidence = py_str (jget m ''failure_evidence'' (JStr [])),
          ef_evidence_path = (case fmlookup m ''failure_evidence_path'' of Some (JStr p) \<Rightarrow> if p = [] then None else Some p | _ \<Rightarrow> None)\<rparr>
    | _ \<Rightarrow> None)"

text \<open>A failed job of the revision: its records are readable and one of them is of it.\<close>

definition cause_candidate :: "string \<Rightarrow> string \<Rightarrow> string \<Rightarrow> string \<Rightarrow> execution_job \<Rightarrow> pyexc + bool" where
  "cause_candidate pid tid trid revn j = (if \<not> job_of pid tid trid j \<or> \<not> is_failed j then Inr False
     else case attempt_records_from_metadata (j_metadata j) of
         Inl e \<Rightarrow> if e = ValueErr then Inr False else Inl e
       | Inr records \<Rightarrow> Inr (list_ex (\<lambda>r. ar_task_revision r = revn) records))"

definition retry_blocked_by_cause :: "clock \<Rightarrow> string \<Rightarrow> task \<Rightarrow> transition_definition \<Rightarrow> string \<Rightarrow> job_store \<Rightarrow> pyexc + domain_error option" where
  "retry_blocked_by_cause ck pid t tr revn s = bind_sum (list_jobs s) (\<lambda>listed.
     if \<not> jr_accepted listed then Inr None
     else bind_sum (filter_sum (cause_candidate pid (t_id t) (td_id tr) revn) (jr_jobs listed)) (\<lambda>cs. Inr (case latest_job ck cs of
         None \<Rightarrow> None
       | Some latest \<Rightarrow> (case failure_from_metadata (j_metadata latest) of
             None \<Rightarrow> None
           | Some f \<Rightarrow> if ef_retryable f then None
               else Some (derror ''job.non_retryable_failure'' [Txt ''Task '', ReprS (t_id t), Txt '' failed transition '', ReprS (td_id tr),
                 Txt '' with a non-retryable cause ('', Txt (if ef_category f \<noteq> [] then ef_category f else ef_code f),
                 Txt ''); stopping rather than consuming another worker attempt. '', Txt (ef_retry_action f)] (Some (t_id t)))))))"

section \<open>The account of attempts\<close>

definition total_attempt_exhausted :: "(json \<Rightarrow> string) \<Rightarrow> frozen_loaders \<Rightarrow> string \<Rightarrow> task \<Rightarrow> transition_definition \<Rightarrow> string \<Rightarrow> int \<Rightarrow> job_store
    \<Rightarrow> pyexc + domain_error option" where
  "total_attempt_exhausted digest frozen pid t tr revn limit s =
     (if limit \<le> 0 then Inr None
      else bind_sum (list_jobs s) (\<lambda>listed.
        if \<not> jr_accepted listed then Inr (Some (derror ''job.attempt_history_unreadable'' [Txt ''Cannot read durable attempt history.''] (Some (t_id t))))
        else (case count_consumed_attempts digest frozen (t_id t) (td_id tr) revn (Some pid) (jr_jobs listed) of
            Inl e \<Rightarrow> if e \<in> {ValueErr, TypeErr, KeyErr} then Inr (Some (derror ''job.attempt_history_unreadable'' [ExcText] (Some (t_id t)))) else Inl e
          | Inr (consumed, _) \<Rightarrow> if consumed < limit then Inr None
              else Inr (Some (derror ''job.total_attempt_limit_reached'' [Txt ''Task '', ReprS (t_id t), Txt '' has consumed '', Num consumed,
                Txt '' worker attempt(s) for transition '', ReprS (td_id tr), Txt ''; total account '', Num limit, Txt '' reached.''] (Some (t_id t)))))))"

record recovery_policy =
  rp_total_attempts :: int
  rp_failed_attempts_sub :: int
  rp_repair_sub :: int

definition resolve_recovery_policy :: "int \<Rightarrow> int \<Rightarrow> int \<Rightarrow> recovery_policy" where
  "resolve_recovery_policy tot failed repairs = \<lparr>rp_total_attempts = (if tot \<noteq> 0 then tot else max (max 3 failed) (repairs + 1)),
     rp_failed_attempts_sub = failed, rp_repair_sub = repairs\<rparr>"

section \<open>The transition of a task\<close>

definition eligible :: "task \<Rightarrow> transition_definition \<Rightarrow> bool" where
  "eligible t tr \<longleftrightarrow> td_task_type tr = t_task_type t \<and> td_from_state tr = t_current_state t \<and> td_worker tr \<noteq> None"

definition has_scheduler_eligible_transition :: "task \<Rightarrow> workflow_definition \<Rightarrow> bool" where
  "has_scheduler_eligible_transition t w \<longleftrightarrow> list_ex (eligible t) (map snd (wf_transitions w))"

definition select_scheduler_transition :: "task \<Rightarrow> workflow_definition \<Rightarrow> domain_error + transition_definition" where
  "select_scheduler_transition t w = (case filter (eligible t) (map snd (wf_transitions w)) of
      [] \<Rightarrow> Inl (derror ''scheduler.no_transition'' [Txt ''Task '', ReprS (t_id t), Txt '' has no scheduler-eligible transition from state '', ReprS (t_current_state t), Txt ''.''] (Some (t_id t)))
    | [tr] \<Rightarrow> Inr tr
    | trs \<Rightarrow> (case filter td_default_for_scheduler trs of
          [tr] \<Rightarrow> Inr tr
        | _ \<Rightarrow> Inl (derror ''scheduler.ambiguous_transition'' [Txt ''Task '', ReprS (t_id t), Txt '' has multiple scheduler-eligible transitions and no single default.''] (Some (t_id t)))))"

section \<open>Dependencies\<close>

text \<open>What the check of dependencies may use; an absent store, project or journal directory is
  \<open>None\<close>, and so are the source identities and the identity of the repository.\<close>

record dependency_env =
  de_project :: "string option"
  de_jobs :: "job_store option"
  de_journals :: "journal_store option"
  de_identity :: "string option"
  de_sources :: "(task \<Rightarrow> transition_definition \<Rightarrow> (string \<times> string) list) option"
  de_evidence :: evidence_env
  de_clock :: clock

definition source_identities_of :: "dependency_env \<Rightarrow> task \<Rightarrow> workflow_definition \<Rightarrow> execution_job \<Rightarrow> (string \<times> string) list" where
  "source_identities_of de t w j = (case (de_sources de, dict_get (wf_transitions w) (j_transition_id j)) of
     (Some f, Some tr) \<Rightarrow> f t tr | _ \<Rightarrow> [])"

definition dependency_accepted_repo_identity :: "dependency_env \<Rightarrow> job_store \<Rightarrow> string \<Rightarrow> task \<Rightarrow> workflow_definition \<Rightarrow> string
    \<Rightarrow> pyexc + (string option \<times> bool)" where
  "dependency_accepted_repo_identity de s pid t w tid = bind_sum (list_jobs s) (\<lambda>listed.
     if \<not> jr_accepted listed then Inr (None, False)
     else let accepted = filter (\<lambda>j. j_project_id j = pid \<and> j_task_id j = tid \<and> jstatus_value (j_status j) = ''accepted'') (jr_jobs listed)
       in bind_sum (filter_sum (\<lambda>j. accepted_task_evidence (de_evidence de) j t w (de_journals de) (source_identities_of de t w j) None) accepted)
         (\<lambda>js. Inr (case latest_job (de_clock de) js of
             None \<Rightarrow> (None, False)
           | Some latest \<Rightarrow> (case fmlookup (j_metadata latest) ''acceptance_repository_identity'' of Some (JStr i) \<Rightarrow> Some i | _ \<Rightarrow> None, True))))"

definition missing_evidence :: "dependency_env \<Rightarrow> string list" where
  "missing_evidence de = (if de_jobs de = None then [''job store''] else []) @ (if de_project de = None then [''project context''] else [])
     @ (if de_journals de = None then [''transaction journal''] else [])"

definition one_dependency_error :: "dependency_env \<Rightarrow> task \<Rightarrow> project_snapshot \<Rightarrow> workflow_definition \<Rightarrow> string \<Rightarrow> pyexc + domain_error option" where
  "one_dependency_error de t snap w d = (case dict_get (snap_tasks snap) d of
      None \<Rightarrow> Inr (Some (derror ''task.dependency_missing'' [Txt ''Task '', ReprS (t_id t), Txt '' depends on missing task '', ReprS d, Txt ''.''] (Some (t_id t))))
    | Some dep \<Rightarrow>
        let out = dependency_outcome w (t_task_type dep) (t_current_state dep)
        in if out = ''ambiguous''
           then Inr (Some (derror ''task.dependency_outcome_ambiguous'' [Txt ''Dependency '', ReprS d, Txt '' is in state '', ReprS (t_current_state dep),
             Txt '' without a declared terminal outcome; declare terminal_outcome (success|failure|cancelled) before admitting dependent work.''] (Some (t_id t))))
           else if out = ''unmet''
           then Inr (Some (derror ''task.dependency_unmet'' [Txt ''Task '', ReprS (t_id t), Txt '' depends on unfinished task '', ReprS d, Txt ''.''] (Some (t_id t))))
           else if out = ''failure'' \<or> out = ''cancelled''
           then Inr (Some (derror ''task.dependency_failed'' [Txt ''Task '', ReprS (t_id t), Txt '' depends on task '', ReprS d, Txt '' which finished in a declared '', Txt out,
             Txt '' terminal state; dependent work must not advance against a failed/cancelled dependency.''] (Some (t_id t))))
           else (case (de_jobs de, de_project de, de_journals de) of
               (Some s, Some pid, Some _) \<Rightarrow>
                 bind_sum (dependency_accepted_repo_identity de s pid dep w d) (\<lambda>(recorded, accepted). Inr (
                   if \<not> accepted
                   then Some (derror ''task.dependency_not_accepted'' [Txt ''Task '', ReprS (t_id t), Txt '' depends on task '', ReprS d,
                     Txt '' which reached its declared success terminal without a recorded accepted completion; refusing to admit a dependent against a board-column-only or stale state change.''] (Some (t_id t)))
                   else if recorded \<noteq> None \<and> de_identity de \<noteq> None \<and> recorded \<noteq> de_identity de
                   then Some (derror ''task.dependency_repo_moved'' [Txt ''Dependency '', ReprS d, Txt '' was accepted into repository identity '', Txt (the recorded),
                     Txt '', but the integration target now resolves to '', Txt (the (de_identity de)), Txt ''; refusing to admit a dependent against a stale source identity.''] (Some (t_id t)))
                   else None))
             | _ \<Rightarrow> Inr (Some (derror ''task.dependency_evidence_unavailable'' [Txt ''Task '', ReprS (t_id t), Txt '' depends on task '', ReprS d, Txt '' which finished in a declared '', ReprS out,
                 Txt '' terminal, but required acceptance evidence is unavailable (missing: '', Txt (join '', '' (missing_evidence de)), Txt ''); refusing to admit dependent work without committed evidence.''] (Some (t_id t))))))"

fun dependency_errors_from :: "dependency_env \<Rightarrow> task \<Rightarrow> project_snapshot \<Rightarrow> workflow_definition \<Rightarrow> string list \<Rightarrow> pyexc + domain_error option" where
  "dependency_errors_from de t snap w [] = Inr None"
| "dependency_errors_from de t snap w (d # ds) = bind_sum (one_dependency_error de t snap w d) (\<lambda>e.
     case e of Some err \<Rightarrow> Inr (Some err) | None \<Rightarrow> dependency_errors_from de t snap w ds)"

definition dependency_error :: "dependency_env \<Rightarrow> task \<Rightarrow> project_snapshot \<Rightarrow> workflow_definition \<Rightarrow> pyexc + domain_error option" where
  "dependency_error de t snap w = dependency_errors_from de t snap w (t_dependencies t)"

end
