(* ===== verification/TaskManager.thy ===== *)
theory TaskManager
  imports Admission Context Events TaskSchema
begin

text \<open>
  \<open>runtime/task_manager.py\<close>: the commands that move a task, validate a project and create a
  job.  Freezing what a new job will work on (the contract compiler, the prompt compilers and
  the planning snapshot) is a parameter: it gives errors, or metadata for the job and the
  digest of the contract.  Reads of the tracker are parameters; a command reads one state.
\<close>

section \<open>Data\<close>

record load_project_result =
  lp_errors :: "domain_error list"
  lp_snapshot :: "project_snapshot option"

record adapter =
  ad_load :: load_project_result
  ad_read :: "string \<Rightarrow> read_task_result"

record command_result =
  cr_accepted :: bool
  cr_errors :: "domain_error list"
  cr_events :: "event_envelope list"
  cr_effects :: "meta list"
  cr_job :: "execution_job option"

definition refused :: "domain_error list \<Rightarrow> command_result" where
  "refused es = \<lparr>cr_accepted = False, cr_errors = es, cr_events = [], cr_effects = [], cr_job = None\<rparr>"

record frozen_work_data =
  fz_metadata :: meta
  fz_contract_sha :: "string option"

record manager =
  tm_workflow :: workflow_definition
  tm_adapter :: adapter
  tm_history :: "job_store option"
  tm_writes :: bool
  tm_files :: "file_view option"
  tm_journals :: journal_store
  tm_identity :: "string option"
  tm_evidence :: evidence_env
  tm_clock :: clock
  tm_freeze :: "task \<Rightarrow> transition_definition \<Rightarrow> string \<Rightarrow> pyexc + (domain_error list + frozen_work_data)"

text \<open>What a command draws from outside: identifiers in the order of their use, the time, the
  completion token, the fate of the write of the job.\<close>

record tm_draws =
  tw_ulid :: "nat \<Rightarrow> string"
  tw_now :: string
  tw_token :: string
  tw_job_write :: op_env

definition default_actor :: event_actor where
  "default_actor = \<lparr>actor_type = ''system'', actor_id = ''task-manager''\<rparr>"

definition manager_event :: "tm_draws \<Rightarrow> nat \<Rightarrow> string \<Rightarrow> event_actor \<Rightarrow> event_type \<Rightarrow> string option \<Rightarrow> string option \<Rightarrow> string option \<Rightarrow> meta \<Rightarrow> event_envelope" where
  "manager_event d n pid actor et tid trid jid data =
     build_event (tw_ulid d (Suc n)) (tw_now d) pid actor (Inl et) (tw_ulid d n) None None tid jid trid None data"

section \<open>Requirements of a state\<close>

definition has_artifact_link :: "string list \<Rightarrow> string \<Rightarrow> bool" where
  "has_artifact_link links at \<longleftrightarrow> list_ex (\<lambda>l. at \<in> set (path_parts l) \<or> l = at) links"

definition validate_task_state_requirements :: "task \<Rightarrow> string \<Rightarrow> workflow_definition \<Rightarrow> domain_error list" where
  "validate_task_state_requirements t st w = (case dict_get (wf_task_types w) (t_task_type t) of
      None \<Rightarrow> []
    | Some tt \<Rightarrow> (case dict_get (ttd_requirements_by_state tt) st of
          None \<Rightarrow> []
        | Some req \<Rightarrow> map (\<lambda>at. derror ''task.required_artifact_missing'' [Txt ''Task '', ReprS (t_id t), Txt '' in state '', ReprS st, Txt '' requires artifact '', ReprS at, Txt ''.''] (Some (t_id t)))
            (filter (\<lambda>at. \<not> has_artifact_link (t_artifact_links t) at) (rd_artifacts req))))"

definition validate_snapshot_task :: "workflow_definition \<Rightarrow> task \<Rightarrow> domain_error list" where
  "validate_snapshot_task w t =
     (if \<not> dict_has (wf_task_types w) (t_task_type t)
      then [derror ''task.unknown_type'' [Txt ''Task '', ReprS (t_id t), Txt '' uses unknown task type '', ReprS (t_task_type t), Txt ''.''] (Some (t_id t))] else [])
   @ (if \<not> dict_has (wf_states w) (t_current_state t)
      then [derror ''task.unknown_state'' [Txt ''Task '', ReprS (t_id t), Txt '' is in unknown state '', ReprS (t_current_state t), Txt ''.''] (Some (t_id t))] else [])
   @ (if dict_has (wf_task_types w) (t_task_type t) \<and> dict_has (wf_states w) (t_current_state t)
      then validate_task_state_requirements t (t_current_state t) w else [])"

definition validate_snapshot_against_workflow :: "project_snapshot \<Rightarrow> workflow_definition \<Rightarrow> domain_error list" where
  "validate_snapshot_against_workflow snap w = concat (map (validate_snapshot_task w \<circ> snd) (snap_tasks snap))"

definition snapshot_missing :: domain_error where
  "snapshot_missing = derror ''project.snapshot_missing'' [Txt ''Adapter returned no project snapshot.''] None"

definition load_snapshot :: "adapter \<Rightarrow> domain_error list + project_snapshot" where
  "load_snapshot ad = (if lp_errors (ad_load ad) \<noteq> [] then Inl (lp_errors (ad_load ad))
     else case lp_snapshot (ad_load ad) of None \<Rightarrow> Inl [snapshot_missing] | Some s \<Rightarrow> Inr s)"

definition validate_project :: "manager \<Rightarrow> command_result" where
  "validate_project m = (case load_snapshot (tm_adapter m) of
      Inl es \<Rightarrow> refused es
    | Inr snap \<Rightarrow> let es = validate_snapshot_against_workflow snap (tm_workflow m)
        in \<lparr>cr_accepted = (es = []), cr_errors = es, cr_events = [], cr_effects = [], cr_job = None\<rparr>)"

section \<open>Lineage\<close>

text \<open>The walk over the parents may only end because tasks run out, so it is a partial function;
  \<open>None\<close> is a walk that never ends.\<close>

definition parent_cycle :: "string \<Rightarrow> string \<Rightarrow> domain_error" where
  "parent_cycle tid c = derror ''task.parent_cycle'' [Txt ''Task '', ReprS tid, Txt '' has a cyclic parent lineage at '', ReprS c, Txt ''; parent context cannot be resolved.''] (Some tid)"

definition parent_unavailable :: "string \<Rightarrow> string \<Rightarrow> domain_error" where
  "parent_unavailable tid c = derror ''task.parent_unavailable'' [Txt ''Task '', ReprS tid, Txt '' requires parent '', ReprS c,
     Txt '', which could not be read; restore the parent context before creating the job.''] (Some c)"

partial_function (option) lineage_walk :: "(string \<Rightarrow> read_task_result) \<Rightarrow> string \<Rightarrow> string list \<Rightarrow> string option \<Rightarrow> domain_error list option" where
  "lineage_walk rd tid seen cur =
     (if cur = None \<or> cur = Some [] then Some []
      else if the cur \<in> set seen then Some [parent_cycle tid (the cur)]
      else if readable_task rd (the cur) = None then Some (parent_unavailable tid (the cur) # rtr_errors (rd (the cur)))
      else lineage_walk rd tid (the cur # seen) (t_parent_id (the (readable_task rd (the cur)))))"

declare lineage_walk.simps [code]

definition validate_parent_lineage :: "(string \<Rightarrow> read_task_result) \<Rightarrow> task \<Rightarrow> domain_error list option" where
  "validate_parent_lineage rd t = lineage_walk rd (t_id t) [] (t_parent_id t)"

section \<open>Moving a task\<close>

definition source_identities :: "manager \<Rightarrow> task \<Rightarrow> transition_definition \<Rightarrow> (string \<times> string) list" where
  "source_identities m t tr = (case tm_files m of None \<Rightarrow> []
     | Some fv \<Rightarrow> resolve_source_content_identities fv t tr (load_parent_tasks (ad_read (tm_adapter m)) t))"

definition manual_evidence :: "manager \<Rightarrow> string \<Rightarrow> task \<Rightarrow> transition_definition \<Rightarrow> execution_job \<Rightarrow> pyexc + bool" where
  "manual_evidence m pid t tr j =
     (if job_of pid (t_id t) (td_id tr) j \<and> jstatus_value (j_status j) = ''accepted''
         \<and> json_truthy (jget (j_metadata j) ''acceptance_transaction_id'' JNull)
      then accepted_task_evidence (tm_evidence m) j t (tm_workflow m) (if tm_files m = None then None else Some (tm_journals m))
             (source_identities m t tr) (Some (td_to_state tr))
      else Inr False)"

definition manual_message :: "string \<Rightarrow> task \<Rightarrow> transition_definition \<Rightarrow> domain_error" where
  "manual_message c t tr =
     (if c = ''manual.implementation_acceptance_unverifiable''
      then derror c [Txt ''Manual transition '', ReprS (td_id tr), Txt '' would move task '', ReprS (t_id t), Txt '' to success state '', ReprS (td_to_state tr),
        Txt '', which requires a verified implementation with committed delivery, but no recorded job store is available to confirm that evidence. Refusing to fabricate verified success; the code/task/board state is left intact.''] (Some (t_id t))
      else if c = ''manual.implementation_acceptance_unreadable''
      then derror c [Txt ''Manual transition '', ReprS (td_id tr), Txt '' cannot confirm acceptance evidence.''] (Some (t_id t))
      else derror c [Txt ''Manual transition '', ReprS (td_id tr), Txt '' would move task '', ReprS (t_id t), Txt '' to success state '', ReprS (td_to_state tr),
        Txt '', which requires a verified implementation with committed delivery. No accepted verification/delivery record exists for this task and transition. The code/task/board state is left intact; run the scheduled implementation so it can be verified and delivered before moving the card.''] (Some (t_id t)))"

definition manual_implementation_acceptance_error :: "manager \<Rightarrow> string \<Rightarrow> task \<Rightarrow> transition_definition \<Rightarrow> pyexc + domain_error option" where
  "manual_implementation_acceptance_error m pid t tr =
     (if terminal_outcome_of (tm_workflow m) (td_to_state tr) \<noteq> Some SUCCESS then Inr None
      else if td_worker tr = None \<and> \<not> task_uses_global_contract t (tm_workflow m) then Inr None
      else (case tm_history m of
          None \<Rightarrow> Inr (Some (manual_message ''manual.implementation_acceptance_unverifiable'' t tr))
        | Some s \<Rightarrow> bind_sum (list_jobs s) (\<lambda>listed.
            if \<not> jr_accepted listed then Inr (Some (manual_message ''manual.implementation_acceptance_unreadable'' t tr))
            else bind_sum (filter_sum (manual_evidence m pid t tr) (jr_jobs listed)) (\<lambda>found.
              Inr (if found \<noteq> [] then None else Some (manual_message ''manual.implementation_require_acceptance'' t tr))))))"

definition transition_guards :: "task \<Rightarrow> transition_definition \<Rightarrow> domain_error list" where
  "transition_guards t tr =
     (if td_task_type tr \<noteq> t_task_type t
      then [derror ''transition.task_type_mismatch'' [Txt ''Transition '', ReprS (td_id tr), Txt '' expects task type '', ReprS (td_task_type tr), Txt ''.''] (Some (t_id t))]
      else if td_from_state tr \<noteq> t_current_state t
      then [derror ''transition.state_mismatch'' [Txt ''Transition '', ReprS (td_id tr), Txt '' requires state '', ReprS (td_from_state tr), Txt ''.''] (Some (t_id t))]
      else [])"

definition task_not_found :: "string \<Rightarrow> domain_error" where
  "task_not_found i = derror ''task.not_found'' [Txt ''Task '', ReprS i, Txt '' was not found.''] (Some i)"

definition transition_not_found :: "string \<Rightarrow> domain_error" where
  "transition_not_found i = derror ''transition.not_found'' [Txt ''Transition '', ReprS i, Txt '' is not defined.''] (Some i)"

definition request_transition :: "manager \<Rightarrow> tm_draws \<Rightarrow> event_actor \<Rightarrow> string \<Rightarrow> string \<Rightarrow> string \<Rightarrow> pyexc + command_result" where
  "request_transition m d actor pid tid trid = (case load_snapshot (tm_adapter m) of
      Inl es \<Rightarrow> Inr (refused es)
    | Inr snap \<Rightarrow> (case dict_get (snap_tasks snap) tid of
        None \<Rightarrow> Inr (refused [task_not_found tid])
      | Some t \<Rightarrow> (case dict_get (wf_transitions (tm_workflow m)) trid of
          None \<Rightarrow> Inr (refused [transition_not_found trid])
        | Some tr \<Rightarrow>
            let guards = transition_guards t tr; missing = validate_task_state_requirements t (td_to_state tr) (tm_workflow m)
            in if guards \<noteq> [] then Inr (refused guards)
               else if missing \<noteq> [] then Inr (refused missing)
               else bind_sum (manual_implementation_acceptance_error m pid t tr) (\<lambda>e. case e of
                   Some err \<Rightarrow> Inr (refused [err])
                 | None \<Rightarrow>
                     let move = fmap_of_list [(''from'', JStr (td_from_state tr)), (''to'', JStr (td_to_state tr))]
                     in Inr \<lparr>cr_accepted = True, cr_errors = [],
                       cr_events = [manager_event d 0 pid actor TransitionAccepted (Some (t_id t)) (Some (td_id tr)) None move,
                                    manager_event d 2 pid actor TaskMoved (Some (t_id t)) (Some (td_id tr)) None move],
                       cr_effects = [fmap_of_list [(''type'', JStr ''move_task''), (''task_id'', JStr (t_id t)),
                          (''from_state'', JStr (td_from_state tr)), (''to_state'', JStr (td_to_state tr))]],
                       cr_job = None\<rparr>))))"

section \<open>Creating a job\<close>

record create_command =
  cc_project :: string
  cc_task :: string
  cc_transition :: string
  cc_workspace_root :: string
  cc_job_id :: "string option"
  cc_actor :: event_actor

definition manager_dependencies :: "manager \<Rightarrow> string \<Rightarrow> dependency_env" where
  "manager_dependencies m pid = \<lparr>de_project = Some pid, de_jobs = tm_history m,
     de_journals = (if tm_files m = None then None else Some (tm_journals m)), de_identity = tm_identity m,
     de_sources = (if tm_files m = None then None else Some (source_identities m)), de_evidence = tm_evidence m, de_clock = tm_clock m\<rparr>"

definition job_to_dict :: "execution_job \<Rightarrow> meta" where
  "job_to_dict j = fmap_of_list [(''job_id'', JStr (j_job_id j)), (''project_id'', JStr (j_project_id j)), (''task_id'', JStr (j_task_id j)),
     (''transition_id'', JStr (j_transition_id j)), (''worker_id'', JStr (j_worker_id j)), (''workspace_path'', JStr (j_workspace_path j)),
     (''status'', JStr (jstatus_value (j_status j))), (''attempts'', JInt (j_attempts j)), (''metadata'', JObj (j_metadata j))]"

text \<open>The checks before anything is frozen: \<open>None\<close> is a lineage walk that never ends.\<close>

definition create_guards :: "manager \<Rightarrow> create_command \<Rightarrow> (pyexc + (domain_error list + task \<times> transition_definition)) option" where
  "create_guards m c = (case load_snapshot (tm_adapter m) of
      Inl es \<Rightarrow> Some (Inr (Inl es))
    | Inr snap \<Rightarrow> (case dict_get (snap_tasks snap) (cc_task c) of
        None \<Rightarrow> Some (Inr (Inl [task_not_found (cc_task c)]))
      | Some t \<Rightarrow>
          let structure = validate_task_structure (t_body t) (Some (t_path t)) False
          in if structure \<noteq> [] then Some (Inr (Inl structure))
             else (case dict_get (wf_transitions (tm_workflow m)) (cc_transition c) of
                 None \<Rightarrow> Some (Inr (Inl [transition_not_found (cc_transition c)]))
               | Some tr \<Rightarrow>
                   if transition_guards t tr \<noteq> [] then Some (Inr (Inl (transition_guards t tr)))
                   else if td_worker tr = None
                   then Some (Inr (Inl [derror ''transition.worker_missing'' [Txt ''Transition '', ReprS (td_id tr), Txt '' has no worker.''] (Some (td_id tr))]))
                   else (case dependency_error (manager_dependencies m (cc_project c)) t snap (tm_workflow m) of
                       Inl x \<Rightarrow> Some (Inl x)
                     | Inr (Some e) \<Rightarrow> Some (Inr (Inl [e]))
                     | Inr None \<Rightarrow> (case validate_parent_lineage (ad_read (tm_adapter m)) t of
                           None \<Rightarrow> None
                         | Some lineage \<Rightarrow>
                             if lineage \<noteq> [] then Some (Inr (Inl lineage))
                             else if tm_files m = None \<and> task_uses_global_contract t (tm_workflow m)
                             then Some (Inr (Inl [derror ''execution_contract.project_root_missing'' [Txt ''Global-contract execution requires a project tracker root.''] (Some (t_id t))]))
                             else Some (Inr (Inr (t, tr))))))))"

definition new_job :: "manager \<Rightarrow> tm_draws \<Rightarrow> create_command \<Rightarrow> string \<Rightarrow> transition_definition \<Rightarrow> frozen_work_data \<Rightarrow> execution_job" where
  "new_job m d c jid tr fz = (let workspace = cc_workspace_root c @ ''/'' @ jid
     in \<lparr>j_job_id = jid, j_project_id = cc_project c, j_task_id = cc_task c, j_transition_id = cc_transition c,
         j_worker_id = the (td_worker tr), j_workspace_path = workspace, j_status = Inl PENDING, j_attempts = 0,
         j_metadata = fmap_of_list [(''completion_token'', JStr (tw_token d)), (''output_path'', JStr (workspace @ ''/output''))]
           ++\<^sub>f (case tm_identity m of None \<Rightarrow> fmempty | Some i \<Rightarrow> fmap_of_list [(''repository_identity'', JStr i)]) ++\<^sub>f fz_metadata fz\<rparr>)"

definition created_result :: "tm_draws \<Rightarrow> create_command \<Rightarrow> frozen_work_data \<Rightarrow> execution_job \<Rightarrow> command_result" where
  "created_result d c fz job = \<lparr>cr_accepted = True, cr_errors = [],
     cr_events = [manager_event d 0 (cc_project c) (cc_actor c) ExecutionJobCreated (Some (cc_task c)) (Some (cc_transition c)) (Some (j_job_id job))
        (put_opt ''execution_contract_sha256'' (fz_contract_sha fz)
          (fmap_of_list [(''worker_id'', JStr (j_worker_id job)), (''workspace_path'', JStr (j_workspace_path job))]))],
     cr_effects = [fmap_of_list [(''type'', JStr ''create_execution_job''), (''job'', JObj (job_to_dict job))]], cr_job = Some job\<rparr>"

type_synonym command_outcome = "(pyexc + command_result) \<times> job_store option"

definition save_new_job :: "manager \<Rightarrow> tm_draws \<Rightarrow> create_command \<Rightarrow> frozen_work_data \<Rightarrow> execution_job \<Rightarrow> command_outcome" where
  "save_new_job m d c fz job = (case tm_history m of
      Some s \<Rightarrow>
        if \<not> tm_writes m then (Inr (created_result d c fz job), Some s)
        else (case create (tw_job_write d) job s of
            (Inl x, s') \<Rightarrow> (Inl x, Some s')
          | (Inr saved, s') \<Rightarrow>
              (case jr_error saved of
                 Some e \<Rightarrow> (Inr (refused [e]), Some s')
               | None \<Rightarrow> (Inr (created_result d c fz (case jr_job saved of None \<Rightarrow> job | Some j \<Rightarrow> j)), Some s')))
    | None \<Rightarrow> (Inr (created_result d c fz job), None))"

definition create_execution_job :: "manager \<Rightarrow> tm_draws \<Rightarrow> create_command \<Rightarrow> command_outcome option" where
  "create_execution_job m d c = (case create_guards m c of
      None \<Rightarrow> None
    | Some (Inl x) \<Rightarrow> Some (Inl x, tm_history m)
    | Some (Inr (Inl es)) \<Rightarrow> Some (Inr (refused es), tm_history m)
    | Some (Inr (Inr (t, tr))) \<Rightarrow>
        let jid = the (py_or (cc_job_id c) (Some (tw_ulid d 2)))
        in (case tm_freeze m t tr jid of
              Inl x \<Rightarrow> Some (Inl x, tm_history m)
            | Inr (Inl es) \<Rightarrow> Some (Inr (refused es), tm_history m)
            | Inr (Inr fz) \<Rightarrow> Some (save_new_job m d c fz (new_job m d c jid tr fz))))"

definition record_execution_result :: "tm_draws \<Rightarrow> event_actor \<Rightarrow> string \<Rightarrow> string \<Rightarrow> bool \<Rightarrow> string \<Rightarrow> meta \<Rightarrow> command_result" where
  "record_execution_result d actor pid jid ok text data = \<lparr>cr_accepted = True, cr_errors = [],
     cr_events = [manager_event d 0 pid actor (if ok then ExecutionFinished else ExecutionFailed) None None (Some jid)
       (fmap_of_list [(''message'', JStr text)] ++\<^sub>f data)],
     cr_effects = [], cr_job = None\<rparr>"

end
