(* ===== verification/TaskManagerFacts.thy ===== *)
theory TaskManagerFacts
  imports TaskManager ContextFacts
begin

text \<open>
  Laws of the commands: the lineage check ends on finitely many tasks and decides whether the
  parents lead to a root, the lineage it accepts is what the context loads, and no command
  moves a task by hand into a declared success without evidence of acceptance.
\<close>

section \<open>Lineage\<close>

text \<open>The ancestors from a parent reference up to a root, nearest first.\<close>

inductive chain :: "(string \<Rightarrow> read_task_result) \<Rightarrow> string option \<Rightarrow> task list \<Rightarrow> bool" for rd where
  chain_none: "chain rd None []"
| chain_empty: "chain rd (Some []) []"
| chain_step: "c \<noteq> [] \<Longrightarrow> readable_task rd c = Some p \<Longrightarrow> chain rd (t_parent_id p) ts \<Longrightarrow> chain rd (Some c) (p # ts)"

inductive_cases chain_SomeE: "chain rd (Some c) ts"

inductive_simps chain_root_iff [simp]: "chain rd None ts" "chain rd (Some []) ts"

lemma chain_unique: "chain rd cur ts \<Longrightarrow> chain rd cur ts' \<Longrightarrow> ts = ts'"
proof (induction arbitrary: ts' rule: chain.induct)
  case (chain_step c p ts)
  from chain_step(5) show ?case
  proof (rule chain_SomeE)
    fix p' ts'' assume "ts' = p' # ts''" "readable_task rd c = Some p'" "chain rd (t_parent_id p') ts''"
    with chain_step(2,4) show ?thesis by simp
  qed (use chain_step(1) in simp)
qed simp_all

text \<open>Every task seen so far is above the current one, strictly.\<close>

definition above :: "(string \<Rightarrow> read_task_result) \<Rightarrow> string set \<Rightarrow> string option \<Rightarrow> bool" where
  "above rd seen cur \<longleftrightarrow> (\<forall>s \<in> seen. \<forall>ts. chain rd cur ts \<longrightarrow> (\<exists>ts'. chain rd (Some s) ts' \<and> length ts < length ts'))"

lemma above_step:
  assumes "above rd seen (Some c)" "c \<noteq> []" "readable_task rd c = Some p"
  shows "above rd (insert c seen) (t_parent_id p)"
  unfolding above_def
proof (intro ballI allI impI)
  fix s ts assume s: "s \<in> insert c seen" and ts: "chain rd (t_parent_id p) ts"
  have here: "chain rd (Some c) (p # ts)" by (rule chain_step [OF assms(2,3) ts])
  show "\<exists>ts'. chain rd (Some s) ts' \<and> length ts < length ts'"
  proof (cases "s = c")
    case True
    with here show ?thesis by fastforce
  next
    case False
    with s assms(1) here show ?thesis unfolding above_def by fastforce
  qed
qed

lemma above_cycle: "above rd seen (Some c) \<Longrightarrow> c \<in> seen \<Longrightarrow> \<not> chain rd (Some c) ts"
  unfolding above_def using chain_unique by fastforce

lemma lineage_walk_decides:
  assumes "finite {c. readable_task rd c \<noteq> None}" "set seen \<subseteq> {c. readable_task rd c \<noteq> None}" "above rd (set seen) cur"
  shows "\<exists>r. lineage_walk rd tid seen cur = Some r \<and> (r = [] \<longleftrightarrow> (\<exists>ts. chain rd cur ts))"
  using assms(2,3)
proof (induction "card ({c. readable_task rd c \<noteq> None} - set seen)" arbitrary: seen cur rule: less_induct)
  case less
  let ?R = "{c. readable_task rd c \<noteq> None}"
  show ?case
  proof (cases "cur = None \<or> cur = Some []")
    case True
    then have "\<exists>ts. chain rd cur ts" by auto
    with True show ?thesis by (simp add: lineage_walk.simps)
  next
    case False
    then obtain c where c: "cur = Some c" "c \<noteq> []" by auto
    show ?thesis
    proof (cases "c \<in> set seen")
      case True
      with above_cycle [of rd "set seen" c] less(3) c have "\<not> chain rd cur ts" for ts by simp
      with True c show ?thesis by (simp add: lineage_walk.simps)
    next
      case new: False
      show ?thesis
      proof (cases "readable_task rd c")
        case None
        then have "\<not> chain rd cur ts" for ts unfolding c by (auto elim: chain_SomeE simp: c(2))
        with None new c show ?thesis by (simp add: lineage_walk.simps)
      next
        case (Some p)
        have walk: "lineage_walk rd tid seen cur = lineage_walk rd tid (c # seen) (t_parent_id p)"
          using c new Some by (subst lineage_walk.simps) simp
        have sub: "set (c # seen) \<subseteq> ?R" using less(2) Some by auto
        have "?R - set (c # seen) \<subset> ?R - set seen" using Some new by auto
        then have smaller: "card (?R - set (c # seen)) < card (?R - set seen)"
          using assms(1) by (intro psubset_card_mono) auto
        have "above rd (set (c # seen)) (t_parent_id p)" using above_step [of rd "set seen" c p] less(3) c Some by simp
        from less(1) [OF smaller sub this] obtain r where
          r: "lineage_walk rd tid (c # seen) (t_parent_id p) = Some r" "r = [] \<longleftrightarrow> (\<exists>ts. chain rd (t_parent_id p) ts)" by blast
        have "(\<exists>ts. chain rd cur ts) \<longleftrightarrow> (\<exists>ts. chain rd (t_parent_id p) ts)"
          unfolding c using Some c(2) by (auto elim!: chain_SomeE intro: chain_step)
        with r show ?thesis unfolding walk by simp
      qed
    qed
  qed
qed

text \<open>
  C38. As long as only finitely many tasks can be read, the lineage check always ends, and it is
  free of errors exactly when the parents of the task, all readable, lead up to a root: a cycle
  anywhere above the task and a missing ancestor are both refused.
\<close>

theorem lineage_check_terminates:
  assumes "finite {c. readable_task rd c \<noteq> None}"
  shows "\<exists>r. validate_parent_lineage rd t = Some r \<and> (r = [] \<longleftrightarrow> (\<exists>ts. chain rd (t_parent_id t) ts))"
  unfolding validate_parent_lineage_def by (rule lineage_walk_decides [OF assms]) (simp_all add: above_def)

text \<open>A tracker of three tasks: a child, its parent, which is the root, and a task in a cycle.\<close>

definition family :: "string \<Rightarrow> read_task_result" where
  "family i = (let t = plain_task [] in
     if i = ''a'' then \<lparr>rtr_errors = [], rtr_task = Some (t\<lparr>t_id := ''a'', t_parent_id := Some ''b''\<rparr>)\<rparr>
     else if i = ''b'' then \<lparr>rtr_errors = [], rtr_task = Some (t\<lparr>t_id := ''b'', t_parent_id := None\<rparr>)\<rparr>
     else if i = ''c'' then \<lparr>rtr_errors = [], rtr_task = Some (t\<lparr>t_id := ''c'', t_parent_id := Some ''c''\<rparr>)\<rparr>
     else \<lparr>rtr_errors = [derror ''task.not_found'' [] None], rtr_task = None\<rparr>)"

lemma family_readable:
  "readable_task family ''a'' = Some ((plain_task [])\<lparr>t_id := ''a'', t_parent_id := Some ''b''\<rparr>)"
  "readable_task family ''b'' = Some ((plain_task [])\<lparr>t_id := ''b'', t_parent_id := None\<rparr>)"
  "readable_task family ''c'' = Some ((plain_task [])\<lparr>t_id := ''c'', t_parent_id := Some ''c''\<rparr>)"
  by (simp_all add: readable_task_def family_def)

lemma family_finite: "finite {c. readable_task family c \<noteq> None}"
proof (rule finite_subset)
  show "{c. readable_task family c \<noteq> None} \<subseteq> {''a'', ''b'', ''c''}"
    by (auto simp: readable_task_def family_def Let_def split: if_splits)
qed simp

theorem lineage_check_terminates_witness:
  "validate_parent_lineage family ((plain_task [])\<lparr>t_parent_id := Some ''a''\<rparr>) = Some []
   \<and> (\<exists>r. validate_parent_lineage family ((plain_task [])\<lparr>t_parent_id := Some ''c''\<rparr>) = Some r \<and> r \<noteq> [])"
proof -
  have "chain family (Some ''a'') [(plain_task [])\<lparr>t_id := ''a'', t_parent_id := Some ''b''\<rparr>, (plain_task [])\<lparr>t_id := ''b'', t_parent_id := None\<rparr>]"
    by (intro chain_step) (simp_all add: family_readable chain.intros)
  then have a: "validate_parent_lineage family ((plain_task [])\<lparr>t_parent_id := Some ''a''\<rparr>) = Some []"
    using lineage_check_terminates [OF family_finite, of "(plain_task [])\<lparr>t_parent_id := Some ''a''\<rparr>"] by auto
  have "cur \<noteq> Some ''c''" if "chain family cur ts" for cur ts
    using that by (induction rule: chain.induct) (auto simp: family_readable)
  then have "\<not> chain family (Some ''c'') ts" for ts by blast
  with lineage_check_terminates [OF family_finite, of "(plain_task [])\<lparr>t_parent_id := Some ''c''\<rparr>"] a show ?thesis by auto
qed

lemma parents_from_chain:
  assumes "chain rd cur ts" "above rd seen cur"
  shows "parents_from rd seen n cur = take (64 - n) ts"
  using assms
proof (induction arbitrary: seen n rule: chain.induct)
  case (chain_step c p ts)
  have "c \<notin> seen" using above_cycle [OF chain_step(5)] chain.chain_step [OF chain_step(1-3)] by blast
  moreover have "parents_from rd (insert c seen) (Suc n) (t_parent_id p) = take (64 - Suc n) ts"
    by (rule chain_step(4)) (rule above_step [OF chain_step(5,1,2)])
  ultimately show ?case
    using chain_step(1,2) by (subst parents_from.simps) (auto simp: take_Cons' Suc_diff_Suc not_le)
qed (simp_all add: parents_from.simps)

text \<open>
  The context of a stored task with a lineage that the check accepts holds its ancestors from
  the most distant of them down to its parent, as long as there are at most 64; of a longer
  lineage it holds the nearest 64 only, so that the original idea at the root is cut off
  although the check has accepted it.
\<close>

theorem lineage_loaded:
  assumes "readable_task rd (t_id t) = Some t" "t_id t \<noteq> []" "chain rd (t_parent_id t) ts"
  shows "load_parent_tasks rd t = rev (take 64 ts)"
proof -
  have "chain rd (Some (t_id t)) (t # ts)" by (rule chain_step [OF assms(2,1,3)])
  then have "above rd {t_id t} (t_parent_id t)"
    unfolding above_def using chain_unique [OF assms(3)] by fastforce
  from parents_from_chain [OF assms(3) this, of 0] show ?thesis by (simp add: load_parent_tasks_def)
qed

theorem lineage_loaded_witness:
  "map t_id (load_parent_tasks (family(''k'' := \<lparr>rtr_errors = [], rtr_task = Some ((plain_task [])\<lparr>t_id := ''k'', t_parent_id := Some ''a''\<rparr>)\<rparr>))
     ((plain_task [])\<lparr>t_id := ''k'', t_parent_id := Some ''a''\<rparr>)) = [''b'', ''a'']"
proof -
  let ?k = "(plain_task [])\<lparr>t_id := ''k'', t_parent_id := Some ''a''\<rparr>"
  let ?rd = "family(''k'' := \<lparr>rtr_errors = [], rtr_task = Some ?k\<rparr>)"
  have r: "readable_task ?rd ''k'' = Some ?k" "readable_task ?rd ''a'' = readable_task family ''a''" "readable_task ?rd ''b'' = readable_task family ''b''"
    by (simp_all add: readable_task_def)
  have "chain ?rd (Some ''a'') [(plain_task [])\<lparr>t_id := ''a'', t_parent_id := Some ''b''\<rparr>, (plain_task [])\<lparr>t_id := ''b'', t_parent_id := None\<rparr>]"
    by (intro chain_step) (simp_all add: r family_readable chain.intros del: fun_upd_apply)
  with lineage_loaded [of ?rd ?k] r(1) show ?thesis by (simp del: fun_upd_apply)
qed

section \<open>Moving by hand\<close>

lemma request_transition_accepted:
  assumes "request_transition m d actor pid tid trid = Inr res" "cr_accepted res"
  shows "\<exists>snap t tr. lp_snapshot (ad_load (tm_adapter m)) = Some snap \<and> dict_get (snap_tasks snap) tid = Some t
     \<and> dict_get (wf_transitions (tm_workflow m)) trid = Some tr \<and> transition_guards t tr = []
     \<and> validate_task_state_requirements t (td_to_state tr) (tm_workflow m) = []
     \<and> manual_implementation_acceptance_error m pid t tr = Inr None
     \<and> map (etype_value \<circ> ev_type) (cr_events res) = [''TransitionAccepted'', ''TaskMoved'']
     \<and> cr_effects res = [fmap_of_list [(''type'', JStr ''move_task''), (''task_id'', JStr (t_id t)),
          (''from_state'', JStr (t_current_state t)), (''to_state'', JStr (td_to_state tr))]]"
proof -
  from assms obtain snap where snap: "load_snapshot (tm_adapter m) = Inr snap"
    by (cases "load_snapshot (tm_adapter m)") (auto simp: request_transition_def refused_def)
  from assms snap obtain t where t: "dict_get (snap_tasks snap) tid = Some t"
    by (cases "dict_get (snap_tasks snap) tid") (auto simp: request_transition_def refused_def)
  from assms snap t obtain tr where tr: "dict_get (wf_transitions (tm_workflow m)) trid = Some tr"
    by (cases "dict_get (wf_transitions (tm_workflow m)) trid") (auto simp: request_transition_def refused_def)
  have g: "transition_guards t tr = []" "validate_task_state_requirements t (td_to_state tr) (tm_workflow m) = []"
    using assms snap t tr by (auto simp: request_transition_def refused_def Let_def split: if_splits)
  then have e: "manual_implementation_acceptance_error m pid t tr = Inr None"
    using assms snap t tr by (auto simp: request_transition_def refused_def Let_def bind_sum_Inr_iff split: option.splits)
  have st: "td_from_state tr = t_current_state t" using g(1) by (auto simp: transition_guards_def split: if_splits)
  have "lp_snapshot (ad_load (tm_adapter m)) = Some snap"
    using snap by (auto simp: load_snapshot_def split: if_splits option.splits)
  with assms(1) snap t tr g e st show ?thesis
    by (auto simp: request_transition_def Let_def manager_event_def build_event_def etype_value_def)
qed

text \<open>
  C15. A transition requested by hand that is accepted starts in the current state of the task, and
  when it leads to a state declared as success and has a worker or belongs to an
  implementation task, the job store holds an accepted job of this project, task and transition
  whose committed journal is evidence of exactly this completion.
\<close>

theorem manual_success_needs_evidence:
  assumes "request_transition m d actor pid tid trid = Inr res" "cr_accepted res"
  shows "\<exists>snap t tr. lp_snapshot (ad_load (tm_adapter m)) = Some snap \<and> dict_get (snap_tasks snap) tid = Some t
     \<and> dict_get (wf_transitions (tm_workflow m)) trid = Some tr \<and> td_from_state tr = t_current_state t
     \<and> (terminal_outcome_of (tm_workflow m) (td_to_state tr) = Some SUCCESS \<and> (td_worker tr \<noteq> None \<or> task_uses_global_contract t (tm_workflow m))
        \<longrightarrow> (\<exists>s listed job. tm_history m = Some s \<and> list_jobs s = Inr listed \<and> job \<in> set (jr_jobs listed) \<and> job_of pid (t_id t) (td_id tr) job
              \<and> accepted_task_evidence (tm_evidence m) job t (tm_workflow m) (if tm_files m = None then None else Some (tm_journals m))
                  (source_identities m t tr) (Some (td_to_state tr)) = Inr True))"
proof -
  from request_transition_accepted [OF assms] obtain snap t tr where
    snap: "lp_snapshot (ad_load (tm_adapter m)) = Some snap" "dict_get (snap_tasks snap) tid = Some t"
    and tr: "dict_get (wf_transitions (tm_workflow m)) trid = Some tr" "transition_guards t tr = []"
    and e: "manual_implementation_acceptance_error m pid t tr = Inr None" by blast
  have st: "td_from_state tr = t_current_state t" using tr(2) by (auto simp: transition_guards_def split: if_splits)
  have "\<exists>s listed job. tm_history m = Some s \<and> list_jobs s = Inr listed \<and> job \<in> set (jr_jobs listed) \<and> job_of pid (t_id t) (td_id tr) job
      \<and> accepted_task_evidence (tm_evidence m) job t (tm_workflow m) (if tm_files m = None then None else Some (tm_journals m))
          (source_identities m t tr) (Some (td_to_state tr)) = Inr True"
    if need: "terminal_outcome_of (tm_workflow m) (td_to_state tr) = Some SUCCESS" "td_worker tr \<noteq> None \<or> task_uses_global_contract t (tm_workflow m)"
  proof -
    from e need obtain s listed found where f: "tm_history m = Some s" "list_jobs s = Inr listed"
      "filter_sum (manual_evidence m pid t tr) (jr_jobs listed) = Inr found" "found \<noteq> []"
      by (auto simp: manual_implementation_acceptance_error_def bind_sum_Inr_iff split: option.splits if_splits)
    then obtain job where "job \<in> set found" by (cases found) auto
    from filter_sum_Inr [OF f(3) this] have "job \<in> set (jr_jobs listed)" "manual_evidence m pid t tr job = Inr True" by auto
    with f(1,2) show ?thesis by (auto simp: manual_evidence_def split: if_splits)
  qed
  with snap tr(1) st show ?thesis by blast
qed

text \<open>A ready task whose job has been accepted, and one whose job has not.\<close>

definition store_of :: "execution_job list \<Rightarrow> job_store" where
  "store_of js = \<lparr>js_root = ''/jobs'', js_files = fmap_of_list (map (\<lambda>j. (j_job_id j, Stored (JObj (job_to_payload j)))) js)\<rparr>"

definition bare_files :: file_view where
  "bare_files = \<lparr>fv_root = [''p''], fv_resolve = id, fv_is_file = (\<lambda>_. False), fv_read = (\<lambda>_. None), fv_sha256 = id\<rparr>"

definition ready_task :: "string \<Rightarrow> task" where
  "ready_task i = (done_task i ''x'')\<lparr>t_current_state := ''ready''\<rparr>"

definition snapshot_of :: "task list \<Rightarrow> project_snapshot" where
  "snapshot_of ts = \<lparr>snap_project_id = ''p'', snap_tasks = map (\<lambda>t. (t_id t, t)) ts, snap_board_positions = []\<rparr>"

definition tracker_of :: "task list \<Rightarrow> adapter" where
  "tracker_of ts = \<lparr>ad_load = \<lparr>lp_errors = [], lp_snapshot = Some (snapshot_of ts)\<rparr>,
     ad_read = (\<lambda>i. case dict_get (snap_tasks (snapshot_of ts)) i of
        Some t \<Rightarrow> \<lparr>rtr_errors = [], rtr_task = Some t\<rparr>
      | None \<Rightarrow> \<lparr>rtr_errors = [derror ''task.not_found'' [] None], rtr_task = None\<rparr>)\<rparr>"

definition plain_clock :: clock where
  "plain_clock = \<lparr>ck_parse = (\<lambda>_. None), ck_min = 0\<rparr>"

definition sample_manager :: "task list \<Rightarrow> execution_job list \<Rightarrow> transaction_journal list \<Rightarrow> manager" where
  "sample_manager ts js rs = \<lparr>tm_workflow = ship_workflow, tm_adapter = tracker_of ts, tm_history = Some (store_of js), tm_writes = True,
     tm_files = Some bare_files, tm_journals = journals_of rs, tm_identity = None, tm_evidence = plain_evidence_env, tm_clock = plain_clock,
     tm_freeze = (\<lambda>t tr jid. Inr (Inr \<lparr>fz_metadata = fmempty, fz_contract_sha = None\<rparr>))\<rparr>"

definition sample_draws :: tm_draws where
  "sample_draws = \<lparr>tw_ulid = (\<lambda>n. ''U'' @ nat_str n), tw_now = ''2026-01-02T10:00:00Z'', tw_token = ''tok'',
     tw_job_write = \<lparr>env_now = ''2026-01-02T10:00:00Z'', env_write = WriteOk\<rparr>\<rparr>"

definition command_accepted :: "pyexc + command_result \<Rightarrow> bool" where
  "command_accepted r \<longleftrightarrow> (case r of Inr x \<Rightarrow> cr_accepted x | Inl _ \<Rightarrow> False)"

theorem manual_success_needs_evidence_witness:
  "(let m = sample_manager [ready_task ''T-1''] [shipped_job ''T-1''] [shipped_journal (ready_task ''T-1'')];
        none = sample_manager [ready_task ''T-1''] [] []
    in command_accepted (request_transition m sample_draws default_actor ''p'' ''T-1'' ''ship'')
       \<and> \<not> command_accepted (request_transition none sample_draws default_actor ''p'' ''T-1'' ''ship'')
       \<and> (\<exists>s listed job. tm_history m = Some s \<and> list_jobs s = Inr listed \<and> job \<in> set (jr_jobs listed) \<and> job_of ''p'' ''T-1'' ''ship'' job))"
proof -
  let ?m = "sample_manager [ready_task ''T-1''] [shipped_job ''T-1''] [shipped_journal (ready_task ''T-1'')]"
  have acc: "command_accepted (request_transition ?m sample_draws default_actor ''p'' ''T-1'' ''ship'')" by code_simp
  then obtain res where res: "request_transition ?m sample_draws default_actor ''p'' ''T-1'' ''ship'' = Inr res" "cr_accepted res"
    by (auto simp: command_accepted_def split: sum.splits)
  have fixed: "lp_snapshot (ad_load (tm_adapter ?m)) = Some (snapshot_of [ready_task ''T-1''])" "tm_workflow ?m = ship_workflow"
    by (simp_all add: sample_manager_def tracker_of_def)
  have look: "map_option t_id (dict_get (snap_tasks (snapshot_of [ready_task ''T-1''])) ''T-1'') = Some ''T-1''"
    "map_option (\<lambda>tr. (td_id tr, td_worker tr, td_to_state tr)) (dict_get (wf_transitions ship_workflow) ''ship'') = Some (''ship'', Some ''coder'', ''done'')"
    "terminal_outcome_of ship_workflow ''done'' = Some SUCCESS"
    by code_simp+
  have none: "\<not> command_accepted (request_transition (sample_manager [ready_task ''T-1''] [] []) sample_draws default_actor ''p'' ''T-1'' ''ship'')" by code_simp
  from manual_success_needs_evidence [OF res, unfolded fixed] look
  have "\<exists>s listed job. tm_history ?m = Some s \<and> list_jobs s = Inr listed \<and> job \<in> set (jr_jobs listed) \<and> job_of ''p'' ''T-1'' ''ship'' job"
    by auto
  with acc none show ?thesis by (simp only: Let_def) simp
qed

end
