(* ===== verification/Scheduler.thy ===== *)
theory Scheduler
  imports TaskManager ResourceFacts Transactions
begin

text \<open>
  \<open>runtime/scheduler.py\<close>: one scheduling step over the job store, the leases, the event log and
  the journals, and the recovery of job creations that a crash interrupted.  The journal store
  handed to the scheduler is the one below the project root, as the program sets it up.
\<close>

section \<open>State and configuration\<close>

record sched_state =
  ss_jobs :: job_store
  ss_leases :: lease_store
  ss_events :: event_store
  ss_journals :: journal_store

record scheduler =
  sk_workflow :: workflow_definition
  sk_adapter :: adapter
  sk_workspace_root :: string
  sk_has_leases :: bool
  sk_has_events :: bool
  sk_has_journals :: bool
  sk_worker_resources :: "(string \<times> string list) list"
  sk_serial :: bool
  sk_backoff :: int
  sk_max_failed :: int
  sk_max_total :: int
  sk_session_start :: "int option"
  sk_files :: "file_view option"
  sk_identity :: "string option"
  sk_evidence :: evidence_env
  sk_frozen :: frozen_loaders
  sk_clock :: clock
  sk_freeze :: "task \<Rightarrow> transition_definition \<Rightarrow> string \<Rightarrow> pyexc + (domain_error list + frozen_work_data)"

text \<open>The constructor replaces a limit of zero.\<close>

definition effective_total :: "scheduler \<Rightarrow> int" where
  "effective_total sk = (if sk_max_total sk \<noteq> 0 then sk_max_total sk else max 3 (sk_max_failed sk))"

definition transactional_creation_enabled :: "scheduler \<Rightarrow> bool" where
  "transactional_creation_enabled sk \<longleftrightarrow> sk_has_events sk \<and> sk_has_journals sk"

record sched_draws =
  dr_now :: int
  dr_job_id :: string
  dr_manager :: tm_draws
  dr_lease_now :: "nat \<Rightarrow> string"
  dr_lease_ok :: "nat \<Rightarrow> bool"
  dr_tx :: tx_env

record schedule_result =
  sr_scheduled :: bool
  sr_job :: "execution_job option"
  sr_task_id :: "string option"
  sr_transition_id :: "string option"
  sr_errors :: "domain_error list"
  sr_skipped :: "domain_error list"
  sr_events :: "event_envelope list"
  sr_events_persisted :: bool

definition not_scheduled :: "domain_error list \<Rightarrow> domain_error list \<Rightarrow> schedule_result" where
  "not_scheduled errors skipped = \<lparr>sr_scheduled = False, sr_job = None, sr_task_id = None, sr_transition_id = None,
     sr_errors = errors, sr_skipped = skipped, sr_events = [], sr_events_persisted = False\<rparr>"

definition resumed :: "execution_job \<Rightarrow> domain_error list \<Rightarrow> schedule_result" where
  "resumed j skipped = \<lparr>sr_scheduled = True, sr_job = Some j, sr_task_id = Some (j_task_id j), sr_transition_id = Some (j_transition_id j),
     sr_errors = [], sr_skipped = skipped, sr_events = [], sr_events_persisted = False\<rparr>"

section \<open>Order of tasks\<close>

definition board_of :: "project_snapshot \<Rightarrow> task \<Rightarrow> string" where
  "board_of snap t = (case dict_get (snap_board_positions snap) (t_id t) of None \<Rightarrow> [] | Some b \<Rightarrow> bp_board b)"

definition line_of :: "project_snapshot \<Rightarrow> task \<Rightarrow> int" where
  "line_of snap t = (case dict_get (snap_board_positions snap) (t_id t) of None \<Rightarrow> 1000000000 | Some b \<Rightarrow> bp_line b)"

definition tasks_in_board_order :: "project_snapshot \<Rightarrow> task list" where
  "tasks_in_board_order snap = sort_key (board_of snap) (sort_key (line_of snap) (sort_key t_id (map snd (snap_tasks snap))))"

section \<open>The serial lane of a repository\<close>

datatype lane_focus = LaneError domain_error | LaneFree | LaneTask task "execution_job list"

definition ACTIVE_REPO_LANE_JOB_STATUSES :: "string list" where
  "ACTIVE_REPO_LANE_JOB_STATUSES = map job_status_value [PENDING, RUNNING, COMPLETION_SUBMITTED, COMPLETION_REJECTED, STALE]"

definition lane_active :: "execution_job \<Rightarrow> bool" where
  "lane_active j \<longleftrightarrow> jstatus_value (j_status j) \<in> set ACTIVE_REPO_LANE_JOB_STATUSES"

definition external_repo_lane_job :: "string option \<Rightarrow> execution_job \<Rightarrow> bool" where
  "external_repo_lane_job identity j \<longleftrightarrow> (case identity of None \<Rightarrow> False
     | Some i \<Rightarrow> fmlookup (j_metadata j) ''repository_identity'' = Some (JStr i))"

text \<open>Any exception of the listing counts as no unresolved journal.\<close>

definition unresolved_acceptance_journal :: "journal_store \<Rightarrow> string \<Rightarrow> string option" where
  "unresolved_acceptance_journal js identity = (case list_incomplete js of
      Inl _ \<Rightarrow> None
    | Inr rs \<Rightarrow> map_option jn_journal_id (List.find (\<lambda>r. fmlookup (jn_context r) ''repository_identity'' = Some (JStr identity)) rs))"

definition has_accepted_job :: "execution_job list \<Rightarrow> bool" where
  "has_accepted_job js \<longleftrightarrow> list_ex (\<lambda>j. jstatus_value (j_status j) = ''accepted'') js"

fun first_with_active :: "execution_job list \<Rightarrow> task list \<Rightarrow> lane_focus option" where
  "first_with_active own [] = None"
| "first_with_active own (t # ts) = (let active = filter (\<lambda>j. j_task_id j = t_id t \<and> lane_active j) own
     in if active \<noteq> [] then Some (LaneTask t active) else first_with_active own ts)"

fun first_task :: "(task \<Rightarrow> bool) \<Rightarrow> execution_job list \<Rightarrow> task list \<Rightarrow> lane_focus" where
  "first_task P js [] = LaneFree"
| "first_task P js (t # ts) = (if P t then LaneTask t js else first_task P js ts)"

definition lane_over_jobs :: "string \<Rightarrow> string option \<Rightarrow> task list \<Rightarrow> workflow_definition \<Rightarrow> execution_job list \<Rightarrow> lane_focus" where
  "lane_over_jobs pid identity tasks w jobs =
     (let own = filter (\<lambda>j. j_project_id j = pid \<and> j_task_id j \<in> t_id ` set tasks) jobs;
          external_active = filter (\<lambda>j. j_project_id j \<noteq> pid \<and> external_repo_lane_job identity j \<and> lane_active j) jobs
      in case first_with_active own tasks of
           Some f \<Rightarrow> f
         | None \<Rightarrow>
             if external_active \<noteq> [] then first_task (\<lambda>t. has_scheduler_eligible_transition t w) external_active tasks
             else first_task (\<lambda>t. has_accepted_job (filter (\<lambda>j. j_task_id j = t_id t) own) \<and> has_scheduler_eligible_transition t w) [] tasks)"

definition serial_repo_lane_focus :: "string \<Rightarrow> string option \<Rightarrow> project_snapshot \<Rightarrow> workflow_definition \<Rightarrow> job_store \<Rightarrow> journal_store option
    \<Rightarrow> pyexc + lane_focus" where
  "serial_repo_lane_focus pid identity snap w jobs journals =
     (case (case (journals, identity) of (Some js, Some i) \<Rightarrow> unresolved_acceptance_journal js i | _ \<Rightarrow> None) of
        Some unresolved \<Rightarrow> Inr (LaneError (derror ''repo_lane.unresolved_acceptance'' [Txt ''Repository lane is held by unresolved acceptance transaction '', ReprS unresolved,
           Txt ''; recover or reconcile it before admitting another integration.''] identity))
      | None \<Rightarrow> bind_sum (list_jobs jobs) (\<lambda>listed. case jr_error listed of
            Some e \<Rightarrow> Inr (LaneError e)
          | None \<Rightarrow> Inr (lane_over_jobs pid identity (tasks_in_board_order snap) w (jr_jobs listed))))"

section \<open>The gates of a task\<close>

datatype gate = Skip domain_error | Stop schedule_result | Admit transition_definition

definition sched_sources :: "scheduler \<Rightarrow> task \<Rightarrow> transition_definition \<Rightarrow> (string \<times> string) list" where
  "sched_sources sk t tr = (case sk_files sk of None \<Rightarrow> []
     | Some fv \<Rightarrow> resolve_source_content_identities fv t tr (load_parent_tasks (ad_read (sk_adapter sk)) t))"

definition sched_dependencies :: "scheduler \<Rightarrow> string \<Rightarrow> sched_state \<Rightarrow> dependency_env" where
  "sched_dependencies sk pid st = \<lparr>de_project = Some pid, de_jobs = Some (ss_jobs st),
     de_journals = (if sk_has_journals sk \<or> sk_files sk \<noteq> None then Some (ss_journals st) else None),
     de_identity = sk_identity sk, de_sources = Some (sched_sources sk), de_evidence = sk_evidence sk, de_clock = sk_clock sk\<rparr>"

definition active_gate :: "scheduler \<Rightarrow> string \<Rightarrow> sched_state \<Rightarrow> domain_error list \<Rightarrow> task \<Rightarrow> transition_definition \<Rightarrow> pyexc + gate option" where
  "active_gate sk pid st skipped t tr = bind_sum (find_active pid (t_id t) (td_id tr) (ss_jobs st)) (\<lambda>active.
     case jr_error active of
       Some e \<Rightarrow> Inr (Some (Stop (not_scheduled [e] skipped)))
     | None \<Rightarrow> if jr_jobs active = [] then Inr None
         else bind_sum (repair_ready_job (sk_clock sk) (jr_jobs active)) (\<lambda>r. Inr (Some (case r of
             Some j \<Rightarrow> Stop (resumed j skipped)
           | None \<Rightarrow> Skip (derror ''job.active_exists'' [Txt ''Task '', ReprS (t_id t), Txt '' already has an active job for transition '', ReprS (td_id tr), Txt ''.''] (Some (t_id t)))))))"

definition sched_revision :: "scheduler \<Rightarrow> task \<Rightarrow> transition_definition \<Rightarrow> string" where
  "sched_revision sk t tr = task_semantic_revision (ee_digest (sk_evidence sk)) t (sched_sources sk t tr)"

definition failed_limit_gate :: "scheduler \<Rightarrow> string \<Rightarrow> sched_state \<Rightarrow> domain_error list \<Rightarrow> task \<Rightarrow> transition_definition \<Rightarrow> pyexc + gate option" where
  "failed_limit_gate sk pid st skipped t tr = (if sk_max_failed sk \<le> 0 then Inr None
     else bind_sum (find_failed_jobs (sk_clock sk) pid (t_id t) (td_id tr) (sk_session_start sk) (ss_jobs st)) (\<lambda>failed. Inr (case jr_error failed of
         Some e \<Rightarrow> Some (Stop (not_scheduled [e] skipped))
       | None \<Rightarrow> if sk_max_failed sk \<le> int (length (jr_jobs failed))
           then Some (Skip (derror ''job.retry_limit_reached'' [Txt ''Task '', ReprS (t_id t), Txt '' failed transition '', ReprS (td_id tr), Txt '' '',
             Num (int (length (jr_jobs failed))), Txt '' time(s); retry limit '', Num (sk_max_failed sk), Txt '' reached.''] (Some (t_id t))))
           else None)))"

definition backoff_gate :: "scheduler \<Rightarrow> int \<Rightarrow> string \<Rightarrow> sched_state \<Rightarrow> domain_error list \<Rightarrow> task \<Rightarrow> transition_definition \<Rightarrow> pyexc + gate option" where
  "backoff_gate sk now pid st skipped t tr =
     bind_sum (find_recent_failed_job (sk_clock sk) pid (t_id t) (td_id tr) now (sk_session_start sk) (sk_backoff sk) (ss_jobs st)) (\<lambda>recent. Inr (case jr_error recent of
         Some e \<Rightarrow> Some (Stop (not_scheduled [e] skipped))
       | None \<Rightarrow> if jr_jobs recent \<noteq> []
           then Some (Skip (derror ''job.recent_failure'' [Txt ''Task '', ReprS (t_id t), Txt '' recently failed transition '', ReprS (td_id tr), Txt ''; waiting '',
             Num (sk_backoff sk), Txt ''s before retry.''] (Some (t_id t))))
           else None))"

text \<open>A gate that gives nothing lets the next one decide.\<close>

definition otherwise :: "pyexc + gate option \<Rightarrow> pyexc + gate \<Rightarrow> pyexc + gate" where
  "otherwise g next = bind_sum g (\<lambda>r. case r of Some x \<Rightarrow> Inr x | None \<Rightarrow> next)"

definition skip_on :: "pyexc + domain_error option \<Rightarrow> pyexc + gate option" where
  "skip_on r = bind_sum r (\<lambda>e. Inr (map_option Skip e))"

definition task_gate :: "scheduler \<Rightarrow> int \<Rightarrow> string \<Rightarrow> project_snapshot \<Rightarrow> sched_state \<Rightarrow> domain_error list \<Rightarrow> task \<Rightarrow> pyexc + gate" where
  "task_gate sk now pid snap st skipped t =
     otherwise (skip_on (dependency_error (sched_dependencies sk pid st) t snap (sk_workflow sk)))
       (case select_scheduler_transition t (sk_workflow sk) of
          Inl e \<Rightarrow> Inr (Skip e)
        | Inr tr \<Rightarrow>
            otherwise (active_gate sk pid st skipped t tr)
           (otherwise (skip_on (retry_blocked_by_cause (sk_clock sk) pid t tr (sched_revision sk t tr) (ss_jobs st)))
           (otherwise (skip_on (total_attempt_exhausted (ee_digest (sk_evidence sk)) (sk_frozen sk) pid t tr (sched_revision sk t tr) (effective_total sk) (ss_jobs st)))
           (otherwise (failed_limit_gate sk pid st skipped t tr)
           (otherwise (backoff_gate sk now pid st skipped t tr)
           (Inr (Admit tr)))))))"

section \<open>Creating the job\<close>

definition sched_manager :: "scheduler \<Rightarrow> sched_state \<Rightarrow> manager" where
  "sched_manager sk st = \<lparr>tm_workflow = sk_workflow sk, tm_adapter = sk_adapter sk, tm_history = Some (ss_jobs st),
     tm_writes = (\<not> transactional_creation_enabled sk), tm_files = sk_files sk, tm_journals = ss_journals st,
     tm_identity = sk_identity sk, tm_evidence = sk_evidence sk, tm_clock = sk_clock sk, tm_freeze = sk_freeze sk\<rparr>"

text \<open>\<open>ExecutionJob(**payload)\<close>: the first six fields are required, no other name is allowed.\<close>

definition job_fields :: "string list" where
  "job_fields = [''job_id'', ''project_id'', ''task_id'', ''transition_id'', ''worker_id'', ''workspace_path'']"

definition field_text :: "meta \<Rightarrow> string \<Rightarrow> pyexc + string" where
  "field_text m k = (case fmlookup m k of Some (JStr s) \<Rightarrow> Inr s | _ \<Rightarrow> Inl TypeErr)"

definition job_of_payload :: "meta \<Rightarrow> pyexc + execution_job" where
  "job_of_payload m =
     (if list_ex (\<lambda>(k, _). k \<notin> set (job_fields @ [''status'', ''attempts'', ''metadata''])) (fmap_entries m) then Inl TypeErr
      else bind_sum (map_sum_list (field_text m) job_fields) (\<lambda>fs. case fs of
        [jid, pid, tid, trid, wid, ws] \<Rightarrow>
          bind_sum (case fmlookup m ''status'' of None \<Rightarrow> Inr (Inl PENDING) | Some (JStr s) \<Rightarrow> Inr (Inr s) | Some _ \<Rightarrow> Inl TypeErr) (\<lambda>status.
          bind_sum (case fmlookup m ''attempts'' of None \<Rightarrow> Inr 0 | Some (JInt i) \<Rightarrow> Inr i | Some _ \<Rightarrow> Inl TypeErr) (\<lambda>attempts.
          bind_sum (case fmlookup m ''metadata'' of None \<Rightarrow> Inr fmempty | Some (JObj d) \<Rightarrow> Inr d | Some _ \<Rightarrow> Inl TypeErr) (\<lambda>data.
          Inr \<lparr>j_job_id = jid, j_project_id = pid, j_task_id = tid, j_transition_id = trid, j_worker_id = wid, j_workspace_path = ws,
            j_status = status, j_attempts = attempts, j_metadata = data\<rparr>)))
      | _ \<Rightarrow> Inl TypeErr))"

definition effect_refused :: "string \<Rightarrow> domain_error list \<Rightarrow> effect_result" where
  "effect_refused text es = \<lparr>fx_accepted = False, fx_message = text, fx_errors = es\<rparr>"

definition apply_job_effect :: "string \<Rightarrow> op_env \<Rightarrow> meta \<Rightarrow> job_store effect_run" where
  "apply_job_effect exc env e s =
     (if fmlookup e ''type'' \<noteq> Some (JStr ''create_execution_job'')
      then (Inr (effect_refused ''unsupported job effect'' [derror ''effect.unsupported'' [Txt ''Unsupported job effect.''] None]), s)
      else (case fmlookup e ''job'' of
          Some (JObj payload) \<Rightarrow>
            (let invalid = effect_refused exc [derror ''job.payload_invalid'' [ExcText] None]
             in case job_of_payload payload of
                  Inl _ \<Rightarrow> (Inr invalid, s)
                | Inr job \<Rightarrow> (case create env job s of
                      (Inl x, s') \<Rightarrow> (if x = TypeErr \<or> x = ValueErr then Inr invalid else Inl exc, s')
                    | (Inr saved, s') \<Rightarrow> (case jr_error saved of
                          Some err \<Rightarrow> (Inr (effect_refused (msg_text exc (err_message err)) [err]), s')
                        | None \<Rightarrow> (Inr \<lparr>fx_accepted = True, fx_message = [], fx_errors = []\<rparr>, s'))))
        | _ \<Rightarrow> (Inr (effect_refused ''job payload missing'' [derror ''job.payload_invalid'' [Txt ''Job payload is invalid.''] None]), s)))"

definition job_runtime :: "sched_draws \<Rightarrow> job_store tx_runtime" where
  "job_runtime dr = \<lparr>rt_apply = apply_job_effect (te_exc (dr_tx dr)) (tw_job_write (dr_manager dr)), rt_compensate = None, rt_validate = None\<rparr>"

definition to_tx :: "sched_state \<Rightarrow> job_store tx_state" where
  "to_tx st = \<lparr>tx_journals = ss_journals st, tx_events = ss_events st, tx_world = ss_jobs st\<rparr>"

definition from_tx :: "sched_state \<Rightarrow> job_store tx_state \<Rightarrow> sched_state" where
  "from_tx st tx = st\<lparr>ss_jobs := tx_world tx, ss_events := tx_events tx, ss_journals := tx_journals tx\<rparr>"

definition job_request :: "string \<Rightarrow> create_command \<Rightarrow> command_result \<Rightarrow> tx_request" where
  "job_request pid c created = \<lparr>tq_project = pid, tq_effects = cr_effects created, tq_events = cr_events created, tq_journal_id = None,
     tq_task = Some (cc_task c), tq_transition = Some (cc_transition c), tq_context = fmempty\<rparr>"

text \<open>\<open>_create_job\<close>, once the manager has answered.\<close>

definition commit_job :: "scheduler \<Rightarrow> sched_draws \<Rightarrow> create_command \<Rightarrow> pyexc + command_result \<Rightarrow> sched_state \<Rightarrow> (pyexc + command_result) \<times> sched_state" where
  "commit_job sk dr c r st = (case r of
      Inl x \<Rightarrow> (Inl x, st)
    | Inr created \<Rightarrow>
        if \<not> cr_accepted created \<or> \<not> transactional_creation_enabled sk then (Inr created, st)
        else (case tx_apply (dr_tx dr) (job_runtime dr) (job_request (cc_project c) c created) (to_tx st) of
            (Inl x, tx) \<Rightarrow> (Inl x, from_tx st tx)
          | (Inr applied, tx) \<Rightarrow>
              (if tr_accepted applied then (Inr created, from_tx st tx)
               else (Inr (created\<lparr>cr_accepted := False,
                  cr_errors := [case tr_error applied of Some e \<Rightarrow> e | None \<Rightarrow> derror ''transaction.failed'' [Txt ''Execution job transaction failed.''] None]\<rparr>),
                  from_tx st tx))))"

definition create_job :: "scheduler \<Rightarrow> sched_draws \<Rightarrow> create_command \<Rightarrow> sched_state \<Rightarrow> ((pyexc + command_result) \<times> sched_state) option" where
  "create_job sk dr c st = (case create_execution_job (sched_manager sk st) (dr_manager dr) c of
      None \<Rightarrow> None
    | Some (r, js) \<Rightarrow> Some (commit_job sk dr c r (st\<lparr>ss_jobs := (case js of Some s \<Rightarrow> s | None \<Rightarrow> ss_jobs st)\<rparr>)))"

definition create_command_of :: "scheduler \<Rightarrow> sched_draws \<Rightarrow> string \<Rightarrow> task \<Rightarrow> transition_definition \<Rightarrow> create_command" where
  "create_command_of sk dr pid t tr = \<lparr>cc_project = pid, cc_task = t_id t, cc_transition = td_id tr, cc_workspace_root = sk_workspace_root sk,
     cc_job_id = Some (dr_job_id dr), cc_actor = default_actor\<rparr>"

text \<open>The admission of a task: either it is skipped for want of resources, or the command's
  result is the outcome.  The lease store runs the creation while it holds the leases; a
  creation that never ends is \<open>None\<close>.\<close>

datatype admission = Busy "string list" | Created command_result

definition lift_commit :: "((pyexc + command_result) \<times> sched_state) option \<Rightarrow> sched_state \<Rightarrow> (pyexc + command_result option) \<times> sched_state" where
  "lift_commit r st = (case r of None \<Rightarrow> (Inr None, st) | Some (x, st') \<Rightarrow> (map_sum id Some x, st'))"

definition admit_leased :: "scheduler \<Rightarrow> sched_draws \<Rightarrow> string list \<Rightarrow> string \<Rightarrow> create_command \<Rightarrow> sched_state \<Rightarrow> ((pyexc + admission) \<times> sched_state) option" where
  "admit_leased sk dr required worker c st =
     (case admit (dr_lease_now dr) (dr_lease_ok dr) required (dr_job_id dr) worker (path_for (ss_jobs st) (dr_job_id dr))
             (\<lambda>w. lift_commit (create_job sk dr c w) w) (Some (\<lambda>r. case r of None \<Rightarrow> True | Some cr \<Rightarrow> cr_accepted cr)) (ss_leases st) st of
        (Inl x, ls, st2) \<Rightarrow> Some (Inl x, st2\<lparr>ss_leases := ls\<rparr>)
      | (Inr (granted, created), ls, st2) \<Rightarrow>
          (if \<not> lr_acquired granted then Some (Inr (Busy (lr_busy_resources granted)), st2\<lparr>ss_leases := ls\<rparr>)
           else (case created of
               Some (Some cr) \<Rightarrow>
                 if cr_accepted cr then Some (Inr (Created cr), st2\<lparr>ss_leases := ls\<rparr>)
                 else (case release_job (dr_job_id dr) ls of
                     (Inl x, ls') \<Rightarrow> Some (Inl x, st2\<lparr>ss_leases := ls'\<rparr>)
                   | (Inr _, ls') \<Rightarrow> Some (Inr (Created cr), st2\<lparr>ss_leases := ls'\<rparr>))
             | _ \<Rightarrow> None)))"

definition admit_task :: "scheduler \<Rightarrow> sched_draws \<Rightarrow> string \<Rightarrow> task \<Rightarrow> transition_definition \<Rightarrow> sched_state
    \<Rightarrow> ((pyexc + admission) \<times> sched_state) option" where
  "admit_task sk dr pid t tr st =
     (let c = create_command_of sk dr pid t tr; worker = (case td_worker tr of None \<Rightarrow> [] | Some w \<Rightarrow> w);
          required = (case dict_get (sk_worker_resources sk) worker of None \<Rightarrow> [] | Some rs \<Rightarrow> rs)
      in if required = [] \<or> \<not> sk_has_leases sk
         then map_option (map_prod (map_sum id Created) id) (create_job sk dr c st)
         else admit_leased sk dr required worker c st)"

definition created_schedule :: "scheduler \<Rightarrow> domain_error list \<Rightarrow> task \<Rightarrow> transition_definition \<Rightarrow> command_result \<Rightarrow> schedule_result" where
  "created_schedule sk skipped t tr cr = \<lparr>sr_scheduled = cr_accepted cr, sr_job = (if cr_accepted cr then cr_job cr else None),
     sr_task_id = Some (t_id t), sr_transition_id = Some (td_id tr), sr_errors = (if cr_accepted cr then [] else cr_errors cr),
     sr_skipped = skipped, sr_events = cr_events cr, sr_events_persisted = (cr_accepted cr \<and> transactional_creation_enabled sk)\<rparr>"

type_synonym schedule_outcome = "(pyexc + schedule_result) \<times> sched_state"

fun schedule_tasks :: "scheduler \<Rightarrow> sched_draws \<Rightarrow> string \<Rightarrow> project_snapshot \<Rightarrow> domain_error list \<Rightarrow> task list \<Rightarrow> sched_state \<Rightarrow> schedule_outcome option" where
  "schedule_tasks sk dr pid snap skipped [] st = Some (Inr (not_scheduled [] skipped), st)"
| "schedule_tasks sk dr pid snap skipped (t # ts) st = (case task_gate sk (dr_now dr) pid snap st skipped t of
      Inl x \<Rightarrow> Some (Inl x, st)
    | Inr (Skip e) \<Rightarrow> schedule_tasks sk dr pid snap (skipped @ [e]) ts st
    | Inr (Stop r) \<Rightarrow> Some (Inr r, st)
    | Inr (Admit tr) \<Rightarrow> (case admit_task sk dr pid t tr st of
          None \<Rightarrow> None
        | Some (Inl x, st') \<Rightarrow> Some (Inl x, st')
        | Some (Inr (Busy rs), st') \<Rightarrow> schedule_tasks sk dr pid snap
            (skipped @ [derror ''resource.busy'' [Txt ''Task '', ReprS (t_id t), Txt '' requires busy resources: '', Txt (join '', '' rs), Txt ''.''] (Some (t_id t))]) ts st'
        | Some (Inr (Created cr), st') \<Rightarrow> Some (Inr (created_schedule sk skipped t tr cr), st')))"

definition lane_step :: "scheduler \<Rightarrow> sched_draws \<Rightarrow> string \<Rightarrow> project_snapshot \<Rightarrow> sched_state \<Rightarrow> schedule_outcome option" where
  "lane_step sk dr pid snap st =
     (case serial_repo_lane_focus pid (sk_identity sk) snap (sk_workflow sk) (ss_jobs st) (if sk_has_journals sk then Some (ss_journals st) else None) of
        Inl x \<Rightarrow> Some (Inl x, st)
      | Inr (LaneError e) \<Rightarrow> Some (Inr (not_scheduled [e] []), st)
      | Inr LaneFree \<Rightarrow> schedule_tasks sk dr pid snap [] (tasks_in_board_order snap) st
      | Inr (LaneTask t active) \<Rightarrow>
          if active = [] then schedule_tasks sk dr pid snap [] [t] st
          else (case repair_ready_job (sk_clock sk) active of
              Inl x \<Rightarrow> Some (Inl x, st)
            | Inr (Some j) \<Rightarrow> Some (Inr (resumed j []), st)
            | Inr None \<Rightarrow> Some (Inr ((not_scheduled [] [derror ''repo_lane.active_job_exists'' [Txt ''Repo lane is held by task '', ReprS (t_id t), Txt ''; active job '',
                ReprS (j_job_id (hd active)), Txt '' is still running.''] (Some (t_id t))])\<lparr>sr_task_id := Some (t_id t)\<rparr>), st)))"

definition schedule_one :: "scheduler \<Rightarrow> sched_draws \<Rightarrow> string \<Rightarrow> sched_state \<Rightarrow> schedule_outcome option" where
  "schedule_one sk dr pid st = (case load_snapshot (sk_adapter sk) of
      Inl es \<Rightarrow> Some (Inr (not_scheduled es []), st)
    | Inr snap \<Rightarrow> if sk_serial sk then lane_step sk dr pid snap st
        else schedule_tasks sk dr pid snap [] (tasks_in_board_order snap) st)"

section \<open>Recovery of interrupted creations\<close>

text \<open>The only creation effect of a journal, with its payload and job id.\<close>

definition creation_payload :: "transaction_journal \<Rightarrow> (meta \<times> string) option" where
  "creation_payload r = (case filter (\<lambda>e. fmlookup e ''type'' = Some (JStr ''create_execution_job'')) (jn_effects r) of
      [e] \<Rightarrow> (case fmlookup e ''job'' of
          Some (JObj payload) \<Rightarrow> (case fmlookup payload ''job_id'' of Some (JStr jid) \<Rightarrow> Some (payload, jid) | _ \<Rightarrow> None)
        | _ \<Rightarrow> None)
    | _ \<Rightarrow> None)"

record recovery_env =
  re_exc :: string
  re_job :: op_env
  re_append :: "nat \<Rightarrow> write_fate"
  re_now :: string
  re_commit :: write_fate

text \<open>The job of a journal is there, or is created now: whether it is there then.\<close>

definition ensure_job :: "recovery_env \<Rightarrow> meta \<Rightarrow> string \<Rightarrow> job_store \<Rightarrow> (pyexc + bool) \<times> job_store" where
  "ensure_job env payload jid s = (case get_job jid s of
      Inl x \<Rightarrow> (Inl x, s)
    | Inr loaded \<Rightarrow>
        if jr_accepted loaded then (Inr True, s)
        else (case job_of_payload payload of
            Inl _ \<Rightarrow> (Inr False, s)
          | Inr job \<Rightarrow> (case create (re_job env) job s of
                (Inl x, s') \<Rightarrow> (if x = TypeErr \<or> x = ValueErr then Inr False else Inl x, s')
              | (Inr saved, s') \<Rightarrow> (Inr (jr_accepted saved), s'))))"

definition recover_one :: "recovery_env \<Rightarrow> transaction_journal \<Rightarrow> string list \<Rightarrow> sched_state \<Rightarrow> (pyexc + bool \<times> string list) \<times> sched_state" where
  "recover_one env r ids st = (case creation_payload r of
      None \<Rightarrow> (Inr (False, ids), st)
    | Some (payload, jid) \<Rightarrow> (case ensure_job env payload jid (ss_jobs st) of
        (Inl x, js) \<Rightarrow> (Inl x, st\<lparr>ss_jobs := js\<rparr>)
      | (Inr there, js) \<Rightarrow>
          if \<not> there then (Inr (False, ids), st\<lparr>ss_jobs := js\<rparr>)
          else let missing = filter (\<lambda>e. ev_event_id e \<notin> set ids) (jn_events r); st1 = st\<lparr>ss_jobs := js\<rparr>
            in (case (if missing = [] then (Inr None, ss_events st1) else map_prod (map_sum id Some) id (append_many (re_append env) missing (ss_events st1))) of
                 (Inl x, es) \<Rightarrow> (Inl x, st1\<lparr>ss_events := es\<rparr>)
               | (Inr appended, es) \<Rightarrow>
                   if (case appended of None \<Rightarrow> False | Some a \<Rightarrow> \<not> ea_accepted a) then (Inr (False, ids), st1\<lparr>ss_events := es\<rparr>)
                   else (case commit_journal (re_exc env) (re_now env) (re_commit env) r (ss_journals st1) of
                       (w, jns) \<Rightarrow> (Inr (jw_accepted w, map ev_event_id missing @ ids), st1\<lparr>ss_events := es, ss_journals := jns\<rparr>)))))"

fun recover_journals :: "(nat \<Rightarrow> recovery_env) \<Rightarrow> nat \<Rightarrow> transaction_journal list \<Rightarrow> string list \<Rightarrow> sched_state \<Rightarrow> (pyexc + string list) \<times> sched_state" where
  "recover_journals env n [] ids st = (Inr [], st)"
| "recover_journals env n (r # rs) ids st = (case recover_one (env n) r ids st of
      (Inl x, st') \<Rightarrow> (Inl x, st')
    | (Inr (ok, ids'), st') \<Rightarrow> (case recover_journals env (Suc n) rs ids' st' of
        (Inl x, st2) \<Rightarrow> (Inl x, st2)
      | (Inr done_ids, st2) \<Rightarrow> (Inr (if ok then jn_journal_id r # done_ids else done_ids), st2)))"

definition recover_job_creation_transactions :: "(nat \<Rightarrow> recovery_env) \<Rightarrow> sched_state \<Rightarrow> (pyexc + string list) \<times> sched_state" where
  "recover_job_creation_transactions env st = (case event_ids (ss_events st) of
      Inl x \<Rightarrow> (Inl x, st)
    | Inr ids \<Rightarrow> (case list_incomplete (ss_journals st) of
        Inl x \<Rightarrow> (Inl x, st)
      | Inr rs \<Rightarrow> recover_journals env 0 rs ids st))"

end
