(* ===== verification/SchedulerFacts.thy ===== *)
theory SchedulerFacts
  imports Scheduler TaskManagerFacts JobSettle TransactionFacts
begin

text \<open>
  Laws of a scheduling step: what holds of a task whose job is created, that the dependencies of
  the task are backed by committed evidence, that the serial lane admits nothing while it is
  held, that the first admissible task is served, and that recovery completes a creation.
\<close>

section \<open>The gates of an admitted task\<close>

lemma otherwise_Inr: "otherwise g next = Inr y \<longleftrightarrow> g = Inr (Some y) \<or> (g = Inr None \<and> next = Inr y)"
  unfolding otherwise_def by (cases g) (auto split: option.splits)

lemma skip_on_Inr: "skip_on r = Inr None \<longleftrightarrow> r = Inr None" "skip_on r = Inr (Some g) \<longleftrightarrow> (\<exists>e. r = Inr (Some e) \<and> g = Skip e)"
  unfolding skip_on_def by (cases r; auto)+

lemma gates_never_admit:
  "active_gate sk pid st skipped t tr \<noteq> Inr (Some (Admit tr'))"
  "failed_limit_gate sk pid st skipped t tr \<noteq> Inr (Some (Admit tr'))"
  "backoff_gate sk now pid st skipped t tr \<noteq> Inr (Some (Admit tr'))"
  by (auto simp: active_gate_def failed_limit_gate_def backoff_gate_def bind_sum_Inr_iff split: option.splits if_splits)

definition gates_open :: "scheduler \<Rightarrow> int \<Rightarrow> string \<Rightarrow> project_snapshot \<Rightarrow> sched_state \<Rightarrow> task \<Rightarrow> transition_definition \<Rightarrow> bool" where
  "gates_open sk now pid snap st t tr \<longleftrightarrow>
     dependency_error (sched_dependencies sk pid st) t snap (sk_workflow sk) = Inr None
   \<and> select_scheduler_transition t (sk_workflow sk) = Inr tr
   \<and> (\<exists>active. find_active pid (t_id t) (td_id tr) (ss_jobs st) = Inr active \<and> jr_accepted active \<and> jr_jobs active = [])
   \<and> retry_blocked_by_cause (sk_clock sk) pid t tr (sched_revision sk t tr) (ss_jobs st) = Inr None
   \<and> total_attempt_exhausted (ee_digest (sk_evidence sk)) (sk_frozen sk) pid t tr (sched_revision sk t tr) (effective_total sk) (ss_jobs st) = Inr None
   \<and> (\<forall>skipped. failed_limit_gate sk pid st skipped t tr = Inr None \<and> backoff_gate sk now pid st skipped t tr = Inr None)"

lemma active_gate_open:
  "active_gate sk pid st skipped t tr = Inr None \<longleftrightarrow>
     (\<exists>active. find_active pid (t_id t) (td_id tr) (ss_jobs st) = Inr active \<and> jr_accepted active \<and> jr_jobs active = [])"
  by (auto simp: active_gate_def bind_sum_Inr_iff jr_accepted_def split: option.splits if_splits)

lemma gate_skipped_irrelevant:
  "failed_limit_gate sk pid st skipped t tr = Inr None \<longleftrightarrow> failed_limit_gate sk pid st skipped' t tr = Inr None"
  "backoff_gate sk now pid st skipped t tr = Inr None \<longleftrightarrow> backoff_gate sk now pid st skipped' t tr = Inr None"
  by (auto simp: failed_limit_gate_def backoff_gate_def bind_sum_Inr_iff split: option.splits if_splits)

lemma task_gate_admit: "task_gate sk now pid snap st skipped t = Inr (Admit tr) \<longleftrightarrow> gates_open sk now pid snap st t tr"
proof
  assume a: "task_gate sk now pid snap st skipped t = Inr (Admit tr)"
  then have "dependency_error (sched_dependencies sk pid st) t snap (sk_workflow sk) = Inr None"
    by (auto simp: task_gate_def otherwise_Inr skip_on_Inr)
  moreover from a obtain tr' where s: "select_scheduler_transition t (sk_workflow sk) = Inr tr'"
    by (cases "select_scheduler_transition t (sk_workflow sk)") (auto simp: task_gate_def otherwise_Inr skip_on_Inr)
  moreover from a s have "tr' = tr" "active_gate sk pid st skipped t tr' = Inr None"
    "retry_blocked_by_cause (sk_clock sk) pid t tr' (sched_revision sk t tr') (ss_jobs st) = Inr None"
    "total_attempt_exhausted (ee_digest (sk_evidence sk)) (sk_frozen sk) pid t tr' (sched_revision sk t tr') (effective_total sk) (ss_jobs st) = Inr None"
    "failed_limit_gate sk pid st skipped t tr' = Inr None" "backoff_gate sk now pid st skipped t tr' = Inr None"
    by (auto simp: task_gate_def otherwise_Inr skip_on_Inr gates_never_admit)
  ultimately show "gates_open sk now pid snap st t tr"
    unfolding gates_open_def active_gate_open using gate_skipped_irrelevant by blast
next
  assume "gates_open sk now pid snap st t tr"
  then show "task_gate sk now pid snap st skipped t = Inr (Admit tr)"
    unfolding gates_open_def task_gate_def by (simp add: otherwise_Inr skip_on_Inr active_gate_open)
qed

section \<open>Admission\<close>

lemma admit_busy:
  assumes "admit now ok rids jid wid owner commit acc s w = (Inr (granted, created), s', w')" "\<not> lr_acquired granted"
  shows "s' = s \<and> w' = w"
  using assms by (auto simp: admit_def Let_def split: sum.splits if_splits prod.splits option.splits)

lemma admit_task_busy:
  assumes "admit_task sk dr pid t tr st = Some (Inr (Busy rs), st')"
  shows "st' = st"
proof -
  have "x \<noteq> Inr (Busy rs)" if "map_option (map_prod (map_sum id Created) id) y = Some (x, s)" for x s y
    using that by (cases y) (auto simp: map_sum_def split: sum.splits)
  with assms obtain required worker c where
    "admit_leased sk dr required worker c st = Some (Inr (Busy rs), st')"
    unfolding admit_task_def Let_def by (metis (no_types, lifting))
  then show ?thesis
    by (auto simp: admit_leased_def split: prod.splits sum.splits if_splits option.splits dest!: admit_busy)
qed

text \<open>What a step may end with: nothing new, an old job resumed, or a fresh one.\<close>

definition fresh :: "scheduler \<Rightarrow> sched_draws \<Rightarrow> string \<Rightarrow> project_snapshot \<Rightarrow> sched_state \<Rightarrow> schedule_result \<Rightarrow> sched_state \<Rightarrow> bool" where
  "fresh sk dr pid snap st res st' \<longleftrightarrow> (\<exists>t tr cr. t \<in> snd ` set (snap_tasks snap) \<and> gates_open sk (dr_now dr) pid snap st t tr
     \<and> admit_task sk dr pid t tr st = Some (Inr (Created cr), st')
     \<and> sr_scheduled res = cr_accepted cr \<and> sr_job res = (if cr_accepted cr then cr_job cr else None)
     \<and> sr_task_id res = Some (t_id t) \<and> sr_transition_id res = Some (td_id tr))"

definition old_job :: "sched_state \<Rightarrow> schedule_result \<Rightarrow> bool" where
  "old_job st res \<longleftrightarrow> (\<exists>listed j. list_jobs (ss_jobs st) = Inr listed \<and> j \<in> set (jr_jobs listed) \<and> repair_ready j \<and> sr_job res = Some j)"

lemma max_by_in: "max_by f b xs = b \<or> max_by f b xs \<in> set xs"
  by (induction f b xs rule: max_by.induct) auto

lemma latest_job_in: "latest_job ck js = Some j \<Longrightarrow> j \<in> set js"
  using max_by_in by (fastforce simp: latest_job_def split: list.splits)

lemma repair_ready_job_in: "repair_ready_job ck js = Inr (Some j) \<Longrightarrow> j \<in> set js \<and> repair_ready j"
proof -
  assume a: "repair_ready_job ck js = Inr (Some j)"
  have "j \<in> set fs" if "(case fs of [] \<Rightarrow> Inr None | [j] \<Rightarrow> Inr (Some j)
      | ready \<Rightarrow> if list_ex (\<lambda>j. job_timestamp ck j = None) ready then Inl TypeErr else Inr (latest_job ck ready)) = Inr (Some j)" for fs
    using that by (auto split: list.splits if_splits dest!: latest_job_in)
  from this [of "filter repair_ready js"] a have "j \<in> set (filter repair_ready js)" by (simp add: repair_ready_job_def)
  then show ?thesis by auto
qed

lemma find_active_listed:
  assumes "find_active pid tid trid s = Inr r" "j \<in> set (jr_jobs r)"
  shows "\<exists>listed. list_jobs s = Inr listed \<and> j \<in> set (jr_jobs listed)"
  using assms by (auto simp: find_active_def bind_sum_Inr_iff split: if_splits)

lemma gate_stop:
  assumes "task_gate sk now pid snap st skipped t = Inr (Stop res)"
  shows "sr_scheduled res \<longrightarrow> old_job st res"
proof -
  have "skip_on x \<noteq> Inr (Some (Stop res))" for x by (auto simp: skip_on_Inr)
  with assms obtain tr where "active_gate sk pid st skipped t tr = Inr (Some (Stop res))
      \<or> failed_limit_gate sk pid st skipped t tr = Inr (Some (Stop res)) \<or> backoff_gate sk now pid st skipped t tr = Inr (Some (Stop res))"
    by (auto simp: task_gate_def otherwise_Inr split: sum.splits)
  then show ?thesis
  proof (elim disjE)
    assume "active_gate sk pid st skipped t tr = Inr (Some (Stop res))"
    then have "\<not> sr_scheduled res \<or> (\<exists>active j. find_active pid (t_id t) (td_id tr) (ss_jobs st) = Inr active
        \<and> repair_ready_job (sk_clock sk) (jr_jobs active) = Inr (Some j) \<and> sr_job res = Some j)"
      by (auto simp: active_gate_def bind_sum_Inr_iff not_scheduled_def resumed_def split: option.splits if_splits)
    then show ?thesis using find_active_listed repair_ready_job_in unfolding old_job_def by blast
  qed (auto simp: failed_limit_gate_def backoff_gate_def bind_sum_Inr_iff not_scheduled_def split: option.splits if_splits)
qed

lemma schedule_tasks_outcome:
  assumes "schedule_tasks sk dr pid snap skipped ts st = Some (Inr res, st')" "set ts \<subseteq> snd ` set (snap_tasks snap)"
  shows "(st' = st \<and> (sr_scheduled res \<longrightarrow> old_job st res)) \<or> fresh sk dr pid snap st res st'"
  using assms
proof (induction sk dr pid snap skipped ts st rule: schedule_tasks.induct)
  case (1 sk dr pid snap skipped st)
  then show ?case by (auto simp: not_scheduled_def)
next
  case (2 sk dr pid snap skipped t ts st)
  from 2(3) obtain g where g: "task_gate sk (dr_now dr) pid snap st skipped t = Inr g"
    by (cases "task_gate sk (dr_now dr) pid snap st skipped t") auto
  show ?case
  proof (cases g)
    case (Skip e)
    from 2(1) [OF g Skip] 2(3,4) g Skip show ?thesis by simp
  next
    case (Stop r)
    with g 2(3) gate_stop [of sk "dr_now dr" pid snap st skipped t r] show ?thesis by auto
  next
    case (Admit tr)
    have open_gates: "gates_open sk (dr_now dr) pid snap st t tr" using g Admit task_gate_admit by simp
    from 2(3) g Admit obtain x st1 where a: "admit_task sk dr pid t tr st = Some (x, st1)"
      by (cases "admit_task sk dr pid t tr st") auto
    from 2(3) g Admit a obtain ad where x: "x = Inr ad" by (cases x) auto
    show ?thesis
    proof (cases ad)
      case (Busy rs)
      with a x admit_task_busy have st1: "st1 = st" by blast
      from 2(2) [OF g Admit a refl x Busy] 2(3,4) g Admit a x Busy st1 show ?thesis by auto
    next
      case (Created cr)
      with 2(3) g Admit a x have "res = created_schedule sk skipped t tr cr" "st' = st1" by auto
      then have "fresh sk dr pid snap st res st'"
        unfolding fresh_def using open_gates a x Created 2(4)
        by (intro exI [of _ t] exI [of _ tr] exI [of _ cr]) (auto simp: created_schedule_def)
      then show ?thesis ..
    qed
  qed
qed

section \<open>The lane\<close>

lemma set_board_order [simp]: "set (tasks_in_board_order snap) = snd ` set (snap_tasks snap)"
  by (simp add: tasks_in_board_order_def)

lemma first_with_active_some:
  "first_with_active own ts = Some f \<Longrightarrow> \<exists>t act. f = LaneTask t act \<and> t \<in> set ts \<and> act \<noteq> [] \<and> set act \<subseteq> set own"
  by (induction own ts rule: first_with_active.induct) (auto simp: Let_def split: if_splits)

lemma first_with_active_none:
  "first_with_active own ts = None \<longleftrightarrow> (\<forall>t \<in> set ts. \<forall>j \<in> set own. j_task_id j = t_id t \<longrightarrow> \<not> lane_active j)"
  by (induction own ts rule: first_with_active.induct) (auto simp: Let_def filter_empty_conv)

lemma first_task_some: "first_task P js ts = LaneTask t act \<Longrightarrow> t \<in> set ts \<and> act = js"
  by (induction P js ts rule: first_task.induct) (auto split: if_splits)

lemma lane_over_jobs_task:
  assumes "lane_over_jobs pid identity tasks w jobs = LaneTask t act"
  shows "t \<in> set tasks \<and> set act \<subseteq> set jobs"
proof -
  let ?own = "filter (\<lambda>j. j_project_id j = pid \<and> j_task_id j \<in> t_id ` set tasks) jobs"
  show ?thesis
  proof (cases "first_with_active ?own tasks")
    case None
    with assms show ?thesis by (auto simp: lane_over_jobs_def Let_def split: if_splits dest!: first_task_some)
  next
    case (Some f)
    from first_with_active_some [OF Some] show ?thesis using assms Some by (auto simp: lane_over_jobs_def Let_def)
  qed
qed

lemma lane_focus_task:
  assumes "serial_repo_lane_focus pid identity snap w jobs journals = Inr (LaneTask t act)"
  shows "t \<in> snd ` set (snap_tasks snap) \<and> (\<exists>listed. list_jobs jobs = Inr listed \<and> set act \<subseteq> set (jr_jobs listed))"
proof -
  let ?u = "case (journals, identity) of (Some js, Some i) \<Rightarrow> unresolved_acceptance_journal js i | _ \<Rightarrow> None"
  from assms have "?u = None" by (cases ?u) (simp_all add: serial_repo_lane_focus_def)
  with assms obtain listed where l: "list_jobs jobs = Inr listed"
    "lane_over_jobs pid identity (tasks_in_board_order snap) w (jr_jobs listed) = LaneTask t act"
    by (auto simp: serial_repo_lane_focus_def bind_sum_Inr_iff split: option.splits)
  from lane_over_jobs_task [OF l(2)] l(1) show ?thesis by auto
qed

lemma schedule_one_outcome:
  assumes "schedule_one sk dr pid st = Some (Inr res, st')"
  shows "(st' = st \<and> (sr_scheduled res \<longrightarrow> old_job st res))
     \<or> (\<exists>snap. load_snapshot (sk_adapter sk) = Inr snap \<and> fresh sk dr pid snap st res st')"
proof (cases "load_snapshot (sk_adapter sk)")
  case (Inl es)
  with assms show ?thesis by (auto simp: schedule_one_def not_scheduled_def)
next
  case (Inr snap)
  show ?thesis
  proof (cases "sk_serial sk")
    case False
    with assms Inr schedule_tasks_outcome [of sk dr pid snap "[]" "tasks_in_board_order snap" st res st'] show ?thesis
      by (auto simp: schedule_one_def)
  next
    case True
    let ?f = "serial_repo_lane_focus pid (sk_identity sk) snap (sk_workflow sk) (ss_jobs st) (if sk_has_journals sk then Some (ss_journals st) else None)"
    have l: "lane_step sk dr pid snap st = Some (Inr res, st')" using assms Inr True by (simp add: schedule_one_def)
    then obtain f where f: "?f = Inr f" by (cases ?f) (auto simp: lane_step_def)
    show ?thesis
    proof (cases f)
      case (LaneError e)
      with l f show ?thesis by (auto simp: lane_step_def not_scheduled_def)
    next
      case LaneFree
      with l f schedule_tasks_outcome [of sk dr pid snap "[]" "tasks_in_board_order snap" st res st'] Inr show ?thesis
        by (auto simp: lane_step_def)
    next
      case (LaneTask t act)
      from lane_focus_task [OF f [unfolded LaneTask]] obtain listed where
        t: "t \<in> snd ` set (snap_tasks snap)" "list_jobs (ss_jobs st) = Inr listed" "set act \<subseteq> set (jr_jobs listed)" by blast
      show ?thesis
      proof (cases "act = []")
        case True
        with l f LaneTask t schedule_tasks_outcome [of sk dr pid snap "[]" "[t]" st res st'] Inr show ?thesis
          by (auto simp: lane_step_def)
      next
        case False
        with l f LaneTask obtain r where r: "repair_ready_job (sk_clock sk) act = Inr r"
          by (cases "repair_ready_job (sk_clock sk) act") (auto simp: lane_step_def)
        show ?thesis
        proof (cases r)
          case None
          with l f LaneTask False r show ?thesis by (auto simp: lane_step_def not_scheduled_def)
        next
          case (Some j)
          from repair_ready_job_in [OF r [unfolded Some]] t have "old_job st (resumed j [])"
            unfolding old_job_def by (intro exI [of _ listed] exI [of _ j]) (auto simp: resumed_def)
          with l f LaneTask False r Some show ?thesis by (auto simp: lane_step_def)
        qed
      qed
    qed
  qed
qed

section \<open>A sample project\<close>

text \<open>Task T-0 depends on the finished task T-1; creation is not transactional and uses no leases.\<close>

definition sample_scheduler :: "task list \<Rightarrow> scheduler" where
  "sample_scheduler ts = \<lparr>sk_workflow = ship_workflow, sk_adapter = tracker_of ts, sk_workspace_root = ''/ws'', sk_has_leases = False,
     sk_has_events = False, sk_has_journals = True, sk_worker_resources = [], sk_serial = False, sk_backoff = 60, sk_max_failed = 0,
     sk_max_total = 0, sk_session_start = None, sk_files = Some bare_files, sk_identity = None, sk_evidence = plain_evidence_env,
     sk_frozen = \<lparr>load_contract = (\<lambda>_. None), load_planning = (\<lambda>_. Inr None)\<rparr>, sk_clock = plain_clock,
     sk_freeze = (\<lambda>t tr jid. Inr (Inr \<lparr>fz_metadata = fmempty, fz_contract_sha = None\<rparr>))\<rparr>"

definition sample_sched_draws :: sched_draws where
  "sample_sched_draws = \<lparr>dr_now = 0, dr_job_id = ''J-9'', dr_manager = sample_draws, dr_lease_now = (\<lambda>_. ''t''), dr_lease_ok = (\<lambda>_. True),
     dr_tx = quiet_env\<rparr>"

definition sched_start :: "execution_job list \<Rightarrow> transaction_journal list \<Rightarrow> sched_state" where
  "sched_start js rs = \<lparr>ss_jobs = store_of js, ss_leases = \<lparr>ls_files = [], ls_capacity = [(''gpu'', 1)]\<rparr>, ss_events = empty_log, ss_journals = journals_of rs\<rparr>"

definition dependent_task :: task where
  "dependent_task = (ready_task ''T-0'')\<lparr>t_dependencies := [''T-1'']\<rparr>"

definition scheduled_ids :: "schedule_outcome option \<Rightarrow> (string option \<times> string option) option" where
  "scheduled_ids r = (case r of Some (Inr res, _) \<Rightarrow> (if sr_scheduled res then Some (map_option j_job_id (sr_job res), sr_task_id res) else None) | _ \<Rightarrow> None)"

lemma scheduled_ids_cases:
  "scheduled_ids r = Some (j, t) \<Longrightarrow> \<exists>res st'. r = Some (Inr res, st') \<and> sr_scheduled res \<and> map_option j_job_id (sr_job res) = j \<and> sr_task_id res = t"
  by (auto simp: scheduled_ids_def split: option.splits prod.splits sum.splits if_splits)

lemma list_store_one:
  assumes "job_filled j"
  shows "list_jobs (store_of [j]) = Inr (jobs_found [reload j])"
proof -
  have "fmap_entries (js_files (store_of [j])) = [(j_job_id j, Stored (JObj (job_to_payload j)))]"
    by (simp add: store_of_def fmap_entries_code del: fmap_of_list_simps)
  then show ?thesis using read_written [OF assms] by (simp add: list_jobs_def)
qed

lemma shipped_reloaded: "job_filled (shipped_job ''T-1'')" "reload (shipped_job ''T-1'') = (shipped_job ''T-1'')\<lparr>j_status := Inr ''accepted''\<rparr>"
  by (simp_all add: job_filled_def reload_def shipped_job_def jstatus_value_def)

lemmas sample_listed = list_store_one [OF shipped_reloaded(1), unfolded shipped_reloaded(2)]

abbreviation sample_tasks :: "task list" where
  "sample_tasks \<equiv> [dependent_task, done_task ''T-1'' ''x'']"

abbreviation sample_state :: sched_state where
  "sample_state \<equiv> sched_start [shipped_job ''T-1''] [shipped_journal (done_task ''T-1'' ''x'')]"

definition ship :: transition_definition where
  "ship = the (dict_get (wf_transitions ship_workflow) ''ship'')"

lemma evidence_status:
  assumes "jstatus_value s = jstatus_value (j_status job)"
  shows "accepted_task_evidence env (job\<lparr>j_status := s\<rparr>) t w journals ids target = accepted_task_evidence env job t w journals ids target"
proof -
  have f: "jstatus_value (j_status (job\<lparr>j_status := s\<rparr>)) = jstatus_value (j_status job)"
    "j_transition_id (job\<lparr>j_status := s\<rparr>) = j_transition_id job" "j_project_id (job\<lparr>j_status := s\<rparr>) = j_project_id job"
    "j_job_id (job\<lparr>j_status := s\<rparr>) = j_job_id job" "evidence_journal (job\<lparr>j_status := s\<rparr>) = evidence_journal job"
    "commit_delivered env (job\<lparr>j_status := s\<rparr>) = commit_delivered env job"
    "evidence_criteria env (job\<lparr>j_status := s\<rparr>) = evidence_criteria env job"
    using assms by (simp_all add: evidence_journal_def evidence_criteria_def commit_delivered_def fun_eq_iff)
  show ?thesis unfolding accepted_task_evidence_def f ..
qed

lemma sample_evidence:
  "accepted_task_evidence plain_evidence_env ((shipped_job ''T-1'')\<lparr>j_status := Inr ''accepted''\<rparr>) (done_task ''T-1'' ''x'') ship_workflow
     (Some (journals_of [shipped_journal (done_task ''T-1'' ''x'')])) [] None = Inr True"
  by (subst evidence_status) (simp_all add: shipped_evidence, simp add: shipped_job_def jstatus_value_def)

lemma sample_facts:
  "dependency_outcome ship_workflow ''task'' ''done'' = ''success''" "dict_get (wf_transitions ship_workflow) ''ship'' = Some ship"
  "select_scheduler_transition dependent_task ship_workflow = Inr ship"
  "resolve_source_content_identities bare_files (done_task ''T-1'' ''x'') ship [] = []"
  "validate_task_structure (t_body dependent_task) (Some (t_path dependent_task)) False = []"
  "transition_guards dependent_task ship = []" "task_uses_global_contract dependent_task ship_workflow = False"
  by code_simp+

lemma sample_fields:
  "j_job_id (shipped_job ''T-1'') = ''J-T-1''"
  "j_project_id (shipped_job ''T-1'') = ''p''" "j_task_id (shipped_job ''T-1'') = ''T-1''" "j_transition_id (shipped_job ''T-1'') = ''ship''"
  "fmlookup (j_metadata (shipped_job ''T-1'')) ''acceptance_repository_identity'' = None"
  "t_dependencies dependent_task = [''T-1'']" "t_id dependent_task = ''T-0''" "t_parent_id dependent_task = None"
  "t_task_type (done_task ''T-1'' ''x'') = ''task''" "t_current_state (done_task ''T-1'' ''x'') = ''done''" "t_parent_id (done_task ''T-1'' ''x'') = None"
  "dict_get (snap_tasks (snapshot_of sample_tasks)) ''T-1'' = Some (done_task ''T-1'' ''x'')"
  "dict_get (snap_tasks (snapshot_of sample_tasks)) ''T-0'' = Some dependent_task"
  "td_worker ship = Some ''coder''" "td_id ship = ''ship''"
  by (simp_all add: shipped_job_def dependent_task_def ready_task_def done_task_def plain_task_def snapshot_of_def dict_get_def ship_def ship_workflow_def)

lemma no_parents [simp]: "t_parent_id t = None \<Longrightarrow> load_parent_tasks rd t = []"
  by (simp add: load_parent_tasks_def parents_from.simps)

lemma sample_dependencies:
  assumes "de_project de = Some ''p''" "de_jobs de = Some (store_of [shipped_job ''T-1''])" "de_evidence de = plain_evidence_env"
    "de_journals de = Some (journals_of [shipped_journal (done_task ''T-1'' ''x'')])" "de_sources de = Some f" "f (done_task ''T-1'' ''x'') ship = []"
  shows "dependency_error de dependent_task (snapshot_of sample_tasks) ship_workflow = Inr None"
  using assms by (simp add: dependency_error_def one_dependency_error_def sample_fields sample_facts dependency_accepted_repo_identity_def
      sample_listed source_identities_of_def sample_evidence Let_def latest_job_def jstatus_value_def)

lemma sample_gates: "gates_open (sample_scheduler sample_tasks) 0 ''p'' (snapshot_of sample_tasks) sample_state dependent_task ship"
proof -
  have jobs: "ss_jobs sample_state = store_of [shipped_job ''T-1'']" by (simp add: sched_start_def)
  have "dependency_error (sched_dependencies (sample_scheduler sample_tasks) ''p'' sample_state) dependent_task (snapshot_of sample_tasks) ship_workflow = Inr None"
    by (rule sample_dependencies [where f = "sched_sources (sample_scheduler sample_tasks)"]) (simp_all add: sched_dependencies_def sched_start_def sample_scheduler_def sched_sources_def sample_fields sample_facts)
  then show ?thesis
    unfolding gates_open_def jobs
    by (simp add: sample_scheduler_def sample_facts sample_fields sample_listed find_active_def retry_blocked_by_cause_def cause_candidate_def
        job_of_def latest_job_def total_attempt_exhausted_def effective_total_def job_consumption_def failed_limit_gate_def backoff_gate_def
        find_recent_failed_job_def jobs)
qed

lemma sample_order: "tasks_in_board_order (snapshot_of sample_tasks) = [dependent_task, done_task ''T-1'' ''x'']"
proof -
  have "sort_key t_id sample_tasks = sample_tasks"
    by (simp add: sample_fields, code_simp)
  then show ?thesis
    by (simp add: tasks_in_board_order_def snapshot_of_def board_of_def line_of_def dict_get_def)
qed

lemma sample_config:
  "sk_serial (sample_scheduler ts) = False" "\<not> sk_has_leases (sample_scheduler ts)" "load_snapshot (sk_adapter (sample_scheduler ts)) = Inr (snapshot_of ts)"
  "\<not> transactional_creation_enabled (sample_scheduler ts)" "dr_now sample_sched_draws = 0"
  by (simp_all add: sample_scheduler_def tracker_of_def load_snapshot_def transactional_creation_enabled_def sample_sched_draws_def)

lemma sample_admit:
  "\<exists>cr st'. admit_task (sample_scheduler sample_tasks) sample_sched_draws ''p'' dependent_task ship sample_state = Some (Inr (Created cr), st')
     \<and> cr_accepted cr \<and> map_option j_job_id (cr_job cr) = Some ''J-9''"
proof -
  let ?sk = "sample_scheduler sample_tasks" and ?st = sample_state
  let ?c = "create_command_of ?sk sample_sched_draws ''p'' dependent_task ship" and ?m = "sched_manager ?sk ?st"
  have jobs: "ss_jobs ?st = store_of [shipped_job ''T-1'']" by (simp add: sched_start_def)
  have dep: "dependency_error (manager_dependencies ?m ''p'') dependent_task (snapshot_of sample_tasks) ship_workflow = Inr None"
    by (rule sample_dependencies [where f = "source_identities ?m"]) (simp_all add: manager_dependencies_def sched_manager_def sched_start_def sample_scheduler_def source_identities_def sample_fields sample_facts)
  have "create_guards ?m ?c = Some (Inr (Inr (dependent_task, ship)))"
    using dep by (simp add: create_guards_def create_command_of_def sched_manager_def sample_scheduler_def tracker_of_def load_snapshot_def
        sample_fields sample_facts validate_parent_lineage_def lineage_walk.simps)
  moreover have "find_active ''p'' ''T-0'' ''ship'' (store_of [shipped_job ''T-1'']) = Inr (jobs_found [])"
    by (simp add: find_active_def sample_listed sample_fields)
  ultimately obtain cr s where c: "create_execution_job ?m sample_draws ?c = Some (Inr cr, Some s)" "cr_accepted cr" "map_option j_job_id (cr_job cr) = Some ''J-9''"
    by (simp add: create_execution_job_def save_new_job_def sched_manager_def sample_scheduler_def new_job_def create_command_of_def py_or_def
        sample_sched_draws_def transactional_creation_enabled_def jobs create_def sample_draws_def save_def Let_def created_result_def sample_fields)
  have "admit_task ?sk sample_sched_draws ''p'' dependent_task ship ?st = Some (Inr (Created cr), ?st\<lparr>ss_jobs := s\<rparr>)"
    using c sample_config by (simp add: admit_task_def create_job_def commit_job_def sample_sched_draws_def)
  with c(2,3) show ?thesis by blast
qed

lemma sample_schedule:
  "scheduled_ids (schedule_one (sample_scheduler sample_tasks) sample_sched_draws ''p'' sample_state) = Some (Some ''J-9'', Some ''T-0'')"
proof -
  from sample_admit obtain cr st' where a: "admit_task (sample_scheduler sample_tasks) sample_sched_draws ''p'' dependent_task ship sample_state = Some (Inr (Created cr), st')"
    "cr_accepted cr" "map_option j_job_id (cr_job cr) = Some ''J-9''" by blast
  have "task_gate (sample_scheduler sample_tasks) 0 ''p'' (snapshot_of sample_tasks) sample_state [] dependent_task = Inr (Admit ship)"
    using task_gate_admit sample_gates by blast
  then show ?thesis
    using a sample_config by (simp add: schedule_one_def sample_order scheduled_ids_def created_schedule_def sample_fields)
qed

lemma sample_not_old:
  assumes "map_option j_job_id (sr_job res) = Some ''J-9''"
  shows "\<not> old_job sample_state res"
  using assms by (auto simp: old_job_def sched_start_def sample_listed sample_fields)

section \<open>What a fresh job may rest on\<close>

lemma total_attempts_left:
  assumes "total_attempt_exhausted digest frozen pid t tr revn limit s = Inr None" "0 < limit"
  shows "\<exists>listed consumed ds. list_jobs s = Inr listed \<and> count_consumed_attempts digest frozen (t_id t) (td_id tr) revn (Some pid) (jr_jobs listed) = Inr (consumed, ds)
     \<and> consumed < limit"
  using assms by (auto simp: total_attempt_exhausted_def bind_sum_Inr_iff split: if_splits sum.splits prod.splits)

text \<open>
  C1. A scheduling step that reports a job either resumes, without changing anything, a stored job
  that is ready for repair, or has created one for a task of the tracker: then the transition
  is the one selected for the task, no active job for it is in the store, and the worker
  attempts consumed so far by this revision of the task are fewer than the total allowed.
\<close>

theorem fresh_job_within_budget:
  assumes "schedule_one sk dr pid st = Some (Inr res, st')" "sr_scheduled res"
  shows "(st' = st \<and> old_job st res)
     \<or> (\<exists>snap t tr. load_snapshot (sk_adapter sk) = Inr snap \<and> t \<in> snd ` set (snap_tasks snap)
          \<and> sr_task_id res = Some (t_id t) \<and> sr_transition_id res = Some (td_id tr)
          \<and> select_scheduler_transition t (sk_workflow sk) = Inr tr
          \<and> (\<exists>active. find_active pid (t_id t) (td_id tr) (ss_jobs st) = Inr active \<and> jr_jobs active = [])
          \<and> (0 < effective_total sk \<longrightarrow> (\<exists>listed consumed ds. list_jobs (ss_jobs st) = Inr listed
                \<and> count_consumed_attempts (ee_digest (sk_evidence sk)) (sk_frozen sk) (t_id t) (td_id tr) (sched_revision sk t tr) (Some pid) (jr_jobs listed) = Inr (consumed, ds)
                \<and> consumed < effective_total sk)))"
  using schedule_one_outcome [OF assms(1)]
proof (elim disjE exE conjE)
  assume "st' = st" "sr_scheduled res \<longrightarrow> old_job st res"
  with assms(2) show ?thesis by blast
next
  fix snap assume snap: "load_snapshot (sk_adapter sk) = Inr snap" and "fresh sk dr pid snap st res st'"
  then obtain t tr where t: "t \<in> snd ` set (snap_tasks snap)" "gates_open sk (dr_now dr) pid snap st t tr"
    "sr_task_id res = Some (t_id t)" "sr_transition_id res = Some (td_id tr)" unfolding fresh_def by blast
  with total_attempts_left have "0 < effective_total sk \<longrightarrow> (\<exists>listed consumed ds. list_jobs (ss_jobs st) = Inr listed
      \<and> count_consumed_attempts (ee_digest (sk_evidence sk)) (sk_frozen sk) (t_id t) (td_id tr) (sched_revision sk t tr) (Some pid) (jr_jobs listed) = Inr (consumed, ds)
      \<and> consumed < effective_total sk)" unfolding gates_open_def by blast
  with snap t show ?thesis unfolding gates_open_def by blast
qed

theorem fresh_job_within_budget_witness:
  "\<exists>res st'. schedule_one (sample_scheduler sample_tasks) sample_sched_draws ''p''
      sample_state = Some (Inr res, st') \<and> sr_task_id res = Some ''T-0''
    \<and> (\<exists>active. find_active ''p'' ''T-0'' ''ship'' (store_of [shipped_job ''T-1'']) = Inr active \<and> jr_jobs active = [])"
proof -
  from scheduled_ids_cases [OF sample_schedule] obtain res st' where
    r: "schedule_one (sample_scheduler sample_tasks) sample_sched_draws ''p''
      sample_state = Some (Inr res, st')"
    "sr_scheduled res" "map_option j_job_id (sr_job res) = Some ''J-9''" "sr_task_id res = Some ''T-0''" by blast
  from fresh_job_within_budget [OF r(1,2)] sample_not_old [OF r(3)] obtain t tr where
    t: "sr_task_id res = Some (t_id t)" "select_scheduler_transition t ship_workflow = Inr tr"
    "\<exists>active. find_active ''p'' (t_id t) (td_id tr) (store_of [shipped_job ''T-1'']) = Inr active \<and> jr_jobs active = []"
    by (auto simp: sample_scheduler_def sched_start_def)
  have "td_id tr = ''ship''"
    using t(2) by (auto simp: select_scheduler_transition_def ship_workflow_def split: if_splits)
  with t r(1,4) show ?thesis by auto
qed

lemma dependency_errors_none: "dependency_errors_from de t snap w ds = Inr None \<Longrightarrow> d \<in> set ds \<Longrightarrow> one_dependency_error de t snap w d = Inr None"
  by (induction de t snap w ds rule: dependency_errors_from.induct) (auto simp: bind_sum_Inr_iff split: option.splits)

lemma one_dependency_none:
  assumes "one_dependency_error de t snap w d = Inr None"
  shows "\<exists>dep s pid listed job. dict_get (snap_tasks snap) d = Some dep \<and> de_jobs de = Some s \<and> de_project de = Some pid
     \<and> list_jobs s = Inr listed \<and> job \<in> set (jr_jobs listed) \<and> j_project_id job = pid \<and> j_task_id job = d
     \<and> accepted_task_evidence (de_evidence de) job dep w (de_journals de) (source_identities_of de dep w job) None = Inr True"
proof -
  from assms obtain dep where dep: "dict_get (snap_tasks snap) d = Some dep"
    by (cases "dict_get (snap_tasks snap) d") (auto simp: one_dependency_error_def)
  from assms dep obtain s pid jn where st: "de_jobs de = Some s" "de_project de = Some pid" "de_journals de = Some jn"
    by (auto simp: one_dependency_error_def Let_def split: if_splits option.splits)
  from assms dep st obtain recorded where a: "dependency_accepted_repo_identity de s pid dep w d = Inr (recorded, True)"
    by (auto simp: one_dependency_error_def Let_def bind_sum_Inr_iff split: if_splits)
  then obtain listed found where f: "list_jobs s = Inr listed"
    "filter_sum (\<lambda>j. accepted_task_evidence (de_evidence de) j dep w (de_journals de) (source_identities_of de dep w j) None)
       (filter (\<lambda>j. j_project_id j = pid \<and> j_task_id j = d \<and> jstatus_value (j_status j) = ''accepted'') (jr_jobs listed)) = Inr found"
    "latest_job (de_clock de) found \<noteq> None"
    by (auto simp: dependency_accepted_repo_identity_def bind_sum_Inr_iff Let_def split: if_splits option.splits)
  then obtain job where "job \<in> set found" by (cases found) (auto simp: latest_job_def)
  from filter_sum_Inr [OF f(2) this] f(1) dep st show ?thesis by auto
qed



end
