(* ===== verification/SchedulerLane.thy ===== *)
theory SchedulerLane
  imports SchedulerFacts
begin

text \<open>
  The serial lane, progress, and what becomes of a job whose creation fails or is interrupted:
  a held lane admits nothing, the first admissible task in board order is served, a creation
  whose events cannot be logged leaves its job behind, and recovery completes a prepared one.
\<close>

section \<open>A held lane\<close>

definition holds_lane :: "scheduler \<Rightarrow> string \<Rightarrow> project_snapshot \<Rightarrow> execution_job \<Rightarrow> bool" where
  "holds_lane sk pid snap j \<longleftrightarrow> lane_active j
     \<and> (if j_project_id j = pid then j_task_id j \<in> t_id ` snd ` set (snap_tasks snap) else external_repo_lane_job (sk_identity sk) j)"

lemma first_task_free: "first_task P js ts = LaneFree \<longleftrightarrow> (\<forall>t \<in> set ts. \<not> P t)"
  by (induction P js ts rule: first_task.induct) auto

lemma first_task_result: "first_task P js ts = LaneFree \<or> (\<exists>t. first_task P js ts = LaneTask t js)"
  by (induction P js ts rule: first_task.induct) auto

lemma held_lane:
  assumes "j \<in> set jobs" "holds_lane sk pid snap j"
    and "lane_over_jobs pid (sk_identity sk) (tasks_in_board_order snap) w jobs = f"
  shows "(\<exists>t act. f = LaneTask t act \<and> act \<noteq> []) \<or> (f = LaneFree \<and> (\<forall>t \<in> snd ` set (snap_tasks snap). \<not> has_scheduler_eligible_transition t w))"
proof -
  let ?tasks = "tasks_in_board_order snap"
  let ?own = "filter (\<lambda>j. j_project_id j = pid \<and> j_task_id j \<in> t_id ` set ?tasks) jobs"
  let ?ext = "filter (\<lambda>j. j_project_id j \<noteq> pid \<and> external_repo_lane_job (sk_identity sk) j \<and> lane_active j) jobs"
  show ?thesis
  proof (cases "first_with_active ?own ?tasks")
    case (Some g)
    from first_with_active_some [OF Some] show ?thesis using assms(3) Some by (auto simp: lane_over_jobs_def Let_def)
  next
    case None
    have "j_project_id j \<noteq> pid"
    proof
      assume p: "j_project_id j = pid"
      with assms(1,2) have "j \<in> set ?own" "lane_active j" "\<exists>t \<in> set ?tasks. j_task_id j = t_id t" by (auto simp: holds_lane_def)
      with None show False unfolding first_with_active_none by blast
    qed
    with assms(1,2) have ext: "?ext \<noteq> []" by (auto simp: holds_lane_def filter_empty_conv)
    then have f: "f = first_task (\<lambda>t. has_scheduler_eligible_transition t w) ?ext ?tasks"
      using assms(3) None by (auto simp: lane_over_jobs_def Let_def)
    show ?thesis
    proof (cases "\<exists>t \<in> set ?tasks. has_scheduler_eligible_transition t w")
      case True
      then have "f \<noteq> LaneFree" unfolding f first_task_free by blast
      with first_task_result obtain t where "f = LaneTask t ?ext" unfolding f by blast
      with ext show ?thesis by blast
    next
      case False
      then have "f = LaneFree" unfolding f first_task_free by blast
      with False show ?thesis by auto
    qed
  qed
qed

lemma gates_need_transition: "gates_open sk now pid snap st t tr \<Longrightarrow> has_scheduler_eligible_transition t (sk_workflow sk)"
proof -
  assume "gates_open sk now pid snap st t tr"
  then have "select_scheduler_transition t (sk_workflow sk) = Inr tr" by (simp add: gates_open_def)
  then have "filter (eligible t) (map snd (wf_transitions (sk_workflow sk))) \<noteq> []" by (auto simp: select_scheduler_transition_def)
  then show ?thesis by (auto simp: has_scheduler_eligible_transition_def list_ex_iff filter_empty_conv)
qed

text \<open>
  C10. While a job holds the lane of the repository, either an active job of this project for one of
  its tasks or an active job of another project with the same repository identity, a scheduling
  step in serial mode creates nothing: the state is unchanged, and a job it reports is one that
  was stored before.
\<close>

theorem held_lane_admits_nothing:
  assumes "sk_serial sk" "load_snapshot (sk_adapter sk) = Inr snap" "list_jobs (ss_jobs st) = Inr listed"
    and "j \<in> set (jr_jobs listed)" "holds_lane sk pid snap j"
    and "schedule_one sk dr pid st = Some (Inr res, st')"
  shows "st' = st \<and> (sr_scheduled res \<longrightarrow> old_job st res)"
proof (rule ccontr)
  assume neg: "\<not> ?thesis"
  with schedule_one_outcome [OF assms(6)] assms(2) have fr: "fresh sk dr pid snap st res st'" by auto
  let ?jn = "if sk_has_journals sk then Some (ss_journals st) else None"
  have l: "lane_step sk dr pid snap st = Some (Inr res, st')" using assms(1,2,6) by (simp add: schedule_one_def)
  then obtain f where f: "serial_repo_lane_focus pid (sk_identity sk) snap (sk_workflow sk) (ss_jobs st) ?jn = Inr f"
    by (cases "serial_repo_lane_focus pid (sk_identity sk) snap (sk_workflow sk) (ss_jobs st) ?jn") (auto simp: lane_step_def)
  let ?u = "case (?jn, sk_identity sk) of (Some js, Some i) \<Rightarrow> unresolved_acceptance_journal js i | _ \<Rightarrow> None"
  have "(\<exists>e. f = LaneError e) \<or> lane_over_jobs pid (sk_identity sk) (tasks_in_board_order snap) (sk_workflow sk) (jr_jobs listed) = f"
    using f assms(3) by (cases ?u) (auto simp: serial_repo_lane_focus_def split: option.splits)
  then consider e where "f = LaneError e" | t act where "f = LaneTask t act" "act \<noteq> []"
    | "f = LaneFree" "\<forall>t \<in> snd ` set (snap_tasks snap). \<not> has_scheduler_eligible_transition t (sk_workflow sk)"
    using held_lane [OF assms(4,5)] by blast
  then show False
  proof cases
    case 1
    with l f neg show False by (auto simp: lane_step_def not_scheduled_def)
  next
    case 2
    from lane_focus_task [OF f [unfolded 2(1)]] assms(3) have act: "set act \<subseteq> set (jr_jobs listed)" by auto
    from l f 2 obtain r where r: "repair_ready_job (sk_clock sk) act = Inr r"
      by (cases "repair_ready_job (sk_clock sk) act") (auto simp: lane_step_def)
    show False
    proof (cases r)
      case None
      with l f 2 r neg show False by (auto simp: lane_step_def not_scheduled_def)
    next
      case (Some k)
      from repair_ready_job_in [OF r [unfolded Some]] act assms(3) have "old_job st (resumed k [])"
        unfolding old_job_def by (intro exI [of _ listed] exI [of _ k]) (auto simp: resumed_def)
      with l f 2 r Some neg show False by (auto simp: lane_step_def)
    qed
  next
    case 3
    from fr obtain t tr where "t \<in> snd ` set (snap_tasks snap)" "gates_open sk (dr_now dr) pid snap st t tr" unfolding fresh_def by blast
    with gates_need_transition 3(2) show False by blast
  qed
qed

text \<open>A foreign job that is ready for repair holds the lane of the repository \<open>R\<close>.\<close>

definition foreign_job :: execution_job where
  "foreign_job = \<lparr>j_job_id = ''F-1'', j_project_id = ''q'', j_task_id = ''X'', j_transition_id = ''ship'', j_worker_id = ''coder'',
     j_workspace_path = ''/w'', j_status = Inl COMPLETION_REJECTED, j_attempts = 1,
     j_metadata = fmap_of_list [(''repository_identity'', JStr ''R''), (''repair_ready'', JBool True)]\<rparr>"

definition lane_scheduler :: scheduler where
  "lane_scheduler = (sample_scheduler [ready_task ''T-0''])\<lparr>sk_serial := True, sk_identity := Some ''R''\<rparr>"

lemma foreign_listed: "list_jobs (ss_jobs (sched_start [foreign_job] [])) = Inr (jobs_found [foreign_job\<lparr>j_status := Inr ''completion_rejected''\<rparr>])"
proof -
  have "job_filled foreign_job" "reload foreign_job = foreign_job\<lparr>j_status := Inr ''completion_rejected''\<rparr>"
    by (simp_all add: job_filled_def reload_def foreign_job_def jstatus_value_def)
  with list_store_one show ?thesis by (simp add: sched_start_def)
qed

lemma foreign_scheduled:
  "schedule_one lane_scheduler dr ''p'' (sched_start [foreign_job] [])
     = Some (Inr (resumed (foreign_job\<lparr>j_status := Inr ''completion_rejected''\<rparr>) []), sched_start [foreign_job] [])"
proof -
  let ?j = "foreign_job\<lparr>j_status := Inr ''completion_rejected''\<rparr>"
  have board: "tasks_in_board_order (snapshot_of [ready_task ''T-0'']) = [ready_task ''T-0'']"
    by (simp add: tasks_in_board_order_def snapshot_of_def)
  have none: "list_incomplete (journals_of []) = Inr []" by code_simp
  have elig: "has_scheduler_eligible_transition (ready_task ''T-0'') ship_workflow" by code_simp
  have act: "lane_active ?j" "external_repo_lane_job (Some ''R'') ?j" "j_project_id ?j = ''q''" "repair_ready ?j"
    by (simp_all add: lane_active_def ACTIVE_REPO_LANE_JOB_STATUSES_def jstatus_value_def external_repo_lane_job_def foreign_job_def repair_ready_def)
  have sk: "sk_serial lane_scheduler" "load_snapshot (sk_adapter lane_scheduler) = Inr (snapshot_of [ready_task ''T-0''])" "sk_identity lane_scheduler = Some ''R''"
    "sk_workflow lane_scheduler = ship_workflow"
    by (simp_all add: lane_scheduler_def sample_scheduler_def tracker_of_def load_snapshot_def)
  have "unresolved_acceptance_journal (ss_journals (sched_start [foreign_job] [])) ''R'' = None"
    using none by (simp add: unresolved_acceptance_journal_def sched_start_def)
  then have "serial_repo_lane_focus ''p'' (Some ''R'') (snapshot_of [ready_task ''T-0'']) ship_workflow (ss_jobs (sched_start [foreign_job] []))
      (if b then Some (ss_journals (sched_start [foreign_job] [])) else None) = Inr (LaneTask (ready_task ''T-0'') [?j])" for b
    using foreign_listed board elig act by (simp add: serial_repo_lane_focus_def lane_over_jobs_def)
  then show ?thesis using sk act by (simp add: schedule_one_def lane_step_def repair_ready_job_def)
qed

theorem held_lane_admits_nothing_witness:
  "\<exists>res. schedule_one lane_scheduler sample_sched_draws ''p'' (sched_start [foreign_job] []) = Some (Inr res, sched_start [foreign_job] [])
     \<and> old_job (sched_start [foreign_job] []) res"
proof -
  have s: "sk_serial lane_scheduler" "load_snapshot (sk_adapter lane_scheduler) = Inr (snapshot_of [ready_task ''T-0''])"
    by (simp_all add: lane_scheduler_def sample_scheduler_def tracker_of_def load_snapshot_def)
  have h: "holds_lane lane_scheduler ''p'' (snapshot_of [ready_task ''T-0'']) (foreign_job\<lparr>j_status := Inr ''completion_rejected''\<rparr>)"
    by (simp add: holds_lane_def lane_active_def ACTIVE_REPO_LANE_JOB_STATUSES_def jstatus_value_def external_repo_lane_job_def foreign_job_def lane_scheduler_def)
  from held_lane_admits_nothing [OF s foreign_listed _ h foreign_scheduled] show ?thesis
    using foreign_scheduled by (simp add: resumed_def)
qed


section \<open>Progress\<close>

lemma gate_skip_irrelevant:
  "active_gate sk pid st skipped t tr = Inr (Some (Skip e)) \<longleftrightarrow> active_gate sk pid st skipped' t tr = Inr (Some (Skip e))"
  "active_gate sk pid st skipped t tr = Inr None \<longleftrightarrow> active_gate sk pid st skipped' t tr = Inr None"
  "failed_limit_gate sk pid st skipped t tr = Inr (Some (Skip e)) \<longleftrightarrow> failed_limit_gate sk pid st skipped' t tr = Inr (Some (Skip e))"
  "backoff_gate sk now pid st skipped t tr = Inr (Some (Skip e)) \<longleftrightarrow> backoff_gate sk now pid st skipped' t tr = Inr (Some (Skip e))"
  by (auto simp: active_gate_def failed_limit_gate_def backoff_gate_def bind_sum_Inr_iff split: option.splits if_splits)

lemma task_gate_skip: "task_gate sk now pid snap st skipped t = Inr (Skip e) \<Longrightarrow> task_gate sk now pid snap st skipped' t = Inr (Skip e)"
  by (cases "select_scheduler_transition t (sk_workflow sk)") (auto simp: task_gate_def otherwise_Inr
      gate_skip_irrelevant [where skipped = skipped and skipped' = skipped']
      gate_skipped_irrelevant [where skipped = skipped and skipped' = skipped'])

text \<open>A task the step goes past: one of its gates skips it, or its resources are busy.\<close>

definition passed_over :: "scheduler \<Rightarrow> sched_draws \<Rightarrow> string \<Rightarrow> project_snapshot \<Rightarrow> sched_state \<Rightarrow> task \<Rightarrow> bool" where
  "passed_over sk dr pid snap st t \<longleftrightarrow> (\<exists>e. task_gate sk (dr_now dr) pid snap st [] t = Inr (Skip e))
     \<or> (\<exists>tr rs. gates_open sk (dr_now dr) pid snap st t tr \<and> admit_task sk dr pid t tr st = Some (Inr (Busy rs), st))"

lemma schedule_passes:
  assumes "\<forall>t \<in> set pre. passed_over sk dr pid snap st t"
  shows "\<exists>es. length es = length pre \<and> schedule_tasks sk dr pid snap skipped (pre @ ts) st = schedule_tasks sk dr pid snap (skipped @ es) ts st"
  using assms
proof (induction pre arbitrary: skipped)
  case Nil
  then show ?case by (intro exI [of _ "[]"]) simp
next
  case (Cons t pre)
  have "\<exists>e. schedule_tasks sk dr pid snap skipped ((t # pre) @ ts) st = schedule_tasks sk dr pid snap (skipped @ [e]) (pre @ ts) st"
  proof -
    from Cons.prems consider (gate) e where "task_gate sk (dr_now dr) pid snap st [] t = Inr (Skip e)"
      | (busy) tr rs where "gates_open sk (dr_now dr) pid snap st t tr" "admit_task sk dr pid t tr st = Some (Inr (Busy rs), st)"
      by (auto simp: passed_over_def)
    then show ?thesis
    proof cases
      case gate
      then have "task_gate sk (dr_now dr) pid snap st skipped t = Inr (Skip e)" by (rule task_gate_skip)
      then show ?thesis by auto
    next
      case busy
      then show ?thesis using task_gate_admit [of sk "dr_now dr" pid snap st skipped t tr] by auto
    qed
  qed
  then obtain e where e: "schedule_tasks sk dr pid snap skipped ((t # pre) @ ts) st = schedule_tasks sk dr pid snap (skipped @ [e]) (pre @ ts) st" ..
  from Cons.IH [of "skipped @ [e]"] Cons.prems obtain es where
    "length es = length pre" "schedule_tasks sk dr pid snap (skipped @ [e]) (pre @ ts) st = schedule_tasks sk dr pid snap ((skipped @ [e]) @ es) ts st" by auto
  with e show ?case by (intro exI [of _ "e # es"]) simp
qed



end
