(* ===== verification/DerivedTasks.thy ===== *)
theory DerivedTasks
  imports TaskSchema Paths Acceptance
begin

text \<open>
  The plan of derived tasks of \<open>runtime/completion.py\<close>: the task files a worker hands in are
  parsed and checked as one batch, and only a batch without any error gets task numbers.  The
  reading of a file and the parser of YAML are parameters.
\<close>

section \<open>Files\<close>

record artifact_submission =
  as_type :: string
  as_path :: string
  as_sha256 :: "string option"

datatype source_text = NoFile | NotUtf8 | FileText string

text \<open>\<open>split(sep, 1)\<close> with a separator that must occur.\<close>

fun split_at :: "string \<Rightarrow> string \<Rightarrow> (string \<times> string) option" where
  "split_at sep [] = None"
| "split_at sep (c # cs) = (if startswith sep (c # cs) then Some ([], drop (length sep) (c # cs))
     else map_option (\<lambda>(a, b). (c # a, b)) (split_at sep cs))"

definition split_frontmatter :: "string \<Rightarrow> (string \<times> string) option" where
  "split_frontmatter t = (case split_at ''---'' t of None \<Rightarrow> None
     | Some (_, rest) \<Rightarrow> split_at ''---'' rest)"

record derived_draft =
  dv_local :: string
  dv_title :: string
  dv_deps :: "string list"
  dv_body :: string

definition draft_dependencies :: "json \<Rightarrow> msg + string list" where
  "draft_dependencies j = (case j of
      JNull \<Rightarrow> Inr []
    | JStr s \<Rightarrow> Inr [s]
    | JList xs \<Rightarrow> (if list_all (\<lambda>x. case x of JStr _ \<Rightarrow> True | _ \<Rightarrow> False) xs
        then Inr (map (\<lambda>x. case x of JStr s \<Rightarrow> s | _ \<Rightarrow> []) xs)
        else Inl [Txt ''Derived task dependencies must be lists of strings.''])
    | _ \<Rightarrow> Inl [Txt ''Derived task dependencies must be a string or list.''])"

definition draft_title :: "string \<Rightarrow> string" where
  "draft_title body = (case filter (startswith ''# '') (splitlines body) of [] \<Rightarrow> [] | l # _ \<Rightarrow> strip (drop 2 l))"

definition join_msgs :: "string \<Rightarrow> msg list \<Rightarrow> msg" where
  "join_msgs sep ms = (case ms of [] \<Rightarrow> [] | m # rest \<Rightarrow> m @ concat (map (\<lambda>x. Txt sep # x) rest))"

text \<open>\<open>load(text) or {}\<close>: an empty value stands for an empty mapping; \<open>None\<close> is an exception.\<close>

definition parse_derived_task_file :: "(string \<Rightarrow> json option) \<Rightarrow> string \<Rightarrow> string \<Rightarrow> msg + derived_draft" where
  "parse_derived_task_file load loc t =
     (if \<not> startswith (''---'' @ line_feed) t then Inl [Txt ''Derived task artifact must start with YAML frontmatter.'']
      else case split_frontmatter t of
          None \<Rightarrow> Inl [Txt ''Derived task frontmatter is invalid: '', ExcText]
        | Some (raw, body) \<Rightarrow> (case load raw of
            None \<Rightarrow> Inl [Txt ''Derived task frontmatter is invalid: '', ExcText]
          | Some v \<Rightarrow> (case (if json_truthy v then v else JObj fmempty) of
              JObj m \<Rightarrow> (case jget m ''local_id'' JNull of
                  JStr raw_id \<Rightarrow>
                    if strip raw_id = [] then Inl [Txt ''Derived task frontmatter requires a nonempty local_id.'']
                    else bind_sum (draft_dependencies (jget m ''dependencies'' JNull)) (\<lambda>deps.
                      let structure = validate_task_structure body (Some loc) True
                      in if draft_title body = [] then Inl [Txt ''Derived task body requires a Markdown H1 title.'']
                         else if structure \<noteq> []
                         then Inl (Txt ''Derived task body is structurally invalid: '' #
                           join_msgs ''; '' (map (\<lambda>e. Txt (err_code e @ '': '') # err_message e) structure))
                         else Inr \<lparr>dv_local = strip raw_id, dv_title = draft_title body, dv_deps = deps, dv_body = body\<rparr>)
                | _ \<Rightarrow> Inl [Txt ''Derived task frontmatter requires local_id as a string.''])
            | _ \<Rightarrow> Inl [Txt ''Derived task frontmatter must be a mapping.''])))"

section \<open>The batch\<close>

record batch_state =
  bs_errors :: "domain_error list"
  bs_ids :: "string list"
  bs_paths :: "string list"
  bs_parsed :: "(derived_draft \<times> string \<times> string option) list"

record derive_env =
  de_load :: "string \<Rightarrow> json option"
  de_read :: "string \<Rightarrow> source_text"
  de_location :: "string \<Rightarrow> string"
  de_links :: "(string \<times> string) \<Rightarrow> string option"

definition add_error :: "domain_error \<Rightarrow> batch_state \<Rightarrow> batch_state" where
  "add_error e b = b\<lparr>bs_errors := bs_errors b @ [e]\<rparr>"

definition batch_step :: "derive_env \<Rightarrow> batch_state \<Rightarrow> artifact_submission \<Rightarrow> batch_state" where
  "batch_step env b a =
     (let b1 = (if as_path a \<in> set (bs_paths b)
            then add_error (derror ''task.derived_duplicate_path'' [Txt ''Duplicate derived task artifact path: '', Txt (as_path a)] (Some (as_path a))) b else b);
          b2 = b1\<lparr>bs_paths := as_path a # bs_paths b1\<rparr>;
          invalid = (\<lambda>m. add_error (derror ''task.derived_invalid'' m (Some (as_path a))) b2)
      in case de_read env (as_path a) of
          NoFile \<Rightarrow> add_error (derror ''task.derived_source_unreadable'' [Txt ''Derived task source is not readable: '', ExcText] (Some (as_path a))) b2
        | NotUtf8 \<Rightarrow> invalid [ExcText]
        | FileText t \<Rightarrow> (case parse_derived_task_file (de_load env) (de_location env (as_path a)) t of
            Inl m \<Rightarrow> invalid m
          | Inr d \<Rightarrow>
              let b3 = (if dv_local d \<in> set (bs_ids b2)
                    then add_error (derror ''task.derived_duplicate_local_id'' [Txt ''Duplicate derived task local_id: '', Txt (dv_local d)] (Some (dv_local d))) b2 else b2)
              in b3\<lparr>bs_ids := dv_local d # bs_ids b3, bs_parsed := bs_parsed b3 @ [(d, as_path a, de_links env (as_type a, as_path a))]\<rparr>))"

definition parse_batch :: "derive_env \<Rightarrow> artifact_submission list \<Rightarrow> batch_state" where
  "parse_batch env as = foldl (batch_step env) \<lparr>bs_errors = [], bs_ids = [], bs_paths = [], bs_parsed = []\<rparr> as"

definition dependency_diag :: "string list \<Rightarrow> string list \<Rightarrow> string \<Rightarrow> string \<Rightarrow> domain_error list" where
  "dependency_diag locals existing lid dep =
     (if dep = lid then [derror ''task.derived_self_dependency'' [Txt ''Derived task '', ReprS lid, Txt '' must not depend on itself.''] (Some lid)]
      else if dep \<in> set locals then []
      else if dep \<in> set existing
      then [derror ''task.derived_existing_prerequisite_unrepresentable'' [Txt ''Derived task '', ReprS lid, Txt '' depends on existing unfinished task '', Txt dep,
        Txt '', but the derived-task format can only express dependencies on local batch IDs. Represent this prerequisite by a supported persisted-ID reference or account for it without duplicating existing work.''] (Some lid)]
      else [derror ''task.derived_unknown_dependency'' [Txt ''Derived task '', ReprS lid, Txt '' references unknown local dependency: '', Txt dep] (Some lid)])"

definition draft_diags :: "string list \<Rightarrow> string list \<Rightarrow> derived_draft \<Rightarrow> domain_error list" where
  "draft_diags locals existing d =
     (if dv_local d \<in> set existing
      then [derror ''task.derived_existing_prerequisite_collision'' [Txt ''Derived local_id '', ReprS (dv_local d),
        Txt '' collides with an existing task; existing unfinished work must be reused, not duplicated.''] (Some (dv_local d))] else [])
     @ concat (map (dependency_diag locals existing (dv_local d)) (dv_deps d))"

section \<open>Cycles\<close>

text \<open>The depth-first search: \<open>stack\<close> is the path to the node whose dependencies are being
  visited (the set of nodes on the stack is kept beside it in the code), and the state holds the
  visited nodes and the errors.\<close>

type_synonym search = "string list \<times> domain_error list"

definition cycle_error :: "string list \<Rightarrow> string \<Rightarrow> domain_error" where
  "cycle_error stack dep = derror ''task.derived_dependency_cycle''
     [Txt ''Derived task dependency cycle detected: '', Txt (join '' -> '' (dropWhile (\<lambda>n. n \<noteq> dep) stack @ [dep]))] (Some (last stack))"

function (domintros) visit_deps :: "(string \<times> string list) list \<Rightarrow> string list \<Rightarrow> string list \<Rightarrow> search \<Rightarrow> search" where
  "visit_deps g stack [] s = s"
| "visit_deps g stack (dep # deps) s =
     (if \<not> dict_has g dep then visit_deps g stack deps s
      else if dep \<in> set stack then visit_deps g stack deps (fst s, snd s @ [cycle_error stack dep])
      else if dep \<in> set (fst s) then visit_deps g stack deps s
      else visit_deps g stack deps
        (visit_deps g (stack @ [dep]) (the (dict_get g dep)) (dep # fst s, snd s)))"
  by pat_completeness auto

text \<open>The visited nodes only grow, so a visit leaves fewer nodes to visit.\<close>

lemma visit_deps_grows: "visit_deps_dom (g, stack, deps, s) \<Longrightarrow> set (fst s) \<subseteq> set (fst (visit_deps g stack deps s))"
proof (induction rule: visit_deps.pinduct)
  case (1 g stack s)
  then show ?case by (simp add: visit_deps.psimps)
next
  case (2 g stack dep deps s)
  then show ?case by (auto simp: visit_deps.psimps)
qed

definition unvisited :: "(string \<times> string list) list \<Rightarrow> search \<Rightarrow> nat" where
  "unvisited g s = card (fst ` set g - set (fst s))"

lemma unvisited_less:
  assumes "dict_has g dep" "dep \<notin> set (fst s)"
  shows "unvisited g (dep # fst s, es) < unvisited g s"
proof -
  have "fst ` set g - set (dep # fst s) \<subset> fst ` set g - set (fst s)"
    using assms by (auto simp: dict_has_keys)
  then show ?thesis by (simp add: unvisited_def psubset_card_mono)
qed

lemma unvisited_mono: "set (fst s) \<subseteq> set (fst t) \<Longrightarrow> unvisited g t \<le> unvisited g s"
  unfolding unvisited_def by (intro card_mono) auto

termination visit_deps
proof (relation "measures [\<lambda>(g, stack, deps, s). unvisited g s, \<lambda>(g, stack, deps, s). length deps]", goal_cases)
  case (5 g stack dep deps s)
  then show ?case using unvisited_less [of g dep s "snd s"] by simp
next
  case (6 g stack dep deps s)
  let ?t = "visit_deps g (stack @ [dep]) (the (dict_get g dep)) (dep # fst s, snd s)"
  have "set (dep # fst s) \<subseteq> set (fst ?t)" using visit_deps_grows [OF 6(4)] by simp
  then have "unvisited g ?t \<le> unvisited g (dep # fst s, snd s)" by (intro unvisited_mono) simp
  also have "\<dots> < unvisited g s" using 6 unvisited_less by blast
  finally show ?case by simp
qed (auto simp: unvisited_def)

definition visit_node :: "(string \<times> string list) list \<Rightarrow> search \<Rightarrow> string \<Rightarrow> search" where
  "visit_node g s n = (if n \<in> set (fst s) then s else visit_deps g [n] (the (dict_get g n)) (n # fst s, snd s))"

definition derived_cycle_errors :: "string list \<Rightarrow> (string \<times> string list) list \<Rightarrow> domain_error list" where
  "derived_cycle_errors ids g = snd (foldl (visit_node g) ([], []) ids)"

section \<open>Numbers\<close>

text \<open>\<open>^[1-9][0-9]*$\<close>; the anchor at the end also matches before a final line feed.\<close>

definition numeric_id :: "string \<Rightarrow> bool" where
  "numeric_id s \<longleftrightarrow> (let d = (if s \<noteq> [] \<and> last s = CHR 0x0A then butlast s else s)
     in d \<noteq> [] \<and> list_all is_digit d \<and> hd d \<noteq> CHR ''0'')"

definition id_number :: "string \<Rightarrow> nat" where
  "id_number s = nat (digits_value (filter is_digit s))"

definition highest_id :: "string list \<Rightarrow> nat" where
  "highest_id ids = foldl (\<lambda>h i. if numeric_id i then max h (id_number i) else h) 0 ids"

definition allocate_numeric_task_ids :: "string list \<Rightarrow> string list \<Rightarrow> (string \<times> string) list" where
  "allocate_numeric_task_ids locals existing =
     zip locals (map nat_str [Suc (highest_id existing) ..< Suc (highest_id existing) + length locals])"

section \<open>The plan\<close>

definition slug_char :: "char \<Rightarrow> bool" where
  "slug_char c \<longleftrightarrow> is_digit c \<or> (65 \<le> code c \<and> code c \<le> 90) \<or> (97 \<le> code c \<and> code c \<le> 122)"

fun slug_runs :: "string \<Rightarrow> string" where
  "slug_runs [] = []"
| "slug_runs (c # cs) = (if slug_char c then c # slug_runs cs
     else (case slug_runs cs of CHR ''-'' # r \<Rightarrow> CHR ''-'' # r | r \<Rightarrow> CHR ''-'' # r))"

definition strip_dashes :: "string \<Rightarrow> string" where
  "strip_dashes s = rev (dropWhile (\<lambda>c. c = CHR ''-'') (rev (dropWhile (\<lambda>c. c = CHR ''-'') s)))"

definition slugify :: "string \<Rightarrow> string" where
  "slugify v = (let s = lower (strip_dashes (slug_runs (strip v))) in if s = [] then ''task'' else s)"

record planned_task =
  pn_task :: task
  pn_link :: string

definition planned_task_of :: "derives_definition \<Rightarrow> (string \<times> string) list \<Rightarrow> string \<Rightarrow> derived_draft \<times> string \<times> string option \<Rightarrow> planned_task" where
  "planned_task_of dd ids parent p = (case p of (d, path, link) \<Rightarrow>
     let tid = the (dict_get ids (dv_local d))
     in \<lparr>pn_task = \<lparr>t_id = tid, t_title = dv_title d, t_path = ''tasks/'' @ tid @ ''.md'', t_current_state = dd_state dd, t_task_type = dd_task_type dd,
           t_dependencies = map (\<lambda>x. the (dict_get ids x)) (dv_deps d), t_artifact_links = (case link of None \<Rightarrow> [] | Some l \<Rightarrow> [l]),
           t_parent_id = Some parent, t_metadata = fmempty, t_body = dv_body d\<rparr>,
         pn_link = tid @ ''-'' @ slugify (dv_title d)\<rparr>)"

definition schema_diags :: "workflow_definition option \<Rightarrow> planned_task \<Rightarrow> string \<Rightarrow> domain_error list" where
  "schema_diags w p path = (case w of None \<Rightarrow> []
     | Some w \<Rightarrow> if task_uses_global_contract (pn_task p) w then validate_task_schema (t_body (pn_task p)) (Some path) else [])"

definition derived_task_plan :: "derive_env \<Rightarrow> transition_definition \<Rightarrow> artifact_submission list \<Rightarrow> string \<Rightarrow> string list \<Rightarrow> workflow_definition option
    \<Rightarrow> domain_error list + planned_task list" where
  "derived_task_plan env tr artifacts parent existing w = (case td_derives tr of
      None \<Rightarrow> Inr []
    | Some dd \<Rightarrow>
        let b = parse_batch env (filter (\<lambda>a. as_type a = dd_artifact_type dd) artifacts);
            drafts = map fst (bs_parsed b); locals = map dv_local drafts;
            deps = map (\<lambda>d. (dv_local d, dv_deps d)) drafts
        in if bs_errors b \<noteq> [] then Inl (bs_errors b)
           else let es = concat (map (draft_diags locals existing) drafts) @ derived_cycle_errors locals deps
             in if es \<noteq> [] then Inl es
                else let ids = allocate_numeric_task_ids locals existing;
                         planned = map (planned_task_of dd ids parent) (bs_parsed b);
                         bad = concat (map2 (schema_diags w) planned (map (fst \<circ> snd) (bs_parsed b)))
                  in if bad \<noteq> [] then Inl bad else Inr planned)"

end
