(* ===== verification/DerivedFacts.thy ===== *)
theory DerivedFacts
  imports DerivedTasks
begin

text \<open>
  The search for cycles reports an error exactly when the dependencies of the batch have a cycle,
  and a batch that is accepted is published under fresh numbers as an acyclic set of tasks.
\<close>

section \<open>The graph of the batch\<close>

definition dep_edge :: "(string \<times> string list) list \<Rightarrow> (string \<times> string) set" where
  "dep_edge g = {(x, y). \<exists>ds. dict_get g x = Some ds \<and> y \<in> set ds \<and> dict_has g y}"

lemma dep_edgeI: "dict_has g x \<Longrightarrow> y \<in> set (the (dict_get g x)) \<Longrightarrow> dict_has g y \<Longrightarrow> (x, y) \<in> dep_edge g"
  by (auto simp: dep_edge_def dict_has_get)

text \<open>The kinds of edges the search meets.\<close>

abbreviation inner_visit :: "(string \<times> string list) list \<Rightarrow> string list \<Rightarrow> string \<Rightarrow> search \<Rightarrow> search" where
  "inner_visit g stack dep s \<equiv> visit_deps g (stack @ [dep]) (the (dict_get g dep)) (dep # fst s, snd s)"

lemma visit_skip: "\<not> dict_has g dep \<or> dep \<notin> set stack \<and> dep \<in> set (fst s) \<Longrightarrow> visit_deps g stack (dep # deps) s = visit_deps g stack deps s"
  by auto

lemma visit_back: "dict_has g dep \<Longrightarrow> dep \<in> set stack \<Longrightarrow>
    visit_deps g stack (dep # deps) s = visit_deps g stack deps (fst s, snd s @ [cycle_error stack dep])"
  by simp

lemma visit_tree: "dict_has g dep \<Longrightarrow> dep \<notin> set stack \<Longrightarrow> dep \<notin> set (fst s) \<Longrightarrow>
    visit_deps g stack (dep # deps) s = visit_deps g stack deps (inner_visit g stack dep s)"
  by simp

lemma visit_induct [case_names nil skip onstack tree]:
  assumes "\<And>stack s. P stack [] s"
    and "\<And>stack dep deps s. \<not> dict_has g dep \<or> dep \<notin> set stack \<and> dep \<in> set (fst s) \<Longrightarrow> P stack deps s \<Longrightarrow> P stack (dep # deps) s"
    and "\<And>stack dep deps s. dict_has g dep \<Longrightarrow> dep \<in> set stack \<Longrightarrow> P stack deps (fst s, snd s @ [cycle_error stack dep]) \<Longrightarrow> P stack (dep # deps) s"
    and "\<And>stack dep deps s. dict_has g dep \<Longrightarrow> dep \<notin> set stack \<Longrightarrow> dep \<notin> set (fst s) \<Longrightarrow>
        P (stack @ [dep]) (the (dict_get g dep)) (dep # fst s, snd s) \<Longrightarrow> P stack deps (inner_visit g stack dep s) \<Longrightarrow> P stack (dep # deps) s"
  shows "P stack deps s"
proof -
  have "g' = g \<Longrightarrow> P stack deps s" for g'
  proof (induction g' stack deps s rule: visit_deps.induct)
    case (1 g' stack s)
    show ?case by (rule assms(1))
  next
    case (2 g' stack dep deps s)
    then show ?case
      by (cases "dict_has g dep"; cases "dep \<in> set stack"; cases "dep \<in> set (fst s)") (auto intro: assms(2-4))
  qed
  then show ?thesis by blast
qed

declare visit_deps.simps(2) [simp del]

lemma visit_deps_errors: "\<exists>es. snd (visit_deps g stack deps s) = snd s @ es"
proof (induction stack deps s rule: visit_induct [where g = g])
  case (tree stack dep deps s)
  then obtain es es' where "snd (inner_visit g stack dep s) = snd s @ es" "snd (visit_deps g stack deps (inner_visit g stack dep s)) = snd (inner_visit g stack dep s) @ es'"
    by auto
  then have "snd (visit_deps g stack (dep # deps) s) = snd s @ (es @ es')" using visit_tree [OF tree(1-3)] by simp
  then show ?case ..
next
  case (onstack stack dep deps s)
  then show ?case by (auto simp: visit_back)
qed (simp_all add: visit_skip)

lemma visit_deps_subset: "set (fst s) \<subseteq> set (fst (visit_deps g stack deps s))"
proof (induction stack deps s rule: visit_induct [where g = g])
  case (tree stack dep deps s)
  then show ?case by (auto simp: visit_tree)
qed (simp_all add: visit_skip visit_back)

section \<open>An error shows a cycle\<close>

lemma successively_rtrancl: "successively (\<lambda>x y. (x, y) \<in> r) (x # xs) \<Longrightarrow> (x, last (x # xs)) \<in> r\<^sup>*"
proof (induction xs arbitrary: x)
  case (Cons y ys)
  then show ?case by (auto intro: converse_rtrancl_into_rtrancl)
qed simp

lemma stack_cycle:
  assumes "successively (\<lambda>x y. (x, y) \<in> r) stack" "dep \<in> set stack" "(last stack, dep) \<in> r"
  shows "\<not> acyclic r"
proof -
  from assms(2) obtain us vs where st: "stack = us @ dep # vs" by (auto simp: in_set_conv_decomp)
  with assms(1) have "(dep, last (dep # vs)) \<in> r\<^sup>*" by (intro successively_rtrancl) (auto simp: successively_append_iff)
  with assms(3) st have "(dep, dep) \<in> r\<^sup>+" by (auto intro: rtrancl_into_trancl1)
  then show ?thesis by (auto simp: acyclic_def)
qed

lemma visit_deps_sound:
  "stack \<noteq> [] \<Longrightarrow> successively (\<lambda>x y. (x, y) \<in> dep_edge g) stack \<Longrightarrow> dict_has g (last stack)
     \<Longrightarrow> set deps \<subseteq> set (the (dict_get g (last stack))) \<Longrightarrow> snd (visit_deps g stack deps s) \<noteq> snd s \<Longrightarrow> \<not> acyclic (dep_edge g)"
proof (induction stack deps s rule: visit_induct [where g = g])
  case (skip stack dep deps s)
  then show ?case by (simp add: visit_skip)
next
  case (onstack stack dep deps s)
  then have "(last stack, dep) \<in> dep_edge g" by (intro dep_edgeI) auto
  with onstack show ?case by (intro stack_cycle)
next
  case (tree stack dep deps s)
  have edge: "(last stack, dep) \<in> dep_edge g" using tree.prems tree.hyps by (intro dep_edgeI) auto
  show ?case
  proof (cases "snd (inner_visit g stack dep s) = snd s")
    case True
    with tree show ?thesis by (simp add: visit_tree)
  next
    case False
    have "successively (\<lambda>x y. (x, y) \<in> dep_edge g) (stack @ [dep])"
      using tree.prems(1,2) edge by (simp add: successively_append_iff)
    with tree.IH(1) False tree.hyps show ?thesis by simp
  qed
qed simp

section \<open>Without an error there is no cycle\<close>

definition finished :: "string list \<Rightarrow> search \<Rightarrow> string set" where
  "finished stack s = set (fst s) - set stack"

definition search_inv :: "(string \<times> string list) list \<Rightarrow> string list \<Rightarrow> search \<Rightarrow> bool" where
  "search_inv g stack s \<longleftrightarrow> set stack \<subseteq> set (fst s) \<and> dep_edge g `` finished stack s \<subseteq> finished stack s
     \<and> acyclic (dep_edge g \<inter> finished stack s \<times> UNIV)"

lemma acyclic_source:
  assumes "acyclic (r \<inter> F \<times> UNIV)" "r `` F \<subseteq> F" "r `` {d} \<subseteq> F" "d \<notin> F"
  shows "acyclic (r \<inter> insert d F \<times> UNIV)"
proof (rule acyclicI, intro allI notI)
  fix x let ?R = "r \<inter> insert d F \<times> UNIV"
  have stay: "(a, b) \<in> ?R\<^sup>+ \<Longrightarrow> a \<in> F \<Longrightarrow> (a, b) \<in> (r \<inter> F \<times> UNIV)\<^sup>+ \<and> b \<in> F" for a b
  proof (induction rule: trancl_induct)
    case (base y)
    then show ?case using assms(2) by auto
  next
    case (step y z)
    then have "(y, z) \<in> r \<inter> F \<times> UNIV" "z \<in> F" using assms(2) by auto
    with step show ?case by (auto intro: trancl_into_trancl)
  qed
  assume c: "(x, x) \<in> ?R\<^sup>+"
  show False
  proof (cases "x \<in> F")
    case True
    with stay [OF c] assms(1) show False by (auto simp: acyclic_def)
  next
    case False
    from c obtain y where y: "(x, y) \<in> ?R" "(y, x) \<in> ?R\<^sup>*" by (meson tranclD)
    with False assms(3) have "x = d" "y \<in> F" by auto
    moreover from y(2) \<open>y \<in> F\<close> False have "(y, x) \<in> ?R\<^sup>+" by (auto simp: rtrancl_eq_or_trancl)
    ultimately show False using stay [of y x] False by blast
  qed
qed

text \<open>A node whose dependencies are all finished is finished with them.\<close>

lemma finish_node:
  assumes "search_inv g (stack @ [dep]) t" "dep \<notin> set stack" "\<forall>x \<in> set (the (dict_get g dep)). dict_has g x \<longrightarrow> x \<in> finished (stack @ [dep]) t"
  shows "search_inv g stack t" "finished stack t = insert dep (finished (stack @ [dep]) t)"
proof -
  show f: "finished stack t = insert dep (finished (stack @ [dep]) t)"
    using assms(1,2) by (auto simp: finished_def search_inv_def)
  have "dep_edge g `` {dep} \<subseteq> finished (stack @ [dep]) t" using assms(3) by (auto simp: dep_edge_def)
  with assms(1) acyclic_source [of "dep_edge g" "finished (stack @ [dep]) t" dep] show "search_inv g stack t"
    unfolding search_inv_def f by (auto simp: finished_def)
qed

lemma visit_deps_complete:
  "search_inv g stack s \<Longrightarrow> snd (visit_deps g stack deps s) = snd s \<Longrightarrow>
     search_inv g stack (visit_deps g stack deps s) \<and> finished stack s \<subseteq> finished stack (visit_deps g stack deps s)
       \<and> (\<forall>x \<in> set deps. dict_has g x \<longrightarrow> x \<in> finished stack (visit_deps g stack deps s))"
proof (induction stack deps s rule: visit_induct [where g = g])
  case (nil stack s)
  then show ?case by simp
next
  case (skip stack dep deps s)
  then show ?case by (auto simp: visit_skip finished_def)
next
  case (onstack stack dep deps s)
  then show ?case using visit_deps_errors [of g stack deps "(fst s, snd s @ [cycle_error stack dep])"] by (auto simp: visit_back)
next
  case (tree stack dep deps s)
  let ?t = "inner_visit g stack dep s"
  obtain es es' where es: "snd ?t = snd s @ es" "snd (visit_deps g stack deps ?t) = snd ?t @ es'"
    using visit_deps_errors [of g "stack @ [dep]" "the (dict_get g dep)" "(dep # fst s, snd s)"] visit_deps_errors [of g stack deps ?t] by auto
  with tree.prems(2) tree.hyps have none: "snd ?t = snd s" "snd (visit_deps g stack deps ?t) = snd ?t" by (simp_all add: visit_tree)
  have start: "finished (stack @ [dep]) (dep # fst s, snd s) = finished stack s" using tree.hyps by (auto simp: finished_def)
  then have "search_inv g (stack @ [dep]) (dep # fst s, snd s)" using tree.prems(1) by (auto simp: search_inv_def)
  with tree.IH(1) none(1) have t: "search_inv g (stack @ [dep]) ?t" "finished stack s \<subseteq> finished (stack @ [dep]) ?t"
    "\<forall>x \<in> set (the (dict_get g dep)). dict_has g x \<longrightarrow> x \<in> finished (stack @ [dep]) ?t" unfolding start by simp_all
  note f = finish_node [OF t(1) tree.hyps(2) t(3)]
  from tree.IH(2) [OF f(1) none(2)] t(2) f(2) show ?case using tree.hyps by (auto simp: visit_tree)
qed

lemma visit_node_step:
  assumes "search_inv g [] s" "dict_has g n" "snd (visit_node g s n) = snd s"
  shows "search_inv g [] (visit_node g s n) \<and> insert n (finished [] s) \<subseteq> finished [] (visit_node g s n)"
proof (cases "n \<in> set (fst s)")
  case True
  with assms(1) show ?thesis by (simp add: visit_node_def finished_def)
next
  case False
  then have i: "search_inv g [n] (n # fst s, snd s)" "finished [n] (n # fst s, snd s) = finished [] s"
    using assms(1) by (auto simp: search_inv_def finished_def)
  let ?t = "visit_deps g [n] (the (dict_get g n)) (n # fst s, snd s)"
  have v: "visit_node g s n = ?t" "snd ?t = snd s" using False assms(3) by (simp_all add: visit_node_def)
  from visit_deps_complete [OF i(1)] v(2) have t: "search_inv g [n] ?t" "finished [] s \<subseteq> finished [n] ?t"
    "\<forall>x \<in> set (the (dict_get g n)). dict_has g x \<longrightarrow> x \<in> finished [n] ?t" unfolding i(2) by simp_all
  from finish_node [of g "[]" n ?t] t show ?thesis unfolding v(1) by auto
qed

lemma visit_node_errors: "\<exists>es. snd (visit_node g s n) = snd s @ es"
  using visit_deps_errors [of g "[n]" "the (dict_get g n)" "(n # fst s, snd s)"] by (simp add: visit_node_def)

lemma visit_nodes_errors: "\<exists>es. snd (foldl (visit_node g) s ns) = snd s @ es"
proof (induction ns arbitrary: s)
  case (Cons n ns)
  then show ?case using visit_node_errors [of g s n] by (metis append.assoc foldl_Cons)
qed simp

lemma visit_nodes_complete:
  "search_inv g [] s \<Longrightarrow> list_all (dict_has g) ns \<Longrightarrow> snd (foldl (visit_node g) s ns) = snd s
     \<Longrightarrow> search_inv g [] (foldl (visit_node g) s ns) \<and> set ns \<union> finished [] s \<subseteq> finished [] (foldl (visit_node g) s ns)"
proof (induction ns arbitrary: s)
  case (Cons n ns)
  obtain es es' where "snd (visit_node g s n) = snd s @ es" "snd (foldl (visit_node g) (visit_node g s n) ns) = snd (visit_node g s n) @ es'"
    using visit_node_errors [of g s n] visit_nodes_errors [of g "visit_node g s n" ns] by auto
  with Cons.prems(3) have "snd (visit_node g s n) = snd s" "snd (foldl (visit_node g) (visit_node g s n) ns) = snd (visit_node g s n)" by simp_all
  with visit_node_step [OF Cons.prems(1)] Cons.IH [of "visit_node g s n"] Cons.prems(2) show ?case by auto
qed simp

lemma visit_nodes_sound:
  "list_all (dict_has g) ns \<Longrightarrow> snd (foldl (visit_node g) s ns) \<noteq> snd s \<Longrightarrow> \<not> acyclic (dep_edge g)"
proof (induction ns arbitrary: s)
  case (Cons n ns)
  show ?case
  proof (cases "snd (visit_node g s n) = snd s")
    case True
    with Cons.prems Cons.IH [of "visit_node g s n"] show ?thesis by simp
  next
    case False
    with Cons.prems(1) visit_deps_sound [of "[n]" g "the (dict_get g n)" "(n # fst s, snd s)"] show ?thesis
      by (auto simp: visit_node_def split: if_splits)
  qed
qed simp

text \<open>
  C24. The check for cyclic dependencies is exact: over a batch of derived tasks it reports an
  error if and only if some task of the batch depends, through the batch, on itself.
\<close>

theorem derived_cycle_check_exact:
  "derived_cycle_errors (map fst g) g = [] \<longleftrightarrow> acyclic (dep_edge g)"
proof
  have keys: "list_all (dict_has g) (map fst g)" by (auto simp: list_all_iff dict_has_keys)
  {
    assume "derived_cycle_errors (map fst g) g = []"
    then have "snd (foldl (visit_node g) ([], []) (map fst g)) = snd ([], [])" by (simp add: derived_cycle_errors_def)
    moreover have "search_inv g [] ([], [])" by (simp add: search_inv_def finished_def acyclic_def)
    ultimately have inv: "search_inv g [] (foldl (visit_node g) ([], []) (map fst g))" "set (map fst g) \<subseteq> finished [] (foldl (visit_node g) ([], []) (map fst g))"
      using visit_nodes_complete [OF _ keys, of "([], [])"] by auto
    have "dep_edge g \<subseteq> finished [] (foldl (visit_node g) ([], []) (map fst g)) \<times> UNIV"
      using inv(2) by (auto simp: dep_edge_def dest!: dict_get_in)
    with inv(1) show "acyclic (dep_edge g)" unfolding search_inv_def by (metis Int_absorb2)
  }
  assume "acyclic (dep_edge g)"
  with visit_nodes_sound [OF keys, of "([], [])"] show "derived_cycle_errors (map fst g) g = []"
    by (auto simp: derived_cycle_errors_def)
qed

section \<open>Numbers\<close>

lemma code_digit: "d < 10 \<Longrightarrow> code (digit_char d) = 48 + d"
  by (simp add: code_def digit_char_def)

lemma digit_char_digit: "d < 10 \<Longrightarrow> is_digit (digit_char d)"
  by (simp add: is_digit_def code_digit)

lemma nat_str_digits: "list_all is_digit (nat_str n)"
proof (induction n rule: nat_str.induct)
  case (1 n)
  then show ?case by (subst nat_str.simps) (auto simp: digit_char_digit)
qed

lemma nat_str_value: "digits_value (nat_str n) = int n"
proof (induction n rule: nat_str.induct)
  case (1 n)
  show ?case
  proof (cases "n < 10")
    case True
    then show ?thesis by (subst nat_str.simps) (simp add: digits_value_def code_digit)
  next
    case False
    with 1 have "digits_value (nat_str (n div 10)) = int (n div 10)" by simp
    with False show ?thesis by (subst nat_str.simps) (simp add: digits_value_def code_digit zdiv_int zmod_int)
  qed
qed

lemma nat_str_inj: "inj nat_str"
  by (rule injI) (metis nat_str_value of_nat_eq_iff)

lemma nat_str_hd: "0 < n \<Longrightarrow> hd (nat_str n) \<noteq> CHR ''0''"
proof (induction n rule: nat_str.induct)
  case (1 n)
  show ?case
  proof (cases "n < 10")
    case True
    have "code (digit_char n) \<noteq> code (CHR ''0'')" using 1(2) True by (simp add: code_digit) (simp add: code_def)
    with True show ?thesis by (subst nat_str.simps) auto
  next
    case False
    with 1 show ?thesis by (subst nat_str.simps) (simp add: hd_append)
  qed
qed

lemma nat_str_numeric:
  assumes "0 < n"
  shows "numeric_id (nat_str n)" "id_number (nat_str n) = n"
proof -
  have digits: "is_digit c" if "c \<in> set (nat_str n)" for c using nat_str_digits [of n] that by (simp add: list_all_iff)
  have "last (nat_str n) \<noteq> CHR 0x0A" using digits [OF last_in_set] by (auto simp: is_digit_def code_def)
  with nat_str_digits nat_str_hd [OF assms] show "numeric_id (nat_str n)" by (simp add: numeric_id_def Let_def)
  have "filter is_digit (nat_str n) = nat_str n" using digits by (simp add: filter_id_conv)
  then show "id_number (nat_str n) = n" by (simp add: id_number_def nat_str_value)
qed

lemma highest_id_bound:
  assumes "i \<in> set ids" "numeric_id i"
  shows "id_number i \<le> highest_id ids"
proof -
  have "h \<le> foldl (\<lambda>h i. if numeric_id i then max h (id_number i) else h) h ids
      \<and> (\<forall>i \<in> set ids. numeric_id i \<longrightarrow> id_number i \<le> foldl (\<lambda>h i. if numeric_id i then max h (id_number i) else h) h ids)" for h
  proof (induction ids arbitrary: h)
    case (Cons x xs)
    show ?case using Cons [of "if numeric_id x then max h (id_number x) else h"] by (auto split: if_splits)
  qed simp
  with assms show ?thesis by (simp add: highest_id_def)
qed

text \<open>The numbers that are given out.\<close>

lemma allocated_ids:
  assumes "distinct locals"
  shows "map fst (allocate_numeric_task_ids locals existing) = locals"
    "distinct (map snd (allocate_numeric_task_ids locals existing))"
    "set (map snd (allocate_numeric_task_ids locals existing)) \<inter> set existing = {}"
proof -
  let ?ns = "[Suc (highest_id existing) ..< Suc (highest_id existing) + length locals]"
  have len: "length locals = length (map nat_str ?ns)" by (simp del: upt_Suc)
  show "map fst (allocate_numeric_task_ids locals existing) = locals"
    by (simp only: allocate_numeric_task_ids_def map_fst_zip [OF len])
  have snd: "map snd (allocate_numeric_task_ids locals existing) = map nat_str ?ns"
    by (simp only: allocate_numeric_task_ids_def map_snd_zip [OF len])
  show "distinct (map snd (allocate_numeric_task_ids locals existing))"
    unfolding snd using nat_str_inj by (simp add: distinct_map inj_on_subset [of nat_str UNIV] del: upt_Suc)
  show "set (map snd (allocate_numeric_task_ids locals existing)) \<inter> set existing = {}"
  proof (rule equals0I)
    fix i assume "i \<in> set (map snd (allocate_numeric_task_ids locals existing)) \<inter> set existing"
    then obtain n where n: "highest_id existing < n" "nat_str n \<in> set existing" unfolding snd by (auto simp: Suc_le_eq simp del: upt_Suc)
    from highest_id_bound [OF n(2)] nat_str_numeric [of n] n(1) show False by simp
  qed
qed

section \<open>The plan\<close>

text \<open>The distinct local identifiers of a batch without errors.\<close>

definition batch_inv :: "nat \<Rightarrow> batch_state \<Rightarrow> bool" where
  "batch_inv n b \<longleftrightarrow> bs_errors b = [] \<longrightarrow> set (bs_ids b) = (dv_local \<circ> fst) ` set (bs_parsed b)
     \<and> distinct (map (dv_local \<circ> fst) (bs_parsed b)) \<and> length (bs_parsed b) = n"

lemma batch_inv_error: "bs_errors b \<noteq> [] \<Longrightarrow> batch_inv n b"
  by (simp add: batch_inv_def)

lemma batch_step_errors: "bs_errors b \<noteq> [] \<Longrightarrow> bs_errors (batch_step env b a) \<noteq> []"
  by (auto simp: batch_step_def add_error_def Let_def split: source_text.split sum.split)

lemma batch_step_inv:
  assumes "batch_inv n b"
  shows "batch_inv (Suc n) (batch_step env b a)"
proof (cases "bs_errors (batch_step env b a) = []")
  case True
  then have b: "bs_errors b = []" using batch_step_errors by blast
  obtain t d where t: "de_read env (as_path a) = FileText t" "parse_derived_task_file (de_load env) (de_location env (as_path a)) t = Inr d"
  proof (cases "de_read env (as_path a)")
    case (FileText t)
    with True that show ?thesis
      by (cases "parse_derived_task_file (de_load env) (de_location env (as_path a)) t") (simp_all add: batch_step_def add_error_def Let_def)
  qed (use True in \<open>simp_all add: batch_step_def add_error_def Let_def\<close>)
  have "as_path a \<notin> set (bs_paths b)" "dv_local d \<notin> set (bs_ids b)"
    using True by (auto simp: batch_step_def add_error_def Let_def t split: if_splits)
  with t have "batch_step env b a = b\<lparr>bs_paths := as_path a # bs_paths b, bs_ids := dv_local d # bs_ids b,
      bs_parsed := bs_parsed b @ [(d, as_path a, de_links env (as_type a, as_path a))]\<rparr>"
    by (simp add: batch_step_def)
  with assms b \<open>dv_local d \<notin> set (bs_ids b)\<close> show ?thesis by (simp add: batch_inv_def)
qed (rule batch_inv_error)

lemma parse_batch_inv: "batch_inv (length as) (parse_batch env as)"
proof -
  have "batch_inv (n + length as) (foldl (batch_step env) b as)" if "batch_inv n b" for b n
    using that
  proof (induction as arbitrary: b n)
    case (Cons a as)
    from Cons.IH [OF batch_step_inv [OF Cons.prems]] show ?case by simp
  qed simp
  from this [of 0 "\<lparr>bs_errors = [], bs_ids = [], bs_paths = [], bs_parsed = []\<rparr>"] show ?thesis
    by (simp add: parse_batch_def batch_inv_def)
qed

lemma dependency_diag_none: "dependency_diag locals existing lid dep = [] \<Longrightarrow> dep \<in> set locals \<and> dep \<noteq> lid"
  unfolding dependency_diag_def by (metis list.distinct(1))

lemma draft_diags_none:
  assumes "draft_diags locals existing d = []"
  shows "set (dv_deps d) \<subseteq> set locals - {dv_local d} \<and> dv_local d \<notin> set existing"
proof -
  have "(if dv_local d \<in> set existing then [derror ''task.derived_existing_prerequisite_collision'' [Txt ''Derived local_id '', ReprS (dv_local d),
        Txt '' collides with an existing task; existing unfinished work must be reused, not duplicated.''] (Some (dv_local d))] else []) = []"
    and c: "concat (map (dependency_diag locals existing (dv_local d)) (dv_deps d)) = []"
    using assms unfolding draft_diags_def by blast+
  then have "dv_local d \<notin> set existing" by (metis list.distinct(1))
  moreover from c have "dependency_diag locals existing (dv_local d) x = []" if "x \<in> set (dv_deps d)" for x
    using that by (simp only: concat_map_Nil_iff)
  ultimately show ?thesis using dependency_diag_none by blast
qed

text \<open>What an accepted batch guarantees.\<close>

lemma plan_parts:
  assumes "derived_task_plan env tr artifacts parent existing w = Inr planned" "td_derives tr = Some dd"
  defines "b \<equiv> parse_batch env (filter (\<lambda>a. as_type a = dd_artifact_type dd) artifacts)"
  defines "drafts \<equiv> map fst (bs_parsed b)"
  shows "bs_errors b = []" "list_all (\<lambda>d. draft_diags (map dv_local drafts) existing d = []) drafts"
    "derived_cycle_errors (map dv_local drafts) (map (\<lambda>d. (dv_local d, dv_deps d)) drafts) = []"
    "planned = map (planned_task_of dd (allocate_numeric_task_ids (map dv_local drafts) existing) parent) (bs_parsed b)"
  using assms(1) unfolding derived_task_plan_def assms(2) option.case Let_def b_def [symmetric] drafts_def [symmetric]
  by (auto simp: list_all_iff concat_map_Nil_iff split: if_splits)

lemma acyclic_renamed:
  assumes "acyclic r" "inj_on f A" "Field r \<subseteq> A"
  shows "acyclic ((\<lambda>(x, y). (f x, f y)) ` r)"
proof (rule acyclicI, intro allI notI)
  fix u assume "(u, u) \<in> ((\<lambda>(x, y). (f x, f y)) ` r)\<^sup>+"
  moreover have "(u, v) \<in> ((\<lambda>(x, y). (f x, f y)) ` r)\<^sup>+ \<Longrightarrow> \<exists>x y. u = f x \<and> v = f y \<and> (x, y) \<in> r\<^sup>+" for u v
  proof (induction rule: trancl_induct)
    case (base y)
    then show ?case by auto
  next
    case (step v w)
    then obtain x y a b where h: "u = f x" "v = f y" "(x, y) \<in> r\<^sup>+" "v = f a" "w = f b" "(a, b) \<in> r" by auto
    have "y \<in> Field r" "a \<in> Field r" using h(3,6) by (auto simp: Field_def dest: tranclD2)
    with h assms(2,3) have "y = a" by (metis inj_on_def subsetD)
    with h show ?case by (auto intro: trancl_into_trancl)
  qed
  ultimately obtain x y where "u = f x" "u = f y" "(x, y) \<in> r\<^sup>+" by blast
  moreover from this have "x \<in> Field r" "y \<in> Field r" by (auto simp: Field_def dest: tranclD tranclD2)
  ultimately have "(x, x) \<in> r\<^sup>+" using assms(2,3) by (metis inj_on_def subsetD)
  with assms(1) show False by (auto simp: acyclic_def)
qed

lemma zip_lookup:
  assumes "distinct xs" "length xs = length ys"
  shows "map (\<lambda>x. the (dict_get (zip xs ys) x)) xs = ys"
proof (rule nth_equalityI)
  fix i assume "i < length (map (\<lambda>x. the (dict_get (zip xs ys) x)) xs)"
  then show "map (\<lambda>x. the (dict_get (zip xs ys) x)) xs ! i = ys ! i"
    using map_of_zip_nth [OF assms(2,1), of i] assms(2) by (simp add: dict_get_def)
qed (simp add: assms(2))

text \<open>The tasks of a plan, and the dependencies between them.\<close>

abbreviation planned_tasks :: "planned_task list \<Rightarrow> task list" where
  "planned_tasks ps \<equiv> map pn_task ps"

definition task_edges :: "task list \<Rightarrow> (string \<times> string) set" where
  "task_edges ts = {(t_id t, d) | t d. t \<in> set ts \<and> d \<in> set (t_dependencies t)}"

text \<open>
  C8. A batch of derived tasks is published whole and sound or not at all: when the plan is
  accepted, every task file handed in becomes one task, the new numbers are distinct and none
  of them is in use, every dependency names another task of the batch, and no task depends,
  however indirectly, on itself; each task has its parent and the state and type of the
  derivation.
\<close>

theorem derived_plan_sound:
  assumes "derived_task_plan env tr artifacts parent existing w = Inr planned" "td_derives tr = Some dd"
  shows "length planned = length (filter (\<lambda>a. as_type a = dd_artifact_type dd) artifacts)
     \<and> distinct (map t_id (planned_tasks planned)) \<and> set (map t_id (planned_tasks planned)) \<inter> set existing = {}
     \<and> list_all (\<lambda>t. set (t_dependencies t) \<subseteq> set (map t_id (planned_tasks planned)) - {t_id t}) (planned_tasks planned)
     \<and> acyclic (task_edges (planned_tasks planned))
     \<and> list_all (\<lambda>t. t_parent_id t = Some parent \<and> t_current_state t = dd_state dd \<and> t_task_type t = dd_task_type dd) (planned_tasks planned)"
proof -
  let ?arts = "filter (\<lambda>a. as_type a = dd_artifact_type dd) artifacts"
  define b where "b = parse_batch env ?arts"
  define drafts where "drafts = map fst (bs_parsed b)"
  define locals where "locals = map dv_local drafts"
  define ids where "ids = allocate_numeric_task_ids locals existing"
  define f where "f x = the (dict_get ids x)" for x
  note plan = plan_parts [OF assms, folded b_def, folded drafts_def, folded locals_def, folded ids_def]
  have "batch_inv (length ?arts) b" unfolding b_def by (rule parse_batch_inv)
  with plan(1) have dist: "distinct locals" and len: "length (bs_parsed b) = length ?arts"
    by (simp_all add: batch_inv_def locals_def drafts_def comp_def)
  have m: "map fst ids = locals" unfolding ids_def by (rule allocated_ids(1) [OF dist])
  have "map (\<lambda>x. the (dict_get ids x)) (map fst ids) = map snd ids"
    by (rule zip_lookup [of "map fst ids" "map snd ids", unfolded zip_map_fst_snd]) (simp only: m dist, simp only: length_map)
  then have zip: "map f locals = map snd ids" unfolding m f_def [abs_def] .
  have tid: "map t_id (planned_tasks planned) = map snd ids"
    unfolding zip [symmetric] by (simp add: plan(4) planned_task_of_def locals_def drafts_def f_def case_prod_beta Let_def)
  have inj: "inj_on f (set locals)"
    using dist allocated_ids(2) [OF dist, of existing] zip unfolding ids_def [symmetric] by (metis distinct_map)
  have planned: "\<exists>d \<in> set drafts. t_id t = f (dv_local d) \<and> t_dependencies t = map f (dv_deps d)
      \<and> t_parent_id t = Some parent \<and> t_current_state t = dd_state dd \<and> t_task_type t = dd_task_type dd" if "t \<in> set (planned_tasks planned)" for t
    using that by (force simp: plan(4) planned_task_of_def drafts_def f_def [abs_def] Let_def)
  have deps: "set (dv_deps d) \<subseteq> set locals - {dv_local d} \<and> dv_local d \<in> set locals" if "d \<in> set drafts" for d
    using plan(2) draft_diags_none [of locals existing d] that by (auto simp: list_all_iff locals_def)
  let ?g = "map (\<lambda>d. (dv_local d, dv_deps d)) drafts"
  have "map fst ?g = locals" by (simp add: locals_def)
  then have acyc: "acyclic (dep_edge ?g)" using derived_cycle_check_exact [of ?g] plan(3) by simp
  have get: "dict_get ?g (dv_local d) = Some (dv_deps d)" if "d \<in> set drafts" for d
    using that dist by (simp add: dict_get_def locals_def comp_def map_of_eq_Some_iff)
  have edges: "task_edges (planned_tasks planned) \<subseteq> (\<lambda>(x, y). (f x, f y)) ` dep_edge ?g"
  proof
    fix e assume "e \<in> task_edges (planned_tasks planned)"
    then obtain t y where t: "t \<in> set (planned_tasks planned)" "y \<in> set (t_dependencies t)" "e = (t_id t, y)" by (auto simp: task_edges_def)
    from planned [OF t(1)] obtain d where d: "d \<in> set drafts" "t_id t = f (dv_local d)" "t_dependencies t = map f (dv_deps d)" by blast
    with t(2) obtain z where z: "z \<in> set (dv_deps d)" "y = f z" by auto
    have "dict_has ?g z" using deps [OF d(1)] z(1) by (force simp: dict_has_keys locals_def)
    then have "(dv_local d, z) \<in> dep_edge ?g" using get [OF d(1)] z(1) by (auto simp: dep_edge_def)
    with t(3) d(2) z(2) show "e \<in> (\<lambda>(x, y). (f x, f y)) ` dep_edge ?g" by force
  qed
  have "Field (dep_edge ?g) \<subseteq> set locals"
    by (auto simp: Field_def dep_edge_def dict_has_keys locals_def dest!: dict_get_in)
  from acyclic_subset [OF acyclic_renamed [OF acyc inj this] edges] have "acyclic (task_edges (planned_tasks planned))" .
  moreover have "length planned = length ?arts" using plan(4) len by simp
  moreover have "list_all (\<lambda>t. set (t_dependencies t) \<subseteq> set (map t_id (planned_tasks planned)) - {t_id t}) (planned_tasks planned)"
    unfolding list_all_iff tid zip [symmetric]
  proof
    fix t assume "t \<in> set (planned_tasks planned)"
    from planned [OF this] obtain d where d: "d \<in> set drafts" "t_id t = f (dv_local d)" "t_dependencies t = map f (dv_deps d)" by blast
    with deps [OF d(1)] inj show "set (t_dependencies t) \<subseteq> set (map f locals) - {t_id t}" by (auto simp: inj_on_def)
  qed
  ultimately show ?thesis
    using allocated_ids(2,3) [OF dist, of existing] planned unfolding tid ids_def [symmetric] by (simp add: list_all_iff) blast
qed

section \<open>A sample batch\<close>

definition sample_files_of :: "string \<Rightarrow> source_text" where
  "sample_files_of p = (if p = ''a.md'' then FileText (''---'' @ line_feed @ ''A'' @ ''---'' @ line_feed @ ''# One'')
     else if p = ''b.md'' then FileText (''---'' @ line_feed @ ''B'' @ ''---'' @ line_feed @ ''# Two'') else NoFile)"

definition sample_yaml :: "string \<Rightarrow> json option" where
  "sample_yaml t = (if strip t = ''A'' then Some (JObj (fmap_of_list [(''local_id'', JStr ''a''), (''dependencies'', JList [JStr ''b''])]))
     else if strip t = ''B'' then Some (JObj (fmap_of_list [(''local_id'', JStr ''b'')])) else None)"

definition sample_derive_env :: derive_env where
  "sample_derive_env = \<lparr>de_load = sample_yaml, de_read = sample_files_of, de_location = id, de_links = (\<lambda>_. None)\<rparr>"

definition deriving :: transition_definition where
  "deriving = \<lparr>td_id = ''plan'', td_task_type = ''Idea'', td_from_state = ''open'', td_to_state = ''planned'', td_worker = Some ''planner'',
     td_requires = \<lparr>rd_artifacts = [], rd_validations = [], rd_changed_files_required = False\<rparr>, td_transaction = None,
     td_derives = Some \<lparr>dd_task_type = ''Task'', dd_state = ''ready'', dd_artifact_type = ''TaskFile'', dd_required = True, dd_parent_to_if_derived = None\<rparr>,
     td_default_for_scheduler = False, td_instructions = [], td_review = None\<rparr>"

definition handed_in :: "artifact_submission list" where
  "handed_in = map (\<lambda>p. \<lparr>as_type = ''TaskFile'', as_path = p, as_sha256 = None\<rparr>) [''a.md'', ''b.md'']"

theorem derived_plan_sound_witness:
  "\<exists>planned. derived_task_plan sample_derive_env deriving handed_in ''7'' [''7'', ''12'', ''notes''] None = Inr planned
     \<and> map t_id (planned_tasks planned) = [''13'', ''14''] \<and> acyclic (task_edges (planned_tasks planned))"
proof -
  have c: "map_sum id (\<lambda>ps. map (t_id \<circ> pn_task) ps) (derived_task_plan sample_derive_env deriving handed_in ''7'' [''7'', ''12'', ''notes''] None) = Inr [''13'', ''14'']"
    by code_simp
  then obtain planned where p: "derived_task_plan sample_derive_env deriving handed_in ''7'' [''7'', ''12'', ''notes''] None = Inr planned"
    by (cases "derived_task_plan sample_derive_env deriving handed_in ''7'' [''7'', ''12'', ''notes''] None") auto
  have d: "td_derives deriving = Some \<lparr>dd_task_type = ''Task'', dd_state = ''ready'', dd_artifact_type = ''TaskFile'', dd_required = True, dd_parent_to_if_derived = None\<rparr>"
    by (simp add: deriving_def)
  from derived_plan_sound [OF p d] c p show ?thesis by simp
qed

end
