(* ===== verification/PathOps.thy ===== *)
theory PathOps
  imports Paths
begin

text \<open>
  \<open>runtime/pathops.py\<close>: the operations on files below an admitted root that never follow a link.
  A file system is a map of inodes; a directory descriptor is the inode it was opened on.  Every
  call of the operating system is one step: before it, other processes may change the files, and
  the call itself may fail.  The content of a file is read as it is when its reading starts.
\<close>

section \<open>Files\<close>

datatype node = Folder "(string \<times> nat) list" | Regular string int | Symlink string | Pipe | Socket

record files =
  fl_nodes :: "nat \<Rightarrow> node option"
  fl_next :: nat

datatype os_error = NotFound | WrongKind | Exists | NotEmpty | IOFailure

text \<open>What a helper raises; \<open>NeverReturns\<close> is a call that blocks for ever.\<close>

datatype path_error = SourcePathError | OSFailure os_error | UnsafePath | NeverReturns

record kern =
  kn_files :: files
  kn_clock :: nat
  kn_env :: "nat \<Rightarrow> files \<Rightarrow> files"
  kn_fail :: "nat \<Rightarrow> bool"
  kn_accepts :: "nat \<Rightarrow> nat \<Rightarrow> nat"

type_synonym 'a step = "kern \<Rightarrow> (path_error + 'a) \<times> kern"

text \<open>\<open>try: x = m; except FileNotFoundError: h\<close>, then \<open>f x\<close> outside of the \<open>try\<close>.\<close>

definition or_missing :: "'a step \<Rightarrow> 'b step \<Rightarrow> ('a \<Rightarrow> 'b step) \<Rightarrow> 'b step" where
  "or_missing m h f k = (case m k of
      (Inl (OSFailure NotFound), k') \<Rightarrow> h k'
    | (Inl e, k') \<Rightarrow> (Inl e, k')
    | (Inr x, k') \<Rightarrow> f x k')"

definition syscall :: "(files \<Rightarrow> (path_error + 'a) \<times> files) \<Rightarrow> 'a step" where
  "syscall f k = (let fs = kn_env k (kn_clock k) (kn_files k); k' = k\<lparr>kn_files := fs, kn_clock := Suc (kn_clock k)\<rparr>
     in if kn_fail k (kn_clock k) then (Inl (OSFailure IOFailure), k')
        else (case f fs of (r, fs') \<Rightarrow> (r, k'\<lparr>kn_files := fs'\<rparr>)))"

section \<open>Calls\<close>

definition entry :: "files \<Rightarrow> nat \<Rightarrow> string \<Rightarrow> nat option" where
  "entry fs d n = (case fl_nodes fs d of Some (Folder es) \<Rightarrow> dict_get es n | _ \<Rightarrow> None)"

definition entry_node :: "files \<Rightarrow> nat \<Rightarrow> string \<Rightarrow> (nat \<times> node) option" where
  "entry_node fs d n = (case entry fs d n of None \<Rightarrow> None
     | Some i \<Rightarrow> (case fl_nodes fs i of None \<Rightarrow> None | Some x \<Rightarrow> Some (i, x)))"

definition set_node :: "nat \<Rightarrow> node \<Rightarrow> files \<Rightarrow> files" where
  "set_node i x fs = fs\<lparr>fl_nodes := (fl_nodes fs)(i \<mapsto> x)\<rparr>"

definition set_entries :: "nat \<Rightarrow> ((string \<times> nat) list \<Rightarrow> (string \<times> nat) list) \<Rightarrow> files \<Rightarrow> files" where
  "set_entries d f fs = (case fl_nodes fs d of Some (Folder es) \<Rightarrow> set_node d (Folder (f es)) fs | _ \<Rightarrow> fs)"

definition add_node :: "nat \<Rightarrow> string \<Rightarrow> node \<Rightarrow> files \<Rightarrow> files" where
  "add_node d n x fs = set_entries d (dict_set n (fl_next fs)) (set_node (fl_next fs) x fs)\<lparr>fl_next := Suc (fl_next fs)\<rparr>"

definition remove_entry :: "nat \<Rightarrow> string \<Rightarrow> files \<Rightarrow> files" where
  "remove_entry d n = set_entries d (filter (\<lambda>e. fst e \<noteq> n))"

text \<open>\<open>O_RDONLY | O_DIRECTORY | O_NOFOLLOW\<close>\<close>

definition sys_open_folder :: "nat \<Rightarrow> string \<Rightarrow> nat step" where
  "sys_open_folder d n = syscall (\<lambda>fs. (case entry_node fs d n of
      None \<Rightarrow> Inl (OSFailure NotFound)
    | Some (i, Folder _) \<Rightarrow> Inr i
    | Some _ \<Rightarrow> Inl (OSFailure WrongKind), fs))"

text \<open>\<open>O_RDONLY | O_NONBLOCK | O_NOFOLLOW\<close>\<close>

definition sys_open_read :: "nat \<Rightarrow> string \<Rightarrow> nat step" where
  "sys_open_read d n = syscall (\<lambda>fs. (case entry_node fs d n of
      None \<Rightarrow> Inl (OSFailure NotFound)
    | Some (_, Symlink _) \<Rightarrow> Inl (OSFailure WrongKind)
    | Some (_, Socket) \<Rightarrow> Inl (OSFailure IOFailure)
    | Some (i, _) \<Rightarrow> Inr i, fs))"

text \<open>\<open>O_WRONLY | O_CREAT | O_TRUNC | O_NOFOLLOW\<close>: a pipe without a reader blocks.\<close>

definition sys_open_write :: "nat \<Rightarrow> string \<Rightarrow> int \<Rightarrow> nat step" where
  "sys_open_write d n md = syscall (\<lambda>fs. case entry fs d n of
      None \<Rightarrow> (case fl_nodes fs d of
          Some (Folder _) \<Rightarrow> (Inr (fl_next fs), add_node d n (Regular [] md) fs)
        | _ \<Rightarrow> (Inl (OSFailure NotFound), fs))
    | Some i \<Rightarrow> (case fl_nodes fs i of
          Some (Regular _ m) \<Rightarrow> (Inr i, set_node i (Regular [] m) fs)
        | Some Pipe \<Rightarrow> (Inl NeverReturns, fs)
        | Some Socket \<Rightarrow> (Inl (OSFailure IOFailure), fs)
        | _ \<Rightarrow> (Inl (OSFailure WrongKind), fs)))"

definition sys_mkdir :: "nat \<Rightarrow> string \<Rightarrow> unit step" where
  "sys_mkdir d n = syscall (\<lambda>fs. case entry fs d n of
      Some _ \<Rightarrow> (Inl (OSFailure Exists), fs)
    | None \<Rightarrow> (case fl_nodes fs d of
          Some (Folder _) \<Rightarrow> (Inr (), add_node d n (Folder []) fs)
        | _ \<Rightarrow> (Inl (OSFailure NotFound), fs)))"

definition sys_fstat :: "nat \<Rightarrow> node step" where
  "sys_fstat i = syscall (\<lambda>fs. (case fl_nodes fs i of None \<Rightarrow> Inl (OSFailure IOFailure) | Some x \<Rightarrow> Inr x, fs))"

definition sys_lstat :: "nat \<Rightarrow> string \<Rightarrow> node step" where
  "sys_lstat d n = syscall (\<lambda>fs. (case entry_node fs d n of None \<Rightarrow> Inl (OSFailure NotFound) | Some (_, x) \<Rightarrow> Inr x, fs))"

definition sys_read :: "nat \<Rightarrow> string step" where
  "sys_read i = syscall (\<lambda>fs. (case fl_nodes fs i of Some (Regular c _) \<Rightarrow> Inr c | _ \<Rightarrow> Inl (OSFailure IOFailure), fs))"

text \<open>A write takes some of the bytes; \<open>kn_accepts\<close> says how many.\<close>

definition write_call :: "nat \<Rightarrow> string \<Rightarrow> nat \<Rightarrow> files \<Rightarrow> (path_error + unit) \<times> files" where
  "write_call i bytes taken fs = (case fl_nodes fs i of
      Some (Regular c m) \<Rightarrow> (Inr (), set_node i (Regular (c @ take taken bytes) m) fs)
    | _ \<Rightarrow> (Inl (OSFailure IOFailure), fs))"

definition sys_write :: "nat \<Rightarrow> string \<Rightarrow> unit step" where
  "sys_write i bytes k = syscall (write_call i bytes (kn_accepts k (kn_clock k) (length bytes))) k"

definition sys_fchmod :: "nat \<Rightarrow> int \<Rightarrow> unit step" where
  "sys_fchmod i md = syscall (\<lambda>fs. case fl_nodes fs i of
      Some (Regular c _) \<Rightarrow> (Inr (), set_node i (Regular c md) fs)
    | _ \<Rightarrow> (Inl (OSFailure IOFailure), fs))"

definition sys_unlink :: "nat \<Rightarrow> string \<Rightarrow> unit step" where
  "sys_unlink d n = syscall (\<lambda>fs. case entry_node fs d n of
      None \<Rightarrow> (Inl (OSFailure NotFound), fs)
    | Some (_, Folder _) \<Rightarrow> (Inl (OSFailure WrongKind), fs)
    | Some _ \<Rightarrow> (Inr (), remove_entry d n fs))"

definition sys_rmdir :: "nat \<Rightarrow> string \<Rightarrow> unit step" where
  "sys_rmdir d n = syscall (\<lambda>fs. case entry_node fs d n of
      None \<Rightarrow> (Inl (OSFailure NotFound), fs)
    | Some (_, Folder es) \<Rightarrow> (if es = [] then (Inr (), remove_entry d n fs) else (Inl (OSFailure NotEmpty), fs))
    | Some _ \<Rightarrow> (Inl (OSFailure WrongKind), fs))"

section \<open>Walking\<close>

text \<open>An admitted root is an entry of a folder of the operator.\<close>

type_synonym root = "nat \<times> string"

definition open_root :: "root \<Rightarrow> nat step" where
  "open_root r k = (case sys_open_folder (fst r) (snd r) k of
      (Inl (OSFailure WrongKind), k') \<Rightarrow> (Inl SourcePathError, k')
    | other \<Rightarrow> other)"

definition relative_parts :: "string \<Rightarrow> string list step" where
  "relative_parts rel = (if is_absolute rel \<or> ''..'' \<in> set (path_parts rel) \<or> path_parts rel = []
     then raising UnsafePath else ret (path_parts rel))"

fun open_parent_nofollow :: "nat \<Rightarrow> string list \<Rightarrow> nat step" where
  "open_parent_nofollow fd [] = ret fd"
| "open_parent_nofollow fd (p # ps) = andthen (sys_open_folder fd p) (\<lambda>c. open_parent_nofollow c ps)"

fun open_target_parents :: "nat \<Rightarrow> string list \<Rightarrow> nat step" where
  "open_target_parents fd [] = ret fd"
| "open_target_parents fd (p # ps) =
     andthen (or_missing (sys_open_folder fd p) (andthen (sys_mkdir fd p) (\<lambda>_. sys_open_folder fd p)) ret)
       (\<lambda>c. open_target_parents c ps)"

section \<open>The operations\<close>

fun chunks :: "nat \<Rightarrow> string \<Rightarrow> string list" where
  "chunks n xs = (if xs = [] \<or> n = 0 then [] else take n xs # chunks n (drop n xs))"

declare chunks.simps [simp del]

fun write_chunks :: "nat \<Rightarrow> string list \<Rightarrow> unit step" where
  "write_chunks i [] = ret ()"
| "write_chunks i (c # cs) = andthen (sys_write i c) (\<lambda>_. write_chunks i cs)"

definition BLOCK_SIZE :: nat where
  "BLOCK_SIZE = 1048576"

definition copy_fd_bytes :: "nat \<Rightarrow> nat \<Rightarrow> unit step" where
  "copy_fd_bytes src dst = andthen (sys_read src) (\<lambda>c. write_chunks dst (chunks BLOCK_SIZE c))"

text \<open>The mode of an open descriptor that must be a regular file.\<close>

definition regular_mode :: "nat \<Rightarrow> int step" where
  "regular_mode i = andthen (sys_fstat i) (\<lambda>x. case x of Regular _ m \<Rightarrow> ret (m mod 512) | _ \<Rightarrow> raising SourcePathError)"

definition open_regular :: "nat \<Rightarrow> string list \<Rightarrow> (nat \<times> int) step" where
  "open_regular root_fd ps = andthen (open_parent_nofollow root_fd (butlast ps)) (\<lambda>parent.
     andthen (sys_open_read parent (last ps)) (\<lambda>i. andthen (regular_mode i) (\<lambda>m. ret (i, m))))"

definition open_or_make_root :: "root \<Rightarrow> nat step" where
  "open_or_make_root r = or_missing (open_root r) (andthen (sys_mkdir (fst r) (snd r)) (\<lambda>_. open_root r)) ret"

definition copy_regular_nofollow :: "root \<Rightarrow> string \<Rightarrow> root \<Rightarrow> string \<Rightarrow> int option \<Rightarrow> unit step" where
  "copy_regular_nofollow sr srel tr trel md =
     andthen (relative_parts srel) (\<lambda>sps. andthen (relative_parts trel) (\<lambda>tps.
     andthen (open_root sr) (\<lambda>sfd. andthen (open_or_make_root tr) (\<lambda>tfd.
     andthen (open_regular sfd sps) (\<lambda>(i, m).
       let effective = (case md of None \<Rightarrow> m | Some x \<Rightarrow> x)
       in andthen (open_target_parents tfd (butlast tps)) (\<lambda>parent.
          andthen (sys_open_write parent (last tps) effective) (\<lambda>j.
          andthen (sys_fchmod j effective) (\<lambda>_. copy_fd_bytes i j))))))))"

definition hash_regular_nofollow :: "(string \<Rightarrow> string) \<Rightarrow> root \<Rightarrow> string \<Rightarrow> string step" where
  "hash_regular_nofollow digest r rel =
     andthen (relative_parts rel) (\<lambda>ps. andthen (open_root r) (\<lambda>fd. andthen (open_regular fd ps) (\<lambda>(i, m).
     andthen (sys_read i) (\<lambda>c. ret (digest c)))))"

text \<open>The size is the one of the \<open>fstat\<close>, before the content is read.\<close>

definition regular_file_id :: "(string \<Rightarrow> string) \<Rightarrow> root \<Rightarrow> string \<Rightarrow> (string \<times> int \<times> int) step" where
  "regular_file_id digest r rel =
     andthen (relative_parts rel) (\<lambda>ps. andthen (open_root r) (\<lambda>fd.
     andthen (open_parent_nofollow fd (butlast ps)) (\<lambda>parent.
     andthen (sys_open_read parent (last ps)) (\<lambda>i.
     andthen (sys_fstat i) (\<lambda>x. case x of
         Regular sized m \<Rightarrow> andthen (sys_read i) (\<lambda>c. ret (digest c, int (length sized), m mod 512))
       | _ \<Rightarrow> raising SourcePathError)))))"

definition unlink_regular_nofollow :: "root \<Rightarrow> string \<Rightarrow> bool step" where
  "unlink_regular_nofollow r rel =
     andthen (relative_parts rel) (\<lambda>ps. or_missing (open_root r) (ret False) (\<lambda>fd.
     or_missing (open_parent_nofollow fd (butlast ps)) (ret False) (\<lambda>parent.
     or_missing (sys_lstat parent (last ps)) (ret False) (\<lambda>x. case x of
         Regular _ _ \<Rightarrow> andthen (sys_unlink parent (last ps)) (\<lambda>_. ret True)
       | _ \<Rightarrow> raising SourcePathError))))"

text \<open>Every failure of the removal itself becomes a \<open>SourcePathError\<close>.\<close>

definition removed_or_refused :: "unit step \<Rightarrow> bool step" where
  "removed_or_refused m k = (case m k of
      (Inr _, k') \<Rightarrow> (Inr True, k')
    | (Inl (OSFailure _), k') \<Rightarrow> (Inl SourcePathError, k')
    | (Inl e, k') \<Rightarrow> (Inl e, k'))"

definition rmdir_if_empty_nofollow :: "root \<Rightarrow> string \<Rightarrow> bool step" where
  "rmdir_if_empty_nofollow r rel =
     andthen (relative_parts rel) (\<lambda>ps. or_missing (open_root r) (ret False) (\<lambda>fd.
     or_missing (open_parent_nofollow fd (butlast ps)) (ret False) (\<lambda>parent.
     or_missing (sys_lstat parent (last ps)) (ret False) (\<lambda>x. case x of
         Symlink _ \<Rightarrow> raising SourcePathError
       | Folder _ \<Rightarrow> removed_or_refused (sys_rmdir parent (last ps))
       | _ \<Rightarrow> ret False))))"

end
