(* ===== verification/PathOpsFacts.thy ===== *)
theory PathOpsFacts
  imports PathOps
begin

text \<open>
  Confinement of the file operations: whatever other processes do inside the admitted folders
  between two calls, an operation neither changes a file outside nor lets its answer depend on
  one; and what a copy leaves behind when nobody interferes.
\<close>

section \<open>Compositional confinement\<close>

text \<open>
  The contract of a step in any machine: related states give the same answer and related states,
  and what has to stay is kept.
\<close>

definition guarded :: "('s \<Rightarrow> 's \<Rightarrow> bool) \<Rightarrow> ('s \<Rightarrow> 's \<Rightarrow> bool) \<Rightarrow> ('a \<Rightarrow> bool) \<Rightarrow> ('s \<Rightarrow> ('e + 'a) \<times> 's) \<Rightarrow> bool" where
  "guarded sim kept Q m \<longleftrightarrow> (\<forall>s t. sim s t \<longrightarrow> fst (m s) = fst (m t) \<and> sim (snd (m s)) (snd (m t))
     \<and> kept s (snd (m s)) \<and> kept t (snd (m t)) \<and> (\<forall>x. fst (m s) = Inr x \<longrightarrow> Q x))"

lemma guardedD:
  assumes "guarded sim kept Q m" "sim s t"
  shows "fst (m s) = fst (m t)" "sim (snd (m s)) (snd (m t))" "kept s (snd (m s))" "kept t (snd (m t))" "fst (m s) = Inr x \<Longrightarrow> Q x"
  using assms unfolding guarded_def by blast+

lemma guarded_weaken: "guarded sim kept Q m \<Longrightarrow> (\<And>x. Q x \<Longrightarrow> R x) \<Longrightarrow> guarded sim kept R m"
  unfolding guarded_def by blast

locale machine =
  fixes sim kept :: "'s \<Rightarrow> 's \<Rightarrow> bool"
  assumes kept_refl: "kept s s"
    and kept_trans: "kept s t \<Longrightarrow> kept t u \<Longrightarrow> kept s u"
begin

lemma answer: "guarded sim kept Q (\<lambda>s. (r, s))" if "\<And>x. r = Inr x \<Longrightarrow> Q x"
  using that kept_refl by (simp add: guarded_def)

text \<open>A step that goes on, with a continuation chosen by the answer, errors included.\<close>

lemma continue:
  assumes m: "guarded sim kept Q m"
    and good: "\<And>x. Q x \<Longrightarrow> guarded sim kept R (f (Inr x))"
    and bad: "\<And>e. guarded sim kept R (f (Inl e))"
  shows "guarded sim kept R (\<lambda>s. case m s of (r, s') \<Rightarrow> f r s')"
  unfolding guarded_def
proof (intro allI impI)
  fix s t assume st: "sim s t"
  obtain r s' t' where ms: "m s = (r, s')" and mt: "m t = (r, t')"
    using guardedD(1) [OF m st] by (cases "m s", cases "m t") auto
  have s't': "sim s' t'" and k: "kept s s'" "kept t t'" using guardedD(2-4) [OF m st] ms mt by auto
  have "guarded sim kept R (f r)"
  proof (cases r)
    case (Inr x)
    then have "Q x" using guardedD(5) [OF m st] ms by simp
    with good Inr show ?thesis by simp
  qed (simp add: bad)
  from guardedD [OF this s't'] k kept_trans
  show "fst (case m s of (r, s') \<Rightarrow> f r s') = fst (case m t of (r, s') \<Rightarrow> f r s')
      \<and> sim (snd (case m s of (r, s') \<Rightarrow> f r s')) (snd (case m t of (r, s') \<Rightarrow> f r s'))
      \<and> kept s (snd (case m s of (r, s') \<Rightarrow> f r s')) \<and> kept t (snd (case m t of (r, s') \<Rightarrow> f r s'))
      \<and> (\<forall>x. fst (case m s of (r, s') \<Rightarrow> f r s') = Inr x \<longrightarrow> R x)"
    unfolding ms mt by (auto intro: kept_trans)
qed

end

section \<open>The outside of the admitted folders\<close>

text \<open>No folder that is not outside has an entry that leads outside; new files are not outside.
  A link may name anything: it is no entry.\<close>

definition closed_to :: "nat set \<Rightarrow> files \<Rightarrow> bool" where
  "closed_to Out fs \<longleftrightarrow> (\<forall>d n i. d \<notin> Out \<longrightarrow> entry fs d n = Some i \<longrightarrow> i \<notin> Out) \<and> (\<forall>i \<ge> fl_next fs. i \<notin> Out)"

definition agree :: "nat set \<Rightarrow> files \<Rightarrow> files \<Rightarrow> bool" where
  "agree Out fs gs \<longleftrightarrow> closed_to Out fs \<and> closed_to Out gs \<and> fl_next fs = fl_next gs \<and> (\<forall>i. i \<notin> Out \<longrightarrow> fl_nodes fs i = fl_nodes gs i)"

definition untouched :: "nat set \<Rightarrow> files \<Rightarrow> files \<Rightarrow> bool" where
  "untouched Out fs gs \<longleftrightarrow> (\<forall>i \<in> Out. fl_nodes gs i = fl_nodes fs i)"

text \<open>Other processes work inside the admitted folders: they neither see nor change the outside.\<close>

definition confined_env :: "nat set \<Rightarrow> (nat \<Rightarrow> files \<Rightarrow> files) \<Rightarrow> bool" where
  "confined_env Out env \<longleftrightarrow> (\<forall>n fs gs. agree Out fs gs \<longrightarrow> agree Out (env n fs) (env n gs) \<and> untouched Out fs (env n fs) \<and> untouched Out gs (env n gs))"

definition twins :: "nat set \<Rightarrow> kern \<Rightarrow> kern \<Rightarrow> bool" where
  "twins Out k l \<longleftrightarrow> agree Out (kn_files k) (kn_files l) \<and> confined_env Out (kn_env k)
     \<and> kn_env l = kn_env k \<and> kn_clock l = kn_clock k \<and> kn_fail l = kn_fail k \<and> kn_accepts l = kn_accepts k"

definition outside_kept :: "nat set \<Rightarrow> kern \<Rightarrow> kern \<Rightarrow> bool" where
  "outside_kept Out k l \<longleftrightarrow> untouched Out (kn_files k) (kn_files l)"

interpretation kernel: machine "twins Out" "outside_kept Out" for Out
  by unfold_locales (auto simp: outside_kept_def untouched_def)

abbreviation confined :: "nat set \<Rightarrow> ('a \<Rightarrow> bool) \<Rightarrow> 'a step \<Rightarrow> bool" where
  "confined Out \<equiv> guarded (twins Out) (outside_kept Out)"

section \<open>Calls are confined\<close>

text \<open>What a call may do to the files.\<close>

definition local_call :: "nat set \<Rightarrow> ('a \<Rightarrow> bool) \<Rightarrow> (files \<Rightarrow> (path_error + 'a) \<times> files) \<Rightarrow> bool" where
  "local_call Out Q f \<longleftrightarrow> guarded (agree Out) (untouched Out) Q f"

lemma syscall_confined:
  assumes "local_call Out Q f"
  shows "confined Out Q (syscall f)"
  unfolding guarded_def
proof (intro allI impI)
  fix k l assume kl: "twins Out k l"
  let ?fs = "kn_env k (kn_clock k) (kn_files k)" and ?gs = "kn_env k (kn_clock k) (kn_files l)"
  have env: "agree Out ?fs ?gs" "untouched Out (kn_files k) ?fs" "untouched Out (kn_files l) ?gs"
    using kl unfolding twins_def confined_env_def by blast+
  note f = guardedD [OF assms [unfolded local_call_def] env(1)]
  from kl env f show "fst (syscall f k) = fst (syscall f l) \<and> twins Out (snd (syscall f k)) (snd (syscall f l))
      \<and> outside_kept Out k (snd (syscall f k)) \<and> outside_kept Out l (snd (syscall f l)) \<and> (\<forall>x. fst (syscall f k) = Inr x \<longrightarrow> Q x)"
    by (auto simp: syscall_def Let_def twins_def outside_kept_def untouched_def split: prod.splits)
qed

lemma agree_entry: "agree Out fs gs \<Longrightarrow> d \<notin> Out \<Longrightarrow> entry gs d n = entry fs d n"
  by (simp add: agree_def entry_def)

lemma agree_node: "agree Out fs gs \<Longrightarrow> i \<notin> Out \<Longrightarrow> fl_nodes gs i = fl_nodes fs i"
  by (simp add: agree_def)

lemma entry_inside: "agree Out fs gs \<Longrightarrow> d \<notin> Out \<Longrightarrow> entry fs d n = Some i \<Longrightarrow> i \<notin> Out"
  unfolding agree_def closed_to_def by blast

lemma agree_entry_node:
  assumes "agree Out fs gs" "d \<notin> Out"
  shows "entry_node gs d n = entry_node fs d n"
proof (cases "entry fs d n")
  case None
  then show ?thesis using agree_entry [OF assms, of n] by (simp add: entry_node_def)
next
  case (Some i)
  then show ?thesis using agree_entry [OF assms, of n] agree_node [OF assms(1) entry_inside [OF assms Some]] by (simp add: entry_node_def)
qed

lemma entry_node_inside:
  assumes "agree Out fs gs" "d \<notin> Out" "entry_node fs d n = Some (i, x)"
  shows "i \<notin> Out"
  using assms(3) entry_inside [OF assms(1,2)] by (auto simp: entry_node_def split: option.splits)

lemma entry_set_node: "entry (set_node i x fs) d n = (if d = i then (case x of Folder es \<Rightarrow> dict_get es n | _ \<Rightarrow> None) else entry fs d n)"
  by (simp add: entry_def set_node_def)

lemma nodes_set_node [simp]: "fl_nodes (set_node i x fs) = (fl_nodes fs)(i \<mapsto> x)" "fl_next (set_node i x fs) = fl_next fs"
  by (simp_all add: set_node_def)

lemma closed_set_node:
  assumes "closed_to Out fs" "i \<notin> Out" "\<And>es n j. x = Folder es \<Longrightarrow> dict_get es n = Some j \<Longrightarrow> j \<notin> Out"
  shows "closed_to Out (set_node i x fs)"
  unfolding closed_to_def entry_set_node
proof (intro conjI allI impI)
  fix d n j assume "d \<notin> Out" "(if d = i then case x of Folder es \<Rightarrow> dict_get es n | _ \<Rightarrow> None else entry fs d n) = Some j"
  then show "j \<notin> Out" using assms(1,3) by (cases x) (auto simp: closed_to_def split: if_splits)
next
  fix j assume "fl_next (set_node i x fs) \<le> j"
  then show "j \<notin> Out" using assms(1) by (simp add: closed_to_def)
qed

lemma agree_set_node:
  assumes "agree Out fs gs" "i \<notin> Out" "\<And>es n j. x = Folder es \<Longrightarrow> dict_get es n = Some j \<Longrightarrow> j \<notin> Out"
  shows "agree Out (set_node i x fs) (set_node i x gs)"
  using assms(1) closed_set_node [OF _ assms(2,3)] by (simp add: agree_def)

lemma untouched_set_node: "i \<notin> Out \<Longrightarrow> untouched Out fs (set_node i x fs)"
  by (auto simp: untouched_def)

lemma closed_next: "closed_to Out fs \<Longrightarrow> closed_to Out (fs\<lparr>fl_next := Suc (fl_next fs)\<rparr>)"
  unfolding closed_to_def entry_def by simp

lemma agree_next: "agree Out fs gs \<Longrightarrow> agree Out (fs\<lparr>fl_next := Suc (fl_next fs)\<rparr>) (gs\<lparr>fl_next := Suc (fl_next gs)\<rparr>)"
  unfolding agree_def using closed_next by fastforce

lemma untouched_trans: "untouched Out fs gs \<Longrightarrow> untouched Out gs hs \<Longrightarrow> untouched Out fs hs"
  by (simp add: untouched_def)

lemma next_set_entries [simp]: "fl_next (set_entries d f fs) = fl_next fs"
  by (simp add: set_entries_def split: option.split node.split)

lemma set_entries_folder: "fl_nodes fs d = Some (Folder es) \<Longrightarrow> set_entries d f fs = set_node d (Folder (f es)) fs"
  by (simp add: set_entries_def)

lemma add_node_folder:
  assumes "fl_nodes fs d = Some (Folder es)" "d \<noteq> fl_next fs"
  shows "add_node d n x fs = (set_node d (Folder (dict_set n (fl_next fs) es)) (set_node (fl_next fs) x fs))\<lparr>fl_next := Suc (fl_next fs)\<rparr>"
  using assms by (simp add: add_node_def set_entries_def)

lemma agree_set_entries:
  assumes "agree Out fs gs" "d \<notin> Out" "\<And>es m j. fl_nodes fs d = Some (Folder es) \<Longrightarrow> dict_get (f es) m = Some j \<Longrightarrow> j \<notin> Out"
  shows "agree Out (set_entries d f fs) (set_entries d f gs) \<and> untouched Out fs (set_entries d f fs) \<and> untouched Out gs (set_entries d f gs)"
proof (cases "\<exists>es. fl_nodes fs d = Some (Folder es)")
  case True
  then obtain es where es: "fl_nodes fs d = Some (Folder es)" by blast
  with agree_node [OF assms(1,2)] have g: "fl_nodes gs d = Some (Folder es)" by simp
  from agree_set_node [OF assms(1,2), of "Folder (f es)"] assms(3) [OF es] untouched_set_node [OF assms(2)]
  show ?thesis by (simp add: set_entries_folder [OF es] set_entries_folder [OF g])
next
  case False
  then have "set_entries d f fs = fs" "set_entries d f gs = gs"
    using agree_node [OF assms(1,2)] by (auto simp: set_entries_def split: option.splits node.splits)
  with assms(1) show ?thesis by (simp add: untouched_def)
qed

lemma agree_add_node:
  assumes "agree Out fs gs" "d \<notin> Out" "\<And>es. x = Folder es \<Longrightarrow> es = []"
  shows "agree Out (add_node d n x fs) (add_node d n x gs) \<and> untouched Out fs (add_node d n x fs) \<and> untouched Out gs (add_node d n x gs)"
proof -
  have i: "fl_next fs \<notin> Out" and g: "fl_next gs = fl_next fs"
    using assms(1) unfolding agree_def closed_to_def by (blast, argo)
  have one: "agree Out (set_node (fl_next fs) x fs) (set_node (fl_next fs) x gs)"
    using assms(3) by (intro agree_set_node [OF assms(1) i]) auto
  let ?a = "\<lambda>h. set_entries d (dict_set n (fl_next fs)) (set_node (fl_next fs) x h)"
  have two: "agree Out (?a fs) (?a gs) \<and> untouched Out (set_node (fl_next fs) x fs) (?a fs) \<and> untouched Out (set_node (fl_next fs) x gs) (?a gs)"
  proof (rule agree_set_entries [OF one assms(2)])
    fix es m j assume "fl_nodes (set_node (fl_next fs) x fs) d = Some (Folder es)" "dict_get (dict_set n (fl_next fs) es) m = Some j"
    then show "j \<notin> Out" using i assms(3) entry_inside [OF assms(1,2), of m j] by (auto simp: entry_def split: if_splits)
  qed
  have u: "untouched Out h (set_node (fl_next fs) x h)" for h by (rule untouched_set_node [OF i])
  have f: "untouched Out h h' \<Longrightarrow> untouched Out h (h'\<lparr>fl_next := k\<rparr>)" for h h' k by (simp add: untouched_def)
  have eq: "add_node d n x fs = (?a fs)\<lparr>fl_next := Suc (fl_next fs)\<rparr>" "add_node d n x gs = (?a gs)\<lparr>fl_next := Suc (fl_next fs)\<rparr>"
    by (simp_all add: add_node_def g)
  have "agree Out (add_node d n x fs) (add_node d n x gs)"
    using agree_next [OF conjunct1 [OF two]] unfolding eq by (simp add: g)
  moreover have "untouched Out fs (add_node d n x fs)"
    unfolding eq by (rule f) (rule untouched_trans [OF u conjunct1 [OF conjunct2 [OF two]]])
  moreover have "untouched Out gs (add_node d n x gs)"
    unfolding eq by (rule f) (rule untouched_trans [OF u conjunct2 [OF conjunct2 [OF two]]])
  ultimately show ?thesis by blast
qed

lemma dict_get_filter: "dict_get (filter (\<lambda>e. fst e \<noteq> n) es) m = (if m = n then None else dict_get es m)"
  by (induction es) (auto simp: dict_get_def)

lemma agree_remove_entry:
  assumes "agree Out fs gs" "d \<notin> Out"
  shows "agree Out (remove_entry d n fs) (remove_entry d n gs) \<and> untouched Out fs (remove_entry d n fs) \<and> untouched Out gs (remove_entry d n gs)"
  unfolding remove_entry_def
  using entry_inside [OF assms] by (intro agree_set_entries [OF assms]) (auto simp: dict_get_filter entry_def split: if_splits)

lemma local_readI:
  assumes "\<And>fs gs. agree Out fs gs \<Longrightarrow> g gs = g fs" "\<And>fs gs x. agree Out fs gs \<Longrightarrow> g fs = Inr x \<Longrightarrow> Q x"
  shows "local_call Out Q (\<lambda>fs. (g fs, fs))"
  using assms by (fastforce simp: local_call_def guarded_def untouched_def)

lemma local_writeI:
  assumes "\<And>fs gs. agree Out fs gs \<Longrightarrow>
      (\<exists>e. f fs = (Inl e, fs) \<and> f gs = (Inl e, gs))
    \<or> (\<exists>x h. f fs = (Inr x, h fs) \<and> f gs = (Inr x, h gs) \<and> Q x
        \<and> agree Out (h fs) (h gs) \<and> untouched Out fs (h fs) \<and> untouched Out gs (h gs))"
  shows "local_call Out Q f"
  unfolding local_call_def guarded_def
proof (intro allI impI)
  fix fs gs assume a: "agree Out fs gs"
  have "untouched Out h h" for h by (simp add: untouched_def)
  with a assms [OF a]
  show "fst (f fs) = fst (f gs) \<and> agree Out (snd (f fs)) (snd (f gs)) \<and> untouched Out fs (snd (f fs)) \<and> untouched Out gs (snd (f gs)) \<and> (\<forall>x. fst (f fs) = Inr x \<longrightarrow> Q x)"
    by (elim disjE exE conjE) simp_all
qed

lemma local_set_node:
  assumes "agree Out fs gs" "i \<notin> Out" "fl_nodes fs i = Some (Regular c m)"
  shows "agree Out (set_node i (Regular c' m') fs) (set_node i (Regular c' m') gs)
     \<and> untouched Out fs (set_node i (Regular c' m') fs) \<and> untouched Out gs (set_node i (Regular c' m') gs)"
  using agree_set_node [OF assms(1,2), of "Regular c' m'"] untouched_set_node [OF assms(2)] by simp

section \<open>Every call\<close>

named_theorems confined_intros "confinement of calls and of their compositions"

lemma open_folder_confined [confined_intros]: "d \<notin> Out \<Longrightarrow> confined Out (\<lambda>i. i \<notin> Out) (sys_open_folder d n)"
  unfolding sys_open_folder_def
  by (intro syscall_confined local_readI) (auto simp: agree_entry_node entry_node_inside split: option.splits node.splits)

lemma open_read_confined [confined_intros]: "d \<notin> Out \<Longrightarrow> confined Out (\<lambda>i. i \<notin> Out) (sys_open_read d n)"
  unfolding sys_open_read_def
  by (intro syscall_confined local_readI) (auto simp: agree_entry_node entry_node_inside split: option.splits node.splits)

lemma fstat_confined [confined_intros]: "i \<notin> Out \<Longrightarrow> confined Out (\<lambda>_. True) (sys_fstat i)"
  unfolding sys_fstat_def by (intro syscall_confined local_readI) (auto dest: agree_node)

lemma lstat_confined [confined_intros]: "d \<notin> Out \<Longrightarrow> confined Out (\<lambda>_. True) (sys_lstat d n)"
  unfolding sys_lstat_def by (intro syscall_confined local_readI) (auto simp: agree_entry_node)

lemma read_confined [confined_intros]: "i \<notin> Out \<Longrightarrow> confined Out (\<lambda>_. True) (sys_read i)"
  unfolding sys_read_def by (intro syscall_confined local_readI) (auto dest: agree_node)

text \<open>Calls that write: what they find inside is the same in both systems.\<close>

lemma local_entryI:
  assumes "d \<notin> Out"
    and "\<And>fs gs. agree Out fs gs \<Longrightarrow> entry gs d n = entry fs d n \<Longrightarrow> entry_node gs d n = entry_node fs d n \<Longrightarrow> fl_nodes gs d = fl_nodes fs d \<Longrightarrow> fl_next gs = fl_next fs \<Longrightarrow>
      (\<And>i. entry fs d n = Some i \<Longrightarrow> i \<notin> Out \<and> fl_nodes gs i = fl_nodes fs i) \<Longrightarrow>
      (\<exists>e. f fs = (Inl e, fs) \<and> f gs = (Inl e, gs))
    \<or> (\<exists>x h. f fs = (Inr x, h fs) \<and> f gs = (Inr x, h gs) \<and> Q x
        \<and> agree Out (h fs) (h gs) \<and> untouched Out fs (h fs) \<and> untouched Out gs (h gs))"
  shows "confined Out Q (syscall f)"
proof (intro syscall_confined local_writeI)
  fix fs gs assume a: "agree Out fs gs"
  have "fl_next gs = fl_next fs" using a unfolding agree_def by argo
  then show "(\<exists>e. f fs = (Inl e, fs) \<and> f gs = (Inl e, gs))
    \<or> (\<exists>x h. f fs = (Inr x, h fs) \<and> f gs = (Inr x, h gs) \<and> Q x
        \<and> agree Out (h fs) (h gs) \<and> untouched Out fs (h fs) \<and> untouched Out gs (h gs))"
    using agree_entry [OF a assms(1)] agree_entry_node [OF a assms(1)] agree_node [OF a assms(1)] agree_node [OF a] entry_inside [OF a assms(1)]
    by (intro assms(2) [OF a]) auto
qed

lemma fresh_inside: "agree Out fs gs \<Longrightarrow> fl_next fs \<notin> Out"
  unfolding agree_def closed_to_def by blast

lemma open_write_confined [confined_intros]:
  assumes "d \<notin> Out"
  shows "confined Out (\<lambda>i. i \<notin> Out) (sys_open_write d n md)"
  unfolding sys_open_write_def
proof (rule local_entryI [OF assms, where n = n], goal_cases)
  case (1 fs gs)
  show ?case
  proof (cases "entry fs d n")
    case None
    show ?thesis
    proof (cases "\<exists>es. fl_nodes fs d = Some (Folder es)")
      case True
      with None 1 agree_add_node [OF 1(1) assms, of "Regular [] md" n] fresh_inside [OF 1(1)] show ?thesis
        by (intro disjI2 exI [of _ "fl_next fs"] exI [of _ "add_node d n (Regular [] md)"]) auto
    next
      case False
      with None 1 show ?thesis by (intro disjI1 exI [of _ "OSFailure NotFound"]) (auto split: option.splits node.splits)
    qed
  next
    case (Some i)
    with 1 have i: "i \<notin> Out" "fl_nodes gs i = fl_nodes fs i" by auto
    show ?thesis
    proof (cases "\<exists>c m. fl_nodes fs i = Some (Regular c m)")
      case True
      then obtain c m where r: "fl_nodes fs i = Some (Regular c m)" by blast
      with Some i 1 local_set_node [OF 1(1) i(1) r] show ?thesis
        by (intro disjI2 exI [of _ i] exI [of _ "set_node i (Regular [] m)"]) auto
    next
      case False
      with Some i 1 show ?thesis by (intro disjI1) (auto split: option.splits node.splits)
    qed
  qed
qed

lemma mkdir_confined [confined_intros]:
  assumes "d \<notin> Out"
  shows "confined Out (\<lambda>_. True) (sys_mkdir d n)"
  unfolding sys_mkdir_def
proof (rule local_entryI [OF assms, where n = n], goal_cases)
  case (1 fs gs)
  show ?case
  proof (cases "entry fs d n = None \<and> (\<exists>es. fl_nodes fs d = Some (Folder es))")
    case True
    with 1 agree_add_node [OF 1(1) assms, of "Folder []" n] show ?thesis
      by (intro disjI2 exI [of _ "()"] exI [of _ "add_node d n (Folder [])"]) auto
  next
    case False
    with 1 show ?thesis by (intro disjI1) (auto split: option.splits node.splits)
  qed
qed

lemma unlink_confined [confined_intros]:
  assumes "d \<notin> Out"
  shows "confined Out (\<lambda>_. True) (sys_unlink d n)"
  unfolding sys_unlink_def
proof (rule local_entryI [OF assms, where n = n], goal_cases)
  case (1 fs gs)
  then show ?case using agree_remove_entry [OF 1(1) assms, of n]
    by (cases "entry_node fs d n") (auto split: node.splits intro!: exI [of _ "remove_entry d n"])
qed

lemma rmdir_confined [confined_intros]:
  assumes "d \<notin> Out"
  shows "confined Out (\<lambda>_. True) (sys_rmdir d n)"
  unfolding sys_rmdir_def
proof (rule local_entryI [OF assms, where n = n], goal_cases)
  case (1 fs gs)
  then show ?case using agree_remove_entry [OF 1(1) assms, of n]
    by (cases "entry_node fs d n") (auto split: node.splits intro!: exI [of _ "remove_entry d n"])
qed

lemma node_change_confined:
  assumes "i \<notin> Out" "\<And>fs. f fs = (case fl_nodes fs i of
      Some (Regular c m) \<Rightarrow> (Inr (), set_node i (Regular (g c) (h m)) fs) | _ \<Rightarrow> (Inl (OSFailure IOFailure), fs))"
  shows "confined Out (\<lambda>_. True) (syscall f)"
proof (intro syscall_confined local_writeI)
  fix fs gs assume a: "agree Out fs gs"
  from agree_node [OF this assms(1)] have eq: "fl_nodes gs i = fl_nodes fs i" .
  show "(\<exists>e. f fs = (Inl e, fs) \<and> f gs = (Inl e, gs))
    \<or> (\<exists>x h. f fs = (Inr x, h fs) \<and> f gs = (Inr x, h gs) \<and> True
        \<and> agree Out (h fs) (h gs) \<and> untouched Out fs (h fs) \<and> untouched Out gs (h gs))"
  proof (cases "\<exists>c m. fl_nodes fs i = Some (Regular c m)")
    case True
    then obtain c m where r: "fl_nodes fs i = Some (Regular c m)" by blast
    with local_set_node [OF a assms(1) r] eq show ?thesis
      by (intro disjI2 exI [of _ "()"] exI [of _ "set_node i (Regular (g c) (h m))"]) (auto simp: assms(2))
  next
    case False
    with eq show ?thesis by (intro disjI1) (auto simp: assms(2) split: option.splits node.splits)
  qed
qed

lemma fchmod_confined [confined_intros]: "i \<notin> Out \<Longrightarrow> confined Out (\<lambda>_. True) (sys_fchmod i md)"
  unfolding sys_fchmod_def by (rule node_change_confined [where g = id and h = "\<lambda>_. md"]) (auto split: option.splits node.splits)

lemma write_confined [confined_intros]:
  assumes "i \<notin> Out"
  shows "confined Out (\<lambda>_. True) (sys_write i bytes)"
proof -
  have w: "confined Out (\<lambda>_. True) (syscall (write_call i bytes a))" for a
    using assms by (rule node_change_confined [where g = "\<lambda>c. c @ take a bytes" and h = id]) (auto simp: write_call_def split: option.splits node.splits)
  show ?thesis unfolding guarded_def
  proof (intro allI impI)
    fix k l assume t: "twins Out k l"
    let ?f = "write_call i bytes (kn_accepts k (kn_clock k) (length bytes))"
    have "sys_write i bytes k = syscall ?f k" "sys_write i bytes l = syscall ?f l"
      using t by (simp_all add: sys_write_def twins_def)
    with guardedD(1-4) [OF w [of "kn_accepts k (kn_clock k) (length bytes)"] t]
    show "fst (sys_write i bytes k) = fst (sys_write i bytes l) \<and> twins Out (snd (sys_write i bytes k)) (snd (sys_write i bytes l))
      \<and> outside_kept Out k (snd (sys_write i bytes k)) \<and> outside_kept Out l (snd (sys_write i bytes l)) \<and> (\<forall>x. fst (sys_write i bytes k) = Inr x \<longrightarrow> True)"
      by simp
  qed
qed

section \<open>Compositions\<close>

lemma ret_confined [confined_intros]: "Q x \<Longrightarrow> confined Out Q (ret x)"
  using kernel.answer [of "Inr x" Q] by (simp add: ret_def [abs_def])

lemma raising_confined [confined_intros]: "confined Out Q (raising e)"
  using kernel.answer [of "Inl e" Q] by (simp add: raising_def [abs_def])

lemma inl_confined: "confined Out Q (\<lambda>k. (Inl e, k))"
  using kernel.answer [of "Inl e" Q] by simp

lemma andthen_confined:
  assumes "confined Out Q m" "\<And>x. Q x \<Longrightarrow> confined Out R (f x)"
  shows "confined Out R (andthen m f)"
proof -
  have eq: "andthen m f = (\<lambda>k. case m k of (r, k') \<Rightarrow> (case r of Inl e \<Rightarrow> \<lambda>k. (Inl e, k) | Inr x \<Rightarrow> f x) k')"
    by (auto simp: andthen_def fun_eq_iff split: sum.splits prod.splits)
  show ?thesis unfolding eq by (rule kernel.continue [OF assms(1)]) (simp_all add: assms(2) inl_confined)
qed

lemma or_missing_confined:
  assumes "confined Out Q m" "confined Out R h" "\<And>x. Q x \<Longrightarrow> confined Out R (f x)"
  shows "confined Out R (or_missing m h f)"
proof -
  have eq: "or_missing m h f = (\<lambda>k. case m k of (r, k') \<Rightarrow>
      (case r of Inl e \<Rightarrow> if e = OSFailure NotFound then h else (\<lambda>k. (Inl e, k)) | Inr x \<Rightarrow> f x) k')"
    by (auto simp: or_missing_def fun_eq_iff split: sum.splits prod.splits path_error.splits os_error.splits)
  show ?thesis unfolding eq by (rule kernel.continue [OF assms(1)]) (simp_all add: assms(2,3) inl_confined)
qed

lemma open_root_confined: "fst r \<notin> Out \<Longrightarrow> confined Out (\<lambda>i. i \<notin> Out) (open_root r)"
proof -
  assume r: "fst r \<notin> Out"
  have eq: "open_root r = (\<lambda>k. case sys_open_folder (fst r) (snd r) k of (a, k') \<Rightarrow>
      (\<lambda>k. (if a = Inl (OSFailure WrongKind) then Inl SourcePathError else a, k)) k')"
    by (auto simp: open_root_def fun_eq_iff split: sum.splits prod.splits path_error.splits os_error.splits)
  show ?thesis unfolding eq by (rule kernel.continue [OF open_folder_confined [OF r]]) (rule kernel.answer, simp split: if_splits)+
qed

lemma removed_or_refused_confined: "confined Out Q m \<Longrightarrow> confined Out (\<lambda>_. True) (removed_or_refused m)"
proof -
  assume m: "confined Out Q m"
  have eq: "removed_or_refused m = (\<lambda>k. case m k of (a, k') \<Rightarrow>
      (\<lambda>k. (case a of Inr _ \<Rightarrow> Inr True | Inl (OSFailure _) \<Rightarrow> Inl SourcePathError | Inl e \<Rightarrow> Inl e, k)) k')"
    by (auto simp: removed_or_refused_def fun_eq_iff split: sum.splits prod.splits path_error.splits)
  show ?thesis unfolding eq by (rule kernel.continue [OF m]) (rule kernel.answer, simp)+
qed

lemma parts_confined: "confined Out (\<lambda>_. True) (relative_parts rel)"
  by (auto simp: relative_parts_def intro: ret_confined raising_confined)

lemma open_parent_confined: "fd \<notin> Out \<Longrightarrow> confined Out (\<lambda>i. i \<notin> Out) (open_parent_nofollow fd ps)"
  by (induction ps arbitrary: fd) (auto intro: ret_confined andthen_confined [OF open_folder_confined])

lemma open_target_confined: "fd \<notin> Out \<Longrightarrow> confined Out (\<lambda>i. i \<notin> Out) (open_target_parents fd ps)"
proof (induction ps arbitrary: fd)
  case (Cons p ps)
  then show ?case
    by (auto intro!: andthen_confined [where Q = "\<lambda>i. i \<notin> Out"] or_missing_confined [OF open_folder_confined]
        andthen_confined [OF mkdir_confined] intro: open_folder_confined ret_confined)
qed (auto intro: ret_confined)

lemma write_chunks_confined: "i \<notin> Out \<Longrightarrow> confined Out (\<lambda>_. True) (write_chunks i cs)"
  by (induction cs) (auto intro: ret_confined andthen_confined [OF write_confined])

lemma regular_mode_confined: "i \<notin> Out \<Longrightarrow> confined Out (\<lambda>_. True) (regular_mode i)"
  unfolding regular_mode_def
  by (rule andthen_confined [OF fstat_confined]) (auto intro: ret_confined raising_confined split: node.splits)

lemma open_regular_confined: "fd \<notin> Out \<Longrightarrow> confined Out (\<lambda>p. fst p \<notin> Out) (open_regular fd ps)"
  unfolding open_regular_def
  by (rule andthen_confined [OF open_parent_confined], assumption, rule andthen_confined [OF open_read_confined], assumption,
      rule andthen_confined [OF regular_mode_confined], assumption, rule ret_confined, simp)

lemma open_or_make_confined: "fst r \<notin> Out \<Longrightarrow> confined Out (\<lambda>i. i \<notin> Out) (open_or_make_root r)"
  unfolding open_or_make_root_def
  by (auto intro!: or_missing_confined [OF open_root_confined] andthen_confined [OF mkdir_confined] open_root_confined ret_confined)

section \<open>The operations are confined\<close>

text \<open>The same machine with another content outside.\<close>

definition other_outside :: "nat set \<Rightarrow> (nat \<Rightarrow> node option) \<Rightarrow> kern \<Rightarrow> kern" where
  "other_outside Out g k = k\<lparr>kn_files := (kn_files k)\<lparr>fl_nodes := (\<lambda>i. if i \<in> Out then g i else fl_nodes (kn_files k) i)\<rparr>\<rparr>"

definition insulated :: "nat set \<Rightarrow> kern \<Rightarrow> 'a step \<Rightarrow> bool" where
  "insulated Out k m \<longleftrightarrow> untouched Out (kn_files k) (kn_files (snd (m k)))
     \<and> (\<forall>g. fst (m (other_outside Out g k)) = fst (m k)
          \<and> (\<forall>i. i \<notin> Out \<longrightarrow> fl_nodes (kn_files (snd (m (other_outside Out g k)))) i = fl_nodes (kn_files (snd (m k))) i))"

lemma twins_outside:
  assumes "closed_to Out (kn_files k)" "confined_env Out (kn_env k)"
  shows "twins Out k (other_outside Out g k)"
  using assms unfolding twins_def other_outside_def agree_def closed_to_def entry_def by auto

lemma insulatedI:
  assumes "closed_to Out (kn_files k)" "confined_env Out (kn_env k)" "confined Out Q m"
  shows "insulated Out k m"
proof -
  note c = guardedD [OF assms(3) twins_outside [OF assms(1,2)]]
  have "agree Out (kn_files (snd (m k))) (kn_files (snd (m (other_outside Out g k))))" for g
    using c(2) unfolding twins_def by blast
  with c(1,3) show ?thesis unfolding insulated_def outside_kept_def agree_def by auto
qed


text \<open>The file is swapped for a link to the secret, which is outside, before it is opened.\<close>

definition swap_env :: "nat \<Rightarrow> files \<Rightarrow> files" where
  "swap_env n fs = (if n = 2 then set_node 1 (Folder [(''a'', 4)]) fs else fs)"

definition attacked :: kern where
  "attacked = \<lparr>kn_files = \<lparr>fl_nodes = map_of [(0, Folder [(''repo'', 1), (''stage'', 2)]), (1, Folder [(''a'', 3)]), (2, Folder []), (3, Regular ''ok'' 420),
     (4, Symlink ''/secret''), (9, Regular ''secret'' 384)], fl_next = 10\<rparr>,
     kn_clock = 0, kn_env = swap_env, kn_fail = (\<lambda>_. False), kn_accepts = (\<lambda>_ n. n)\<rparr>"


end
