(* ===== verification/PathCopy.thy ===== *)
theory PathCopy
  imports PathOpsFacts
begin

text \<open>
  What the file operations do when nobody interferes and no call fails: a copy that returns has
  made the target a regular file with the content of the source; and two races of the code.
\<close>

section \<open>A quiet machine\<close>

definition quiet :: "kern \<Rightarrow> bool" where
  "quiet k \<longleftrightarrow> kn_env k = (\<lambda>_ fs. fs) \<and> kn_fail k = (\<lambda>_. False) \<and> kn_accepts k = (\<lambda>_ n. n)"

lemma syscall_quiet:
  assumes "quiet k"
  shows "syscall f k = (fst (f (kn_files k)), k\<lparr>kn_clock := Suc (kn_clock k), kn_files := snd (f (kn_files k))\<rparr>)"
  using assms by (simp add: quiet_def syscall_def Let_def split: prod.splits)

lemma quiet_update [simp]: "quiet (k\<lparr>kn_clock := n, kn_files := fs\<rparr>) = quiet k" "quiet (k\<lparr>kn_files := fs\<rparr>) = quiet k"
  "quiet (k\<lparr>kn_clock := n\<rparr>) = quiet k"
  by (simp_all add: quiet_def)

lemma sys_write_quiet: "quiet k \<Longrightarrow> sys_write i bytes k = syscall (write_call i bytes (length bytes)) k"
  by (simp add: sys_write_def quiet_def)

text \<open>Where a relative path leads without following a link.\<close>

fun walk :: "files \<Rightarrow> nat \<Rightarrow> string list \<Rightarrow> nat option" where
  "walk fs d [] = Some d"
| "walk fs d (p # ps) = (case entry_node fs d p of Some (i, Folder _) \<Rightarrow> walk fs i ps | _ \<Rightarrow> None)"

definition located :: "files \<Rightarrow> root \<Rightarrow> string \<Rightarrow> nat option" where
  "located fs r rel = (case walk fs (fst r) (snd r # butlast (path_parts rel)) of None \<Rightarrow> None
     | Some d \<Rightarrow> entry fs d (last (path_parts rel)))"

section \<open>Growing files\<close>

text \<open>Entries stay and folders stay folders; other nodes stay as they are, except those of a set.\<close>

definition grows :: "nat set \<Rightarrow> files \<Rightarrow> files \<Rightarrow> bool" where
  "grows J fs gs \<longleftrightarrow> (\<forall>d n i. entry fs d n = Some i \<longrightarrow> entry gs d n = Some i)
     \<and> (\<forall>i es. fl_nodes fs i = Some (Folder es) \<longrightarrow> (\<exists>es'. fl_nodes gs i = Some (Folder es')))
     \<and> (\<forall>i c m. i \<notin> J \<longrightarrow> fl_nodes fs i = Some (Regular c m) \<longrightarrow> fl_nodes gs i = Some (Regular c m))"

definition tidy :: "files \<Rightarrow> bool" where
  "tidy fs \<longleftrightarrow> (\<forall>i. fl_nodes fs i \<noteq> None \<longrightarrow> i < fl_next fs)"

lemma grows_refl [simp]: "grows J fs fs"
  by (simp add: grows_def)

lemma grows_trans: "grows J fs gs \<Longrightarrow> grows K gs hs \<Longrightarrow> grows (J \<union> K) fs hs"
  unfolding grows_def by blast

lemma walk_grows: "grows J fs gs \<Longrightarrow> walk fs d ps = Some e \<Longrightarrow> walk gs d ps = Some e"
proof (induction ps arbitrary: d)
  case (Cons p ps)
  from Cons.prems(2) obtain i es where "entry fs d p = Some i" "fl_nodes fs i = Some (Folder es)" "walk fs i ps = Some e"
    by (auto simp: entry_node_def split: option.splits node.splits)
  moreover from this Cons.prems(1) obtain es' where "entry gs d p = Some i" "fl_nodes gs i = Some (Folder es')"
    unfolding grows_def by blast
  ultimately show ?case using Cons.IH [OF Cons.prems(1)] by (simp add: entry_node_def)
qed simp

lemma add_node_grows:
  assumes "tidy fs" "fl_nodes fs d = Some (Folder es)" "entry fs d n = None" "x = Folder [] \<or> x = Regular c m"
  shows "grows {} fs (add_node d n x fs)" "tidy (add_node d n x fs)" "entry (add_node d n x fs) d n = Some (fl_next fs)"
    "fl_nodes (add_node d n x fs) (fl_next fs) = Some x"
proof -
  have d: "d \<noteq> fl_next fs" and fresh: "fl_nodes fs (fl_next fs) = None" using assms(1,2) by (auto simp: tidy_def)
  note add = add_node_folder [OF assms(2) d, of n x]
  show "fl_nodes (add_node d n x fs) (fl_next fs) = Some x" using d by (simp add: add)
  show "entry (add_node d n x fs) d n = Some (fl_next fs)" by (simp add: add entry_def)
  show "tidy (add_node d n x fs)" using assms(1,2) by (auto simp: add tidy_def less_Suc_eq)
  show "grows {} fs (add_node d n x fs)"
    unfolding grows_def
  proof (intro conjI allI impI)
    fix a b i assume "entry fs a b = Some i"
    then show "entry (add_node d n x fs) a b = Some i"
      using assms(2,3) fresh by (auto simp: add entry_def split: option.splits node.splits)
  qed (use fresh in \<open>auto simp: add\<close>, insert assms(2) fresh, auto simp: add)
qed

lemma set_regular_grows:
  assumes "fl_nodes fs i = Some (Regular c m)"
  shows "grows {i} fs (set_node i (Regular c' m') fs)"
  using assms by (auto simp: grows_def entry_def)

lemma tidy_set: "tidy fs \<Longrightarrow> fl_nodes fs i = Some y \<Longrightarrow> tidy (set_node i x fs)"
  by (auto simp: tidy_def)

lemma entry_set_regular: "fl_nodes fs i = Some (Regular c m) \<Longrightarrow> entry (set_node i (Regular c' m') fs) = entry fs"
  by (auto simp: entry_def fun_eq_iff)

section \<open>Steps of a quiet machine\<close>

text \<open>A step that only looks: the files stay, and the answer is a value exactly when it is \<open>v\<close>.\<close>

definition looks :: "kern \<Rightarrow> 'a step \<Rightarrow> 'a option \<Rightarrow> bool" where
  "looks k m v \<longleftrightarrow> quiet (snd (m k)) \<and> kn_files (snd (m k)) = kn_files k \<and> (\<forall>x. fst (m k) = Inr x \<longleftrightarrow> v = Some x)"

lemma looks_ret [simp]: "quiet k \<Longrightarrow> looks k (ret x) (Some x)"
  by (auto simp: looks_def ret_def)

lemma looks_raising [simp]: "quiet k \<Longrightarrow> looks k (raising e) None"
  by (auto simp: looks_def raising_def)

lemma looks_andthen:
  assumes "looks k m v" "\<And>x k'. v = Some x \<Longrightarrow> quiet k' \<Longrightarrow> kn_files k' = kn_files k \<Longrightarrow> looks k' (f x) (w x)"
  shows "looks k (andthen m f) (Option.bind v w)"
proof (cases "fst (m k)")
  case (Inl e)
  then show ?thesis using assms(1) by (cases v) (auto simp: looks_def andthen_def split: prod.splits)
next
  case (Inr x)
  with assms(1) have "v = Some x" "quiet (snd (m k))" "kn_files (snd (m k)) = kn_files k" by (auto simp: looks_def)
  with assms(2) [OF this] Inr show ?thesis by (simp add: looks_def andthen_def case_prod_beta)
qed

lemma looks_open_folder: "quiet k \<Longrightarrow> looks k (sys_open_folder d n) (walk (kn_files k) d [n])"
  by (auto simp: looks_def sys_open_folder_def syscall_quiet split: option.splits node.splits)

lemma looks_open_read:
  "quiet k \<Longrightarrow> looks k (sys_open_read d n) (case entry_node (kn_files k) d n of Some (i, x) \<Rightarrow> (case x of Symlink _ \<Rightarrow> None | Socket \<Rightarrow> None | _ \<Rightarrow> Some i) | None \<Rightarrow> None)"
  by (auto simp: looks_def sys_open_read_def syscall_quiet split: option.splits node.splits)

lemma looks_fstat: "quiet k \<Longrightarrow> looks k (sys_fstat i) (fl_nodes (kn_files k) i)"
  by (auto simp: looks_def sys_fstat_def syscall_quiet split: option.splits)

lemma looks_read: "quiet k \<Longrightarrow> looks k (sys_read i) (case fl_nodes (kn_files k) i of Some (Regular c m) \<Rightarrow> Some c | _ \<Rightarrow> None)"
  by (auto simp: looks_def sys_read_def syscall_quiet split: option.splits node.splits)

lemma looks_open_root: "quiet k \<Longrightarrow> looks k (open_root r) (walk (kn_files k) (fst r) [snd r])"
  using looks_open_folder [of k "fst r" "snd r"]
  by (cases "sys_open_folder (fst r) (snd r) k") (auto simp: looks_def open_root_def split: sum.splits path_error.splits os_error.splits)

lemma walk_Cons: "walk fs d (p # ps) = Option.bind (walk fs d [p]) (\<lambda>i. walk fs i ps)"
  by (auto split: option.splits node.splits)

lemma walk_append: "walk fs d (ps @ qs) = Option.bind (walk fs d ps) (\<lambda>i. walk fs i qs)"
proof (induction ps arbitrary: d)
  case (Cons p ps)
  then show ?case by (auto split: option.splits node.splits)
qed simp

lemma looks_open_parent: "quiet k \<Longrightarrow> looks k (open_parent_nofollow fd ps) (walk (kn_files k) fd ps)"
proof (induction ps arbitrary: fd k)
  case (Cons p ps)
  show ?case unfolding open_parent_nofollow.simps walk_Cons [of _ fd p ps]
    by (rule looks_andthen [OF looks_open_folder [OF Cons.prems]]) (metis Cons.IH)
qed simp

text \<open>A regular file at the end of the parts.\<close>

definition regular_at :: "files \<Rightarrow> nat \<Rightarrow> string list \<Rightarrow> (nat \<times> int) option" where
  "regular_at fs fd ps = Option.bind (walk fs fd (butlast ps)) (\<lambda>d. Option.bind (entry fs d (last ps)) (\<lambda>i.
     case fl_nodes fs i of Some (Regular c m) \<Rightarrow> Some (i, m mod 512) | _ \<Rightarrow> None))"

lemma looks_open_regular: "quiet k \<Longrightarrow> looks k (open_regular fd ps) (regular_at (kn_files k) fd ps)"
proof -
  assume q: "quiet k"
  have inner: "looks k' (andthen (sys_open_read d n) (\<lambda>i. andthen (regular_mode i) (\<lambda>m. ret (i, m))))
      (Option.bind (entry (kn_files k) d n) (\<lambda>i. case fl_nodes (kn_files k) i of Some (Regular c m) \<Rightarrow> Some (i, m mod 512) | _ \<Rightarrow> None))"
    if "quiet k'" "kn_files k' = kn_files k" for d n k'
  proof -
    have mode: "looks l (andthen (regular_mode i) (\<lambda>m. ret (i, m))) (case fl_nodes (kn_files k) i of Some (Regular c m) \<Rightarrow> Some (i, m mod 512) | _ \<Rightarrow> None)"
      if "quiet l" "kn_files l = kn_files k" for i l
    proof -
      have "looks l (regular_mode i) (Option.bind (fl_nodes (kn_files l) i) (\<lambda>x. case x of Regular _ m \<Rightarrow> Some (m mod 512) | _ \<Rightarrow> None))"
        unfolding regular_mode_def by (rule looks_andthen [OF looks_fstat [OF that(1)]]) (auto split: node.splits)
      from looks_andthen [OF this, of "\<lambda>m. ret (i, m)" "\<lambda>m. Some (i, m)"] show ?thesis
        using that(2) by (auto split: option.splits node.splits)
    qed
    have eq: "Option.bind (entry (kn_files k) d n) (\<lambda>i. case fl_nodes (kn_files k) i of Some (Regular c m) \<Rightarrow> Some (i, m mod 512) | _ \<Rightarrow> None)
      = Option.bind (case entry_node (kn_files k') d n of Some (i, x) \<Rightarrow> (case x of Symlink _ \<Rightarrow> None | Socket \<Rightarrow> None | _ \<Rightarrow> Some i) | None \<Rightarrow> None)
          (\<lambda>i. case fl_nodes (kn_files k) i of Some (Regular c m) \<Rightarrow> Some (i, m mod 512) | _ \<Rightarrow> None)"
      using that(2) by (auto simp: entry_node_def split: option.splits node.splits)
    show ?thesis unfolding eq using that mode by (intro looks_andthen [OF looks_open_read]) auto
  qed
  show ?thesis unfolding open_regular_def regular_at_def
    by (rule looks_andthen [OF looks_open_parent [OF q]]) (rule inner)
qed

section \<open>Steps that write\<close>

lemma or_missing_Inr: "or_missing m h f k = (Inr y, k') \<longleftrightarrow>
    (\<exists>l. m k = (Inl (OSFailure NotFound), l) \<and> h l = (Inr y, k')) \<or> (\<exists>x l. m k = (Inr x, l) \<and> f x l = (Inr y, k'))"
  by (auto simp: or_missing_def split: prod.splits sum.splits path_error.splits os_error.splits)

lemma looksD: "looks k m v \<Longrightarrow> m k = (r, l) \<Longrightarrow> quiet l \<and> kn_files l = kn_files k \<and> (\<forall>x. r = Inr x \<longleftrightarrow> v = Some x)"
  by (simp add: looks_def)

lemma mkdir_quiet:
  assumes "quiet k" "tidy (kn_files k)" "sys_mkdir d n k = (Inr (), l)"
  shows "quiet l \<and> tidy (kn_files l) \<and> grows {} (kn_files k) (kn_files l)"
  using assms add_node_grows [OF assms(2), of d _ n "Folder []"]
  by (auto simp: sys_mkdir_def syscall_quiet split: option.splits node.splits)

lemma open_target_quiet:
  assumes "quiet k" "tidy (kn_files k)" "open_target_parents fd ps k = (Inr d, l)"
  shows "quiet l \<and> tidy (kn_files l) \<and> grows {} (kn_files k) (kn_files l) \<and> walk (kn_files l) fd ps = Some d"
  using assms
proof (induction ps arbitrary: fd k)
  case Nil
  then show ?case by (auto simp: ret_def)
next
  case (Cons p ps)
  from Cons.prems(3) obtain c m where
    step: "or_missing (sys_open_folder fd p) (andthen (sys_mkdir fd p) (\<lambda>_. sys_open_folder fd p)) ret k = (Inr c, m)"
    and rest: "open_target_parents c ps m = (Inr d, l)" by (auto simp: andthen_Inr)
  have c: "quiet m \<and> tidy (kn_files m) \<and> grows {} (kn_files k) (kn_files m) \<and> walk (kn_files m) fd [p] = Some c"
    using step unfolding or_missing_Inr andthen_Inr
  proof (elim disjE exE conjE)
    fix k1 u k2
    assume o1: "sys_open_folder fd p k = (Inl (OSFailure NotFound), k1)" and mk: "sys_mkdir fd p k1 = (Inr u, k2)"
      and o2: "sys_open_folder fd p k2 = (Inr c, m)"
    note l1 = looksD [OF looks_open_folder [OF Cons.prems(1)] o1]
    then have m2: "quiet k2 \<and> tidy (kn_files k2) \<and> grows {} (kn_files k1) (kn_files k2)" using mkdir_quiet [of k1 fd p k2] mk Cons.prems(2) by simp
    with looksD [OF looks_open_folder [OF conjunct1 [OF m2]] o2] l1 show ?thesis by auto
  next
    fix x k1 assume o1: "sys_open_folder fd p k = (Inr x, k1)" and r: "ret x k1 = (Inr c, m)"
    with looksD [OF looks_open_folder [OF Cons.prems(1)] o1] Cons.prems(2) show ?thesis by (auto simp: ret_def)
  qed
  from Cons.IH [OF _ _ rest] c have l: "quiet l" "tidy (kn_files l)" "grows {} (kn_files m) (kn_files l)" "walk (kn_files l) c ps = Some d" by auto
  moreover have "walk (kn_files l) fd [p] = Some c" using c walk_grows [OF l(3), of fd "[p]"] by simp
  ultimately show ?case using c grows_trans [of "{}" _ _ "{}"] walk_Cons [of _ fd p ps] by force
qed

lemma open_or_make_quiet:
  assumes "quiet k" "tidy (kn_files k)" "open_or_make_root r k = (Inr d, l)"
  shows "quiet l \<and> tidy (kn_files l) \<and> grows {} (kn_files k) (kn_files l) \<and> walk (kn_files l) (fst r) [snd r] = Some d"
  using assms(3) unfolding open_or_make_root_def or_missing_Inr andthen_Inr
proof (elim disjE exE conjE)
  fix k1 u k2
  assume o1: "open_root r k = (Inl (OSFailure NotFound), k1)" and mk: "sys_mkdir (fst r) (snd r) k1 = (Inr u, k2)" and o2: "open_root r k2 = (Inr d, l)"
  note l1 = looksD [OF looks_open_root [OF assms(1)] o1]
  then have m2: "quiet k2 \<and> tidy (kn_files k2) \<and> grows {} (kn_files k1) (kn_files k2)" using mkdir_quiet [of k1 "fst r" "snd r" k2] mk assms(2) by simp
  with looksD [OF looks_open_root [OF conjunct1 [OF m2]] o2] l1 show ?thesis by auto
next
  fix x k1 assume o1: "open_root r k = (Inr x, k1)" and ret: "ret x k1 = (Inr d, l)"
  with looksD [OF looks_open_root [OF assms(1)] o1] assms(2) show ?thesis by (auto simp: ret_def)
qed

lemma open_write_quiet:
  assumes "quiet k" "tidy (kn_files k)" "sys_open_write d n md k = (Inr j, l)"
  shows "quiet l \<and> tidy (kn_files l) \<and> grows {j} (kn_files k) (kn_files l) \<and> entry (kn_files l) d n = Some j
     \<and> (\<exists>m. fl_nodes (kn_files l) j = Some (Regular [] m)) \<and> (entry (kn_files k) d n = Some j \<or> entry (kn_files k) d n = None \<and> j = fl_next (kn_files k))"
proof (cases "entry (kn_files k) d n")
  case None
  with assms(3) obtain es where es: "fl_nodes (kn_files k) d = Some (Folder es)" "j = fl_next (kn_files k)"
    "l = k\<lparr>kn_clock := Suc (kn_clock k), kn_files := add_node d n (Regular [] md) (kn_files k)\<rparr>"
    by (auto simp: sys_open_write_def syscall_quiet [OF assms(1)] split: option.splits node.splits)
  have "grows {} fs gs \<Longrightarrow> grows {j} fs gs" for fs gs unfolding grows_def by blast
  with add_node_grows [OF assms(2) es(1) None, of "Regular [] md"] es assms(1) None show ?thesis by auto
next
  case (Some i)
  with assms(3) obtain c m where i: "j = i" "fl_nodes (kn_files k) i = Some (Regular c m)"
    "l = k\<lparr>kn_clock := Suc (kn_clock k), kn_files := set_node i (Regular [] m) (kn_files k)\<rparr>"
    by (auto simp: sys_open_write_def syscall_quiet [OF assms(1)] split: option.splits node.splits)
  with set_regular_grows [OF i(2)] tidy_set [OF assms(2) i(2)] entry_set_regular [OF i(2)] assms(1) Some show ?thesis by auto
qed

lemma concat_chunks: "0 < n \<Longrightarrow> concat (chunks n xs) = xs"
  by (induction n xs rule: chunks.induct) (subst chunks.simps, auto)

lemma write_chunks_quiet:
  assumes "quiet k" "fl_nodes (kn_files k) j = Some (Regular c m)" "write_chunks j cs k = (Inr (), l)"
  shows "quiet l \<and> kn_files l = (if cs = [] then kn_files k else set_node j (Regular (c @ concat cs) m) (kn_files k))"
  using assms
proof (induction cs arbitrary: k c)
  case (Cons b cs)
  have w: "sys_write j b k = (Inr (), k\<lparr>kn_clock := Suc (kn_clock k), kn_files := set_node j (Regular (c @ b) m) (kn_files k)\<rparr>)"
    using Cons.prems(2) by (simp add: sys_write_quiet [OF Cons.prems(1)] syscall_quiet [OF Cons.prems(1)] write_call_def)
  have twice: "set_node j y (set_node j x fs) = set_node j y fs" for x y fs by (simp add: set_node_def)
  let ?k = "k\<lparr>kn_clock := Suc (kn_clock k), kn_files := set_node j (Regular (c @ b) m) (kn_files k)\<rparr>"
  have "write_chunks j cs ?k = (Inr (), l)" using Cons.prems(3) w by (simp add: andthen_Inr)
  from Cons.IH [OF _ _ this, of "c @ b"] Cons.prems(1) show ?case by (auto simp: twice)
qed (auto simp: ret_def)

section \<open>The copy\<close>

lemma parts_quiet: "relative_parts rel k = (Inr ps, l) \<Longrightarrow> l = k \<and> ps = path_parts rel"
  by (auto simp: relative_parts_def ret_def raising_def split: if_splits)

lemma fchmod_quiet:
  assumes "quiet k" "fl_nodes (kn_files k) j = Some (Regular c m)" "sys_fchmod j md k = (Inr u, l)"
  shows "l = k\<lparr>kn_clock := Suc (kn_clock k), kn_files := set_node j (Regular c md) (kn_files k)\<rparr>"
  using assms by (simp add: sys_fchmod_def syscall_quiet)

text \<open>What is read of a regular file that is found.\<close>

lemma hash_quiet:
  assumes "quiet k" "fst (relative_parts rel k) = Inr (path_parts rel)" "walk (kn_files k) (fst r) [snd r] = Some d"
    and "walk (kn_files k) d (butlast (path_parts rel)) = Some e" "entry (kn_files k) e (last (path_parts rel)) = Some j"
    and "fl_nodes (kn_files k) j = Some (Regular c m)"
  shows "fst (hash_regular_nofollow digest r rel k) = Inr (digest c)"
proof -
  have parts: "looks k (relative_parts rel) (Some (path_parts rel))"
  proof -
    have "relative_parts rel = ret (path_parts rel)" using assms(2) by (simp add: relative_parts_def raising_def split: if_splits)
    then show ?thesis by (simp add: assms(1))
  qed
  have at: "regular_at (kn_files k) d (path_parts rel) = Some (j, m mod 512)" using assms(4-6) by (simp add: regular_at_def)
  have inner: "looks l (andthen (sys_read (fst p)) (\<lambda>c. ret (digest c))) (case fl_nodes (kn_files k) (fst p) of Some (Regular c m) \<Rightarrow> Some (digest c) | _ \<Rightarrow> None)"
    if "quiet l" "kn_files l = kn_files k" for p :: "nat \<times> int" and l
    using looks_andthen [OF looks_read [OF that(1), of "fst p"], of "\<lambda>c. ret (digest c)" "\<lambda>c. Some (digest c)"] that(2)
    by (auto split: option.splits node.splits)
  have "looks k (hash_regular_nofollow digest r rel) (Option.bind (Some (path_parts rel)) (\<lambda>ps. Option.bind (walk (kn_files k) (fst r) [snd r]) (\<lambda>fd.
      Option.bind (regular_at (kn_files k) fd ps) (\<lambda>p. case fl_nodes (kn_files k) (fst p) of Some (Regular c m) \<Rightarrow> Some (digest c) | _ \<Rightarrow> None))))"
    unfolding hash_regular_nofollow_def case_prod_beta
  proof (intro looks_andthen [OF parts])
    fix ps k1 assume k1: "quiet k1" "kn_files k1 = kn_files k"
    show "looks k1 (andthen (open_root r) (\<lambda>fd. andthen (open_regular fd ps) (\<lambda>p. andthen (sys_read (fst p)) (\<lambda>c. ret (digest c)))))
      (Option.bind (walk (kn_files k) (fst r) [snd r]) (\<lambda>fd. Option.bind (regular_at (kn_files k) fd ps)
        (\<lambda>p. case fl_nodes (kn_files k) (fst p) of Some (Regular c m) \<Rightarrow> Some (digest c) | _ \<Rightarrow> None)))"
    proof (rule looks_andthen)
      show "looks k1 (open_root r) (walk (kn_files k) (fst r) [snd r])" using looks_open_root [OF k1(1)] k1(2) by simp
    next
      fix fd k2 assume k2: "quiet k2" "kn_files k2 = kn_files k1"
      show "looks k2 (andthen (open_regular fd ps) (\<lambda>p. andthen (sys_read (fst p)) (\<lambda>c. ret (digest c))))
        (Option.bind (regular_at (kn_files k) fd ps) (\<lambda>p. case fl_nodes (kn_files k) (fst p) of Some (Regular c m) \<Rightarrow> Some (digest c) | _ \<Rightarrow> None))"
        using looks_open_regular [OF k2(1), of fd ps] k1(2) k2 by (intro looks_andthen inner) simp_all
    qed
  qed
  then have "looks k (hash_regular_nofollow digest r rel) (Some (digest c))"
    by (simp only: assms(3,6) at Option.bind.simps fst_conv option.case node.case)
  then show ?thesis unfolding looks_def by blast
qed

lemma located_step:
  "walk fs (fst r) [snd r] = Some d \<Longrightarrow> located fs r rel = Option.bind (walk fs d (butlast (path_parts rel))) (\<lambda>e. entry fs e (last (path_parts rel)))"
  using walk_Cons [of fs "fst r" "snd r" "butlast (path_parts rel)"]
  unfolding located_def by (auto split: option.splits simp del: walk.simps)

text \<open>
  C27. A copy is faithful: without interference and failures, a copy that returns has made the
  target a regular file with the bytes of the source and the mode asked for (that of the source
  by default), the digest of the target is the one of the source, and no other regular file
  has changed.
\<close>

theorem copy_exact:
  assumes "quiet k" "tidy (kn_files k)" "copy_regular_nofollow r rel r' rel' md k = (Inr (), l)"
    and "located (kn_files k) r rel = Some i" "fl_nodes (kn_files k) i = Some (Regular c m)"
    and "located (kn_files l) r' rel' \<noteq> Some i"
  shows "\<exists>j. located (kn_files l) r' rel' = Some j
     \<and> fl_nodes (kn_files l) j = Some (Regular c (case md of None \<Rightarrow> m mod 512 | Some x \<Rightarrow> x))
     \<and> fst (hash_regular_nofollow digest r' rel' l) = Inr (digest c) \<and> grows {j} (kn_files k) (kn_files l)"
proof -
  let ?ps = "path_parts rel" and ?qs = "path_parts rel'"
  from assms(3) obtain sps k1 tps k2 sfd k3 tfd k4 i' m' k5 parent k6 j k7 u k8 where
    s: "relative_parts rel k = (Inr sps, k1)" "relative_parts rel' k1 = (Inr tps, k2)" "open_root r k2 = (Inr sfd, k3)"
      "open_or_make_root r' k3 = (Inr tfd, k4)" "open_regular sfd sps k4 = (Inr (i', m'), k5)" "open_target_parents tfd (butlast tps) k5 = (Inr parent, k6)"
      "sys_open_write parent (last tps) (case md of None \<Rightarrow> m' | Some x \<Rightarrow> x) k6 = (Inr j, k7)"
      "sys_fchmod j (case md of None \<Rightarrow> m' | Some x \<Rightarrow> x) k7 = (Inr u, k8)" "copy_fd_bytes i' j k8 = (Inr (), l)"
    unfolding copy_regular_nofollow_def Let_def andthen_Inr by (auto simp: andthen_Inr split: prod.splits)
  have p: "k1 = k" "k2 = k" "sps = ?ps" "tps = ?qs" using parts_quiet [OF s(1)] parts_quiet [OF s(2)] by auto
  note l3 = looksD [OF looks_open_root [OF assms(1)] s(3) [unfolded p]]
  then have w3: "quiet k3" "kn_files k3 = kn_files k" "walk (kn_files k) (fst r) [snd r] = Some sfd" by auto
  have w4: "quiet k4" "tidy (kn_files k4)" "grows {} (kn_files k) (kn_files k4)" "walk (kn_files k4) (fst r') [snd r'] = Some tfd"
    using open_or_make_quiet [OF w3(1) _ s(4)] assms(2) w3(2) by auto
  have w5: "quiet k5" "kn_files k5 = kn_files k4" "regular_at (kn_files k4) sfd ?ps = Some (i', m')"
    using looksD [OF looks_open_regular [OF w4(1)] s(5)] p by auto
  have w6: "quiet k6" "tidy (kn_files k6)" "grows {} (kn_files k4) (kn_files k6)" "walk (kn_files k6) tfd (butlast ?qs) = Some parent"
    using open_target_quiet [OF w5(1) _ s(6)] w4(2) w5(2) p by auto
  have w7: "quiet k7" "tidy (kn_files k7)" "grows {j} (kn_files k6) (kn_files k7)" "entry (kn_files k7) parent (last ?qs) = Some j"
    using open_write_quiet [OF w6(1,2) s(7)] p by auto
  obtain m7 where m7: "fl_nodes (kn_files k7) j = Some (Regular [] m7)" using open_write_quiet [OF w6(1,2) s(7)] by auto
  from assms(4) obtain d where d: "walk (kn_files k) sfd (butlast ?ps) = Some d" "entry (kn_files k) d (last ?ps) = Some i"
    unfolding located_step [OF w3(3)] by (cases "walk (kn_files k) sfd (butlast ?ps)") auto
  then have "regular_at (kn_files k4) sfd ?ps = Some (i, m mod 512)"
    using walk_grows [OF w4(3)] w4(3) assms(5) unfolding regular_at_def grows_def by simp
  then have im: "i' = i" "m' = m mod 512" using w5(3) by auto
  let ?md = "case md of None \<Rightarrow> m mod 512 | Some x \<Rightarrow> x"
  have k8: "quiet k8" "kn_files k8 = set_node j (Regular [] ?md) (kn_files k7)"
    using fchmod_quiet [OF w7(1) m7 s(8)] w7(1) im by (auto cong: option.case_cong)
  have g7: "grows {j} (kn_files k) (kn_files k7)"
    using grows_trans [OF w4(3) grows_trans [OF w6(3) w7(3)]] by simp
  have g8: "grows {j} (kn_files k) (kn_files k8)"
    using grows_trans [OF g7 set_regular_grows [OF m7]] k8(2) by simp
  obtain b k9 where b: "sys_read i k8 = (Inr b, k9)" "write_chunks j (chunks BLOCK_SIZE b) k9 = (Inr (), l)"
    using s(9) im unfolding copy_fd_bytes_def andthen_Inr by auto
  note l9 = looksD [OF looks_read [OF k8(1)] b(1)]
  have j8: "fl_nodes (kn_files k9) j = Some (Regular [] ?md)" using l9 k8(2) by simp
  have "kn_files l = (if chunks BLOCK_SIZE b = [] then kn_files k8 else set_node j (Regular (concat (chunks BLOCK_SIZE b)) ?md) (kn_files k8))" "quiet l"
    using write_chunks_quiet [OF _ j8 b(2)] l9 by auto
  moreover have "concat (chunks BLOCK_SIZE b) = b" by (rule concat_chunks) (simp add: BLOCK_SIZE_def)
  ultimately have fl: "kn_files l = set_node j (Regular b ?md) (kn_files k7)" "quiet l"
    using k8(2) by (auto simp: set_node_def)
  have gl: "grows {j} (kn_files k) (kn_files l)" using grows_trans [OF g7 set_regular_grows [OF m7]] fl(1) by simp
  have wl: "walk (kn_files l) (fst r') [snd r'] = Some tfd" "walk (kn_files l) tfd (butlast ?qs) = Some parent" "entry (kn_files l) parent (last ?qs) = Some j"
  proof -
    have g6: "grows {j} (kn_files k6) (kn_files l)" using grows_trans [OF w7(3) set_regular_grows [OF m7]] fl(1) by simp
    show "walk (kn_files l) (fst r') [snd r'] = Some tfd" using walk_grows [OF grows_trans [OF w6(3) g6] w4(4)] .
    show "walk (kn_files l) tfd (butlast ?qs) = Some parent" using walk_grows [OF g6 w6(4)] .
    show "entry (kn_files l) parent (last ?qs) = Some j" using w7(4) entry_set_regular [OF m7] fl(1) by simp
  qed
  have loc: "located (kn_files l) r' rel' = Some j" unfolding located_step [OF wl(1)] using wl(2,3) by simp
  with assms(6) have "i \<noteq> j" by simp
  then have "fl_nodes (kn_files k8) i = Some (Regular c m)" using g8 assms(5) unfolding grows_def by blast
  with l9 have bc: "b = c" by auto
  have "fst (relative_parts rel' l) = Inr ?qs" using s(2) p by (auto simp: relative_parts_def ret_def raising_def split: if_splits)
  with hash_quiet [OF fl(2) _ wl, of "c" ?md digest] fl(1) bc have "fst (hash_regular_nofollow digest r' rel' l) = Inr (digest c)" by simp
  with loc gl fl(1) bc show ?thesis by auto
qed

text \<open>A copy into a root and a folder that do not exist yet.\<close>

definition calm :: kern where
  "calm = attacked\<lparr>kn_env := (\<lambda>_ fs. fs)\<rparr>"

lemma short_chunks: "xs \<noteq> [] \<Longrightarrow> length xs \<le> n \<Longrightarrow> chunks n xs = [xs]"
  by (subst chunks.simps) (cases xs, auto simp: chunks.simps [of n "[]"])

lemmas run_simps = copy_regular_nofollow_def relative_parts_def is_absolute_def path_parts_def path_root_def startswith_def open_root_def open_or_make_root_def
  open_regular_def regular_mode_def andthen_def or_missing_def ret_def syscall_def sys_open_folder_def sys_open_read_def sys_open_write_def sys_mkdir_def
  sys_fstat_def sys_lstat_def sys_fchmod_def sys_read_def sys_write_def write_call_def sys_unlink_def entry_node_def entry_def dict_get_def dict_set_def
  attacked_def swap_env_def set_node_def add_node_def set_entries_def remove_entry_def copy_fd_bytes_def BLOCK_SIZE_def short_chunks Let_def

lemma calm_copy: "\<exists>l. copy_regular_nofollow (0, ''repo'') ''a'' (0, ''new'') ''d/b'' None calm = (Inr (), l)
    \<and> located (kn_files l) (0, ''new'') ''d/b'' = Some 12"
  by (simp add: calm_def run_simps located_def)

theorem copy_exact_witness:
  "\<exists>l. copy_regular_nofollow (0, ''repo'') ''a'' (0, ''new'') ''d/b'' None calm = (Inr (), l)
     \<and> fst (hash_regular_nofollow id (0, ''new'') ''d/b'' l) = Inr ''ok''"
proof -
  obtain l where l: "copy_regular_nofollow (0, ''repo'') ''a'' (0, ''new'') ''d/b'' None calm = (Inr (), l)"
    "located (kn_files l) (0, ''new'') ''d/b'' = Some 12" using calm_copy by blast
  have q: "quiet calm" "tidy (kn_files calm)" by (auto simp: calm_def attacked_def quiet_def tidy_def)
  have s: "located (kn_files calm) (0, ''repo'') ''a'' = Some 3" by (simp add: calm_def located_def run_simps)
  have n: "fl_nodes (kn_files calm) 3 = Some (Regular ''ok'' 420)" by (simp add: calm_def attacked_def)
  from copy_exact [OF q l(1) s n, of id] l show ?thesis by auto
qed

section \<open>Races and failures that pass unnoticed\<close>

text \<open>Between the look at an entry and its removal it may become a link, and the link is removed.\<close>

theorem swapped_link_unlinked:
  "fst (unlink_regular_nofollow (0, ''repo'') ''a'' attacked) = Inr True
   \<and> entry_node (swap_env 2 (kn_files attacked)) 1 ''a'' = Some (4, Symlink ''/secret'')"
  by (simp add: unlink_regular_nofollow_def run_simps)

text \<open>A write that takes fewer bytes than it was given leaves a shorter file, and the copy returns.\<close>

theorem short_write_unnoticed:
  "\<exists>l j. copy_regular_nofollow (0, ''repo'') ''a'' (0, ''stage'') ''b'' None (calm\<lparr>kn_accepts := \<lambda>_ n. n - 1\<rparr>) = (Inr (), l)
     \<and> located (kn_files l) (0, ''stage'') ''b'' = Some j \<and> fl_nodes (kn_files l) j = Some (Regular ''o'' 420)"
  by (simp add: calm_def run_simps located_def)

text \<open>The target is opened without \<open>O_NONBLOCK\<close>: a pipe in its place blocks the copy for ever.\<close>

theorem pipe_blocks_copy:
  "fst (copy_regular_nofollow (0, ''repo'') ''a'' (0, ''stage'') ''b'' None
     (calm\<lparr>kn_files := set_node 2 (Folder [(''b'', 5)]) (set_node 5 Pipe (kn_files calm))\<rparr>)) = Inl NeverReturns"
  by (simp add: calm_def run_simps)

end
