(* ===== verification/Candidate.thy ===== *)
theory Candidate
  imports Attempts Paths
begin

text \<open>
  \<open>runtime/candidate.py\<close>: the sealed snapshot of a submitted workspace.  The manifest of a folder
  lists its deliverable files; a candidate is the difference of two manifests.  What touches the
  disk (the walk over the files, the copy, the writes) is a record of operations on a world
  \<open>'w\<close>, which other processes may change while an operation runs.
\<close>

section \<open>Paths\<close>

text \<open>\<open>Path(text).as_posix()\<close> and \<open>.name\<close>.\<close>

definition path_of_parts :: "string list \<Rightarrow> string" where
  "path_of_parts ps = (case ps of [] \<Rightarrow> ''.'' | p # rest \<Rightarrow>
     if p = ''/'' \<or> p = ''//'' then p @ join ''/'' rest else join ''/'' ps)"

definition as_posix :: "string \<Rightarrow> string" where
  "as_posix s = path_of_parts (path_parts s)"

definition path_name :: "string \<Rightarrow> string" where
  "path_name s = (let ps = filter (\<lambda>p. p \<noteq> [] \<and> p \<noteq> ''.'') (split_char (CHR ''/'') s) in if ps = [] then [] else last ps)"

section \<open>Manifests\<close>

record manifest_entry =
  me_path :: string
  me_sha256 :: string
  me_size :: int
  me_mode :: "int option"

record baseline_manifest =
  mf_entries :: "manifest_entry list"
  mf_sha256 :: string

definition opt_int :: "int option \<Rightarrow> json" where
  "opt_int v = (case v of None \<Rightarrow> JNull | Some i \<Rightarrow> JInt i)"

definition entry_dict :: "manifest_entry \<Rightarrow> json" where
  "entry_dict e = JObj (fmap_of_list [(''path'', JStr (me_path e)), (''sha256'', JStr (me_sha256 e)), (''size'', JInt (me_size e)), (''mode'', opt_int (me_mode e))])"

definition BASELINE_MANIFEST_SCHEMA :: string where
  "BASELINE_MANIFEST_SCHEMA = ''tulid.baseline-manifest/v1''"

definition manifest_of :: "(json \<Rightarrow> string) \<Rightarrow> manifest_entry list \<Rightarrow> baseline_manifest" where
  "manifest_of canonical es = (let ordered = sort_key me_path es
     in \<lparr>mf_entries = ordered, mf_sha256 = canonical (JObj (fmap_of_list
          [(''schema'', JStr BASELINE_MANIFEST_SCHEMA), (''entries'', JList (map entry_dict ordered))]))\<rparr>)"

section \<open>Changes\<close>

record candidate_change =
  cc_kind :: string
  cc_path :: string
  cc_before_sha256 :: "string option"
  cc_after_sha256 :: "string option"
  cc_before_mode :: "int option"
  cc_after_mode :: "int option"

definition KIND_ADD :: string where "KIND_ADD = ''add''"
definition KIND_EDIT :: string where "KIND_EDIT = ''edit''"
definition KIND_DELETE :: string where "KIND_DELETE = ''delete''"

lemmas kind_defs = KIND_ADD_def KIND_EDIT_def KIND_DELETE_def

definition change_dict :: "candidate_change \<Rightarrow> json" where
  "change_dict c = JObj (fmap_of_list [(''kind'', JStr (cc_kind c)), (''path'', JStr (cc_path c)), (''before_sha256'', opt_json (cc_before_sha256 c)),
     (''after_sha256'', opt_json (cc_after_sha256 c)), (''before_mode'', opt_int (cc_before_mode c)), (''after_mode'', opt_int (cc_after_mode c))])"

text \<open>\<open>{entry.path: entry ...}\<close>: a later entry of the same path wins.\<close>

definition entry_map :: "manifest_entry list \<Rightarrow> string \<Rightarrow> manifest_entry option" where
  "entry_map es = map_of (rev (map (\<lambda>e. (me_path e, e)) es))"

definition sorted_paths :: "string list \<Rightarrow> string list" where
  "sorted_paths ps = sort (remdups ps)"

definition entry_changed :: "manifest_entry \<Rightarrow> manifest_entry \<Rightarrow> bool" where
  "entry_changed b a \<longleftrightarrow> me_sha256 b \<noteq> me_sha256 a \<or> (me_mode b \<noteq> None \<and> me_mode b \<noteq> me_mode a)"

definition added :: "manifest_entry \<Rightarrow> candidate_change" where
  "added e = \<lparr>cc_kind = KIND_ADD, cc_path = me_path e, cc_before_sha256 = None, cc_after_sha256 = Some (me_sha256 e), cc_before_mode = None, cc_after_mode = me_mode e\<rparr>"

definition deleted :: "manifest_entry \<Rightarrow> candidate_change" where
  "deleted e = \<lparr>cc_kind = KIND_DELETE, cc_path = me_path e, cc_before_sha256 = Some (me_sha256 e), cc_after_sha256 = None, cc_before_mode = me_mode e, cc_after_mode = None\<rparr>"

definition edited :: "manifest_entry \<Rightarrow> manifest_entry \<Rightarrow> candidate_change" where
  "edited b a = \<lparr>cc_kind = KIND_EDIT, cc_path = me_path a, cc_before_sha256 = Some (me_sha256 b), cc_after_sha256 = Some (me_sha256 a),
     cc_before_mode = me_mode b, cc_after_mode = me_mode a\<rparr>"

definition compute_delta :: "baseline_manifest option \<Rightarrow> baseline_manifest \<Rightarrow> candidate_change list" where
  "compute_delta baseline candidate =
     (let bs = (case baseline of None \<Rightarrow> [] | Some m \<Rightarrow> mf_entries m); as = mf_entries candidate;
          before = entry_map bs; after = entry_map as;
          bp = sorted_paths (map me_path bs); ap = sorted_paths (map me_path as)
      in map (\<lambda>p. added (the (after p))) (filter (\<lambda>p. before p = None) ap)
       @ map (\<lambda>p. deleted (the (before p))) (filter (\<lambda>p. after p = None) bp)
       @ map (\<lambda>p. edited (the (before p)) (the (after p)))
           (filter (\<lambda>p. before p \<noteq> None \<and> entry_changed (the (before p)) (the (after p))) ap))"

definition discrepancy_note :: "string list \<Rightarrow> string list \<Rightarrow> string option" where
  "discrepancy_note submitted delta =
     (if set submitted = set delta then None
      else let missing = sorted_paths (filter (\<lambda>p. p \<notin> set submitted) delta); extra = sorted_paths (filter (\<lambda>p. p \<notin> set delta) submitted);
               parts = (if missing \<noteq> [] then [''missing from the submitted list: '' @ join '', '' missing] else [])
                     @ (if extra \<noteq> [] then [''submitted but not changed: '' @ join '', '' extra] else [])
           in Some (''Submitted changed-file list differs from the authoritative candidate delta ('' @ join ''; '' parts @ '').''))"

section \<open>Candidates\<close>

record candidate =
  ca_id :: string
  ca_baseline_sha256 :: "string option"
  ca_manifest_sha256 :: string
  ca_storage_path :: string
  ca_changes :: "candidate_change list"
  ca_submitted :: "string list"
  ca_discrepancy :: "string option"
  ca_selection :: json
  ca_selection_sha256 :: string
  ca_sha256 :: string

definition CANDIDATE_SCHEMA :: string where
  "CANDIDATE_SCHEMA = ''tulid.candidate/v1''"

definition candidate_body :: "candidate \<Rightarrow> json" where
  "candidate_body c = JObj (fmap_of_list [(''schema'', JStr CANDIDATE_SCHEMA), (''candidate_id'', JStr (ca_id c)), (''baseline_sha256'', opt_json (ca_baseline_sha256 c)),
     (''manifest_sha256'', JStr (ca_manifest_sha256 c)), (''changes'', JList (map change_dict (ca_changes c))),
     (''submitted_changed_files'', JList (map JStr (ca_submitted c))), (''submitted_discrepancy'', opt_json (ca_discrepancy c)),
     (''source_selection_sha256'', JStr (ca_selection_sha256 c))])"

definition candidate_dict :: "candidate \<Rightarrow> meta" where
  "candidate_dict c = fmap_of_list [(''schema'', JStr CANDIDATE_SCHEMA), (''candidate_id'', JStr (ca_id c)), (''baseline_sha256'', opt_json (ca_baseline_sha256 c)),
     (''manifest_sha256'', JStr (ca_manifest_sha256 c)), (''storage_path'', JStr (ca_storage_path c)), (''changes'', JList (map change_dict (ca_changes c))),
     (''submitted_changed_files'', JList (map JStr (ca_submitted c))), (''submitted_discrepancy'', opt_json (ca_discrepancy c)),
     (''source_selection'', ca_selection c), (''source_selection_sha256'', JStr (ca_selection_sha256 c)), (''sha256'', JStr (ca_sha256 c))]"

text \<open>A walk gives the files of a folder in its order, or fails; a folder is made only if it is
  not there; the copy and the write of the record may fail.\<close>

record 'w capture_ports =
  cap_canonical :: "json \<Rightarrow> string"
  cap_discover :: "string \<Rightarrow> 'w \<Rightarrow> json"
  cap_refresh :: "json \<Rightarrow> string \<Rightarrow> 'w \<Rightarrow> json"
  cap_selection_sha256 :: "json \<Rightarrow> string"
  cap_walk :: "string \<Rightarrow> json \<Rightarrow> 'w \<Rightarrow> manifest_entry list option \<times> 'w"
  cap_make :: "string \<Rightarrow> string \<Rightarrow> 'w \<Rightarrow> bool \<times> 'w"
  cap_copy :: "string \<Rightarrow> string \<Rightarrow> json \<Rightarrow> 'w \<Rightarrow> bool \<times> 'w"
  cap_write :: "string \<Rightarrow> json \<Rightarrow> 'w \<Rightarrow> bool \<times> 'w"

type_synonym capture_result = "domain_error list + candidate \<times> baseline_manifest"

definition capture_manifest :: "'w capture_ports \<Rightarrow> string \<Rightarrow> json \<Rightarrow> 'w \<Rightarrow> baseline_manifest option \<times> 'w" where
  "capture_manifest cp root sel w = (case cap_walk cp root sel w of (es, w') \<Rightarrow> (map_option (manifest_of (cap_canonical cp)) es, w'))"

definition capture_failed :: "msg \<Rightarrow> string \<Rightarrow> pyexc + capture_result" where
  "capture_failed m loc = Inr (Inl [derror ''candidate.capture_failed'' m (Some loc)])"

definition capture_unstable :: "string \<Rightarrow> string \<Rightarrow> pyexc + capture_result" where
  "capture_unstable doing loc = Inr (Inl [derror ''candidate.unstable''
     [Txt (''The workspace changed while the candidate '' @ doing @ ''. Retry the submission; the workspace is preserved.'')] (Some loc)])"

definition seal_candidate :: "'w capture_ports \<Rightarrow> string \<Rightarrow> string \<Rightarrow> baseline_manifest option \<Rightarrow> string list \<Rightarrow> json \<Rightarrow> baseline_manifest \<Rightarrow> candidate" where
  "seal_candidate cp storage cid baseline submitted sel post =
     (let changes = compute_delta baseline post; given = sorted_paths (map as_posix submitted);
          c = \<lparr>ca_id = cid, ca_baseline_sha256 = map_option mf_sha256 baseline, ca_manifest_sha256 = mf_sha256 post, ca_storage_path = storage,
               ca_changes = changes, ca_submitted = given, ca_discrepancy = discrepancy_note given (map cc_path changes),
               ca_selection = sel, ca_selection_sha256 = cap_selection_sha256 cp sel, ca_sha256 = []\<rparr>
      in c\<lparr>ca_sha256 := cap_canonical cp (candidate_body c)\<rparr>)"

text \<open>The record is written, and the workspace is scanned once more.  A failing last scan raises.\<close>

definition confirm_seal :: "'w capture_ports \<Rightarrow> string \<Rightarrow> string \<Rightarrow> json \<Rightarrow> candidate \<Rightarrow> baseline_manifest \<Rightarrow> 'w \<Rightarrow> (pyexc + capture_result) \<times> 'w" where
  "confirm_seal cp workspace storage_root sel c post w =
     (case cap_write cp (storage_root @ ''/'' @ ca_id c @ ''.candidate.json'') (JObj (candidate_dict c)) w of
        (False, w) \<Rightarrow> (capture_failed [Txt ''Cannot persist the sealed candidate record.''] storage_root, w)
      | (True, w) \<Rightarrow> (case capture_manifest cp workspace sel w of
            (None, w) \<Rightarrow> (Inl OSErr, w)
          | (Some again, w) \<Rightarrow> (if mf_sha256 again \<noteq> mf_sha256 post then capture_unstable ''was being sealed'' workspace
                else Inr (Inr (c, post)), w)))"

text \<open>Between the two scans of the workspace lies the copy; the stored files are scanned last.\<close>

definition compare_scans :: "'w capture_ports \<Rightarrow> string \<Rightarrow> string \<Rightarrow> string \<Rightarrow> baseline_manifest option \<Rightarrow> string list \<Rightarrow> json \<Rightarrow> baseline_manifest
    \<Rightarrow> 'w \<Rightarrow> (pyexc + capture_result) \<times> 'w" where
  "compare_scans cp workspace storage_root cid baseline submitted sel pre w =
     (let storage = storage_root @ ''/'' @ cid; unscanned = capture_failed [Txt ''Cannot re-scan the captured candidate: '', ExcText] storage
      in case capture_manifest cp workspace sel w of
          (None, w) \<Rightarrow> (unscanned, w)
        | (Some post, w) \<Rightarrow> (case capture_manifest cp storage sel w of
            (None, w) \<Rightarrow> (unscanned, w)
          | (Some stored, w) \<Rightarrow>
              if mf_sha256 post \<noteq> mf_sha256 pre then (capture_unstable ''snapshot was being captured'' workspace, w)
              else if mf_sha256 stored \<noteq> mf_sha256 post
              then (capture_failed [Txt ''The stored candidate snapshot does not match the workspace. Retry the submission; the workspace is preserved.''] storage, w)
              else confirm_seal cp workspace storage_root sel (seal_candidate cp storage cid baseline submitted sel post) post w))"

definition capture_candidate :: "'w capture_ports \<Rightarrow> string \<Rightarrow> string \<Rightarrow> string \<Rightarrow> baseline_manifest option \<Rightarrow> string list \<Rightarrow> json option
    \<Rightarrow> 'w \<Rightarrow> (pyexc + capture_result) \<times> 'w" where
  "capture_candidate cp workspace storage_root cid baseline submitted selection w =
     (if cid = [] \<or> cid = ''.'' \<or> cid = ''..'' \<or> path_name cid \<noteq> cid
      then (Inr (Inl [derror ''candidate.invalid_identity'' [Txt ''Candidate identity must be a single path component.''] None]), w)
      else let sel = (case selection of None \<Rightarrow> cap_discover cp workspace w | Some s \<Rightarrow> cap_refresh cp s workspace w);
               storage = storage_root @ ''/'' @ cid; uncopied = capture_failed [Txt ''Cannot copy the candidate snapshot: '', ExcText] storage
           in case capture_manifest cp workspace sel w of
               (None, w) \<Rightarrow> (capture_failed [Txt ''Cannot scan the workspace for candidate capture: '', ExcText] workspace, w)
             | (Some pre, w) \<Rightarrow> (case cap_make cp storage_root storage w of
                   (False, w) \<Rightarrow> (uncopied, w)
                 | (True, w) \<Rightarrow> (case cap_copy cp workspace storage sel w of
                       (False, w) \<Rightarrow> (uncopied, w)
                     | (True, w) \<Rightarrow> compare_scans cp workspace storage_root cid baseline submitted sel pre w)))"

end
