(* ===== verification/CandidateFacts.thy ===== *)
theory CandidateFacts
  imports Candidate
begin

text \<open>
  What a sealed candidate stands for: its changes turn the baseline into the captured files, and
  the stored copy was scanned with the digest the workspace had before and after the copy.
\<close>

section \<open>Changes\<close>

type_synonym surface = "string \<Rightarrow> (string \<times> int option) option"

definition surface_of :: "manifest_entry list \<Rightarrow> surface" where
  "surface_of es p = map_option (\<lambda>e. (me_sha256 e, me_mode e)) (entry_map es p)"

definition change_target :: "candidate_change \<Rightarrow> (string \<times> int option) option" where
  "change_target c = (if cc_kind c = KIND_DELETE then None else map_option (\<lambda>s. (s, cc_after_mode c)) (cc_after_sha256 c))"

definition apply_delta :: "candidate_change list \<Rightarrow> surface \<Rightarrow> surface" where
  "apply_delta cs s = foldl (\<lambda>s c. s(cc_path c := change_target c)) s cs"

lemma entry_map_path: "entry_map es p = Some e \<Longrightarrow> me_path e = p"
  by (auto simp: entry_map_def dest!: map_of_SomeD)

lemma entry_map_none: "entry_map es p = None \<longleftrightarrow> p \<notin> set (map me_path es)"
  by (auto simp: entry_map_def map_of_eq_None_iff image_image)

lemma entry_map_in: "entry_map es p = Some e \<Longrightarrow> e \<in> set es"
  by (auto simp: entry_map_def dest!: map_of_SomeD)

lemma set_sorted_paths [simp]: "set (sorted_paths ps) = set ps"
  by (simp add: sorted_paths_def)

lemma distinct_sorted_paths [simp]: "distinct (sorted_paths ps)"
  by (simp add: sorted_paths_def)

lemma sorted_sorted_paths [simp]: "sorted (sorted_paths ps)"
  by (simp add: sorted_paths_def)

lemma apply_delta_append: "apply_delta (cs @ ds) s = apply_delta ds (apply_delta cs s)"
  by (simp add: apply_delta_def)

lemma apply_delta_map:
  assumes "\<forall>q \<in> set ps. cc_path (f q) = q"
  shows "apply_delta (map f ps) s p = (if p \<in> set ps then change_target (f p) else s p)"
  using assms by (induction ps arbitrary: s) (auto simp: apply_delta_def)

lemma map_change_paths: "\<forall>q \<in> set ps. cc_path (f q) = q \<Longrightarrow> map cc_path (map f ps) = ps"
  by (induction ps) auto

lemma delta_paths:
  "\<forall>q \<in> set (filter P (sorted_paths (map me_path es))). me_path (the (entry_map es q)) = q"
proof (safe)
  fix q assume "q \<in> set (filter P (sorted_paths (map me_path es)))"
  then have "entry_map es q \<noteq> None" by (simp add: entry_map_none)
  then show "me_path (the (entry_map es q)) = q" using entry_map_path by fastforce
qed

definition baseline_entries :: "baseline_manifest option \<Rightarrow> manifest_entry list" where
  "baseline_entries b = (case b of None \<Rightarrow> [] | Some m \<Rightarrow> mf_entries m)"

lemma compute_delta_parts:
  "compute_delta b c =
     map (\<lambda>p. added (the (entry_map (mf_entries c) p))) (filter (\<lambda>p. entry_map (baseline_entries b) p = None) (sorted_paths (map me_path (mf_entries c))))
   @ map (\<lambda>p. deleted (the (entry_map (baseline_entries b) p))) (filter (\<lambda>p. entry_map (mf_entries c) p = None) (sorted_paths (map me_path (baseline_entries b))))
   @ map (\<lambda>p. edited (the (entry_map (baseline_entries b) p)) (the (entry_map (mf_entries c) p)))
       (filter (\<lambda>p. entry_map (baseline_entries b) p \<noteq> None \<and> entry_changed (the (entry_map (baseline_entries b) p)) (the (entry_map (mf_entries c) p)))
          (sorted_paths (map me_path (mf_entries c))))"
  by (simp add: compute_delta_def baseline_entries_def Let_def)

lemma change_targets [simp]:
  "change_target (added e) = Some (me_sha256 e, me_mode e)" "change_target (deleted e) = None"
  "change_target (edited b a) = Some (me_sha256 a, me_mode a)"
  "cc_path (added e) = me_path e" "cc_path (deleted e) = me_path e" "cc_path (edited b a) = me_path a"
  by (simp_all add: change_target_def added_def deleted_def edited_def kind_defs)

lemma change_paths:
  "\<forall>q \<in> set (filter P (sorted_paths (map me_path (mf_entries c)))). cc_path (added (the (entry_map (mf_entries c) q))) = q"
  "\<forall>q \<in> set (filter P (sorted_paths (map me_path (baseline_entries b)))). cc_path (deleted (the (entry_map (baseline_entries b) q))) = q"
  "\<forall>q \<in> set (filter P (sorted_paths (map me_path (mf_entries c)))). cc_path (edited (the (entry_map (baseline_entries b) q)) (the (entry_map (mf_entries c) q))) = q"
  using delta_paths by simp_all

lemma delta_value:
  "apply_delta (compute_delta b c) s p =
     (case (entry_map (baseline_entries b) p, entry_map (mf_entries c) p) of
        (None, None) \<Rightarrow> s p
      | (None, Some a) \<Rightarrow> Some (me_sha256 a, me_mode a)
      | (Some x, None) \<Rightarrow> None
      | (Some x, Some a) \<Rightarrow> if entry_changed x a then Some (me_sha256 a, me_mode a) else s p)"
proof -
  note m = apply_delta_map [OF change_paths(1)] apply_delta_map [OF change_paths(2)] apply_delta_map [OF change_paths(3)]
  show ?thesis
    unfolding compute_delta_parts apply_delta_append m
    by (cases "entry_map (baseline_entries b) p"; cases "entry_map (mf_entries c) p")
      (auto simp: entry_map_none [symmetric] simp del: set_map dest: entry_map_none [THEN iffD1])
qed

text \<open>
  C12. The changes of a candidate are complete and exact: where the baseline records the mode of
  every file, applying the changes to the baseline gives precisely the captured files with their
  digests and modes, no path is changed twice, and there is no change exactly when the two agree.
\<close>

theorem delta_applies:
  assumes "list_all (\<lambda>e. me_mode e \<noteq> None) (baseline_entries b)"
  shows "apply_delta (compute_delta b c) (surface_of (baseline_entries b)) = surface_of (mf_entries c)
    \<and> distinct (map cc_path (compute_delta b c))
    \<and> (compute_delta b c = [] \<longleftrightarrow> surface_of (baseline_entries b) = surface_of (mf_entries c))"
proof -
  let ?B = "baseline_entries b" and ?C = "mf_entries c"
  have same: "(me_sha256 x, me_mode x) = (me_sha256 a, me_mode a)" if "entry_map ?B p = Some x" "\<not> entry_changed x a" for p x a
    using assms entry_map_in [OF that(1)] that(2) by (auto simp: entry_changed_def list_all_iff)
  have one: "apply_delta (compute_delta b c) (surface_of ?B) = surface_of ?C"
  proof
    fix p
    show "apply_delta (compute_delta b c) (surface_of ?B) p = surface_of ?C p"
      unfolding delta_value using same [of p] by (auto simp: surface_of_def split: option.splits)
  qed
  have paths: "map cc_path (compute_delta b c) =
      filter (\<lambda>p. entry_map ?B p = None) (sorted_paths (map me_path ?C))
    @ filter (\<lambda>p. entry_map ?C p = None) (sorted_paths (map me_path ?B))
    @ filter (\<lambda>p. entry_map ?B p \<noteq> None \<and> entry_changed (the (entry_map ?B p)) (the (entry_map ?C p))) (sorted_paths (map me_path ?C))"
    unfolding compute_delta_parts map_append by (simp only: map_change_paths [OF change_paths(1)] map_change_paths [OF change_paths(2)] map_change_paths [OF change_paths(3)])
  have two: "distinct (map cc_path (compute_delta b c))"
    unfolding paths by (auto simp: entry_map_none simp del: set_map)
  have "surface_of ?B = surface_of ?C" if "compute_delta b c = []"
    using one that by (simp add: apply_delta_def)
  moreover have "compute_delta b c = []" if eq: "surface_of ?B = surface_of ?C"
  proof -
    have "(entry_map ?B p = None) = (entry_map ?C p = None)" for p
      using fun_cong [OF eq, of p] by (auto simp: surface_of_def)
    moreover have "\<not> entry_changed (the (entry_map ?B p)) (the (entry_map ?C p))" if "entry_map ?B p \<noteq> None" for p
      using fun_cong [OF eq, of p] that by (cases "entry_map ?C p") (auto simp: surface_of_def entry_changed_def)
    ultimately have "map cc_path (compute_delta b c) = []"
      unfolding paths by (auto simp: filter_empty_conv entry_map_none simp del: set_map)
    then show ?thesis by simp
  qed
  ultimately show ?thesis using one two by blast
qed

definition entry_of :: "string \<Rightarrow> string \<Rightarrow> int \<Rightarrow> manifest_entry" where
  "entry_of p d md = \<lparr>me_path = p, me_sha256 = d, me_size = 1, me_mode = Some md\<rparr>"

definition sample_baseline :: baseline_manifest where
  "sample_baseline = \<lparr>mf_entries = [entry_of ''a'' ''1'' 420, entry_of ''b'' ''2'' 420, entry_of ''c'' ''3'' 420], mf_sha256 = ''x''\<rparr>"

definition sample_candidate :: baseline_manifest where
  "sample_candidate = \<lparr>mf_entries = [entry_of ''b'' ''2'' 493, entry_of ''c'' ''3'' 420, entry_of ''d'' ''4'' 420], mf_sha256 = ''y''\<rparr>"

theorem delta_applies_witness:
  "apply_delta (compute_delta (Some sample_baseline) sample_candidate) (surface_of (mf_entries sample_baseline)) = surface_of (mf_entries sample_candidate)
   \<and> map (\<lambda>c. (cc_kind c, cc_path c)) (compute_delta (Some sample_baseline) sample_candidate) = [(''add'', ''d''), (''delete'', ''a''), (''edit'', ''b'')]"
proof -
  have "list_all (\<lambda>e. me_mode e \<noteq> None) (baseline_entries (Some sample_baseline))"
    by (simp add: baseline_entries_def sample_baseline_def entry_of_def)
  from delta_applies [OF this, of sample_candidate]
  have "apply_delta (compute_delta (Some sample_baseline) sample_candidate) (surface_of (mf_entries sample_baseline)) = surface_of (mf_entries sample_candidate)"
    by (simp add: baseline_entries_def)
  moreover have "map (\<lambda>c. (cc_kind c, cc_path c)) (compute_delta (Some sample_baseline) sample_candidate) = [(''add'', ''d''), (''delete'', ''a''), (''edit'', ''b'')]"
    by code_simp
  ultimately show ?thesis by blast
qed

section \<open>Sealing\<close>

text \<open>
  A sealed candidate is the workspace: the workspace had the recorded digest before the copy,
  after it and at the end, the stored files have it too, and the changes are those between the
  baseline and these files.
\<close>

theorem sealed_candidate_matches:
  assumes "capture_candidate cp workspace storage_root cid baseline submitted selection w = (Inr (Inr (c, m)), w')"
  shows "\<exists>sel w0 w1 w2 w3 pre post stored again.
      capture_manifest cp workspace sel w = (Some pre, w0) \<and> fst (capture_manifest cp workspace sel w1) = Some post
    \<and> fst (capture_manifest cp (ca_storage_path c) sel w2) = Some stored \<and> fst (capture_manifest cp workspace sel w3) = Some again
    \<and> mf_sha256 pre = ca_manifest_sha256 c \<and> mf_sha256 post = ca_manifest_sha256 c
    \<and> mf_sha256 stored = ca_manifest_sha256 c \<and> mf_sha256 again = ca_manifest_sha256 c
    \<and> m = post \<and> ca_changes c = compute_delta baseline post \<and> ca_id c = cid \<and> ca_storage_path c = storage_root @ ''/'' @ cid"
proof -
  define sel where "sel = (case selection of None \<Rightarrow> cap_discover cp workspace w | Some s \<Rightarrow> cap_refresh cp s workspace w)"
  note cc = assms [unfolded capture_candidate_def, folded sel_def, unfolded Let_def capture_failed_def]
  obtain r0 w0 where r0: "capture_manifest cp workspace sel w = (r0, w0)" by fastforce
  with cc obtain pre where pre: "r0 = Some pre" by (cases r0) (auto split: if_splits)
  obtain b1 wa where b1: "cap_make cp storage_root (storage_root @ ''/'' @ cid) w0 = (b1, wa)" by fastforce
  obtain b2 w1 where b2: "cap_copy cp workspace (storage_root @ ''/'' @ cid) sel wa = (b2, w1)" by fastforce
  from cc r0 pre b1 b2 have rest: "compare_scans cp workspace storage_root cid baseline submitted sel pre w1 = (Inr (Inr (c, m)), w')"
    by (simp split: if_splits bool.splits)
  note cs = rest [unfolded compare_scans_def Let_def capture_failed_def capture_unstable_def]
  obtain r1 w2 where r1: "capture_manifest cp workspace sel w1 = (r1, w2)" by fastforce
  with cs obtain post where post: "r1 = Some post" by (cases r1) auto
  obtain r2 wb where r2: "capture_manifest cp (storage_root @ ''/'' @ cid) sel w2 = (r2, wb)" by fastforce
  with cs r1 post obtain stored where stored: "r2 = Some stored" by (cases r2) auto
  from cs r1 post r2 stored have eq: "mf_sha256 post = mf_sha256 pre" "mf_sha256 stored = mf_sha256 post"
    and seal: "confirm_seal cp workspace storage_root sel (seal_candidate cp (storage_root @ ''/'' @ cid) cid baseline submitted sel post) post wb = (Inr (Inr (c, m)), w')"
    by (simp_all split: if_splits)
  define k where "k = seal_candidate cp (storage_root @ ''/'' @ cid) cid baseline submitted sel post"
  note cf = seal [folded k_def, unfolded confirm_seal_def capture_failed_def capture_unstable_def]
  obtain b3 w3 where b3: "cap_write cp (storage_root @ ''/'' @ ca_id k @ ''.candidate.json'') (JObj (candidate_dict k)) wb = (b3, w3)" by fastforce
  obtain r3 w4 where r3: "capture_manifest cp workspace sel w3 = (r3, w4)" by fastforce
  from cf b3 have "b3" by (cases b3) simp_all
  with cf b3 r3 obtain again where again: "r3 = Some again" by (cases r3) simp_all
  with cf b3 r3 \<open>b3\<close> have "mf_sha256 again = mf_sha256 post" and c: "c = k" "m = post"
    by (simp_all split: if_splits)
  note again = again this(1)
  show ?thesis
    by (rule exI [of _ sel], rule exI [of _ w0], rule exI [of _ w1], rule exI [of _ w2], rule exI [of _ w3], rule exI [of _ pre], rule exI [of _ post], rule exI [of _ stored], rule exI [of _ again])
      (simp add: r0 r1 r2 [simplified] r3 pre post stored again eq c k_def seal_candidate_def Let_def)
qed

end
