(* ===== verification/Delivery.thy ===== *)
theory Delivery
  imports Transactions DerivedTasks Candidate TaskManager
begin

text \<open>
  The delivery half of \<open>runtime/completion.py\<close>: the plans of what an accepted completion changes
  (artifacts, files of the repository, the commit), the effects that carry them out, their
  compensation and the check of the final state.  The tracker, the files and git are a record
  of operations on a world \<open>'w\<close>; a path is its text.
\<close>

section \<open>The outside\<close>

text \<open>What is at a path, links followed: the content of a file is missing when it cannot be read;
  a folder is empty or not; a mode has the permission bits only.\<close>

datatype file_state = Absent | AFile "string option" int | AFolder bool int | AnOther int

record git_result =
  gr_code :: int
  gr_stdout :: string
  gr_stderr :: string

text \<open>What the scan of a repository tells: the digest of its files, and of git the branch tip and
  whether there are uncommitted changes.\<close>

record repo_snapshot =
  rs_manifest_sha256 :: string
  rs_git :: bool
  rs_base_commit :: "string option"
  rs_dirty :: bool

text \<open>The errors of the link-safe operations: \<open>SourcePathError\<close>, \<open>ValueError\<close> and other
  \<open>OSError\<close>.\<close>

datatype nofollow_error = LinkRefused | UnsafeName | SystemFailure

text \<open>\<open>po_index_git\<close> answers a command on a private index, after the commands run on it before.\<close>

record 'w ports =
  po_load :: "'w \<Rightarrow> load_project_result"
  po_read :: "'w \<Rightarrow> string \<Rightarrow> read_task_result"
  po_write_task :: "task \<Rightarrow> 'w \<Rightarrow> domain_error list \<times> 'w"
  po_create_task :: "task \<Rightarrow> 'w \<Rightarrow> domain_error list \<times> 'w"
  po_move_task :: "string \<Rightarrow> string \<Rightarrow> 'w \<Rightarrow> domain_error list \<times> 'w"
  po_at :: "'w \<Rightarrow> string \<Rightarrow> file_state"
  po_is_link :: "'w \<Rightarrow> string \<Rightarrow> bool"
  po_resolve :: "'w \<Rightarrow> string \<Rightarrow> string"
  po_copy :: "string \<Rightarrow> string \<Rightarrow> 'w \<Rightarrow> bool \<times> 'w"
  po_unlink :: "string \<Rightarrow> 'w \<Rightarrow> bool \<times> 'w"
  po_unlink_nofollow :: "string \<Rightarrow> string \<Rightarrow> 'w \<Rightarrow> (nofollow_error + bool) \<times> 'w"
  po_rmdir_nofollow :: "string \<Rightarrow> string \<Rightarrow> 'w \<Rightarrow> (nofollow_error + bool) \<times> 'w"
  po_copy_nofollow :: "string \<Rightarrow> string \<Rightarrow> string \<Rightarrow> string \<Rightarrow> int option \<Rightarrow> 'w \<Rightarrow> (nofollow_error + unit) \<times> 'w"
  po_scan :: "'w \<Rightarrow> string \<Rightarrow> json \<Rightarrow> manifest_entry list option"
  po_snapshot :: "'w \<Rightarrow> string \<Rightarrow> domain_error list \<times> repo_snapshot option"
  po_index_git :: "'w \<Rightarrow> string list list \<Rightarrow> string list \<Rightarrow> git_result"
  po_git :: "string list \<Rightarrow> 'w \<Rightarrow> git_result \<times> 'w"
  po_sha256 :: "string \<Rightarrow> string"
  po_exc :: "pyexc \<Rightarrow> string"

section \<open>Paths\<close>

text \<open>\<open>str(Path(root) / rel)\<close>\<close>

definition under :: "string \<Rightarrow> string \<Rightarrow> string" where
  "under root rel = (if is_absolute rel then as_posix rel else path_of_parts (path_parts root @ path_parts rel))"

text \<open>\<open>p == root or root in p.parents\<close>, and \<open>p.relative_to(root)\<close>.\<close>

definition inside :: "string \<Rightarrow> string \<Rightarrow> bool" where
  "inside root p \<longleftrightarrow> take (length (path_parts root)) (path_parts p) = path_parts root"

definition relative_to :: "string \<Rightarrow> string \<Rightarrow> string option" where
  "relative_to root p = (if inside root p then Some (path_of_parts (drop (length (path_parts root)) (path_parts p))) else None)"

definition parent_path :: "string \<Rightarrow> string" where
  "parent_path p = path_of_parts (let ps = path_parts p in if ps = path_root p then ps else butlast ps)"

text \<open>\<open>(stem, suffix)\<close> of a file name.\<close>

definition stem_suffix :: "string \<Rightarrow> string \<times> string" where
  "stem_suffix n = (let ext = rev (takeWhile (\<lambda>c. c \<noteq> CHR ''.'') (rev n)); i = length n - length ext - 1
     in if CHR ''.'' \<in> set n \<and> 0 < i \<and> ext \<noteq> [] then (take i n, drop i n) else (n, []))"

definition is_file :: "file_state \<Rightarrow> bool" where
  "is_file x = (case x of AFile _ _ \<Rightarrow> True | _ \<Rightarrow> False)"

definition file_bytes :: "file_state \<Rightarrow> string option" where
  "file_bytes x = (case x of AFile c _ \<Rightarrow> c | _ \<Rightarrow> None)"

definition file_sha256 :: "'w ports \<Rightarrow> file_state \<Rightarrow> pyexc + string" where
  "file_sha256 po x = (case file_bytes x of Some c \<Rightarrow> Inr (po_sha256 po c) | None \<Rightarrow> Inl OSErr)"

definition same_file_content :: "file_state \<Rightarrow> file_state \<Rightarrow> bool" where
  "same_file_content l r = (case (l, r) of (AFile (Some c) m, AFile (Some d) n) \<Rightarrow> c = d \<and> m = n | _ \<Rightarrow> False)"

section \<open>Tasks as data\<close>

definition task_to_dict :: "task \<Rightarrow> json" where
  "task_to_dict t = JObj (fmap_of_list
     [(''id'', JStr (t_id t)), (''title'', JStr (t_title t)), (''path'', JStr (t_path t)), (''current_state'', JStr (t_current_state t)),
      (''task_type'', JStr (t_task_type t)), (''dependencies'', JList (map JStr (t_dependencies t))),
      (''artifact_links'', JList (map JStr (t_artifact_links t))), (''parent_id'', opt_json (t_parent_id t)),
      (''metadata'', JObj (t_metadata t)), (''body'', JStr (t_body t))])"

definition needed :: "meta \<Rightarrow> string \<Rightarrow> pyexc + string" where
  "needed m k = (case fmlookup m k of None \<Rightarrow> Inl KeyErr | Some v \<Rightarrow> Inr (py_str v))"

definition strings_of :: "json \<Rightarrow> pyexc + string list" where
  "strings_of j = bind_sum (py_list j) (\<lambda>xs. Inr (map py_str xs))"

definition task_from_mapping :: "meta \<Rightarrow> pyexc + task" where
  "task_from_mapping m =
     bind_sum (needed m ''id'') (\<lambda>i. bind_sum (needed m ''title'') (\<lambda>title. bind_sum (needed m ''path'') (\<lambda>p.
     bind_sum (needed m ''current_state'') (\<lambda>st.
     bind_sum (strings_of (jget m ''dependencies'' (JList []))) (\<lambda>deps.
     bind_sum (strings_of (jget m ''artifact_links'' (JList []))) (\<lambda>links.
     bind_sum (py_dict (jget m ''metadata'' (JObj fmempty))) (\<lambda>md.
     Inr \<lparr>t_id = i, t_title = title, t_path = p, t_current_state = st, t_task_type = py_str (jget m ''task_type'' (JStr ''task'')),
          t_dependencies = deps, t_artifact_links = links,
          t_parent_id = (let v = jget m ''parent_id'' JNull in if v = JNull then None else Some (py_str v)),
          t_metadata = md, t_body = py_str (jget m ''body'' (JStr []))\<rparr>)))))))"

definition task_with_links :: "task \<Rightarrow> string list \<Rightarrow> task" where
  "task_with_links t links = t\<lparr>t_artifact_links := links\<rparr>"

definition task_with_derived_links :: "task \<Rightarrow> string list \<Rightarrow> task" where
  "task_with_derived_links t children = t\<lparr>t_body := rstrip (t_body t) @ line_feed @ line_feed @ ''## Derived tasks'' @ line_feed
     @ join line_feed (map (\<lambda>l. ''- [['' @ l @ '']]'') children) @ line_feed\<rparr>"

section \<open>Plans\<close>

definition artifact_link :: "string \<Rightarrow> string \<Rightarrow> string" where
  "artifact_link root target = (case relative_to (parent_path root) target of Some r \<Rightarrow> r | None \<Rightarrow> target)"

definition promoted_name :: "'w ports \<Rightarrow> artifact_submission \<Rightarrow> file_state \<Rightarrow> string" where
  "promoted_name po a source = (let n = path_name (as_path a) in
     if as_type a \<noteq> ''ImplementationContract'' then n
     else let h = (case file_bytes source of Some c \<Rightarrow> take 16 (po_sha256 po c) | None \<Rightarrow> ''unreadable'')
          in fst (stem_suffix n) @ ''-'' @ h @ snd (stem_suffix n))"

definition file_mode :: "file_state \<Rightarrow> json" where
  "file_mode x = (case x of Absent \<Rightarrow> JNull | AFile _ m \<Rightarrow> JInt m | AFolder _ m \<Rightarrow> JInt m | AnOther m \<Rightarrow> JInt m)"

text \<open>A source that is missing raises.\<close>

definition promotion_item :: "'w ports \<Rightarrow> 'w \<Rightarrow> string \<Rightarrow> string \<Rightarrow> string \<Rightarrow> task option \<Rightarrow> artifact_submission \<Rightarrow> pyexc + meta" where
  "promotion_item po w root output_dir tid existing a =
     (let source = under output_dir (as_path a); at_source = po_at po w source;
          target = under (under (under root tid) (as_type a)) (promoted_name po a at_source); at_target = po_at po w target
      in bind_sum (if is_file at_target then bind_sum (file_sha256 po at_target) (\<lambda>d. Inr (JStr d)) else Inr JNull) (\<lambda>before.
         if at_source = Absent then Inl OSErr
         else Inr (fmap_of_list
           [(''artifact_type'', JStr (as_type a)), (''source_path'', JStr source), (''target_path'', JStr target),
            (''link'', JStr (artifact_link root target)), (''target_existed'', JBool (at_target \<noteq> Absent)),
            (''previous_links'', JList (map JStr (case existing of None \<Rightarrow> [] | Some t \<Rightarrow> t_artifact_links t))),
            (''expected_after_sha256'', opt_json (map_option (po_sha256 po) (file_bytes at_source))),
            (''expected_before_sha256'', before), (''expected_before_mode'', if is_file at_target then file_mode at_target else JNull),
            (''expected_after_mode'', file_mode at_source)])))"

definition promotion_plan :: "'w ports \<Rightarrow> 'w \<Rightarrow> string option \<Rightarrow> string \<Rightarrow> string \<Rightarrow> artifact_submission list \<Rightarrow> task option \<Rightarrow> pyexc + meta list" where
  "promotion_plan po w artifact_root output_dir tid artifacts existing = (case artifact_root of None \<Rightarrow> Inr []
     | Some root \<Rightarrow> map_sum_list (promotion_item po w root output_dir tid existing) artifacts)"

definition delete_effect :: "string \<Rightarrow> candidate_change \<Rightarrow> meta" where
  "delete_effect target c = fmap_of_list [(''type'', JStr ''delete_changed_file''), (''target_path'', JStr target),
     (''expected_after_listing'', JStr ''absent''), (''expected_before_sha256'', opt_json (cc_before_sha256 c))]"

definition promote_effect :: "string \<Rightarrow> string \<Rightarrow> bool \<Rightarrow> candidate_change \<Rightarrow> meta" where
  "promote_effect source target existed c = fmap_of_list [(''type'', JStr ''promote_changed_file''), (''source_path'', JStr source),
     (''target_path'', JStr target), (''expected_after_sha256'', opt_json (cc_after_sha256 c)), (''expected_before_sha256'', opt_json (cc_before_sha256 c)),
     (''expected_before_mode'', opt_int (cc_before_mode c)), (''expected_after_mode'', opt_int (cc_after_mode c)), (''target_existed'', JBool existed)]"

text \<open>Artifacts are carried on their own: the exact list of them, or, without such a list, the
  subtree of the output.\<close>

definition is_transported :: "string list option \<Rightarrow> string option \<Rightarrow> string \<Rightarrow> bool" where
  "is_transported arts out p = (case (arts, out) of (None, Some o') \<Rightarrow> inside o' p | _ \<Rightarrow> False)"

definition unsafe_change :: "string \<Rightarrow> bool" where
  "unsafe_change p \<longleftrightarrow> is_absolute p \<or> ''..'' \<in> set (path_parts p) \<or> ''.open-tulid'' \<in> set (path_parts p)"

text \<open>The effect of one change: none, or a deletion, or a promotion.  \<open>skip_change\<close> are the changes
  passed over before their path counts as seen.\<close>

record change_context =
  ct_storage :: string
  ct_repo :: string
  ct_artifacts :: "string list option"
  ct_out_source :: "string option"
  ct_out_target :: "string option"

definition change_source :: "'w ports \<Rightarrow> 'w \<Rightarrow> change_context \<Rightarrow> candidate_change \<Rightarrow> string" where
  "change_source po w ct c = po_resolve po w (under (ct_storage ct) (cc_path c))"

definition change_target_path :: "'w ports \<Rightarrow> 'w \<Rightarrow> change_context \<Rightarrow> candidate_change \<Rightarrow> string" where
  "change_target_path po w ct c = po_resolve po w (under (ct_repo ct) (cc_path c))"

definition skip_change :: "'w ports \<Rightarrow> 'w \<Rightarrow> change_context \<Rightarrow> string list \<Rightarrow> candidate_change \<Rightarrow> bool" where
  "skip_change po w ct seen c \<longleftrightarrow>
     (case ct_artifacts ct of Some as \<Rightarrow> cc_path c \<in> set as | None \<Rightarrow> False)
   \<or> unsafe_change (cc_path c) \<or> cc_path c \<in> set seen
   \<or> \<not> inside (ct_storage ct) (change_source po w ct c) \<or> \<not> inside (ct_repo ct) (change_target_path po w ct c)
   \<or> is_transported (ct_artifacts ct) (ct_out_source ct) (change_source po w ct c)
   \<or> is_transported (ct_artifacts ct) (ct_out_target ct) (change_target_path po w ct c)"

definition change_effect :: "'w ports \<Rightarrow> 'w \<Rightarrow> change_context \<Rightarrow> candidate_change \<Rightarrow> meta list" where
  "change_effect po w ct c =
     (let source = change_source po w ct c; target = change_target_path po w ct c
      in if cc_kind c = KIND_DELETE then [delete_effect target c]
         else if is_file (po_at po w source)
         then if is_file (po_at po w target) \<and> same_file_content (po_at po w source) (po_at po w target) then []
              else [promote_effect source target (po_at po w target \<noteq> Absent) c]
         else [])"

fun plan_changes :: "'w ports \<Rightarrow> 'w \<Rightarrow> change_context \<Rightarrow> string list \<Rightarrow> candidate_change list \<Rightarrow> meta list" where
  "plan_changes po w ct seen [] = []"
| "plan_changes po w ct seen (c # cs) =
     (if skip_change po w ct seen c then plan_changes po w ct seen cs
      else change_effect po w ct c @ plan_changes po w ct (cc_path c # seen) cs)"

definition is_delete :: "meta \<Rightarrow> bool" where
  "is_delete e \<longleftrightarrow> jget e ''type'' JNull = JStr ''delete_changed_file''"

definition target_text :: "meta \<Rightarrow> string" where
  "target_text e = py_str (jget e ''target_path'' (JStr []))"

definition change_context_of :: "'w ports \<Rightarrow> 'w \<Rightarrow> string \<Rightarrow> string \<Rightarrow> string option \<Rightarrow> string list option \<Rightarrow> change_context" where
  "change_context_of po w repo_root storage out arts =
     (let ws = po_resolve po w storage; rr = po_resolve po w repo_root
      in \<lparr>ct_storage = ws, ct_repo = rr, ct_artifacts = arts,
          ct_out_source = map_option (\<lambda>o'. po_resolve po w (under ws o')) out, ct_out_target = map_option (\<lambda>o'. po_resolve po w (under rr o')) out\<rparr>)"

definition candidate_change_plan :: "'w ports \<Rightarrow> 'w \<Rightarrow> string option \<Rightarrow> string \<Rightarrow> candidate_change list \<Rightarrow> string option \<Rightarrow> string list option \<Rightarrow> meta list" where
  "candidate_change_plan po w repo_root storage changes out arts = (case repo_root of None \<Rightarrow> []
     | Some root \<Rightarrow> let planned = plan_changes po w (change_context_of po w root storage out arts) [] changes
         in sort_key target_text (filter is_delete planned) @ sort_key target_text (filter (\<lambda>e. \<not> is_delete e) planned))"

definition words :: "string \<Rightarrow> string list" where
  "words s = filter (\<lambda>x. x \<noteq> []) (split_char (CHR '' '') (map (\<lambda>c. if is_space c then CHR '' '' else c) s))"

definition commit_message :: "task \<Rightarrow> string" where
  "commit_message t = (let title = strip (join '' '' (words (t_title t)))
     in if t_id t \<noteq> [] \<and> title \<noteq> [] then t_id t @ '': '' @ title else if title \<noteq> [] then title else ''Task '' @ t_id t)"

definition commit_plan :: "'w ports \<Rightarrow> 'w \<Rightarrow> string option \<Rightarrow> meta list \<Rightarrow> task option \<Rightarrow> meta option" where
  "commit_plan po w repo_root changed t = (case (repo_root, t) of
      (Some root, Some t) \<Rightarrow>
        if changed = [] \<or> po_at po w (under root ''.git'') = Absent then None
        else let rr = po_resolve po w root; paths = List.map_filter (\<lambda>e. relative_to rr (po_resolve po w (target_text e))) changed
             in if paths = [] then None
                else Some (fmap_of_list [(''type'', JStr ''commit_repo_changes''), (''message'', JStr (commit_message t)), (''paths'', JList (map JStr paths))])
    | _ \<Rightarrow> None)"

section \<open>The commit\<close>

fun committable_paths :: "'w ports \<Rightarrow> string list \<Rightarrow> 'w \<Rightarrow> string list \<times> 'w" where
  "committable_paths po [] w = ([], w)"
| "committable_paths po (p # ps) w = (case po_git po [''git'', ''check-ignore'', ''-q'', ''--'', p] w of (r, w) \<Rightarrow>
     (case committable_paths po ps w of (rest, w) \<Rightarrow> (if gr_code r = 0 then rest else p # rest, w)))"

definition nothing_to_commit :: "git_result \<Rightarrow> bool" where
  "nothing_to_commit r \<longleftrightarrow> (let out = lower (gr_stdout r @ line_feed @ gr_stderr r)
     in contains ''nothing to commit'' out \<and> contains ''working tree clean'' out)"

definition commit_repo_changes :: "'w ports \<Rightarrow> string \<Rightarrow> string list \<Rightarrow> 'w \<Rightarrow> git_result \<times> 'w" where
  "commit_repo_changes po message paths w = (case committable_paths po paths w of (ok, w) \<Rightarrow>
     if ok = [] then (\<lparr>gr_code = 0, gr_stdout = [], gr_stderr = []\<rparr>, w)
     else (case po_git po ([''git'', ''add'', ''--''] @ ok) w of (staged, w) \<Rightarrow>
       if gr_code staged \<noteq> 0 then (staged, w)
       else (case po_git po ([''git'', ''commit'', ''-m'', message, ''--''] @ ok) w of (committed, w) \<Rightarrow>
         (if gr_code committed \<noteq> 0 \<and> nothing_to_commit committed then committed\<lparr>gr_code := 0\<rparr> else committed, w))))"

section \<open>Effects\<close>

definition fx_ok_result :: "string \<Rightarrow> domain_error list \<Rightarrow> effect_result" where
  "fx_ok_result m es = \<lparr>fx_accepted = (es = []), fx_message = m, fx_errors = es\<rparr>"

definition fx_done :: "effect_result" where
  "fx_done = \<lparr>fx_accepted = True, fx_message = [], fx_errors = []\<rparr>"

definition fx_refused :: "string \<Rightarrow> domain_error list \<Rightarrow> effect_result" where
  "fx_refused m es = \<lparr>fx_accepted = False, fx_message = m, fx_errors = es\<rparr>"

definition raised :: "'w ports \<Rightarrow> pyexc \<Rightarrow> string + effect_result" where
  "raised po x = Inl (po_exc po x)"

definition text_at :: "meta \<Rightarrow> string \<Rightarrow> string" where
  "text_at e k = py_str (jget e k (JStr []))"

definition path_at :: "meta \<Rightarrow> string \<Rightarrow> string" where
  "path_at e k = as_posix (text_at e k)"

text \<open>The root of a link-safe operation: the repository, or the folder of the file itself.\<close>

definition strip_relative :: "string \<Rightarrow> string \<Rightarrow> string" where
  "strip_relative p rel = (parent_path ^^ length (path_parts rel)) p"

definition target_relative :: "string \<Rightarrow> string option \<Rightarrow> string option" where
  "target_relative target repo_root = (case repo_root of None \<Rightarrow> None | Some r \<Rightarrow> relative_to r target)"

definition changed_failed :: "string \<Rightarrow> msg \<Rightarrow> string \<Rightarrow> string \<Rightarrow> effect_result" where
  "changed_failed code' m exc target = fx_refused (msg_text exc m) [derror code' m (Some target)]"

definition delete_changed_nofollow :: "'w ports \<Rightarrow> string option \<Rightarrow> string \<Rightarrow> 'w effect_run" where
  "delete_changed_nofollow po repo_root target w =
     (let (root, rel) = (case (repo_root, target_relative target repo_root) of (Some r, Some rel) \<Rightarrow> (r, rel)
            | _ \<Rightarrow> (po_resolve po w (strip_relative target (path_name target)), path_name target))
      in case po_unlink_nofollow po root rel w of
          (Inr _, w) \<Rightarrow> (Inr fx_done, w)
        | (Inl LinkRefused, w) \<Rightarrow> (Inr (changed_failed ''changed_file.delete_conflict'' [ExcText] (po_exc po OSErr) target), w)
        | (Inl SystemFailure, w) \<Rightarrow> (Inr (changed_failed ''changed_file.delete_failed'' [Txt ''Cannot delete changed file: '', ExcText] (po_exc po OSErr) target), w)
        | (Inl UnsafeName, w) \<Rightarrow> (raised po ValueErr, w))"

definition promotion_failure :: "'w ports \<Rightarrow> string \<Rightarrow> nofollow_error \<Rightarrow> string + effect_result" where
  "promotion_failure po target e = (case e of
      LinkRefused \<Rightarrow> Inr (changed_failed ''changed_file.promotion_failed'' [ExcText] (po_exc po OSErr) target)
    | SystemFailure \<Rightarrow> Inr (changed_failed ''changed_file.promotion_failed'' [Txt ''Cannot promote changed file: '', ExcText] (po_exc po OSErr) target)
    | UnsafeName \<Rightarrow> raised po ValueErr)"

definition promote_changed_nofollow :: "'w ports \<Rightarrow> string option \<Rightarrow> string \<Rightarrow> string \<Rightarrow> json \<Rightarrow> 'w effect_run" where
  "promote_changed_nofollow po repo_root source target mode w =
     (let (troot, trel, srel) = (case (repo_root, target_relative target repo_root) of (Some r, Some rel) \<Rightarrow> (r, rel, rel)
            | _ \<Rightarrow> (po_resolve po w (strip_relative target (path_name target)), path_name target, path_name source));
          sroot = po_resolve po w (strip_relative source srel)
      in case (if mode = JNull then Inr None else map_sum id Some (py_int mode)) of
          Inl x \<Rightarrow> (raised po x, w)
        | Inr md \<Rightarrow> (case po_rmdir_nofollow po troot trel w of
            (Inl e, w) \<Rightarrow> (promotion_failure po target e, w)
          | (Inr _, w) \<Rightarrow> (case po_copy_nofollow po sroot srel troot trel md w of
              (Inl e, w) \<Rightarrow> (promotion_failure po target e, w)
            | (Inr _, w) \<Rightarrow> (Inr fx_done, w))))"

definition move_effect :: "'w ports \<Rightarrow> meta \<Rightarrow> 'w effect_run" where
  "move_effect po e w = (case po_move_task po (text_at e ''task_id'') (text_at e ''to_state'') w of (es, w) \<Rightarrow> (Inr (fx_ok_result ''task moved'' es), w))"

definition create_effect :: "'w ports \<Rightarrow> meta \<Rightarrow> 'w effect_run" where
  "create_effect po e w = (case jget e ''task'' JNull of
      JObj payload \<Rightarrow> (case task_from_mapping payload of
          Inl x \<Rightarrow> (raised po x, w)
        | Inr t \<Rightarrow> (case po_create_task po t w of (es, w) \<Rightarrow> (Inr (fx_ok_result ''task created'' es), w)))
    | _ \<Rightarrow> (Inr (fx_refused ''derived task payload invalid'' [derror ''task.derived_invalid'' [Txt ''Derived task payload is invalid.''] None]), w))"

definition link_effect :: "'w ports \<Rightarrow> meta \<Rightarrow> 'w effect_run" where
  "link_effect po e w = (case readable_task (po_read po w) (text_at e ''parent_id'') of
        None \<Rightarrow> (Inr (fx_refused ''parent task missing'' (rtr_errors (po_read po w (text_at e ''parent_id'')))), w)
      | Some t \<Rightarrow> (case strings_of (jget e ''child_links'' (JList [])) of
          Inl x \<Rightarrow> (raised po x, w)
        | Inr links \<Rightarrow> (case po_write_task po (task_with_derived_links t links) w of (es, w) \<Rightarrow> (Inr (fx_ok_result ''parent linked'' es), w))))"

text \<open>The copy of an artifact, then its link in the task, if the task can be read.\<close>

definition artifact_effect :: "'w ports \<Rightarrow> meta \<Rightarrow> 'w effect_run" where
  "artifact_effect po e w = (let target = path_at e ''target_path''; link = text_at e ''link''
     in case po_copy po (path_at e ''source_path'') target w of
         (False, w) \<Rightarrow> (Inr (fx_refused (''artifact promotion failed: '' @ po_exc po OSErr)
            [derror ''artifact.promotion_failed'' [Txt ''Cannot promote artifact: '', ExcText] (Some target)]), w)
       | (True, w) \<Rightarrow>
           if link = [] then (Inr fx_done, w)
           else (case readable_task (po_read po w) (text_at e ''task_id'') of
               None \<Rightarrow> (Inr fx_done, w)
             | Some t \<Rightarrow> (case po_write_task po (task_with_links t (rev (remdups (rev (t_artifact_links t @ [link]))))) w of
                 (es, w) \<Rightarrow> (if es \<noteq> [] then (Inr (fx_refused ''artifact link update failed'' es), w) else (Inr fx_done, w)))))"

definition commit_effect :: "'w ports \<Rightarrow> string option \<Rightarrow> meta \<Rightarrow> 'w effect_run" where
  "commit_effect po repo_root e w = (case repo_root of None \<Rightarrow> (Inr fx_done, w)
     | Some root \<Rightarrow> (case strings_of (jget e ''paths'' (JList [])) of
         Inl x \<Rightarrow> (raised po x, w)
       | Inr paths \<Rightarrow> (case commit_repo_changes po (strip (text_at e ''message'')) paths w of (r, w) \<Rightarrow>
           (if gr_code r \<noteq> 0
            then let err = strip (if gr_stderr r \<noteq> [] then gr_stderr r else gr_stdout r)
              in (Inr (fx_refused (''repo commit failed: '' @ err)
                   [derror ''repo.commit_failed'' [Txt ''Cannot commit accepted changes: '', Txt (if err \<noteq> [] then err else ''git commit failed'')] (Some root)]), w)
            else (Inr fx_done, w)))))"

definition apply_effect :: "'w ports \<Rightarrow> string option \<Rightarrow> meta \<Rightarrow> 'w effect_run" where
  "apply_effect po repo_root e w = (let ty = jget e ''type'' JNull in
     if ty = JStr ''move_task'' then move_effect po e w
     else if ty = JStr ''create_task'' then create_effect po e w
     else if ty = JStr ''link_derived_tasks'' then link_effect po e w
     else if ty = JStr ''promote_artifact'' then artifact_effect po e w
     else if ty = JStr ''delete_changed_file'' then delete_changed_nofollow po repo_root (path_at e ''target_path'') w
     else if ty = JStr ''promote_changed_file''
     then promote_changed_nofollow po repo_root (path_at e ''source_path'') (path_at e ''target_path'') (jget e ''expected_after_mode'' JNull) w
     else if ty = JStr ''commit_repo_changes'' then commit_effect po repo_root e w
     else (Inr (fx_refused (''unknown effect: '' @ py_str ty) [derror ''effect.unknown'' [Txt ''Unknown completion effect: '', Txt (py_str ty)] None]), w))"

text \<open>Only a promoted artifact is taken back; every other effect counts as compensated.\<close>

definition restore_links :: "'w ports \<Rightarrow> meta \<Rightarrow> 'w effect_run" where
  "restore_links po e w = (case jget e ''previous_links'' JNull of
      JList xs \<Rightarrow> (case readable_task (po_read po w) (text_at e ''task_id'') of
          None \<Rightarrow> (Inr fx_done, w)
        | Some t \<Rightarrow> (case po_write_task po (task_with_links t (map py_str xs)) w of
            (es, w) \<Rightarrow> (if es \<noteq> [] then (Inr (fx_refused ''artifact link compensation failed'' es), w) else (Inr fx_done, w))))
    | _ \<Rightarrow> (Inr fx_done, w))"

definition remove_artifact :: "'w ports \<Rightarrow> meta \<Rightarrow> 'w effect_run" where
  "remove_artifact po e w = (let target = path_at e ''target_path''; at = po_at po w target
     in if json_truthy (jget e ''target_existed'' (JBool False)) \<or> at = Absent then (Inr fx_done, w)
        else case (case jget e ''expected_after_sha256'' JNull of JStr d \<Rightarrow> map_sum id (\<lambda>h. h = d) (file_sha256 po at) | _ \<Rightarrow> Inr True) of
            Inl x \<Rightarrow> (raised po x, w)
          | Inr False \<Rightarrow> (Inr (fx_refused ''artifact compensation blocked by intervening change'' [derror ''artifact.compensation_conflict''
              [Txt ''Cannot compensate promoted artifact '', Txt target, Txt '': content changed since promotion.''] (Some target)]), w)
          | Inr True \<Rightarrow> (case po_unlink po target w of
              (True, w) \<Rightarrow> (Inr fx_done, w)
            | (False, w) \<Rightarrow> (Inr (fx_refused (''artifact compensation failed: '' @ po_exc po OSErr) [derror ''artifact.compensation_failed''
                [Txt ''Cannot remove promoted artifact during compensation: '', ExcText] (Some target)]), w)))"

definition compensate_effect :: "'w ports \<Rightarrow> meta \<Rightarrow> 'w effect_run" where
  "compensate_effect po e w = (if jget e ''type'' JNull \<noteq> JStr ''promote_artifact'' then (Inr fx_done, w)
     else (case remove_artifact po e w of
        (Inl x, w) \<Rightarrow> (Inl x, w)
      | (Inr r, w) \<Rightarrow> if fx_accepted r then restore_links po e w else (Inr r, w)))"

end
