(* ===== verification/Integration.thy ===== *)
theory Integration
  imports Delivery
begin

text \<open>
  The checks of \<open>runtime/completion.py\<close> around a delivery: the repository still is the baseline of
  the job before anything is changed, and afterwards it is the verified candidate and the task
  is in the state it was to reach.
\<close>

section \<open>The target before the delivery\<close>

record frozen_contract =
  fc_transition :: transition_definition
  fc_source_task :: task
  fc_identities :: "(string \<times> string) list"
  fc_baseline :: baseline_manifest
  fc_selection :: json
  fc_facts :: repo_snapshot

definition target_drift :: "frozen_contract \<Rightarrow> repo_snapshot \<Rightarrow> string list" where
  "target_drift fc now =
     (if rs_manifest_sha256 now \<noteq> mf_sha256 (fc_baseline fc) then [''deliverable manifest changed since the job baseline''] else [])
   @ (if rs_git now \<and> rs_git (fc_facts fc)
      then (if rs_base_commit now \<noteq> None \<and> rs_base_commit (fc_facts fc) \<noteq> None \<and> rs_base_commit now \<noteq> rs_base_commit (fc_facts fc)
            then [''branch base commit moved since the job baseline''] else [])
         @ (if rs_dirty (fc_facts fc) then [''target was not a clean managed checkout at baseline''] else [])
         @ (if rs_dirty now then [''target has live uncommitted changes''] else [])
      else [])"

definition check_integration_target :: "'w ports \<Rightarrow> 'w \<Rightarrow> string option \<Rightarrow> string option \<Rightarrow> frozen_contract option \<Rightarrow> domain_error list" where
  "check_integration_target po w repo_root identity contract = (case (repo_root, contract) of
      (Some root, Some fc) \<Rightarrow> (case po_snapshot po w root of
          ([], Some now) \<Rightarrow>
            (let drift = target_drift fc now
             in if drift = [] then []
                else [derror ''repo.stale_target'' [Txt ''Integration target no longer matches the job baseline (repository identified as '',
                  Txt (case identity of None \<Rightarrow> ''None'' | Some i \<Rightarrow> i), Txt ''); candidate preserved: '', Txt (join ''; '' drift),
                  Txt ''. Stop rather than overwriting the repository with the stale candidate; re-plan against the current repository.'']
                  (Some (po_resolve po w root))])
        | (es, _) \<Rightarrow> if es \<noteq> [] then es
            else [derror ''repo.target_unreadable'' [Txt ''Cannot scan the integration target before mutation.''] (Some root)])
    | _ \<Rightarrow> [])"

section \<open>The source after the delivery\<close>

text \<open>The files that are compared: all but the artifacts, which travel on their own.\<close>

definition compared :: "string list option \<Rightarrow> string option \<Rightarrow> string \<Rightarrow> bool" where
  "compared arts out p = (case arts of Some as \<Rightarrow> p \<notin> set as
     | None \<Rightarrow> (case out of None \<Rightarrow> True | Some o' \<Rightarrow> \<not> (p = o' \<or> startswith (o' @ ''/'') p)))"

definition compared_surface :: "string list option \<Rightarrow> string option \<Rightarrow> manifest_entry list \<Rightarrow> (string, string \<times> int option) fmap" where
  "compared_surface arts out es = fmap_of_list (rev (map (\<lambda>e. (me_path e, (me_sha256 e, me_mode e)))
     (filter (\<lambda>e. compared arts out (me_path e)) (sort_key me_path es))))"

definition surface_errors :: "'w ports \<Rightarrow> 'w \<Rightarrow> string \<Rightarrow> candidate \<Rightarrow> string option \<Rightarrow> string list option \<Rightarrow> domain_error list" where
  "surface_errors po w root c out arts =
     (case (po_scan po w (ca_storage_path c) (ca_selection c), po_scan po w root JNull) of
        (Some sealed, Some live) \<Rightarrow>
          if compared_surface arts out sealed = compared_surface arts out live then []
          else [derror ''transaction.integrated_manifest_mismatch'' [Txt ''Integrated source differs from the complete verified candidate.''] (Some root)]
      | _ \<Rightarrow> [derror ''transaction.integrated_manifest_unreadable'' [ExcText] (Some root)])"

definition skip_integrated :: "string option \<Rightarrow> string list option \<Rightarrow> string \<Rightarrow> candidate_change \<Rightarrow> bool" where
  "skip_integrated out_target arts target c \<longleftrightarrow>
     (case arts of Some as \<Rightarrow> cc_path c \<in> set as | None \<Rightarrow> False) \<or> unsafe_change (cc_path c) \<or> is_transported arts out_target target"

definition mode_differs :: "int option \<Rightarrow> file_state \<Rightarrow> bool" where
  "mode_differs md x = (case (md, x) of (Some m, AFile _ n) \<Rightarrow> n \<noteq> m | _ \<Rightarrow> False)"

definition change_integrated :: "'w ports \<Rightarrow> 'w \<Rightarrow> string \<Rightarrow> candidate_change \<Rightarrow> pyexc + domain_error list" where
  "change_integrated po w target c = (let at = po_at po w target in
     if cc_kind c = KIND_DELETE
     then Inr (if at \<noteq> Absent \<and> (is_file at \<or> po_is_link po w target)
          then [derror ''transaction.integrated_delete_missed'' [Txt ''Deleted change '', ReprS (cc_path c), Txt '' still exists in the integrated repository.''] (Some target)] else [])
     else if \<not> is_file at
     then Inr [derror ''transaction.integrated_source_missing'' [Txt ''Change '', ReprS (cc_path c), Txt '' did not reach the integrated repository.''] (Some target)]
     else bind_sum (case cc_after_sha256 c of None \<Rightarrow> Inr False | Some d \<Rightarrow> if d = [] then Inr False else map_sum id (\<lambda>h. h \<noteq> d) (file_sha256 po at)) (\<lambda>differs.
       Inr (if differs \<or> mode_differs (cc_after_mode c) at
            then [derror ''transaction.integrated_source_mismatch'' [Txt ''Change '', ReprS (cc_path c), Txt '' content differs from the verified candidate.''] (Some target)] else [])))"

definition validate_integrated_source :: "'w ports \<Rightarrow> 'w \<Rightarrow> string \<Rightarrow> candidate \<Rightarrow> string option \<Rightarrow> string list option \<Rightarrow> pyexc + domain_error list" where
  "validate_integrated_source po w repo_root c out arts =
     (let root = po_resolve po w repo_root; out_target = map_option (\<lambda>o'. po_resolve po w (under root o')) out;
          one = (\<lambda>ch. let target = po_resolve po w (under root (cc_path ch))
            in if skip_integrated out_target arts target ch then Inr [] else change_integrated po w target ch)
      in bind_sum (map_sum_list one (ca_changes c)) (\<lambda>ess. Inr (surface_errors po w root c out arts @ concat ess)))"

definition task_missing :: "string \<Rightarrow> domain_error" where
  "task_missing tid = derror ''task.not_found'' [Txt ''Task '', ReprS tid, Txt '' was not found after mutation.''] (Some tid)"

definition validate_final_state :: "'w ports \<Rightarrow> string \<Rightarrow> string \<Rightarrow> string option \<Rightarrow> candidate option \<Rightarrow> string option \<Rightarrow> string list option \<Rightarrow> 'w effect_run" where
  "validate_final_state po tid expected repo_root cand out arts w =
     (case readable_task (po_read po w) tid of
        None \<Rightarrow> (Inr (fx_refused ''task missing after apply'' (let es = rtr_errors (po_read po w tid) in if es \<noteq> [] then es else [task_missing tid])), w)
      | Some t \<Rightarrow>
          if t_current_state t \<noteq> expected
          then (Inr (fx_refused ''task final state mismatch'' [derror ''transaction.final_state_invalid''
                 [Txt ''Task '', ReprS tid, Txt '' ended in '', ReprS (t_current_state t), Txt '', expected '', ReprS expected, Txt ''.''] (Some tid)]), w)
          else (case (repo_root, cand) of
              (Some root, Some c) \<Rightarrow> (case validate_integrated_source po w root c out arts of
                  Inl x \<Rightarrow> (raised po x, w)
                | Inr es \<Rightarrow> (Inr (if es \<noteq> [] then fx_refused ''integrated deliverable manifest does not match the verified candidate'' es else fx_done), w))
            | _ \<Rightarrow> (Inr fx_done, w)))"

end
