(* ===== verification/Completion.thy ===== *)
theory Completion
  imports Integration Jobs
begin

text \<open>
  \<open>CompletionService.submit\<close> of \<open>runtime/completion.py\<close>: a worker hands in its work; the submission
  is admitted, the workspace sealed, the candidate verified, and an accepted one is delivered in
  one journalled transaction.  Every access to the job store is one step, and between two of
  them other processes may change the store (\<open>cd_meanwhile\<close>): a job may be cancelled while
  it is verified.  The reading of the frozen contract and plan, the verifier and the text of a
  repair packet are parameters.
\<close>

section \<open>Data\<close>

record verification_report =
  vp_classification :: "string option"
  vp_dict :: meta

record verification_result =
  vf_accepted :: bool
  vf_errors :: "domain_error list"
  vf_report :: "verification_report option"

record completion_submission =
  sb_id :: "string option"
  sb_attempt :: "int option"
  sb_summary :: string
  sb_artifacts :: "artifact_submission list"
  sb_changed_files :: "string list"
  sb_evidence :: meta
  sb_review :: "meta option"

record completion_result =
  cm_accepted :: bool
  cm_verification :: "verification_result option"
  cm_errors :: "domain_error list"

record planning_inputs =
  pl_transition :: transition_definition
  pl_source_task :: task
  pl_identities :: "(string \<times> string) list"

record 'w completion_service =
  sv_workflow :: workflow_definition
  sv_ports :: "'w ports"
  sv_capture :: "'w capture_ports"
  sv_artifact_root :: "string option"
  sv_repo_root :: "string option"
  sv_repo_identity :: "string option"
  sv_candidate_root :: "string option"
  sv_max_repairs :: int
  sv_load_contract :: "execution_job \<Rightarrow> domain_error list + frozen_contract option"
  sv_load_planning :: "execution_job \<Rightarrow> pyexc + planning_inputs option"
  sv_verify :: "execution_job \<Rightarrow> completion_submission \<Rightarrow> transition_definition \<Rightarrow> frozen_contract option \<Rightarrow> candidate \<Rightarrow> string
     \<Rightarrow> 'w \<Rightarrow> (string + verification_result) \<times> 'w"
  sv_packet :: "verification_report option \<Rightarrow> domain_error list \<Rightarrow> string"
  sv_digest :: "json \<Rightarrow> string"
  sv_decode :: "string \<Rightarrow> string option"
  sv_yaml :: "string \<Rightarrow> json option"

text \<open>What the steps of one run meet, by the number of the step.\<close>

record completion_draws =
  cd_now :: "nat \<Rightarrow> string"
  cd_ulid :: "nat \<Rightarrow> string"
  cd_job_fate :: "nat \<Rightarrow> write_fate"
  cd_log_fate :: "nat \<Rightarrow> nat \<Rightarrow> write_fate"
  cd_meanwhile :: "nat \<Rightarrow> job_store \<Rightarrow> job_store"
  cd_tx :: tx_env
  cd_duration :: string
  cd_exc :: string

record 'w completion_state =
  st_jobs :: job_store
  st_tx :: "'w tx_state"
  st_clock :: nat

datatype failure = PyRaised pyexc | RaisedText string

type_synonym ('w, 'a) act = "'w completion_state \<Rightarrow> (failure + 'a) \<times> 'w completion_state"

definition TERMINAL_JOB_STATUSES :: "string list" where
  "TERMINAL_JOB_STATUSES = map job_status_value [ACCEPTED, FAILED, STALE, CANCELLED]"

section \<open>Steps\<close>

definition job_step :: "completion_draws \<Rightarrow> (op_env \<Rightarrow> job_store \<Rightarrow> (pyexc + 'a) \<times> job_store) \<Rightarrow> ('w, 'a) act" where
  "job_step d f st = (let n = st_clock st in
     case f \<lparr>env_now = cd_now d n, env_write = cd_job_fate d n\<rparr> (cd_meanwhile d n (st_jobs st)) of
       (r, js) \<Rightarrow> (map_sum PyRaised id r, st\<lparr>st_jobs := js, st_clock := Suc n\<rparr>))"

definition get_step :: "completion_draws \<Rightarrow> string \<Rightarrow> ('w, job_store_result) act" where
  "get_step d jid = job_step d (\<lambda>_ s. (get_job jid s, s))"

definition update_step :: "completion_draws \<Rightarrow> string \<Rightarrow> job_status + string \<Rightarrow> meta \<Rightarrow> ('w, job_store_result) act" where
  "update_step d jid status md = job_step d (\<lambda>env. update_status env jid status md False)"

definition now_step :: "completion_draws \<Rightarrow> ('w, string) act" where
  "now_step d st = (Inr (cd_now d (st_clock st)), st\<lparr>st_clock := Suc (st_clock st)\<rparr>)"

definition world_step :: "('w \<Rightarrow> (failure + 'a) \<times> 'w) \<Rightarrow> ('w, 'a) act" where
  "world_step f st = (case f (tx_world (st_tx st)) of (r, w) \<Rightarrow> (r, st\<lparr>st_tx := (st_tx st)\<lparr>tx_world := w\<rparr>\<rparr>))"

definition look :: "('w \<Rightarrow> 'a) \<Rightarrow> ('w, 'a) act" where
  "look f st = (Inr (f (tx_world (st_tx st))), st)"

definition lift_py :: "pyexc + 'a \<Rightarrow> ('w, 'a) act" where
  "lift_py r st = (map_sum PyRaised id r, st)"

definition event_step :: "completion_draws \<Rightarrow> execution_job \<Rightarrow> string \<Rightarrow> event_actor \<Rightarrow> event_type + string \<Rightarrow> string \<Rightarrow> meta \<Rightarrow> ('w, event_envelope) act" where
  "event_step d job sid actor etype tid data st = (let n = st_clock st in
     (Inr (build_event (cd_ulid d n) (cd_now d n) (j_project_id job) actor etype (j_job_id job) None None (Some tid) (Some (j_job_id job))
        (Some (j_transition_id job)) (Some sid) data), st\<lparr>st_clock := Suc n\<rparr>))"

definition append_step :: "completion_draws \<Rightarrow> event_envelope \<Rightarrow> ('w, event_append_result) act" where
  "append_step d e st = (case append_event (cd_log_fate d (st_clock st)) e (tx_events (st_tx st)) of
     (r, es) \<Rightarrow> (map_sum PyRaised id r, st\<lparr>st_tx := (st_tx st)\<lparr>tx_events := es\<rparr>, st_clock := Suc (st_clock st)\<rparr>))"

definition worker_actor :: "execution_job \<Rightarrow> event_actor" where
  "worker_actor job = \<lparr>actor_type = ''executor'', actor_id = j_worker_id job\<rparr>"

definition system_actor :: "string \<Rightarrow> event_actor" where
  "system_actor i = \<lparr>actor_type = ''system'', actor_id = i\<rparr>"

definition log_step :: "completion_draws \<Rightarrow> execution_job \<Rightarrow> string \<Rightarrow> event_actor \<Rightarrow> event_type + string \<Rightarrow> meta \<Rightarrow> ('w, unit) act" where
  "log_step d job sid actor etype data = andthen (event_step d job sid actor etype (j_task_id job) data) (\<lambda>e.
     andthen (append_step d e) (\<lambda>_. ret ()))"

section \<open>Answers\<close>

definition refusal :: "domain_error list \<Rightarrow> completion_result" where
  "refusal es = \<lparr>cm_accepted = False, cm_verification = None, cm_errors = es\<rparr>"

definition approval :: "verification_result option \<Rightarrow> completion_result" where
  "approval v = \<lparr>cm_accepted = True, cm_verification = v, cm_errors = []\<rparr>"

definition rejection :: "verification_result \<Rightarrow> domain_error list \<Rightarrow> completion_result" where
  "rejection v es = \<lparr>cm_accepted = False, cm_verification = Some v, cm_errors = es\<rparr>"

definition error_json :: "string \<Rightarrow> domain_error \<Rightarrow> json" where
  "error_json exc e = JObj (error_dict exc e)"

definition format_errors :: "string \<Rightarrow> domain_error list \<Rightarrow> string" where
  "format_errors exc es = join ''; '' (map (\<lambda>e. err_code e @ '': '' @ msg_text exc (err_message e)) es)"

definition verification_message :: "string \<Rightarrow> verification_result \<Rightarrow> string" where
  "verification_message exc v = (if vf_accepted v then ''Completion accepted.''
     else join ''; '' (map (\<lambda>e. msg_text exc (err_message e)) (vf_errors v)))"

definition report_json :: "verification_result \<Rightarrow> json" where
  "report_json v = (case vf_report v of None \<Rightarrow> JNull | Some r \<Rightarrow> JObj (vp_dict r))"

section \<open>Submissions on record\<close>

definition submissions_of :: "meta \<Rightarrow> meta" where
  "submissions_of md = (case jget md ''completion_submissions'' (JObj fmempty) of JObj m \<Rightarrow> m | _ \<Rightarrow> fmempty)"

definition prior_submission :: "meta \<Rightarrow> string \<Rightarrow> meta option" where
  "prior_submission md sid = (case fmlookup (submissions_of md) sid of Some (JObj p) \<Rightarrow> Some p | _ \<Rightarrow> None)"

definition record_submission :: "meta \<Rightarrow> string \<Rightarrow> bool \<Rightarrow> json list \<Rightarrow> json" where
  "record_submission md sid accepted feedback = JObj (fmupd sid
     (JObj (fmap_of_list [(''accepted'', JBool accepted), (''feedback'', JList feedback)])) (submissions_of md))"

definition replayed_rejection :: domain_error where
  "replayed_rejection = derror ''completion.replayed_rejection'' [Txt ''Completion submission was already rejected.''] None"

definition feedback_error :: "json \<Rightarrow> domain_error option" where
  "feedback_error j = (case j of
      JObj m \<Rightarrow> Some (derror (py_str (jget m ''code'' (JStr ''completion.replayed_rejection'')))
        [Txt (py_str (jget m ''message'' (JStr ''Completion submission was already rejected.'')))]
        (case jget m ''location'' JNull of JStr l \<Rightarrow> Some l | _ \<Rightarrow> None))
    | _ \<Rightarrow> None)"

definition replayed :: "meta \<Rightarrow> pyexc + completion_result" where
  "replayed prior = (if jget prior ''accepted'' JNull = JBool True then Inr (approval None)
     else bind_sum (py_list (jget prior ''feedback'' (JList []))) (\<lambda>fs.
       let es = List.map_filter feedback_error fs in Inr (refusal (if es \<noteq> [] then es else [replayed_rejection]))))"

section \<open>Rejections\<close>

record repair_plan =
  rp_eligible :: bool
  rp_packet :: "string option"
  rp_reason :: "string option"

definition plan_repair :: "(verification_report option \<Rightarrow> domain_error list \<Rightarrow> string) \<Rightarrow> verification_report option \<Rightarrow> domain_error list \<Rightarrow> int \<Rightarrow> int \<Rightarrow> repair_plan" where
  "plan_repair packet report errors attempts limit =
     (let cls = Option.bind report vp_classification
      in if cls = Some ''baseline_failure'' \<or> cls = Some ''environment_failure'' then \<lparr>rp_eligible = False, rp_packet = None, rp_reason = cls\<rparr>
         else if limit \<le> attempts then \<lparr>rp_eligible = False, rp_packet = None, rp_reason = Some ''repair_limit_reached''\<rparr>
         else \<lparr>rp_eligible = True, rp_packet = Some (packet report errors), rp_reason = None\<rparr>)"

definition completion_error :: "string \<Rightarrow> msg \<Rightarrow> string \<Rightarrow> domain_error" where
  "completion_error c m jid = derror c m (Some jid)"

definition job_terminal :: "execution_job \<Rightarrow> string \<Rightarrow> domain_error" where
  "job_terminal job status = derror ''completion.job_terminal'' [Txt ''Execution job '', ReprS (j_job_id job), Txt '' is terminal: '', Txt status, Txt ''.''] (Some (j_job_id job))"

definition log_ignored :: "completion_draws \<Rightarrow> execution_job \<Rightarrow> string \<Rightarrow> string \<Rightarrow> ('w, unit) act" where
  "log_ignored d job sid status = log_step d job sid (worker_actor job) (Inr ''ExecutionCompletionIgnored'')
     (fmap_of_list [(''reason'', JStr ''terminal_job''), (''status'', JStr status)])"

definition log_rejected :: "completion_draws \<Rightarrow> execution_job \<Rightarrow> string \<Rightarrow> domain_error list \<Rightarrow> ('w, unit) act" where
  "log_rejected d job sid es = log_step d job sid (system_actor ''completion-verifier'') (Inl ExecutionCompletionRejected)
     (fmap_of_list [(''feedback'', JList (map (error_json (cd_exc d)) es))])"

definition repair_metadata :: "completion_draws \<Rightarrow> meta \<Rightarrow> string \<Rightarrow> verification_result \<Rightarrow> domain_error list \<Rightarrow> string \<Rightarrow> repair_plan \<Rightarrow> int \<Rightarrow> json list \<Rightarrow> meta" where
  "repair_metadata d md sid v es message plan attempts history =
     (let entry = JObj (fmap_of_list
            [(''submission_id'', JStr sid), (''classification'', opt_json (Option.bind (vf_report v) vp_classification)),
             (''verification_report'', report_json v), (''error_codes'', JList (map (JStr \<circ> err_code) es)),
             (''repair_ready'', JBool (rp_eligible plan)), (''retry_reason'', opt_json (rp_reason plan))]);
          base = fmap_of_list
            [(''last_verification'', JStr message), (''repair_ready'', JBool (rp_eligible plan)), (''repair_packet'', opt_json (rp_packet plan)),
             (''repair_blocked_reason'', opt_json (rp_reason plan)), (''retry_reason'', opt_json (rp_reason plan)), (''retry_attempt'', JInt attempts),
             (''repair_history'', JList (history @ [entry])),
             (''completion_submissions'', record_submission md sid False (map (error_json (cd_exc d)) es))]
      in if rp_eligible plan then base
         else fmupd ''failure_reason'' (JStr (''completion_rejected:'' @ (case rp_reason plan of None \<Rightarrow> ''None'' | Some r \<Rightarrow> r))) base)"

definition reject_completion :: "completion_draws \<Rightarrow> 'w completion_service \<Rightarrow> execution_job \<Rightarrow> string \<Rightarrow> verification_result \<Rightarrow> domain_error list \<Rightarrow> string
    \<Rightarrow> ('w, completion_result) act" where
  "reject_completion d sv job sid v es message = andthen (get_step d (j_job_id job)) (\<lambda>current.
     let cur = (if jr_accepted current then jr_job current else None);
         status = (case cur of None \<Rightarrow> [] | Some c \<Rightarrow> jstatus_value (j_status c));
         md = (case cur of None \<Rightarrow> j_metadata job | Some c \<Rightarrow> j_metadata c)
     in if cur \<noteq> None \<and> status \<in> set TERMINAL_JOB_STATUSES
        then andthen (log_ignored d job sid status) (\<lambda>_. ret (rejection v [job_terminal job status]))
        else andthen (lift_py (py_int (jget md ''repair_attempts'' (JInt 0)))) (\<lambda>attempts.
          andthen (lift_py (py_list (jget md ''repair_history'' (JList [])))) (\<lambda>history.
          let plan = plan_repair (sv_packet sv) (vf_report v) es attempts (sv_max_repairs sv)
          in andthen (update_step d (j_job_id job) (Inl (if rp_eligible plan then COMPLETION_REJECTED else FAILED))
               (repair_metadata d md sid v es message plan attempts history)) (\<lambda>_.
             andthen (log_rejected d job sid es) (\<lambda>_. ret (rejection v es))))))"

definition capture_metadata :: "completion_draws \<Rightarrow> meta \<Rightarrow> string \<Rightarrow> domain_error list \<Rightarrow> json list \<Rightarrow> meta" where
  "capture_metadata d md sid es history = fmap_of_list
     [(''last_verification'', JStr ''Candidate could not be captured stably.''), (''repair_ready'', JBool True), (''repair_blocked_reason'', JNull),
      (''retry_reason'', JStr ''candidate_capture_failed''),
      (''repair_history'', JList (history @ [JObj (fmap_of_list [(''submission_id'', JStr sid), (''classification'', JStr ''candidate_capture''),
          (''error_codes'', JList (map (JStr \<circ> err_code) es)), (''repair_ready'', JBool True), (''retry_reason'', JStr ''candidate_capture_failed'')])])),
      (''candidate_capture_errors'', JList (map (JStr \<circ> err_code) es)),
      (''completion_submissions'', record_submission md sid False (map (error_json (cd_exc d)) es))]"

definition reject_candidate_capture :: "completion_draws \<Rightarrow> execution_job \<Rightarrow> string \<Rightarrow> domain_error list \<Rightarrow> ('w, completion_result) act" where
  "reject_candidate_capture d job sid es = andthen (get_step d (j_job_id job)) (\<lambda>current.
     let md = (case (if jr_accepted current then jr_job current else None) of None \<Rightarrow> j_metadata job | Some c \<Rightarrow> j_metadata c)
     in andthen (lift_py (py_list (jget md ''repair_history'' (JList [])))) (\<lambda>history.
        andthen (update_step d (j_job_id job) (Inl COMPLETION_REJECTED) (capture_metadata d md sid es history)) (\<lambda>_.
        andthen (log_rejected d job sid es) (\<lambda>_. ret (refusal es)))))"

section \<open>Sealing and verification\<close>

definition candidate_identity :: "'w completion_service \<Rightarrow> execution_job \<Rightarrow> string \<Rightarrow> string" where
  "candidate_identity sv job sid = po_sha256 (sv_ports sv) (''['' @ json_str (j_job_id job) @ '', '' @ json_str sid @ '']'')"

definition storage_root :: "'w completion_service \<Rightarrow> execution_job \<Rightarrow> string" where
  "storage_root sv job = (case sv_candidate_root sv of Some r \<Rightarrow> r | None \<Rightarrow> under (parent_path (j_workspace_path job)) ''.candidates'')"

definition candidate_metadata :: "candidate \<Rightarrow> meta" where
  "candidate_metadata c = fmap_of_list
     [(''active_candidate_id'', JStr (ca_id c)), (''active_candidate_sha256'', JStr (ca_sha256 c)), (''active_candidate_manifest_sha256'', JStr (ca_manifest_sha256 c)),
      (''active_candidate_storage_path'', JStr (ca_storage_path c)), (''active_candidate_changes'', JList (map change_dict (ca_changes c))),
      (''active_candidate_submitted_discrepancy'', opt_json (ca_discrepancy c))]"

definition status_now :: "execution_job \<Rightarrow> job_store_result \<Rightarrow> job_status + string" where
  "status_now job current = (case (if jr_accepted current then jr_job current else None) of None \<Rightarrow> j_status job | Some c \<Rightarrow> j_status c)"

definition capture_completion_candidate :: "completion_draws \<Rightarrow> 'w completion_service \<Rightarrow> execution_job \<Rightarrow> frozen_contract option \<Rightarrow> string \<Rightarrow> completion_submission
    \<Rightarrow> ('w, domain_error list + candidate) act" where
  "capture_completion_candidate d sv job contract sid sub =
     andthen (world_step (\<lambda>w. case capture_candidate (sv_capture sv) (j_workspace_path job) (storage_root sv job) (candidate_identity sv job sid)
         (map_option fc_baseline contract) (sb_changed_files sub) (map_option fc_selection contract) w of (r, w) \<Rightarrow> (map_sum PyRaised id r, w))) (\<lambda>captured.
     case captured of
       Inl es \<Rightarrow> ret (Inl es)
     | Inr (c, _) \<Rightarrow> andthen (get_step d (j_job_id job)) (\<lambda>current.
         andthen (update_step d (j_job_id job) (status_now job current) (candidate_metadata c)) (\<lambda>_. ret (Inr c))))"

definition relative_output_path :: "'w ports \<Rightarrow> 'w \<Rightarrow> execution_job \<Rightarrow> string option" where
  "relative_output_path po w job =
     (let out = as_posix (py_str (jget (j_metadata job) ''output_path'' (JStr (under (j_workspace_path job) ''output''))))
      in case relative_to (po_resolve po w (j_workspace_path job)) (po_resolve po w out) of
          Some r \<Rightarrow> if r = ''.'' then None else Some r | None \<Rightarrow> None)"

definition finished_data :: "bool \<Rightarrow> string \<Rightarrow> string list \<Rightarrow> string option \<Rightarrow> verification_report option \<Rightarrow> meta" where
  "finished_data accepted duration codes detail report =
     (let base = fmap_of_list [(''accepted'', JBool accepted), (''duration_seconds'', JFloat duration), (''error_codes'', JList (map JStr codes)), (''error_count'', JInt (int (length codes)))];
          more' = (case detail of None \<Rightarrow> base | Some t \<Rightarrow> fmupd ''detail'' (JStr t) base)
      in case report of None \<Rightarrow> more' | Some r \<Rightarrow> fmupd ''verification_report'' (JObj (vp_dict r)) more')"

definition record_validation_finished :: "completion_draws \<Rightarrow> execution_job \<Rightarrow> string \<Rightarrow> bool \<Rightarrow> string list \<Rightarrow> string option \<Rightarrow> verification_report option \<Rightarrow> ('w, unit) act" where
  "record_validation_finished d job sid accepted codes detail report =
     andthen (log_step d job sid (system_actor ''completion-verifier'') (Inr ''ExecutionCompletionValidationFinished'')
        (finished_data accepted (cd_duration d) codes detail report)) (\<lambda>_.
     andthen (get_step d (j_job_id job)) (\<lambda>current. case jr_job current of
         None \<Rightarrow> ret ()
       | Some c \<Rightarrow> andthen (now_step d) (\<lambda>now.
           let base = fmap_of_list [(''completion_validation_finished_at'', JStr now), (''completion_validation_duration_seconds'', JFloat (cd_duration d)),
                  (''completion_validation_error_codes'', JList (map JStr codes)), (''completion_validation_error_count'', JInt (int (length codes)))]
           in andthen (update_step d (j_job_id job) (j_status c)
                (case report of None \<Rightarrow> base | Some r \<Rightarrow> fmupd ''verification_report'' (JObj (vp_dict r)) base)) (\<lambda>_. ret ()))))"

definition bad_output :: string where
  "bad_output = ''Artifact output must be a directory within the captured workspace.''"

text \<open>The verification with its handler: an exception is recorded and raised again.\<close>

definition verify_candidate :: "completion_draws \<Rightarrow> 'w completion_service \<Rightarrow> execution_job \<Rightarrow> string \<Rightarrow> completion_submission \<Rightarrow> transition_definition \<Rightarrow> frozen_contract option
    \<Rightarrow> candidate \<Rightarrow> ('w, verification_result \<times> string) act" where
  "verify_candidate d sv job sid sub tr contract c =
     andthen (world_step (\<lambda>w. case relative_output_path (sv_ports sv) w job of
         None \<Rightarrow> (Inr (Inl bad_output), w)
       | Some out \<Rightarrow> (case sv_verify sv job sub tr contract c out w of (r, w) \<Rightarrow> (Inr (map_sum id (\<lambda>v. (v, out)) r), w)))) (\<lambda>r.
     case r of
       Inl text' \<Rightarrow> andthen (record_validation_finished d job sid False [''completion.validation_exception''] (Some text') None) (\<lambda>_. raising (RaisedText text'))
     | Inr (v, out) \<Rightarrow> andthen (record_validation_finished d job sid (vf_accepted v) (map err_code (vf_errors v)) None (vf_report v)) (\<lambda>_. ret (v, out)))"

end
