(* ===== verification/Submission.thy ===== *)
theory Submission
  imports Completion
begin

text \<open>
  The delivery of a verified candidate and the whole of \<open>CompletionService.submit\<close>
  (\<open>runtime/completion.py\<close>).  The constructor always sets a journal store, so the branch
  without one is never taken; the lock around the planning of derived tasks is not modelled.
\<close>

unbundle bit_operations_syntax

section \<open>What an acceptance writes\<close>

definition artifact_event_data :: "meta \<Rightarrow> meta" where
  "artifact_event_data p = fmap_of_list [(''artifact_type'', jget p ''artifact_type'' JNull), (''source_path'', jget p ''source_path'' JNull), (''target_path'', jget p ''target_path'' JNull)]"

definition derived_event_data :: "string \<Rightarrow> planned_task \<Rightarrow> meta" where
  "derived_event_data parent p = fmap_of_list [(''parent_id'', JStr parent), (''state'', JStr (t_current_state (pn_task p))), (''task_type'', JStr (t_task_type (pn_task p)))]"

text \<open>The actor, the type, the task and the data of each event, in order.\<close>

type_synonym event_spec = "event_actor \<times> (event_type + string) \<times> string \<times> meta"

definition acceptance_events :: "execution_job \<Rightarrow> transition_definition \<Rightarrow> string \<Rightarrow> string \<Rightarrow> meta list \<Rightarrow> planned_task list \<Rightarrow> event_spec list" where
  "acceptance_events job tr to_state summary promoted derived =
     (let rt = system_actor ''task-manager-runtime''; tid = j_task_id job;
          moved = [(''from_state'', JStr (td_from_state tr)), (''to_state'', JStr to_state)]
      in [(system_actor ''completion-verifier'', Inl TransitionAccepted, tid, fmap_of_list moved),
          (rt, Inl TaskMoved, tid, fmap_of_list (moved @ [(''reason'', JStr ''completion_accepted'')]))]
       @ map (\<lambda>p. (rt, Inl ArtifactWritten, tid, artifact_event_data p)) promoted
       @ map (\<lambda>p. (rt, Inl TaskDerived, t_id (pn_task p), derived_event_data tid p)) derived
       @ [(rt, Inl ReviewRequested, tid, fmap_of_list [(''summary'', JStr summary)]),
          (rt, Inl ExecutionFinished, tid, fmap_of_list [(''accepted'', JBool True)])])"

fun build_events :: "completion_draws \<Rightarrow> execution_job \<Rightarrow> string \<Rightarrow> event_spec list \<Rightarrow> ('w, event_envelope list) act" where
  "build_events d job sid [] = ret []"
| "build_events d job sid ((actor, ty, tid, data) # rest) = andthen (event_step d job sid actor ty tid data) (\<lambda>e.
     andthen (build_events d job sid rest) (\<lambda>es. ret (e # es)))"

definition move_task_effect :: "string \<Rightarrow> string \<Rightarrow> meta" where
  "move_task_effect tid to_state = fmap_of_list [(''type'', JStr ''move_task''), (''task_id'', JStr tid), (''to_state'', JStr to_state)]"

definition artifact_task_effect :: "string \<Rightarrow> meta \<Rightarrow> meta" where
  "artifact_task_effect tid p = fmupd ''type'' (JStr ''promote_artifact'') (fmupd ''task_id'' (JStr tid) p)"

definition create_task_effect :: "planned_task \<Rightarrow> meta" where
  "create_task_effect p = fmap_of_list [(''type'', JStr ''create_task''), (''task'', task_to_dict (pn_task p))]"

definition link_task_effect :: "string \<Rightarrow> planned_task list \<Rightarrow> meta" where
  "link_task_effect tid derived = fmap_of_list [(''type'', JStr ''link_derived_tasks''), (''parent_id'', JStr tid),
     (''child_links'', JList (map (JStr \<circ> pn_link) derived))]"

definition acceptance_effects :: "string \<Rightarrow> string \<Rightarrow> meta list \<Rightarrow> meta option \<Rightarrow> meta list \<Rightarrow> planned_task list \<Rightarrow> meta list" where
  "acceptance_effects tid to_state files commit promoted derived =
     files @ (case commit of None \<Rightarrow> [] | Some e \<Rightarrow> [e]) @ map (artifact_task_effect tid) promoted
   @ map create_task_effect derived @ (if derived = [] then [] else [link_task_effect tid derived]) @ [move_task_effect tid to_state]"

text \<open>The metadata an accepted job gets; the identity of the commit comes on top of it.\<close>

definition acceptance_metadata :: "'w completion_service \<Rightarrow> execution_job \<Rightarrow> string \<Rightarrow> completion_submission \<Rightarrow> meta list \<Rightarrow> meta list \<Rightarrow> meta" where
  "acceptance_metadata sv job sid sub promoted files =
     (let base = fmap_of_list
        [(''completed_submission_id'', JStr sid), (''promoted_artifacts'', JList (map JObj promoted)), (''promoted_files'', JList (map JObj files)),
         (''acceptance_transaction_id'', JStr (j_job_id job @ ''-'' @ sid)), (''acceptance_repository_identity'', opt_json (sv_repo_identity sv)),
         (''completion_submissions'', record_submission (j_metadata job) sid True [])]
      in case sb_review sub of None \<Rightarrow> base | Some r \<Rightarrow> fmupd ''review_result'' (JObj r) base)"

definition acceptance_task_revision :: "'w completion_service \<Rightarrow> 'w \<Rightarrow> execution_job \<Rightarrow> frozen_contract option \<Rightarrow> pyexc + string" where
  "acceptance_task_revision sv w job contract = bind_sum (sv_load_planning sv job) (\<lambda>planning. case (contract, planning) of
      (Some fc, _) \<Rightarrow> Inr (task_semantic_revision (sv_digest sv) (fc_source_task fc) (fc_identities fc))
    | (None, Some p) \<Rightarrow> Inr (task_semantic_revision (sv_digest sv) (pl_source_task p) (pl_identities p))
    | (None, None) \<Rightarrow> (case rtr_task (po_read (sv_ports sv) w (j_task_id job)) of
        None \<Rightarrow> Inl AttributeErr | Some t \<Rightarrow> Inr (task_semantic_revision (sv_digest sv) t [])))"

definition base_commit_of :: "'w ports \<Rightarrow> 'w \<Rightarrow> string \<Rightarrow> string option" where
  "base_commit_of po w root = (case po_snapshot po w root of ([], Some s) \<Rightarrow> rs_base_commit s | _ \<Rightarrow> None)"

text \<open>The tree the commit must have, computed on a private index: the tree of the base with the
  changes of the candidate in it.  The modes in the effects are those the plan wrote.\<close>

definition git_tree_mode :: "json \<Rightarrow> string" where
  "git_tree_mode m = (case m of JInt v \<Rightarrow> if v AND 73 \<noteq> 0 then ''100755'' else ''100644'' | _ \<Rightarrow> ''100644'')"

definition index_change :: "'w ports \<Rightarrow> 'w \<Rightarrow> string \<Rightarrow> string list list \<Rightarrow> meta \<Rightarrow> string list list option" where
  "index_change po w root cmds e = (case relative_to root (path_at e ''target_path'') of
      None \<Rightarrow> Some cmds
    | Some rel \<Rightarrow>
        if jget e ''type'' JNull = JStr ''promote_changed_file''
        then (let hash = [''hash-object'', ''-w'', path_at e ''source_path'']; h = po_index_git po w cmds hash; blob = strip (gr_stdout h)
          in if gr_code h \<noteq> 0 \<or> blob = [] then None
             else let add' = [''update-index'', ''--cacheinfo'', git_tree_mode (jget e ''expected_after_mode'' JNull) @ '','' @ blob @ '','' @ rel]
               in if gr_code (po_index_git po w (cmds @ [hash]) add') \<noteq> 0 then None else Some (cmds @ [hash, add']))
        else if jget e ''type'' JNull = JStr ''delete_changed_file'' then Some (cmds @ [[''update-index'', ''--force-remove'', rel]])
        else Some cmds)"

fun index_changes :: "'w ports \<Rightarrow> 'w \<Rightarrow> string \<Rightarrow> string list list \<Rightarrow> meta list \<Rightarrow> string list list option" where
  "index_changes po w root cmds [] = Some cmds"
| "index_changes po w root cmds (e # es) = (case index_change po w root cmds e of
      None \<Rightarrow> None | Some cmds' \<Rightarrow> index_changes po w root cmds' es)"

definition intended_commit_tree :: "'w ports \<Rightarrow> 'w \<Rightarrow> string \<Rightarrow> string \<Rightarrow> meta list \<Rightarrow> string option" where
  "intended_commit_tree po w repo_root base effects = (let root = po_resolve po w repo_root; start = [''read-tree'', base]
     in if base \<noteq> [] \<and> gr_code (po_index_git po w [] start) \<noteq> 0 then None
        else case index_changes po w root (if base \<noteq> [] then [start] else []) effects of
            None \<Rightarrow> None
          | Some cmds \<Rightarrow> (let t = po_index_git po w cmds [''write-tree'']
              in if gr_code t \<noteq> 0 \<or> strip (gr_stdout t) = [] then None else Some (strip (gr_stdout t))))"

definition commit_context :: "'w ports \<Rightarrow> 'w \<Rightarrow> string \<Rightarrow> string option \<Rightarrow> meta list \<Rightarrow> meta \<Rightarrow> json" where
  "commit_context po w root base effects commit = JObj (fmap_of_list
     [(''message'', JStr (text_at commit ''message'')), (''paths'', jget commit ''paths'' (JList [])), (''expected_outcome'', JStr ''committed''),
      (''repository_base_commit'', opt_json base),
      (''intended_tree'', opt_json (case base of None \<Rightarrow> None | Some b \<Rightarrow> intended_commit_tree po w root b effects))])"

record acceptance =
  ac_effects :: "meta list"
  ac_commit :: "meta option"
  ac_candidate :: candidate
  ac_out :: string
  ac_artifact_paths :: "string list"
  ac_destinations :: "string list"
  ac_to_state :: string
  ac_from_state :: string
  ac_context :: meta

definition journal_context :: "'w completion_service \<Rightarrow> 'w \<Rightarrow> acceptance \<Rightarrow> meta" where
  "journal_context sv w a =
     (let c = ac_candidate a; po = sv_ports sv;
          m1 = ac_context a ++\<^sub>f fmap_of_list [(''candidate'', JObj (candidate_dict c)), (''candidate_id'', JStr (ca_id c)), (''candidate_sha256'', JStr (ca_sha256 c)),
                 (''candidate_manifest_sha256'', JStr (ca_manifest_sha256 c)), (''candidate_storage_path'', JStr (ca_storage_path c))]
               ++\<^sub>f fmap_of_list [(''expected_previous_state'', JStr (ac_from_state a)), (''expected_to_state'', JStr (ac_to_state a)),
                 (''artifact_destinations'', JList (map JStr (ac_destinations a)))];
          m2 = (case sv_repo_identity sv of None \<Rightarrow> m1 | Some i \<Rightarrow> fmupd ''repository_identity'' (JStr i) m1)
      in case sv_repo_root sv of None \<Rightarrow> m2
         | Some root \<Rightarrow> (let base = base_commit_of po w root; m3 = fmupd ''repository_base_commit'' (opt_json base) m2
             in case ac_commit a of None \<Rightarrow> m3 | Some e \<Rightarrow> fmupd ''commit'' (commit_context po w root base (ac_effects a) e) m3))"

definition completion_runtime :: "'w completion_service \<Rightarrow> string \<Rightarrow> acceptance \<Rightarrow> 'w tx_runtime" where
  "completion_runtime sv tid a = \<lparr>rt_apply = apply_effect (sv_ports sv) (sv_repo_root sv), rt_compensate = Some (compensate_effect (sv_ports sv)),
     rt_validate = Some (validate_final_state (sv_ports sv) tid (ac_to_state a) (sv_repo_root sv) (Some (ac_candidate a)) (Some (ac_out a)) (Some (ac_artifact_paths a)))\<rparr>"

definition completion_request :: "'w completion_service \<Rightarrow> 'w \<Rightarrow> execution_job \<Rightarrow> string \<Rightarrow> acceptance \<Rightarrow> event_envelope list \<Rightarrow> tx_request" where
  "completion_request sv w job sid a events = \<lparr>tq_project = j_project_id job, tq_effects = ac_effects a, tq_events = events,
     tq_journal_id = Some (j_job_id job @ ''-'' @ sid), tq_task = Some (j_task_id job), tq_transition = Some (j_transition_id job),
     tq_context = journal_context sv w a\<rparr>"

definition apply_acceptance :: "completion_draws \<Rightarrow> 'w completion_service \<Rightarrow> execution_job \<Rightarrow> string \<Rightarrow> acceptance \<Rightarrow> event_envelope list \<Rightarrow> ('w, tx_result) act" where
  "apply_acceptance d sv job sid a events st =
     (case tx_apply (cd_tx d) (completion_runtime sv (j_task_id job) a) (completion_request sv (tx_world (st_tx st)) job sid a events) (st_tx st) of
       (r, tx) \<Rightarrow> (map_sum PyRaised id r, st\<lparr>st_tx := tx\<rparr>))"

section \<open>The delivery\<close>

definition completion_env :: "'w completion_service \<Rightarrow> 'w \<Rightarrow> string \<Rightarrow> artifact_submission list \<Rightarrow> meta list \<Rightarrow> derive_env" where
  "completion_env sv w output_dir artifacts promoted = \<lparr>de_load = sv_yaml sv,
     de_read = (\<lambda>p. case file_bytes (po_at (sv_ports sv) w (under output_dir p)) of None \<Rightarrow> NoFile
        | Some c \<Rightarrow> (case sv_decode sv c of None \<Rightarrow> NotUtf8 | Some t \<Rightarrow> FileText t)),
     de_location = under output_dir,
     de_links = map_of (rev (map2 (\<lambda>a p. ((as_type a, as_path a), text_at p ''link'')) artifacts promoted))\<rparr>"

definition existing_task_ids :: "'w ports \<Rightarrow> 'w \<Rightarrow> string \<Rightarrow> domain_error list + string list" where
  "existing_task_ids po w tid = (let loaded = po_load po w in if lp_errors loaded \<noteq> [] then Inl (lp_errors loaded)
     else case lp_snapshot loaded of
         None \<Rightarrow> Inl [derror ''project.snapshot_missing'' [Txt ''Adapter returned no project snapshot.''] (Some tid)]
       | Some s \<Rightarrow> Inr (map fst (snap_tasks s)))"

definition shadowed_artifacts :: "'w completion_service \<Rightarrow> 'w \<Rightarrow> frozen_contract option \<Rightarrow> string list \<Rightarrow> string list" where
  "shadowed_artifacts sv w contract paths =
     (let baseline = (case contract of None \<Rightarrow> [] | Some fc \<Rightarrow> map me_path (mf_entries (fc_baseline fc)))
      in filter (\<lambda>p. p \<in> set baseline \<or> (case sv_repo_root sv of None \<Rightarrow> False | Some root \<Rightarrow> po_at (sv_ports sv) w (under root p) \<noteq> Absent)) paths)"

definition effective_to_state :: "transition_definition \<Rightarrow> planned_task list \<Rightarrow> string" where
  "effective_to_state tr derived = (case td_derives tr of None \<Rightarrow> td_to_state tr
     | Some dd \<Rightarrow> if derived = [] then td_to_state tr else (case dd_parent_to_if_derived dd of None \<Rightarrow> td_to_state tr | Some s \<Rightarrow> s))"

text \<open>The plan of a delivery, or the reasons to reject it; everything is read from one world.\<close>

record delivery_plan =
  dp_promoted :: "meta list"
  dp_files :: "meta list"
  dp_commit :: "meta option"
  dp_derived :: "planned_task list"
  dp_artifact_paths :: "string list"

definition derive_children :: "'w completion_service \<Rightarrow> 'w \<Rightarrow> execution_job \<Rightarrow> transition_definition \<Rightarrow> string \<Rightarrow> artifact_submission list \<Rightarrow> meta list
    \<Rightarrow> domain_error list + planned_task list" where
  "derive_children sv w job tr output_dir artifacts promoted =
     bind_sum (if td_derives tr = None then Inr [] else existing_task_ids (sv_ports sv) w (j_task_id job)) (\<lambda>ids.
       derived_task_plan (completion_env sv w output_dir artifacts promoted) tr artifacts (j_task_id job) ids (Some (sv_workflow sv)))"

definition plan_delivery :: "'w completion_service \<Rightarrow> 'w \<Rightarrow> execution_job \<Rightarrow> completion_submission \<Rightarrow> transition_definition \<Rightarrow> frozen_contract option \<Rightarrow> candidate \<Rightarrow> string
    \<Rightarrow> pyexc + (domain_error list + delivery_plan)" where
  "plan_delivery sv w job sub tr contract c out =
     (let po = sv_ports sv; output_dir = under (ca_storage_path c) out; artifacts = sb_artifacts sub;
          paths = map (\<lambda>a. under out (as_path a)) artifacts; shadowed = shadowed_artifacts sv w contract paths;
          existing = rtr_task (po_read po w (j_task_id job))
      in if shadowed \<noteq> [] then Inr (Inl [derror ''completion.artifact_source_conflict''
             [Txt ''Submitted artifacts overlap repository source; use separate artifact paths: '', Txt (join '', '' shadowed)] None])
         else bind_sum (promotion_plan po w (sv_artifact_root sv) output_dir (j_task_id job) artifacts existing) (\<lambda>promoted.
           let files = candidate_change_plan po w (sv_repo_root sv) (ca_storage_path c) (ca_changes c) (Some out) (Some paths);
               commit = commit_plan po w (sv_repo_root sv) files existing;
               stale = check_integration_target po w (sv_repo_root sv) (sv_repo_identity sv) contract
           in if stale \<noteq> [] then Inr (Inl stale)
              else Inr (bind_sum (derive_children sv w job tr output_dir artifacts promoted) (\<lambda>derived.
                Inr \<lparr>dp_promoted = promoted, dp_files = files, dp_commit = commit, dp_derived = derived, dp_artifact_paths = paths\<rparr>))))"

definition accepted_commit_sha :: "'w ports \<Rightarrow> string option \<Rightarrow> 'w \<Rightarrow> string option \<times> 'w" where
  "accepted_commit_sha po repo_root w = (case repo_root of None \<Rightarrow> (None, w)
     | Some root \<Rightarrow> if po_at po w (under root ''.git'') = Absent then (None, w)
         else (case po_git po [''git'', ''rev-parse'', ''--verify'', ''HEAD''] w of (r, w) \<Rightarrow>
           (if gr_code r \<noteq> 0 \<or> strip (gr_stdout r) = [] then None else Some (strip (gr_stdout r)), w)))"

definition settle_accepted :: "completion_draws \<Rightarrow> 'w completion_service \<Rightarrow> execution_job \<Rightarrow> string \<Rightarrow> completion_submission \<Rightarrow> delivery_plan \<Rightarrow> verification_result
    \<Rightarrow> ('w, completion_result) act" where
  "settle_accepted d sv job sid sub p v =
     andthen (world_step (\<lambda>w. map_prod Inr id (accepted_commit_sha (sv_ports sv) (sv_repo_root sv) w))) (\<lambda>sha.
       let md = acceptance_metadata sv job sid sub (dp_promoted p) (dp_files p);
           md' = (if sv_repo_root sv = None then md else fmupd ''acceptance_repository_commit'' (opt_json sha) md)
       in andthen (update_step d (j_job_id job) (Inl ACCEPTED) md') (\<lambda>_. ret (approval (Some v))))"

definition settle_failed :: "completion_draws \<Rightarrow> execution_job \<Rightarrow> string \<Rightarrow> verification_result \<Rightarrow> domain_error \<Rightarrow> ('w, completion_result) act" where
  "settle_failed d job sid v e =
     andthen (log_step d job sid (system_actor ''task-manager-runtime'') (Inr ''ExecutionCompletionAcceptanceFailed'')
        (fmap_of_list [(''message'', JStr (msg_text (cd_exc d) (err_message e))), (''error_codes'', JList [JStr (err_code e)])])) (\<lambda>_.
     andthen (update_step d (j_job_id job) (Inl FAILED) (fmap_of_list [(''completion_error'', JStr (msg_text (cd_exc d) (err_message e)))])) (\<lambda>_.
     ret (rejection v [e])))"

definition acceptance_of :: "'w completion_service \<Rightarrow> execution_job \<Rightarrow> string \<Rightarrow> completion_submission \<Rightarrow> transition_definition \<Rightarrow> candidate \<Rightarrow> string \<Rightarrow> verification_result
    \<Rightarrow> delivery_plan \<Rightarrow> string \<Rightarrow> acceptance" where
  "acceptance_of sv job sid sub tr c out v p revn =
     (let to_state = effective_to_state tr (dp_derived p)
      in \<lparr>ac_effects = acceptance_effects (j_task_id job) to_state (dp_files p) (dp_commit p) (dp_promoted p) (dp_derived p),
          ac_commit = dp_commit p, ac_candidate = c, ac_out = out, ac_artifact_paths = dp_artifact_paths p,
          ac_destinations = map target_text (dp_promoted p), ac_to_state = to_state, ac_from_state = td_from_state tr,
          ac_context = fmap_of_list
            [(''job_id'', JStr (j_job_id job)), (''task_revision'', JStr revn), (''verification_accepted'', JBool (vf_accepted v)), (''verification_report'', report_json v),
             (''submission_id'', JStr sid), (''output_relative'', JStr out), (''artifact_paths'', JList (map JStr (dp_artifact_paths p))),
             (''acceptance_metadata'', JObj (acceptance_metadata sv job sid sub (dp_promoted p) (dp_files p)))]\<rparr>)"

definition transaction_failed :: domain_error where
  "transaction_failed = derror ''transaction.failed'' [Txt ''Completion transaction failed.''] None"

definition deliver :: "completion_draws \<Rightarrow> 'w completion_service \<Rightarrow> execution_job \<Rightarrow> string \<Rightarrow> completion_submission \<Rightarrow> transition_definition \<Rightarrow> frozen_contract option
    \<Rightarrow> candidate \<Rightarrow> verification_result \<Rightarrow> string \<Rightarrow> ('w, completion_result) act" where
  "deliver d sv job sid sub tr contract c v out =
     andthen (andthen (look (\<lambda>w. plan_delivery sv w job sub tr contract c out)) lift_py) (\<lambda>planned. case planned of
       Inl es \<Rightarrow> reject_completion d sv job sid v es (format_errors (cd_exc d) es)
     | Inr p \<Rightarrow>
         andthen (build_events d job sid (acceptance_events job tr (effective_to_state tr (dp_derived p)) (sb_summary sub) (dp_promoted p) (dp_derived p))) (\<lambda>events.
         andthen (andthen (look (\<lambda>w. acceptance_task_revision sv w job contract)) lift_py) (\<lambda>revn.
         andthen (apply_acceptance d sv job sid (acceptance_of sv job sid sub tr c out v p revn) events) (\<lambda>applied.
           if tr_accepted applied then settle_accepted d sv job sid sub p v
           else settle_failed d job sid v (case tr_error applied of Some e \<Rightarrow> e | None \<Rightarrow> transaction_failed)))))"

section \<open>The submission\<close>

definition artifact_json :: "artifact_submission \<Rightarrow> json" where
  "artifact_json a = JObj (put_opt ''sha256'' (as_sha256 a) (fmap_of_list [(''type'', JStr (as_type a)), (''path'', JStr (as_path a))]))"

definition submission_data :: "completion_submission \<Rightarrow> meta" where
  "submission_data sub =
     (let base = fmap_of_list [(''summary'', JStr (sb_summary sub)), (''attempt'', opt_int (sb_attempt sub)), (''artifacts'', JList (map artifact_json (sb_artifacts sub))),
            (''changed_files'', JList (map JStr (sb_changed_files sub))), (''validation_evidence'', JObj (sb_evidence sub))]
      in case sb_review sub of None \<Rightarrow> base | Some r \<Rightarrow> fmupd ''review_result'' (JObj r) base)"

definition started_data :: "transition_definition \<Rightarrow> completion_submission \<Rightarrow> meta" where
  "started_data tr sub = fmap_of_list [(''validations'', JList (map (JStr \<circ> vc_type) (rd_validations (td_requires tr)))),
     (''changed_files'', JList (map JStr (sb_changed_files sub))), (''artifact_count'', JInt (int (length (sb_artifacts sub))))]"

definition captured_data :: "candidate \<Rightarrow> meta" where
  "captured_data c = fmap_of_list [(''candidate_id'', JStr (ca_id c)), (''candidate_sha256'', JStr (ca_sha256 c)), (''manifest_sha256'', JStr (ca_manifest_sha256 c)),
     (''change_count'', JInt (int (length (ca_changes c)))), (''changed_files'', JList (map (JStr \<circ> cc_path) (ca_changes c))),
     (''submitted_discrepancy'', opt_json (ca_discrepancy c))]"

definition begin_validation :: "completion_draws \<Rightarrow> execution_job \<Rightarrow> string \<Rightarrow> completion_submission \<Rightarrow> transition_definition \<Rightarrow> ('w, unit) act" where
  "begin_validation d job sid sub tr =
     andthen (log_step d job sid (worker_actor job) (Inl ExecutionCompletionSubmitted) (submission_data sub)) (\<lambda>_.
     andthen (now_step d) (\<lambda>t1. andthen (now_step d) (\<lambda>t2.
     andthen (update_step d (j_job_id job) (Inl COMPLETION_SUBMITTED) (fmap_of_list
        [(''active_submission_id'', JStr sid), (''completion_submitted_at'', JStr t1), (''completion_validation_started_at'', JStr t2)])) (\<lambda>_.
     log_step d job sid (system_actor ''completion-verifier'') (Inr ''ExecutionCompletionValidationStarted'') (started_data tr sub)))))"

definition process :: "completion_draws \<Rightarrow> 'w completion_service \<Rightarrow> execution_job \<Rightarrow> string \<Rightarrow> completion_submission \<Rightarrow> transition_definition \<Rightarrow> frozen_contract option
    \<Rightarrow> ('w, completion_result) act" where
  "process d sv job sid sub tr contract =
     andthen (begin_validation d job sid sub tr) (\<lambda>_.
     andthen (capture_completion_candidate d sv job contract sid sub) (\<lambda>captured. case captured of
       Inl es \<Rightarrow> reject_candidate_capture d job sid es
     | Inr c \<Rightarrow>
         andthen (log_step d job sid (system_actor ''completion-verifier'') (Inr ''ExecutionCompletionCandidateCaptured'') (captured_data c)) (\<lambda>_.
         andthen (verify_candidate d sv job sid sub tr contract c) (\<lambda>(v, out).
           if \<not> vf_accepted v then reject_completion d sv job sid v (vf_errors v) (verification_message (cd_exc d) v)
           else deliver d sv job sid sub tr contract c v out))))"

definition token_rejected :: "execution_job \<Rightarrow> string option \<Rightarrow> bool" where
  "token_rejected job token \<longleftrightarrow> (let expected = jget (j_metadata job) ''completion_token'' JNull in expected \<noteq> JNull \<and> opt_json token \<noteq> expected)"

definition frozen_transition :: "'w completion_service \<Rightarrow> execution_job \<Rightarrow> frozen_contract option \<Rightarrow> planning_inputs option \<Rightarrow> transition_definition option" where
  "frozen_transition sv job contract planning = (case (contract, planning) of
      (Some fc, _) \<Rightarrow> Some (fc_transition fc) | (None, Some p) \<Rightarrow> Some (pl_transition p)
    | (None, None) \<Rightarrow> dict_get (wf_transitions (sv_workflow sv)) (j_transition_id job))"

definition review_errors :: "transition_definition \<Rightarrow> completion_submission \<Rightarrow> pyexc + domain_error list" where
  "review_errors tr sub = (if is_review_transition tr then validate_review_result (case sb_review sub of None \<Rightarrow> JNull | Some m \<Rightarrow> JObj m) else Inr [])"

text \<open>The frozen inputs of an admitted submission: the errors that refuse it, or the transition and
  the contract.\<close>

definition frozen_inputs :: "'w completion_service \<Rightarrow> execution_job \<Rightarrow> completion_submission \<Rightarrow> pyexc + (domain_error list + transition_definition \<times> frozen_contract option)" where
  "frozen_inputs sv job sub = (case sv_load_contract sv job of
      Inl es \<Rightarrow> Inr (Inl es)
    | Inr contract \<Rightarrow> (case sv_load_planning sv job of
        Inl x \<Rightarrow> if x \<in> {ValueErr, TypeErr, KeyErr} then Inr (Inl [derror ''prompt.frozen_invalid'' [ExcText] (Some (j_job_id job))]) else Inl x
      | Inr planning \<Rightarrow> (case frozen_transition sv job contract planning of
          None \<Rightarrow> Inr (Inl [derror ''transition.not_found'' [Txt ''Transition '', ReprS (j_transition_id job), Txt '' is not defined.''] (Some (j_transition_id job))])
        | Some tr \<Rightarrow> bind_sum (review_errors tr sub) (\<lambda>es. Inr (if es \<noteq> [] then Inl es else Inr (tr, contract))))))"

definition in_progress :: "execution_job \<Rightarrow> domain_error" where
  "in_progress job = derror ''completion.in_progress'' [Txt ''Execution job '', ReprS (j_job_id job),
     Txt '' already has a completion being validated. Remain active and wait for final completion feedback; do not exit successfully yet.''] (Some (j_job_id job))"

definition identity_mismatch :: "string \<Rightarrow> domain_error" where
  "identity_mismatch jid = derror ''completion.identity_mismatch'' [Txt ''Completion token does not match the job context.''] (Some jid)"

definition submit_new :: "completion_draws \<Rightarrow> 'w completion_service \<Rightarrow> string \<Rightarrow> execution_job \<Rightarrow> string \<Rightarrow> completion_submission \<Rightarrow> string option \<Rightarrow> ('w, completion_result) act" where
  "submit_new d sv jid job sid sub token = (let status = jstatus_value (j_status job) in
     if status = job_status_value ACCEPTED then ret (approval None)
     else if status = job_status_value COMPLETION_SUBMITTED then ret (refusal [in_progress job])
     else if status \<in> set TERMINAL_JOB_STATUSES then andthen (log_ignored d job sid status) (\<lambda>_. ret (refusal [job_terminal job status]))
     else if token_rejected job token
     then andthen (log_step d job sid (worker_actor job) (Inr ''ExecutionCompletionForbidden'') (fmap_of_list [(''reason'', JStr ''identity_mismatch'')])) (\<lambda>_.
            ret (refusal [identity_mismatch jid]))
     else andthen (lift_py (frozen_inputs sv job sub)) (\<lambda>inputs. case inputs of
         Inl es \<Rightarrow> ret (refusal es)
       | Inr (tr, contract) \<Rightarrow> process d sv job sid sub tr contract))"

definition submission_id_step :: "completion_draws \<Rightarrow> completion_submission \<Rightarrow> ('w, string) act" where
  "submission_id_step d sub st = (case sb_id sub of
      Some i \<Rightarrow> if i \<noteq> [] then (Inr i, st) else (Inr (cd_ulid d (st_clock st)), st\<lparr>st_clock := Suc (st_clock st)\<rparr>)
    | None \<Rightarrow> (Inr (cd_ulid d (st_clock st)), st\<lparr>st_clock := Suc (st_clock st)\<rparr>))"

definition submit :: "completion_draws \<Rightarrow> 'w completion_service \<Rightarrow> string \<Rightarrow> completion_submission \<Rightarrow> string option \<Rightarrow> ('w, completion_result) act" where
  "submit d sv jid sub token = andthen (get_step d jid) (\<lambda>loaded. case jr_job loaded of
      None \<Rightarrow> ret (refusal [case jr_error loaded of Some e \<Rightarrow> e | None \<Rightarrow> derror ''job.not_found'' [Txt ''Job was not found.''] None])
    | Some job \<Rightarrow> andthen (submission_id_step d sub) (\<lambda>sid. case prior_submission (j_metadata job) sid of
        Some prior \<Rightarrow> lift_py (replayed prior)
      | None \<Rightarrow> submit_new d sv jid job sid sub token))"

end
