(* ===== verification/Recovery.thy ===== *)
theory Recovery
  imports Submission
begin

text \<open>
  \<open>recover_completion_transactions\<close> of \<open>runtime/completion.py\<close>: after a crash, each journal is
  examined effect by effect; effects already in place are passed over, the others are carried
  out, and an intervening change of a user stops the recovery of that journal.  A stored
  candidate is read back from the JSON of the journal; its fields, and \<open>output_relative\<close> and
  \<open>artifact_paths\<close> of the context, are taken to have the types the program writes.  The reading of
  a stored source selection is a parameter.
\<close>

section \<open>Reading the journal\<close>

definition RECOVERABLE_EFFECT_TYPES :: "string list" where
  "RECOVERABLE_EFFECT_TYPES = [''promote_artifact'', ''move_task'', ''create_task'', ''link_derived_tasks'', ''promote_changed_file'', ''delete_changed_file'', ''commit_repo_changes'']"

definition effect_kind :: "meta \<Rightarrow> json" where
  "effect_kind e = jget e ''type'' JNull"

definition unhashable :: "json \<Rightarrow> bool" where
  "unhashable j = (case j of JList _ \<Rightarrow> True | JObj _ \<Rightarrow> True | _ \<Rightarrow> False)"

definition recoverable :: "transaction_journal \<Rightarrow> pyexc + bool" where
  "recoverable r = (let ks = map effect_kind (jn_effects r) in
     if list_ex unhashable ks then Inl TypeErr else Inr (ks \<noteq> [] \<and> set ks \<subseteq> set (map JStr RECOVERABLE_EFFECT_TYPES)))"

definition expected_to_state :: "transaction_journal \<Rightarrow> string" where
  "expected_to_state r = (case filter (\<lambda>e. effect_kind e = JStr ''move_task'' \<and> Some (text_at e ''task_id'') = jn_task_id r) (jn_effects r) of
      [] \<Rightarrow> [] | e # _ \<Rightarrow> text_at e ''to_state'')"

text \<open>\<open>Candidate(**payload)\<close> and \<open>CandidateChange(**change)\<close>: a missing or an unknown field raises.\<close>

definition stored_text :: "json \<Rightarrow> string option" where
  "stored_text j = (case j of JStr s \<Rightarrow> Some s | _ \<Rightarrow> None)"

definition stored_int :: "json \<Rightarrow> int option" where
  "stored_int j = (case j of JInt i \<Rightarrow> Some i | _ \<Rightarrow> None)"

definition fields_fit :: "string list \<Rightarrow> string list \<Rightarrow> meta \<Rightarrow> bool" where
  "fields_fit needed' optional' m \<longleftrightarrow> list_all (\<lambda>k. fmlookup m k \<noteq> None) needed' \<and> list_all (\<lambda>(k, _). k \<in> set (needed' @ optional')) (fmap_entries m)"

definition change_from_dict :: "json \<Rightarrow> pyexc + candidate_change" where
  "change_from_dict j = bind_sum (py_dict j) (\<lambda>m.
     if \<not> fields_fit [''kind'', ''path''] [''before_sha256'', ''after_sha256'', ''before_mode'', ''after_mode''] m then Inl TypeErr
     else Inr \<lparr>cc_kind = text_at m ''kind'', cc_path = text_at m ''path'',
       cc_before_sha256 = stored_text (jget m ''before_sha256'' JNull), cc_after_sha256 = stored_text (jget m ''after_sha256'' JNull),
       cc_before_mode = stored_int (jget m ''before_mode'' JNull), cc_after_mode = stored_int (jget m ''after_mode'' JNull)\<rparr>)"

definition stored_selection :: "(meta \<Rightarrow> json option) \<Rightarrow> json \<Rightarrow> json option" where
  "stored_selection parse j = (case j of JObj m \<Rightarrow> parse m | JNull \<Rightarrow> Some JNull | _ \<Rightarrow> None)"

definition candidate_from_dict :: "(meta \<Rightarrow> json option) \<Rightarrow> meta \<Rightarrow> candidate option" where
  "candidate_from_dict parse m = (case (bind_sum (py_list (jget m ''changes'' JNull)) (map_sum_list change_from_dict), stored_selection parse (jget m ''source_selection'' JNull)) of
      (Inr changes, Some sel) \<Rightarrow>
        if fields_fit [''schema'', ''candidate_id'', ''baseline_sha256'', ''manifest_sha256'', ''storage_path'', ''changes'']
             [''submitted_changed_files'', ''submitted_discrepancy'', ''source_selection'', ''source_selection_sha256'', ''sha256''] m
        then Some \<lparr>ca_id = text_at m ''candidate_id'', ca_baseline_sha256 = stored_text (jget m ''baseline_sha256'' JNull),
               ca_manifest_sha256 = text_at m ''manifest_sha256'', ca_storage_path = text_at m ''storage_path'', ca_changes = changes,
               ca_submitted = (case strings_of (jget m ''submitted_changed_files'' (JList [])) of Inl _ \<Rightarrow> [] | Inr ps \<Rightarrow> ps),
               ca_discrepancy = stored_text (jget m ''submitted_discrepancy'' JNull), ca_selection = sel,
               ca_selection_sha256 = text_at m ''source_selection_sha256'', ca_sha256 = text_at m ''sha256''\<rparr>
        else None
    | _ \<Rightarrow> None)"

text \<open>The candidate of a journal: none is stored, or the stored one still is what was sealed; \<open>None\<close>
  of the outer option passes the journal over.\<close>

definition stored_candidate :: "(meta \<Rightarrow> json option) \<Rightarrow> 'w completion_service \<Rightarrow> transaction_journal \<Rightarrow> 'w \<Rightarrow> candidate option option \<times> 'w" where
  "stored_candidate parse sv r w = (case jget (jn_context r) ''candidate'' JNull of
      JObj m \<Rightarrow> (case candidate_from_dict parse m of
          None \<Rightarrow> (None, w)
        | Some c \<Rightarrow> (case capture_manifest (sv_capture sv) (as_posix (ca_storage_path c)) (ca_selection c) w of
            (Some now, w) \<Rightarrow> (if mf_sha256 now = ca_manifest_sha256 c then Some (Some c) else None, w)
          | (None, w) \<Rightarrow> (None, w)))
    | _ \<Rightarrow> (Some None, w))"

section \<open>Git\<close>

text \<open>A query of git: the text it prints, unless it fails or prints nothing.\<close>

definition git_line :: "'w ports \<Rightarrow> string list \<Rightarrow> 'w \<Rightarrow> string option \<times> 'w" where
  "git_line po args w = (case po_git po args w of (r, w) \<Rightarrow>
     (if gr_code r \<noteq> 0 \<or> strip (gr_stdout r) = [] then None else Some (strip (gr_stdout r)), w))"

definition git_rev :: "'w ports \<Rightarrow> string \<Rightarrow> 'w \<Rightarrow> string option \<times> 'w" where
  "git_rev po ref = git_line po [''git'', ''rev-parse'', ''--verify'', ref]"

definition git_parent :: "'w ports \<Rightarrow> string \<Rightarrow> 'w \<Rightarrow> string option \<times> 'w" where
  "git_parent po commit = git_line po [''git'', ''rev-parse'', ''--verify'', commit @ ''^'']"

definition git_tree :: "'w ports \<Rightarrow> string \<Rightarrow> 'w \<Rightarrow> string option \<times> 'w" where
  "git_tree po commit = git_line po [''git'', ''rev-parse'', ''--verify'', commit @ ''^{tree}'']"

definition git_show :: "'w ports \<Rightarrow> string \<Rightarrow> 'w \<Rightarrow> string option \<times> 'w" where
  "git_show po commit w = (case po_git po [''git'', ''log'', ''-1'', ''--pretty=%s'', commit] w of (r, w) \<Rightarrow>
     (if gr_code r \<noteq> 0 then None else Some (strip (gr_stdout r)), w))"

text \<open>The tip has the base as its parent, the intended tree and the message of the effect.\<close>

definition parent_matches :: "'w ports \<Rightarrow> json \<Rightarrow> string \<Rightarrow> 'w \<Rightarrow> bool \<times> 'w" where
  "parent_matches po base_ref head w = (if \<not> json_truthy base_ref then (True, w)
     else case git_rev po (py_str base_ref) w of
         (None, w) \<Rightarrow> (False, w)
       | (Some base, w) \<Rightarrow> if head = base then (False, w) else (case git_parent po head w of (parent, w) \<Rightarrow> (parent = Some base, w)))"

definition content_matches :: "'w ports \<Rightarrow> string \<Rightarrow> string \<Rightarrow> string \<Rightarrow> 'w \<Rightarrow> bool \<times> 'w" where
  "content_matches po intended message head w = (case git_tree po head w of (tree, w) \<Rightarrow>
     if tree \<noteq> Some intended then (False, w)
     else if message = [] then (True, w)
     else (case git_show po head w of (subject, w) \<Rightarrow> (subject = Some message, w)))"

definition transaction_commit_exists :: "'w ports \<Rightarrow> string option \<Rightarrow> transaction_journal \<Rightarrow> meta \<Rightarrow> 'w \<Rightarrow> bool \<times> 'w" where
  "transaction_commit_exists po repo_root r e w = (case (repo_root, jget (jn_context r) ''commit'' JNull) of
      (Some _, JObj ctx) \<Rightarrow> (case jget ctx ''intended_tree'' JNull of
          JStr intended \<Rightarrow>
            (let given = jget ctx ''repository_base_commit'' JNull;
                 base_ref = (if json_truthy given then given else jget (jn_context r) ''repository_base_commit'' JNull)
             in case git_rev po ''HEAD'' w of
                 (None, w) \<Rightarrow> (False, w)
               | (Some head, w) \<Rightarrow> (case parent_matches po base_ref head w of
                   (ok, w) \<Rightarrow> if ok then content_matches po intended (text_at e ''message'') head w else (False, w)))
        | _ \<Rightarrow> (False, w))
    | _ \<Rightarrow> (False, w))"

section \<open>What is in place\<close>

definition RESERVED_METADATA :: "string list" where
  "RESERVED_METADATA = [''id'', ''type'', ''state'', ''dependencies'', ''artifact_links'', ''parent_id'']"

text \<open>The body without the title an adapter renders as its first line.\<close>

definition shown_body :: "string \<Rightarrow> string" where
  "shown_body b = (let ls = splitlines (strip b)
     in strip (join line_feed (case ls of [] \<Rightarrow> [] | l # rest \<Rightarrow> if startswith ''# '' (strip l) then rest else ls)))"

definition same_task_content :: "task \<Rightarrow> task \<Rightarrow> bool" where
  "same_task_content a b \<longleftrightarrow> t_id a = t_id b \<and> strip (t_title a) = strip (t_title b) \<and> t_current_state a = t_current_state b
     \<and> t_task_type a = t_task_type b \<and> t_dependencies a = t_dependencies b \<and> t_artifact_links a = t_artifact_links b
     \<and> t_parent_id a = t_parent_id b \<and> shown_body (t_body a) = shown_body (t_body b)
     \<and> (let own = fmfilter (\<lambda>k. k \<notin> set RESERVED_METADATA) in py_eq (JObj (own (t_metadata a))) (JObj (own (t_metadata b))))"

definition created_task_matches :: "task \<Rightarrow> meta \<Rightarrow> bool" where
  "created_task_matches t payload = (case task_from_mapping payload of Inl _ \<Rightarrow> False | Inr expected \<Rightarrow> same_task_content t expected)"

definition effect_applied :: "'w ports \<Rightarrow> string option \<Rightarrow> transaction_journal \<Rightarrow> meta \<Rightarrow> 'w \<Rightarrow> bool \<times> 'w" where
  "effect_applied po repo_root r e w = (let k = effect_kind e in
     if k = JStr ''move_task''
     then ((case readable_task (po_read po w) (text_at e ''task_id'') of None \<Rightarrow> False | Some t \<Rightarrow> t_current_state t = text_at e ''to_state''), w)
     else if k = JStr ''create_task''
     then ((case jget e ''task'' JNull of
            JObj payload \<Rightarrow> (case readable_task (po_read po w) (text_at payload ''id'') of None \<Rightarrow> False | Some t \<Rightarrow> created_task_matches t payload)
          | _ \<Rightarrow> False), w)
     else if k = JStr ''promote_artifact'' \<or> k = JStr ''promote_changed_file''
     then (same_file_content (po_at po w (path_at e ''source_path'')) (po_at po w (path_at e ''target_path'')), w)
     else if k = JStr ''delete_changed_file'' then (po_at po w (path_at e ''target_path'') = Absent, w)
     else if k = JStr ''commit_repo_changes'' then transaction_commit_exists po repo_root r e w
     else (False, w))"

section \<open>Conflicts\<close>

definition create_conflict :: "'w ports \<Rightarrow> 'w \<Rightarrow> meta \<Rightarrow> bool" where
  "create_conflict po w e = (case jget e ''task'' JNull of
      JObj payload \<Rightarrow> (let loaded = po_read po w (text_at payload ''id'')
        in (case rtr_task loaded of None \<Rightarrow> False | Some t \<Rightarrow> \<not> created_task_matches t payload)
         \<or> list_ex (\<lambda>x. err_code x \<noteq> ''task.not_found'') (rtr_errors loaded))
    | _ \<Rightarrow> True)"

text \<open>Whether the file at a path has another digest than the text an effect expects.\<close>

definition digest_differs :: "'w ports \<Rightarrow> file_state \<Rightarrow> json \<Rightarrow> pyexc + bool" where
  "digest_differs po at expected = (case expected of JStr d \<Rightarrow> map_sum id (\<lambda>h. h \<noteq> d) (file_sha256 po at) | _ \<Rightarrow> Inr False)"

definition target_conflict :: "'w ports \<Rightarrow> 'w \<Rightarrow> meta \<Rightarrow> pyexc + bool" where
  "target_conflict po w e =
     (let target = path_at e ''target_path''; at = po_at po w target; before = jget e ''expected_before_sha256'' JNull; mode = jget e ''expected_before_mode'' JNull
      in if at = Absent then Inr (before \<noteq> JNull \<or> json_truthy (jget e ''target_existed'' JNull))
         else if po_is_link po w target then Inr True
         else case at of
             AFolder bare _ \<Rightarrow> Inr (\<not> bare)
           | AFile _ _ \<Rightarrow> if stored_text before = None then Inr True
               else map_sum id (\<lambda>differs. differs \<or> (mode \<noteq> JNull \<and> \<not> py_eq (file_mode at) mode)) (digest_differs po at before)
           | _ \<Rightarrow> Inr True)"

definition promote_conflict :: "'w ports \<Rightarrow> 'w \<Rightarrow> meta \<Rightarrow> pyexc + bool" where
  "promote_conflict po w e =
     (let source = po_at po w (path_at e ''source_path''); target = po_at po w (path_at e ''target_path'')
      in if \<not> is_file source then Inr True
         else bind_sum (digest_differs po source (jget e ''expected_after_sha256'' JNull)) (\<lambda>differs.
           if differs then Inr True
           else if same_file_content source target then Inr False
           else target_conflict po w e))"

definition move_conflict :: "'w ports \<Rightarrow> 'w \<Rightarrow> transaction_journal \<Rightarrow> meta \<Rightarrow> pyexc + bool" where
  "move_conflict po w r e =
     (let previous = jget (jn_context r) ''expected_previous_state'' JNull; to_state = jget e ''to_state'' JNull
      in if previous = JNull then Inr False
         else case readable_task (po_read po w) (text_at e ''task_id'') of
             None \<Rightarrow> Inr True
           | Some t \<Rightarrow> if unhashable previous \<or> unhashable to_state then Inl TypeErr
               else Inr (JStr (t_current_state t) \<notin> {previous, to_state}))"

definition delete_conflict :: "'w ports \<Rightarrow> 'w \<Rightarrow> meta \<Rightarrow> pyexc + bool" where
  "delete_conflict po w e = (let at = po_at po w (path_at e ''target_path'')
     in if at = Absent then Inr False else digest_differs po at (jget e ''expected_before_sha256'' JNull))"

definition commit_conflict :: "'w ports \<Rightarrow> string option \<Rightarrow> transaction_journal \<Rightarrow> meta \<Rightarrow> 'w \<Rightarrow> bool \<times> 'w" where
  "commit_conflict po repo_root r e w = (case transaction_commit_exists po repo_root r e w of
      (True, w) \<Rightarrow> (False, w)
    | (False, w) \<Rightarrow> (let base = text_at (jn_context r) ''repository_base_commit''
        in if repo_root = None \<or> base = [] then (False, w)
           else (case git_rev po ''HEAD'' w of (head, w) \<Rightarrow> (head \<noteq> None \<and> head \<noteq> Some base, w))))"

definition effect_conflict :: "'w ports \<Rightarrow> string option \<Rightarrow> transaction_journal \<Rightarrow> meta \<Rightarrow> 'w \<Rightarrow> (pyexc + bool) \<times> 'w" where
  "effect_conflict po repo_root r e w = (let k = effect_kind e in
     if k = JStr ''create_task'' then (Inr (create_conflict po w e), w)
     else if k = JStr ''promote_changed_file'' \<or> k = JStr ''promote_artifact'' then (promote_conflict po w e, w)
     else if k = JStr ''move_task'' then (move_conflict po w r e, w)
     else if k = JStr ''delete_changed_file'' then (delete_conflict po w e, w)
     else if k = JStr ''commit_repo_changes'' then map_prod Inr id (commit_conflict po repo_root r e w)
     else (Inr False, w))"

fun recovery_conflict :: "'w ports \<Rightarrow> string option \<Rightarrow> transaction_journal \<Rightarrow> meta list \<Rightarrow> 'w \<Rightarrow> (pyexc + bool) \<times> 'w" where
  "recovery_conflict po repo_root r [] w = (Inr False, w)"
| "recovery_conflict po repo_root r (e # es) w = (case effect_conflict po repo_root r e w of
      (Inl x, w) \<Rightarrow> (Inl x, w)
    | (Inr found, w) \<Rightarrow> if found then (Inr True, w) else recovery_conflict po repo_root r es w)"

section \<open>Recovery\<close>

definition world_pure :: "('w \<Rightarrow> 'a \<times> 'w) \<Rightarrow> ('w, 'a) act" where
  "world_pure f = world_step (\<lambda>w. map_prod Inr id (f w))"

definition world_raising :: "('w \<Rightarrow> (pyexc + 'a) \<times> 'w) \<Rightarrow> ('w, 'a) act" where
  "world_raising f = world_step (\<lambda>w. map_prod (map_sum PyRaised id) id (f w))"

definition world_effect :: "'w effect_run \<Rightarrow> ('w, effect_result) act" where
  "world_effect f = world_step (\<lambda>w. map_prod (map_sum RaisedText id) id (f w))"

definition recovered_commit_identity :: "'w completion_service \<Rightarrow> transaction_journal \<Rightarrow> 'w \<Rightarrow> string option \<times> 'w" where
  "recovered_commit_identity sv r w = (case (filter (\<lambda>e. effect_kind e = JStr ''commit_repo_changes'') (jn_effects r), sv_repo_root sv) of
      (e # _, Some root) \<Rightarrow> (case transaction_commit_exists (sv_ports sv) (Some root) r e w of
          (True, w) \<Rightarrow> git_rev (sv_ports sv) ''HEAD'' w
        | (False, w) \<Rightarrow> (None, w))
    | _ \<Rightarrow> (None, w))"

text \<open>The metadata to restore, unless the accepted commit cannot be proven.\<close>

definition restored_metadata :: "'w completion_service \<Rightarrow> transaction_journal \<Rightarrow> meta \<Rightarrow> 'w \<Rightarrow> meta option \<times> 'w" where
  "restored_metadata sv r md w =
     (if list_ex (\<lambda>e. effect_kind e = JStr ''commit_repo_changes'') (jn_effects r)
      then (case recovered_commit_identity sv r w of (i, w) \<Rightarrow> (map_option (\<lambda>sha. fmupd ''acceptance_repository_commit'' (JStr sha) md) i, w))
      else let base = jget (jn_context r) ''repository_base_commit'' JNull
        in (Some (if json_truthy base then fmupd ''acceptance_repository_commit'' base md else md), w))"

definition settle_recovered :: "completion_draws \<Rightarrow> 'w completion_service \<Rightarrow> transaction_journal \<Rightarrow> ('w, bool) act" where
  "settle_recovered d sv r = (case (jget (jn_context r) ''job_id'' JNull, jget (jn_context r) ''acceptance_metadata'' JNull) of
      (JStr jid, JObj md) \<Rightarrow> andthen (get_step d jid) (\<lambda>loaded. case jr_job loaded of
          None \<Rightarrow> ret False
        | Some job \<Rightarrow>
            if \<not> jr_accepted loaded \<or> jstatus_value (j_status job) = job_status_value ACCEPTED
               \<or> Some (j_task_id job) \<noteq> jn_task_id r \<or> Some (j_transition_id job) \<noteq> jn_transition_id r then ret False
            else andthen (world_pure (restored_metadata sv r md)) (\<lambda>restored. case restored of
                None \<Rightarrow> ret False
              | Some md \<Rightarrow> andthen (update_step d jid (Inl ACCEPTED) md) (\<lambda>updated. ret (jr_accepted updated))))
    | _ \<Rightarrow> ret False)"

fun roll_forward :: "'w completion_service \<Rightarrow> transaction_journal \<Rightarrow> meta list \<Rightarrow> ('w, bool) act" where
  "roll_forward sv r [] = ret True"
| "roll_forward sv r (e # es) = andthen (world_pure (effect_applied (sv_ports sv) (sv_repo_root sv) r e)) (\<lambda>done'.
     if done' then roll_forward sv r es
     else andthen (world_effect (apply_effect (sv_ports sv) (sv_repo_root sv) e)) (\<lambda>res.
       if fx_accepted res then roll_forward sv r es else ret False))"

definition IDENTITY_EFFECTS :: "string list" where
  "IDENTITY_EFFECTS = [''create_task'', ''move_task'', ''promote_artifact'', ''promote_changed_file'', ''delete_changed_file'', ''commit_repo_changes'']"

fun all_in_place :: "'w completion_service \<Rightarrow> transaction_journal \<Rightarrow> meta list \<Rightarrow> ('w, bool) act" where
  "all_in_place sv r [] = ret True"
| "all_in_place sv r (e # es) =
     (if effect_kind e \<notin> set (map JStr IDENTITY_EFFECTS) then all_in_place sv r es
      else andthen (world_pure (effect_applied (sv_ports sv) (sv_repo_root sv) r e)) (\<lambda>done'.
        if done' then all_in_place sv r es else ret False))"

definition context_paths :: "json \<Rightarrow> string list option" where
  "context_paths j = (case j of JList xs \<Rightarrow> Some (map py_str xs) | _ \<Rightarrow> None)"

definition recovery_validate :: "'w completion_service \<Rightarrow> transaction_journal \<Rightarrow> string \<Rightarrow> candidate option \<Rightarrow> ('w, effect_result) act" where
  "recovery_validate sv r tid c = world_effect (validate_final_state (sv_ports sv) tid (expected_to_state r) (sv_repo_root sv) c
     (stored_text (jget (jn_context r) ''output_relative'' JNull)) (context_paths (jget (jn_context r) ''artifact_paths'' JNull)))"

definition append_missing :: "completion_draws \<Rightarrow> event_envelope list \<Rightarrow> ('w, bool) act" where
  "append_missing d es st = (if es = [] then (Inr True, st)
     else case append_many (cd_log_fate d (st_clock st)) es (tx_events (st_tx st)) of
       (r, evs) \<Rightarrow> (map_sum PyRaised ea_accepted r, st\<lparr>st_tx := (st_tx st)\<lparr>tx_events := evs\<rparr>, st_clock := Suc (st_clock st)\<rparr>))"

definition commit_step :: "completion_draws \<Rightarrow> (nat \<Rightarrow> write_fate) \<Rightarrow> transaction_journal \<Rightarrow> ('w, bool) act" where
  "commit_step d fate r st = (let n = st_clock st in
     case commit_journal (cd_exc d) (cd_now d n) (fate n) r (tx_journals (st_tx st)) of
       (res, js) \<Rightarrow> (Inr (jw_accepted res), st\<lparr>st_tx := (st_tx st)\<lparr>tx_journals := js\<rparr>, st_clock := Suc n\<rparr>))"

text \<open>A committed journal only settles its job; any other is carried to its end.  The answer tells
  whether the journal counts as recovered, and which events are on record.\<close>

definition recover_committed :: "completion_draws \<Rightarrow> 'w completion_service \<Rightarrow> transaction_journal \<Rightarrow> string \<Rightarrow> candidate option \<Rightarrow> ('w, bool) act" where
  "recover_committed d sv r tid c = andthen (all_in_place sv r (jn_effects r)) (\<lambda>ok.
     if \<not> ok then ret False
     else andthen (recovery_validate sv r tid c) (\<lambda>final. if fx_accepted final then settle_recovered d sv r else ret False))"

definition finish_recovery :: "completion_draws \<Rightarrow> (nat \<Rightarrow> write_fate) \<Rightarrow> 'w completion_service \<Rightarrow> transaction_journal \<Rightarrow> string list \<Rightarrow> ('w, bool \<times> string list) act" where
  "finish_recovery d fate sv r ids = (let missing = filter (\<lambda>e. ev_event_id e \<notin> set ids) (jn_events r) in
     andthen (append_missing d missing) (\<lambda>ok.
       if \<not> ok then ret (False, ids)
       else let ids' = ids @ map ev_event_id missing in
         andthen (commit_step d fate r) (\<lambda>ok.
           if ok then andthen (settle_recovered d sv r) (\<lambda>_. ret (True, ids')) else ret (False, ids'))))"

definition recover_open :: "completion_draws \<Rightarrow> (nat \<Rightarrow> write_fate) \<Rightarrow> 'w completion_service \<Rightarrow> transaction_journal \<Rightarrow> string \<Rightarrow> candidate option \<Rightarrow> string list
    \<Rightarrow> ('w, bool \<times> string list) act" where
  "recover_open d fate sv r tid c ids = andthen (roll_forward sv r (jn_effects r)) (\<lambda>ok.
     if \<not> ok then ret (False, ids)
     else andthen (recovery_validate sv r tid c) (\<lambda>final.
       if fx_accepted final then finish_recovery d fate sv r ids else ret (False, ids)))"

definition recover_journal :: "completion_draws \<Rightarrow> (nat \<Rightarrow> write_fate) \<Rightarrow> (meta \<Rightarrow> json option) \<Rightarrow> 'w completion_service \<Rightarrow> transaction_journal \<Rightarrow> string list
    \<Rightarrow> ('w, bool \<times> string list) act" where
  "recover_journal d fate parse sv r ids = andthen (lift_py (recoverable r)) (\<lambda>ok.
     case (jn_task_id r, jn_transition_id r) of
       (Some tid, Some _) \<Rightarrow>
         if \<not> ok \<or> expected_to_state r = [] then ret (False, ids)
         else andthen (world_pure (stored_candidate parse sv r)) (\<lambda>stored. case stored of
             None \<Rightarrow> ret (False, ids)
           | Some c \<Rightarrow> andthen (world_raising (recovery_conflict (sv_ports sv) (sv_repo_root sv) r (jn_effects r))) (\<lambda>conflict.
               if conflict then ret (False, ids)
               else if jn_status_value (jn_status r) = ''committed''
               then andthen (recover_committed d sv r tid c) (\<lambda>ok. ret (ok, ids))
               else recover_open d fate sv r tid c ids))
     | _ \<Rightarrow> ret (False, ids))"

fun recover_each :: "completion_draws \<Rightarrow> (nat \<Rightarrow> write_fate) \<Rightarrow> (meta \<Rightarrow> json option) \<Rightarrow> 'w completion_service \<Rightarrow> transaction_journal list \<Rightarrow> string list
    \<Rightarrow> ('w, string list) act" where
  "recover_each d fate parse sv [] ids = ret []"
| "recover_each d fate parse sv (r # rs) ids = andthen (recover_journal d fate parse sv r ids) (\<lambda>(ok, ids').
     andthen (recover_each d fate parse sv rs ids') (\<lambda>recovered. ret (if ok then jn_journal_id r # recovered else recovered)))"

definition recover_completion_transactions :: "completion_draws \<Rightarrow> (nat \<Rightarrow> write_fate) \<Rightarrow> (meta \<Rightarrow> json option) \<Rightarrow> 'w completion_service \<Rightarrow> ('w, string list) act" where
  "recover_completion_transactions d fate parse sv st =
     andthen (lift_py (event_ids (tx_events (st_tx st)))) (\<lambda>ids.
     andthen (lift_py (iter_journals None (tx_journals (st_tx st)))) (\<lambda>rs. recover_each d fate parse sv rs ids)) st"

end
