(* ===== verification/SubmissionFacts.thy ===== *)
theory SubmissionFacts
  imports Submission TransactionFacts
begin

text \<open>
  What the answer to a submission means.  A locale collects how a relation between the states
  before and after a step passes through the composition of steps; its interpretations say
  which steps of a submission leave the journals and the world alone.
\<close>

section \<open>Answers of steps\<close>

definition yields :: "('a \<Rightarrow> bool) \<Rightarrow> ('s \<Rightarrow> ('e + 'a) \<times> 's) \<Rightarrow> bool" where
  "yields Q m \<longleftrightarrow> (\<forall>s x s'. m s = (Inr x, s') \<longrightarrow> Q x)"

lemma yieldsD: "yields Q m \<Longrightarrow> m s = (Inr x, s') \<Longrightarrow> Q x"
  unfolding yields_def by blast

lemma yields_rules [intro]:
  "Q x \<Longrightarrow> yields Q (ret x)" "yields Q (raising e)" "yields Q m \<Longrightarrow> yields Q n \<Longrightarrow> yields Q (if b then m else n)"
  by (simp_all add: yields_def ret_def raising_def)

lemma yields_andthen [intro]: "(\<And>x. yields Q (f x)) \<Longrightarrow> yields Q (andthen m f)"
  by (auto simp: yields_def andthen_def split: prod.splits sum.splits)

lemma map_sum_InrD: "map_sum f g r = Inr y \<Longrightarrow> \<exists>x. r = Inr x \<and> y = g x"
  by (cases r) auto

section \<open>Relations kept by steps\<close>

locale step_relation =
  fixes rel :: "'s \<Rightarrow> 's \<Rightarrow> bool"
  assumes rel_refl: "rel s s"
    and rel_trans: "rel s t \<Longrightarrow> rel t u \<Longrightarrow> rel s u"
begin

definition keeps :: "('s \<Rightarrow> ('e + 'a) \<times> 's) \<Rightarrow> bool" where
  "keeps m \<longleftrightarrow> (\<forall>s. rel s (snd (m s)))"

lemma keepsI: "(\<And>s r s'. m s = (r, s') \<Longrightarrow> rel s s') \<Longrightarrow> keeps m"
  by (metis keeps_def prod.collapse)

lemma keepsD: "keeps m \<Longrightarrow> m s = (r, s') \<Longrightarrow> rel s s'"
  by (metis keeps_def snd_conv)

lemma keeps_ret [intro!]: "keeps (ret x)"
  by (simp add: keeps_def ret_def rel_refl)

lemma keeps_raising [intro!]: "keeps (raising e)"
  by (simp add: keeps_def raising_def rel_refl)

lemma keeps_andthen [intro]: "keeps m \<Longrightarrow> (\<And>x. keeps (f x)) \<Longrightarrow> keeps (andthen m f)"
  by (rule keepsI) (auto simp: andthen_def split: prod.splits sum.splits dest: keepsD intro: rel_trans)

lemma keeps_if [intro]: "keeps m \<Longrightarrow> keeps n \<Longrightarrow> keeps (if b then m else n)"
  by simp

text \<open>A composition that returned has passed its first part.\<close>

lemma passes:
  assumes "andthen m f s = (Inr y, s')" "keeps m"
  obtains x s1 where "m s = (Inr x, s1)" "f x s1 = (Inr y, s')" "rel s s1"
  using assms by (auto simp: andthen_def split: prod.splits sum.splits dest: keepsD)

lemma goes_on: "andthen m (\<lambda>_. n) s = (Inr y, s') \<Longrightarrow> keeps m \<Longrightarrow> \<exists>s1. rel s s1 \<and> n s1 = (Inr y, s')"
  by (erule passes) auto

text \<open>So has one that left the relation.\<close>

lemma leaves:
  assumes "andthen m f s = (r, s')" "keeps m" "\<not> rel s s'"
  obtains x s1 where "m s = (Inr x, s1)" "f x s1 = (r, s')" "rel s s1" "\<not> rel s1 s'"
proof -
  obtain r1 s1 where m: "m s = (r1, s1)" by fastforce
  with assms have "rel s s1" by (blast dest: keepsD)
  with m assms that show ?thesis by (cases r1) (auto simp: andthen_def dest: rel_trans)
qed

end

definition same_journals :: "'w completion_state \<Rightarrow> 'w completion_state \<Rightarrow> bool" where
  "same_journals s t \<longleftrightarrow> tx_journals (st_tx t) = tx_journals (st_tx s)"

definition same_delivery :: "'w completion_state \<Rightarrow> 'w completion_state \<Rightarrow> bool" where
  "same_delivery s t \<longleftrightarrow> tx_journals (st_tx t) = tx_journals (st_tx s) \<and> tx_world (st_tx t) = tx_world (st_tx s)"

interpretation journals: step_relation same_journals
  by unfold_locales (auto simp: same_journals_def)

interpretation delivery: step_relation same_delivery
  by unfold_locales (auto simp: same_delivery_def)

lemma journals_of_delivery: "delivery.keeps m \<Longrightarrow> journals.keeps m"
  by (auto simp: delivery.keeps_def journals.keeps_def same_delivery_def same_journals_def)

section \<open>The steps outside of a transaction\<close>

lemma job_step_keeps [intro!]: "delivery.keeps (job_step d f)"
  by (rule delivery.keepsI) (auto simp: job_step_def same_delivery_def Let_def split: prod.splits)

lemma base_steps_keep [intro!]:
  "delivery.keeps (get_step d jid)" "delivery.keeps (update_step d jid st md)" "delivery.keeps (now_step d)"
  "delivery.keeps (look f)" "delivery.keeps (lift_py r)" "delivery.keeps (event_step d job sid actor ty tid data)"
  "delivery.keeps (append_step d e)" "delivery.keeps (submission_id_step d sub)"
  unfolding get_step_def update_step_def
  by (auto intro!: delivery.keepsI [of "now_step d"] delivery.keepsI [of "look f"] delivery.keepsI [of "lift_py r"]
      delivery.keepsI [of "event_step d job sid actor ty tid data"] delivery.keepsI [of "append_step d e"] delivery.keepsI [of "submission_id_step d sub"]
      simp: now_step_def look_def lift_py_def event_step_def append_step_def submission_id_step_def same_delivery_def Let_def split: prod.splits option.splits if_splits)

lemma world_step_keeps [intro!]: "journals.keeps (world_step f)"
  by (rule journals.keepsI) (auto simp: world_step_def same_journals_def split: prod.splits)

lemma log_step_keeps [intro!]: "delivery.keeps (log_step d job sid actor ty data)"
  unfolding log_step_def by (intro delivery.keeps_andthen delivery.keeps_ret base_steps_keep)

lemma log_ignored_keeps [intro!]: "delivery.keeps (log_ignored d job sid status)"
  unfolding log_ignored_def by (rule log_step_keeps)

lemma log_rejected_keeps [intro!]: "delivery.keeps (log_rejected d job sid es)"
  unfolding log_rejected_def by (rule log_step_keeps)

lemma reject_completion_keeps [intro!]: "delivery.keeps (reject_completion d sv job sid v es message)"
  unfolding reject_completion_def Let_def by (intro delivery.keeps_andthen delivery.keeps_if delivery.keeps_ret base_steps_keep log_ignored_keeps log_rejected_keeps)

lemma reject_capture_keeps [intro!]: "delivery.keeps (reject_candidate_capture d job sid es)"
  unfolding reject_candidate_capture_def Let_def by (intro delivery.keeps_andthen delivery.keeps_ret base_steps_keep log_rejected_keeps)

lemma finished_keeps [intro!]: "delivery.keeps (record_validation_finished d job sid acc codes detail report)"
  unfolding record_validation_finished_def Let_def
  by (intro delivery.keeps_andthen log_step_keeps base_steps_keep) (auto split: option.split)

lemma begin_keeps [intro!]: "delivery.keeps (begin_validation d job sid sub tr)"
  unfolding begin_validation_def by (intro delivery.keeps_andthen log_step_keeps base_steps_keep)

lemma capture_keeps [intro!]: "journals.keeps (capture_completion_candidate d sv job contract sid sub)"
  unfolding capture_completion_candidate_def
  by (intro journals.keeps_andthen world_step_keeps) (auto split: sum.split intro!: journals.keeps_andthen journals_of_delivery)

lemma verify_keeps [intro!]: "journals.keeps (verify_candidate d sv job sid sub tr contract c)"
  unfolding verify_candidate_def
  by (intro journals.keeps_andthen world_step_keeps) (auto split: sum.split intro!: journals.keeps_andthen journals_of_delivery)

lemma build_events_keeps [intro!]: "delivery.keeps (build_events d job sid specs)"
proof (induction d job sid specs rule: build_events.induct)
  case (2 d job sid actor ty tid data rest)
  show ?case unfolding build_events.simps by (intro delivery.keeps_andthen delivery.keeps_ret base_steps_keep 2)
qed (simp add: delivery.keeps_ret)

lemma settle_keeps:
  "delivery.keeps (settle_failed d job sid v e)" "journals.keeps (settle_accepted d sv job sid sub p v)"
  unfolding settle_failed_def settle_accepted_def Let_def
  by (intro delivery.keeps_andthen delivery.keeps_ret log_step_keeps base_steps_keep)
    (intro journals.keeps_andthen journals.keeps_ret world_step_keeps journals_of_delivery base_steps_keep)

section \<open>An accepted transaction\<close>

lemma run_effects_done:
  "run_effects rt es applied w = (None, ap, v) \<Longrightarrow> all_effects rt es w = Some v"
  by (induction rt es applied w rule: run_effects.induct) (auto simp: fx_ok_def split: prod.splits sum.splits if_splits)

definition committed_record :: "tx_env \<Rightarrow> tx_request \<Rightarrow> transaction_journal" where
  "committed_record env q = (tx_record env q)\<lparr>jn_status := Inl J_COMMITTED, jn_completed_at := Some (te_closed env), jn_error := None\<rparr>"

definition journal_on_disk :: "journal_store \<Rightarrow> string \<Rightarrow> string \<Rightarrow> transaction_journal \<Rightarrow> bool" where
  "journal_on_disk js exc k r \<longleftrightarrow> fmlookup (jns_files js) k = Some (JournalJson (JObj (journal_to_dict exc r)))"

lemma write_journal_accepted:
  assumes "write_journal exc fate r s = (res, s')"
  shows "jw_accepted res \<Longrightarrow> journal_on_disk s' exc (jn_journal_id r) r" "jw_accepted res \<Longrightarrow> jw_record res = Some r"
  using assms by (auto simp: write_journal_def jw_accepted_def journal_on_disk_def safe_stem_def Let_def split: sum.splits write_fate.splits if_splits)

lemma tx_apply_accepted:
  assumes "tx_apply env rt q st = (Inr res, st')" "tr_accepted res"
  shows "\<exists>w. all_effects rt (tq_effects q) (tx_world st) = Some w \<and> final_check rt w = (None, tx_world st')
     \<and> journal_on_disk (tx_journals st') (te_exc env) (tx_journal_id env q) (committed_record env q)"
proof -
  obtain pr js where w: "write_journal (te_exc env) (te_prepare env) (tx_record env q) (tx_journals st) = (pr, js)" by fastforce
  from assms w have acc: "jw_accepted pr"
    by (auto simp: tx_apply_def prepare_journal_tx split: if_splits)
  with write_journal_accepted(2) [OF w] have "jw_record pr = Some (tx_record env q)" by simp
  with assms w acc have run: "tx_run env rt q (tx_record env q) (st\<lparr>tx_journals := js\<rparr>) = (Inr res, st')"
    by (simp add: tx_apply_def prepare_journal_tx)
  have abort: "\<not> tr_accepted (fst (tx_abort env rt rec e ap s))" for rec e ap s
    by (auto simp: tx_abort_def split: prod.split)
  obtain oe ap w1 where eff: "run_effects rt (tq_effects q) [] (tx_world st) = (oe, ap, w1)" by (metis prod_cases3)
  have "oe = None"
  proof (rule ccontr)
    assume "oe \<noteq> None"
    with run eff assms(2) abort show False by (auto simp: tx_run_def map_prod_def split: prod.splits) (metis fst_conv)
  qed
  obtain fe w2 where fin: "final_check rt w1 = (fe, w2)" by fastforce
  have "fe = None"
  proof (rule ccontr)
    assume "fe \<noteq> None"
    with run eff fin \<open>oe = None\<close> assms(2) abort show False by (auto simp: tx_run_def map_prod_def split: prod.splits) (metis fst_conv)
  qed
  with run eff fin \<open>oe = None\<close> have log: "tx_log env rt (tx_record env q) (tq_events q) ap (st\<lparr>tx_journals := js, tx_world := w2\<rparr>) = (Inr res, st')"
    by (simp add: tx_run_def)
  obtain ar es where app: "append_many (te_append env) (tq_events q) (tx_events st) = (ar, es)" by fastforce
  with log obtain a where a: "ar = Inr a" by (cases ar) (simp_all add: tx_log_def)
  have ok: "ea_accepted a"
  proof (rule ccontr)
    assume "\<not> ea_accepted a"
    with log app a assms(2) abort show False by (auto simp: tx_log_def map_prod_def split: prod.splits) (metis fst_conv)
  qed
  with log app a have "tx_finish env (tx_record env q) (st\<lparr>tx_journals := js, tx_world := w2, tx_events := es\<rparr>) = (res, st')"
    by (auto simp: tx_log_def map_prod_def split: prod.splits)
  then obtain cr js' where cm: "write_journal (te_exc env) (te_close env) (committed_record env q) js = (cr, js')"
      and st': "tx_journals st' = js'" "tx_world st' = w2" and "jw_accepted cr"
    using assms(2) by (auto simp: tx_finish_def commit_journal_def committed_record_def split: prod.splits if_splits)
  with write_journal_accepted(1) [OF cm] have "journal_on_disk js' (te_exc env) (tx_journal_id env q) (committed_record env q)"
    by (simp add: committed_record_def tx_record_def)
  with run_effects_done [of rt _ "[]"] eff fin \<open>oe = None\<close> \<open>fe = None\<close> st' show ?thesis by auto
qed

section \<open>The way to an acceptance\<close>

definition job_now :: "completion_draws \<Rightarrow> string \<Rightarrow> 'w completion_state \<Rightarrow> execution_job option" where
  "job_now d jid s = (case get_job jid (cd_meanwhile d (st_clock s) (st_jobs s)) of Inl _ \<Rightarrow> None | Inr loaded \<Rightarrow> jr_job loaded)"

text \<open>The candidate is sealed from the workspace of the job, and verified as it is.\<close>

definition sealed_candidate :: "'w completion_service \<Rightarrow> execution_job \<Rightarrow> string \<Rightarrow> completion_submission \<Rightarrow> frozen_contract option \<Rightarrow> candidate \<Rightarrow> bool" where
  "sealed_candidate sv job sid sub contract c \<longleftrightarrow> (\<exists>w m w'. capture_candidate (sv_capture sv) (j_workspace_path job) (storage_root sv job)
     (candidate_identity sv job sid) (map_option fc_baseline contract) (sb_changed_files sub) (map_option fc_selection contract) w = (Inr (Inr (c, m)), w'))"

lemma get_stepD: "get_step d jid s = (Inr loaded, s1) \<Longrightarrow> jr_job loaded = Some job \<Longrightarrow> job_now d jid s = Some job"
  by (auto simp: get_step_def job_step_def job_now_def Let_def split: sum.splits)

lemma lift_pyD: "lift_py r s = (Inr x, s1) \<Longrightarrow> r = Inr x \<and> s1 = s"
  by (cases r) (auto simp: lift_py_def)

lemma lookD: "look f s = (Inr x, s1) \<Longrightarrow> x = f (tx_world (st_tx s)) \<and> s1 = s"
  by (auto simp: look_def)

lemma world_stepD: "world_step f s = (Inr x, s1) \<Longrightarrow> f (tx_world (st_tx s)) = (Inr x, tx_world (st_tx s1))"
  by (auto simp: world_step_def split: prod.splits)

lemma submit_processed:
  assumes "submit d sv jid sub token s = (Inr r, s')" "cm_verification r = Some v"
  obtains job sid tr contract s1 where "job_now d jid s = Some job" "\<not> token_rejected job token"
    "prior_submission (j_metadata job) sid = None" "jstatus_value (j_status job) \<notin> set TERMINAL_JOB_STATUSES"
    "frozen_inputs sv job sub = Inr (Inr (tr, contract))" "process d sv job sid sub tr contract s1 = (Inr r, s')" "same_delivery s s1"
proof -
  have none: "cm_verification (refusal es) = None" "cm_verification (approval None) = None" for es
    by (simp_all add: refusal_def approval_def)
  from assms(1) obtain loaded s1 where get: "get_step d jid s = (Inr loaded, s1)" "same_delivery s s1"
    and rest: "(case jr_job loaded of
        None \<Rightarrow> ret (refusal [case jr_error loaded of Some e \<Rightarrow> e | None \<Rightarrow> derror ''job.not_found'' [Txt ''Job was not found.''] None])
      | Some job \<Rightarrow> andthen (submission_id_step d sub) (\<lambda>sid. case prior_submission (j_metadata job) sid of
          Some prior \<Rightarrow> lift_py (replayed prior) | None \<Rightarrow> submit_new d sv jid job sid sub token)) s1 = (Inr r, s')"
    unfolding submit_def by (rule delivery.passes) (rule base_steps_keep)
  from rest assms(2) obtain job where job: "jr_job loaded = Some job"
    by (cases "jr_job loaded") (auto simp: ret_def refusal_def)
  from rest [unfolded job option.case] obtain sid s2 where "same_delivery s1 s2"
    and rest: "(case prior_submission (j_metadata job) sid of
          Some prior \<Rightarrow> lift_py (replayed prior) | None \<Rightarrow> submit_new d sv jid job sid sub token) s2 = (Inr r, s')"
    by (rule delivery.passes) (rule base_steps_keep)
  have "replayed prior = Inr r \<Longrightarrow> False" for prior
    using assms(2) none by (auto simp: replayed_def bind_sum_Inr_iff Let_def split: if_splits)
  with rest have prior: "prior_submission (j_metadata job) sid = None" and new: "submit_new d sv jid job sid sub token s2 = (Inr r, s')"
    by (auto split: option.splits dest: lift_pyD)
  let ?st = "jstatus_value (j_status job)"
  have refuse: "andthen m (\<lambda>_. ret (refusal es)) s2 \<noteq> (Inr r, s')" for m :: "('a, unit) act" and es
    using assms(2) none by (auto simp: andthen_def ret_def split: prod.splits sum.splits)
  have acc: "?st \<noteq> job_status_value ACCEPTED"
    using new assms(2) none by (auto simp: submit_new_def Let_def ret_def simp del: job_status_value.simps)
  have sub: "?st \<noteq> job_status_value COMPLETION_SUBMITTED"
    using new assms(2) none acc by (auto simp: submit_new_def Let_def ret_def simp del: job_status_value.simps)
  have ended: "?st \<notin> set TERMINAL_JOB_STATUSES"
    using new acc sub refuse by (auto simp: submit_new_def Let_def simp del: job_status_value.simps)
  have tok: "\<not> token_rejected job token"
    using new acc sub ended refuse by (auto simp: submit_new_def Let_def simp del: job_status_value.simps)
  from new acc sub ended tok obtain inputs s3 where "lift_py (frozen_inputs sv job sub) s2 = (Inr inputs, s3)" "same_delivery s2 s3"
    and rest: "(case inputs of Inl es \<Rightarrow> ret (refusal es) | Inr (tr, contract) \<Rightarrow> process d sv job sid sub tr contract) s3 = (Inr r, s')"
    unfolding submit_new_def Let_def by (simp only: if_False) (erule delivery.passes, rule base_steps_keep)
  moreover from rest assms(2) none obtain tr contract where "inputs = Inr (tr, contract)"
    by (cases inputs) (auto simp: ret_def)
  moreover have "same_delivery s s3"
    using get(2) \<open>same_delivery s1 s2\<close> \<open>same_delivery s2 s3\<close> delivery.rel_trans by blast
  ultimately show thesis
    using that [of job sid tr contract s3] get_stepD [OF get(1) job] tok prior ended by (auto dest: lift_pyD)
qed

lemma capture_sealed:
  assumes "capture_completion_candidate d sv job contract sid sub s = (Inr (Inr c), s')"
  shows "sealed_candidate sv job sid sub contract c"
proof -
  from assms obtain captured s1 where w: "world_step (\<lambda>w. case capture_candidate (sv_capture sv) (j_workspace_path job) (storage_root sv job) (candidate_identity sv job sid)
         (map_option fc_baseline contract) (sb_changed_files sub) (map_option fc_selection contract) w of (r, w) \<Rightarrow> (map_sum PyRaised id r, w)) s = (Inr captured, s1)"
    and rest: "(case captured of Inl es \<Rightarrow> ret (Inl es) | Inr (c, _) \<Rightarrow> andthen (get_step d (j_job_id job)) (\<lambda>current.
         andthen (update_step d (j_job_id job) (status_now job current) (candidate_metadata c)) (\<lambda>_. ret (Inr c)))) s1 = (Inr (Inr c), s')"
    unfolding capture_completion_candidate_def by (rule journals.passes) (rule world_step_keeps)
  from rest have "\<exists>m. captured = Inr (c, m)"
    by (auto simp: ret_def andthen_def split: sum.splits prod.splits)
  with world_stepD [OF w] show ?thesis
    unfolding sealed_candidate_def by (fastforce split: prod.splits dest: map_sum_InrD)
qed

lemma verify_passed:
  assumes "verify_candidate d sv job sid sub tr contract c s = (Inr (v, out), s')"
  shows "\<exists>w. sv_verify sv job sub tr contract c out w = (Inr v, tx_world (st_tx s'))"
proof -
  from assms obtain x s1 where w: "world_step (\<lambda>w. case relative_output_path (sv_ports sv) w job of
         None \<Rightarrow> (Inr (Inl bad_output), w)
       | Some out \<Rightarrow> (case sv_verify sv job sub tr contract c out w of (r, w) \<Rightarrow> (Inr (map_sum id (\<lambda>v. (v, out)) r), w))) s = (Inr x, s1)"
    and rest: "(case x of
       Inl text' \<Rightarrow> andthen (record_validation_finished d job sid False [''completion.validation_exception''] (Some text') None) (\<lambda>_. raising (RaisedText text'))
     | Inr (v, out) \<Rightarrow> andthen (record_validation_finished d job sid (vf_accepted v) (map err_code (vf_errors v)) None (vf_report v)) (\<lambda>_. ret (v, out))) s1 = (Inr (v, out), s')"
    unfolding verify_candidate_def by (rule journals.passes) (rule world_step_keeps)
  have no: "yields (\<lambda>_. False) (andthen m (\<lambda>_. raising e))" for m :: "('a, unit) act" and e
    by blast
  from rest obtain v' out' where x: "x = Inr (v', out')"
    by (cases x) (auto dest: yieldsD [OF no])
  from delivery.goes_on [OF rest [unfolded x sum.case prod.case] finished_keeps]
  have "v' = v" "out' = out" and same: "same_delivery s1 s'" by (auto simp: ret_def)
  with x have x: "x = Inr (v, out)" by simp
  from world_stepD [OF w] x have "\<exists>w. sv_verify sv job sub tr contract c out w = (Inr v, tx_world (st_tx s1))"
    by (fastforce split: option.splits prod.splits dest!: map_sum_InrD)
  with same show ?thesis by (simp add: same_delivery_def)
qed

lemma rejections_refuse:
  "yields (\<lambda>r. \<not> cm_accepted r) (reject_completion d sv job sid v es m)" "yields (\<lambda>r. \<not> cm_accepted r) (reject_candidate_capture d job sid es)"
  "yields (\<lambda>r. \<not> cm_accepted r) (settle_failed d job sid v e)"
  unfolding reject_completion_def reject_candidate_capture_def settle_failed_def Let_def
  by (intro yields_andthen yields_rules; simp add: rejection_def refusal_def)+

lemma process_delivered:
  assumes "process d sv job sid sub tr contract s = (Inr r, s')" "cm_accepted r"
  obtains c v out s1 where "sealed_candidate sv job sid sub contract c" "\<exists>w. sv_verify sv job sub tr contract c out w = (Inr v, tx_world (st_tx s1))"
    "vf_accepted v" "deliver d sv job sid sub tr contract c v out s1 = (Inr r, s')" "same_journals s s1"
proof -
  have rejected: "reject_completion d sv job sid v es m t \<noteq> (Inr r, u)" "reject_candidate_capture d job sid es t \<noteq> (Inr r, u)" for v es m t u
    using assms(2) by (auto dest: yieldsD [OF rejections_refuse(1)] yieldsD [OF rejections_refuse(2)])
  from assms(1) obtain u1 s1 where s1: "same_journals s s1" and rest: "andthen (capture_completion_candidate d sv job contract sid sub) (\<lambda>captured. case captured of
       Inl es \<Rightarrow> reject_candidate_capture d job sid es
     | Inr c \<Rightarrow> andthen (log_step d job sid (system_actor ''completion-verifier'') (Inr ''ExecutionCompletionCandidateCaptured'') (captured_data c)) (\<lambda>_.
         andthen (verify_candidate d sv job sid sub tr contract c) (\<lambda>(v, out).
           if \<not> vf_accepted v then reject_completion d sv job sid v (vf_errors v) (verification_message (cd_exc d) v)
           else deliver d sv job sid sub tr contract c v out))) s1 = (Inr r, s')"
    unfolding process_def by (rule journals.passes) (rule journals_of_delivery, rule begin_keeps)
  from rest obtain captured s2 where cap: "capture_completion_candidate d sv job contract sid sub s1 = (Inr captured, s2)" and s2: "same_journals s1 s2"
    and rest: "(case captured of
       Inl es \<Rightarrow> reject_candidate_capture d job sid es
     | Inr c \<Rightarrow> andthen (log_step d job sid (system_actor ''completion-verifier'') (Inr ''ExecutionCompletionCandidateCaptured'') (captured_data c)) (\<lambda>_.
         andthen (verify_candidate d sv job sid sub tr contract c) (\<lambda>(v, out).
           if \<not> vf_accepted v then reject_completion d sv job sid v (vf_errors v) (verification_message (cd_exc d) v)
           else deliver d sv job sid sub tr contract c v out))) s2 = (Inr r, s')"
    by (rule journals.passes) (rule capture_keeps)
  from rest rejected obtain c where c: "captured = Inr c" by (cases captured) auto
  from rest [unfolded c sum.case] obtain u2 s3 where s3: "same_journals s2 s3" and rest: "andthen (verify_candidate d sv job sid sub tr contract c) (\<lambda>(v, out).
           if \<not> vf_accepted v then reject_completion d sv job sid v (vf_errors v) (verification_message (cd_exc d) v)
           else deliver d sv job sid sub tr contract c v out) s3 = (Inr r, s')"
    by (rule journals.passes) (rule journals_of_delivery, rule log_step_keeps)
  from rest obtain vo s4 where ver: "verify_candidate d sv job sid sub tr contract c s3 = (Inr vo, s4)" and s4: "same_journals s3 s4"
    and rest: "(case vo of (v, out) \<Rightarrow> if \<not> vf_accepted v then reject_completion d sv job sid v (vf_errors v) (verification_message (cd_exc d) v)
           else deliver d sv job sid sub tr contract c v out) s4 = (Inr r, s')"
    by (rule journals.passes) (rule verify_keeps)
  obtain v out where vo: "vo = (v, out)" by fastforce
  from rest vo rejected have "vf_accepted v" and del: "deliver d sv job sid sub tr contract c v out s4 = (Inr r, s')"
    by (auto split: if_splits)
  show thesis
    by (rule that [OF capture_sealed verify_passed \<open>vf_accepted v\<close> del])
      (use cap c ver vo in simp_all, use s1 s2 s3 s4 journals.rel_trans in blast)
qed

lemma deliver_accepted:
  assumes "deliver d sv job sid sub tr contract c v out s = (Inr r, s')" "cm_accepted r"
  obtains p revn events w where "plan_delivery sv (tx_world (st_tx s)) job sub tr contract c out = Inr (Inr p)" "cm_verification r = Some v"
    "all_effects (completion_runtime sv (j_task_id job) (acceptance_of sv job sid sub tr c out v p revn))
       (ac_effects (acceptance_of sv job sid sub tr c out v p revn)) (tx_world (st_tx s)) = Some w"
    "fst (final_check (completion_runtime sv (j_task_id job) (acceptance_of sv job sid sub tr c out v p revn)) w) = None"
    "journal_on_disk (tx_journals (st_tx s')) (te_exc (cd_tx d)) (j_job_id job @ ''-'' @ sid)
       (committed_record (cd_tx d) (completion_request sv (tx_world (st_tx s)) job sid (acceptance_of sv job sid sub tr c out v p revn) events))"
proof -
  have failed: "reject_completion d sv job sid v es m t \<noteq> (Inr r, u)" "settle_failed d job sid v e t \<noteq> (Inr r, u)" for es m t u e
    using assms(2) by (auto dest: yieldsD [OF rejections_refuse(1)] yieldsD [OF rejections_refuse(3)])
  from assms(1) obtain planned s1 where pl: "andthen (look (\<lambda>w. plan_delivery sv w job sub tr contract c out)) lift_py s = (Inr planned, s1)"
    and s1: "same_delivery s s1" and rest: "(case planned of
       Inl es \<Rightarrow> reject_completion d sv job sid v es (format_errors (cd_exc d) es)
     | Inr p \<Rightarrow>
         andthen (build_events d job sid (acceptance_events job tr (effective_to_state tr (dp_derived p)) (sb_summary sub) (dp_promoted p) (dp_derived p))) (\<lambda>events.
         andthen (andthen (look (\<lambda>w. acceptance_task_revision sv w job contract)) lift_py) (\<lambda>revn.
         andthen (apply_acceptance d sv job sid (acceptance_of sv job sid sub tr c out v p revn) events) (\<lambda>applied.
           if tr_accepted applied then settle_accepted d sv job sid sub p v
           else settle_failed d job sid v (case tr_error applied of Some e \<Rightarrow> e | None \<Rightarrow> transaction_failed))))) s1 = (Inr r, s')"
    unfolding deliver_def by (rule delivery.passes) (intro delivery.keeps_andthen base_steps_keep)
  from rest failed obtain p where p: "planned = Inr p" by (cases planned) auto
  from pl have plan: "plan_delivery sv (tx_world (st_tx s)) job sub tr contract c out = Inr (Inr p)"
    using p by (auto simp: andthen_def look_def dest: lift_pyD)
  from rest [unfolded p sum.case] obtain events s2 where s2: "same_delivery s1 s2" and rest:
      "andthen (andthen (look (\<lambda>w. acceptance_task_revision sv w job contract)) lift_py) (\<lambda>revn.
         andthen (apply_acceptance d sv job sid (acceptance_of sv job sid sub tr c out v p revn) events) (\<lambda>applied.
           if tr_accepted applied then settle_accepted d sv job sid sub p v
           else settle_failed d job sid v (case tr_error applied of Some e \<Rightarrow> e | None \<Rightarrow> transaction_failed))) s2 = (Inr r, s')"
    by (rule delivery.passes) (rule build_events_keeps)
  from rest obtain revn s3 where s3: "same_delivery s2 s3" and rest:
      "andthen (apply_acceptance d sv job sid (acceptance_of sv job sid sub tr c out v p revn) events) (\<lambda>applied.
           if tr_accepted applied then settle_accepted d sv job sid sub p v
           else settle_failed d job sid v (case tr_error applied of Some e \<Rightarrow> e | None \<Rightarrow> transaction_failed)) s3 = (Inr r, s')"
    by (rule delivery.passes) (intro delivery.keeps_andthen base_steps_keep)
  have w: "tx_world (st_tx s3) = tx_world (st_tx s)"
    using s1 s2 s3 by (simp add: same_delivery_def)
  let ?a = "acceptance_of sv job sid sub tr c out v p revn"
  let ?q = "completion_request sv (tx_world (st_tx s)) job sid ?a events"
  obtain ar tx where app: "tx_apply (cd_tx d) (completion_runtime sv (j_task_id job) ?a) ?q (st_tx s3) = (ar, tx)" by fastforce
  from rest app w obtain applied where ar: "ar = Inr applied"
    by (cases ar) (auto simp: andthen_def apply_acceptance_def)
  with rest app w have settle: "(if tr_accepted applied then settle_accepted d sv job sid sub p v
           else settle_failed d job sid v (case tr_error applied of Some e \<Rightarrow> e | None \<Rightarrow> transaction_failed)) (s3\<lparr>st_tx := tx\<rparr>) = (Inr r, s')"
    by (simp add: andthen_def apply_acceptance_def)
  then have acc: "tr_accepted applied" using failed by (auto split: if_splits)
  with settle have "same_journals (s3\<lparr>st_tx := tx\<rparr>) s'"
    by (auto dest: journals.keepsD [OF settle_keeps(2)])
  then have js: "tx_journals (st_tx s') = tx_journals tx" by (simp add: same_journals_def)
  have "yields (\<lambda>r. cm_verification r = Some v) (settle_accepted d sv job sid sub p v)"
    unfolding settle_accepted_def Let_def by (intro yields_andthen yields_rules) (simp add: approval_def)
  then have ver: "cm_verification r = Some v" using settle acc by (auto dest: yieldsD)
  have k: "tx_journal_id (cd_tx d) ?q = j_job_id job @ ''-'' @ sid"
    by (simp add: tx_journal_id_def completion_request_def py_or_def)
  from tx_apply_accepted [OF app [unfolded ar] acc, unfolded w k] obtain wb where
    "all_effects (completion_runtime sv (j_task_id job) ?a) (tq_effects ?q) (tx_world (st_tx s)) = Some wb"
    "final_check (completion_runtime sv (j_task_id job) ?a) wb = (None, tx_world tx)"
    "journal_on_disk (tx_journals tx) (te_exc (cd_tx d)) (j_job_id job @ ''-'' @ sid) (committed_record (cd_tx d) ?q)"
    by blast
  with plan ver js show thesis
    by (intro that [of p revn wb events]) (simp_all add: completion_request_def)
qed

section \<open>What an acceptance means\<close>

lemma journal_context_kept:
  "fmlookup (journal_context sv w a) ''job_id'' = fmlookup (ac_context a) ''job_id''"
  "fmlookup (journal_context sv w a) ''verification_accepted'' = fmlookup (ac_context a) ''verification_accepted''"
  "fmlookup (journal_context sv w a) ''submission_id'' = fmlookup (ac_context a) ''submission_id''"
  by (auto simp: journal_context_def Let_def fmlookup_of_list split: option.splits)

text \<open>The journal of an acceptance: committed, for this task and transition, with the evidence.\<close>

definition acceptance_journal :: "execution_job \<Rightarrow> string \<Rightarrow> transaction_journal \<Rightarrow> bool" where
  "acceptance_journal job sid rec \<longleftrightarrow> jn_status rec = Inl J_COMMITTED \<and> jn_task_id rec = Some (j_task_id job) \<and> jn_transition_id rec = Some (j_transition_id job)
     \<and> jn_project_id rec = j_project_id job \<and> jget (jn_context rec) ''job_id'' JNull = JStr (j_job_id job)
     \<and> jget (jn_context rec) ''submission_id'' JNull = JStr sid \<and> jget (jn_context rec) ''verification_accepted'' JNull = JBool True"

lemma committed_acceptance:
  "vf_accepted v \<Longrightarrow> acceptance_journal job sid (committed_record env (completion_request sv w job sid (acceptance_of sv job sid sub tr c out v p revn) events))"
  by (simp add: acceptance_journal_def committed_record_def tx_record_def completion_request_def jget_def journal_context_kept acceptance_of_def Let_def fmlookup_of_list)

lemma validated_state:
  assumes "fst (final_check (completion_runtime sv tid a) w) = None"
  shows "\<exists>t. readable_task (po_read (sv_ports sv) w) tid = Some t \<and> t_current_state t = ac_to_state a
    \<and> (\<forall>root. sv_repo_root sv = Some root \<longrightarrow> validate_integrated_source (sv_ports sv) w root (ac_candidate a) (Some (ac_out a)) (Some (ac_artifact_paths a)) = Inr [])"
  using assms
  by (auto simp: final_check_def completion_runtime_def validate_final_state_def fx_refused_def fx_done_def raised_def Let_def split: option.splits sum.splits if_splits)

text \<open>
  C2. An acceptance is earned: when a submission is answered with an acceptance and a
  verification, then the job was open and the token was its own; the candidate was sealed from
  the workspace of the job and the verifier accepted that candidate; the planned effects all went
  through, one after the other, and after them the task is in the state it was to reach and the
  repository has the verified source; and a committed journal with this evidence is on disk.
\<close>

theorem acceptance_is_earned:
  assumes "submit d sv jid sub token s = (Inr r, s')" "cm_accepted r" "cm_verification r = Some v"
  shows "\<exists>job sid tr contract c out w p revn wa rec. let a = acceptance_of sv job sid sub tr c out v p revn in
      job_now d jid s = Some job \<and> jstatus_value (j_status job) \<notin> set TERMINAL_JOB_STATUSES \<and> \<not> token_rejected job token
    \<and> frozen_inputs sv job sub = Inr (Inr (tr, contract)) \<and> sealed_candidate sv job sid sub contract c
    \<and> fst (sv_verify sv job sub tr contract c out w) = Inr v \<and> vf_accepted v
    \<and> plan_delivery sv (snd (sv_verify sv job sub tr contract c out w)) job sub tr contract c out = Inr (Inr p)
    \<and> all_effects (completion_runtime sv (j_task_id job) a) (ac_effects a) (snd (sv_verify sv job sub tr contract c out w)) = Some wa
    \<and> (\<exists>t. readable_task (po_read (sv_ports sv) wa) (j_task_id job) = Some t \<and> t_current_state t = effective_to_state tr (dp_derived p)
       \<and> (\<forall>root. sv_repo_root sv = Some root \<longrightarrow> validate_integrated_source (sv_ports sv) wa root c (Some out) (Some (dp_artifact_paths p)) = Inr []))
    \<and> journal_on_disk (tx_journals (st_tx s')) (te_exc (cd_tx d)) (j_job_id job @ ''-'' @ sid) rec \<and> acceptance_journal job sid rec"
proof -
  from submit_processed [OF assms(1,3)] obtain job sid tr contract s1 where
    job: "job_now d jid s = Some job" "\<not> token_rejected job token" "jstatus_value (j_status job) \<notin> set TERMINAL_JOB_STATUSES"
    "frozen_inputs sv job sub = Inr (Inr (tr, contract))" and process: "process d sv job sid sub tr contract s1 = (Inr r, s')" by metis
  from process_delivered [OF process assms(2)] obtain c v' out s2 w where
    c: "sealed_candidate sv job sid sub contract c" and ver: "sv_verify sv job sub tr contract c out w = (Inr v', tx_world (st_tx s2))"
    and ok: "vf_accepted v'" and del: "deliver d sv job sid sub tr contract c v' out s2 = (Inr r, s')" by metis
  from deliver_accepted [OF del assms(2)] obtain p revn events wa where
    p: "plan_delivery sv (tx_world (st_tx s2)) job sub tr contract c out = Inr (Inr p)" and v: "cm_verification r = Some v'"
    and eff: "all_effects (completion_runtime sv (j_task_id job) (acceptance_of sv job sid sub tr c out v' p revn))
       (ac_effects (acceptance_of sv job sid sub tr c out v' p revn)) (tx_world (st_tx s2)) = Some wa"
    and fin: "fst (final_check (completion_runtime sv (j_task_id job) (acceptance_of sv job sid sub tr c out v' p revn)) wa) = None"
    and disk: "journal_on_disk (tx_journals (st_tx s')) (te_exc (cd_tx d)) (j_job_id job @ ''-'' @ sid)
       (committed_record (cd_tx d) (completion_request sv (tx_world (st_tx s2)) job sid (acceptance_of sv job sid sub tr c out v' p revn) events))" by metis
  have v': "v' = v" using v assms(3) by simp
  have to: "ac_to_state (acceptance_of sv job sid sub tr c out v p revn) = effective_to_state tr (dp_derived p)"
    "ac_candidate (acceptance_of sv job sid sub tr c out v p revn) = c" "ac_out (acceptance_of sv job sid sub tr c out v p revn) = out"
    "ac_artifact_paths (acceptance_of sv job sid sub tr c out v p revn) = dp_artifact_paths p"
    by (simp_all add: acceptance_of_def Let_def)
  note state = validated_state [OF fin [unfolded v'], unfolded to]
  show ?thesis
    unfolding Let_def
    by (rule exI [of _ job], rule exI [of _ sid], rule exI [of _ tr], rule exI [of _ contract], rule exI [of _ c], rule exI [of _ out], rule exI [of _ w],
        rule exI [of _ p], rule exI [of _ revn], rule exI [of _ wa], rule exI, intro conjI, rule job(1), rule job(3), rule job(2), rule job(4), rule c)
      (use ver ok p eff state disk committed_acceptance [OF ok] in \<open>simp_all add: v'\<close>)
qed

end
