(* ===== verification/SubmissionSample.thy ===== *)
theory SubmissionSample
  imports Submission
begin

text \<open>
  A small world for the examples: a tracker with one task, no repository, and a workspace whose
  scan finds nothing.
\<close>

type_synonym board_world = "(string \<times> task) list"

definition board_read :: "board_world \<Rightarrow> string \<Rightarrow> read_task_result" where
  "board_read w i = (case dict_get w i of None \<Rightarrow> \<lparr>rtr_errors = [derror ''task.not_found'' [] None], rtr_task = None\<rparr> | Some t \<Rightarrow> \<lparr>rtr_errors = [], rtr_task = Some t\<rparr>)"

definition board_write :: "task \<Rightarrow> board_world \<Rightarrow> domain_error list \<times> board_world" where
  "board_write t w = ([], dict_set (t_id t) t w)"

definition board_move :: "string \<Rightarrow> string \<Rightarrow> board_world \<Rightarrow> domain_error list \<times> board_world" where
  "board_move i st w = (case dict_get w i of None \<Rightarrow> ([derror ''task.not_found'' [] None], w) | Some t \<Rightarrow> ([], dict_set i (t\<lparr>t_current_state := st\<rparr>) w))"

definition board_ports :: "board_world ports" where
  "board_ports = \<lparr>po_load = (\<lambda>w. \<lparr>lp_errors = [], lp_snapshot = Some \<lparr>snap_project_id = ''p'', snap_tasks = w, snap_board_positions = []\<rparr>\<rparr>),
     po_read = board_read, po_write_task = board_write, po_create_task = board_write, po_move_task = board_move,
     po_at = (\<lambda>_ _. Absent), po_is_link = (\<lambda>_ _. False), po_resolve = (\<lambda>_ p. p), po_copy = (\<lambda>_ _ w. (False, w)), po_unlink = (\<lambda>_ w. (False, w)),
     po_unlink_nofollow = (\<lambda>_ _ w. (Inr False, w)), po_rmdir_nofollow = (\<lambda>_ _ w. (Inr False, w)), po_copy_nofollow = (\<lambda>_ _ _ _ _ w. (Inl SystemFailure, w)),
     po_scan = (\<lambda>_ _ _. Some []), po_snapshot = (\<lambda>_ _. ([], None)), po_index_git = (\<lambda>_ _ _. \<lparr>gr_code = 1, gr_stdout = [], gr_stderr = []\<rparr>), po_git = (\<lambda>_ w. (\<lparr>gr_code = 0, gr_stdout = [], gr_stderr = []\<rparr>, w)),
     po_sha256 = (\<lambda>_. ''c0ffee''), po_exc = (\<lambda>_. ''failed'')\<rparr>"

definition quiet_capture :: "'w capture_ports" where
  "quiet_capture = \<lparr>cap_canonical = (\<lambda>_. ''d''), cap_discover = (\<lambda>_ _. JNull), cap_refresh = (\<lambda>s _ _. s), cap_selection_sha256 = (\<lambda>_. ''s''),
     cap_walk = (\<lambda>_ _ w. (Some [], w)), cap_make = (\<lambda>_ _ w. (True, w)), cap_copy = (\<lambda>_ _ _ w. (True, w)), cap_write = (\<lambda>_ _ w. (True, w))\<rparr>"

definition build_step :: transition_definition where
  "build_step = \<lparr>td_id = ''build'', td_task_type = ''Task'', td_from_state = ''open'', td_to_state = ''closed'', td_worker = Some ''w'',
     td_requires = \<lparr>rd_artifacts = [], rd_validations = [], rd_changed_files_required = False\<rparr>, td_transaction = None, td_derives = None,
     td_default_for_scheduler = False, td_instructions = [], td_review = Some False\<rparr>"

definition build_workflow :: workflow_definition where
  "build_workflow = \<lparr>wf_schema_version = 1, wf_states = [], wf_task_types = [], wf_artifact_types = [], wf_validation_types = [], wf_operation_types = [],
     wf_workers = [], wf_transitions = [(''build'', build_step)], wf_storage = None\<rparr>"

definition open_task :: task where
  "open_task = \<lparr>t_id = ''1'', t_title = ''One'', t_path = ''tasks/1.md'', t_current_state = ''open'', t_task_type = ''Task'', t_dependencies = [],
     t_artifact_links = [], t_parent_id = None, t_metadata = fmempty, t_body = []\<rparr>"

definition work_job :: "job_status \<Rightarrow> execution_job" where
  "work_job st = \<lparr>j_job_id = ''J'', j_project_id = ''p'', j_task_id = ''1'', j_transition_id = ''build'', j_worker_id = ''w'', j_workspace_path = ''/ws'',
     j_status = Inl st, j_attempts = 1, j_metadata = fmap_of_list [(''completion_token'', JStr ''key'')]\<rparr>"

lemma work_job_simps [simp]:
  "j_job_id (work_job st) = ''J''" "j_task_id (work_job st) = ''1''" "j_transition_id (work_job st) = ''build''" "j_workspace_path (work_job st) = ''/ws''"
  "j_status (work_job st) = Inl st" "j_metadata (work_job st) = fmap_of_list [(''completion_token'', JStr ''key'')]"
  by (simp_all add: work_job_def)

definition work_store :: "job_status \<Rightarrow> job_store" where
  "work_store st = \<lparr>js_root = ''/jobs'', js_files = fmap_of_list [(''J'', Stored (JObj (job_to_payload (work_job st))))]\<rparr>"

definition work_state :: "board_world completion_state" where
  "work_state = \<lparr>st_jobs = work_store RUNNING,
     st_tx = \<lparr>tx_journals = \<lparr>jns_root = ''/j'', jns_files = fmempty\<rparr>, tx_events = \<lparr>es_root = ''/e'', es_files = fmempty, es_human = fmempty\<rparr>, tx_world = [(''1'', open_task)]\<rparr>,
     st_clock = 0\<rparr>"

definition build_service :: "bool \<Rightarrow> board_world completion_service" where
  "build_service ok = \<lparr>sv_workflow = build_workflow, sv_ports = board_ports, sv_capture = quiet_capture, sv_artifact_root = None, sv_repo_root = None,
     sv_repo_identity = None, sv_candidate_root = None, sv_max_repairs = 2, sv_load_contract = (\<lambda>_. Inr None), sv_load_planning = (\<lambda>_. Inr None),
     sv_verify = (\<lambda>job sub tr fc c out w. (Inr \<lparr>vf_accepted = ok, vf_errors = (if ok then [] else [derror ''failed'' [] None]), vf_report = None\<rparr>, w)),
     sv_packet = (\<lambda>_ _. ''fix it''), sv_digest = (\<lambda>_. ''r''), sv_decode = Some, sv_yaml = (\<lambda>_. None)\<rparr>"

lemma build_service_simps [simp]:
  "sv_workflow (build_service ok) = build_workflow" "sv_ports (build_service ok) = board_ports" "sv_capture (build_service ok) = quiet_capture"
  "sv_repo_root (build_service ok) = None" "sv_artifact_root (build_service ok) = None" "sv_candidate_root (build_service ok) = None" "sv_max_repairs (build_service ok) = 2"
  "sv_load_contract (build_service ok) j = Inr None" "sv_load_planning (build_service ok) j = Inr None" "sv_digest (build_service ok) v = ''r''"
  "sv_verify (build_service ok) j sub tr fc c out w = (Inr \<lparr>vf_accepted = ok, vf_errors = (if ok then [] else [derror ''failed'' [] None]), vf_report = None\<rparr>, w)"
  by (simp_all add: build_service_def)

lemma board_ports_simps [simp]:
  "po_read board_ports = board_read" "po_move_task board_ports = board_move" "po_resolve board_ports w p = p" "po_sha256 board_ports x = ''c0ffee''"
  "po_at board_ports w p = Absent" "po_is_link board_ports w p = False"
  "po_load board_ports w = \<lparr>lp_errors = [], lp_snapshot = Some \<lparr>snap_project_id = ''p'', snap_tasks = w, snap_board_positions = []\<rparr>\<rparr>"
  by (simp_all add: board_ports_def)

definition work_tx_env :: tx_env where
  "work_tx_env = \<lparr>te_exc = [], te_ulid = ''T'', te_started = ''2026-01-02'', te_closed = ''2026-01-02'', te_prepare = WriteOk, te_close = WriteOk, te_append = (\<lambda>_. WriteOk)\<rparr>"

text \<open>The events of a run need distinct identifiers.\<close>

definition work_draws :: "(nat \<Rightarrow> job_store \<Rightarrow> job_store) \<Rightarrow> completion_draws" where
  "work_draws meanwhile = \<lparr>cd_now = (\<lambda>_. ''2026-01-02T00:00:00Z''), cd_ulid = (\<lambda>n. replicate (Suc n) (CHR ''E'')), cd_job_fate = (\<lambda>_. WriteOk), cd_log_fate = (\<lambda>_ _. WriteOk),
     cd_meanwhile = meanwhile, cd_tx = work_tx_env, cd_duration = ''0.1'', cd_exc = []\<rparr>"

definition work_submission :: completion_submission where
  "work_submission = \<lparr>sb_id = Some ''S'', sb_attempt = None, sb_summary = ''ok'', sb_artifacts = [], sb_changed_files = [], sb_evidence = fmempty, sb_review = None\<rparr>"

end
