(* ===== verification/SubmissionLive.thy ===== *)
theory SubmissionLive
  imports SubmissionFacts SubmissionSample JobSettle
begin

text \<open>
  A sound submission is accepted: no step on the way raises while the stores are in order,
  whatever other processes do to the jobs in between and whichever writes of the job store and
  of the event log fail, and the transaction commits.
\<close>

section \<open>Steps that return\<close>

definition goes :: "('s \<Rightarrow> bool) \<Rightarrow> ('a \<Rightarrow> bool) \<Rightarrow> ('s \<Rightarrow> bool) \<Rightarrow> ('s \<Rightarrow> ('e + 'a) \<times> 's) \<Rightarrow> bool" where
  "goes P Q P' m \<longleftrightarrow> (\<forall>s. P s \<longrightarrow> (\<exists>x s'. m s = (Inr x, s') \<and> Q x \<and> P' s'))"

lemma goes_ret: "Q x \<Longrightarrow> goes P Q P (ret x)"
  by (simp add: goes_def ret_def)

lemma goes_andthen: "goes P Q P' m \<Longrightarrow> (\<And>x. Q x \<Longrightarrow> goes P' R P'' (f x)) \<Longrightarrow> goes P R P'' (andthen m f)"
  unfolding goes_def andthen_def by (metis (no_types, lifting) case_prod_conv sum.case(2))

lemma goes_weaken: "goes P Q P' m \<Longrightarrow> (\<And>x. Q x \<Longrightarrow> R x) \<Longrightarrow> goes P R P' m"
  unfolding goes_def by meson

definition tame :: "completion_draws \<Rightarrow> bool" where
  "tame d \<longleftrightarrow> (\<forall>n js. store_ok js \<longrightarrow> store_ok (cd_meanwhile d n js)) \<and> (\<forall>n. is_date (take 10 (cd_now d n)) \<and> cd_ulid d n \<noteq> [])"

definition healthy :: "'w \<Rightarrow> 'w completion_state \<Rightarrow> bool" where
  "healthy w s \<longleftrightarrow> store_ok (st_jobs s) \<and> log_ok (tx_events (st_tx s)) \<and> tx_world (st_tx s) = w"

definition any :: "'a \<Rightarrow> bool" where
  "any x \<longleftrightarrow> True"

definition filled_result :: "job_store_result \<Rightarrow> bool" where
  "filled_result r \<longleftrightarrow> (\<forall>j. jr_job r = Some j \<longrightarrow> job_filled j)"

lemma goes_get: "tame d \<Longrightarrow> goes (healthy w) filled_result (healthy w) (get_step d jid)"
  by (auto simp: goes_def healthy_def tame_def get_step_def job_step_def get_job_ok filled_result_def Let_def dest: view_filled split: option.split)

lemma goes_update:
  assumes "tame d" "jstatus_value st \<noteq> []"
  shows "goes (healthy w) any (healthy w) (update_step d jid st md)"
  unfolding goes_def
proof (intro allI impI)
  fix s :: "'a completion_state" assume h: "healthy w s"
  let ?js = "cd_meanwhile d (st_clock s) (st_jobs s)"
  let ?env = "\<lparr>env_now = cd_now d (st_clock s), env_write = cd_job_fate d (st_clock s)\<rparr>"
  have ok: "store_ok ?js" using h assms(1) by (auto simp: healthy_def tame_def)
  from update_status_returns [OF ok] obtain r js where u: "update_status ?env jid st md False ?js = (Inr r, js)" by blast
  from update_status_effect [OF ok assms(2) u] have "store_ok js" by blast
  with u h show "\<exists>x s'. update_step d jid st md s = (Inr x, s') \<and> any x \<and> healthy w s'"
    by (auto simp: update_step_def job_step_def healthy_def any_def Let_def)
qed

lemma goes_now: "goes (healthy w) any (healthy w) (now_step d)"
  by (simp add: goes_def now_step_def healthy_def any_def)

lemma append_event_ok:
  assumes "log_ok s" "event_filled e"
  shows "\<exists>res s'. append_event fates e s = (Inr res, s') \<and> log_ok s'"
proof -
  obtain r s' where b: "append_body fates e s = (r, s')" by fastforce
  obtain ids where ids: "event_ids s = Inr ids" using event_ids_ok [OF assms(1)] by blast
  have quiet: "list_all (line_quiet \<circ> JsonLine) [JObj (event_to_dict e)]"
    using written_line_quiet [OF assms(2)] by simp
  have "log_ok s' \<and> (\<forall>x. r = Inl x \<longrightarrow> caught_append x)"
  proof (cases "event_file e")
    case (Inl x)
    with b assms(1) show ?thesis by (auto simp: append_body_def event_file_def caught_append_def Let_def split: if_splits)
  next
    case (Inr name)
    obtain r1 s1 where j: "append_jsonl (fates 0) name [JObj (event_to_dict e)] s = (r1, s1)" by fastforce
    have s1: "log_ok s1" using append_jsonl_effect [OF assms(1) quiet j] by blast
    have r1: "r1 = Inl x \<Longrightarrow> x = OSErr" for x
      using j by (auto simp: append_jsonl_def Let_def split: if_splits)
    have human: "human_file e = Inl x \<Longrightarrow> x = ValueErr" for x
      by (auto simp: human_file_def Let_def split: if_splits)
    have app: "log_ok s2 \<and> (r2 = Inl x \<longrightarrow> x = OSErr)" if "append_human (fates 1) h ls s1 = (r2, s2)" for h ls r2 s2 x
      using that s1 log_lines_files [of s2 s1] by (auto simp: append_human_def Let_def split: write_fate.splits)
    from b Inr ids j s1 r1 human app assms(1) show ?thesis
      by (auto simp: append_body_def caught_append_def split: if_splits sum.splits prod.splits)
  qed
  with b show ?thesis by (cases r) (auto simp: append_event_def guard_append_def)
qed

lemma goes_event:
  assumes "tame d" "job_filled job" "actor_type actor \<noteq> []" "actor_id actor \<noteq> []" "etype_value ty \<noteq> []"
  shows "goes (healthy w) (\<lambda>e. dated e \<and> event_filled e) (healthy w) (event_step d job sid actor ty tid data)"
proof -
  have now: "cd_now d n \<noteq> []" for n
  proof
    assume e: "cd_now d n = []"
    have "is_date (take 10 (cd_now d n))" using assms(1) unfolding tame_def by blast
    then show False by (simp add: e is_date_def)
  qed
  show ?thesis
    using assms now by (auto simp: goes_def event_step_def healthy_def build_event_def dated_def event_filled_def py_or_def tame_def job_filled_def Let_def)
qed

lemma goes_append:
  assumes "event_filled e"
  shows "goes (healthy w) any (healthy w) (append_step d e)"
  unfolding goes_def
proof (intro allI impI)
  fix s :: "'a completion_state" assume h: "healthy w s"
  then obtain res es where "append_event (cd_log_fate d (st_clock s)) e (tx_events (st_tx s)) = (Inr res, es)" "log_ok es"
    using append_event_ok assms unfolding healthy_def by blast
  with h show "\<exists>x s'. append_step d e s = (Inr x, s') \<and> any x \<and> healthy w s'"
    by (simp add: append_step_def healthy_def any_def)
qed

lemma goes_log:
  assumes "tame d" "job_filled job" "actor_type actor \<noteq> []" "actor_id actor \<noteq> []" "etype_value ty \<noteq> []"
  shows "goes (healthy w) any (healthy w) (log_step d job sid actor ty data)"
  unfolding log_step_def
  by (rule goes_andthen [OF goes_event [OF assms]], rule goes_andthen [OF goes_append]) (auto intro: goes_ret simp: any_def)

lemma actors_filled [simp]:
  "actor_type (system_actor i) \<noteq> []" "actor_id (system_actor i) = i" "actor_type (worker_actor job) \<noteq> []" "actor_id (worker_actor job) = j_worker_id job"
  by (simp_all add: system_actor_def worker_actor_def)

lemma etype_filled [simp]: "etype_value (Inr t) = t" "etype_value (Inl e) \<noteq> []"
  by (simp add: etype_value_def) (cases e; simp add: etype_value_def)

lemma goes_finished:
  assumes "tame d" "job_filled job"
  shows "goes (healthy w) any (healthy w) (record_validation_finished d job sid acc codes detail report)"
  unfolding record_validation_finished_def Let_def
proof (rule goes_andthen [OF goes_log], goal_cases)
  case (6 x)
  show ?case
  proof (rule goes_andthen [OF goes_get [OF assms(1)]])
    fix current assume f: "filled_result current"
    show "goes (healthy w) any (healthy w) (case jr_job current of None \<Rightarrow> ret () | Some c \<Rightarrow> andthen (now_step d) (\<lambda>now.
       andthen (update_step d (j_job_id job) (j_status c)
         (case report of
           None \<Rightarrow> fmap_of_list [(''completion_validation_finished_at'', JStr now), (''completion_validation_duration_seconds'', JFloat (cd_duration d)),
             (''completion_validation_error_codes'', JList (map JStr codes)), (''completion_validation_error_count'', JInt (int (length codes)))]
         | Some r \<Rightarrow> fmupd ''verification_report'' (JObj (vp_dict r)) (fmap_of_list [(''completion_validation_finished_at'', JStr now), (''completion_validation_duration_seconds'', JFloat (cd_duration d)),
             (''completion_validation_error_codes'', JList (map JStr codes)), (''completion_validation_error_count'', JInt (int (length codes)))]))) (\<lambda>_. ret ())))"
    proof (cases "jr_job current")
      case None
      then show ?thesis by (simp add: goes_ret any_def)
    next
      case (Some c)
      with f have "jstatus_value (j_status c) \<noteq> []" by (simp add: filled_result_def job_filled_def)
      with Some show ?thesis
        by (simp only: option.case) (intro goes_andthen [OF goes_now] goes_andthen [OF goes_update [OF assms(1)]] goes_ret; simp add: any_def)
    qed
  qed
qed (use assms in simp_all)

lemma goes_begin:
  assumes "tame d" "job_filled job"
  shows "goes (healthy w) any (healthy w) (begin_validation d job sid sub tr)"
  unfolding begin_validation_def
  by (intro goes_andthen [OF goes_log] goes_andthen [OF goes_now] goes_andthen [OF goes_update] goes_log)
    (use assms in \<open>simp_all add: job_filled_def jstatus_value_def\<close>)

lemma goes_build:
  assumes "tame d" "job_filled job" "list_all (\<lambda>(actor, ty, tid, data). actor_type actor \<noteq> [] \<and> actor_id actor \<noteq> [] \<and> etype_value ty \<noteq> []) specs"
  shows "goes (healthy w) (\<lambda>es. list_all dated es \<and> list_all event_filled es) (healthy w) (build_events d job sid specs)"
  using assms
proof (induction d job sid specs rule: build_events.induct)
  case (2 d job sid actor ty tid data rest)
  then show ?case
    by (auto intro!: goes_andthen [OF goes_event] goes_andthen [OF 2(1)] goes_ret)
qed (auto intro: goes_ret)

section \<open>A transaction that commits\<close>

lemma write_journal_ok:
  assumes "safe_id (jn_journal_id r)"
  shows "\<exists>res s'. write_journal exc WriteOk r s = (res, s') \<and> jw_accepted res \<and> jw_record res = Some r"
  using assms by (simp add: write_journal_def safe_id_def jw_accepted_def Let_def)

definition fine_tx :: "tx_env \<Rightarrow> bool" where
  "fine_tx env \<longleftrightarrow> te_prepare env = WriteOk \<and> te_close env = WriteOk \<and> writes_fine (te_append env)"

lemma tx_apply_commits:
  assumes "fine_tx env" "log_ok (tx_events st)" "safe_id (tx_journal_id env q)" "list_all dated (tq_events q)" "list_all event_filled (tq_events q)"
    and "all_effects rt (tq_effects q) (tx_world st) = Some w" "final_check rt w = (None, w')"
  shows "\<exists>res st'. tx_apply env rt q st = (Inr res, st') \<and> tr_accepted res \<and> log_ok (tx_events st') \<and> tx_world st' = w'"
proof -
  have fine: "te_prepare env = WriteOk" "te_close env = WriteOk" "writes_fine (te_append env)" using assms(1) by (simp_all add: fine_tx_def)
  let ?closed = "(tx_record env q)\<lparr>jn_status := Inl J_COMMITTED, jn_completed_at := Some (te_closed env), jn_error := None\<rparr>"
  have safe: "safe_id (jn_journal_id (tx_record env q))" "safe_id (jn_journal_id ?closed)" using assms(3) by (simp_all add: tx_record_def)
  from write_journal_ok [OF safe(1)] obtain pr js where p: "write_journal (te_exc env) WriteOk (tx_record env q) (tx_journals st) = (pr, js)"
    "jw_accepted pr" "jw_record pr = Some (tx_record env q)" by blast
  obtain ar es where a: "append_many (te_append env) (tq_events q) (tx_events st) = (ar, es)" by fastforce
  from append_many_view [OF assms(2,4,5) a] fine obtain res where ar: "ar = Inr res" "ea_accepted res" "log_ok es" by blast
  from write_journal_ok [OF safe(2)] obtain cr js' where c: "write_journal (te_exc env) WriteOk ?closed js = (cr, js')" "jw_accepted cr" by blast
  from run_effects_all [OF assms(6), of "[]"] assms(7) p a ar c fine show ?thesis
    by (simp add: tx_apply_def prepare_journal_tx tx_run_def tx_log_def tx_finish_def commit_journal_def)
qed

section \<open>The whole way\<close>

lemma goes_world: "f w = (Inr x, w') \<Longrightarrow> goes (healthy w) (\<lambda>y. y = x) (healthy w') (world_step f)"
  by (simp add: goes_def world_step_def healthy_def)

lemma goes_look: "goes (healthy w) (\<lambda>y. y = f w) (healthy w) (look f)"
  by (simp add: goes_def look_def healthy_def)

lemma goes_lift: "goes P (\<lambda>y. y = x) P (lift_py (Inr x))"
  by (simp add: goes_def lift_py_def)

text \<open>What the world does with the submission: sealed, verified, planned and carried out.\<close>

definition sound_run :: "'w completion_service \<Rightarrow> execution_job \<Rightarrow> string \<Rightarrow> completion_submission \<Rightarrow> transition_definition \<Rightarrow> frozen_contract option
    \<Rightarrow> verification_result \<Rightarrow> 'w \<Rightarrow> bool" where
  "sound_run sv job sid sub tr contract v w \<longleftrightarrow> (\<exists>c m w1 out w2 p revn w3.
      capture_candidate (sv_capture sv) (j_workspace_path job) (storage_root sv job) (candidate_identity sv job sid)
        (map_option fc_baseline contract) (sb_changed_files sub) (map_option fc_selection contract) w = (Inr (Inr (c, m)), w1)
    \<and> relative_output_path (sv_ports sv) w1 job = Some out \<and> sv_verify sv job sub tr contract c out w1 = (Inr v, w2) \<and> vf_accepted v
    \<and> plan_delivery sv w2 job sub tr contract c out = Inr (Inr p) \<and> acceptance_task_revision sv w2 job contract = Inr revn
    \<and> (let a = acceptance_of sv job sid sub tr c out v p revn; rt = completion_runtime sv (j_task_id job) a
       in all_effects rt (ac_effects a) w2 = Some w3 \<and> fst (final_check rt w3) = None))"

lemma goes_capture:
  assumes "tame d" "job_filled job"
    and "capture_candidate (sv_capture sv) (j_workspace_path job) (storage_root sv job) (candidate_identity sv job sid)
        (map_option fc_baseline contract) (sb_changed_files sub) (map_option fc_selection contract) w = (Inr (Inr (c, m)), w1)"
  shows "goes (healthy w) (\<lambda>y. y = Inr c) (healthy w1) (capture_completion_candidate d sv job contract sid sub)"
  unfolding capture_completion_candidate_def
proof (rule goes_andthen [OF goes_world [where x = "Inr (c, m)" and w' = w1]], goal_cases)
  case 1 show ?case by (simp add: assms(3))
next
  case (2 x)
  have st: "filled_result r \<Longrightarrow> jstatus_value (status_now job r) \<noteq> []" for r
    using assms(2) by (auto simp: status_now_def filled_result_def job_filled_def split: option.splits)
  from 2 show ?case
    by (auto intro!: goes_andthen [OF goes_get [OF assms(1)]] goes_andthen [OF goes_update [OF assms(1)]] goes_ret st)
qed

lemma goes_verify:
  assumes "tame d" "job_filled job" "relative_output_path (sv_ports sv) w job = Some out" "sv_verify sv job sub tr contract c out w = (Inr v, w')"
  shows "goes (healthy w) (\<lambda>y. y = (v, out)) (healthy w') (verify_candidate d sv job sid sub tr contract c)"
  unfolding verify_candidate_def
proof (rule goes_andthen [OF goes_world [where x = "Inr (v, out)" and w' = w']], goal_cases)
  case 1 show ?case by (simp add: assms)
next
  case (2 x)
  then show ?case by (auto intro!: goes_andthen [OF goes_finished [OF assms(1,2)]] goes_ret)
qed

lemma specs_filled: "list_all (\<lambda>(actor, ty, tid, data). actor_type actor \<noteq> [] \<and> actor_id actor \<noteq> [] \<and> etype_value ty \<noteq> [])
    (acceptance_events job tr to_state summary promoted derived)"
  by (auto simp: acceptance_events_def Let_def list_all_iff)

lemma goes_settle:
  assumes "tame d"
  shows "\<exists>w'. goes (healthy w) (\<lambda>r. r = approval (Some v)) (healthy w') (settle_accepted d sv job sid sub p v)"
proof -
  obtain sha w' where sha: "accepted_commit_sha (sv_ports sv) (sv_repo_root sv) w = (sha, w')" by fastforce
  have "goes (healthy w) (\<lambda>r. r = approval (Some v)) (healthy w') (settle_accepted d sv job sid sub p v)"
    unfolding settle_accepted_def Let_def
    by (rule goes_andthen [OF goes_world [where x = sha and w' = w']]) (auto simp: sha jstatus_value_def intro!: goes_andthen [OF goes_update [OF assms]] goes_ret)
  then show ?thesis by blast
qed

lemma deliver_returns:
  assumes "tame d" "fine_tx (cd_tx d)" "job_filled job" "safe_id (j_job_id job @ ''-'' @ sid)"
    and "plan_delivery sv w job sub tr contract c out = Inr (Inr p)" "acceptance_task_revision sv w job contract = Inr revn"
    and "all_effects (completion_runtime sv (j_task_id job) (acceptance_of sv job sid sub tr c out v p revn))
       (ac_effects (acceptance_of sv job sid sub tr c out v p revn)) w = Some w3"
    and "fst (final_check (completion_runtime sv (j_task_id job) (acceptance_of sv job sid sub tr c out v p revn)) w3) = None"
    and "healthy w s"
  shows "\<exists>s'. deliver d sv job sid sub tr contract c v out s = (Inr (approval (Some v)), s')"
proof -
  let ?a = "acceptance_of sv job sid sub tr c out v p revn"
  obtain w4 where w4: "final_check (completion_runtime sv (j_task_id job) ?a) w3 = (None, w4)" using assms(8) by (metis prod.collapse)
  have tx: "goes (healthy w) tr_accepted (healthy w4) (apply_acceptance d sv job sid ?a events)"
    if "list_all dated events \<and> list_all event_filled events" for events
    unfolding goes_def
  proof (intro allI impI)
    fix s :: "'a completion_state" assume h: "healthy w s"
    have "tx_journal_id (cd_tx d) (completion_request sv w job sid ?a events) = j_job_id job @ ''-'' @ sid"
      by (simp add: tx_journal_id_def completion_request_def py_or_def)
    with tx_apply_commits [of "cd_tx d" "st_tx s" "completion_request sv w job sid ?a events" "completion_runtime sv (j_task_id job) ?a" w3 w4] h assms that w4
    obtain res st' where "tx_apply (cd_tx d) (completion_runtime sv (j_task_id job) ?a) (completion_request sv w job sid ?a events) (st_tx s) = (Inr res, st')"
      "tr_accepted res" "log_ok (tx_events st')" "tx_world st' = w4"
      by (auto simp: healthy_def completion_request_def)
    with h show "\<exists>x s'. apply_acceptance d sv job sid ?a events s = (Inr x, s') \<and> tr_accepted x \<and> healthy w4 s'"
      by (simp add: apply_acceptance_def healthy_def)
  qed
  obtain w' where settle: "goes (healthy w4) (\<lambda>r. r = approval (Some v)) (healthy w') (settle_accepted d sv job sid sub p v)"
    using goes_settle [OF assms(1), of w4 v sv job sid sub p] by (elim exE)
  have plan: "goes (healthy w) (\<lambda>y. y = Inr p) (healthy w) (andthen (look (\<lambda>w. plan_delivery sv w job sub tr contract c out)) lift_py)"
    by (rule goes_andthen [OF goes_look]) (simp add: assms(5) goes_lift)
  have revn: "goes (healthy w) (\<lambda>y. y = revn) (healthy w) (andthen (look (\<lambda>w. acceptance_task_revision sv w job contract)) lift_py)"
    by (rule goes_andthen [OF goes_look]) (simp add: assms(6) goes_lift)
  have "goes (healthy w) (\<lambda>r. r = approval (Some v)) (healthy w') (deliver d sv job sid sub tr contract c v out)"
    unfolding deliver_def
    by (rule goes_andthen [OF plan], simp only: sum.case, rule goes_andthen [OF goes_build [OF assms(1,3) specs_filled]], rule goes_andthen [OF revn],
        simp only:, rule goes_andthen [OF tx], simp, simp add: settle)
  with assms(9) show ?thesis unfolding goes_def by blast
qed

lemma process_accepts:
  assumes "tame d" "fine_tx (cd_tx d)" "job_filled job" "safe_id (j_job_id job @ ''-'' @ sid)" "sound_run sv job sid sub tr contract v w"
  shows "goes (healthy w) (\<lambda>r. r = approval (Some v)) any (process d sv job sid sub tr contract)"
proof -
  from assms(5) obtain c m w1 out w2 p revn w3 where run:
    "capture_candidate (sv_capture sv) (j_workspace_path job) (storage_root sv job) (candidate_identity sv job sid)
        (map_option fc_baseline contract) (sb_changed_files sub) (map_option fc_selection contract) w = (Inr (Inr (c, m)), w1)"
    "relative_output_path (sv_ports sv) w1 job = Some out" "sv_verify sv job sub tr contract c out w1 = (Inr v, w2)" "vf_accepted v"
    "plan_delivery sv w2 job sub tr contract c out = Inr (Inr p)" "acceptance_task_revision sv w2 job contract = Inr revn"
    "all_effects (completion_runtime sv (j_task_id job) (acceptance_of sv job sid sub tr c out v p revn))
       (ac_effects (acceptance_of sv job sid sub tr c out v p revn)) w2 = Some w3"
    "fst (final_check (completion_runtime sv (j_task_id job) (acceptance_of sv job sid sub tr c out v p revn)) w3) = None"
    unfolding sound_run_def Let_def by blast
  have delivered: "goes (healthy w2) (\<lambda>r. r = approval (Some v)) any (deliver d sv job sid sub tr contract c v out)"
    using deliver_returns [OF assms(1-4) run(5-8)] by (fastforce simp: goes_def any_def)
  show ?thesis
    unfolding process_def
    by (rule goes_andthen [OF goes_begin [OF assms(1,3)]], rule goes_andthen [OF goes_capture [OF assms(1,3) run(1)]], simp only: sum.case,
        rule goes_andthen [OF goes_log [OF assms(1,3)]], simp, simp, simp, rule goes_andthen [OF goes_verify [OF assms(1,3) run(2,3)]],
        simp add: run(4) delivered)
qed

text \<open>What a submission needs before its processing starts.\<close>

definition admitted :: "completion_draws \<Rightarrow> 'w completion_service \<Rightarrow> string \<Rightarrow> completion_submission \<Rightarrow> string option \<Rightarrow> 'w completion_state
    \<Rightarrow> execution_job \<Rightarrow> string \<Rightarrow> transition_definition \<Rightarrow> frozen_contract option \<Rightarrow> bool" where
  "admitted d sv jid sub token s job sid tr contract \<longleftrightarrow>
     sb_id sub = Some sid \<and> sid \<noteq> [] \<and> job_now d jid s = Some job \<and> prior_submission (j_metadata job) sid = None
     \<and> jstatus_value (j_status job) \<notin> set TERMINAL_JOB_STATUSES \<union> {''completion_submitted''} \<and> \<not> token_rejected job token
     \<and> frozen_inputs sv job sub = Inr (Inr (tr, contract)) \<and> safe_id (j_job_id job @ ''-'' @ sid)"

lemma submit_starts:
  assumes "tame d" "healthy w s" "admitted d sv jid sub token s job sid tr contract"
  obtains s1 where "submit d sv jid sub token s = process d sv job sid sub tr contract s1" "healthy w s1" "job_filled job"
proof -
  from goes_get [OF assms(1), of w jid] assms(2) obtain loaded s1 where get: "get_step d jid s = (Inr loaded, s1)" "filled_result loaded" "healthy w s1"
    unfolding goes_def by blast
  have "jr_job loaded = Some job"
    using get(1) assms(3) by (auto simp: admitted_def get_step_def job_step_def job_now_def Let_def split: sum.splits)
  moreover from this get(2) have "job_filled job" by (simp add: filled_result_def)
  moreover have "submit d sv jid sub token s = process d sv job sid sub tr contract s1"
    using get(1) calculation(1) assms(3)
    by (auto simp: admitted_def submit_def andthen_def submission_id_step_def submit_new_def Let_def lift_py_def TERMINAL_JOB_STATUSES_def)
  ultimately show thesis using get(3) that by blast
qed

text \<open>
  C11. Sound work is accepted: if the job is open and the token and the frozen inputs are right,
  the workspace can be sealed, the verifier accepts, the delivery can be planned and carried
  out, and the writes of the transaction succeed, then the submission returns an acceptance,
  whatever happens to the jobs in between and whichever other writes fail.
\<close>

theorem sound_work_is_accepted:
  assumes "tame d" "fine_tx (cd_tx d)" "store_ok (st_jobs s)" "log_ok (tx_events (st_tx s))"
    and "admitted d sv jid sub token s job sid tr contract" "sound_run sv job sid sub tr contract v (tx_world (st_tx s))"
  shows "\<exists>s'. submit d sv jid sub token s = (Inr (approval (Some v)), s')"
proof -
  have "healthy (tx_world (st_tx s)) s" using assms(3,4) by (simp add: healthy_def)
  then obtain s1 where "submit d sv jid sub token s = process d sv job sid sub tr contract s1" "healthy (tx_world (st_tx s)) s1" "job_filled job"
    using submit_starts [OF assms(1) _ assms(5)] by blast
  with process_accepts [OF assms(1,2) _ _ assms(6)] assms(5) show ?thesis unfolding goes_def admitted_def by metis
qed

section \<open>An example\<close>

definition passed :: verification_result where
  "passed = \<lparr>vf_accepted = True, vf_errors = [], vf_report = None\<rparr>"

text \<open>Other processes leave the jobs alone, or cancel the job from some step on.\<close>

definition cancelling :: "nat \<Rightarrow> nat \<Rightarrow> job_store \<Rightarrow> job_store" where
  "cancelling k n js = (if n = k then work_store CANCELLED else js)"

lemma work_filled: "job_filled (work_job st)"
  by (simp add: job_filled_def work_job_def jstatus_value_def)

lemma work_store_ok: "store_ok (work_store st)"
  using read_written [OF work_filled, of st] by (auto simp: store_ok_def work_store_def work_job_def)

lemma work_store_job: "get_job ''J'' (work_store st) = Inr (job_found (reload (work_job st)) (Some ''/jobs/J/job.json''))"
  using read_written [OF work_filled, of st] by (simp add: get_job_def work_store_def path_for_def)

lemma work_tame: "tame (work_draws (cancelling k))"
  by (simp add: tame_def work_draws_def cancelling_def work_store_ok) code_simp

lemma work_sealed:
  "capture_candidate (quiet_capture :: 'w capture_ports) ''/ws'' root ''c0ffee'' None [] None w =
     (Inr (Inr (seal_candidate (quiet_capture :: 'w capture_ports) (root @ ''/c0ffee'') ''c0ffee'' None [] JNull (manifest_of (\<lambda>_. ''d'') []), manifest_of (\<lambda>_. ''d'') [])), w)"
  by (simp add: capture_candidate_def compare_scans_def confirm_seal_def capture_manifest_def quiet_capture_def path_name_def manifest_of_def Let_def)

definition work_candidate :: "job_status \<Rightarrow> candidate" where
  "work_candidate st = seal_candidate (quiet_capture :: board_world capture_ports) (storage_root (build_service True) (reload (work_job st)) @ ''/c0ffee'') ''c0ffee'' None [] JNull
     (manifest_of (\<lambda>_. ''d'') [])"

definition work_plan :: delivery_plan where
  "work_plan = \<lparr>dp_promoted = [], dp_files = [], dp_commit = None, dp_derived = [], dp_artifact_paths = []\<rparr>"

definition work_acceptance :: "job_status \<Rightarrow> acceptance" where
  "work_acceptance st = acceptance_of (build_service True) (reload (work_job st)) ''S'' work_submission build_step (work_candidate st) ''output'' passed work_plan ''r''"

definition closed_board :: board_world where
  "closed_board = [(''1'', open_task\<lparr>t_current_state := ''closed''\<rparr>)]"

lemma work_planned: "plan_delivery (build_service True) w (reload (work_job st)) work_submission build_step None (work_candidate st) ''output'' = Inr (Inr work_plan)"
  by (simp add: plan_delivery_def work_plan_def work_submission_def shadowed_artifacts_def promotion_plan_def candidate_change_plan_def
      commit_plan_def check_integration_target_def derive_children_def build_step_def derived_task_plan_def Let_def)

lemma work_effects: "ac_effects (work_acceptance st) = [move_task_effect ''1'' ''closed'']" "ac_to_state (work_acceptance st) = ''closed''"
  by (simp_all add: work_acceptance_def work_plan_def acceptance_of_def Let_def acceptance_effects_def effective_to_state_def build_step_def)

lemma work_moved: "apply_effect board_ports root (move_task_effect ''1'' ''closed'') [(''1'', open_task)] = (Inr (fx_ok_result ''task moved'' []), closed_board)"
  by (simp add: apply_effect_def move_task_effect_def jget_def fmlookup_of_list move_effect_def text_at_def board_move_def dict_get_def dict_set_def closed_board_def)

lemma work_carried_out: "all_effects (completion_runtime (build_service True) ''1'' (work_acceptance st)) [move_task_effect ''1'' ''closed''] [(''1'', open_task)] = Some closed_board"
  by (simp add: completion_runtime_def work_moved fx_ok_def fx_ok_result_def)

lemma work_final: "final_check (completion_runtime (build_service True) ''1'' (work_acceptance st)) closed_board = (None, closed_board)"
  by (simp add: final_check_def completion_runtime_def work_effects validate_final_state_def board_read_def dict_get_def readable_task_def closed_board_def fx_done_def)

lemma work_sound:
  "sound_run (build_service True) (reload (work_job st)) ''S'' work_submission build_step None passed [(''1'', open_task)]"
proof -
  let ?sv = "build_service True" and ?job = "reload (work_job st)"
  have cap: "capture_candidate (sv_capture ?sv) (j_workspace_path ?job) (storage_root ?sv ?job) (candidate_identity ?sv ?job ''S'')
      (map_option fc_baseline (None :: frozen_contract option)) (sb_changed_files work_submission) (map_option fc_selection (None :: frozen_contract option)) w
      = (Inr (Inr (work_candidate st, manifest_of (\<lambda>_. ''d'') [])), w)" for w
    using work_sealed [of "storage_root ?sv ?job" w]
    by (simp add: candidate_identity_def work_submission_def work_candidate_def)
  have out: "relative_output_path (sv_ports ?sv) w ?job = Some ''output''" for w
    by (simp add: relative_output_path_def jget_def fmlookup_of_list) code_simp
  have revn: "acceptance_task_revision ?sv [(''1'', open_task)] ?job None = Inr ''r''"
    by (simp add: acceptance_task_revision_def board_read_def dict_get_def task_semantic_revision_def)
  have all: "all_effects (completion_runtime ?sv (j_task_id ?job) (work_acceptance st)) (ac_effects (work_acceptance st)) [(''1'', open_task)] = Some closed_board"
    unfolding work_effects using work_carried_out [of st] by simp
  have fin: "fst (final_check (completion_runtime ?sv (j_task_id ?job) (work_acceptance st)) closed_board) = None"
    by (simp add: work_final)
  have ver: "sv_verify ?sv ?job work_submission build_step None (work_candidate st) ''output'' w = (Inr passed, w)" for w
    by (simp add: passed_def)
  show ?thesis
    unfolding sound_run_def Let_def
    by (rule exI [of _ "work_candidate st"], rule exI [of _ "manifest_of (\<lambda>_. ''d'') []"], rule exI [of _ "[(''1'', open_task)]"], rule exI [of _ "''output''"],
        rule exI [of _ "[(''1'', open_task)]"], rule exI [of _ work_plan], rule exI [of _ "''r''"], rule exI [of _ closed_board])
      (intro conjI cap out ver work_planned revn all [unfolded work_acceptance_def] fin [unfolded work_acceptance_def], simp add: passed_def)
qed

lemma jstatus_running [simp]: "jstatus_value (Inl RUNNING) = ''running''"
  by (simp add: jstatus_value_def)

lemma work_admitted:
  assumes "k > 0"
  shows "admitted (work_draws (cancelling k)) (build_service ok) ''J'' work_submission (Some ''key'') work_state (reload (work_job RUNNING)) ''S'' build_step None"
proof -
  let ?job = "reload (work_job RUNNING)"
  have meta: "j_metadata ?job = j_metadata (work_job RUNNING)" "jstatus_value (j_status ?job) = ''running''" "j_job_id ?job = ''J''" "j_transition_id ?job = ''build''"
    by simp_all
  have "job_now (work_draws (cancelling k)) ''J'' work_state = Some ?job"
    using assms by (simp add: job_now_def work_draws_def cancelling_def work_state_def work_store_job job_found_def)
  moreover have "prior_submission (j_metadata ?job) ''S'' = None" "\<not> token_rejected ?job (Some ''key'')"
    by (simp_all add: meta prior_submission_def submissions_of_def jget_def fmlookup_of_list token_rejected_def opt_json_def)
  moreover have "frozen_inputs (build_service ok) ?job work_submission = Inr (Inr (build_step, None))"
    by (simp add: meta frozen_inputs_def frozen_transition_def build_workflow_def dict_get_def review_errors_def is_review_transition_def
        build_step_def work_submission_def jget_def fmlookup_of_list)
  moreover have "safe_id (''J'' @ ''-'' @ ''S'')" by code_simp
  ultimately show ?thesis
    by (simp add: admitted_def meta work_submission_def TERMINAL_JOB_STATUSES_def)
qed

lemma work_state_ready: "store_ok (st_jobs work_state)" "log_ok (tx_events (st_tx work_state))" "tx_world (st_tx work_state) = [(''1'', open_task)]"
  by (simp_all add: work_state_def work_store_ok log_ok_def)

lemma work_writes: "fine_tx (cd_tx (work_draws m))"
  by (simp add: work_draws_def work_tx_env_def fine_tx_def writes_fine_def)

text \<open>The sample submission is accepted, by the argument of the property on its own steps.\<close>

lemma work_is_accepted: "\<exists>s'. submit (work_draws (cancelling 1)) (build_service True) ''J'' work_submission (Some ''key'') work_state = (Inr (approval (Some passed)), s')"
proof -
  let ?d = "work_draws (cancelling 1)"
  have "healthy [(''1'', open_task)] work_state" by (simp add: healthy_def work_state_ready)
  then obtain s1 where "submit ?d (build_service True) ''J'' work_submission (Some ''key'') work_state
      = process ?d (build_service True) (reload (work_job RUNNING)) ''S'' work_submission build_step None s1" "healthy [(''1'', open_task)] s1" "job_filled (reload (work_job RUNNING))"
    using submit_starts [OF work_tame _ work_admitted] by (metis zero_less_one)
  with process_accepts [OF work_tame work_writes _ _ work_sound] work_admitted [of 1 True] show ?thesis unfolding goes_def admitted_def by (metis zero_less_one)
qed

text \<open>Even a job that is cancelled while its work is verified is accepted.\<close>

theorem sound_work_is_accepted_witness:
  "\<exists>s'. submit (work_draws (cancelling 5)) (build_service True) ''J'' work_submission (Some ''key'') work_state = (Inr (approval (Some passed)), s')"
  by (rule sound_work_is_accepted [OF work_tame work_writes work_state_ready(1,2) work_admitted])
    (simp_all add: work_state_ready work_sound)

text \<open>What the acceptance of the sample shows.\<close>

theorem acceptance_is_earned_witness:
  "\<exists>s' job sid rec. submit (work_draws (cancelling 1)) (build_service True) ''J'' work_submission (Some ''key'') work_state = (Inr (approval (Some passed)), s')
    \<and> job_now (work_draws (cancelling 1)) ''J'' work_state = Some job
    \<and> journal_on_disk (tx_journals (st_tx s')) (te_exc (cd_tx (work_draws (cancelling 1)))) (j_job_id job @ ''-'' @ sid) rec \<and> acceptance_journal job sid rec"
proof -
  obtain s' where run: "submit (work_draws (cancelling 1)) (build_service True) ''J'' work_submission (Some ''key'') work_state = (Inr (approval (Some passed)), s')"
    using work_is_accepted by blast
  from acceptance_is_earned [OF run, of passed] run show ?thesis unfolding Let_def by (simp only: approval_def completion_result.simps) blast
qed

end
