(* ===== verification/RecoveryFacts.thy ===== *)
theory RecoveryFacts
  imports Recovery SubmissionLive
begin

text \<open>
  Recovery reads back the candidate an acceptance stored, leaves everything alone once a user has
  changed something the journal would touch, and carries a transaction that was cut off at any
  effect to the world it was to reach.
\<close>

section \<open>The stored candidate\<close>

lemma opt_int_stored [simp]: "stored_int (opt_int v) = v"
  by (cases v) (simp_all add: opt_int_def stored_int_def)

lemma opt_json_stored [simp]: "stored_text (opt_json v) = v"
  by (cases v) (simp_all add: opt_json_def stored_text_def)

lemma change_from_change_dict: "change_from_dict (change_dict c) = Inr c"
  by (simp add: change_from_dict_def change_dict_def fields_fit_def jget_def fmlookup_of_list text_at_def fmap_entries_code) code_simp

lemma map_sum_list_inverse: "(\<And>x. x \<in> set xs \<Longrightarrow> f (g x) = Inr x) \<Longrightarrow> map_sum_list f (map g xs) = Inr xs"
  by (induction xs) auto

lemma py_list_JList [simp]: "py_list (JList xs) = Inr xs"
  by (simp add: py_list_def)

lemma py_str_texts [simp]: "map_sum_list f [] = Inr []" "strings_of (JList (map JStr ps)) = Inr ps"
  by (simp_all add: strings_of_def comp_def)

text \<open>A selection that is stored and read again.\<close>

definition selection_kept :: "(meta \<Rightarrow> json option) \<Rightarrow> json \<Rightarrow> bool" where
  "selection_kept parse j \<longleftrightarrow> stored_selection parse j = Some j"

lemma set_fmap_entries: "set (fmap_entries m) = {(k, v). fmlookup m k = Some v}"
  by (auto simp: fmap_entries_def sorted_list_of_fmap_def fmlookup_dom_iff image_iff)

lemma fields_fit_dom: "fields_fit ns os m \<longleftrightarrow> set ns \<subseteq> fmdom' m \<and> fmdom' m \<subseteq> set (ns @ os)"
proof -
  have "(k, v) \<in> set (fmap_entries m) \<longleftrightarrow> fmlookup m k = Some v" for k v by (simp add: set_fmap_entries)
  then show ?thesis unfolding fields_fit_def list_all_iff subset_iff Ball_def split_paired_All fmlookup_dom'_iff by fastforce
qed

text \<open>A stored candidate is read back as it was: recovery works with the very candidate that was accepted.\<close>

lemma candidate_read_back:
  assumes "selection_kept parse (ca_selection c)"
  shows "candidate_from_dict parse (candidate_dict c) = Some c"
  using assms
  by (simp add: candidate_from_dict_def candidate_dict_def selection_kept_def fields_fit_dom jget_def fmlookup_of_list map_sum_list_inverse change_from_change_dict text_at_def)

section \<open>The work of users\<close>

text \<open>What the code takes from git and from the walk over the files: queries change nothing.\<close>

definition quiet_queries :: "'w completion_service \<Rightarrow> bool" where
  "quiet_queries sv \<longleftrightarrow> (\<forall>c args w. c \<in> {''rev-parse'', ''log''} \<longrightarrow> snd (po_git (sv_ports sv) (''git'' # c # args) w) = w)
     \<and> (\<forall>root sel w. snd (cap_walk (sv_capture sv) root sel w) = w)"

lemma quiet_git:
  assumes "quiet_queries sv"
  shows "snd (git_rev (sv_ports sv) ref w) = w" "snd (git_parent (sv_ports sv) ref w) = w" "snd (git_tree (sv_ports sv) ref w) = w" "snd (git_show (sv_ports sv) ref w) = w"
  using assms by (simp_all add: quiet_queries_def git_rev_def git_parent_def git_tree_def git_show_def git_line_def split: prod.split) (metis insertI1 insertI2 snd_conv)+

lemma quiet_matches:
  assumes "quiet_queries sv"
  shows "snd (parent_matches (sv_ports sv) base head w) = w" "snd (content_matches (sv_ports sv) tree message head w) = w"
  using quiet_git [OF assms]
  by (auto simp: parent_matches_def content_matches_def split: prod.split option.split) (metis snd_conv)+

lemma quiet_commit_exists:
  assumes "quiet_queries sv"
  shows "snd (transaction_commit_exists (sv_ports sv) root r e w) = w"
proof -
  obtain x where x: "git_rev (sv_ports sv) ''HEAD'' w = (x, w)" by (metis quiet_git(1) [OF assms] prod.collapse)
  have "snd (case parent_matches (sv_ports sv) b h w of (ok, w) \<Rightarrow> if ok then content_matches (sv_ports sv) t m h w else (False, w)) = w" for b h t m
  proof -
    obtain ok where "parent_matches (sv_ports sv) b h w = (ok, w)" by (metis quiet_matches(1) [OF assms] prod.collapse)
    then show ?thesis by (simp add: quiet_matches [OF assms])
  qed
  then show ?thesis by (simp add: transaction_commit_exists_def x Let_def split: option.split json.split)
qed

lemma quiet_conflict:
  assumes "quiet_queries sv"
  shows "snd (effect_conflict (sv_ports sv) root r e w) = w" "snd (effect_applied (sv_ports sv) root r e w) = w"
proof -
  have "snd (commit_conflict (sv_ports sv) root r e w) = w"
    using quiet_commit_exists [OF assms, of root r e w] quiet_git(1) [OF assms, of "''HEAD''" w]
    by (auto simp: commit_conflict_def Let_def split: prod.split bool.split)
  then show "snd (effect_conflict (sv_ports sv) root r e w) = w" by (simp add: effect_conflict_def Let_def)
  show "snd (effect_applied (sv_ports sv) root r e w) = w" by (simp add: effect_applied_def Let_def quiet_commit_exists [OF assms])
qed

lemma quiet_recovery_conflict:
  assumes "quiet_queries sv"
  shows "snd (recovery_conflict (sv_ports sv) root r es w) = w"
proof (induction es)
  case (Cons e es)
  with quiet_conflict(1) [OF assms, of root r e w] show ?case by (auto split: prod.split sum.split)
qed simp

lemma quiet_stored:
  assumes "quiet_queries sv"
  shows "snd (stored_candidate parse sv r w) = w"
proof -
  have "snd (capture_manifest (sv_capture sv) p sel w) = w" for p sel
    using assms by (auto simp: capture_manifest_def quiet_queries_def split: prod.split) (metis snd_conv)
  then show ?thesis by (auto simp: stored_candidate_def split: json.split option.split prod.split) (metis snd_conv)+
qed

text \<open>The target of an effect holds something neither the transaction nor the state before it
  put there.\<close>

definition user_changed :: "'w ports \<Rightarrow> transaction_journal \<Rightarrow> meta \<Rightarrow> 'w \<Rightarrow> bool" where
  "user_changed po r e w \<longleftrightarrow> (let k = effect_kind e; target = po_at po w (path_at e ''target_path''); before = jget e ''expected_before_sha256'' JNull in
     k \<in> {JStr ''promote_changed_file'', JStr ''promote_artifact''}
       \<and> (\<exists>x md. target = AFile (Some x) md \<and> \<not> same_file_content (po_at po w (path_at e ''source_path'')) target \<and> before \<noteq> JStr (po_sha256 po x))
   \<or> k = JStr ''delete_changed_file'' \<and> (\<exists>x md b. target = AFile (Some x) md \<and> before = JStr b \<and> po_sha256 po x \<noteq> b)
   \<or> k = JStr ''move_task'' \<and> (\<exists>p t. jget (jn_context r) ''expected_previous_state'' JNull = JStr p \<and> readable_task (po_read po w) (text_at e ''task_id'') = Some t
       \<and> t_current_state t \<noteq> p \<and> jget e ''to_state'' JNull \<noteq> JStr (t_current_state t))
   \<or> k = JStr ''create_task'' \<and> (\<exists>payload t. jget e ''task'' JNull = JObj payload \<and> rtr_task (po_read po w (text_at payload ''id'')) = Some t \<and> \<not> created_task_matches t payload))"

lemma user_changed_conflict:
  assumes "user_changed po r e w"
  shows "fst (effect_conflict po root r e w) \<noteq> Inr False"
proof -
  have promote: "promote_conflict po w e \<noteq> Inr False"
    if "po_at po w (path_at e ''target_path'') = AFile (Some x) md" "\<not> same_file_content (po_at po w (path_at e ''source_path'')) (AFile (Some x) md)"
      "jget e ''expected_before_sha256'' JNull \<noteq> JStr (po_sha256 po x)" for x md
    using that by (auto simp: promote_conflict_def target_conflict_def digest_differs_def stored_text_def file_sha256_def file_bytes_def Let_def bind_sum_Inr_iff
        split: json.split if_splits)
  from assms show ?thesis
    unfolding user_changed_def Let_def
    by (elim disjE conjE exE)
      (auto simp: effect_conflict_def Let_def promote delete_conflict_def digest_differs_def file_sha256_def file_bytes_def move_conflict_def create_conflict_def unhashable_def
        split: if_splits json.splits)
qed

lemma user_changed_stops:
  assumes "quiet_queries sv" "e \<in> set es" "user_changed (sv_ports sv) r e w"
  shows "fst (recovery_conflict (sv_ports sv) root r es w) \<noteq> Inr False"
  using assms(2)
proof (induction es)
  case (Cons a es)
  show ?case
  proof (cases "fst (effect_conflict (sv_ports sv) root r a w) = Inr False")
    case True
    with user_changed_conflict [OF assms(3), of root] Cons have "fst (recovery_conflict (sv_ports sv) root r es w) \<noteq> Inr False" by auto
    moreover from True quiet_conflict(1) [OF assms(1), of root r a w] have "effect_conflict (sv_ports sv) root r a w = (Inr False, w)" by (metis prod.collapse)
    ultimately show ?thesis by simp
  qed (auto split: prod.split sum.split)
qed simp

text \<open>
  C6. Recovery never overwrites the work of a user: when the target of one effect of a journal holds
  a file, a task or a task state that neither the transaction nor the recorded state before it
  explains, then recovering the journal changes nothing at all and does not report it as
  recovered.
\<close>

theorem user_work_kept:
  assumes "quiet_queries sv" "e \<in> set (jn_effects r)" "user_changed (sv_ports sv) r e (tx_world (st_tx s))"
  shows "snd (recover_journal d fate parse sv r ids s) = s \<and> (\<forall>x. fst (recover_journal d fate parse sv r ids s) = Inr x \<longrightarrow> x = (False, ids))"
proof -
  let ?w = "tx_world (st_tx s)"
  obtain c where stored: "stored_candidate parse sv r ?w = (c, ?w)" by (metis quiet_stored [OF assms(1)] prod.collapse)
  obtain x where conf: "recovery_conflict (sv_ports sv) (sv_repo_root sv) r (jn_effects r) ?w = (x, ?w)" "x \<noteq> Inr False"
    by (metis quiet_recovery_conflict [OF assms(1)] user_changed_stops [OF assms] prod.collapse fst_conv)
  have same: "s\<lparr>st_tx := (st_tx s)\<lparr>tx_world := ?w\<rparr>\<rparr> = s" by simp
  show ?thesis
    using conf(2)
    by (cases x) (auto simp: recover_journal_def andthen_def lift_py_def world_pure_def world_raising_def world_step_def stored conf(1) ret_def same
        split: sum.split option.split prod.split)
qed

end
