(* ===== verification/RecoveryLive.thy ===== *)
theory RecoveryLive
  imports RecoveryFacts
begin

text \<open>
  Crash and recovery: a delivery that is cut off after any of its effects is carried, by the
  recovery, to the very world the delivery was to reach, its events are on record and its
  journal is committed.
\<close>

section \<open>The effects of an acceptance\<close>

lemma plan_kinds: "e \<in> set (plan_changes po w ct seen cs) \<Longrightarrow> effect_kind e \<in> {JStr ''delete_changed_file'', JStr ''promote_changed_file''}"
  by (induction po w ct seen cs rule: plan_changes.induct)
    (auto simp: change_effect_def effect_kind_def delete_effect_def promote_effect_def jget_def fmlookup_of_list Let_def split: if_splits)

lemma change_plan_kinds: "e \<in> set (candidate_change_plan po w root storage cs out arts) \<Longrightarrow> effect_kind e \<in> {JStr ''delete_changed_file'', JStr ''promote_changed_file''}"
  by (auto simp: candidate_change_plan_def Let_def split: option.splits dest: plan_kinds)

lemma commit_plan_kind: "commit_plan po w root fs t = Some e \<Longrightarrow> effect_kind e = JStr ''commit_repo_changes''"
  by (auto simp: commit_plan_def effect_kind_def jget_def fmlookup_of_list Let_def split: option.splits if_splits)

lemma plan_delivery_parts:
  assumes "plan_delivery sv w job sub tr contract c out = Inr (Inr p)"
  shows "\<forall>e \<in> set (dp_files p). effect_kind e \<in> {JStr ''delete_changed_file'', JStr ''promote_changed_file''}"
    "dp_commit p = Some e \<Longrightarrow> effect_kind e = JStr ''commit_repo_changes''"
  using assms
  by (auto simp: plan_delivery_def Let_def bind_sum_Inr_iff split: if_splits dest: change_plan_kinds commit_plan_kind)

lemma built_kinds [simp]:
  "effect_kind (artifact_task_effect tid x) = JStr ''promote_artifact''" "effect_kind (create_task_effect pn) = JStr ''create_task''"
  "effect_kind (link_task_effect tid ps) = JStr ''link_derived_tasks''" "effect_kind (move_task_effect tid st) = JStr ''move_task''"
  "text_at (move_task_effect tid st) ''task_id'' = tid" "text_at (move_task_effect tid st) ''to_state'' = st"
  by (simp_all add: effect_kind_def artifact_task_effect_def create_task_effect_def link_task_effect_def move_task_effect_def jget_def fmlookup_of_list text_at_def)

text \<open>All of them can be recovered, and only the last one moves a task.\<close>

definition front_effects :: "string \<Rightarrow> meta list \<Rightarrow> meta option \<Rightarrow> meta list \<Rightarrow> planned_task list \<Rightarrow> meta list" where
  "front_effects tid files commit promoted derived = files @ (case commit of None \<Rightarrow> [] | Some e \<Rightarrow> [e]) @ map (artifact_task_effect tid) promoted
     @ map create_task_effect derived @ (if derived = [] then [] else [link_task_effect tid derived])"

lemma front_kinds:
  assumes "\<forall>e \<in> set files. effect_kind e \<in> K" "\<And>e. commit = Some e \<Longrightarrow> effect_kind e \<in> K"
    and "JStr ''promote_artifact'' \<in> K" "JStr ''create_task'' \<in> K" "JStr ''link_derived_tasks'' \<in> K"
  shows "\<forall>e \<in> set (front_effects tid files commit promoted derived). effect_kind e \<in> K"
  using assms by (cases commit) (simp_all add: front_effects_def ball_Un)

lemma acceptance_kinds:
  assumes "plan_delivery sv w job sub tr contract c out = Inr (Inr p)"
  shows "\<forall>e \<in> set (front_effects tid (dp_files p) (dp_commit p) (dp_promoted p) (dp_derived p)).
    effect_kind e \<in> JStr ` (set RECOVERABLE_EFFECT_TYPES - {''move_task''})"
proof (rule front_kinds)
  show "\<forall>e \<in> set (dp_files p). effect_kind e \<in> JStr ` (set RECOVERABLE_EFFECT_TYPES - {''move_task''})"
    using plan_delivery_parts(1) [OF assms] by (fastforce simp: RECOVERABLE_EFFECT_TYPES_def)
  show "effect_kind e \<in> JStr ` (set RECOVERABLE_EFFECT_TYPES - {''move_task''})" if "dp_commit p = Some e" for e
    using plan_delivery_parts(2) [OF assms that] by (simp add: RECOVERABLE_EFFECT_TYPES_def)
qed (simp_all add: RECOVERABLE_EFFECT_TYPES_def)

lemma acceptance_front: "acceptance_effects tid to_state files commit promoted derived = front_effects tid files commit promoted derived @ [move_task_effect tid to_state]"
  by (simp add: acceptance_effects_def front_effects_def)

lemma acceptance_recoverable:
  assumes "plan_delivery sv w job sub tr contract c out = Inr (Inr p)"
    and "jn_effects r = acceptance_effects tid to_state (dp_files p) (dp_commit p) (dp_promoted p) (dp_derived p)" "jn_task_id r = Some tid"
  shows "recoverable r = Inr True" "expected_to_state r = to_state"
proof -
  let ?front = "front_effects tid (dp_files p) (dp_commit p) (dp_promoted p) (dp_derived p)"
  have f: "jn_effects r = ?front @ [move_task_effect tid to_state]" by (simp add: assms(2) acceptance_front)
  have k: "effect_kind e \<in> JStr ` (set RECOVERABLE_EFFECT_TYPES - {''move_task''})" if "e \<in> set ?front" for e
    using acceptance_kinds [OF assms(1)] that by blast
  have "\<not> list_ex unhashable (map effect_kind (jn_effects r))" using k by (fastforce simp: f list_ex_iff unhashable_def)
  moreover have "set (map effect_kind (jn_effects r)) \<subseteq> set (map JStr RECOVERABLE_EFFECT_TYPES)"
    using k by (fastforce simp: f RECOVERABLE_EFFECT_TYPES_def)
  ultimately show "recoverable r = Inr True" by (simp add: recoverable_def Let_def f)
  have "filter (\<lambda>e. effect_kind e = JStr ''move_task'' \<and> Some (text_at e ''task_id'') = jn_task_id r) ?front = []"
    using k by (fastforce simp: filter_empty_conv)
  then show "expected_to_state r = to_state" by (simp add: expected_to_state_def f assms(3))
qed

section \<open>Rolling forward\<close>

text \<open>Each of the effects is not yet in place when its turn comes.\<close>

fun pending :: "'w completion_service \<Rightarrow> transaction_journal \<Rightarrow> meta list \<Rightarrow> 'w \<Rightarrow> bool" where
  "pending sv r [] w = True"
| "pending sv r (e # es) w \<longleftrightarrow> effect_applied (sv_ports sv) (sv_repo_root sv) r e w = (False, w)
     \<and> pending sv r es (snd (apply_effect (sv_ports sv) (sv_repo_root sv) e w))"

text \<open>A state that differs from a given one in its world only.\<close>

definition at_world :: "'w completion_state \<Rightarrow> 'w \<Rightarrow> 'w completion_state \<Rightarrow> bool" where
  "at_world B w s \<longleftrightarrow> s = B\<lparr>st_tx := (st_tx B)\<lparr>tx_world := w\<rparr>\<rparr>"

lemma goes_at: "f w = (Inr x, w') \<Longrightarrow> goes (at_world B w) (\<lambda>y. y = x) (at_world B w') (world_step f)"
  by (simp add: goes_def world_step_def at_world_def)

lemma goes_pure: "f w = (x, w') \<Longrightarrow> goes (at_world B w) (\<lambda>y. y = x) (at_world B w') (world_pure f)"
  by (simp add: world_pure_def goes_at)

lemma goes_effect: "f w = (Inr x, w') \<Longrightarrow> goes (at_world B w) (\<lambda>y. y = x) (at_world B w') (world_effect f)"
  by (simp add: world_effect_def goes_at)

lemma goes_raising: "f w = (Inr x, w') \<Longrightarrow> goes (at_world B w) (\<lambda>y. y = x) (at_world B w') (world_raising f)"
  by (simp add: world_raising_def goes_at)

lemma all_effects_append: "all_effects rt (xs @ ys) u = (case all_effects rt xs u of None \<Rightarrow> None | Some u' \<Rightarrow> all_effects rt ys u')"
  by (induction rt xs u rule: all_effects.induct) (simp_all split: prod.split)

lemma roll_pending:
  assumes "pending sv r es w" "all_effects (completion_runtime sv tid a) es w = Some w'"
  shows "goes (at_world B w) (\<lambda>ok. ok) (at_world B w') (roll_forward sv r es)"
  using assms
proof (induction es arbitrary: w)
  case Nil
  then show ?case by (simp add: goes_ret)
next
  case (Cons e es)
  obtain res w1 where ap: "apply_effect (sv_ports sv) (sv_repo_root sv) e w = (res, w1)" by fastforce
  with Cons.prems(2) obtain x where x: "res = Inr x" "fx_accepted x" "all_effects (completion_runtime sv tid a) es w1 = Some w'"
    by (auto simp: completion_runtime_def fx_ok_def split: if_splits sum.splits)
  from Cons.prems(1) ap Cons.IH [OF _ x(3)] have IH: "goes (at_world B w1) (\<lambda>ok. ok) (at_world B w') (roll_forward sv r es)" by simp
  show ?case
    unfolding roll_forward.simps
  proof (rule goes_andthen [OF goes_pure [where x = False and w' = w]], goal_cases)
    case 1 show ?case using Cons.prems(1) by simp
  next
    case (2 y)
    have "goes (at_world B w) (\<lambda>ok. ok) (at_world B w') (andthen (world_effect (apply_effect (sv_ports sv) (sv_repo_root sv) e))
        (\<lambda>res. if fx_accepted res then roll_forward sv r es else ret False))"
      by (rule goes_andthen [OF goes_effect [where x = x and w' = w1]]) (simp_all add: ap x(1,2) IH)
    with 2 show ?case by simp
  qed
qed

lemma roll_forward_resumes:
  assumes "\<forall>e \<in> set done'. effect_applied (sv_ports sv) (sv_repo_root sv) r e w = (True, w)"
    and "pending sv r rest w" "all_effects (completion_runtime sv tid a) rest w = Some w'"
  shows "goes (at_world B w) (\<lambda>ok. ok) (at_world B w') (roll_forward sv r (done' @ rest))"
  using assms(1)
proof (induction done')
  case Nil
  then show ?case using roll_pending [OF assms(2,3)] by simp
next
  case (Cons e es)
  show ?case
    unfolding append_Cons roll_forward.simps
    by (rule goes_andthen [OF goes_pure [where x = True and w' = w]]) (use Cons in simp_all)
qed

section \<open>The end of a recovery\<close>

text \<open>Settling the job touches the job store only.\<close>

definition steady :: "'w tx_state \<Rightarrow> 'w completion_state \<Rightarrow> bool" where
  "steady T s \<longleftrightarrow> healthy (tx_world T) s \<and> st_tx s = T"

lemma job_step_tx: "st_tx (snd (job_step d f s)) = st_tx s"
  by (simp add: job_step_def Let_def split: prod.split)

lemma steady_of_healthy:
  assumes "goes (healthy (tx_world T)) Q (healthy (tx_world T)) m" "\<And>s. st_tx (snd (m s)) = st_tx s"
  shows "goes (steady T) Q (steady T) m"
  using assms unfolding goes_def steady_def by (metis snd_conv)

lemma goes_get_steady: "tame d \<Longrightarrow> goes (steady T) filled_result (steady T) (get_step d jid)"
  by (rule steady_of_healthy [OF goes_get]) (simp_all add: get_step_def job_step_tx)

lemma goes_update_steady: "tame d \<Longrightarrow> jstatus_value st \<noteq> [] \<Longrightarrow> goes (steady T) any (steady T) (update_step d jid st md)"
  by (rule steady_of_healthy [OF goes_update]) (simp_all add: update_step_def job_step_tx)

lemma goes_settle_recovered:
  assumes "tame d" "quiet_queries sv"
  shows "goes (steady T) any (steady T) (settle_recovered d sv r)"
proof -
  have quiet: "goes (steady T) any (steady T) (world_pure (restored_metadata sv r md))" for md
  proof -
    have "snd (recovered_commit_identity sv r w) = w" for w
    proof -
      obtain e es where fs: "filter (\<lambda>e. effect_kind e = JStr ''commit_repo_changes'') (jn_effects r) = [] \<or> filter (\<lambda>e. effect_kind e = JStr ''commit_repo_changes'') (jn_effects r) = e # es"
        by (metis neq_Nil_conv)
      obtain ok where "transaction_commit_exists (sv_ports sv) (sv_repo_root sv) r e w = (ok, w)" by (metis quiet_commit_exists [OF assms(2)] prod.collapse)
      with fs quiet_git(1) [OF assms(2)] show ?thesis
        by (cases ok) (auto simp: recovered_commit_identity_def split: option.split list.split)
    qed
    then have "snd (restored_metadata sv r md w) = w" for w
      by (simp add: restored_metadata_def Let_def split: prod.split) (metis snd_conv)
    then obtain x where x: "restored_metadata sv r md (tx_world T) = (x, tx_world T)" by (metis prod.collapse)
    have "world_pure (restored_metadata sv r md) s = (Inr x, s)" if "steady T s" for s
      using that x by (simp add: world_pure_def world_step_def steady_def healthy_def)
    then show ?thesis by (simp add: goes_def any_def)
  qed
  show ?thesis
    unfolding settle_recovered_def
    by (auto split: json.split option.split intro!: goes_ret goes_andthen [OF goes_get_steady [OF assms(1)]] goes_andthen [OF quiet]
        goes_andthen [OF goes_update_steady [OF assms(1)]] simp: any_def jstatus_value_def)
qed

definition recovered_record :: "transaction_journal \<Rightarrow> string \<Rightarrow> transaction_journal" where
  "recovered_record r now = r\<lparr>jn_status := Inl J_COMMITTED, jn_completed_at := Some now, jn_error := None\<rparr>"

lemma fresh_ids_covered: "ev_event_id ` set es \<subseteq> seen \<union> ev_event_id ` set (fresh_events seen es)"
  by (induction seen es rule: fresh_events.induct) auto

lemma append_missing_records:
  assumes "log_ok (tx_events (st_tx s))" "list_all dated es" "list_all event_filled es" "\<And>n. writes_fine (cd_log_fate d n)"
  shows "\<exists>evs n. append_missing d es s = (Inr True, s\<lparr>st_tx := (st_tx s)\<lparr>tx_events := evs\<rparr>, st_clock := n\<rparr>)
     \<and> log_ok evs \<and> log_ids (tx_events (st_tx s)) \<union> ev_event_id ` set es \<subseteq> log_ids evs"
proof (cases "es = []")
  case True
  then show ?thesis using assms(1) by (intro exI [of _ "tx_events (st_tx s)"] exI [of _ "st_clock s"]) (simp add: append_missing_def)
next
  case False
  let ?log = "tx_events (st_tx s)"
  obtain r evs where a: "append_many (cd_log_fate d (st_clock s)) es ?log = (r, evs)" by fastforce
  from append_many_exact [OF assms(1-3) assms(4) a] obtain res where res: "r = Inr res" "ea_accepted res" "log_ok evs"
    and view: "\<forall>n. log_view evs n = log_view ?log n @ map reread_event (filter (\<lambda>e. file_of e = n) (fresh_events (log_ids ?log) es))" by blast
  have "log_ids evs = log_ids ?log \<union> ev_event_id ` set (fresh_events (log_ids ?log) es)"
    using log_ids_extended [of evs ?log UNIV "fresh_events (log_ids ?log) es"] view by simp
  with fresh_ids_covered [of es "log_ids ?log"] a res False show ?thesis
    by (intro exI [of _ evs] exI [of _ "Suc (st_clock s)"]) (auto simp: append_missing_def)
qed

lemma finish_recovery_done:
  assumes "tame d" "quiet_queries sv" "\<And>n. fate n = WriteOk" "\<And>n. writes_fine (cd_log_fate d n)" "healthy w s"
    and "safe_id (jn_journal_id r)" "list_all dated (jn_events r)" "list_all event_filled (jn_events r)" "set ids = log_ids (tx_events (st_tx s))"
  shows "\<exists>ids' s' now. finish_recovery d fate sv r ids s = (Inr (True, ids'), s') \<and> tx_world (st_tx s') = w
     \<and> journal_on_disk (tx_journals (st_tx s')) (cd_exc d) (jn_journal_id r) (recovered_record r now)
     \<and> (\<forall>e \<in> set (jn_events r). ev_event_id e \<in> log_ids (tx_events (st_tx s')))
     \<and> (\<exists>b s2. settle_recovered d sv r s2 = (Inr b, s') \<and> st_jobs s2 = st_jobs s \<and> tx_world (st_tx s2) = w)"
proof -
  let ?missing = "filter (\<lambda>e. ev_event_id e \<notin> set ids) (jn_events r)"
  have h: "log_ok (tx_events (st_tx s))" "store_ok (st_jobs s)" "tx_world (st_tx s) = w" using assms(5) by (simp_all add: healthy_def)
  have fs: "list_all dated ?missing" "list_all event_filled ?missing" using assms(7,8) by (auto simp: list_all_iff)
  obtain evs n where ap: "append_missing d ?missing s = (Inr True, s\<lparr>st_tx := (st_tx s)\<lparr>tx_events := evs\<rparr>, st_clock := n\<rparr>)" "log_ok evs"
    "log_ids (tx_events (st_tx s)) \<union> ev_event_id ` set ?missing \<subseteq> log_ids evs"
    using append_missing_records [OF h(1) fs assms(4)] by blast
  define s1 where "s1 = s\<lparr>st_tx := (st_tx s)\<lparr>tx_events := evs\<rparr>, st_clock := n\<rparr>"
  let ?rec = "recovered_record r (cd_now d n)"
  have "safe_id (jn_journal_id ?rec)" using assms(6) by (simp add: recovered_record_def)
  then obtain res js where wj: "write_journal (cd_exc d) WriteOk ?rec (tx_journals (st_tx s)) = (res, js)" "jw_accepted res"
    using write_journal_ok by blast
  define s2 where "s2 = s1\<lparr>st_tx := (st_tx s1)\<lparr>tx_journals := js\<rparr>, st_clock := Suc n\<rparr>"
  have cm: "commit_step d fate r s1 = (Inr True, s2)"
    using wj by (simp add: commit_step_def commit_journal_def s1_def s2_def assms(3) recovered_record_def Let_def)
  have "steady (st_tx s2) s2" using h ap(2) by (simp add: steady_def healthy_def s1_def s2_def)
  then obtain b s3 where st: "settle_recovered d sv r s2 = (Inr b, s3)" "st_tx s3 = st_tx s2"
    using goes_settle_recovered [OF assms(1,2), of "st_tx s2" r] unfolding goes_def steady_def by blast
  have "journal_on_disk js (cd_exc d) (jn_journal_id r) ?rec"
    using write_journal_accepted(1) [OF wj(1,2)] by (simp add: recovered_record_def)
  moreover have "\<forall>e \<in> set (jn_events r). ev_event_id e \<in> log_ids evs"
  proof
    fix e assume "e \<in> set (jn_events r)"
    then have "ev_event_id e \<in> set ids \<or> ev_event_id e \<in> ev_event_id ` set ?missing" by auto
    with ap(3) show "ev_event_id e \<in> log_ids evs" unfolding assms(9) by blast
  qed
  moreover have "finish_recovery d fate sv r ids s = (Inr (True, ids @ map ev_event_id ?missing), s3)"
    using ap(1) cm st(1) by (simp add: finish_recovery_def andthen_def Let_def s1_def [symmetric] ret_def)
  moreover have "st_tx s3 = (st_tx s)\<lparr>tx_events := evs, tx_journals := js\<rparr>" by (simp add: st(2) s2_def s1_def)
  ultimately have "finish_recovery d fate sv r ids s = (Inr (True, ids @ map ev_event_id ?missing), s3) \<and> tx_world (st_tx s3) = w
     \<and> journal_on_disk (tx_journals (st_tx s3)) (cd_exc d) (jn_journal_id r) ?rec \<and> (\<forall>e \<in> set (jn_events r). ev_event_id e \<in> log_ids (tx_events (st_tx s3)))"
    using h(3) by simp
  moreover have "st_jobs s2 = st_jobs s" "tx_world (st_tx s2) = w" using h(3) by (simp_all add: s2_def s1_def)
  ultimately show ?thesis using st(1) by blast
qed

section \<open>Crash and recovery\<close>

text \<open>Every journal that is not committed is rolled forward, whatever else its status is.\<close>

lemma recovery_rolls_forward:
  assumes "tame d" "quiet_queries sv" "\<And>n. fate n = WriteOk" "\<And>n. writes_fine (cd_log_fate d n)" "healthy w s"
    and "jn_task_id r = Some tid" "jn_transition_id r \<noteq> None" "jn_status_value (jn_status r) \<noteq> ''committed''" "recoverable r = Inr True" "expected_to_state r \<noteq> []"
    and "safe_id (jn_journal_id r)" "list_all dated (jn_events r)" "list_all event_filled (jn_events r)"
    and "iter_journals None (tx_journals (st_tx s)) = Inr [r]" "stored_candidate parse sv r w = (Some c, w)"
    and "fst (recovery_conflict (sv_ports sv) (sv_repo_root sv) r (jn_effects r) w) = Inr False"
    and "jn_effects r = before @ rest" "\<forall>e \<in> set before. effect_applied (sv_ports sv) (sv_repo_root sv) r e w = (True, w)"
    and "pending sv r rest w" "all_effects (completion_runtime sv tid a) rest w = Some w2"
    and "validate_final_state (sv_ports sv) tid (expected_to_state r) (sv_repo_root sv) c (stored_text (jget (jn_context r) ''output_relative'' JNull))
      (context_paths (jget (jn_context r) ''artifact_paths'' JNull)) w2 = (Inr res, w2)" "fx_accepted res"
  shows "\<exists>s' now. recover_completion_transactions d fate parse sv s = (Inr [jn_journal_id r], s') \<and> tx_world (st_tx s') = w2
    \<and> journal_on_disk (tx_journals (st_tx s')) (cd_exc d) (jn_journal_id r) (recovered_record r now)
    \<and> (\<forall>e \<in> set (jn_events r). ev_event_id e \<in> log_ids (tx_events (st_tx s')))
    \<and> (\<exists>b s2. settle_recovered d sv r s2 = (Inr b, s') \<and> st_jobs s2 = st_jobs s \<and> tx_world (st_tx s2) = w2)"
proof -
  have h: "store_ok (st_jobs s)" "log_ok (tx_events (st_tx s))" "tx_world (st_tx s) = w" using assms(5) by (simp_all add: healthy_def)
  obtain ids where ids: "event_ids (tx_events (st_tx s)) = Inr ids" "set ids = log_ids (tx_events (st_tx s))"
    using event_ids_ok [OF h(2)] by blast
  have conf: "recovery_conflict (sv_ports sv) (sv_repo_root sv) r (jn_effects r) w = (Inr False, w)"
    using assms(16) quiet_recovery_conflict [OF assms(2), of "sv_repo_root sv" r "jn_effects r" w] by (metis prod.collapse)
  define s1 where "s1 = s\<lparr>st_tx := (st_tx s)\<lparr>tx_world := w2\<rparr>\<rparr>"
  have roll: "roll_forward sv r (jn_effects r) s = (Inr True, s1)"
    using roll_forward_resumes [OF assms(18-20), of s] h(3) unfolding assms(17) goes_def at_world_def s1_def by auto
  have valid: "recovery_validate sv r tid c s1 = (Inr res, s1)"
    by (simp add: recovery_validate_def world_effect_def world_step_def s1_def assms(21))
  have "healthy w2 s1" "set ids = log_ids (tx_events (st_tx s1))" using h ids(2) by (simp_all add: healthy_def s1_def)
  from finish_recovery_done [where fate = fate, OF assms(1-4) this(1) assms(11-13) this(2)]
  obtain ids' s' now where fin: "finish_recovery d fate sv r ids s1 = (Inr (True, ids'), s')" and rest:
    "tx_world (st_tx s') = w2" "journal_on_disk (tx_journals (st_tx s')) (cd_exc d) (jn_journal_id r) (recovered_record r now)"
    "\<forall>e \<in> set (jn_events r). ev_event_id e \<in> log_ids (tx_events (st_tx s'))"
    "\<exists>b s2. settle_recovered d sv r s2 = (Inr b, s') \<and> st_jobs s2 = st_jobs s1 \<and> tx_world (st_tx s2) = w2" by blast
  have "recover_open d fate sv r tid c ids s = (Inr (True, ids'), s')"
    using roll valid assms(22) fin by (simp add: recover_open_def andthen_def)
  then have "recover_journal d fate parse sv r ids s = (Inr (True, ids'), s')"
    using assms(7) by (auto simp: recover_journal_def andthen_def lift_py_def assms(6,8-10) assms(15) [folded h(3)] world_pure_def world_raising_def world_step_def conf [folded h(3)])
  then have "recover_completion_transactions d fate parse sv s = (Inr [jn_journal_id r], s')"
    by (simp add: recover_completion_transactions_def andthen_def lift_py_def ids(1) assms(14) ret_def)
  with rest show ?thesis by (auto simp: s1_def)
qed

text \<open>The journal the acceptance wrote before its first effect, as it is read back.\<close>

definition open_journal :: "tx_env \<Rightarrow> tx_request \<Rightarrow> transaction_journal" where
  "open_journal env q = reread_journal (te_exc env) (tx_record env q)"

lemma open_journal_parts:
  assumes "job_filled job" "a = acceptance_of sv job sid sub tr c out v p revn" "r = open_journal env (completion_request sv w0 job sid a events)"
  shows "jn_journal_id r = j_job_id job @ ''-'' @ sid" "jn_effects r = acceptance_effects (j_task_id job) (effective_to_state tr (dp_derived p)) (dp_files p) (dp_commit p) (dp_promoted p) (dp_derived p)"
    "jn_events r = map reread_event events" "jn_status r = Inl J_PREPARED" "jn_task_id r = Some (j_task_id job)" "jn_transition_id r = Some (j_transition_id job)"
    "jn_context r = journal_context sv w0 a"
  using assms
  by (simp_all add: open_journal_def reread_journal_def tx_record_def completion_request_def tx_journal_id_def py_or_def drop_empty_def job_filled_def acceptance_of_def Let_def)

lemma stored_context:
  assumes "a = acceptance_of sv job sid sub tr c out v p revn"
  shows "jget (journal_context sv w0 a) ''candidate'' JNull = JObj (candidate_dict c)"
    "stored_text (jget (journal_context sv w0 a) ''output_relative'' JNull) = Some out"
    "context_paths (jget (journal_context sv w0 a) ''artifact_paths'' JNull) = Some (dp_artifact_paths p)"
  using assms
  by (auto simp: journal_context_def acceptance_of_def jget_def fmlookup_of_list stored_text_def context_paths_def comp_def Let_def split: option.split)

definition seal_intact :: "'w completion_service \<Rightarrow> candidate \<Rightarrow> 'w \<Rightarrow> bool" where
  "seal_intact sv c w \<longleftrightarrow> (\<exists>m. capture_manifest (sv_capture sv) (as_posix (ca_storage_path c)) (ca_selection c) w = (Some m, w) \<and> mf_sha256 m = ca_manifest_sha256 c)"


section \<open>An example\<close>

text \<open>The sample delivery dies before its one effect; its journal is on disk.\<close>

definition cut_request :: tx_request where
  "cut_request = completion_request (build_service True) [(''1'', open_task)] (reload (work_job RUNNING)) ''S'' (work_acceptance RUNNING) [sample_event ''e1'' ''2026-01-02'']"

definition cut_journal :: transaction_journal where
  "cut_journal = open_journal work_tx_env cut_request"

definition stored_journal :: "transaction_journal \<Rightarrow> journal_store" where
  "stored_journal r = \<lparr>jns_root = ''/j'', jns_files = fmap_of_list [(''J-S'', JournalJson (JObj (journal_to_dict [] r)))]\<rparr>"

definition cut_state :: "transaction_journal \<Rightarrow> job_status \<Rightarrow> board_world \<Rightarrow> board_world completion_state" where
  "cut_state r st w = \<lparr>st_jobs = work_store st,
     st_tx = \<lparr>tx_journals = stored_journal r, tx_events = \<lparr>es_root = ''/e'', es_files = fmempty, es_human = fmempty\<rparr>, tx_world = w\<rparr>, st_clock = 0\<rparr>"

lemma cut_quiet: "quiet_queries (build_service ok)"
  by (simp add: quiet_queries_def quiet_capture_def) (simp add: board_ports_def)

lemma cut_parts:
  "jn_effects cut_journal = [move_task_effect ''1'' ''closed'']" "jn_context cut_journal = journal_context (build_service True) [(''1'', open_task)] (work_acceptance RUNNING)"
  by (simp_all add: cut_journal_def open_journal_def reread_journal_def tx_record_def cut_request_def completion_request_def work_effects)

lemma stored_journal_read:
  assumes "journal_filled [] r"
  shows "iter_journals None (stored_journal r) = Inr [reread_journal [] r]"
proof -
  have "fmap_entries (jns_files (stored_journal r)) = [(''J-S'', JournalJson (JObj (journal_to_dict [] r)))]"
    unfolding stored_journal_def journal_store.simps fmap_entries_code by simp
  then show ?thesis using journal_roundtrip [OF assms] by (simp add: iter_journals_def read_journal_def)
qed

lemma cut_record_filled: "journal_filled [] (tx_record work_tx_env cut_request)"
  by (simp add: journal_filled_def tx_record_def cut_request_def completion_request_def tx_journal_id_def py_or_def work_tx_env_def work_job_def sample_event_def event_filled_def etype_value_def)

lemma cut_ids: "j_job_id (reload (work_job st)) @ ''-'' @ ''S'' = ''J-S''" "safe_id ''J-S''" "effective_to_state build_step (dp_derived work_plan) = ''closed''"
  by (simp, code_simp, simp add: effective_to_state_def build_step_def work_plan_def)

lemma cut_not_moved: "effect_applied board_ports root r (move_task_effect ''1'' ''closed'') [(''1'', open_task)] = (False, [(''1'', open_task)])"
  by (simp add: effect_applied_def Let_def board_read_def dict_get_def readable_task_def open_task_def)

lemma context_previous: "jget (journal_context (build_service True) w (work_acceptance st)) ''expected_previous_state'' JNull = JStr ''open''"
  by (simp add: journal_context_def work_acceptance_def acceptance_of_def jget_def fmlookup_of_list build_step_def Let_def split: option.split)

lemma cut_no_conflict:
  assumes "jn_context r = jn_context cut_journal"
  shows "recovery_conflict board_ports root r [move_task_effect ''1'' ''closed''] [(''1'', open_task)] = (Inr False, [(''1'', open_task)])"
proof -
  have "move_conflict board_ports [(''1'', open_task)] r (move_task_effect ''1'' ''closed'') = Inr False"
    by (simp add: assms cut_parts context_previous move_conflict_def board_read_def dict_get_def readable_task_def open_task_def unhashable_def Let_def
        move_task_effect_def text_at_def jget_def [of _ "''to_state''"] jget_def [of _ "''task_id''"] fmlookup_of_list)
  then show ?thesis by (simp add: effect_conflict_def Let_def)
qed

lemma cut_seal: "seal_intact (build_service ok) (work_candidate st) w"
  by (simp add: seal_intact_def capture_manifest_def quiet_capture_def work_candidate_def seal_candidate_def manifest_of_def Let_def)

lemma cut_selection: "selection_kept parse (ca_selection (work_candidate st))"
  by (simp add: selection_kept_def stored_selection_def work_candidate_def seal_candidate_def Let_def)

lemma cut_facts:
  "tame (work_draws (\<lambda>_ js. js))" "writes_fine (cd_log_fate (work_draws m) n)" "job_filled (reload (work_job st))"
  "list_all dated [sample_event ''e1'' ''2026-01-02'']" "list_all event_filled [sample_event ''e1'' ''2026-01-02'']"
  "store_ok (st_jobs (cut_state r st w))" "log_ok (tx_events (st_tx (cut_state r st w)))" "tx_world (st_tx (cut_state r st w)) = w"
  "tx_journals (st_tx (cut_state r st w)) = stored_journal r"
proof -
  show "tame (work_draws (\<lambda>_ js. js))" by (simp add: tame_def work_draws_def) code_simp
  show "list_all dated [sample_event ''e1'' ''2026-01-02'']" by code_simp
  show "list_all event_filled [sample_event ''e1'' ''2026-01-02'']" by code_simp
  show "job_filled (reload (work_job st))" using work_filled [of st] by (simp add: job_filled_def)
qed (simp_all add: work_draws_def writes_fine_def cut_state_def work_store_ok log_ok_def)


text \<open>A user has parked the task meanwhile: recovery leaves everything as it is.\<close>

definition parked_board :: board_world where
  "parked_board = [(''1'', open_task\<lparr>t_current_state := ''parked''\<rparr>)]"

theorem user_work_kept_witness:
  "snd (recover_journal (work_draws (\<lambda>_ js. js)) (\<lambda>_. WriteOk) (\<lambda>_. None) (build_service True) cut_journal [] (cut_state cut_journal COMPLETION_SUBMITTED parked_board))
    = cut_state cut_journal COMPLETION_SUBMITTED parked_board"
proof -
  let ?s = "cut_state cut_journal COMPLETION_SUBMITTED parked_board"
  have "user_changed board_ports cut_journal (move_task_effect ''1'' ''closed'') parked_board"
    by (simp add: user_changed_def Let_def cut_parts context_previous parked_board_def board_read_def dict_get_def readable_task_def)
      (simp add: move_task_effect_def jget_def fmlookup_of_list)
  then show ?thesis
    using user_work_kept [OF cut_quiet, of "move_task_effect ''1'' ''closed''" cut_journal True ?s] by (simp add: cut_parts cut_facts(8))
qed

section \<open>Jobs that recovery revives\<close>

definition failed_record :: transaction_journal where
  "failed_record = (tx_record work_tx_env cut_request)\<lparr>jn_status := Inl J_FAILED, jn_completed_at := Some ''2026-01-02'', jn_error := Some (derror ''e'' [Txt ''m''] None)\<rparr>"

lemma failed_record_filled: "journal_filled [] failed_record"
proof -
  have "msg_text [] [Txt ''m''] \<noteq> []" by code_simp
  then show ?thesis using cut_record_filled by (simp add: failed_record_def journal_filled_def error_filled_def)
qed

lemma settle_revives:
  assumes "settle_recovered (work_draws (\<lambda>_ js. js)) (build_service True) r s2 = (Inr b, s')" "st_jobs s2 = work_store st" "st \<noteq> ACCEPTED"
    and "jn_task_id r = Some ''1''" "jn_transition_id r = Some ''build''" "jn_effects r = jn_effects cut_journal" "jn_context r = jn_context cut_journal"
  shows "map_option (\<lambda>j. jstatus_value (j_status j)) (view (st_jobs s') ''J'') = Some ''accepted''"
proof -
  let ?d = "work_draws (\<lambda>_ js. js)" and ?a = "acceptance_metadata (build_service True) (reload (work_job RUNNING)) ''S'' work_submission [] []"
  have ctx: "jget (jn_context r) ''job_id'' JNull = JStr ''J''" "jget (jn_context r) ''acceptance_metadata'' JNull = JObj ?a" "jget (jn_context r) ''repository_base_commit'' JNull = JNull"
    by (simp_all add: assms(7) cut_parts journal_context_def work_acceptance_def acceptance_of_def jget_def fmlookup_of_list work_plan_def Let_def split: option.split)
  have not: "jstatus_value (Inl st) \<noteq> ''accepted''" using assms(3) by (cases st) (simp_all add: jstatus_value_def)
  have eff: "\<not> list_ex (\<lambda>e. effect_kind e = JStr ''commit_repo_changes'') (jn_effects r)" by (simp add: assms(6) cut_parts)
  have get: "get_job ''J'' (work_store st) = Inr (job_found (reload (work_job st)) (Some ''/jobs/J/job.json''))" by (rule work_store_job)
  have v: "view (work_store st) ''J'' = Some (reload (work_job st))"
    using read_written [OF work_filled, of st] by (simp add: view_def work_store_def)
  have new: "changed_immutable (j_metadata (reload (work_job st))) ?a = None"
    by (simp add: changed_immutable_def IMMUTABLE_JOB_METADATA_KEYS_def acceptance_metadata_def work_submission_def Let_def fmlookup_of_list)
  obtain res js where u: "update_status \<lparr>env_now = cd_now ?d (Suc (st_clock s2)), env_write = WriteOk\<rparr> ''J'' (Inl ACCEPTED) ?a False (work_store st) = (res, js)" by fastforce
  have "view js ''J'' = Some (reload (update_of \<lparr>env_now = cd_now ?d (Suc (st_clock s2)), env_write = WriteOk\<rparr> (Inl ACCEPTED) ?a False (reload (work_job st))))"
    using update_status_written [OF work_store_ok _ v new, of "Inl ACCEPTED" "\<lparr>env_now = cd_now ?d (Suc (st_clock s2)), env_write = WriteOk\<rparr>" False] u
    by (simp add: jstatus_value_def)
  moreover have "st_jobs s' = js"
    using assms(1) u not
    by (auto simp: settle_recovered_def ctx get_step_def job_step_def work_draws_def assms(2,4,5) get andthen_def world_pure_def world_step_def restored_metadata_def eff
        update_step_def ret_def Let_def split: sum.splits)
  ultimately have "map_option (\<lambda>j. jstatus_value (j_status j)) (view (st_jobs s') ''J'') = Some (jstatus_value (Inl ACCEPTED))"
    by (simp add: update_of_def)
  then show ?thesis by (simp add: jstatus_value_def)
qed

lemma open_record_revives:
  assumes "journal_filled [] rec" "jn_status_value (jn_status rec) \<noteq> ''committed''" "st \<noteq> ACCEPTED"
    and "rec = (tx_record work_tx_env cut_request)\<lparr>jn_status := jn_status rec, jn_completed_at := jn_completed_at rec, jn_error := jn_error rec\<rparr>"
  shows "\<exists>s'. recover_completion_transactions (work_draws (\<lambda>_ js. js)) (\<lambda>_. WriteOk) (\<lambda>_. None) (build_service True) (cut_state rec st [(''1'', open_task)]) = (Inr [''J-S''], s')
    \<and> tx_world (st_tx s') = closed_board \<and> map_option (\<lambda>j. jstatus_value (j_status j)) (view (st_jobs s') ''J'') = Some ''accepted''"
proof -
  let ?d = "work_draws (\<lambda>_ js. js)" and ?sv = "build_service True" and ?w = "[(''1'', open_task)]" and ?r = "reread_journal [] rec" and ?s = "cut_state rec st [(''1'', open_task)]"
  have eff: "jn_effects ?r = [move_task_effect ''1'' ''closed'']" and ctx: "jn_context ?r = jn_context cut_journal"
    and ids: "jn_task_id ?r = Some ''1''" "jn_transition_id ?r = Some ''build''" "jn_journal_id ?r = ''J-S''" "jn_status ?r = jn_status rec"
    and evs: "jn_events ?r = [reread_event (sample_event ''e1'' ''2026-01-02'')]"
    by (subst assms(4), simp add: cut_parts reread_journal_def tx_record_def cut_request_def completion_request_def work_effects drop_empty_def tx_journal_id_def py_or_def)+
  have "recoverable ?r = Inr True" "expected_to_state ?r = ''closed''"
    by (simp_all add: recoverable_def expected_to_state_def eff ids unhashable_def RECOVERABLE_EFFECT_TYPES_def Let_def)
  moreover have "stored_candidate (\<lambda>_. None) ?sv ?r ?w = (Some (Some (work_candidate RUNNING)), ?w)"
    using cut_seal [of True RUNNING ?w] by (auto simp: stored_candidate_def ctx cut_parts(2) stored_context [OF work_acceptance_def] candidate_read_back [OF cut_selection] seal_intact_def)
  moreover have "fst (recovery_conflict board_ports None ?r [move_task_effect ''1'' ''closed''] ?w) = Inr False"
    using cut_no_conflict [OF ctx, of None] by simp
  moreover have "iter_journals None (tx_journals (st_tx ?s)) = Inr [?r]" using stored_journal_read [OF assms(1)] by (simp add: cut_facts)
  moreover have "healthy ?w ?s" using cut_facts(6-8) by (simp add: healthy_def)
  moreover have "list_all dated (jn_events ?r)" "list_all event_filled (jn_events ?r)"
    using cut_facts(4,5) by (simp_all add: evs dated_def event_filled_def reread_event_def etype_value_def)
  moreover have "validate_final_state board_ports ''1'' ''closed'' None (Some (work_candidate RUNNING)) (Some ''output'') (Some []) closed_board = (Inr fx_done, closed_board)"
    by (simp add: validate_final_state_def board_read_def dict_get_def readable_task_def closed_board_def)
  moreover have "pending ?sv ?r [move_task_effect ''1'' ''closed''] ?w" by (simp add: cut_not_moved)
  ultimately obtain s' b s2 where "recover_completion_transactions ?d (\<lambda>_. WriteOk) (\<lambda>_. None) ?sv ?s = (Inr [''J-S''], s')" "tx_world (st_tx s') = closed_board"
    "settle_recovered ?d ?sv ?r s2 = (Inr b, s')" "st_jobs s2 = st_jobs ?s"
    using recovery_rolls_forward [where fate = "\<lambda>_. WriteOk" and r = ?r and a = "work_acceptance RUNNING" and before = "[]" and rest = "[move_task_effect ''1'' ''closed'']"
        and tid = "''1''" and parse = "\<lambda>_. None" and c = "Some (work_candidate RUNNING)" and ?w2.0 = closed_board and res = fx_done, OF cut_facts(1) cut_quiet [of True] _ cut_facts(2), of ?w ?s]
      assms(2) work_carried_out [of RUNNING] ids(3)
    by (auto simp: ids(1,2,4) eff ctx cut_ids(2) cut_parts(2) stored_context [OF work_acceptance_def] fx_done_def work_plan_def simp del: all_effects.simps pending.simps recovery_conflict.simps)
  with settle_revives [OF this(3) _ assms(3) ids(1,2)] show ?thesis by (simp add: eff ctx cut_parts(1)) (simp add: cut_state_def)
qed


text \<open>A link of derived tasks never counts as in place: rolling it forward repeats its section.\<close>

lemma link_repeated:
  fixes c :: planned_task
  defines "L \<equiv> link_task_effect ''1'' [c]" and "linked \<equiv> task_with_derived_links open_task [pn_link c]"
  shows "apply_effect board_ports None L [(''1'', open_task)] = (Inr (fx_ok_result ''parent linked'' []), [(''1'', linked)])
    \<and> roll_forward (build_service True) r [L] (cut_state q st [(''1'', linked)])
      = (Inr True, cut_state q st [(''1'', task_with_derived_links linked [pn_link c])])"
proof -
  have ap: "apply_effect board_ports root L [(''1'', t)] = (Inr (fx_ok_result ''parent linked'' []), [(''1'', task_with_derived_links t [pn_link c])])"
    if "t_id t = ''1''" for root t
    using that
    by (simp add: apply_effect_def L_def link_task_effect_def jget_def fmlookup_of_list Let_def link_effect_def text_at_def readable_task_def board_read_def dict_get_def
        strings_of_def py_list_def board_write_def board_ports_def task_with_derived_links_def dict_set_def)
  have "effect_applied board_ports root r L w = (False, w)" for root w by (simp add: effect_applied_def L_def)
  with ap [of linked] ap [of open_task] show ?thesis
    by (simp add: andthen_def world_pure_def world_effect_def world_step_def cut_state_def fx_ok_result_def ret_def linked_def open_task_def task_with_derived_links_def)
qed

end
