(* ===== verification/VerifyReport.thy ===== *)
theory VerifyReport
  imports Integration
begin

text \<open>
  The records of \<open>runtime/verifier.py\<close> and its functions on values: the frozen command policy and
  request, the changes between two manifests, the bounded excerpts of the logs and the two
  classifications of a report.
\<close>

section \<open>Checks and commands\<close>

record check_expectation =
  ce_exit_code :: int
  ce_stdout_contains :: "string list"
  ce_stderr_contains :: "string list"

record resolved_check =
  rc_id :: string
  rc_source :: string
  rc_runner :: string
  rc_argv :: "string list"
  rc_validation_type :: "string option"
  rc_validation_args :: meta
  rc_workdir :: string
  rc_timeout :: int
  rc_expect :: check_expectation

text \<open>The execution contract with what the verifier reads beyond the rest of the service: the
  schema of its generated part and the ordered checks.\<close>

record execution_contract = frozen_contract +
  xc_schema :: string
  xc_checks :: "resolved_check list"

definition VERIFICATION_REPORT_SCHEMA_V2 :: string where
  "VERIFICATION_REPORT_SCHEMA_V2 = ''tulid.verification/v2''"

definition VERIFICATION_REQUEST_SCHEMA :: string where
  "VERIFICATION_REQUEST_SCHEMA = ''tulid.verification_request/v1''"

definition VERIFICATION_NOT_RUN_STATUS :: string where "VERIFICATION_NOT_RUN_STATUS = ''not_run''"
definition VERIFICATION_PASSED :: string where "VERIFICATION_PASSED = ''passed''"

record check_result =
  kr_id :: string
  kr_status :: string
  kr_argv :: "string list"
  kr_exit_code :: "int option"
  kr_stdout :: string
  kr_stderr :: string
  kr_workdir :: string
  kr_timeout :: "int option"
  kr_expected :: "int option"
  kr_started :: "string option"
  kr_ended :: "string option"
  kr_duration :: "string option"
  kr_logs :: "string list"

definition str_list :: "string list \<Rightarrow> json" where
  "str_list xs = JList (map JStr xs)"

definition check_to_dict :: "check_result \<Rightarrow> json" where
  "check_to_dict k = JObj (fmap_of_list
     [(''id'', JStr (kr_id k)), (''status'', JStr (kr_status k)), (''argv'', str_list (kr_argv k)), (''exit_code'', opt_int (kr_exit_code k)),
      (''stdout'', JStr (kr_stdout k)), (''stderr'', JStr (kr_stderr k)), (''working_directory'', JStr (kr_workdir k)),
      (''timeout_seconds'', opt_int (kr_timeout k)), (''expected_exit_code'', opt_int (kr_expected k)),
      (''started_at'', opt_json (kr_started k)), (''ended_at'', opt_json (kr_ended k)),
      (''duration_seconds'', case kr_duration k of None \<Rightarrow> JNull | Some t \<Rightarrow> JFloat t), (''log_refs'', str_list (kr_logs k))])"

record verification_command =
  vm_name :: string
  vm_argv :: "string list"
  vm_workdir :: string
  vm_timeout :: int
  vm_expected :: int

definition command_to_dict :: "verification_command \<Rightarrow> json" where
  "command_to_dict c = JObj (fmap_of_list
     [(''name'', JStr (vm_name c)), (''argv'', str_list (vm_argv c)), (''working_directory'', JStr (vm_workdir c)),
      (''timeout_seconds'', JInt (vm_timeout c)), (''expected_exit_code'', JInt (vm_expected c))])"

definition command_policy_sha256 :: "(json \<Rightarrow> string) \<Rightarrow> verification_command list \<Rightarrow> string" where
  "command_policy_sha256 canonical cs = canonical (JObj (fmap_of_list
     [(''schema'', JStr ''tulid.command_policy/v1''), (''commands'', JList (map command_to_dict cs))]))"

definition as_verification_command :: "resolved_check \<Rightarrow> verification_command" where
  "as_verification_command k = \<lparr>vm_name = rc_id k, vm_argv = rc_argv k, vm_workdir = rc_workdir k, vm_timeout = rc_timeout k, vm_expected = ce_exit_code (rc_expect k)\<rparr>"

section \<open>The request\<close>

record verification_request =
  rq_candidate_id :: "string option"
  rq_manifest_sha256 :: "string option"
  rq_baseline_sha256 :: "string option"
  rq_policy_sha256 :: "string option"
  rq_image :: "string option"
  rq_environment :: "string option"
  rq_commands :: "verification_command list"
  rq_sha256 :: string

definition request_fields :: "verification_request \<Rightarrow> (string \<times> json) list" where
  "request_fields r = [(''schema'', JStr VERIFICATION_REQUEST_SCHEMA), (''candidate_id'', opt_json (rq_candidate_id r)),
     (''candidate_manifest_sha256'', opt_json (rq_manifest_sha256 r)), (''baseline_sha256'', opt_json (rq_baseline_sha256 r)),
     (''command_policy_sha256'', opt_json (rq_policy_sha256 r)), (''project_image_identity'', opt_json (rq_image r)),
     (''environment_identity'', opt_json (rq_environment r)), (''commands'', JList (map command_to_dict (rq_commands r)))]"

definition verification_request_body :: "verification_request \<Rightarrow> json" where
  "verification_request_body r = JObj (fmap_of_list (request_fields r))"

definition request_to_dict :: "verification_request \<Rightarrow> json" where
  "request_to_dict r = JObj (fmap_of_list (request_fields r @ [(''sha256'', JStr (rq_sha256 r))]))"

definition command_checks :: "resolved_check list \<Rightarrow> resolved_check list" where
  "command_checks ks = filter (\<lambda>k. rc_runner k = ''command'') ks"

definition verification_request_from_execution_contract :: "(json \<Rightarrow> string) \<Rightarrow> execution_contract \<Rightarrow> string option \<Rightarrow> string option \<Rightarrow> string option \<Rightarrow> string option \<Rightarrow> verification_request" where
  "verification_request_from_execution_contract canonical xc cid manifest img environment =
     (let ordered = map as_verification_command (command_checks (xc_checks xc));
          provisional = \<lparr>rq_candidate_id = cid, rq_manifest_sha256 = manifest, rq_baseline_sha256 = Some (mf_sha256 (fc_baseline xc)),
            rq_policy_sha256 = Some (command_policy_sha256 canonical ordered), rq_image = img, rq_environment = environment, rq_commands = ordered, rq_sha256 = []\<rparr>
      in provisional\<lparr>rq_sha256 := canonical (verification_request_body provisional)\<rparr>)"

section \<open>The report\<close>

record coverage_change =
  cv_kind :: string
  cv_path :: string
  cv_before :: "string option"
  cv_after :: "string option"

definition coverage_to_dict :: "coverage_change \<Rightarrow> json" where
  "coverage_to_dict c = JObj (fmap_of_list [(''kind'', JStr (cv_kind c)), (''path'', JStr (cv_path c)),
     (''before_sha256'', opt_json (cv_before c)), (''after_sha256'', opt_json (cv_after c))])"

record verifier_report =
  fr_schema :: string
  fr_classification :: "string option"
  fr_baseline_sha256 :: string
  fr_post_sha256 :: "string option"
  fr_added :: "string list"
  fr_edited :: "string list"
  fr_removed :: "string list"
  fr_renamed :: "(string \<times> string) list"
  fr_changed_lines :: int
  fr_checks :: "check_result list"
  fr_candidate_id :: "string option"
  fr_manifest_sha256 :: "string option"
  fr_request_sha256 :: "string option"
  fr_policy_sha256 :: "string option"
  fr_image :: "string option"
  fr_environment :: "string option"
  fr_not_run :: int
  fr_source_mutated :: "bool option"
  fr_detail :: "string option"
  fr_coverage :: "coverage_change list"

definition accepted_inline :: "verifier_report \<Rightarrow> bool" where
  "accepted_inline r \<longleftrightarrow> (if fr_checks r = [] then False else if fr_not_run r \<noteq> 0 then False
     else list_all (\<lambda>k. kr_status k = VERIFICATION_PASSED) (fr_checks r))"

definition report_to_dict :: "verifier_report \<Rightarrow> meta" where
  "report_to_dict r = fmap_of_list
     [(''schema'', JStr (fr_schema r)), (''classification'', opt_json (fr_classification r)), (''baseline_sha256'', JStr (fr_baseline_sha256 r)),
      (''post_manifest_sha256'', opt_json (fr_post_sha256 r)),
      (''changes'', JObj (fmap_of_list [(''added'', str_list (fr_added r)), (''edited'', str_list (fr_edited r)), (''removed'', str_list (fr_removed r)),
         (''renamed'', JList (map (\<lambda>(a, b). JObj (fmap_of_list [(''from'', JStr a), (''to'', JStr b)])) (fr_renamed r))), (''changed_lines'', JInt (fr_changed_lines r))])),
      (''checks'', JList (map check_to_dict (fr_checks r))), (''candidate_id'', opt_json (fr_candidate_id r)),
      (''candidate_manifest_sha256'', opt_json (fr_manifest_sha256 r)), (''request_sha256'', opt_json (fr_request_sha256 r)),
      (''command_policy_sha256'', opt_json (fr_policy_sha256 r)), (''project_image_identity'', opt_json (fr_image r)),
      (''environment_identity'', opt_json (fr_environment r)), (''not_run_checks'', JInt (fr_not_run r)),
      (''source_mutated'', case fr_source_mutated r of None \<Rightarrow> JNull | Some b \<Rightarrow> JBool b), (''classification_detail'', opt_json (fr_detail r)),
      (''coverage_changes'', JList (map coverage_to_dict (fr_coverage r)))]"

definition verification_incomplete_message :: "verifier_report \<Rightarrow> msg" where
  "verification_incomplete_message r =
     (if fr_checks r = [] then [Txt ''Verification produced an empty report; an empty report is never success.'']
      else if fr_not_run r \<noteq> 0 then [Txt ''Verification left '', Num (fr_not_run r), Txt '' command(s) never run; never-run commands are not success.'']
      else [Txt ''Not every global command passed.''])"

section \<open>Paths that decide what a suite runs\<close>

text \<open>\<open>fnmatch.fnmatchcase\<close> for patterns without brackets.\<close>

fun fnmatchcase :: "string \<Rightarrow> string \<Rightarrow> bool" where
  "fnmatchcase [] s = (s = [])"
| "fnmatchcase (p # ps) [] = (p = CHR ''*'' \<and> fnmatchcase ps [])"
| "fnmatchcase (p # ps) (c # cs) =
     (if p = CHR ''*'' then fnmatchcase ps (c # cs) \<or> fnmatchcase (p # ps) cs
      else (p = CHR ''?'' \<or> p = c) \<and> fnmatchcase ps cs)"

definition COVERAGE_RELEVANT_PATTERNS :: "string list" where
  "COVERAGE_RELEVANT_PATTERNS =
     [''test_*'', ''*_test.py'', ''*_test.pyc'', ''*.test.js'', ''*.test.jsx'', ''*.test.ts'', ''*.test.tsx'', ''*.spec.js'', ''*.spec.jsx'', ''*.spec.ts'', ''*.spec.tsx'',
      ''tests/**'', ''test/**'', ''spec/**'', ''__tests__/**'', ''conftest.py'', ''pytest.ini'', ''tox.ini'', ''noxfile.py'', ''setup.cfg'', ''jest.config*'', ''vitest.config*'',
      ''karma.conf*'', ''playwright.config*'', ''cypress.config*'', ''pyproject.toml'', ''package.json'', ''Makefile'', ''makefile'', ''*.mk'', ''justfile'', ''Dockerfile'',
      ''Dockerfile.*'', ''docker-compose*.yml'', ''docker-compose*.yaml'', ''.github/workflows/*.yml'', ''.github/workflows/*.yaml'']"

definition coverage_relevant_path :: "string \<Rightarrow> bool" where
  "coverage_relevant_path p \<longleftrightarrow> list_ex (\<lambda>pat. fnmatchcase pat p) COVERAGE_RELEVANT_PATTERNS"

definition coverage_changes :: "baseline_manifest option \<Rightarrow> baseline_manifest \<Rightarrow> coverage_change list" where
  "coverage_changes baseline post = (case baseline of None \<Rightarrow> []
     | Some b \<Rightarrow>
         (let before = entry_map (mf_entries b); after = entry_map (mf_entries post);
              bp = filter coverage_relevant_path (sorted_paths (map me_path (mf_entries b)));
              ap = filter coverage_relevant_path (sorted_paths (map me_path (mf_entries post)))
          in map (\<lambda>p. \<lparr>cv_kind = ''add'', cv_path = p, cv_before = None, cv_after = map_option me_sha256 (after p)\<rparr>) (filter (\<lambda>p. before p = None) ap)
           @ map (\<lambda>p. \<lparr>cv_kind = ''delete'', cv_path = p, cv_before = map_option me_sha256 (before p), cv_after = None\<rparr>) (filter (\<lambda>p. after p = None) bp)
           @ map (\<lambda>p. \<lparr>cv_kind = ''edit'', cv_path = p, cv_before = map_option me_sha256 (before p), cv_after = map_option me_sha256 (after p)\<rparr>)
               (filter (\<lambda>p. after p \<noteq> None \<and> me_sha256 (the (before p)) \<noteq> me_sha256 (the (after p))) bp)))"

section \<open>Changes of a manifest\<close>

text \<open>The removed paths in their order, each matched with the one added path of its content, if
  there is exactly one left.\<close>

fun match_renames :: "(string \<Rightarrow> string) \<Rightarrow> (string \<Rightarrow> string) \<Rightarrow> string list \<Rightarrow> string list \<Rightarrow> string list \<times> string list \<times> (string \<times> string) list" where
  "match_renames before after [] new = (new, [], [])"
| "match_renames before after (old # olds) new = (case filter (\<lambda>n. before old = after n) new of
     [n] \<Rightarrow> (case match_renames before after olds (filter (\<lambda>m. m \<noteq> n) new) of (a, r, rn) \<Rightarrow> (a, r, (old, n) # rn))
   | _ \<Rightarrow> (case match_renames before after olds new of (a, r, rn) \<Rightarrow> (a, old # r, rn)))"

definition manifest_changes :: "baseline_manifest \<Rightarrow> baseline_manifest \<Rightarrow> string list \<times> string list \<times> string list \<times> (string \<times> string) list" where
  "manifest_changes baseline post =
     (let before = entry_map (mf_entries baseline); after = entry_map (mf_entries post);
          bp = sorted_paths (map me_path (mf_entries baseline)); ap = sorted_paths (map me_path (mf_entries post));
          changed = filter (\<lambda>p. after p \<noteq> None \<and> entry_changed (the (before p)) (the (after p))) bp
      in case match_renames (\<lambda>p. me_sha256 (the (before p))) (\<lambda>p. me_sha256 (the (after p)))
             (filter (\<lambda>p. after p = None) bp) (filter (\<lambda>p. before p = None) ap) of
          (new, removed, renamed) \<Rightarrow> (new, changed, removed, renamed))"

section \<open>Excerpts\<close>

definition LOG_EXCERPT_CHARACTER_LIMIT :: nat where "LOG_EXCERPT_CHARACTER_LIMIT = 2000"

definition excerpt_marker :: string where
  "excerpt_marker = [CHR 0x0A] @ ''[output omitted; full log retained as artifact]''"

definition bounded_excerpt :: "string \<Rightarrow> string" where
  "bounded_excerpt s = (if length s \<le> LOG_EXCERPT_CHARACTER_LIMIT then s
     else take (LOG_EXCERPT_CHARACTER_LIMIT - length excerpt_marker) s @ excerpt_marker)"

section \<open>Classification\<close>

definition failure_classification :: "string list \<Rightarrow> string" where
  "failure_classification codes =
     (if list_ex (startswith ''verification.baseline'') codes then ''baseline_failure''
      else if list_ex (\<lambda>c. c = ''verification.check_environment'' \<or> c = ''verification.check_timeout'' \<or> startswith ''verification.env_'' c
        \<or> c = ''verification.lockfile_mutated'') codes then ''environment_failure''
      else if list_ex (\<lambda>c. list_ex (\<lambda>p. startswith p c) [''execution_contract'', ''verification.path'', ''verification.deletion'', ''verification.rename'',
        ''verification.max_files'', ''verification.changed_line_budget'']) codes then ''contract_failure''
      else ''implementation_failure'')"

text \<open>The part of \<open>_granular_classification\<close> that reads the error codes alone.\<close>

definition code_classification :: "string list \<Rightarrow> string option" where
  "code_classification codes =
     (if ''verification.source_mutation'' \<in> set codes then Some ''source_mutation''
      else if list_ex (startswith ''contract.'') codes then Some ''malformed_policy''
      else if list_ex (\<lambda>c. list_ex (\<lambda>p. startswith p c) [''verification.dependency'', ''verification.env_'', ''verification.lockfile_mutated'', ''contract.check_environment'']) codes
        then Some ''dependency_preparation''
      else if ''verification.check_environment'' \<in> set codes then Some ''environment_unavailable''
      else if ''verification.check_timeout'' \<in> set codes then Some ''command_timeout''
      else if ''verification.incomplete'' \<in> set codes then Some ''infrastructure_interruption''
      else if list_ex (\<lambda>c. c \<noteq> []) codes then Some ''failed_behavior'' else None)"

definition granular_classification :: "verifier_report option \<Rightarrow> string list \<Rightarrow> int option \<Rightarrow> bool option \<Rightarrow> string option" where
  "granular_classification report codes not_run mutated =
     (if (case report of Some r \<Rightarrow> fr_source_mutated r = Some True | None \<Rightarrow> False) then Some ''source_mutation''
      else if mutated = Some True then Some ''source_mutation''
      else if (case report of Some r \<Rightarrow> fr_checks r = [] | None \<Rightarrow> False) then Some ''infrastructure_interruption''
      else if (case report of Some r \<Rightarrow> Some (fr_not_run r) | None \<Rightarrow> not_run) \<notin> {None, Some 0} then Some ''infrastructure_interruption''
      else code_classification codes)"

section \<open>Lists of the submission\<close>

fun repeated_from :: "string list \<Rightarrow> string list \<Rightarrow> string list \<Rightarrow> string list" where
  "repeated_from seen dups [] = dups"
| "repeated_from seen dups (v # vs) = repeated_from (v # seen) (if v \<in> set seen \<and> v \<notin> set dups then dups @ [v] else dups) vs"

definition repeated_values :: "string list \<Rightarrow> string list" where
  "repeated_values vs = repeated_from [] [] vs"

definition split_once :: "string \<Rightarrow> string \<Rightarrow> string option" where
  "split_once sep s = (if contains sep s then Some (drop (length sep) (the (find (startswith sep) (map (\<lambda>i. drop i s) [0..<Suc (length s)])))) else None)"

text \<open>The changed paths of \<open>git status --porcelain\<close>.\<close>

definition status_line_path :: "string \<Rightarrow> string option" where
  "status_line_path l = (if length l < 4 then None
     else let p = strip (drop 3 l); q = (case split_once '' -> '' p of None \<Rightarrow> p | Some r \<Rightarrow> r) in if q = [] then None else Some q)"

definition git_status_paths :: "string \<Rightarrow> string list" where
  "git_status_paths out = List.map_filter status_line_path (splitlines out)"

end
