(* ===== verification/VerifyCommands.thy ===== *)
theory VerifyCommands
  imports VerifyReport
begin

text \<open>
  \<open>runtime/verification_runtime.py\<close> and \<open>run_agent_container\<close> of \<open>containers/runtime.py\<close>: the copy a
  verification runs in, the identity of its dependency locks, and the two executors of a global
  command.  Processes, the clock and the trees of files are a record of operations on a
  world \<open>'w\<close>; an operation that raises gives the text of its exception.
\<close>

section \<open>The outside\<close>

text \<open>What a process that timed out has left: nothing, a text or undecoded bytes.\<close>

datatype captured = NoOutput | TextOutput string | ByteOutput string

datatype process_outcome = Finished int string string | TimedOut captured captured | ProgramMissing string | CannotStart string | Undecodable string

record 'w verify_ports =
  vx_files :: "string \<Rightarrow> 'w \<Rightarrow> (string \<times> string) list option"
  vx_size :: "string \<Rightarrow> 'w \<Rightarrow> int"
  vx_read_text :: "string \<Rightarrow> 'w \<Rightarrow> string option"
  vx_make_folder :: "string \<Rightarrow> 'w \<Rightarrow> (string + unit) \<times> 'w"
  vx_write_text :: "string \<Rightarrow> string \<Rightarrow> 'w \<Rightarrow> (string + unit) \<times> 'w"
  vx_copy_tree :: "string \<Rightarrow> string \<Rightarrow> string list \<Rightarrow> 'w \<Rightarrow> (string + unit) \<times> 'w"
  vx_remove_tree :: "string \<Rightarrow> 'w \<Rightarrow> (string + unit) \<times> 'w"
  vx_temp_folder :: "'w \<Rightarrow> (string + string) \<times> 'w"
  vx_tree :: "string \<Rightarrow> 'w \<Rightarrow> (string \<times> int option) list"
  vx_chmod :: "string \<Rightarrow> int \<Rightarrow> 'w \<Rightarrow> 'w"
  vx_git_status :: "string \<Rightarrow> 'w \<Rightarrow> (int \<times> string) option \<times> 'w"
  vx_run :: "string list \<Rightarrow> string option \<Rightarrow> int option \<Rightarrow> 'w \<Rightarrow> process_outcome \<times> 'w"
  vx_now :: "'w \<Rightarrow> string \<times> 'w"
  vx_elapsed :: "'w \<Rightarrow> string \<times> 'w"
  vx_unique :: "'w \<Rightarrow> string \<times> 'w"

type_synonym ('w, 'a) verify_step = "'w \<Rightarrow> (string + 'a) \<times> 'w"

definition reading :: "('w \<Rightarrow> 'a) \<Rightarrow> ('w, 'a) verify_step" where
  "reading f w = (Inr (f w), w)"

definition drawing :: "('w \<Rightarrow> 'a \<times> 'w) \<Rightarrow> ('w, 'a) verify_step" where
  "drawing f w = (case f w of (x, w') \<Rightarrow> (Inr x, w'))"

section \<open>Command lines\<close>

text \<open>\<open>shlex.quote\<close> and \<open>shlex.join\<close>.\<close>

definition apostrophe :: char where "apostrophe = CHR 0x27"
definition quotation :: char where "quotation = CHR 0x22"

definition shell_safe :: "char \<Rightarrow> bool" where
  "shell_safe c \<longleftrightarrow> (let n = code c in (48 \<le> n \<and> n \<le> 57) \<or> (65 \<le> n \<and> n \<le> 90) \<or> (97 \<le> n \<and> n \<le> 122)) \<or> c \<in> set ''_@%+=:,./-''"

definition quote_char :: "char \<Rightarrow> string" where
  "quote_char c = (if c = apostrophe then [apostrophe, quotation, apostrophe, quotation, apostrophe] else [c])"

definition shlex_quote :: "string \<Rightarrow> string" where
  "shlex_quote s = (if s = [] then [apostrophe, apostrophe] else if list_all shell_safe s then s
     else [apostrophe] @ concat (map quote_char s) @ [apostrophe])"

definition shlex_join :: "string list \<Rightarrow> string" where
  "shlex_join argv = join '' '' (map shlex_quote argv)"

section \<open>The docker command\<close>

record container_mount =
  cmt_host :: string
  cmt_container :: string
  cmt_readonly :: bool

record agent_run_request =
  ag_agent_id :: string
  ag_image :: string
  ag_workspace :: string
  ag_args :: "string list"
  ag_env :: "(string \<times> string) list"
  ag_mounts :: "container_mount list"
  ag_extra_hosts :: "string list"
  ag_workdir :: string
  ag_timeout :: "int option"
  ag_remove :: bool
  ag_relabel :: bool
  ag_name :: "string option"
  ag_user :: "string option"
  ag_mount_path :: "string option"
  ag_entrypoint :: "string list option"

record agent_run_result =
  ax_command :: "string list"
  ax_returncode :: int
  ax_stdout :: string
  ax_stderr :: string

definition some_text :: "string option \<Rightarrow> string option" where
  "some_text v = (if v = Some [] then None else v)"

definition flag :: "string \<Rightarrow> string option \<Rightarrow> string list" where
  "flag name v = (case v of None \<Rightarrow> [] | Some x \<Rightarrow> [name, x])"

definition mount_flag :: "'w ports \<Rightarrow> 'w \<Rightarrow> bool \<Rightarrow> container_mount \<Rightarrow> string list" where
  "mount_flag po w relabel m = [''-v'', po_resolve po w (cmt_host m) @ '':'' @ cmt_container m @ '':'' @ (if cmt_readonly m then ''ro'' else ''rw'') @ (if relabel then '',z'' else [])]"

definition docker_command :: "'w ports \<Rightarrow> 'w \<Rightarrow> string \<Rightarrow> agent_run_request \<Rightarrow> string list" where
  "docker_command po w docker rq =
     (let at = (case some_text (ag_mount_path rq) of Some p \<Rightarrow> p | None \<Rightarrow> ag_workdir rq);
          mounts = \<lparr>cmt_host = po_resolve po w (ag_workspace rq), cmt_container = at, cmt_readonly = False\<rparr> # ag_mounts rq
      in [docker, ''run''] @ (if ag_remove rq then [''--rm''] else []) @ flag ''--name'' (some_text (ag_name rq)) @ flag ''--user'' (some_text (ag_user rq))
       @ flag ''--entrypoint'' (case ag_entrypoint rq of Some (e # _) \<Rightarrow> Some e | _ \<Rightarrow> None)
       @ concat (map (mount_flag po w (ag_relabel rq)) mounts)
       @ concat (map (\<lambda>h. [''--add-host'', h]) (ag_extra_hosts rq)) @ [''-w'', ag_workdir rq]
       @ concat (map (\<lambda>(k, v). [''-e'', k @ ''='' @ v]) (sort_key fst (ag_env rq))) @ [ag_image rq] @ ag_args rq)"

definition only_text :: "captured \<Rightarrow> string" where
  "only_text x = (case x of TextOutput s \<Rightarrow> s | _ \<Rightarrow> [])"

definition run_agent_container :: "'w verify_ports \<Rightarrow> 'w ports \<Rightarrow> string \<Rightarrow> agent_run_request \<Rightarrow> ('w, agent_run_result) verify_step" where
  "run_agent_container vx po docker rq w =
     (let cmd = docker_command po w docker rq; result = (\<lambda>c out err. \<lparr>ax_command = cmd, ax_returncode = c, ax_stdout = out, ax_stderr = err\<rparr>)
      in case vx_run vx cmd None (ag_timeout rq) w of
          (ProgramMissing t, w) \<Rightarrow> (Inr (result 127 [] t), w)
        | (TimedOut out err, w) \<Rightarrow> (Inr (result 124 (only_text out) (let e = only_text err in if e \<noteq> [] then e
             else ''Agent container timed out after '' @ (case ag_timeout rq of None \<Rightarrow> ''None'' | Some n \<Rightarrow> int_str n) @ '' seconds'')), w)
        | (Finished c out err, w) \<Rightarrow> (Inr (result c out err), w)
        | (CannotStart t, w) \<Rightarrow> (Inl t, w)
        | (Undecodable t, w) \<Rightarrow> (Inl t, w))"

section \<open>The environment and the copy\<close>

record verification_environment =
  en_image :: "string option"
  en_workspace :: string
  en_docker :: string
  en_user :: "string option"
  en_relabel :: bool
  en_identity :: "string option"
  en_preparation :: "string list"

text \<open>\<open>VerificationEnvironment()\<close>\<close>

definition no_environment :: verification_environment where
  "no_environment = \<lparr>en_image = None, en_workspace = ''/workspace/project'', en_docker = ''docker'', en_user = None, en_relabel = False,
     en_identity = None, en_preparation = []\<rparr>"

definition environment_identity_of :: "(json \<Rightarrow> string) \<Rightarrow> verification_environment \<Rightarrow> string" where
  "environment_identity_of canonical e = canonical (JObj (fmap_of_list
     [(''schema'', JStr ''tulid.environment/v1''), (''project_image_identity'', opt_json (en_image e)), (''container_workspace'', JStr (en_workspace e)),
      (''container_user'', opt_json (en_user e)), (''container_volume_relabel'', JBool (en_relabel e)), (''docker_executable'', JStr (en_docker e)),
      (''preparation_step'', str_list (en_preparation e)), (''host_execution'', JBool (en_image e = None))]))"

definition COPY_IGNORED :: "string list" where
  "COPY_IGNORED = [''.git'', ''.open-tulid'', ''node_modules'', ''__pycache__'']"

definition prepare_verification_copy :: "'w verify_ports \<Rightarrow> 'w ports \<Rightarrow> string \<Rightarrow> string \<Rightarrow> string \<Rightarrow> ('w, string) verify_step" where
  "prepare_verification_copy vx po candidate_path writable_root copy_id =
     (let copy_root = under writable_root copy_id
      in andthen (\<lambda>w. if po_at po w copy_root \<noteq> Absent then vx_remove_tree vx copy_root w else ret () w) (\<lambda>_.
         andthen (vx_make_folder vx (parent_path copy_root)) (\<lambda>_.
         andthen (vx_copy_tree vx candidate_path copy_root COPY_IGNORED) (\<lambda>_. ret copy_root))))"

definition resolve_working_directory :: "'w ports \<Rightarrow> 'w \<Rightarrow> string \<Rightarrow> string \<Rightarrow> string option" where
  "resolve_working_directory po w workspace rel =
     (if rel = [] \<or> is_absolute rel then None
      else if ''..'' \<in> set (path_parts rel) then None
      else let resolved = po_resolve po w (under workspace rel)
           in if inside (po_resolve po w workspace) resolved then Some resolved else None)"

definition is_folder :: "file_state \<Rightarrow> bool" where
  "is_folder x = (case x of AFolder _ _ \<Rightarrow> True | _ \<Rightarrow> False)"

definition LOCKFILE_NAMES :: "string list" where
  "LOCKFILE_NAMES = [''Cargo.toml'', ''Gemfile'', ''go.mod'', ''package.json'', ''poetry.lock'', ''pyproject.toml'', ''requirements.txt'', ''uv.lock'',
     ''package-lock.json'', ''npm-shrinkwrap.json'', ''yarn.lock'', ''pnpm-lock.yaml'', ''Cargo.lock'', ''Gemfile.lock'', ''Pipfile.lock'', ''go.sum'']"

definition lock_entries :: "(string \<times> string) list \<Rightarrow> (string \<times> string) list" where
  "lock_entries fs = filter (\<lambda>(p, d). path_name p \<in> set LOCKFILE_NAMES) fs"

definition lockfile_identity :: "(json \<Rightarrow> string) \<Rightarrow> (string \<times> string) list \<Rightarrow> string" where
  "lockfile_identity canonical fs = canonical (JObj (fmap_of_list [(''schema'', JStr ''tulid.lockfile-identity/v1''),
     (''files'', JList (map (\<lambda>(p, d). JObj (fmap_of_list [(''path'', JStr p), (''sha256'', JStr d)])) (lock_entries fs)))]))"

text \<open>No identity of a workspace that is no folder or cannot be read.\<close>

definition capture_lockfile_identity :: "(json \<Rightarrow> string) \<Rightarrow> 'w verify_ports \<Rightarrow> 'w ports \<Rightarrow> string \<Rightarrow> 'w \<Rightarrow> string option" where
  "capture_lockfile_identity canonical vx po workspace w =
     (if is_folder (po_at po w workspace) then map_option (lockfile_identity canonical) (vx_files vx workspace w) else None)"

section \<open>Executors\<close>

type_synonym execution_outcome = "check_result \<times> domain_error option"

definition outcome_check :: "verification_command \<Rightarrow> string \<Rightarrow> int option \<Rightarrow> string \<Rightarrow> string \<Rightarrow> string \<Rightarrow> string \<Rightarrow> string option \<Rightarrow> check_result" where
  "outcome_check c status exit_code out err started ended duration =
     \<lparr>kr_id = vm_name c, kr_status = status, kr_argv = vm_argv c, kr_exit_code = exit_code, kr_stdout = out, kr_stderr = err, kr_workdir = vm_workdir c,
      kr_timeout = Some (vm_timeout c), kr_expected = Some (vm_expected c), kr_started = Some started, kr_ended = Some ended, kr_duration = duration, kr_logs = []\<rparr>"

definition command_error :: "verification_command \<Rightarrow> string \<Rightarrow> msg \<Rightarrow> domain_error" where
  "command_error c error_code m = derror error_code m (Some (vm_name c))"

definition last_lines :: "string \<Rightarrow> string list" where
  "last_lines s = (let ls = splitlines (strip s) in drop (length ls - 5) ls)"

definition failure_detail :: "verification_command \<Rightarrow> int \<Rightarrow> string \<Rightarrow> msg" where
  "failure_detail c exit_code output = (let tail = last_lines output; evidence = (if tail = [] then ''no output'' else join '' '' (map strip tail))
     in [Txt ''Verification command '', ReprS (vm_name c), Txt '' failed (exit code '', Num exit_code, Txt '' (expected '', Num (vm_expected c), Txt ''); '',
         Num (int (length tail)), Txt '' output line(s) captured: '', Txt (take 400 evidence), Txt '')''])"

definition no_directory :: "verification_command \<Rightarrow> string \<Rightarrow> ('w verify_ports) \<Rightarrow> ('w, execution_outcome) verify_step" where
  "no_directory c started vx = andthen (drawing (vx_now vx)) (\<lambda>ended.
     ret (outcome_check c ''environment_error'' None [] ''working directory unavailable'' started ended None,
       Some (command_error c ''verification.check_environment'' [Txt ''Verification command '', ReprS (vm_name c), Txt '' has no usable working directory: '', ReprS (vm_workdir c), Txt ''.''])))"

definition usable_directory :: "'w ports \<Rightarrow> verification_command \<Rightarrow> string \<Rightarrow> 'w \<Rightarrow> string option" where
  "usable_directory po c workspace w = (case resolve_working_directory po w workspace (vm_workdir c) of
     None \<Rightarrow> None | Some d \<Rightarrow> if is_folder (po_at po w d) then Some d else None)"

definition as_text :: "captured \<Rightarrow> string" where
  "as_text x = (case x of NoOutput \<Rightarrow> [] | TextOutput s \<Rightarrow> s | ByteOutput s \<Rightarrow> s)"

definition timed_out :: "verification_command \<Rightarrow> string \<Rightarrow> domain_error" where
  "timed_out c how = command_error c ''verification.check_timeout'' [Txt ''Verification command '', ReprS (vm_name c), Txt '' timed out after '', Num (vm_timeout c), Txt ''s'', Txt how, Txt ''.'']"

definition not_started :: "verification_command \<Rightarrow> string \<Rightarrow> domain_error" where
  "not_started c t = command_error c ''verification.check_environment''
     [Txt ''Verification command '', ReprS (vm_name c), Txt '' could not be found or run ('', Txt (shlex_join (vm_argv c)), Txt ''): '', Txt t]"

definition exit_outcome :: "verification_command \<Rightarrow> int \<Rightarrow> string \<Rightarrow> string \<Rightarrow> string \<Rightarrow> string \<Rightarrow> string \<Rightarrow> string \<Rightarrow> execution_outcome" where
  "exit_outcome c n out err output started ended duration =
     (let passed = (n = vm_expected c)
      in (outcome_check c (if passed then VERIFICATION_PASSED else ''failed'') (Some n) out err started ended (Some duration),
          if passed then None else Some (command_error c ''verification.check_failed'' (failure_detail c n output))))"

definition is_finished :: "process_outcome \<Rightarrow> bool" where
  "is_finished x = (case x of Finished _ _ _ \<Rightarrow> True | _ \<Rightarrow> False)"

text \<open>The duration is read before the end of a command that finished, and after it otherwise.\<close>

definition clock_readings :: "'w verify_ports \<Rightarrow> bool \<Rightarrow> ('w, string \<times> string) verify_step" where
  "clock_readings vx duration_first =
     (if duration_first then andthen (drawing (vx_elapsed vx)) (\<lambda>d. andthen (drawing (vx_now vx)) (\<lambda>e. ret (e, d)))
      else andthen (drawing (vx_now vx)) (\<lambda>e. andthen (drawing (vx_elapsed vx)) (\<lambda>d. ret (e, d))))"

definition host_execute :: "'w verify_ports \<Rightarrow> 'w ports \<Rightarrow> verification_command \<Rightarrow> string \<Rightarrow> ('w, execution_outcome) verify_step" where
  "host_execute vx po c workspace = andthen (drawing (vx_now vx)) (\<lambda>started. andthen (reading (usable_directory po c workspace)) (\<lambda>cwd. case cwd of
       None \<Rightarrow> no_directory c started vx
     | Some d \<Rightarrow> andthen (drawing (vx_run vx (vm_argv c) (Some d) (Some (vm_timeout c)))) (\<lambda>outcome. case outcome of
           Undecodable t \<Rightarrow> raising t
         | _ \<Rightarrow> andthen (clock_readings vx (is_finished outcome)) (\<lambda>(ended, duration). ret (case outcome of
               TimedOut out err \<Rightarrow> (outcome_check c ''timeout'' None (as_text out) (as_text err) started ended (Some duration), Some (timed_out c ('': '' @ shlex_join (vm_argv c))))
             | ProgramMissing t \<Rightarrow> (outcome_check c ''environment_error'' None [] t started ended (Some duration), Some (not_started c t))
             | CannotStart t \<Rightarrow> (outcome_check c ''environment_error'' None [] t started ended (Some duration), Some (not_started c t))
             | Undecodable t \<Rightarrow> (outcome_check c ''environment_error'' None [] t started ended (Some duration), Some (not_started c t))
             | Finished n out err \<Rightarrow> exit_outcome c n out err (strip out @ line_feed @ strip err) started ended duration)))))"

definition rstrip_slashes :: "string \<Rightarrow> string" where
  "rstrip_slashes s = rev (dropWhile (\<lambda>c. c = CHR ''/'') (rev s))"

definition container_request :: "verification_environment \<Rightarrow> string \<Rightarrow> verification_command \<Rightarrow> string \<Rightarrow> string \<Rightarrow> agent_run_request" where
  "container_request e img c workspace unique =
     \<lparr>ag_agent_id = ''verifier'', ag_image = img, ag_workspace = workspace, ag_args = [''-c'', shlex_join (vm_argv c)],
      ag_env = [(''OPEN_TULID_VERIFICATION'', ''1'')], ag_mounts = [], ag_extra_hosts = [],
      ag_workdir = join ''/'' (rstrip_slashes (en_workspace e) # path_parts (vm_workdir c)),
      ag_timeout = Some (vm_timeout c), ag_remove = True, ag_relabel = en_relabel e, ag_name = Some (''open-tulid-verify-'' @ unique),
      ag_user = en_user e, ag_mount_path = Some (en_workspace e), ag_entrypoint = Some [''/bin/sh'']\<rparr>"

text \<open>Both commands are tried, and what they answer is not looked at.\<close>

definition terminate_container :: "'w verify_ports \<Rightarrow> verification_environment \<Rightarrow> string \<Rightarrow> 'w \<Rightarrow> 'w" where
  "terminate_container vx e name w =
     snd (vx_run vx [en_docker e, ''rm'', ''-f'', name] None None (snd (vx_run vx [en_docker e, ''stop'', name] None None w)))"

definition or_text :: "string \<Rightarrow> string \<Rightarrow> string" where
  "or_text a b = (if a \<noteq> [] then a else b)"

definition image_unavailable :: "verification_command \<Rightarrow> msg \<Rightarrow> domain_error" where
  "image_unavailable c m = command_error c ''verification.env_image_unavailable'' m"

definition container_outcome :: "verification_command \<Rightarrow> agent_run_result \<Rightarrow> string \<Rightarrow> string \<Rightarrow> string \<Rightarrow> execution_outcome" where
  "container_outcome c r started ended duration =
     (if ax_returncode r = 124
      then (outcome_check c ''timeout'' None (ax_stdout r)
              (or_text (ax_stderr r) (''Verification container for '' @ repr_str (vm_name c) @ '' timed out after '' @ int_str (vm_timeout c) @ ''s'')) started ended (Some duration),
            Some (timed_out c ''; the container was terminated''))
      else if ax_returncode r \<in> {125, 126, 127}
      then (outcome_check c ''environment_error'' None [] (or_text (ax_stderr r) (ax_stdout r)) started ended (Some duration),
            Some (image_unavailable c [Txt ''Verification cannot start container for '', ReprS (vm_name c), Txt '': '',
              Txt (or_text (ax_stderr r) (or_text (ax_stdout r) ''container environment unavailable''))]))
      else exit_outcome c (ax_returncode r) (ax_stdout r) (ax_stderr r) (ax_stdout r @ line_feed @ ax_stderr r) started ended duration)"

definition container_execute :: "'w verify_ports \<Rightarrow> 'w ports \<Rightarrow> verification_environment \<Rightarrow> verification_command \<Rightarrow> string \<Rightarrow> ('w, execution_outcome) verify_step" where
  "container_execute vx po e c workspace = andthen (drawing (vx_now vx)) (\<lambda>started. andthen (reading (usable_directory po c workspace)) (\<lambda>cwd. case cwd of
       None \<Rightarrow> no_directory c started vx
     | Some _ \<Rightarrow> (case en_image e of
         None \<Rightarrow> andthen (drawing (vx_now vx)) (\<lambda>ended.
           ret (outcome_check c ''environment_error'' None [] ''no resolved project image for verification'' started ended None,
             Some (image_unavailable c [Txt ''Verification cannot run in a container: no resolved project image identity is configured for '', ReprS (vm_name c), Txt ''.''])))
       | Some img \<Rightarrow>
           andthen (drawing (vx_unique vx)) (\<lambda>unique.
           let rq = container_request e img c workspace unique
           in andthen (run_agent_container vx po (en_docker e) rq) (\<lambda>r.
              andthen (drawing (vx_elapsed vx)) (\<lambda>duration. andthen (drawing (vx_now vx)) (\<lambda>ended.
              andthen (drawing (\<lambda>w. ((), if ax_returncode r = 124 then terminate_container vx e (''open-tulid-verify-'' @ unique) w else w))) (\<lambda>_.
              ret (container_outcome c r started ended duration)))))))))"

datatype executor = HostCommandExecutor | ContainerCommandExecutor verification_environment

definition execute :: "'w verify_ports \<Rightarrow> 'w ports \<Rightarrow> executor \<Rightarrow> verification_command \<Rightarrow> string \<Rightarrow> ('w, execution_outcome) verify_step" where
  "execute vx po x c workspace = (case x of HostCommandExecutor \<Rightarrow> host_execute vx po c workspace
     | ContainerCommandExecutor e \<Rightarrow> container_execute vx po e c workspace)"

definition executor_image :: "executor option \<Rightarrow> string option" where
  "executor_image x = (case x of Some (ContainerCommandExecutor e) \<Rightarrow> en_image e | _ \<Rightarrow> None)"

definition is_image_identity :: "string \<Rightarrow> bool" where
  "is_image_identity s \<longleftrightarrow> startswith ''sha256:'' s \<and> length s = 71 \<and> list_all (\<lambda>c. is_digit c \<or> (97 \<le> code c \<and> code c \<le> 102)) (drop 7 s)"

definition timeout_text :: "string list \<Rightarrow> int \<Rightarrow> string" where
  "timeout_text argv seconds = ''Command '' @ [apostrophe] @ ''('' @ join '', '' (map repr_str argv) @ '')'' @ [apostrophe] @ '' timed out after '' @ int_str seconds @ '' seconds''"

text \<open>The image of the worker pinned to its local identity; every other outcome raises.\<close>

definition resolve_project_image :: "'w verify_ports \<Rightarrow> string \<Rightarrow> string \<Rightarrow> ('w, string) verify_step" where
  "resolve_project_image vx img docker =
     (let cmd = [docker, ''image'', ''inspect'', ''--format'', ''{{.Id}}'', img] in andthen (drawing (vx_run vx cmd None (Some 30))) (\<lambda>outcome. case outcome of
       Finished n out err \<Rightarrow>
         (if n \<noteq> 0 \<or> \<not> is_image_identity (strip out)
          then raising (''Cannot resolve project image '' @ repr_str img @ '': '' @ or_text (strip err) ''invalid image identity'')
          else ret (strip out))
     | TimedOut _ _ \<Rightarrow> raising (timeout_text cmd 30) | ProgramMissing t \<Rightarrow> raising t | CannotStart t \<Rightarrow> raising t | Undecodable t \<Rightarrow> raising t))"

end
