(* ===== verification/Verifier.thy ===== *)
theory Verifier
  imports VerifyCommands Completion
begin

text \<open>
  \<open>DeterministicVerifier\<close> of \<open>runtime/verifier.py\<close>: the run of the global commands of a frozen
  execution contract on a copy of the candidate, the trusted validations, the checks of the
  submitted artifacts and files, and the verdict.  \<open>service_verify\<close> is the part of
  \<open>CompletionService.submit\<close> that calls it.
\<close>

unbundle bit_operations_syntax

section \<open>The verifier\<close>

text \<open>A trusted validation gets the context made for it and the arguments of its call.\<close>

record ('w, 'c) verifier =
  df_vx :: "'w verify_ports"
  df_ports :: "'w ports"
  df_capture :: "'w capture_ports"
  df_templates :: "(string \<times> string option) list"
  df_validations :: "string \<Rightarrow> ('c \<Rightarrow> (string \<times> json) list \<Rightarrow> ('w, bool \<times> string) verify_step) option"
  df_context :: "(string \<Rightarrow> string \<Rightarrow> ('w, 'c) verify_step) option"
  df_executor :: "executor option"
  df_environment :: "string option"

record verdict =
  vd_accepted :: bool
  vd_errors :: "domain_error list"
  vd_report :: "verifier_report option"

definition raise_text :: "('w, 'c) verifier \<Rightarrow> pyexc + 'a \<Rightarrow> ('w, 'a) verify_step" where
  "raise_text dv r = (case r of Inl x \<Rightarrow> raising (po_exc (df_ports dv) x) | Inr v \<Rightarrow> ret v)"

section \<open>Paths\<close>

definition contained_path :: "'w ports \<Rightarrow> 'w \<Rightarrow> string \<Rightarrow> string \<Rightarrow> string option" where
  "contained_path po w root value = (if value = [] \<or> is_absolute value then None
     else let candidate = po_resolve po w (under root value) in if inside (po_resolve po w root) candidate then Some candidate else None)"

fun escapes_from :: "'w ports \<Rightarrow> 'w \<Rightarrow> string \<Rightarrow> string \<Rightarrow> string list \<Rightarrow> bool" where
  "escapes_from po w root current [] = False"
| "escapes_from po w root current (p # ps) =
     (if p = [] \<or> p = ''.'' then escapes_from po w root current ps
      else if p = ''..'' then True
      else let here = under current p
           in if po_is_link po w here \<and> \<not> inside root (po_resolve po w here) then True else escapes_from po w root here ps)"

definition escapes_via_symlink :: "'w ports \<Rightarrow> 'w \<Rightarrow> string \<Rightarrow> string \<Rightarrow> bool" where
  "escapes_via_symlink po w root value = escapes_from po w (po_resolve po w root) (po_resolve po w root) (path_parts value)"

section \<open>The global commands\<close>

definition pad3 :: "nat \<Rightarrow> string" where
  "pad3 n = (let s = nat_str n in replicate (3 - length s) (CHR ''0'') @ s)"

definition log_path :: "string \<Rightarrow> nat \<Rightarrow> string \<Rightarrow> string" where
  "log_path workspace n stream = under (under (under workspace ''.open-tulid'') ''verification-logs'') (pad3 n @ ''.'' @ stream @ ''.log'')"

definition keep_logs :: "'w verify_ports \<Rightarrow> string \<Rightarrow> nat \<Rightarrow> check_result \<Rightarrow> ('w, check_result) verify_step" where
  "keep_logs vx workspace n k =
     andthen (vx_make_folder vx (under (under workspace ''.open-tulid'') ''verification-logs'')) (\<lambda>_.
     andthen (vx_write_text vx (log_path workspace n ''stdout'') (kr_stdout k)) (\<lambda>_.
     andthen (vx_write_text vx (log_path workspace n ''stderr'') (kr_stderr k)) (\<lambda>_.
     ret (k\<lparr>kr_stdout := bounded_excerpt (kr_stdout k), kr_stderr := bounded_excerpt (kr_stderr k),
            kr_logs := [log_path workspace n ''stdout'', log_path workspace n ''stderr'']\<rparr>))))"

fun run_checks :: "(verification_command \<Rightarrow> string \<Rightarrow> ('w, execution_outcome) verify_step) \<Rightarrow> 'w verify_ports \<Rightarrow> string \<Rightarrow> nat \<Rightarrow> resolved_check list \<Rightarrow> ('w, check_result list \<times> domain_error list) verify_step" where
  "run_checks run vx workspace n [] = ret ([], [])"
| "run_checks run vx workspace n (k # ks) =
     andthen (run (as_verification_command k) workspace) (\<lambda>(found, problem).
     andthen (keep_logs vx workspace n found) (\<lambda>logged.
     andthen (run_checks run vx workspace (Suc n) ks) (\<lambda>(rest, problems).
     ret (logged # rest, (case problem of None \<Rightarrow> problems | Some e \<Rightarrow> e # problems)))))"

definition run_contract_checks :: "'w verify_ports \<Rightarrow> 'w ports \<Rightarrow> string \<Rightarrow> execution_contract \<Rightarrow> executor option \<Rightarrow> ('w, check_result list \<times> domain_error list) verify_step" where
  "run_contract_checks vx po workspace xc x = run_checks (execute vx po (case x of Some e \<Rightarrow> e | None \<Rightarrow> ContainerCommandExecutor no_environment))
     vx workspace 0 (command_checks (xc_checks xc))"

definition changed_line_count :: "'w verify_ports \<Rightarrow> 'w ports \<Rightarrow> 'w \<Rightarrow> string \<Rightarrow> string list \<Rightarrow> int" where
  "changed_line_count vx po w workspace paths = sum_list (map (\<lambda>p. let at = under workspace p
     in if is_file (po_at po w at)
        then (case vx_read_text vx at w of None \<Rightarrow> 1 | Some t \<Rightarrow> max 1 (int (length (splitlines t)))) else 1) paths)"

text \<open>A contract without a selection lets the walk find its own (\<open>JNull\<close>).\<close>

definition effective_selection :: "'w capture_ports \<Rightarrow> execution_contract \<Rightarrow> string \<Rightarrow> 'w \<Rightarrow> json" where
  "effective_selection cp xc workspace w = (if fc_selection xc = JNull then JNull else cap_refresh cp (fc_selection xc) workspace w)"

definition scan_step :: "('w, 'c) verifier \<Rightarrow> string \<Rightarrow> json \<Rightarrow> ('w, baseline_manifest) verify_step" where
  "scan_step dv workspace sel = andthen (drawing (capture_manifest (df_capture dv) workspace sel)) (\<lambda>m. case m of
     None \<Rightarrow> raising (po_exc (df_ports dv) OSErr) | Some b \<Rightarrow> ret b)"

definition locks_step :: "('w, 'c) verifier \<Rightarrow> string \<Rightarrow> ('w, string option) verify_step" where
  "locks_step dv workspace = reading (capture_lockfile_identity (cap_canonical (df_capture dv)) (df_vx dv) (df_ports dv) workspace)"

definition lockfile_mutated :: "string option \<Rightarrow> domain_error" where
  "lockfile_mutated cid = derror ''verification.lockfile_mutated'' [Txt ''Verification rewrote committed dependency locks; the candidate is rejected.''] cid"

definition contract_report :: "execution_contract \<Rightarrow> verification_request \<Rightarrow> baseline_manifest \<Rightarrow> baseline_manifest \<Rightarrow> bool \<Rightarrow> int \<Rightarrow> check_result list \<Rightarrow> domain_error list
    \<Rightarrow> verifier_report" where
  "contract_report xc rq pre post locks_changed lines checks es =
     (let not_run = int (length (filter (\<lambda>k. kr_status k = VERIFICATION_NOT_RUN_STATUS) checks)); mutated = locks_changed \<or> mf_sha256 post \<noteq> mf_sha256 pre
      in case manifest_changes (fc_baseline xc) post of (new, changed, removed, renamed) \<Rightarrow>
        \<lparr>fr_schema = VERIFICATION_REPORT_SCHEMA_V2, fr_classification = None, fr_baseline_sha256 = mf_sha256 (fc_baseline xc), fr_post_sha256 = Some (mf_sha256 post),
         fr_added = new, fr_edited = changed, fr_removed = removed, fr_renamed = renamed, fr_changed_lines = lines, fr_checks = checks,
         fr_candidate_id = rq_candidate_id rq, fr_manifest_sha256 = rq_manifest_sha256 rq, fr_request_sha256 = Some (rq_sha256 rq), fr_policy_sha256 = rq_policy_sha256 rq,
         fr_image = rq_image rq, fr_environment = rq_environment rq, fr_not_run = not_run, fr_source_mutated = Some mutated,
         fr_detail = granular_classification None (map err_code es) (Some not_run) (Some mutated),
         fr_coverage = coverage_changes (Some (fc_baseline xc)) post\<rparr>)"

definition locks_differ :: "string option \<Rightarrow> string option \<Rightarrow> bool" where
  "locks_differ a b \<longleftrightarrow> a \<noteq> None \<and> b \<noteq> None \<and> a \<noteq> b"

definition changed_paths :: "execution_contract \<Rightarrow> baseline_manifest \<Rightarrow> string list" where
  "changed_paths xc post = (case manifest_changes (fc_baseline xc) post of (new, changed, _, _) \<Rightarrow> new @ changed)"

definition enforce_execution_contract :: "('w, 'c) verifier \<Rightarrow> string \<Rightarrow> execution_contract \<Rightarrow> verification_request \<Rightarrow> executor option
    \<Rightarrow> ('w, verifier_report \<times> domain_error list) verify_step" where
  "enforce_execution_contract dv workspace xc rq x =
     andthen (reading (effective_selection (df_capture dv) xc workspace)) (\<lambda>sel.
     andthen (scan_step dv workspace sel) (\<lambda>pre. andthen (locks_step dv workspace) (\<lambda>pre_locks.
     andthen (run_contract_checks (df_vx dv) (df_ports dv) workspace xc x) (\<lambda>(checks, problems).
     andthen (scan_step dv workspace sel) (\<lambda>post. andthen (locks_step dv workspace) (\<lambda>post_locks.
     andthen (reading (\<lambda>w. changed_line_count (df_vx dv) (df_ports dv) w workspace (changed_paths xc post))) (\<lambda>lines.
     let locks_changed = locks_differ pre_locks post_locks; es = problems @ (if locks_changed then [lockfile_mutated (rq_candidate_id rq)] else [])
     in ret (contract_report xc rq pre post locks_changed lines checks es, es))))))))"

section \<open>Trusted validations\<close>

text \<open>The mode with the owner's permissions added, none for a link.\<close>

definition file_kind :: "int \<Rightarrow> int" where "file_kind m = m AND 61440"

definition writable_mode :: "int \<Rightarrow> int option" where
  "writable_mode m = (if file_kind m = 40960 then None else Some (if file_kind m = 16384 then m OR 448 else m OR 384))"

fun make_writable :: "'w verify_ports \<Rightarrow> (string \<times> int option) list \<Rightarrow> 'w \<Rightarrow> 'w" where
  "make_writable vx [] w = w"
| "make_writable vx ((p, m) # rest) w = make_writable vx rest (case Option.bind m writable_mode of None \<Rightarrow> w | Some n \<Rightarrow> vx_chmod vx p n w)"

definition map_validation_output_root :: "'w ports \<Rightarrow> 'w \<Rightarrow> string \<Rightarrow> string \<Rightarrow> string \<Rightarrow> string" where
  "map_validation_output_root po w workspace output_root validation_workspace =
     (case relative_to (po_resolve po w workspace) (po_resolve po w output_root) of
        None \<Rightarrow> under validation_workspace ''output'' | Some r \<Rightarrow> under validation_workspace r)"

definition validation_error_of :: "string \<Rightarrow> string \<Rightarrow> msg \<Rightarrow> domain_error" where
  "validation_error_of error_code call m = derror error_code m (Some call)"

definition run_validation :: "('w, 'c) verifier \<Rightarrow> 'c \<Rightarrow> validation_call_definition \<Rightarrow> 'w \<Rightarrow> domain_error list \<times> 'w" where
  "run_validation dv context' call w = (case df_validations dv (vc_type call) of
      None \<Rightarrow> ([validation_error_of ''completion.validation_unimplemented'' (vc_type call)
        [Txt ''No trusted validation implementation is installed for '', Txt (vc_type call), Txt ''.'']], w)
    | Some implementation \<Rightarrow> (case implementation context' (vc_args call) w of
        (Inl t, w') \<Rightarrow> ([validation_error_of ''completion.validation_error'' (vc_type call) [Txt ''Trusted validation '', Txt (vc_type call), Txt '' raised: '', Txt t]], w')
      | (Inr (passed, message), w') \<Rightarrow> (if passed then [] else [validation_error_of ''completion.validation_failed'' (vc_type call)
          [Txt ''Trusted validation '', Txt (vc_type call), Txt '' failed: '', Txt (or_text message ''validation failed'')]], w')))"

fun run_validations :: "('w, 'c) verifier \<Rightarrow> 'c \<Rightarrow> validation_call_definition list \<Rightarrow> 'w \<Rightarrow> domain_error list \<times> 'w" where
  "run_validations dv context' [] w = ([], w)"
| "run_validations dv context' (c # cs) w = (case run_validation dv context' c w of (es, w') \<Rightarrow>
     (case run_validations dv context' cs w' of (more', w'') \<Rightarrow> (es @ more', w'')))"

text \<open>The temporary folder is removed however the run ends.\<close>

definition finally_remove :: "'w verify_ports \<Rightarrow> string \<Rightarrow> ('w, 'a) verify_step \<Rightarrow> ('w, 'a) verify_step" where
  "finally_remove vx p f w = (case f w of (r, w') \<Rightarrow> (case vx_remove_tree vx p w' of (Inl t, w'') \<Rightarrow> (Inl t, w'') | (Inr _, w'') \<Rightarrow> (r, w'')))"

definition run_trusted_validations :: "('w, 'c) verifier \<Rightarrow> string \<Rightarrow> string \<Rightarrow> transition_definition \<Rightarrow> ('w, domain_error list) verify_step" where
  "run_trusted_validations dv workspace output_root tr =
     (let calls = rd_validations (td_requires tr); vx = df_vx dv
      in if calls = [] then ret []
         else case df_context dv of
           None \<Rightarrow> ret (map (\<lambda>c. validation_error_of ''completion.validation_unavailable'' (vc_type c) [Txt ''Trusted validation runtime is not configured.'']) calls)
         | Some factory \<Rightarrow> andthen (vx_temp_folder vx) (\<lambda>temp. let copy = under temp ''workspace'' in
             finally_remove vx temp
               (andthen (vx_copy_tree vx workspace copy []) (\<lambda>_.
                andthen (drawing (\<lambda>w. ((), make_writable vx (vx_tree vx copy w) w))) (\<lambda>_.
                andthen (reading (\<lambda>w. map_validation_output_root (df_ports dv) w workspace output_root copy)) (\<lambda>validation_output.
                andthen (factory copy validation_output) (\<lambda>context'.
                drawing (run_validations dv context' calls))))))))"

section \<open>The submission\<close>

definition duplicate_errors :: "completion_submission \<Rightarrow> string option \<Rightarrow> domain_error list" where
  "duplicate_errors sub multi =
     map (\<lambda>t. derror ''completion.artifact_duplicate_type'' [Txt ''Artifact type was submitted more than once: '', Txt t] (Some t))
       (filter (\<lambda>t. multi \<noteq> Some t) (repeated_values (map as_type (sb_artifacts sub))))
   @ map (\<lambda>p. derror ''completion.artifact_duplicate_path'' [Txt ''Artifact path was submitted more than once: '', Txt p] (Some p)) (repeated_values (map as_path (sb_artifacts sub)))
   @ map (\<lambda>p. derror ''completion.changed_file_duplicate'' [Txt ''Changed file was submitted more than once: '', Txt p] (Some p)) (repeated_values (sb_changed_files sub))"

definition missing_artifact_errors :: "transition_definition \<Rightarrow> string list \<Rightarrow> domain_error list" where
  "missing_artifact_errors tr types =
     map (\<lambda>a. derror ''completion.artifact_missing'' [Txt ''Required artifact was not submitted: '', Txt a] (Some a)) (filter (\<lambda>a. a \<notin> set types) (rd_artifacts (td_requires tr)))
   @ (case td_derives tr of None \<Rightarrow> []
      | Some d \<Rightarrow> if dd_required d \<and> dd_artifact_type d \<notin> set types
          then [derror ''completion.derived_task_missing'' [Txt ''Deriving transition requires at least one '', Txt (dd_artifact_type d), Txt '' artifact.''] (Some (dd_artifact_type d))] else [])"

definition multi_artifact_type :: "transition_definition \<Rightarrow> string option" where
  "multi_artifact_type tr = map_option dd_artifact_type (td_derives tr)"

definition artifact_error :: "string \<Rightarrow> string \<Rightarrow> string \<Rightarrow> domain_error" where
  "artifact_error error_code what p = derror error_code [Txt what, Txt p] (Some p)"

text \<open>The checks of one artifact that is inside the output and a file.\<close>

definition content_errors :: "('w, 'c) verifier \<Rightarrow> 'w \<Rightarrow> string \<Rightarrow> artifact_submission \<Rightarrow> pyexc + domain_error list" where
  "content_errors dv w at a =
     (let empties = (if vx_size (df_vx dv) at w = 0 then [artifact_error ''completion.artifact_empty'' ''Submitted artifact is empty: '' (as_path a)] else [])
      in case as_sha256 a of None \<Rightarrow> Inr empties
       | Some d \<Rightarrow> bind_sum (file_sha256 (df_ports dv) (po_at (df_ports dv) w at)) (\<lambda>h. Inr (empties @
           (if h \<noteq> lower d then [artifact_error ''completion.artifact_hash_mismatch'' ''Submitted artifact hash does not match: '' (as_path a)] else []))))"

definition artifact_errors :: "('w, 'c) verifier \<Rightarrow> 'w \<Rightarrow> transition_definition \<Rightarrow> string \<Rightarrow> artifact_submission \<Rightarrow> pyexc + domain_error list" where
  "artifact_errors dv w tr root a =
     (let po = df_ports dv;
          unexpected = (if as_type a \<notin> set (rd_artifacts (td_requires tr)) \<and> multi_artifact_type tr \<noteq> Some (as_type a)
            then [derror ''completion.artifact_unexpected'' [Txt ''Artifact type is not required by this transition: '', Txt (as_type a)] (Some (as_type a))] else []);
          mismatch = (case dict_get (df_templates dv) (as_type a) of
              Some (Some t) \<Rightarrow> if t \<noteq> [] \<and> CHR ''{'' \<notin> set t \<and> as_path a \<noteq> t
                then [derror ''completion.artifact_template_mismatch'' [Txt ''Artifact path must match template for '', Txt (as_type a), Txt '': '', Txt t] (Some (as_path a))] else []
            | _ \<Rightarrow> [])
      in case contained_path po w root (as_path a) of
           None \<Rightarrow> Inr (unexpected @ mismatch @ [artifact_error ''completion.artifact_outside_output'' ''Artifact path escapes the shared output directory: '' (as_path a)])
         | Some at \<Rightarrow>
             if escapes_via_symlink po w root (as_path a)
             then Inr (unexpected @ mismatch @ [artifact_error ''completion.artifact_symlink_escape'' ''Artifact path escapes the shared output directory through a symlink: '' (as_path a)])
             else if \<not> is_file (po_at po w at)
             then Inr (unexpected @ mismatch @ [artifact_error ''completion.artifact_not_found'' ''Submitted artifact does not exist: '' (as_path a)])
             else bind_sum (content_errors dv w at a) (\<lambda>es. Inr (unexpected @ mismatch @ es)))"

definition evidence_errors :: "transition_definition \<Rightarrow> meta \<Rightarrow> domain_error list" where
  "evidence_errors tr evidence =
     map (\<lambda>v. derror ''completion.validation_evidence_missing'' [Txt ''Validation evidence is missing for '', Txt v, Txt ''.''] (Some v))
       (filter (\<lambda>v. case fmlookup evidence v of None \<Rightarrow> True | Some j \<Rightarrow> j = JNull \<or> strip (py_str j) = []) (map vc_type (rd_validations (td_requires tr))))"

definition changed_file_errors :: "'w ports \<Rightarrow> 'w \<Rightarrow> string \<Rightarrow> bool \<Rightarrow> string \<Rightarrow> domain_error list" where
  "changed_file_errors po w workspace authoritative p = (case contained_path po w workspace p of
      None \<Rightarrow> [derror ''completion.changed_file_outside_workspace'' [Txt ''Changed file path escapes the workspace: '', Txt p] (Some p)]
    | Some at \<Rightarrow> if po_at po w at = Absent \<and> \<not> authoritative \<and> ''.open-tulid'' \<notin> set (path_parts p)
        then [derror ''completion.changed_file_not_found'' [Txt ''Changed file does not exist: '', Txt p] (Some p)] else [])"

definition GLOBAL_IMPLEMENTATION_CONTRACT_SCHEMA :: string where
  "GLOBAL_IMPLEMENTATION_CONTRACT_SCHEMA = ''tulid.global_contract/v1''"

definition authoritative_candidate :: "execution_contract option \<Rightarrow> bool" where
  "authoritative_candidate contract = (case contract of None \<Rightarrow> False | Some xc \<Rightarrow> xc_schema xc = GLOBAL_IMPLEMENTATION_CONTRACT_SCHEMA)"

definition git_changed_files :: "'w verify_ports \<Rightarrow> 'w ports \<Rightarrow> string \<Rightarrow> 'w \<Rightarrow> string list option \<times> 'w" where
  "git_changed_files vx po workspace w =
     (if po_at po w (under workspace ''.git'') = Absent then (None, w)
      else case vx_git_status vx workspace w of
        (Some (c, out), w') \<Rightarrow> (if c = 0 then Some (git_status_paths out) else None, w')
      | (None, w') \<Rightarrow> (None, w'))"

definition git_mismatch :: "string list \<Rightarrow> string list option \<Rightarrow> bool \<Rightarrow> domain_error list" where
  "git_mismatch submitted actual authoritative = (case actual of None \<Rightarrow> []
     | Some ps \<Rightarrow> if \<not> authoritative \<and> set submitted \<noteq> set ps
         then [derror ''completion.changed_files_mismatch'' [Txt ''Submitted changed files do not match the workspace diff.''] (Some (join '','' (sorted_paths ps)))] else [])"

definition report_errors :: "verifier_report \<Rightarrow> domain_error list \<Rightarrow> domain_error list" where
  "report_errors r es =
     (if accepted_inline r \<or> list_ex (\<lambda>e. startswith ''verification.'' (err_code e) \<and> err_code e \<noteq> ''verification.incomplete'') es then []
      else [derror ''verification.incomplete'' (verification_incomplete_message r) (fr_candidate_id r)])
   @ (if fr_source_mutated r = Some True
      then [derror ''verification.source_mutation'' [Txt ''Verification mutated tracked source; the candidate is rejected.''] (fr_candidate_id r)] else [])"

section \<open>The verdict\<close>

definition classified :: "domain_error list \<Rightarrow> verifier_report \<Rightarrow> verifier_report" where
  "classified es r = (if es = [] then r else r\<lparr>fr_classification := Some (failure_classification (map err_code es)),
     fr_detail := granular_classification (Some r) (map err_code es) None None\<rparr>)"

definition transition_mismatch :: "string \<Rightarrow> domain_error" where
  "transition_mismatch tid = derror ''execution_contract.transition_mismatch'' [Txt ''Verifier transition does not match the frozen execution contract.''] (Some tid)"

definition contract_part :: "('w, 'c) verifier \<Rightarrow> string \<Rightarrow> execution_contract option \<Rightarrow> string option \<Rightarrow> string option \<Rightarrow> executor option \<Rightarrow> string option
    \<Rightarrow> ('w, (verifier_report \<times> domain_error list) option) verify_step" where
  "contract_part dv workspace contract cid manifest x environment = (case contract of None \<Rightarrow> ret None
     | Some xc \<Rightarrow>
         (let env' = (if environment \<noteq> None then environment else df_environment dv); ex = (if x \<noteq> None then x else df_executor dv);
              rq = verification_request_from_execution_contract (cap_canonical (df_capture dv)) xc cid manifest (executor_image ex) env'
          in andthen (enforce_execution_contract dv workspace xc rq ex) (\<lambda>r. ret (Some r))))"

definition verify_submission :: "('w, 'c) verifier \<Rightarrow> string \<Rightarrow> string \<Rightarrow> transition_definition \<Rightarrow> completion_submission \<Rightarrow> execution_contract option \<Rightarrow> ('w, domain_error list) verify_step" where
  "verify_submission dv workspace output_root tr sub contract =
     (let multi = multi_artifact_type tr; authoritative = authoritative_candidate contract; po = df_ports dv
      in andthen (andthen (reading (\<lambda>w. map_sum_list (artifact_errors dv w tr output_root) (sb_artifacts sub))) (raise_text dv)) (\<lambda>artifacts.
         andthen (run_trusted_validations dv workspace output_root tr) (\<lambda>validations.
         andthen (reading (\<lambda>w. concat (map (changed_file_errors po w workspace authoritative) (sb_changed_files sub)))) (\<lambda>changed.
         andthen (drawing (git_changed_files (df_vx dv) po workspace)) (\<lambda>actual.
         ret (duplicate_errors sub multi @ missing_artifact_errors tr (map as_type (sb_artifacts sub)) @ concat artifacts
            @ evidence_errors tr (sb_evidence sub) @ validations
            @ (if rd_changed_files_required (td_requires tr) \<and> sb_changed_files sub = [] \<and> \<not> authoritative
               then [derror ''completion.changed_files_missing'' [Txt ''Changed-file evidence is required for this transition.''] None] else [])
            @ changed @ git_mismatch (sb_changed_files sub) actual authoritative))))))"

definition verify :: "('w, 'c) verifier \<Rightarrow> string \<Rightarrow> string \<Rightarrow> transition_definition \<Rightarrow> completion_submission \<Rightarrow> execution_contract option \<Rightarrow> string option \<Rightarrow> string option
    \<Rightarrow> executor option \<Rightarrow> string option \<Rightarrow> bool \<Rightarrow> ('w, verdict) verify_step" where
  "verify dv workspace output_root tr sub contract cid manifest x environment review =
     andthen (raise_text dv (if review then validate_review_result (case sb_review sub of None \<Rightarrow> JNull | Some m \<Rightarrow> JObj m) else Inr [])) (\<lambda>reviewed.
     let early = reviewed @ (case contract of None \<Rightarrow> [] | Some xc \<Rightarrow> if fc_transition xc \<noteq> tr then [transition_mismatch (td_id tr)] else [])
     in andthen (contract_part dv workspace contract cid manifest x environment) (\<lambda>enforced.
        let first = early @ (case enforced of None \<Rightarrow> [] | Some (r, es) \<Rightarrow> es);
            known = first @ (case enforced of None \<Rightarrow> [] | Some (r, es) \<Rightarrow> report_errors r first)
        in andthen (verify_submission dv workspace output_root tr sub contract) (\<lambda>found.
           let es = known @ found in ret \<lparr>vd_accepted = (es = []), vd_errors = es, vd_report = map_option (\<lambda>(r, _). classified es r) enforced\<rparr>)))"

section \<open>The call in the service\<close>

definition report_view :: "verifier_report \<Rightarrow> verification_report" where
  "report_view r = \<lparr>vp_classification = fr_classification r, vp_dict = report_to_dict r\<rparr>"

definition verdict_view :: "verdict \<Rightarrow> verification_result" where
  "verdict_view v = \<lparr>vf_accepted = vd_accepted v, vf_errors = vd_errors v, vf_report = map_option report_view (vd_report v)\<rparr>"

text \<open>Without an executor of its own the service takes the environment frozen in the job.\<close>

definition service_executor :: "('w, 'c) verifier \<Rightarrow> (execution_job \<Rightarrow> string + verification_environment) \<Rightarrow> executor option \<Rightarrow> string option \<Rightarrow> execution_job
    \<Rightarrow> execution_contract option \<Rightarrow> ('w, executor option \<times> string option) verify_step" where
  "service_executor dv frozen x environment job contract =
     (if contract \<noteq> None \<and> x = None
      then (case frozen job of Inl t \<Rightarrow> raising t
            | Inr e \<Rightarrow> ret (Some (ContainerCommandExecutor e), Some (environment_identity_of (cap_canonical (df_capture dv)) e)))
      else ret (x, environment))"

definition service_verify :: "('w, 'c) verifier \<Rightarrow> (execution_job \<Rightarrow> string + verification_environment) \<Rightarrow> executor option \<Rightarrow> string option
    \<Rightarrow> (execution_job \<Rightarrow> execution_contract option) \<Rightarrow> execution_job \<Rightarrow> completion_submission \<Rightarrow> transition_definition \<Rightarrow> candidate \<Rightarrow> string
    \<Rightarrow> ('w, verdict) verify_step" where
  "service_verify dv frozen x environment full job sub tr c out =
     andthen (prepare_verification_copy (df_vx dv) (df_ports dv) (ca_storage_path c) (under (parent_path (ca_storage_path c)) ''verification'') (ca_id c)) (\<lambda>workspace.
     andthen (service_executor dv frozen x environment job (full job)) (\<lambda>(ex, env').
     verify dv workspace (under workspace out) tr sub (full job) (Some (ca_id c)) (Some (ca_manifest_sha256 c)) ex env' (is_review_transition tr)))"

end
