(* ===== verification/CommandFacts.thy ===== *)
theory CommandFacts
  imports VerifyCommands
begin

text \<open>
  What an executor of global commands promises, as an interface both executors of the program meet,
  and the command line that reaches the shell of a container.
\<close>

section \<open>The command line\<close>

text \<open>How a POSIX shell splits a line of plain characters, blanks and quoted text into words; what
  else a line may have (expansions, operators, escapes) is no word list.\<close>

datatype shell_mode = Between | Plain | Single | Double

fun shell_words :: "shell_mode \<Rightarrow> string \<Rightarrow> string \<Rightarrow> string list option" where
  "shell_words Between u [] = Some []"
| "shell_words Plain u [] = Some [u]"
| "shell_words Single u [] = None"
| "shell_words Double u [] = None"
| "shell_words Single u (c # cs) = (if c = apostrophe then shell_words Plain u cs else shell_words Single (u @ [c]) cs)"
| "shell_words Double u (c # cs) = (if c = quotation then shell_words Plain u cs
     else if c \<in> {CHR ''$'', CHR 0x60, CHR 0x5C} then None else shell_words Double (u @ [c]) cs)"
| "shell_words Between u (c # cs) = (if c = CHR '' '' then shell_words Between [] cs
     else if c = apostrophe then shell_words Single u cs else if c = quotation then shell_words Double u cs
     else if shell_safe c then shell_words Plain (u @ [c]) cs else None)"
| "shell_words Plain u (c # cs) = (if c = CHR '' '' then map_option ((#) u) (shell_words Between [] cs)
     else if c = apostrophe then shell_words Single u cs else if c = quotation then shell_words Double u cs
     else if shell_safe c then shell_words Plain (u @ [c]) cs else None)"

lemma special_unsafe: "\<not> shell_safe (CHR '' '')" "\<not> shell_safe apostrophe" "\<not> shell_safe quotation"
  by code_simp+

lemma special_distinct: "apostrophe \<noteq> quotation" "quotation \<noteq> apostrophe" "apostrophe \<noteq> CHR '' ''" "quotation \<noteq> CHR '' ''"
  "apostrophe \<notin> {CHR ''$'', CHR 0x60, CHR 0x5C}"
  by (simp_all add: apostrophe_def quotation_def)

lemma safe_step: "shell_safe c \<Longrightarrow> shell_words Between u (c # cs) = shell_words Plain (u @ [c]) cs"
  "shell_safe c \<Longrightarrow> shell_words Plain u (c # cs) = shell_words Plain (u @ [c]) cs"
  using special_unsafe by auto

lemma safe_run: "list_all shell_safe s \<Longrightarrow> shell_words Plain u (s @ rest) = shell_words Plain (u @ s) rest"
proof (induction s arbitrary: u)
  case (Cons c s)
  then show ?case by (simp add: safe_step del: shell_words.simps)
qed simp

lemma quoted_run: "shell_words Single u (concat (map quote_char s) @ apostrophe # rest) = shell_words Plain (u @ s) rest"
  using special_distinct by (induction s arbitrary: u) (simp_all add: quote_char_def)

lemma word_read: "m = Between \<or> m = Plain \<Longrightarrow> shell_words m u (shlex_quote s @ rest) = shell_words Plain (u @ s) rest"
proof (cases "s \<noteq> [] \<and> list_all shell_safe s")
  case True
  then obtain c cs where "s = c # cs" "shell_safe c" "list_all shell_safe cs" by (cases s) auto
  moreover assume "m = Between \<or> m = Plain"
  ultimately show ?thesis
    by (auto simp: shlex_quote_def safe_step safe_run simp del: shell_words.simps)
next
  case False
  moreover assume "m = Between \<or> m = Plain"
  ultimately show ?thesis
    using special_distinct by (auto simp: shlex_quote_def quoted_run)
qed

text \<open>
  C30. The command line a container gets is the command: the words a shell reads from the joined
  line are exactly the arguments, whatever characters they have.
\<close>

theorem command_line_exact: "shell_words Between [] (shlex_join argv) = Some argv"
proof (induction argv)
  case Nil
  then show ?case by (simp add: shlex_join_def)
next
  case (Cons x argv)
  show ?case
  proof (cases argv)
    case Nil
    then show ?thesis using word_read [of Between "[]" x "[]"] by (simp add: shlex_join_def)
  next
    case (Cons y ys)
    with Cons.IH show ?thesis using word_read [of Between "[]" x "CHR '' '' # shlex_join argv"] by (simp add: shlex_join_def)
  qed
qed

section \<open>Executors\<close>

definition CHECK_STATUSES :: "string list" where
  "CHECK_STATUSES = [VERIFICATION_PASSED, ''failed'', ''timeout'', ''environment_error'']"

text \<open>The contract of an executor: the check names its command, its status is one of four, there is
  an error exactly unless it passed, and a pass was earned by a run of that very command.\<close>

locale command_executor =
  fixes run :: "verification_command \<Rightarrow> string \<Rightarrow> ('w, execution_outcome) verify_step"
    and earned :: "verification_command \<Rightarrow> string \<Rightarrow> bool"
  assumes named: "run c ws w = (Inr (k, e), w') \<Longrightarrow> kr_id k = vm_name c \<and> kr_argv k = vm_argv c \<and> kr_expected k = Some (vm_expected c)"
    and known_status: "run c ws w = (Inr (k, e), w') \<Longrightarrow> kr_status k \<in> set CHECK_STATUSES"
    and error_unless_passed: "run c ws w = (Inr (k, e), w') \<Longrightarrow> e = None \<longleftrightarrow> kr_status k = VERIFICATION_PASSED"
    and pass_earned: "run c ws w = (Inr (k, e), w') \<Longrightarrow> kr_status k = VERIFICATION_PASSED \<Longrightarrow> kr_exit_code k = Some (vm_expected c) \<and> earned c ws"

definition host_passed :: "'w verify_ports \<Rightarrow> 'w ports \<Rightarrow> verification_command \<Rightarrow> string \<Rightarrow> bool" where
  "host_passed vx po c ws \<longleftrightarrow> (\<exists>d w0 w out err. usable_directory po c ws w0 = Some d
     \<and> fst (vx_run vx (vm_argv c) (Some d) (Some (vm_timeout c)) w) = Finished (vm_expected c) out err)"

definition container_passed :: "'w verify_ports \<Rightarrow> 'w ports \<Rightarrow> verification_environment \<Rightarrow> verification_command \<Rightarrow> string \<Rightarrow> bool" where
  "container_passed vx po e c ws \<longleftrightarrow> (\<exists>d img w0 w unique out err. usable_directory po c ws w0 = Some d \<and> en_image e = Some img
     \<and> fst (vx_run vx (docker_command po w (en_docker e) (container_request e img c ws unique)) None (Some (vm_timeout c)) w) = Finished (vm_expected c) out err
     \<and> vm_expected c \<notin> {124, 125, 126, 127})"

definition executor_passed :: "'w verify_ports \<Rightarrow> 'w ports \<Rightarrow> executor \<Rightarrow> verification_command \<Rightarrow> string \<Rightarrow> bool" where
  "executor_passed vx po x c ws = (case x of HostCommandExecutor \<Rightarrow> host_passed vx po c ws | ContainerCommandExecutor e \<Rightarrow> container_passed vx po e c ws)"

lemma step_returns [simp]:
  "drawing f w = (Inr x, w') \<longleftrightarrow> f w = (x, w')"
  "reading g w = (Inr y, w') \<longleftrightarrow> y = g w \<and> w' = w"
  by (auto simp: drawing_def reading_def split: prod.splits)

lemma outcome_check_fields [simp]:
  "kr_id (outcome_check c s x out err st en d) = vm_name c" "kr_argv (outcome_check c s x out err st en d) = vm_argv c"
  "kr_expected (outcome_check c s x out err st en d) = Some (vm_expected c)" "kr_status (outcome_check c s x out err st en d) = s"
  "kr_exit_code (outcome_check c s x out err st en d) = x"
  by (simp_all add: outcome_check_def)

lemma statuses [simp]:
  "VERIFICATION_PASSED \<in> set CHECK_STATUSES" "''failed'' \<in> set CHECK_STATUSES" "''timeout'' \<in> set CHECK_STATUSES" "''environment_error'' \<in> set CHECK_STATUSES"
  "''failed'' \<noteq> VERIFICATION_PASSED" "''timeout'' \<noteq> VERIFICATION_PASSED" "''environment_error'' \<noteq> VERIFICATION_PASSED"
  by (simp_all add: CHECK_STATUSES_def VERIFICATION_PASSED_def)

definition well_formed :: "verification_command \<Rightarrow> bool \<Rightarrow> execution_outcome \<Rightarrow> bool" where
  "well_formed c pass r \<longleftrightarrow> kr_id (fst r) = vm_name c \<and> kr_argv (fst r) = vm_argv c \<and> kr_expected (fst r) = Some (vm_expected c)
     \<and> kr_status (fst r) \<in> set CHECK_STATUSES \<and> (snd r = None \<longleftrightarrow> kr_status (fst r) = VERIFICATION_PASSED)
     \<and> (kr_status (fst r) = VERIFICATION_PASSED \<longrightarrow> kr_exit_code (fst r) = Some (vm_expected c) \<and> pass)"

lemma exit_well_formed: "(n = vm_expected c \<longrightarrow> pass) \<Longrightarrow> well_formed c pass (exit_outcome c n out err output st en d)"
  by (simp add: well_formed_def exit_outcome_def Let_def)

lemma refused_well_formed: "s \<in> set CHECK_STATUSES \<Longrightarrow> s \<noteq> VERIFICATION_PASSED \<Longrightarrow> well_formed c pass (outcome_check c s x out err st en d, Some e)"
  by (simp add: well_formed_def)

lemma no_directory_well_formed: "no_directory c st vx w = (Inr r, w') \<Longrightarrow> well_formed c pass r"
  by (auto simp: no_directory_def andthen_Inr ret_Inr intro!: refused_well_formed)

lemma host_well_formed:
  assumes "host_execute vx po c ws w = (Inr r, w')"
  shows "well_formed c (host_passed vx po c ws) r"
proof (cases "usable_directory po c ws (snd (vx_now vx w))")
  case None
  with assms show ?thesis by (auto simp: host_execute_def andthen_Inr intro: no_directory_well_formed)
next
  case (Some d)
  define w1 where "w1 = snd (vx_now vx w)"
  obtain o' w2 where run: "vx_run vx (vm_argv c) (Some d) (Some (vm_timeout c)) w1 = (o', w2)" by fastforce
  have pass: "n = vm_expected c \<longrightarrow> host_passed vx po c ws" if "o' = Finished n out err" for n out err
    using Some run that unfolding host_passed_def w1_def by (metis fst_conv)
  from assms Some run show ?thesis
    by (cases o') (auto simp: host_execute_def andthen_Inr ret_Inr w1_def intro!: exit_well_formed refused_well_formed pass [rule_format])
qed

lemma container_outcome_well_formed:
  "(ax_returncode r = vm_expected c \<and> ax_returncode r \<notin> {124, 125, 126, 127} \<longrightarrow> pass) \<Longrightarrow> well_formed c pass (container_outcome c r st en d)"
  by (auto simp: container_outcome_def intro!: exit_well_formed refused_well_formed)

lemma container_result:
  assumes "run_agent_container vx po docker rq w = (Inr r, w')" "ax_returncode r \<notin> {124, 125, 126, 127}"
  shows "\<exists>out err. fst (vx_run vx (docker_command po w docker rq) None (ag_timeout rq) w) = Finished (ax_returncode r) out err"
  using assms by (auto simp: run_agent_container_def Let_def split: process_outcome.splits prod.splits)

lemma container_well_formed:
  assumes "container_execute vx po e c ws w = (Inr r, w')"
  shows "well_formed c (container_passed vx po e c ws) r"
proof (cases "usable_directory po c ws (snd (vx_now vx w))")
  case None
  with assms show ?thesis by (auto simp: container_execute_def andthen_Inr intro: no_directory_well_formed)
next
  case dir: (Some d)
  show ?thesis
  proof (cases "en_image e")
    case None
    with assms dir show ?thesis
      by (auto simp: container_execute_def andthen_Inr ret_Inr intro!: refused_well_formed)
  next
    case (Some img)
    with assms dir obtain unique w1 w2 res st en d' where
      res: "run_agent_container vx po (en_docker e) (container_request e img c ws unique) w1 = (Inr res, w2)" and r: "r = container_outcome c res st en d'"
      by (auto simp: container_execute_def andthen_Inr ret_Inr Let_def)
    have "ag_timeout (container_request e img c ws unique) = Some (vm_timeout c)" by (simp add: container_request_def)
    with container_result [OF res] dir Some have "ax_returncode res = vm_expected c \<and> ax_returncode res \<notin> {124, 125, 126, 127} \<longrightarrow> container_passed vx po e c ws"
      unfolding container_passed_def by metis
    then show ?thesis unfolding r by (rule container_outcome_well_formed)
  qed
qed

lemma execute_well_formed: "execute vx po x c ws w = (Inr r, w') \<Longrightarrow> well_formed c (executor_passed vx po x c ws) r"
  by (auto simp: execute_def executor_passed_def host_well_formed container_well_formed split: executor.splits)

interpretation global_command: command_executor "execute vx po x" "executor_passed vx po x" for vx po x
proof
  fix c ws w k e w'
  assume "execute vx po x c ws w = (Inr (k, e), w')"
  from execute_well_formed [OF this] show "kr_id k = vm_name c \<and> kr_argv k = vm_argv c \<and> kr_expected k = Some (vm_expected c)"
    "kr_status k \<in> set CHECK_STATUSES" "e = None \<longleftrightarrow> kr_status k = VERIFICATION_PASSED"
    "kr_status k = VERIFICATION_PASSED \<Longrightarrow> kr_exit_code k = Some (vm_expected c) \<and> executor_passed vx po x c ws"
    by (auto simp: well_formed_def)
qed

text \<open>
  C28. The outcome of a global command is well formed, whichever executor ran it: the check names the
  command and its arguments, its status is passed, failed, timeout or environment error and never
  the status of a command that was not run, it comes with an error exactly unless it passed, and a
  passed check was earned by a run of that command in the workspace with the expected exit status,
  which is recorded.
\<close>

theorem command_outcome_typed:
  assumes "execute vx po x c ws w = (Inr (k, e), w')"
  shows "kr_id k = vm_name c \<and> kr_argv k = vm_argv c \<and> kr_expected k = Some (vm_expected c)
    \<and> kr_status k \<in> set CHECK_STATUSES \<and> kr_status k \<noteq> VERIFICATION_NOT_RUN_STATUS \<and> (e = None \<longleftrightarrow> kr_status k = VERIFICATION_PASSED)
    \<and> (kr_status k = VERIFICATION_PASSED \<longrightarrow> kr_exit_code k = Some (vm_expected c) \<and> executor_passed vx po x c ws)"
proof -
  have "VERIFICATION_NOT_RUN_STATUS \<notin> set CHECK_STATUSES" by code_simp
  then show ?thesis
    using global_command.named [OF assms] global_command.known_status [OF assms] global_command.error_unless_passed [OF assms] global_command.pass_earned [OF assms]
    by auto
qed

end
