(* ===== verification/VerifierFacts.thy ===== *)
theory VerifierFacts
  imports Verifier CommandFacts CandidateFacts
begin

text \<open>
  What a verdict stands for: the recorded checks are the commands of the contract in their order,
  an acceptance means that every one of them was run and ended as expected on a tree it left as it
  was, and that every submitted artifact is a file of the output with the submitted digest; and
  the changes a report lists are exactly the difference of the two manifests.
\<close>

section \<open>The recorded checks\<close>

lemma excerpt_bounded: "length (bounded_excerpt s) \<le> LOG_EXCERPT_CHARACTER_LIMIT"
  by (simp add: bounded_excerpt_def LOG_EXCERPT_CHARACTER_LIMIT_def excerpt_marker_def)

lemma logs_kept:
  assumes "keep_logs vx ws n k w = (Inr l, w')"
  shows "kr_id l = kr_id k \<and> kr_argv l = kr_argv k \<and> kr_status l = kr_status k \<and> kr_exit_code l = kr_exit_code k
    \<and> length (kr_stdout l) \<le> LOG_EXCERPT_CHARACTER_LIMIT \<and> length (kr_stderr l) \<le> LOG_EXCERPT_CHARACTER_LIMIT"
  using assms by (auto simp: keep_logs_def andthen_Inr ret_Inr excerpt_bounded)

definition recorded :: "resolved_check \<Rightarrow> check_result \<Rightarrow> bool" where
  "recorded k c \<longleftrightarrow> kr_id c = rc_id k \<and> kr_argv c = rc_argv k \<and> kr_status c \<in> set CHECK_STATUSES
     \<and> length (kr_stdout c) \<le> LOG_EXCERPT_CHARACTER_LIMIT \<and> length (kr_stderr c) \<le> LOG_EXCERPT_CHARACTER_LIMIT"

lemma as_command_fields [simp]:
  "vm_name (as_verification_command k) = rc_id k" "vm_argv (as_verification_command k) = rc_argv k"
  "vm_expected (as_verification_command k) = ce_exit_code (rc_expect k)"
  by (simp_all add: as_verification_command_def)

definition settled :: "(verification_command \<Rightarrow> string \<Rightarrow> bool) \<Rightarrow> string \<Rightarrow> resolved_check \<Rightarrow> check_result \<Rightarrow> bool" where
  "settled earned ws k c \<longleftrightarrow> recorded k c \<and> (kr_status c = VERIFICATION_PASSED \<longrightarrow>
     kr_exit_code c = Some (ce_exit_code (rc_expect k)) \<and> earned (as_verification_command k) ws)"

context command_executor
begin

lemma checks_settled:
  "run_checks run vx ws n ks w = (Inr (cs, es), w') \<Longrightarrow> list_all2 (settled earned ws) ks cs \<and> (es = [] \<longleftrightarrow> list_all (\<lambda>c. kr_status c = VERIFICATION_PASSED) cs)"
proof (induction ks arbitrary: n w cs es w')
  case Nil
  then show ?case by (simp add: ret_Inr)
next
  case (Cons k ks)
  then obtain found problem w1 logged w2 rest problems w3 where
    run: "run (as_verification_command k) ws w = (Inr (found, problem), w1)" and logs: "keep_logs vx ws n found w1 = (Inr logged, w2)"
    and rest: "run_checks run vx ws (Suc n) ks w2 = (Inr (rest, problems), w3)"
    and cs: "cs = logged # rest" and es: "es = (case problem of None \<Rightarrow> problems | Some e \<Rightarrow> e # problems)"
    by (auto simp: andthen_Inr ret_Inr)
  note l = logs_kept [OF logs] and r = named [OF run] known_status [OF run] error_unless_passed [OF run] pass_earned [OF run]
  have "settled earned ws k logged"
    unfolding settled_def recorded_def using l r by auto
  moreover have "problem = None \<longleftrightarrow> kr_status logged = VERIFICATION_PASSED" using l r(3) by simp
  ultimately show ?case using Cons.IH [OF rest] by (auto simp: cs es split: option.split)
qed

end

section \<open>The changes of a report\<close>

lemma match_renames_exact:
  assumes "match_renames before after olds new = (a, r, rn)" "distinct new" "distinct olds"
  shows "set a \<union> snd ` set rn = set new \<and> set a \<inter> snd ` set rn = {} \<and> set r \<union> fst ` set rn = set olds \<and> set r \<inter> fst ` set rn = {}
    \<and> distinct (map fst rn) \<and> distinct (map snd rn) \<and> list_all (\<lambda>(p, q). before p = after q) rn"
  using assms
proof (induction olds arbitrary: new a r rn)
  case (Cons p olds)
  show ?case
  proof (cases "\<exists>n. filter (\<lambda>n. before p = after n) new = [n]")
    case True
    then obtain n where n: "filter (\<lambda>n. before p = after n) new = [n]" by blast
    then have "set (filter (\<lambda>n. before p = after n) new) = {n}" by simp
    then have mem: "n \<in> set new" "before p = after n" by auto
    obtain rn' where rn: "match_renames before after olds (filter (\<lambda>m. m \<noteq> n) new) = (a, r, rn')" "rn = (p, n) # rn'"
      using Cons.prems(1) n by (auto split: prod.splits)
    from Cons.IH [OF rn(1)] Cons.prems(2,3) have ih: "set a \<union> snd ` set rn' = set new - {n}" "set a \<inter> snd ` set rn' = {}" "set r \<union> fst ` set rn' = set olds"
      "set r \<inter> fst ` set rn' = {}" "distinct (map fst rn')" "distinct (map snd rn')" "list_all (\<lambda>(p, q). before p = after q) rn'"
      by auto
    from ih(1,3) Cons.prems(3) have "n \<notin> set a" "n \<notin> snd ` set rn'" "p \<notin> set r" "p \<notin> fst ` set rn'" by auto
    with ih mem show ?thesis by (auto simp: rn(2))
  next
    case False
    then obtain r' where r: "match_renames before after olds new = (a, r', rn)" "r = p # r'"
      using Cons.prems(1) by (auto split: list.splits prod.splits)
    from Cons.IH [OF r(1)] Cons.prems(2,3) have ih: "set a \<union> snd ` set rn = set new" "set a \<inter> snd ` set rn = {}" "set r' \<union> fst ` set rn = set olds"
      "set r' \<inter> fst ` set rn = {}" "distinct (map fst rn)" "distinct (map snd rn)" "list_all (\<lambda>(p, q). before p = after q) rn"
      by auto
    from ih(3) Cons.prems(3) have "p \<notin> fst ` set rn" by auto
    with ih show ?thesis by (auto simp: r(2))
  qed
qed simp

definition paths_of :: "baseline_manifest \<Rightarrow> string set" where
  "paths_of m = set (map me_path (mf_entries m))"

definition digest_at :: "baseline_manifest \<Rightarrow> string \<Rightarrow> string" where
  "digest_at m p = me_sha256 (the (entry_map (mf_entries m) p))"


section \<open>Duplicates\<close>

lemma repeated_from_none: "repeated_from seen dups vs = [] \<longleftrightarrow> dups = [] \<and> distinct vs \<and> set vs \<inter> set seen = {}"
  by (induction vs arbitrary: seen dups) auto

lemma no_repeated_values: "repeated_values vs = [] \<longleftrightarrow> distinct vs"
  by (simp add: repeated_values_def repeated_from_none)

section \<open>Verdicts\<close>

definition effective_executor :: "('w, 'c) verifier \<Rightarrow> executor option \<Rightarrow> executor" where
  "effective_executor dv x = (case if x \<noteq> None then x else df_executor dv of Some e \<Rightarrow> e | None \<Rightarrow> ContainerCommandExecutor no_environment)"

definition artifact_sound :: "('w, 'c) verifier \<Rightarrow> 'w \<Rightarrow> transition_definition \<Rightarrow> string \<Rightarrow> artifact_submission \<Rightarrow> bool" where
  "artifact_sound dv w tr root a \<longleftrightarrow> (as_type a \<in> set (rd_artifacts (td_requires tr)) \<or> multi_artifact_type tr = Some (as_type a))
     \<and> (\<exists>at content mode. contained_path (df_ports dv) w root (as_path a) = Some at \<and> \<not> escapes_via_symlink (df_ports dv) w root (as_path a)
        \<and> po_at (df_ports dv) w at = AFile content mode \<and> vx_size (df_vx dv) at w \<noteq> 0
        \<and> (case as_sha256 a of None \<Rightarrow> True | Some d \<Rightarrow> map_option (po_sha256 (df_ports dv)) content = Some (lower d)))"

lemma artifact_clean: "artifact_errors dv w tr root a = Inr [] \<Longrightarrow> artifact_sound dv w tr root a"
  by (auto simp: artifact_errors_def artifact_sound_def content_errors_def Let_def bind_sum_Inr_iff file_sha256_def file_bytes_def is_file_def
      split: if_splits option.splits file_state.splits)

definition unmutated :: "('w, 'c) verifier \<Rightarrow> string \<Rightarrow> verifier_report \<Rightarrow> bool" where
  "unmutated dv ws r \<longleftrightarrow> (\<exists>sel pre post w1 w2. fst (capture_manifest (df_capture dv) ws sel w1) = Some pre \<and> fst (capture_manifest (df_capture dv) ws sel w2) = Some post
     \<and> mf_sha256 post = mf_sha256 pre \<and> fr_post_sha256 r = Some (mf_sha256 pre))"

definition all_earned :: "('w, 'c) verifier \<Rightarrow> executor \<Rightarrow> string \<Rightarrow> execution_contract \<Rightarrow> verifier_report \<Rightarrow> bool" where
  "all_earned dv x ws xc r \<longleftrightarrow> fr_checks r \<noteq> [] \<and> list_all2 (\<lambda>k c. kr_id c = rc_id k \<and> kr_argv c = rc_argv k \<and> kr_status c = VERIFICATION_PASSED
     \<and> kr_exit_code c = Some (ce_exit_code (rc_expect k)) \<and> executor_passed (df_vx dv) (df_ports dv) x (as_verification_command k) ws)
     (command_checks (xc_checks xc)) (fr_checks r)"

lemma scan_returns: "scan_step dv ws sel w = (Inr m, w') \<Longrightarrow> capture_manifest (df_capture dv) ws sel w = (Some m, w')"
  by (auto simp: scan_step_def andthen_Inr ret_Inr split: option.splits)

lemma enforced_clean:
  assumes "enforce_execution_contract dv ws xc rq ex w = (Inr (r, es), w')" "es = []" "report_errors r es' = []" "accepted_inline r"
  shows "fr_classification r = None \<and> all_earned dv (case ex of Some e \<Rightarrow> e | None \<Rightarrow> ContainerCommandExecutor no_environment) ws xc r \<and> unmutated dv ws r"
proof -
  let ?x = "case ex of Some e \<Rightarrow> e | None \<Rightarrow> ContainerCommandExecutor no_environment"
  from assms(1,2) obtain sel pre post a b c d e f w1 w2 w3 w4 w5 w6 checks lines where
    pre: "scan_step dv ws sel w1 = (Inr pre, w2)" and post: "scan_step dv ws sel w3 = (Inr post, w4)"
    and run: "run_contract_checks (df_vx dv) (df_ports dv) ws xc ex w5 = (Inr (checks, []), w6)"
    and r: "r = contract_report xc rq pre post False lines checks []"
    by (auto simp: enforce_execution_contract_def andthen_Inr ret_Inr Let_def split: if_splits prod.splits)
  have fields: "fr_checks r = checks" "fr_classification r = None" "fr_source_mutated r = Some (mf_sha256 post \<noteq> mf_sha256 pre)" "fr_post_sha256 r = Some (mf_sha256 post)"
    unfolding r contract_report_def Let_def by (simp_all split: prod.splits)
  from assms(3) fields(3) have same: "mf_sha256 post = mf_sha256 pre" by (auto simp: report_errors_def split: if_splits)
  from global_command.checks_settled [OF run [unfolded run_contract_checks_def]]
  have "list_all2 (settled (executor_passed (df_vx dv) (df_ports dv) ?x) ws) (command_checks (xc_checks xc)) checks" "list_all (\<lambda>c. kr_status c = VERIFICATION_PASSED) checks"
    by simp_all
  then have "list_all2 (\<lambda>k c. kr_id c = rc_id k \<and> kr_argv c = rc_argv k \<and> kr_status c = VERIFICATION_PASSED
     \<and> kr_exit_code c = Some (ce_exit_code (rc_expect k)) \<and> executor_passed (df_vx dv) (df_ports dv) ?x (as_verification_command k) ws) (command_checks (xc_checks xc)) checks"
    by (auto simp: list_all2_conv_all_nth list_all_length settled_def recorded_def)
  with assms(4) fields have "all_earned dv ?x ws xc r" by (auto simp: all_earned_def accepted_inline_def split: if_splits)
  moreover have "unmutated dv ws r"
    unfolding unmutated_def using scan_returns [OF pre] scan_returns [OF post] same fields(4) by (metis fst_conv)
  ultimately show ?thesis using fields(2) by simp
qed

lemma submission_clean:
  assumes "verify_submission dv ws out tr sub contract w = (Inr [], w')"
  shows "distinct (map as_path (sb_artifacts sub)) \<and> distinct (sb_changed_files sub) \<and> set (rd_artifacts (td_requires tr)) \<subseteq> as_type ` set (sb_artifacts sub)
    \<and> list_all (artifact_sound dv w tr out) (sb_artifacts sub)"
proof -
  from assms obtain ess where d: "duplicate_errors sub (multi_artifact_type tr) = []" "missing_artifact_errors tr (map as_type (sb_artifacts sub)) = []"
    and a: "map_sum_list (artifact_errors dv w tr out) (sb_artifacts sub) = Inr ess" "concat ess = []"
    by (auto simp: verify_submission_def andthen_Inr ret_Inr raise_text_def Let_def split: sum.splits)
  from a have "list_all (artifact_sound dv w tr out) (sb_artifacts sub)"
    by (auto simp: list_all_length map_sum_list_Inr_iff intro!: artifact_clean)
  with d show ?thesis
    by (auto simp: duplicate_errors_def missing_artifact_errors_def no_repeated_values filter_empty_conv)
qed

lemma verify_clean:
  assumes "verify dv ws out tr sub (Some xc) cid manifest x environment review w = (Inr v, w')" "vd_accepted v"
  shows "\<exists>r w1. vd_report v = Some r \<and> fr_classification r = None \<and> fc_transition xc = tr \<and> all_earned dv (effective_executor dv x) ws xc r \<and> unmutated dv ws r
    \<and> verify_submission dv ws out tr sub (Some xc) w1 = (Inr [], w')"
proof -
  let ?ex = "if x \<noteq> None then x else df_executor dv"
  from assms obtain r rq w1 w2 where tr: "fc_transition xc = tr" and enf: "enforce_execution_contract dv ws xc rq ?ex w1 = (Inr (r, []), w2)"
    and rep: "report_errors r [] = []" and sub: "verify_submission dv ws out tr sub (Some xc) w2 = (Inr [], w')" and v: "vd_report v = Some r"
    by (auto simp: verify_def contract_part_def andthen_Inr ret_Inr Let_def classified_def split: if_splits option.splits prod.splits)
  from rep have "accepted_inline r" by (auto simp: report_errors_def split: if_splits)
  from enforced_clean [OF enf refl rep this] tr v sub show ?thesis
    by (auto simp: effective_executor_def)
qed


section \<open>Two readings of the code\<close>

text \<open>An image that is missing counts as a failed preparation of dependencies; what a check expects
  of the output of its command does not reach the command.\<close>

lemma unavailable_image_detail: "code_classification [''verification.env_image_unavailable''] = Some ''dependency_preparation''"
  by code_simp

lemma output_expectation_unused:
  "as_verification_command (k\<lparr>rc_expect := \<lparr>ce_exit_code = n, ce_stdout_contains = a, ce_stderr_contains = b\<rparr>\<rparr>)
    = as_verification_command (k\<lparr>rc_expect := \<lparr>ce_exit_code = n, ce_stdout_contains = [], ce_stderr_contains = []\<rparr>\<rparr>)"
  by (simp add: as_verification_command_def)

end
