(* ===== verification/VerifiedDelivery.thy ===== *)
theory VerifiedDelivery
  imports VerifierFacts SubmissionLive
begin

text \<open>
  The verifier and the completion service together: what an acceptance of \<open>submit\<close> says when its
  verifier is the one of the program, and an example of such a run.
\<close>

section \<open>The service with its verifier\<close>

text \<open>The verifier works on the same files as the service, reads the whole of the contract the
  service has a part of, and has no executor set by hand.\<close>

definition verified_service :: "'w completion_service \<Rightarrow> ('w, 'c) verifier \<Rightarrow> (execution_job \<Rightarrow> string + verification_environment)
    \<Rightarrow> (execution_job \<Rightarrow> execution_contract option) \<Rightarrow> bool" where
  "verified_service sv dv frozen full \<longleftrightarrow>
     sv_verify sv = (\<lambda>job sub tr contract c out w. case service_verify dv frozen None None full job sub tr c out w of (r, w') \<Rightarrow> (map_sum id verdict_view r, w'))
   \<and> df_ports dv = sv_ports sv \<and> df_capture dv = sv_capture sv \<and> df_executor dv = None
   \<and> (\<forall>job contract. sv_load_contract sv job = Inr contract \<longrightarrow> contract = map_option frozen_contract.truncate (full job))"

lemma inputs_contract: "frozen_inputs sv job sub = Inr (Inr (tr, contract)) \<Longrightarrow> sv_load_contract sv job = Inr contract"
  by (auto simp: frozen_inputs_def bind_sum_Inr_iff split: sum.splits option.splits if_splits)

lemma copy_made:
  assumes "prepare_verification_copy vx po candidate_path root cid w = (Inr ws, w')"
  shows "\<exists>w0. fst (vx_copy_tree vx candidate_path ws COPY_IGNORED w0) = Inr ()"
  using assms by (auto simp: prepare_verification_copy_def andthen_Inr ret_Inr Let_def) (metis fst_conv)

lemma service_verified:
  assumes "service_verify dv frozen None None full job sub tr c out w = (Inr v, w')" "vd_accepted v" "full job = Some xc"
  shows "\<exists>e ws rep w0. frozen job = Inr e \<and> fst (vx_copy_tree (df_vx dv) (ca_storage_path c) ws COPY_IGNORED w0) = Inr ()
    \<and> vd_report v = Some rep \<and> fc_transition xc = tr \<and> all_earned dv (ContainerCommandExecutor e) ws xc rep \<and> unmutated dv ws rep"
proof -
  from assms(1,3) obtain ws w1 e w2 where copy: "prepare_verification_copy (df_vx dv) (df_ports dv) (ca_storage_path c) (under (parent_path (ca_storage_path c)) ''verification'') (ca_id c) w = (Inr ws, w1)"
    and e: "frozen job = Inr e"
    and ver: "verify dv ws (under ws out) tr sub (Some xc) (Some (ca_id c)) (Some (ca_manifest_sha256 c)) (Some (ContainerCommandExecutor e))
       (Some (environment_identity_of (cap_canonical (df_capture dv)) e)) (is_review_transition tr) w2 = (Inr v, w')"
    by (auto simp: service_verify_def service_executor_def andthen_Inr ret_Inr split: sum.splits)
  from copy_made [OF copy] verify_clean [OF ver assms(2)] e show ?thesis by (auto simp: effective_executor_def)
qed


section \<open>An example\<close>

text \<open>A contract with one command, on a machine where every folder is there and every process ends
  with status zero.\<close>

definition lab_ports :: "board_world ports" where
  "lab_ports = board_ports\<lparr>po_at := (\<lambda>_ _. AFolder True 493)\<rparr>"

definition lab_machine :: "board_world verify_ports" where
  "lab_machine = \<lparr>vx_files = (\<lambda>_ _. Some []), vx_size = (\<lambda>_ _. 1), vx_read_text = (\<lambda>_ _. Some []), vx_make_folder = (\<lambda>_ w. (Inr (), w)),
     vx_write_text = (\<lambda>_ _ w. (Inr (), w)), vx_copy_tree = (\<lambda>_ _ _ w. (Inr (), w)), vx_remove_tree = (\<lambda>_ w. (Inr (), w)), vx_temp_folder = (\<lambda>w. (Inr ''/tmp/t'', w)),
     vx_tree = (\<lambda>_ _. []), vx_chmod = (\<lambda>_ _ w. w), vx_git_status = (\<lambda>_ w. (None, w)), vx_run = (\<lambda>_ _ _ w. (Finished 0 ''ok'' [], w)),
     vx_now = (\<lambda>w. (''t'', w)), vx_elapsed = (\<lambda>w. (''0.1'', w)), vx_unique = (\<lambda>w. (''u'', w))\<rparr>"

definition lab_verifier :: "(board_world, unit) verifier" where
  "lab_verifier = \<lparr>df_vx = lab_machine, df_ports = lab_ports, df_capture = quiet_capture, df_templates = [], df_validations = (\<lambda>_. None), df_context = None,
     df_executor = None, df_environment = None\<rparr>"

definition lab_environment :: verification_environment where
  "lab_environment = no_environment\<lparr>en_image := Some ''sha256:1''\<rparr>"

definition lab_check :: resolved_check where
  "lab_check = \<lparr>rc_id = ''tests'', rc_source = ''standard'', rc_runner = ''command'', rc_argv = [''make'', ''test''], rc_validation_type = None, rc_validation_args = fmempty,
     rc_workdir = ''.'', rc_timeout = 60, rc_expect = \<lparr>ce_exit_code = 0, ce_stdout_contains = [], ce_stderr_contains = []\<rparr>\<rparr>"

definition lab_contract :: execution_contract where
  "lab_contract = \<lparr>fc_transition = build_step, fc_source_task = open_task, fc_identities = [], fc_baseline = \<lparr>mf_entries = [], mf_sha256 = ''d''\<rparr>, fc_selection = JNull,
     fc_facts = \<lparr>rs_manifest_sha256 = ''d'', rs_git = False, rs_base_commit = None, rs_dirty = False\<rparr>, xc_schema = GLOBAL_IMPLEMENTATION_CONTRACT_SCHEMA, xc_checks = [lab_check]\<rparr>"

lemma lab_simps [simp]:
  "df_vx lab_verifier = lab_machine" "df_ports lab_verifier = lab_ports" "df_capture lab_verifier = quiet_capture" "df_context lab_verifier = None" "df_executor lab_verifier = None"
  "po_at lab_ports w p = AFolder True 493" "po_resolve lab_ports w p = p" "en_image lab_environment = Some ''sha256:1''"
  "vx_files lab_machine p w = Some []" "vx_make_folder lab_machine p w = (Inr (), w)" "vx_write_text lab_machine p t w = (Inr (), w)"
  "vx_copy_tree lab_machine p q ns w = (Inr (), w)" "vx_remove_tree lab_machine p w = (Inr (), w)" "vx_git_status lab_machine p w = (None, w)"
  "vx_run lab_machine cmd cwd lim w = (Finished 0 ''ok'' [], w)" "vx_now lab_machine w = (''t'', w)" "vx_elapsed lab_machine w = (''0.1'', w)" "vx_unique lab_machine w = (''u'', w)"
  "fc_transition lab_contract = build_step" "fc_selection lab_contract = JNull" "xc_checks lab_contract = [lab_check]"
  by (simp_all add: lab_verifier_def lab_ports_def lab_machine_def lab_environment_def lab_contract_def)

lemma command_checks_lab [simp]: "command_checks [lab_check] = [lab_check]"
  by (simp add: command_checks_def lab_check_def)

lemma lab_directory: "inside ws (under ws ''.'') \<Longrightarrow> usable_directory lab_ports (as_verification_command lab_check) ws w = Some (under ws ''.'')"
proof -
  have "\<not> is_absolute ''.''" "''..'' \<notin> set (path_parts ''.'')" by code_simp+
  then show "inside ws (under ws ''.'') \<Longrightarrow> usable_directory lab_ports (as_verification_command lab_check) ws w = Some (under ws ''.'')"
    by (simp add: usable_directory_def resolve_working_directory_def as_verification_command_def lab_check_def is_folder_def)
qed

lemma lab_expected [simp]: "ce_exit_code (rc_expect lab_check) = 0"
  by (simp add: lab_check_def)

definition lab_result :: "string \<Rightarrow> check_result" where
  "lab_result ws = (let k = fst (exit_outcome (as_verification_command lab_check) 0 ''ok'' [] (''ok'' @ line_feed) ''t'' ''t'' ''0.1'')
     in k\<lparr>kr_stdout := bounded_excerpt (kr_stdout k), kr_stderr := bounded_excerpt (kr_stderr k), kr_logs := [log_path ws 0 ''stdout'', log_path ws 0 ''stderr'']\<rparr>)"

lemma lab_execute:
  assumes "inside ws (under ws ''.'')"
  shows "container_execute lab_machine lab_ports lab_environment (as_verification_command lab_check) ws w
    = (Inr (exit_outcome (as_verification_command lab_check) 0 ''ok'' [] (''ok'' @ line_feed) ''t'' ''t'' ''0.1''), w)"
  using lab_directory [OF assms]
  by (simp add: container_execute_def andthen_def drawing_def reading_def ret_def run_agent_container_def Let_def container_outcome_def)

lemma lab_run:
  assumes "inside ws (under ws ''.'')"
  shows "run_contract_checks lab_machine lab_ports ws lab_contract (Some (ContainerCommandExecutor lab_environment)) w = (Inr ([lab_result ws], []), w)"
  using lab_execute [OF assms]
  by (simp add: run_contract_checks_def execute_def andthen_def ret_def keep_logs_def lab_result_def exit_outcome_def Let_def)

definition lab_manifest :: baseline_manifest where
  "lab_manifest = manifest_of (\<lambda>_. ''d'') []"

definition lab_request :: verification_request where
  "lab_request = verification_request_from_execution_contract (\<lambda>_. ''d'') lab_contract (Some ''c0ffee'') (Some ''d'') (Some ''sha256:1'') (Some ''d'')"

definition lab_report :: "string \<Rightarrow> verifier_report" where
  "lab_report ws = contract_report lab_contract lab_request lab_manifest lab_manifest False 0 [lab_result ws] []"

lemma lab_scan: "capture_manifest quiet_capture ws sel w = (Some lab_manifest, w)"
  by (simp add: capture_manifest_def quiet_capture_def lab_manifest_def)

lemma lab_changes: "manifest_changes (fc_baseline lab_contract) lab_manifest = ([], [], [], [])"
  by (simp add: lab_contract_def lab_manifest_def manifest_of_def) code_simp

lemma lab_enforced:
  assumes "inside ws (under ws ''.'')"
  shows "enforce_execution_contract lab_verifier ws lab_contract lab_request (Some (ContainerCommandExecutor lab_environment)) w = (Inr (lab_report ws, []), w)"
  using lab_run [OF assms]
  by (simp add: enforce_execution_contract_def andthen_def reading_def drawing_def scan_step_def lab_scan locks_step_def ret_def changed_paths_def lab_changes
      changed_line_count_def locks_differ_def lab_report_def Let_def)

lemma lab_passed [simp]: "kr_status (lab_result ws) = VERIFICATION_PASSED"
  by (simp add: lab_result_def exit_outcome_def Let_def)

lemma lab_report_clean: "report_errors (lab_report ws) [] = []"
proof -
  have "fr_checks (lab_report ws) = [lab_result ws]" "fr_not_run (lab_report ws) = 0" "fr_source_mutated (lab_report ws) = Some False"
    by (simp_all add: lab_report_def contract_report_def lab_changes VERIFICATION_NOT_RUN_STATUS_def VERIFICATION_PASSED_def)
  then show ?thesis by (simp add: report_errors_def accepted_inline_def)
qed

definition lab_verdict :: "string \<Rightarrow> verdict" where
  "lab_verdict ws = \<lparr>vd_accepted = True, vd_errors = [], vd_report = Some (lab_report ws)\<rparr>"

lemma lab_submission: "verify_submission lab_verifier ws out build_step work_submission (Some lab_contract) w = (Inr [], w)"
  by (simp add: verify_submission_def andthen_def reading_def drawing_def ret_def raise_text_def run_trusted_validations_def build_step_def work_submission_def
      git_changed_files_def git_mismatch_def duplicate_errors_def repeated_values_def missing_artifact_errors_def evidence_errors_def Let_def)

lemma lab_verified:
  assumes "inside ws (under ws ''.'')"
  shows "verify lab_verifier ws out build_step work_submission (Some lab_contract) (Some ''c0ffee'') (Some ''d'') (Some (ContainerCommandExecutor lab_environment)) (Some ''d'') False w
    = (Inr (lab_verdict ws), w)"
proof -
  have rq: "verification_request_from_execution_contract (cap_canonical quiet_capture) lab_contract (Some ''c0ffee'') (Some ''d'')
      (executor_image (Some (ContainerCommandExecutor lab_environment))) (Some ''d'') = lab_request"
    by (simp add: lab_request_def executor_image_def quiet_capture_def)
  show ?thesis
    using lab_enforced [OF assms] lab_report_clean [of ws] lab_submission
    by (simp add: verify_def andthen_def raise_text_def ret_def contract_part_def rq Let_def classified_def lab_verdict_def)
qed


theorem command_outcome_typed_witness:
  "\<exists>k. execute lab_machine lab_ports (ContainerCommandExecutor lab_environment) (as_verification_command lab_check) ''/copy'' [] = (Inr (k, None), [])
    \<and> kr_status k = VERIFICATION_PASSED \<and> kr_exit_code k = Some 0
    \<and> executor_passed lab_machine lab_ports (ContainerCommandExecutor lab_environment) (as_verification_command lab_check) ''/copy''"
proof -
  have "inside ''/copy'' (under ''/copy'' ''.'')" by code_simp
  from lab_execute [OF this, of "[]"] obtain k where
    run: "execute lab_machine lab_ports (ContainerCommandExecutor lab_environment) (as_verification_command lab_check) ''/copy'' [] = (Inr (k, None), [])"
    by (simp add: execute_def exit_outcome_def)
  from command_outcome_typed [OF run] run show ?thesis by auto
qed

section \<open>A delivered example\<close>

definition lab_frozen :: "execution_job \<Rightarrow> string + verification_environment" where
  "lab_frozen = (\<lambda>_. Inr lab_environment)"

definition lab_full :: "execution_job \<Rightarrow> execution_contract option" where
  "lab_full = (\<lambda>_. Some lab_contract)"

definition lab_service :: "board_world completion_service" where
  "lab_service = (build_service True)\<lparr>sv_ports := lab_ports, sv_load_contract := (\<lambda>_. Inr (Some (frozen_contract.truncate lab_contract))),
     sv_verify := (\<lambda>job sub tr contract c out w. case service_verify lab_verifier lab_frozen None None lab_full job sub tr c out w of (r, w') \<Rightarrow> (map_sum id verdict_view r, w'))\<rparr>"

lemma lab_service_simps [simp]:
  "sv_ports lab_service = lab_ports" "sv_capture lab_service = quiet_capture" "sv_repo_root lab_service = None" "sv_artifact_root lab_service = None"
  "sv_candidate_root lab_service = None" "sv_load_contract lab_service j = Inr (Some (frozen_contract.truncate lab_contract))" "sv_load_planning lab_service j = Inr None"
  "sv_digest lab_service v = ''r''" "sv_workflow lab_service = build_workflow"
  "sv_verify lab_service job sub tr contract c out w = (case service_verify lab_verifier lab_frozen None None lab_full job sub tr c out w of (r, w') \<Rightarrow> (map_sum id verdict_view r, w'))"
  by (simp_all add: lab_service_def)

lemma lab_service_verified: "verified_service lab_service lab_verifier lab_frozen lab_full"
  by (simp add: verified_service_def lab_full_def fun_eq_iff)

lemma lab_ports_board [simp]:
  "po_read lab_ports = board_read" "po_sha256 lab_ports x = ''c0ffee''" "po_move_task lab_ports = board_move"
  by (simp_all add: lab_ports_def)

lemma lab_frozen_parts [simp]:
  "fc_transition (frozen_contract.truncate lab_contract) = build_step" "fc_selection (frozen_contract.truncate lab_contract) = JNull"
  "fc_baseline (frozen_contract.truncate lab_contract) = \<lparr>mf_entries = [], mf_sha256 = ''d''\<rparr>"
  by (simp_all add: lab_contract_def frozen_contract.truncate_def)

definition lab_storage :: string where
  "lab_storage = storage_root lab_service (reload (work_job RUNNING)) @ ''/c0ffee''"

definition lab_candidate :: candidate where
  "lab_candidate = seal_candidate (quiet_capture :: board_world capture_ports) lab_storage ''c0ffee'' (Some \<lparr>mf_entries = [], mf_sha256 = ''d''\<rparr>) [] JNull lab_manifest"

lemma quiet_steps [simp]:
  "cap_refresh quiet_capture sel ws w = sel" "cap_make quiet_capture a b w = (True, w)" "cap_copy quiet_capture a b sel w = (True, w)" "cap_write quiet_capture a j w = (True, w)"
  by (simp_all add: quiet_capture_def)

lemma lab_sealed:
  "capture_candidate (sv_capture lab_service) (j_workspace_path (reload (work_job RUNNING))) (storage_root lab_service (reload (work_job RUNNING)))
     (candidate_identity lab_service (reload (work_job RUNNING)) ''S'') (map_option fc_baseline (Some (frozen_contract.truncate lab_contract)))
     (sb_changed_files work_submission) (map_option fc_selection (Some (frozen_contract.truncate lab_contract))) w = (Inr (Inr (lab_candidate, lab_manifest)), w)"
  by (simp add: capture_candidate_def compare_scans_def confirm_seal_def lab_scan candidate_identity_def work_submission_def lab_candidate_def lab_storage_def
      path_name_def Let_def)

definition lab_copy :: string where
  "lab_copy = under (under (parent_path lab_storage) ''verification'') ''c0ffee''"

lemma lab_candidate_parts [simp]: "ca_storage_path lab_candidate = lab_storage" "ca_id lab_candidate = ''c0ffee''" "ca_manifest_sha256 lab_candidate = ''d''" "ca_changes lab_candidate = []"
proof -
  have "compute_delta (Some \<lparr>mf_entries = [], mf_sha256 = ''d''\<rparr>) lab_manifest = []"
    by (simp add: compute_delta_def lab_manifest_def manifest_of_def sorted_paths_def)
  then show "ca_storage_path lab_candidate = lab_storage" "ca_id lab_candidate = ''c0ffee''" "ca_manifest_sha256 lab_candidate = ''d''" "ca_changes lab_candidate = []"
    by (simp_all add: lab_candidate_def seal_candidate_def lab_manifest_def manifest_of_def Let_def)
qed

lemma lab_copy_inside: "inside lab_copy (under lab_copy ''.'')"
  unfolding lab_copy_def lab_storage_def by (simp add: storage_root_def) code_simp

definition lab_passed :: verification_result where
  "lab_passed = verdict_view (lab_verdict lab_copy)"

lemma lab_service_passes: "sv_verify lab_service job work_submission build_step contract lab_candidate out w = (Inr lab_passed, w)"
proof -
  have "prepare_verification_copy lab_machine lab_ports lab_storage (under (parent_path lab_storage) ''verification'') ''c0ffee'' w = (Inr lab_copy, w)"
    by (simp add: prepare_verification_copy_def andthen_def ret_def lab_copy_def Let_def)
  moreover have "environment_identity_of (cap_canonical (quiet_capture :: board_world capture_ports)) lab_environment = ''d''" "\<not> is_review_transition build_step"
    by (simp_all add: environment_identity_of_def quiet_capture_def is_review_transition_def build_step_def)
  ultimately show ?thesis
    using lab_verified [OF lab_copy_inside]
    by (simp add: service_verify_def andthen_def service_executor_def lab_full_def lab_frozen_def ret_def lab_passed_def)
qed

lemma lab_planned: "plan_delivery lab_service w (reload (work_job RUNNING)) work_submission build_step (Some (frozen_contract.truncate lab_contract)) lab_candidate ''output'' = Inr (Inr work_plan)"
  by (simp add: plan_delivery_def work_plan_def work_submission_def shadowed_artifacts_def promotion_plan_def candidate_change_plan_def
      commit_plan_def check_integration_target_def derive_children_def build_step_def derived_task_plan_def Let_def)

definition lab_acceptance :: acceptance where
  "lab_acceptance = acceptance_of lab_service (reload (work_job RUNNING)) ''S'' work_submission build_step lab_candidate ''output'' lab_passed work_plan ''r''"

lemma lab_effects: "ac_effects lab_acceptance = [move_task_effect ''1'' ''closed'']" "ac_to_state lab_acceptance = ''closed''"
  by (simp_all add: lab_acceptance_def work_plan_def acceptance_of_def Let_def acceptance_effects_def effective_to_state_def build_step_def)

lemma lab_carried_out: "all_effects (completion_runtime lab_service ''1'' lab_acceptance) [move_task_effect ''1'' ''closed''] [(''1'', open_task)] = Some closed_board"
proof -
  have "apply_effect lab_ports root (move_task_effect ''1'' ''closed'') [(''1'', open_task)] = (Inr (fx_ok_result ''task moved'' []), closed_board)" for root
    by (simp add: apply_effect_def move_task_effect_def jget_def fmlookup_of_list move_effect_def text_at_def board_move_def dict_get_def dict_set_def closed_board_def)
  then show ?thesis by (simp add: completion_runtime_def fx_ok_def fx_ok_result_def)
qed

lemma lab_final: "final_check (completion_runtime lab_service ''1'' lab_acceptance) closed_board = (None, closed_board)"
  by (simp add: final_check_def completion_runtime_def lab_effects validate_final_state_def board_read_def dict_get_def readable_task_def closed_board_def fx_done_def)

lemma lab_sound:
  "sound_run lab_service (reload (work_job RUNNING)) ''S'' work_submission build_step (Some (frozen_contract.truncate lab_contract)) lab_passed [(''1'', open_task)]"
proof -
  let ?job = "reload (work_job RUNNING)"
  have out: "relative_output_path (sv_ports lab_service) w ?job = Some ''output''" for w
    by (simp add: relative_output_path_def jget_def fmlookup_of_list) code_simp
  have revn: "acceptance_task_revision lab_service w ?job (Some (frozen_contract.truncate lab_contract)) = Inr ''r''" for w
    by (simp add: acceptance_task_revision_def task_semantic_revision_def)
  have all: "all_effects (completion_runtime lab_service (j_task_id ?job) lab_acceptance) (ac_effects lab_acceptance) [(''1'', open_task)] = Some closed_board"
    unfolding lab_effects using lab_carried_out by simp
  have fin: "fst (final_check (completion_runtime lab_service (j_task_id ?job) lab_acceptance) closed_board) = None"
    by (simp add: lab_final)
  have ok: "vf_accepted lab_passed" by (simp add: lab_passed_def verdict_view_def lab_verdict_def)
  show ?thesis
    unfolding sound_run_def Let_def
    by (rule exI [of _ lab_candidate], rule exI [of _ lab_manifest], rule exI [of _ "[(''1'', open_task)]"], rule exI [of _ "''output''"],
        rule exI [of _ "[(''1'', open_task)]"], rule exI [of _ work_plan], rule exI [of _ "''r''"], rule exI [of _ closed_board])
      (intro conjI lab_sealed out lab_service_passes lab_planned revn ok all [unfolded lab_acceptance_def] fin [unfolded lab_acceptance_def])
qed

lemma lab_admitted:
  "admitted (work_draws (cancelling 1)) lab_service ''J'' work_submission (Some ''key'') work_state (reload (work_job RUNNING)) ''S'' build_step (Some (frozen_contract.truncate lab_contract))"
proof -
  have "frozen_inputs lab_service (reload (work_job RUNNING)) work_submission = Inr (Inr (build_step, Some (frozen_contract.truncate lab_contract)))"
    by (simp add: frozen_inputs_def frozen_transition_def review_errors_def is_review_transition_def build_step_def)
  with work_admitted [of 1 True] show ?thesis by (simp add: admitted_def)
qed

text \<open>The submission of the example is accepted with the verdict of its own verifier.\<close>

lemma lab_accepted:
  "\<exists>s'. submit (work_draws (cancelling 1)) lab_service ''J'' work_submission (Some ''key'') work_state = (Inr (approval (Some lab_passed)), s')"
proof -
  have "healthy [(''1'', open_task)] work_state" by (simp add: healthy_def work_state_ready)
  from submit_starts [OF work_tame this lab_admitted] obtain s1 where
    "submit (work_draws (cancelling 1)) lab_service ''J'' work_submission (Some ''key'') work_state
      = process (work_draws (cancelling 1)) lab_service (reload (work_job RUNNING)) ''S'' work_submission build_step (Some (frozen_contract.truncate lab_contract)) s1"
    "healthy [(''1'', open_task)] s1" "job_filled (reload (work_job RUNNING))" by blast
  with process_accepts [OF work_tame work_writes _ _ lab_sound] lab_admitted show ?thesis unfolding goes_def admitted_def by metis
qed


end
