(* ===== verification/Spec2Isabelle.thy ===== *)
theory Spec2Isabelle
  imports WfPipeline Outcomes JobSettle ResourceFacts TransactionFacts ContextFacts Acceptance TaskManagerFacts SchedulerLane DerivedFacts PathCopy CandidateFacts RecoveryLive VerifiedDelivery
begin

text \<open>
  \<^bold>\<open>A verification library of open-tulid.\<close>

  open-tulid moves the tasks of a project board through a workflow.  A workflow file is loaded,
  validated and compiled (\<open>src/src/workflow_engine\<close>, \<open>src/src/open_tulid/workflow\<close>); a
  scheduler picks the next task whose transition has a worker, and creates an execution job for
  it; an executor runs the worker, and a completion is verified, delivered and journalled
  (\<open>src/src/open_tulid/runtime\<close>).  Everything durable is a file: jobs, leases, events,
  journals.  The parts of the program meet in those stores, so each store is a theory of its
  own, with the operations of its Python class as functions on the state of the store.

  \<^bold>\<open>Conventions.\<close>  A Python text is a \<^typ>\<open>string\<close>; characters are those with a code below
  256.  A dictionary whose order shows is an association list (\<open>dict_get\<close>, \<open>dict_set\<close>), JSON
  objects are finite maps (type \<open>meta\<close>).  An exception is a value of \<open>pyexc\<close>, and a function
  that may raise returns \<open>pyexc + 'a\<close>; an error the code returns is a \<open>domain_error\<close> with its
  code, the pieces of its message and its location.  What comes from outside one operation
  (the time, new identifiers, whether a write succeeds, digests, the answers of git, the text of
  files) is an argument of it.  A store function returns the answer and the store after it.

  \<^bold>\<open>Theories.\<close>

  \<^item> \<open>Prelude\<close>, \<open>PyText\<close>: ordered dictionaries, JSON values with Python's truth and equality,
    text operations (\<open>strip\<close>, \<open>splitlines\<close>, \<open>startswith\<close>, numbers).
  \<^item> \<open>WfAst\<close>, \<open>WfLoader\<close>, \<open>WfSymbols\<close>, \<open>WfValidate\<close> (\<open>workflow_engine/langdef.py, ast.py,
    loader.py, symbols.py, validator.py\<close>): the parsed YAML tree, the statements built from it
    with their diagnostics and spans, the symbol table, the validator.  \<open>WfLoaderFacts\<close>: a
    document is returned exactly when there is no error, and is faithful to its source.
    \<open>WfSpec\<close>: the validator decides a declarative notion of a valid document.  \<open>WfPipeline\<close>:
    what loading guarantees to validation, and which keys are ignored.
  \<^item> \<open>Domain\<close> (\<open>domain/schema.py\<close>), \<open>Outcomes\<close> (\<open>domain/completion.py\<close>): the records shared by
    the runtime; terminal outcomes and the outcome of a dependency.
  \<^item> \<open>TaskSchema\<close> (\<open>vault/task_schema.py\<close>): the sections of a task body and their checks.
  \<^item> \<open>Attempts\<close>, \<open>AttemptFacts\<close> (\<open>runtime/attempts.py\<close>): attempt records, their round trip and
    reconciliation, the semantic revision of a task, the count of consumed attempts.
  \<^item> \<open>Jobs\<close>, \<open>JobFacts\<close>, \<open>JobSettle\<close> (\<open>runtime/jobs.py\<close>): the job store; at most one active job per
    task and transition, immutable metadata, settling of attempts.
  \<^item> \<open>Resources\<close>, \<open>ResourceFacts\<close> (\<open>runtime/resources.py\<close>): leases; capacities, admission.
  \<^item> \<open>Events\<close>, \<open>EventFacts\<close>, \<open>Journals\<close> (\<open>runtime/events.py\<close>): the event log, appended once per
    event, and the transaction journals.
  \<^item> \<open>Transactions\<close>, \<open>TransactionFacts\<close> (\<open>runtime/transactions.py\<close>): the file transaction and its
    refinement of one atomic step.
  \<^item> \<open>Paths\<close>, \<open>Context\<close>, \<open>ContextFacts\<close> (\<open>runtime/context.py\<close>): linked context, its bounds, the
    required sources that enter the revision, the lineage of parents.
  \<^item> \<open>Acceptance\<close> (\<open>runtime/acceptance.py\<close>, part of \<open>verifier.py\<close> and \<open>task_contracts.py\<close>): when an
    accepted job is evidence that its task is done.
  \<^item> \<open>Admission\<close>, \<open>Scheduler\<close>, \<open>SchedulerFacts\<close>, \<open>SchedulerLane\<close> (\<open>runtime/scheduler.py\<close>): the gates
    of a task, the step of the scheduler, the serial lane of a repository, transactional
    creation of jobs and its recovery.
  \<^item> \<open>TaskManager\<close>, \<open>TaskManagerFacts\<close> (\<open>runtime/task_manager.py\<close>): the commands on tasks.
  \<^item> \<open>DerivedTasks\<close>, \<open>DerivedFacts\<close> (\<open>runtime/completion.py\<close>, the plan of derived tasks): parsing of
    the files of a batch, its checks, the search for cycles (exact), the numbers given.
  \<^item> \<open>PathOps\<close>, \<open>PathOpsFacts\<close>, \<open>PathCopy\<close> (\<open>runtime/pathops.py\<close>): the link-safe operations, one step
    per system call with interference between the calls; confinement, and what a copy copies.
  \<^item> \<open>Candidate\<close>, \<open>CandidateFacts\<close> (\<open>runtime/candidate.py\<close>): the sealing of a workspace, the changes
    against the baseline, complete and exact.
  \<^item> \<open>Delivery\<close>, \<open>Integration\<close> (\<open>runtime/completion.py\<close>): the plans and effects of a delivery, their
    compensation, the checks of the target before and after.
  \<^item> \<open>Completion\<close>, \<open>Submission\<close> (\<open>runtime/completion.py\<close>, \<open>plan_repair\<close>): \<open>CompletionService.submit\<close>, step
    by step; between two accesses other processes may change the job store.  The service always has
    a journal store; the lock around the numbering of derived tasks is not modelled.
    \<open>SubmissionFacts\<close>: what an acceptance shows.  \<open>SubmissionSample\<close>, \<open>SubmissionLive\<close>: sound work is
    accepted, and a run of it.
  \<^item> \<open>Recovery\<close>, \<open>RecoveryFacts\<close>, \<open>RecoveryLive\<close> (\<open>runtime/completion.py\<close>,
    \<open>recover_completion_transactions\<close>): what is in place, what is a conflict, rolling forward; the
    work of users is kept, a delivery cut off anywhere is completed, ended jobs are revived.
  \<^item> \<open>VerifyReport\<close>, \<open>VerifyCommands\<close>, \<open>Verifier\<close> (\<open>runtime/verifier.py\<close>, \<open>runtime/verification_runtime.py\<close>,
    \<open>run_agent_container\<close> of \<open>containers/runtime.py\<close>): the request and the report, the executors, the
    verdict.  \<open>CommandFacts\<close>, \<open>VerifierFacts\<close>: what a passed check and an accepted verdict show;
    \<open>VerifiedDelivery\<close>: the service with its own verifier, and a run of it.

  \<^bold>\<open>Interfaces.\<close>  The locales are contracts between a provider and its client, each interpreted
  on the model: \<open>namespace\<close> (symbol table), \<open>node_builder\<close> (the builders of the loader),
  \<open>exclusive_store\<close> (one active entry per key), \<open>capped_pool\<close> (holders below a
  capacity), \<open>machine\<close> (steps that keep one relation and preserve another between two runs), \<open>step_relation\<close>
  (a relation on states kept by composed steps), \<open>command_executor\<close> (a run of one global command).

  \<^bold>\<open>Bounds and termination.\<close>  Loops are structural recursions or functions with a termination
  proof; the walk over the parents of a task may not end for an unbounded tracker, so it is a
  partial function (\<open>lineage_walk\<close>) and its end is a theorem (\<open>lineage_check_terminates\<close>).
  No definition uses fuel.

  \<^bold>\<open>Assumptions.\<close>  One operation runs at a time (the file locks of the code are not modelled); a
  read inside one operation sees one state of the files; a write of a file happens wholly or
  not at all, and the argument of the operation says which; the journal store of the scheduler
  is the one below the root of its project.

  \<^bold>\<open>Not modelled.\<close>  The command line, the workers with their containers and prompts, HTTP endpoints and the
  model proxy are input and output around the core; each is listed with its reason in the
  manifest of the development.
\<close>

end
